(* ===== verification/Prelude.thy ===== *)
theory Prelude
  imports Main "HOL-Library.AList" "HOL-Library.Char_ord" "HOL-Library.List_Lexorder"
begin

text \<open>
  Shared vocabulary of the development: results of fallible code, loops that stop at the
  first error, the JavaScript string operations the source uses, and tables.

  A JavaScript string is a \<open>string\<close>: each \<open>char\<close> is a UTF-16 unit below 256.  A table of
  PostgreSQL is an association list from its primary key to a row; reading, upserting and
  deleting go through \<open>tget\<close>, \<open>tput\<close> and \<open>tdel\<close>, whose laws are the locale \<open>keyed_store\<close>.
\<close>

named_theorems res_simps \<open>rules that take apart results of fallible code\<close>
named_theorems tbl_simps \<open>reading a table after an update\<close>
named_theorems tbl_wf \<open>operations keep primary keys distinct\<close>

section \<open>Results\<close>

text \<open>A thrown exception is \<open>Inl\<close>, a returned value \<open>Inr\<close>; \<open>rbind\<close> is sequencing under exceptions.\<close>

definition rbind :: "'e + 'a \<Rightarrow> ('a \<Rightarrow> 'e + 'b) \<Rightarrow> 'e + 'b" where
  "rbind r f = (case r of Inl e \<Rightarrow> Inl e | Inr a \<Rightarrow> f a)"

lemma rbind_Inl [simp]: "rbind (Inl e) f = Inl e"
  by (simp add: rbind_def)

lemma rbind_Inr [simp]: "rbind (Inr a) f = f a"
  by (simp add: rbind_def)

lemma rbind_eq_Inr [res_simps]: "rbind r f = Inr b \<longleftrightarrow> (\<exists>a. r = Inr a \<and> f a = Inr b)"
  by (cases r) auto

lemma rbind_eq_Inl [res_simps]:
  "rbind r f = Inl e \<longleftrightarrow> r = Inl e \<or> (\<exists>a. r = Inr a \<and> f a = Inl e)"
  by (cases r) auto

text \<open>The same read forwards: a run that returned passed every guard and every call before it.\<close>

lemma rbind_InrE: "rbind r f = Inr b \<Longrightarrow> (\<And>a. r = Inr a \<Longrightarrow> f a = Inr b \<Longrightarrow> P) \<Longrightarrow> P"
  by (cases r) auto

lemma guard_InrE: "(if c then Inl e else r) = Inr b \<Longrightarrow> (\<not> c \<Longrightarrow> r = Inr b \<Longrightarrow> P) \<Longrightarrow> P"
  by (cases c) auto

lemma require_InrE: "(if c then r else Inl e) = Inr b \<Longrightarrow> (c \<Longrightarrow> r = Inr b \<Longrightarrow> P) \<Longrightarrow> P"
  by (cases c) auto

lemma some_InrE: "(case x of None \<Rightarrow> Inl e | Some a \<Rightarrow> f a) = Inr b \<Longrightarrow> (\<And>a. x = Some a \<Longrightarrow> f a = Inr b \<Longrightarrow> P) \<Longrightarrow> P"
  by (cases x) auto

lemmas run_elims = rbind_InrE guard_InrE some_InrE

text \<open>A loop \<open>for (const x of xs) s = f(x, s)\<close> whose body may throw.\<close>

fun rfold :: "('a \<Rightarrow> 's \<Rightarrow> 'e + 's) \<Rightarrow> 'a list \<Rightarrow> 's \<Rightarrow> 'e + 's" where
  "rfold f [] s = Inr s"
| "rfold f (x # xs) s = rbind (f x s) (rfold f xs)"

fun rmap :: "('a \<Rightarrow> 'e + 'b) \<Rightarrow> 'a list \<Rightarrow> 'e + 'b list" where
  "rmap f [] = Inr []"
| "rmap f (x # xs) = rbind (f x) (\<lambda>y. rbind (rmap f xs) (\<lambda>ys. Inr (y # ys)))"

lemma rfold_inv:
  assumes "rfold f xs s = Inr t" and "P s"
    and "\<And>x s t. x \<in> set xs \<Longrightarrow> P s \<Longrightarrow> f x s = Inr t \<Longrightarrow> P t"
  shows "P t"
  using assms
proof (induction xs arbitrary: s)
  case Nil
  then show ?case by simp
next
  case (Cons x xs)
  from Cons.prems(1) obtain s' where s': "f x s = Inr s'" and r: "rfold f xs s' = Inr t"
    by (auto simp: res_simps)
  have "P s'" using Cons.prems(2,3) s' by auto
  then show ?case using Cons.IH [OF r] Cons.prems(3) by auto
qed

lemma rfold_rel:
  assumes "rfold f xs s = Inr t" and refl: "\<And>s. R s s"
    and trans: "\<And>a b c. R a b \<Longrightarrow> R b c \<Longrightarrow> R a c"
    and step: "\<And>x s t. x \<in> set xs \<Longrightarrow> f x s = Inr t \<Longrightarrow> R s t"
  shows "R s t"
proof -
  have "R s t" if "rfold f ys s = Inr t" and "set ys \<subseteq> set xs" for ys s
    using that
  proof (induction ys arbitrary: s)
    case Nil
    then show ?case using refl by simp
  next
    case (Cons y ys)
    then obtain s' where "f y s = Inr s'" and "rfold f ys s' = Inr t"
      by (auto simp: res_simps)
    with Cons show ?case using step trans by (metis insert_subset list.simps(15))
  qed
  with assms(1) show ?thesis by blast
qed

lemma rfold_append: "rfold f (xs @ ys) s = rbind (rfold f xs s) (rfold f ys)"
proof (induction xs arbitrary: s)
  case Nil
  show ?case by simp
next
  case (Cons x xs)
  then show ?case by (cases "f x s") simp_all
qed

lemma rmap_length: "rmap f xs = Inr ys \<Longrightarrow> length ys = length xs"
  by (induction xs arbitrary: ys) (auto simp: res_simps)

lemma rmap_nth: "rmap f xs = Inr ys \<Longrightarrow> i < length xs \<Longrightarrow> f (xs ! i) = Inr (ys ! i)"
  by (induction xs arbitrary: ys i) (auto simp: res_simps nth_Cons split: nat.splits)

lemma rmap_set: "rmap f xs = Inr ys \<Longrightarrow> y \<in> set ys \<Longrightarrow> \<exists>x \<in> set xs. f x = Inr y"
  by (induction xs arbitrary: ys) (auto simp: res_simps)

text \<open>
  A database transaction: the work's writes are kept when it returns and rolled back when
  it throws.
\<close>

definition transaction :: "('s \<Rightarrow> 'e + ('a \<times> 's)) \<Rightarrow> 's \<Rightarrow> ('e + 'a) \<times> 's" where
  "transaction work s = (case work s of Inl e \<Rightarrow> (Inl e, s) | Inr (a, s') \<Rightarrow> (Inr a, s'))"

lemma transaction_Inl: "fst (transaction work s) = Inl e \<Longrightarrow> snd (transaction work s) = s"
  by (auto simp: transaction_def split: sum.splits)

lemma transaction_Inr:
  "fst (transaction work s) = Inr a \<Longrightarrow> work s = Inr (a, snd (transaction work s))"
  by (auto simp: transaction_def split: sum.splits)

section \<open>Strings\<close>

definition lower_char :: "char \<Rightarrow> char" where
  "lower_char c = (let n = of_char c :: nat in
     if (65 \<le> n \<and> n \<le> 90) \<or> (192 \<le> n \<and> n \<le> 222 \<and> n \<noteq> 215) then char_of (n + 32) else c)"

definition lower :: "string \<Rightarrow> string" where
  "lower s = map lower_char s"

lemma lower_char_idem [simp]: "lower_char (lower_char c) = lower_char c"
proof -
  have "of_char c < (256 :: nat)" by simp
  then show ?thesis by (auto simp: lower_char_def Let_def)
qed

lemma lower_idem [simp]: "lower (lower s) = lower s"
  by (simp add: lower_def)

definition is_ws :: "char \<Rightarrow> bool" where
  "is_ws c = ((of_char c :: nat) \<in> {9, 10, 11, 12, 13, 32, 160})"

definition trim :: "string \<Rightarrow> string" where
  "trim s = rev (dropWhile is_ws (rev (dropWhile is_ws s)))"

fun split_on :: "char \<Rightarrow> string \<Rightarrow> string list" where
  "split_on c [] = [[]]"
| "split_on c (x # xs) =
     (if x = c then [] # split_on c xs
      else (case split_on c xs of [] \<Rightarrow> [[x]] | y # ys \<Rightarrow> (x # y) # ys))"

lemma split_on_nonempty [simp]: "split_on c s \<noteq> []"
  by (cases s) (auto split: list.splits)

fun join_on :: "char \<Rightarrow> string list \<Rightarrow> string" where
  "join_on c [] = []"
| "join_on c [x] = x"
| "join_on c (x # y # ys) = x @ c # join_on c (y # ys)"

lemma join_split: "join_on c (split_on c s) = s"
proof (induction s)
  case Nil
  show ?case by simp
next
  case (Cons x xs)
  then show ?case
    by (cases "(c, split_on c xs)" rule: join_on.cases) auto
qed

definition is_digit :: "char \<Rightarrow> bool" where
  "is_digit c = (CHR ''0'' \<le> c \<and> c \<le> CHR ''9'')"

definition is_hex_lower :: "char \<Rightarrow> bool" where
  "is_hex_lower c = (is_digit c \<or> (CHR ''a'' \<le> c \<and> c \<le> CHR ''f''))"

definition is_alnum :: "char \<Rightarrow> bool" where
  "is_alnum c = (is_digit c \<or> (CHR ''a'' \<le> c \<and> c \<le> CHR ''z'') \<or> (CHR ''A'' \<le> c \<and> c \<le> CHR ''Z''))"

definition digit_val :: "char \<Rightarrow> nat" where
  "digit_val c = of_char c - 48"

definition nat_of_digits :: "string \<Rightarrow> nat" where
  "nat_of_digits s = foldl (\<lambda>n c. 10 * n + digit_val c) 0 s"

text \<open>\<open>parseInt(s, 10)\<close>: leading white space, a sign, the longest run of digits; \<open>NaN\<close> is \<open>None\<close>.\<close>

definition parse_int :: "string \<Rightarrow> int option" where
  "parse_int s =
     (let t = dropWhile is_ws s;
          neg = (t \<noteq> [] \<and> hd t = CHR ''-'');
          u = (if t \<noteq> [] \<and> (hd t = CHR ''-'' \<or> hd t = CHR ''+'') then tl t else t);
          ds = takeWhile is_digit u
      in if ds = [] then None
         else Some (if neg then - int (nat_of_digits ds) else int (nat_of_digits ds)))"

text \<open>\<open>/^[0-9a-f]{8}-[0-9a-f]{4}-[0-9a-f]{4}-[0-9a-f]{4}-[0-9a-f]{12}$/\<close>, and the same with the \<open>i\<close> flag.\<close>

definition uuid_lower :: "string \<Rightarrow> bool" where
  "uuid_lower s = (length s = 36 \<and>
     list_all (\<lambda>(i, c). if i \<in> {8, 13, 18, 23} then c = CHR ''-'' else is_hex_lower c)
       (zip [0 ..< 36] s))"

definition is_uuid :: "string \<Rightarrow> bool" where
  "is_uuid s = uuid_lower (lower s)"

lemma is_uuid_lower [simp]: "is_uuid (lower s) = is_uuid s"
  by (simp add: is_uuid_def)

section \<open>Tables\<close>

type_synonym ('k, 'v) table = "('k \<times> 'v) list"

definition tget :: "('k, 'v) table \<Rightarrow> 'k \<Rightarrow> 'v option" where
  "tget t k = map_of t k"

definition tput :: "'k \<Rightarrow> 'v \<Rightarrow> ('k, 'v) table \<Rightarrow> ('k, 'v) table" where
  "tput k v t = AList.update k v t"

definition tdel :: "'k \<Rightarrow> ('k, 'v) table \<Rightarrow> ('k, 'v) table" where
  "tdel k t = AList.delete k t"

text \<open>\<open>UPDATE \<dots> WHERE P\<close> and \<open>DELETE \<dots> WHERE P\<close>, over the whole table.\<close>

definition tmap :: "('k \<Rightarrow> 'v \<Rightarrow> 'v) \<Rightarrow> ('k, 'v) table \<Rightarrow> ('k, 'v) table" where
  "tmap f t = map (\<lambda>(k, v). (k, f k v)) t"

definition tfilter :: "('k \<Rightarrow> 'v \<Rightarrow> bool) \<Rightarrow> ('k, 'v) table \<Rightarrow> ('k, 'v) table" where
  "tfilter P t = filter (\<lambda>(k, v). P k v) t"

definition tkeys :: "('k, 'v) table \<Rightarrow> 'k list" where
  "tkeys t = map fst t"

text \<open>The primary key constraint.\<close>

definition pk :: "('k, 'v) table \<Rightarrow> bool" where
  "pk t = distinct (tkeys t)"

text \<open>The interface the components use: what a read returns after a write.\<close>

locale keyed_store =
  fixes get :: "'t \<Rightarrow> 'k \<Rightarrow> 'v option"
    and put :: "'k \<Rightarrow> 'v \<Rightarrow> 't \<Rightarrow> 't"
    and del :: "'k \<Rightarrow> 't \<Rightarrow> 't"
  assumes get_put: "get (put k v t) j = (if j = k then Some v else get t j)"
    and get_del: "get (del k t) j = (if j = k then None else get t j)"
begin

lemma get_put_same: "get (put k v t) k = Some v"
  by (simp add: get_put)

lemma get_put_other: "j \<noteq> k \<Longrightarrow> get (put k v t) j = get t j"
  by (simp add: get_put)

lemma get_del_same: "get (del k t) k = None"
  by (simp add: get_del)

lemma get_foldr_del: "get (foldr del ks t) j = (if j \<in> set ks then None else get t j)"
  by (induction ks) (auto simp: get_del)

lemma get_foldr_put:
  "get (foldr (\<lambda>k. put k (f k)) ks t) j = (if j \<in> set ks then Some (f j) else get t j)"
  by (induction ks) (auto simp: get_put)

end

lemma tget_tput [tbl_simps]: "tget (tput k v t) j = (if j = k then Some v else tget t j)"
  by (simp add: tget_def tput_def update_conv')

lemma tget_tdel [tbl_simps]: "tget (tdel k t) j = (if j = k then None else tget t j)"
  by (simp add: tget_def tdel_def delete_conv')

interpretation tbl: keyed_store tget tput tdel
  by unfold_locales (simp_all add: tbl_simps)

lemma tget_tmap [tbl_simps]: "tget (tmap f t) k = map_option (f k) (tget t k)"
  by (induction t) (auto simp: tget_def tmap_def)

lemma tget_tfilter [tbl_simps]:
  "pk t \<Longrightarrow> tget (tfilter P t) k =
     (case tget t k of None \<Rightarrow> None | Some v \<Rightarrow> if P k v then Some v else None)"
proof (induction t)
  case Nil
  show ?case by (simp add: tget_def tfilter_def)
next
  case (Cons x t)
  obtain j v where x: "x = (j, v)" by (cases x)
  from Cons.prems x have pkt: "pk t" and notin: "j \<notin> fst ` set t"
    by (auto simp: pk_def tkeys_def)
  from notin have jn: "map_of t j = None" by (simp add: map_of_eq_None_iff)
  have "map_of (tfilter P t) j = None"
    using notin by (auto simp: map_of_eq_None_iff tfilter_def)
  then show ?case using Cons.IH [OF pkt] x jn
    by (auto simp: tget_def tfilter_def)
qed

lemma tkeys_tput [tbl_simps]: "set (tkeys (tput k v t)) = insert k (set (tkeys t))"
  by (simp add: tkeys_def tput_def dom_update)

lemma tget_Some_key: "tget t k = Some v \<Longrightarrow> k \<in> set (tkeys t)"
  by (force simp: tget_def tkeys_def dest: map_of_SomeD)

lemma tget_None_iff: "tget t k = None \<longleftrightarrow> k \<notin> set (tkeys t)"
  by (simp add: tget_def tkeys_def map_of_eq_None_iff)

lemma tget_in_set: "pk t \<Longrightarrow> tget t k = Some v \<longleftrightarrow> (k, v) \<in> set t"
  by (simp add: tget_def pk_def tkeys_def map_of_eq_Some_iff)

lemma pk_Nil [tbl_wf, simp]: "pk []"
  by (simp add: pk_def tkeys_def)

lemma pk_tput [tbl_wf]: "pk t \<Longrightarrow> pk (tput k v t)"
  by (simp add: pk_def tkeys_def tput_def distinct_update)

lemma pk_tdel [tbl_wf]: "pk t \<Longrightarrow> pk (tdel k t)"
  by (simp add: pk_def tkeys_def tdel_def distinct_delete)

lemma pk_tmap [tbl_wf]: "pk (tmap f t) = pk t"
  by (simp add: pk_def tkeys_def tmap_def case_prod_beta comp_def)

lemma pk_tfilter [tbl_wf]: "pk t \<Longrightarrow> pk (tfilter P t)"
  by (simp add: pk_def tkeys_def tfilter_def distinct_map_filter)

end
