(* ===== verification/Json.thy ===== *)
theory Json
  imports Prelude "HOL-Library.Multiset"
begin

text \<open>
  JSON values as the code handles them after \<open>JSON.parse\<close>, and the two serialisations it
  relies on: \<open>JSON.stringify\<close> (the byte limits of the outbox) and \<open>canonicalJson\<close> of
  \<open>src/backchannel/rolesSync.ts\<close> (the content digests of the inbox).  A number is \<open>JInt\<close> when
  \<open>Number.isInteger\<close> holds of it and \<open>JFrac\<close>, with its printed form, otherwise.  An object is
  its list of members in insertion order; keys are distinct.
\<close>

datatype json =
    JNull
  | JBool bool
  | JInt int
  | JFrac string
  | JStr string
  | JArr "json list"
  | JObj "(string \<times> json) list"

definition jmember :: "(string \<times> json) list \<Rightarrow> string \<Rightarrow> json option" where
  "jmember ms k = map_of ms k"

definition has_own :: "(string \<times> json) list \<Rightarrow> string \<Rightarrow> bool" where
  "has_own ms k = (jmember ms k \<noteq> None)"

section \<open>Printing numbers\<close>

definition digit_char :: "nat \<Rightarrow> char" where
  "digit_char n = char_of (48 + n)"

fun show_nat :: "nat \<Rightarrow> string" where
  "show_nat n = (if n < 10 then [digit_char n] else show_nat (n div 10) @ [digit_char (n mod 10)])"

declare show_nat.simps [simp del]

definition show_int :: "int \<Rightarrow> string" where
  "show_int i = (if i < 0 then CHR ''-'' # show_nat (nat (- i)) else show_nat (nat i))"

lemma digit_val_char [simp]: "n < 10 \<Longrightarrow> digit_val (digit_char n) = n"
  by (simp add: digit_val_def digit_char_def of_char_of)

lemma less_eq_char_nat: "c \<le> d \<longleftrightarrow> (of_char c :: nat) \<le> of_char d"
  by (simp add: less_eq_char_def)

lemma is_digit_char [simp]: "n < 10 \<Longrightarrow> is_digit (digit_char n)"
  by (simp add: is_digit_def digit_char_def less_eq_char_nat of_char_of)

lemma nat_of_digits_snoc: "nat_of_digits (s @ [c]) = 10 * nat_of_digits s + digit_val c"
  by (simp add: nat_of_digits_def)

lemma nat_of_digits_show: "nat_of_digits (show_nat n) = n"
proof (induction n rule: show_nat.induct)
  case (1 n)
  show ?case
  proof (cases "n < 10")
    case True
    then show ?thesis by (simp add: show_nat.simps [of n] nat_of_digits_def)
  next
    case False
    with 1 show ?thesis
      by (simp add: show_nat.simps [of n] nat_of_digits_snoc)
  qed
qed

lemma show_nat_digits: "list_all is_digit (show_nat n)"
proof (induction n rule: show_nat.induct)
  case (1 n)
  then show ?case
    by (cases "n < 10") (simp_all add: show_nat.simps [of n])
qed

lemma show_nat_nonempty [simp]: "show_nat n \<noteq> []"
  by (subst show_nat.simps) simp

lemma show_nat_inj: "show_nat m = show_nat n \<Longrightarrow> m = n"
  by (metis nat_of_digits_show)

text \<open>\<open>/^(0|[1-9][0-9]{0,18})$/\<close> and \<open>/^[1-9][0-9]{0,18}$/\<close>: decimal revisions, and the \<open>bigint\<close> bound.\<close>

definition MAX_BIGINT :: int where
  "MAX_BIGINT = 9223372036854775807"

definition positive_revision :: "string \<Rightarrow> bool" where
  "positive_revision s = (s \<noteq> [] \<and> length s \<le> 19 \<and> list_all is_digit s \<and> hd s \<noteq> CHR ''0'')"

definition any_revision :: "string \<Rightarrow> bool" where
  "any_revision s = (s = ''0'' \<or> positive_revision s)"

definition big_int :: "string \<Rightarrow> int" where
  "big_int s = int (nat_of_digits s)"

lemma big_int_show: "0 \<le> i \<Longrightarrow> big_int (show_int i) = i"
  by (simp add: big_int_def show_int_def nat_of_digits_show)

lemma show_int_inj: "0 \<le> i \<Longrightarrow> 0 \<le> j \<Longrightarrow> show_int i = show_int j \<Longrightarrow> i = j"
  by (metis big_int_show)

text \<open>Two \<open>jsonb\<close> values are equal up to the order of object members.\<close>

fun jnorm :: "json \<Rightarrow> json" where
  "jnorm (JArr xs) = JArr (map jnorm xs)"
| "jnorm (JObj ms) = JObj (sort_key fst (map (\<lambda>(k, v). (k, jnorm v)) ms))"
| "jnorm v = v"

definition jsonb_eq :: "json \<Rightarrow> json \<Rightarrow> bool" where
  "jsonb_eq a b = (jnorm a = jnorm b)"

lemma jsonb_eq_refl [simp]: "jsonb_eq a a"
  by (simp add: jsonb_eq_def)

section \<open>JSON.stringify\<close>

definition hex_char :: "nat \<Rightarrow> char" where
  "hex_char n = (if n < 10 then char_of (48 + n) else char_of (87 + n))"

definition escape_char :: "char \<Rightarrow> string" where
  "escape_char c = (let n = of_char c :: nat in
     if n = 34 then [CHR 92, CHR 34]
     else if n = 92 then [CHR 92, CHR 92]
     else if n = 8 then [CHR 92, CHR ''b'']
     else if n = 9 then [CHR 92, CHR ''t'']
     else if n = 10 then [CHR 92, CHR ''n'']
     else if n = 12 then [CHR 92, CHR ''f'']
     else if n = 13 then [CHR 92, CHR ''r'']
     else if n < 32 then [CHR 92, CHR ''u'', CHR ''0'', CHR ''0'', hex_char (n div 16), hex_char (n mod 16)]
     else [c])"

definition quote :: "string \<Rightarrow> string" where
  "quote s = CHR 34 # concat (map escape_char s) @ [CHR 34]"

fun stringify :: "json \<Rightarrow> string" where
  "stringify JNull = ''null''"
| "stringify (JBool b) = (if b then ''true'' else ''false'')"
| "stringify (JInt i) = show_int i"
| "stringify (JFrac s) = s"
| "stringify (JStr s) = quote s"
| "stringify (JArr xs) = ''['' @ join_on (CHR '','') (map stringify xs) @ '']''"
| "stringify (JObj ms) =
     ''{'' @ join_on (CHR '','') (map (\<lambda>(k, v). quote k @ '':'' @ stringify v) ms) @ ''}''"

text \<open>\<open>Buffer.byteLength(s, 'utf8')\<close>: units below 128 take one byte, the others two.\<close>

definition utf8_length :: "string \<Rightarrow> nat" where
  "utf8_length s = sum_list (map (\<lambda>c. if (of_char c :: nat) < 128 then 1 else 2) s)"

lemma utf8_length_append [simp]: "utf8_length (s @ t) = utf8_length s + utf8_length t"
  by (simp add: utf8_length_def)

lemma utf8_length_Cons: "utf8_length (c # s) = (if (of_char c :: nat) < 128 then 1 else 2) + utf8_length s"
  by (simp add: utf8_length_def)

lemma utf8_length_ge: "length s \<le> utf8_length s"
  by (induction s) (auto simp: utf8_length_def)

section \<open>canonicalJson\<close>

text \<open>The only error the serialiser throws is \<open>EventError('invalid_event_payload')\<close>.\<close>

datatype canon_error = InvalidEventPayload

lemma rmap_cong [fundef_cong]:
  "xs = ys \<Longrightarrow> (\<And>x. x \<in> set ys \<Longrightarrow> f x = g x) \<Longrightarrow> rmap f xs = rmap g ys"
  by (induction xs arbitrary: ys) (auto simp: rbind_def split: sum.splits)

function canonical :: "nat \<Rightarrow> json \<Rightarrow> canon_error + string" where
  "canonical depth v =
     (if depth > 64 then Inl InvalidEventPayload
      else case v of
        JArr xs \<Rightarrow> rbind (rmap (\<lambda>x. canonical (depth + 1) x) xs)
                     (\<lambda>ss. Inr (''['' @ join_on (CHR '','') ss @ '']''))
      | JObj ms \<Rightarrow>
          rbind (rmap (\<lambda>m. rbind (canonical (depth + 1) (snd m))
                               (\<lambda>s. Inr (fst m, quote (fst m) @ '':'' @ s))) ms)
            (\<lambda>ps. Inr (''{'' @ join_on (CHR '','') (map snd (sort_key fst ps)) @ ''}''))
      | _ \<Rightarrow> Inr (stringify v))"
  by pat_completeness auto
termination
  by (relation "measure (\<lambda>(d, v). 65 - d)") auto

declare canonical.simps [simp del]

text \<open>
  Members of an object may arrive in any order: \<open>JSON.parse\<close> keeps the sender's order, the
  canonical form does not depend on it.
\<close>

lemma canon_error_eq: "(e :: canon_error) = e'"
  by (metis canon_error.exhaust)

lemma rmap_perm:
  fixes f :: "'a \<Rightarrow> canon_error + 'b"
  assumes "mset xs = mset ys"
  shows "case rmap f xs of Inl e \<Rightarrow> rmap f ys = Inl e
           | Inr zs \<Rightarrow> \<exists>ws. rmap f ys = Inr ws \<and> mset ws = mset zs"
proof -
  have R: "rmap f xs = (if \<exists>x \<in> set xs. \<exists>e. f x = Inl e then Inl InvalidEventPayload
        else Inr (map (\<lambda>x. projr (f x)) xs))" for xs
  proof (induction xs)
    case Nil
    show ?case by simp
  next
    case (Cons x xs)
    then show ?case using canon_error_eq by (cases "f x") auto
  qed
  have "set xs = set ys" using assms(1) by (metis set_mset_mset)
  then show ?thesis using assms(1) by (auto simp: R)
qed

lemma sort_key_mset_eq:
  assumes "mset xs = mset ys" and "distinct (map fst xs)"
  shows "sort_key fst xs = sort_key fst (ys :: (string \<times> string) list)"
proof (rule properties_for_sort_key [symmetric])
  show "mset (sort_key fst xs) = mset ys" using assms(1) by simp
next
  fix k
  assume "k \<in> set (sort_key fst xs)"
  show "filter (\<lambda>x. fst k = fst x) (sort_key fst xs) = filter (\<lambda>x. fst k = fst x) ys"
  proof -
    have "\<And>zs. mset zs = mset xs \<Longrightarrow> k \<in> set zs \<Longrightarrow> filter (\<lambda>x. fst k = fst x) zs = [k]"
    proof -
      fix zs
      assume z: "mset zs = mset xs" and kz: "k \<in> set zs"
      have "distinct (map fst zs)"
        using z assms(2) by (metis mset_eq_imp_distinct_iff mset_map)
      then show "filter (\<lambda>x. fst k = fst x) zs = [k]" using kz
        by (induction zs) (auto simp: filter_empty_conv)
    qed
    moreover have "k \<in> set ys"
      using \<open>k \<in> set (sort_key fst xs)\<close> assms(1) by (metis set_mset_mset set_sort)
    ultimately show ?thesis
      using \<open>k \<in> set (sort_key fst xs)\<close> assms(1) by simp
  qed
next
  show "sorted (map fst (sort_key fst xs))" by simp
qed

lemma rmap_keys:
  "rmap (\<lambda>m. rbind (f (snd m)) (\<lambda>s. Inr (fst m, g (fst m) s))) ms = Inr ps \<Longrightarrow> map fst ps = map fst ms"
  by (induction ms arbitrary: ps) (auto simp: res_simps)

lemma canonical_member_order:
  assumes "mset ms = mset ns" and "distinct (map fst ms)"
  shows "canonical d (JObj ms) = canonical d (JObj ns)"
proof -
  let ?f = "\<lambda>m. rbind (canonical (d + 1) (snd m)) (\<lambda>s. Inr (fst m, quote (fst m) @ '':'' @ s))"
  show ?thesis
  proof (cases "rmap ?f ms")
    case (Inl e)
    then show ?thesis using rmap_perm [OF assms(1), of ?f]
      by (simp add: canonical.simps)
  next
    case (Inr ps)
    then obtain qs where qs: "rmap ?f ns = Inr qs" "mset qs = mset ps"
      using rmap_perm [OF assms(1), of ?f] by auto
    have "map fst ps = map fst ms" by (rule rmap_keys [OF Inr])
    then have "sort_key fst ps = sort_key fst qs"
      using assms(2) qs(2) by (intro sort_key_mset_eq) auto
    with Inr qs show ?thesis by (simp add: canonical.simps)
  qed
qed

lemma canonical_depth: "64 < d \<Longrightarrow> canonical d v = Inl InvalidEventPayload"
  by (simp add: canonical.simps)

end
