(* ===== verification/Schema.thy ===== *)
theory Schema
  imports Json
begin

text \<open>
  The rows of \<open>db/schema.sql\<close> that the role model and the event channel read and write, and the
  database state as one record of tables.  Times are milliseconds.  A nullable column is an
  \<open>option\<close>.  \<open>uuid_seq\<close> counts the random identifiers drawn so far; the identifiers themselves
  are a parameter \<open>uuid :: nat \<Rightarrow> string\<close> of the operations that draw them.
\<close>

datatype effect = Grant | Deny

datatype account_status = Active | Disabled | Locked

record identity =
  i_username :: string
  i_display_name :: string
  i_email :: "string option"
  i_email_verified :: bool
  i_password_hash :: "string option"
  i_password_changed_at :: "int option"
  i_mfa_enabled :: bool
  i_avatar :: "string option"
  i_status :: account_status
  i_deleted_at :: "int option"

record org_role =
  or_label :: string
  or_level :: int
  or_is_system :: bool

record client =
  cl_name :: string
  cl_redirect_uris :: "string list"
  cl_events_uri :: "string option"
  cl_disabled_at :: "int option"
  cl_first_party :: bool
  cl_entry_policy :: string
  cl_jwks_uri :: "string option"
  cl_jwks :: "json option"
  cl_scopes :: "string list"
  cl_is_system :: bool
  cl_created_at :: int

record app_role =
  ar_name :: string
  ar_level :: int
  ar_is_system :: bool

record app_catalog =
  cat_default :: "int option"
  cat_synced_at :: int
  cat_last_iat :: int

datatype catalog_mode = Legacy | Revisioned

record sync_state =
  ss_mode :: catalog_mode
  ss_epoch :: "string option"
  ss_revision :: "int option"
  ss_digest :: "string option"
  ss_last_iat :: int
  ss_authority_epoch :: string
  ss_authority_revision :: int

record effective_row =
  eff_role :: "int option"
  eff_managed :: bool
  eff_revision :: int

datatype outbox_status = Pending | Delivered | Dead

record outbox_row =
  ob_id :: string
  ob_kind :: string
  ob_target :: string
  ob_payload :: json
  ob_version :: int
  ob_status :: outbox_status
  ob_attempts :: int
  ob_next_at :: int
  ob_created_at :: int
  ob_delivered_at :: "int option"
  ob_error :: "string option"
  ob_legacy_member :: "string option"
  ob_legacy_score :: "int option"

record destination =
  ds_token :: "string option"
  ds_until :: "int option"
  ds_next_at :: int
  ds_failures :: int

record processed_row =
  pe_type :: "string option"
  pe_digest :: "string option"

record audit_row =
  au_actor :: "string option"
  au_actor_label :: string
  au_target :: "string option"
  au_target_label :: "string option"
  au_action :: string
  au_detail :: json

record db =
  identities :: "(string, identity) table"
  org_roles :: "(string, org_role) table"
  user_org_roles :: "(string, string) table"
  role_permissions :: "(string \<times> string, effect) table"
  user_permission_overrides :: "(string \<times> string, effect) table"
  oauth_clients :: "(string, client) table"
  app_roles :: "(string \<times> int, app_role) table"
  app_role_catalogs :: "(string, app_catalog) table"
  org_role_app_defaults :: "(string \<times> string, int option) table"
  user_app_role_overrides :: "(string \<times> string, int option) table"
  app_role_sync_state :: "(string, sync_state) table"
  app_role_effective :: "(string \<times> string, effective_row) table"
  settings :: "(string, string) table"
  event_outbox :: "outbox_row list"
  event_destinations :: "(string, destination) table"
  processed_events :: "(string \<times> string, processed_row) table"
  org_audit_log :: "audit_row list"
  uuid_seq :: nat

definition empty_db :: db where
  "empty_db = \<lparr>identities = [], org_roles = [], user_org_roles = [], role_permissions = [],
     user_permission_overrides = [], oauth_clients = [], app_roles = [], app_role_catalogs = [],
     org_role_app_defaults = [], user_app_role_overrides = [], app_role_sync_state = [],
     app_role_effective = [], settings = [], event_outbox = [], event_destinations = [],
     processed_events = [], org_audit_log = [], uuid_seq = 0\<rparr>"

text \<open>A level as the code compares it: smaller is more privileged, \<open>Infinity\<close> is the missing role.\<close>

datatype level = Lvl int | Infinite

instantiation level :: linorder
begin

fun less_eq_level :: "level \<Rightarrow> level \<Rightarrow> bool" where
  "less_eq_level _ Infinite = True"
| "less_eq_level Infinite (Lvl _) = False"
| "less_eq_level (Lvl a) (Lvl b) = (a \<le> b)"

definition less_level :: "level \<Rightarrow> level \<Rightarrow> bool" where
  "less_level a b = (a \<le> b \<and> \<not> b \<le> a)"

instance
proof
  fix a b c :: level
  show "a < b \<longleftrightarrow> a \<le> b \<and> \<not> b \<le> a" by (simp add: less_level_def)
  show "a \<le> a" by (cases a) auto
  show "a \<le> b \<or> b \<le> a" by (cases a; cases b) auto
  show "a \<le> b \<Longrightarrow> b \<le> a \<Longrightarrow> a = b" by (cases a; cases b) auto
  show "a \<le> b \<Longrightarrow> b \<le> c \<Longrightarrow> a \<le> c" by (cases a; cases b; cases c) auto
qed

end

lemma level_less_simps [simp]:
  "Lvl a < Lvl b \<longleftrightarrow> a < b"  "Lvl a < Infinite"  "\<not> Infinite < x"
  by (auto simp: less_level_def)

lemma level_le_Infinite [simp]: "Infinite \<le> x \<longleftrightarrow> x = Infinite"
  by (cases x) auto

end
