(* ===== verification/Rbac.thy ===== *)
theory Rbac
  imports Schema
begin

text \<open>
  The permission engine of \<open>src/rbac/catalog.ts\<close> and \<open>src/rbac/index.ts\<close>: the permission catalog,
  the resolution override, role default, deny, the wildcard match and the delegation guard.
\<close>

section \<open>The catalog\<close>

datatype system_role = Superadmin | Admin | StandardUser

datatype perm_group = ProfileGroup | OrgGroup

record perm_def =
  pd_key :: string
  pd_group :: perm_group
  pd_defaults :: "system_role \<Rightarrow> effect"

definition starts_with :: "string \<Rightarrow> string \<Rightarrow> bool" where
  "starts_with pre s = (take (length pre) s = pre)"

definition role_defaults :: "effect \<Rightarrow> effect \<Rightarrow> effect \<Rightarrow> system_role \<Rightarrow> effect" where
  "role_defaults sa ad su r = (case r of Superadmin \<Rightarrow> sa | Admin \<Rightarrow> ad | StandardUser \<Rightarrow> su)"

definition perm :: "string \<Rightarrow> effect \<Rightarrow> effect \<Rightarrow> effect \<Rightarrow> perm_def" where
  "perm key sa ad su = \<lparr>pd_key = key,
     pd_group = (if starts_with ''profile.'' key then ProfileGroup else OrgGroup),
     pd_defaults = role_defaults sa ad su\<rparr>"

definition SYSTEM_ROLES :: "(system_role \<times> string \<times> string \<times> int) list" where
  "SYSTEM_ROLES =
    [(Superadmin, ''superadmin'', ''Superadmin'', 0),
     (Admin, ''admin'', ''Admin'', 1),
     (StandardUser, ''standard_user'', ''Standard user'', 10)]"

definition PERMISSIONS :: "perm_def list" where
  "PERMISSIONS =
    [perm ''profile.displayname.change'' Grant Grant Grant,
     perm ''profile.picture.set'' Grant Grant Grant,
     perm ''profile.username.change'' Grant Deny Deny,
     perm ''profile.email.add'' Grant Grant Grant,
     perm ''profile.email.change'' Grant Grant Grant,
     perm ''profile.email.setPrimary'' Grant Grant Grant,
     perm ''profile.security.password.change'' Grant Grant Grant,
     perm ''profile.security.sessions.view'' Grant Grant Grant,
     perm ''profile.security.sessions.terminate'' Grant Grant Grant,
     perm ''profile.security.mfa.enable'' Grant Grant Grant,
     perm ''profile.security.mfa.disable'' Deny Deny Grant,
     perm ''profile.security.mfa.totp.add'' Grant Grant Grant,
     perm ''profile.security.mfa.totp.rename'' Grant Grant Grant,
     perm ''profile.security.mfa.totp.remove'' Grant Grant Grant,
     perm ''profile.security.mfa.passkey.add'' Grant Grant Grant,
     perm ''profile.security.mfa.passkey.rename'' Grant Grant Grant,
     perm ''profile.security.mfa.passkey.remove'' Grant Grant Grant,
     perm ''org.users.view'' Grant Grant Deny,
     perm ''org.users.create'' Grant Grant Deny,
     perm ''org.users.edit.displayname'' Grant Grant Deny,
     perm ''org.users.edit.username'' Grant Grant Deny,
     perm ''org.users.edit.profilePicture.remove'' Grant Grant Deny,
     perm ''org.users.edit.email'' Grant Grant Deny,
     perm ''org.users.edit.password'' Grant Grant Deny,
     perm ''org.users.edit.permissions.acctPortal'' Grant Grant Deny,
     perm ''org.users.edit.permissions.app'' Grant Grant Deny,
     perm ''org.users.edit.sessions.view'' Grant Grant Deny,
     perm ''org.users.edit.sessions.terminate'' Grant Grant Deny,
     perm ''org.users.edit.deactivate'' Grant Grant Deny,
     perm ''org.users.edit.reactivate'' Grant Grant Deny,
     perm ''org.users.edit.mfa.view'' Grant Grant Deny,
     perm ''org.users.edit.mfa.disable'' Grant Grant Deny,
     perm ''org.users.edit.mfa.reset'' Grant Grant Deny,
     perm ''org.users.remove'' Grant Deny Deny,
     perm ''org.roles.view'' Grant Grant Deny,
     perm ''org.roles.create'' Grant Grant Deny,
     perm ''org.roles.edit.permissions.acctPortal'' Grant Grant Deny,
     perm ''org.roles.edit.permissions.app'' Grant Grant Deny,
     perm ''org.roles.edit.level'' Grant Grant Deny,
     perm ''org.roles.edit.rename'' Grant Grant Deny,
     perm ''org.roles.remove'' Grant Grant Deny,
     perm ''org.apps.view'' Grant Grant Deny,
     perm ''org.apps.sync'' Grant Grant Deny,
     perm ''org.roles.edit.default'' Grant Grant Deny,
     perm ''org.dashboard'' Grant Grant Deny,
     perm ''org.logs.view'' Grant Grant Deny,
     perm ''org.logs.clear'' Grant Deny Deny,
     perm ''org.invites.view'' Grant Grant Deny,
     perm ''org.invites.create'' Grant Grant Deny,
     perm ''org.invites.void'' Grant Deny Deny,
     perm ''org.siteSettings.acctPortal'' Grant Deny Deny,
     perm ''org.siteSettings.sso'' Grant Deny Deny,
     perm ''org.mfaPolicies.view'' Grant Deny Deny,
     perm ''org.mfaPolicies.edit'' Grant Deny Deny]"

definition PERM_KEYS :: "string list" where
  "PERM_KEYS = map pd_key PERMISSIONS"

section \<open>Resolution\<close>

record authz =
  az_role :: "string option"
  az_level :: level
  az_granted :: "string list"

definition user_role_row :: "db \<Rightarrow> string \<Rightarrow> (string \<times> org_role) option" where
  "user_role_row d sub = (case tget (user_org_roles d) sub of
      None \<Rightarrow> None
    | Some slug \<Rightarrow> map_option (\<lambda>r. (slug, r)) (tget (org_roles d) slug))"

definition role_effect :: "db \<Rightarrow> string \<Rightarrow> string \<Rightarrow> effect option" where
  "role_effect d sub key = (case tget (user_org_roles d) sub of
      None \<Rightarrow> None
    | Some slug \<Rightarrow> tget (role_permissions d) (slug, key))"

definition effective_effect :: "db \<Rightarrow> string \<Rightarrow> string \<Rightarrow> effect" where
  "effective_effect d sub key = (case tget (user_permission_overrides d) (sub, key) of
      Some e \<Rightarrow> e
    | None \<Rightarrow> (case role_effect d sub key of Some e \<Rightarrow> e | None \<Rightarrow> Deny))"

definition resolve_authz :: "db \<Rightarrow> string \<Rightarrow> authz" where
  "resolve_authz d sub =
    \<lparr>az_role = map_option fst (user_role_row d sub),
     az_level = (case user_role_row d sub of None \<Rightarrow> Infinite | Some (_, r) \<Rightarrow> Lvl (or_level r)),
     az_granted = filter (\<lambda>k. effective_effect d sub k = Grant) PERM_KEYS\<rparr>"

definition has_perm :: "db \<Rightarrow> string \<Rightarrow> string \<Rightarrow> bool" where
  "has_perm d sub key = (key \<in> set (az_granted (resolve_authz d sub)))"

fun match_segments :: "string list \<Rightarrow> string list \<Rightarrow> bool" where
  "match_segments [] ks = (ks = [])"
| "match_segments (p # ps) ks =
     (if p = ''**'' then ps = [] \<and> ks \<noteq> []
      else (case ks of
          [] \<Rightarrow> False
        | k # ks' \<Rightarrow> if p \<noteq> ''*'' \<and> p \<noteq> k then False else match_segments ps ks'))"

definition match_perm :: "string \<Rightarrow> string \<Rightarrow> bool" where
  "match_perm pattern key =
     match_segments (split_on (CHR ''.'') pattern) (split_on (CHR ''.'') key)"

definition has_any_perm :: "db \<Rightarrow> string \<Rightarrow> string \<Rightarrow> bool" where
  "has_any_perm d sub pattern = list_ex (match_perm pattern) (az_granted (resolve_authz d sub))"

text \<open>The middleware \<open>requirePerm(key)\<close>: the answer it sends, or \<open>Inr\<close> for \<open>next()\<close>.\<close>

datatype perm_answer = InvalidToken | PermissionDenied string

definition require_perm :: "db \<Rightarrow> string \<Rightarrow> string option \<Rightarrow> perm_answer + unit" where
  "require_perm d key auth = (case auth of
      None \<Rightarrow> Inl InvalidToken
    | Some sub \<Rightarrow> if sub = [] then Inl InvalidToken
        else if \<not> has_perm d sub key then Inl (PermissionDenied key) else Inr ())"

definition get_role_level :: "db \<Rightarrow> string \<Rightarrow> level" where
  "get_role_level d sub = (case user_role_row d sub of None \<Rightarrow> Infinite | Some (_, r) \<Rightarrow> Lvl (or_level r))"

definition can_administer :: "db \<Rightarrow> string \<Rightarrow> string \<Rightarrow> bool" where
  "can_administer d actor target =
     (if actor = target then False else get_role_level d actor < get_role_level d target)"

section \<open>Properties\<close>

lemma granted_iff: "k \<in> set (az_granted (resolve_authz d sub)) \<longleftrightarrow>
    k \<in> set PERM_KEYS \<and> effective_effect d sub k = Grant"
  by (simp add: resolve_authz_def)

text \<open>A wildcard pattern segment against a key segment.\<close>

definition seg_ok :: "string \<Rightarrow> string \<Rightarrow> bool" where
  "seg_ok p k = (p = ''*'' \<or> p = k)"

lemma match_segments_plain:
  "''**'' \<notin> set ps \<Longrightarrow> match_segments ps ks \<longleftrightarrow> list_all2 seg_ok ps ks"
proof (induction ps arbitrary: ks)
  case Nil
  then show ?case by simp
next
  case (Cons p ps)
  then show ?case by (cases ks) (auto simp: seg_ok_def)
qed

lemma match_segments_suffix:
  "''**'' \<notin> set ps \<Longrightarrow> match_segments (ps @ [''**'']) ks \<longleftrightarrow>
     (\<exists>pre suf. ks = pre @ suf \<and> suf \<noteq> [] \<and> list_all2 seg_ok ps pre)"
proof (induction ps arbitrary: ks)
  case Nil
  then show ?case by auto
next
  case (Cons p ps)
  have notin: "''**'' \<notin> set ps" and p: "p \<noteq> ''**''" using Cons.prems by auto
  show ?case
  proof (cases ks)
    case Nil
    then show ?thesis using p by auto
  next
    case k: (Cons k ks')
    have step: "match_segments ((p # ps) @ [''**'']) (k # ks') \<longleftrightarrow>
        seg_ok p k \<and> match_segments (ps @ [''**'']) ks'"
      using p by (simp add: seg_ok_def)
    have "(\<exists>pre suf. k # ks' = pre @ suf \<and> suf \<noteq> [] \<and> list_all2 seg_ok (p # ps) pre) \<longleftrightarrow>
        seg_ok p k \<and> (\<exists>pre suf. ks' = pre @ suf \<and> suf \<noteq> [] \<and> list_all2 seg_ok ps pre)"
      by (auto simp: list_all2_Cons1 Cons_eq_append_conv)
    then show ?thesis unfolding k step Cons.IH [OF notin, of ks'] by (rule sym)
  qed
qed

lemma match_segments_inner: "ps' \<noteq> [] \<Longrightarrow> \<not> match_segments (ps @ ''**'' # ps') ks"
proof (induction ps arbitrary: ks)
  case Nil
  then show ?case by auto
next
  case (Cons p ps)
  then show ?case by (cases ks) auto
qed

lemma perm_keys_distinct: "distinct PERM_KEYS"
  by code_simp

lemma can_administer_irrefl: "\<not> can_administer d a a"
  by (simp add: can_administer_def)

end
