(* ===== verification/AppRoles.thy ===== *)
theory AppRoles
  imports Rbac
begin

text \<open>
  Effective application roles: the layered resolution of \<open>src/rbac/appRoles.ts\<close> (user override,
  organisation default, catalog default) and the one-statement snapshot of
  \<open>src/backchannel/accessStateStore.ts\<close>, which the token endpoint and the access-state query use.
  The two are proved to agree.
\<close>

datatype role_source = SrcOverride | SrcOrg | SrcCatalog | SrcNone

record effective_app_role =
  ea_role_id :: "int option"
  ea_source :: role_source

text \<open>The organisation layer: the stored default of the role the user holds.\<close>

definition org_layer :: "db \<Rightarrow> string \<Rightarrow> string \<Rightarrow> int option option" where
  "org_layer d sub cid = (case tget (user_org_roles d) sub of
      None \<Rightarrow> None
    | Some slug \<Rightarrow> tget (org_role_app_defaults d) (slug, cid))"

definition effective_app_role :: "db \<Rightarrow> string \<Rightarrow> string \<Rightarrow> effective_app_role" where
  "effective_app_role d sub cid =
    (case tget (user_app_role_overrides d) (sub, cid) of
       Some ov \<Rightarrow> \<lparr>ea_role_id = ov, ea_source = SrcOverride\<rparr>
     | None \<Rightarrow>
       (case org_layer d sub cid of
          Some od \<Rightarrow> \<lparr>ea_role_id = od, ea_source = SrcOrg\<rparr>
        | None \<Rightarrow>
          (case tget (app_role_catalogs d) cid of
             Some cat \<Rightarrow> \<lparr>ea_role_id = cat_default cat, ea_source = SrcCatalog\<rparr>
           | None \<Rightarrow> \<lparr>ea_role_id = None, ea_source = SrcNone\<rparr>)))"

definition app_role_level :: "db \<Rightarrow> string \<Rightarrow> int option \<Rightarrow> level" where
  "app_role_level d cid role = (case role of
      None \<Rightarrow> Infinite
    | Some r \<Rightarrow> (case tget (app_roles d) (cid, r) of None \<Rightarrow> Infinite | Some a \<Rightarrow> Lvl (ar_level a)))"

definition has_app_catalog :: "db \<Rightarrow> string \<Rightarrow> bool" where
  "has_app_catalog d cid = (tget (app_role_catalogs d) cid \<noteq> None)"

definition app_access_allowed :: "db \<Rightarrow> string \<Rightarrow> string \<Rightarrow> bool" where
  "app_access_allowed d cid sub =
    (if \<not> has_app_catalog d cid then True
     else (case ea_role_id (effective_app_role d sub cid) of
         None \<Rightarrow> False
       | Some r \<Rightarrow> tget (app_roles d) (cid, r) \<noteq> None))"

section \<open>The access-state snapshot\<close>

record access_row =
  row_sub :: string
  row_status :: "account_status option"
  row_deleted_at :: "int option"
  row_account_exists :: bool
  row_catalog_synced :: bool
  row_authority_epoch :: "string option"
  row_authority_revision :: "string option"
  row_role_id :: "int option"
  row_role_source :: role_source
  row_role_exists :: bool

definition client_enabled :: "db \<Rightarrow> string \<Rightarrow> bool" where
  "client_enabled d cid = (case tget (oauth_clients d) cid of
      None \<Rightarrow> False | Some c \<Rightarrow> cl_disabled_at c = None)"

text \<open>One row of \<open>ACCESS_STATE_SQL\<close>: the \<open>CASE\<close> expressions over the left joins.\<close>

definition access_row_of :: "db \<Rightarrow> string \<Rightarrow> string \<Rightarrow> access_row" where
  "access_row_of d cid sub =
    (let ident = tget (identities d) sub;
         ov = tget (user_app_role_overrides d) (sub, cid);
         od = org_layer d sub cid;
         cat = tget (app_role_catalogs d) cid;
         auth = tget (app_role_sync_state d) cid;
         role = (case ov of Some r \<Rightarrow> r
                 | None \<Rightarrow> (case od of Some r \<Rightarrow> r
                     | None \<Rightarrow> (case cat of Some c \<Rightarrow> cat_default c | None \<Rightarrow> None)))
     in \<lparr>row_sub = sub,
         row_status = map_option i_status ident,
         row_deleted_at = (case ident of None \<Rightarrow> None | Some i \<Rightarrow> i_deleted_at i),
         row_account_exists = (ident \<noteq> None),
         row_catalog_synced = (cat \<noteq> None),
         row_authority_epoch = map_option ss_authority_epoch auth,
         row_authority_revision = map_option (\<lambda>s. show_int (ss_authority_revision s)) auth,
         row_role_id = role,
         row_role_source = (if ov \<noteq> None then SrcOverride else if od \<noteq> None then SrcOrg
                            else if cat \<noteq> None then SrcCatalog else SrcNone),
         row_role_exists = (case role of None \<Rightarrow> False
                            | Some r \<Rightarrow> tget (app_roles d) (cid, r) \<noteq> None)\<rparr>)"

definition access_rows :: "db \<Rightarrow> string \<Rightarrow> string list \<Rightarrow> access_row list" where
  "access_rows d cid subjects = (if client_enabled d cid then map (access_row_of d cid) subjects else [])"

datatype account_state = AccActive | AccDisabled | AccLocked | AccDeleted | AccNotFound

datatype rp_access = Allowed | NoAccess | Unmanaged | UnknownRole

record access_state =
  as_sub :: string
  as_account :: account_state
  as_catalog_synced :: bool
  as_role_id :: "int option"
  as_role_source :: role_source
  as_access :: rp_access
  as_allowed :: bool

record access_snapshot =
  sn_states :: "access_state list"
  sn_authority :: "(string \<times> string) option"

datatype snapshot_error = AuthorityUnavailable

definition stored_status :: "account_status \<Rightarrow> account_state" where
  "stored_status s = (case s of Active \<Rightarrow> AccActive | Disabled \<Rightarrow> AccDisabled | Locked \<Rightarrow> AccLocked)"

definition access_state_of_row :: "access_row \<Rightarrow> access_state" where
  "access_state_of_row row =
    (let status = (if \<not> row_account_exists row then AccNotFound
                   else if row_deleted_at row \<noteq> None then AccDeleted
                   else (case row_status row of None \<Rightarrow> AccNotFound | Some s \<Rightarrow> stored_status s));
         exists = (status \<noteq> AccNotFound);
         role = (if exists \<and> row_catalog_synced row then row_role_id row else None);
         source = (if exists \<and> row_catalog_synced row then row_role_source row else SrcNone);
         access = (if \<not> exists then NoAccess else if \<not> row_catalog_synced row then Unmanaged
                   else if role = None then NoAccess
                   else if row_role_exists row then Allowed else UnknownRole)
     in \<lparr>as_sub = row_sub row, as_account = status, as_catalog_synced = row_catalog_synced row,
         as_role_id = role, as_role_source = source, as_access = access,
         as_allowed = (status = AccActive \<and> (access = Allowed \<or> access = Unmanaged))\<rparr>)"

definition authority_of_rows :: "access_row list \<Rightarrow> snapshot_error + (string \<times> string) option" where
  "authority_of_rows rows =
    (if list_ex row_catalog_synced rows then
       (case (row_authority_epoch (hd rows), row_authority_revision (hd rows)) of
          (Some e, Some r) \<Rightarrow>
            (if uuid_lower e \<and> any_revision r \<and> big_int r \<le> MAX_BIGINT
                \<and> list_all (\<lambda>row. row_authority_epoch row = Some e \<and> row_authority_revision row = Some r) rows
             then Inr (Some (e, r)) else Inl AuthorityUnavailable)
        | _ \<Rightarrow> Inl AuthorityUnavailable)
     else Inr None)"

definition read_access_snapshot :: "db \<Rightarrow> string \<Rightarrow> string list \<Rightarrow> snapshot_error + access_snapshot" where
  "read_access_snapshot d cid subjects =
    (let rows = access_rows d cid subjects in
     rbind (authority_of_rows rows) (\<lambda>authority.
       Inr \<lparr>sn_states = map access_state_of_row rows, sn_authority = authority\<rparr>))"

definition read_access_states :: "db \<Rightarrow> string \<Rightarrow> string list \<Rightarrow> snapshot_error + access_state list" where
  "read_access_states d cid subjects =
    rbind (read_access_snapshot d cid subjects) (\<lambda>s. Inr (sn_states s))"

section \<open>The two resolutions agree\<close>

lemma row_chain:
  "row_role_id (access_row_of d cid sub) = ea_role_id (effective_app_role d sub cid)"
  "row_role_source (access_row_of d cid sub) = ea_source (effective_app_role d sub cid)"
  by (auto simp: access_row_of_def effective_app_role_def Let_def split: option.splits)

lemma row_fields [simp]:
  "row_sub (access_row_of d cid sub) = sub"
  "row_account_exists (access_row_of d cid sub) = (tget (identities d) sub \<noteq> None)"
  "row_catalog_synced (access_row_of d cid sub) = has_app_catalog d cid"
  "row_status (access_row_of d cid sub) = map_option i_status (tget (identities d) sub)"
  by (simp_all add: access_row_of_def Let_def has_app_catalog_def)

lemma row_role_exists_iff: "row_role_exists (access_row_of d cid sub) \<longleftrightarrow>
    (\<exists>r. ea_role_id (effective_app_role d sub cid) = Some r \<and> tget (app_roles d) (cid, r) \<noteq> None)"
  unfolding row_chain [symmetric]
  by (auto simp: access_row_of_def Let_def split: option.splits)

definition live_active :: "db \<Rightarrow> string \<Rightarrow> bool" where
  "live_active d sub = (case tget (identities d) sub of None \<Rightarrow> False
     | Some i \<Rightarrow> i_status i = Active \<and> i_deleted_at i = None)"

lemma row_active_iff: "as_account (access_state_of_row (access_row_of d cid sub)) = AccActive \<longleftrightarrow> live_active d sub"
  by (auto simp: access_state_of_row_def access_row_of_def live_active_def stored_status_def Let_def
      split: option.splits account_status.splits)

lemma row_allowed_iff:
  "as_allowed (access_state_of_row (access_row_of d cid sub)) \<longleftrightarrow>
     live_active d sub \<and> app_access_allowed d cid sub"
proof -
  have "as_account (access_state_of_row (access_row_of d cid sub)) \<noteq> AccNotFound"
    if "live_active d sub" using that row_active_iff [of d cid sub] by simp
  then show ?thesis
    using row_active_iff [of d cid sub] row_role_exists_iff [of d cid sub]
    by (auto simp: access_state_of_row_def app_access_allowed_def row_chain Let_def
        split: option.splits if_splits)
qed

lemma snapshot_states:
  "read_access_snapshot d cid subjects = Inr s \<Longrightarrow> client_enabled d cid \<Longrightarrow>
     sn_states s = map (\<lambda>sub. access_state_of_row (access_row_of d cid sub)) subjects"
  by (auto simp: read_access_snapshot_def access_rows_def res_simps Let_def)

lemma snapshot_disabled:
  "\<not> client_enabled d cid \<Longrightarrow>
     read_access_snapshot d cid subjects = Inr \<lparr>sn_states = [], sn_authority = None\<rparr>"
  by (simp add: read_access_snapshot_def access_rows_def authority_of_rows_def)

end
