(* ===== verification/Outbox.thy ===== *)
theory Outbox
  imports AppRoles
begin

text \<open>
  The transactional outbox of \<open>src/events/outboxStore.ts\<close>: validation and insertion of events on
  the caller's transaction, the leased delivery store over PostgreSQL, batching, back-off and
  the delivery of one destination.  The list \<open>event_outbox\<close> is in \<open>sequence\<close> order.  \<open>now\<close> is
  \<open>now()\<close> (the start of the transaction), \<open>clk\<close> is \<open>clock_timestamp()\<close>; \<open>uuid n\<close> is the \<open>n\<close>-th
  value of \<open>crypto.randomUUID()\<close>.
\<close>

definition BATCH_MAX :: nat where "BATCH_MAX = 100"
definition EVENT_BYTES_MAX :: int where "EVENT_BYTES_MAX = 64 * 1024"
definition MAX_ATTEMPTS :: int where "MAX_ATTEMPTS = 50"
definition LEASE_MS :: int where "LEASE_MS = 30000"

datatype outbox_error =
    InvalidEvent | EventTooLarge | EventIdConflict
  | LegacyMemberTooLarge | LegacyMemberInvalid | LegacyEventTooLarge | LegacyIdConflict
  | ForeignKeyViolation

record out_event =
  oe_type :: string
  oe_payload :: json
  oe_version :: "string option"
  oe_id :: "string option"

record wire_event =
  we_id :: string
  we_type :: string
  we_payload :: json

record norm_event = wire_event +
  ne_version :: string

section \<open>Validation\<close>

definition object_payload :: "json \<Rightarrow> bool" where
  "object_payload v = (case v of JObj _ \<Rightarrow> True | _ \<Rightarrow> False)"

definition wire_json :: "wire_event \<Rightarrow> json" where
  "wire_json e = JObj [(''id'', JStr (we_id e)), (''type'', JStr (we_type e)), (''payload'', we_payload e)]"

definition event_bytes :: "wire_event list \<Rightarrow> nat" where
  "event_bytes es = utf8_length (stringify (JArr (map wire_json es)))"

text \<open>The identifier \<open>event.id ?? crypto.randomUUID()\<close> is drawn by the caller.\<close>

definition normalized_event :: "out_event \<Rightarrow> string \<Rightarrow> outbox_error + norm_event" where
  "normalized_event ev ident =
    (let version = (case oe_version ev of None \<Rightarrow> ''0'' | Some v \<Rightarrow> v);
         wire = \<lparr>we_id = ident, we_type = oe_type ev, we_payload = oe_payload ev\<rparr>
     in if \<not> is_uuid ident \<or> oe_type ev = [] \<or> length (oe_type ev) > 200
           \<or> \<not> object_payload (oe_payload ev) \<or> \<not> any_revision version \<or> big_int version > MAX_BIGINT
        then Inl InvalidEvent
        else if int (event_bytes [wire]) > EVENT_BYTES_MAX then Inl EventTooLarge
        else Inr \<lparr>we_id = ident, we_type = oe_type ev, we_payload = oe_payload ev, ne_version = version\<rparr>)"

fun normalize_events :: "(nat \<Rightarrow> string) \<Rightarrow> out_event list \<Rightarrow> nat \<Rightarrow> outbox_error + norm_event list \<times> nat" where
  "normalize_events uuid [] n = Inr ([], n)"
| "normalize_events uuid (ev # evs) n =
     (let ident = (case oe_id ev of Some i \<Rightarrow> i | None \<Rightarrow> uuid n);
          n' = (if oe_id ev = None then Suc n else n)
      in rbind (normalized_event ev ident) (\<lambda>e.
         rbind (normalize_events uuid evs n') (\<lambda>(es, m). Inr (e # es, m))))"

section \<open>Insertion on the caller's transaction\<close>

definition lock_destination :: "int \<Rightarrow> string \<Rightarrow> db \<Rightarrow> outbox_error + db" where
  "lock_destination now cid d =
    (case tget (event_destinations d) cid of
       Some _ \<Rightarrow> Inr d
     | None \<Rightarrow>
         if tget (oauth_clients d) cid = None then Inl ForeignKeyViolation
         else Inr (d\<lparr>event_destinations := tput cid
           \<lparr>ds_token = None, ds_until = None, ds_next_at = now, ds_failures = 0\<rparr> (event_destinations d)\<rparr>))"

definition find_event :: "db \<Rightarrow> string \<Rightarrow> outbox_row option" where
  "find_event d ident = find (\<lambda>r. ob_id r = lower ident) (event_outbox d)"

definition same_event :: "string \<Rightarrow> norm_event \<Rightarrow> outbox_row \<Rightarrow> bool" where
  "same_event cid e r = (ob_kind r = we_type e \<and> ob_target r = cid
     \<and> jsonb_eq (ob_payload r) (we_payload e) \<and> ob_version r = big_int (ne_version e))"

definition new_row :: "int \<Rightarrow> string \<Rightarrow> norm_event \<Rightarrow> outbox_row" where
  "new_row now cid e = \<lparr>ob_id = lower (we_id e), ob_kind = we_type e, ob_target = cid,
     ob_payload = we_payload e, ob_version = big_int (ne_version e), ob_status = Pending,
     ob_attempts = 0, ob_next_at = now, ob_created_at = now, ob_delivered_at = None,
     ob_error = None, ob_legacy_member = None, ob_legacy_score = None\<rparr>"

definition insert_event :: "int \<Rightarrow> string \<Rightarrow> norm_event \<Rightarrow> db \<Rightarrow> outbox_error + db" where
  "insert_event now cid e d =
    (case find_event d (we_id e) of
       None \<Rightarrow> Inr (d\<lparr>event_outbox := event_outbox d @ [new_row now cid e]\<rparr>)
     | Some r \<Rightarrow> if same_event cid e r then Inr d else Inl EventIdConflict)"

definition insert_events ::
  "(nat \<Rightarrow> string) \<Rightarrow> int \<Rightarrow> string \<Rightarrow> out_event list \<Rightarrow> db \<Rightarrow> outbox_error + string list \<times> db" where
  "insert_events uuid now cid events d =
    rbind (normalize_events uuid events (uuid_seq d)) (\<lambda>(normalized, n).
      let d = d\<lparr>uuid_seq := n\<rparr> in
      rbind (if normalized \<noteq> [] then lock_destination now cid d else Inr d) (\<lambda>d.
      rbind (rfold (insert_event now cid) normalized d) (\<lambda>d.
        Inr (map we_id normalized, d))))"

section \<open>The leased delivery store\<close>

record pending_row = wire_event +
  pr_attempts :: int
  pr_due :: bool

record claim =
  ck_client :: string
  ck_token :: string
  ck_uri :: "string option"
  ck_disabled :: bool
  ck_failures :: int
  ck_events :: "pending_row list"

datatype settlement = SetDelivered | SetRetry string int | SetDead string

definition pending_of :: "db \<Rightarrow> string \<Rightarrow> outbox_row list" where
  "pending_of d cid = filter (\<lambda>r. ob_target r = cid \<and> ob_status r = Pending) (event_outbox d)"

definition lease_free :: "int \<Rightarrow> destination \<Rightarrow> bool" where
  "lease_free clk ds = (case ds_until ds of None \<Rightarrow> True | Some u \<Rightarrow> u \<le> clk)"

definition destinations :: "int \<Rightarrow> int \<Rightarrow> int \<Rightarrow> db \<Rightarrow> string list" where
  "destinations now clk limit d =
    take (nat (min (max limit 1) 64))
      (map fst (sort_key (\<lambda>(cid, ds). (ds_next_at ds)) (sort_key fst
        (filter (\<lambda>(cid, ds). ds_next_at ds \<le> now \<and> lease_free clk ds \<and> pending_of d cid \<noteq> [])
          (event_destinations d)))))"

definition pending_row_of :: "int \<Rightarrow> outbox_row \<Rightarrow> pending_row" where
  "pending_row_of now r = \<lparr>we_id = ob_id r, we_type = ob_kind r, we_payload = ob_payload r,
     pr_attempts = ob_attempts r, pr_due = (ob_next_at r \<le> now)\<rparr>"

definition release :: "int \<Rightarrow> string \<Rightarrow> string \<Rightarrow> int \<Rightarrow> db \<Rightarrow> db" where
  "release now cid token failures d =
    (case tget (event_destinations d) cid of
       Some ds \<Rightarrow>
         if ds_token ds = Some token then
           d\<lparr>event_destinations := tput cid
             \<lparr>ds_token = None, ds_until = None,
              ds_next_at = (case pending_of d cid of [] \<Rightarrow> now | r # _ \<Rightarrow> ob_next_at r),
              ds_failures = failures\<rparr> (event_destinations d)\<rparr>
         else d
     | None \<Rightarrow> d)"

definition claim_destination :: "int \<Rightarrow> int \<Rightarrow> string \<Rightarrow> string \<Rightarrow> db \<Rightarrow> claim option \<times> db" where
  "claim_destination now clk token cid d =
    (case tget (event_destinations d) cid of
       None \<Rightarrow> (None, d)
     | Some ds \<Rightarrow>
         if \<not> (ds_next_at ds \<le> now \<and> lease_free clk ds) then (None, d)
         else
           let d1 = d\<lparr>event_destinations := tput cid
                 (ds\<lparr>ds_token := Some token, ds_until := Some (clk + LEASE_MS)\<rparr>) (event_destinations d)\<rparr>;
               rows = map (pending_row_of now) (take BATCH_MAX (pending_of d1 cid))
           in if rows = [] \<or> \<not> pr_due (hd rows) then (None, release now cid token (ds_failures ds) d1)
              else (Some \<lparr>ck_client = cid, ck_token = token,
                          ck_uri = (case tget (oauth_clients d1) cid of None \<Rightarrow> None | Some c \<Rightarrow> cl_events_uri c),
                          ck_disabled = \<not> client_enabled d1 cid,
                          ck_failures = ds_failures ds, ck_events = rows\<rparr>, d1))"

definition holds_lease :: "int \<Rightarrow> claim \<Rightarrow> destination \<Rightarrow> bool" where
  "holds_lease clk c ds = (ds_token ds = Some (ck_token c)
     \<and> (case ds_until ds of None \<Rightarrow> False | Some u \<Rightarrow> u > clk))"

definition renew :: "int \<Rightarrow> claim \<Rightarrow> db \<Rightarrow> bool \<times> db" where
  "renew clk c d =
    (case tget (event_destinations d) (ck_client c) of
       Some ds \<Rightarrow>
         if holds_lease clk c ds
            \<and> (case tget (oauth_clients d) (ck_client c) of None \<Rightarrow> False
                | Some cl \<Rightarrow> cl_disabled_at cl = None \<and> cl_events_uri cl = ck_uri c \<and> ck_uri c \<noteq> None)
         then (True, d\<lparr>event_destinations := tput (ck_client c)
                 (ds\<lparr>ds_until := Some (clk + LEASE_MS)\<rparr>) (event_destinations d)\<rparr>)
         else (False, d)
     | None \<Rightarrow> (False, d))"

definition settle_row :: "int \<Rightarrow> string \<Rightarrow> string list \<Rightarrow> settlement \<Rightarrow> outbox_row \<Rightarrow> outbox_row" where
  "settle_row now cid ids outcome r =
    (if ob_target r = cid \<and> ob_id r \<in> set ids \<and> ob_status r = Pending then
       (case outcome of
          SetDelivered \<Rightarrow> r\<lparr>ob_status := Delivered, ob_delivered_at := Some now, ob_error := None\<rparr>
        | SetDead code \<Rightarrow> r\<lparr>ob_status := Dead, ob_error := Some code\<rparr>
        | SetRetry code delay \<Rightarrow>
            r\<lparr>ob_attempts := ob_attempts r + 1,
              ob_status := (if ob_attempts r + 1 \<ge> MAX_ATTEMPTS then Dead else Pending),
              ob_next_at := now + delay, ob_error := Some code\<rparr>)
     else r)"

definition settle :: "int \<Rightarrow> int \<Rightarrow> claim \<Rightarrow> string list \<Rightarrow> settlement \<Rightarrow> db \<Rightarrow> bool \<times> db" where
  "settle now clk c ids outcome d =
    (case tget (event_destinations d) (ck_client c) of
       Some ds \<Rightarrow>
         if holds_lease clk c ds then
           let d1 = d\<lparr>event_outbox := map (settle_row now (ck_client c) ids outcome) (event_outbox d)\<rparr>;
               failures = (case outcome of SetRetry _ _ \<Rightarrow> min (ck_failures c + 1) MAX_ATTEMPTS | _ \<Rightarrow> 0)
           in (True, release now (ck_client c) (ck_token c) failures d1)
         else (False, d)
     | None \<Rightarrow> (False, d))"

section \<open>Batching and delivery\<close>

text \<open>\<open>jitter\<close> is \<open>Math.floor(random() * 15_000)\<close>.\<close>

definition backoff_ms :: "int \<Rightarrow> int \<Rightarrow> int" where
  "backoff_ms failures jitter =
    min (60000 * 2 ^ nat (min (max 0 (failures - 1)) 6)) 3600000 + jitter"

definition row_wire :: "pending_row \<Rightarrow> wire_event" where
  "row_wire r = \<lparr>we_id = we_id r, we_type = we_type r, we_payload = we_payload r\<rparr>"

fun batch_loop :: "wire_event list \<Rightarrow> pending_row list \<Rightarrow> wire_event list" where
  "batch_loop batch [] = batch"
| "batch_loop batch (r # rs) =
     (if \<not> pr_due r then batch
      else if int (event_bytes (batch @ [row_wire r])) > EVENT_BYTES_MAX then batch
      else batch_loop (batch @ [row_wire r]) rs)"

definition bounded_batch :: "pending_row list \<Rightarrow> wire_event list" where
  "bounded_batch rows =
    (let limit = (case rows of [] \<Rightarrow> BATCH_MAX | r # _ \<Rightarrow> if pr_attempts r > 0 then 1 else BATCH_MAX)
     in batch_loop [] (take limit rows))"

text \<open>The interface \<open>DeliveryStore\<close>; \<open>sign\<close> and \<open>send\<close> return \<open>None\<close> when they throw.\<close>

record 's delivery_ops =
  op_claim :: "string \<Rightarrow> 's \<Rightarrow> claim option \<times> 's"
  op_renew :: "claim \<Rightarrow> 's \<Rightarrow> bool \<times> 's"
  op_settle :: "claim \<Rightarrow> string list \<Rightarrow> settlement \<Rightarrow> 's \<Rightarrow> bool \<times> 's"

definition deliver_destination ::
  "'s delivery_ops \<Rightarrow> (string \<Rightarrow> wire_event list \<Rightarrow> string option) \<Rightarrow> (string \<Rightarrow> string \<Rightarrow> nat option)
     \<Rightarrow> int \<Rightarrow> string \<Rightarrow> 's \<Rightarrow> bool \<times> 's" where
  "deliver_destination ops sign send jitter cid s =
    (case op_claim ops cid s of
       (None, s) \<Rightarrow> (False, s)
     | (Some c, s) \<Rightarrow>
       (let batch = bounded_batch (ck_events c); ids = map we_id batch in
        if batch = [] then
          (case ck_events c of
             r # _ \<Rightarrow> if pr_due r then (False, snd (op_settle ops c [we_id r] (SetDead ''event_too_large'') s))
                      else (False, s)
           | [] \<Rightarrow> (False, s))
        else if ck_uri c = None \<or> ck_uri c = Some [] \<or> ck_disabled c then
          (False, snd (op_settle ops c ids (SetDead ''destination_unavailable'') s))
        else
          (case sign cid batch of
             None \<Rightarrow> (False, snd (op_settle ops c ids
                        (SetRetry ''signing_failed'' (backoff_ms (ck_failures c + 1) jitter)) s))
           | Some token \<Rightarrow>
             (case op_renew ops c s of
                (False, s) \<Rightarrow> (False, s)
              | (True, s) \<Rightarrow>
                (let outcome = (case send (the (ck_uri c)) token of
                        Some status \<Rightarrow> if status = 204 then SetDelivered
                           else SetRetry ''http_rejected'' (backoff_ms (ck_failures c + 1) jitter)
                      | None \<Rightarrow> SetRetry ''delivery_failed'' (backoff_ms (ck_failures c + 1) jitter));
                     (settled, s) = op_settle ops c ids outcome s
                 in (settled \<and> outcome = SetDelivered, s))))))"

definition SUCCESS_CLAIMS_PER_PASS :: nat where "SUCCESS_CLAIMS_PER_PASS = 8"

fun drain_loop :: "nat \<Rightarrow> nat \<Rightarrow> (nat \<Rightarrow> bool) \<Rightarrow> (nat \<Rightarrow> 's \<Rightarrow> bool \<times> 's) \<Rightarrow> 's \<Rightarrow> nat \<times> 's" where
  "drain_loop i 0 stopping deliver s = (i, s)"
| "drain_loop i (Suc n) stopping deliver s =
     (if stopping i then (i, s)
      else (case deliver i s of
          (True, s) \<Rightarrow> drain_loop (Suc i) n stopping deliver s
        | (False, s) \<Rightarrow> (Suc i, s)))"

text \<open>The number of deliveries attempted, and the state they leave.\<close>

definition drain_destination :: "(nat \<Rightarrow> bool) \<Rightarrow> (nat \<Rightarrow> 's \<Rightarrow> bool \<times> 's) \<Rightarrow> 's \<Rightarrow> nat \<times> 's" where
  "drain_destination stopping deliver s = drain_loop 0 SUCCESS_CLAIMS_PER_PASS stopping deliver s"

section \<open>Batches\<close>

lemma batch_loop_prefix:
  "\<exists>k \<le> length rs. batch_loop b rs = b @ map row_wire (take k rs) \<and> list_all pr_due (take k rs)"
proof (induction rs arbitrary: b)
  case Nil
  show ?case by simp
next
  case (Cons r rs)
  show ?case
  proof (cases "pr_due r \<and> \<not> int (event_bytes (b @ [row_wire r])) > EVENT_BYTES_MAX")
    case True
    obtain k where "k \<le> length rs"
      and "batch_loop (b @ [row_wire r]) rs = (b @ [row_wire r]) @ map row_wire (take k rs)"
      and "list_all pr_due (take k rs)"
      using Cons.IH by blast
    with True show ?thesis by (intro exI [of _ "Suc k"]) auto
  next
    case False
    then show ?thesis by (intro exI [of _ 0]) auto
  qed
qed

lemma batch_loop_bytes:
  "int (event_bytes b) \<le> EVENT_BYTES_MAX \<Longrightarrow> int (event_bytes (batch_loop b rs)) \<le> EVENT_BYTES_MAX"
  by (induction rs arbitrary: b) auto

lemma bounded_batch_bytes: "int (event_bytes (bounded_batch rows)) \<le> EVENT_BYTES_MAX"
proof -
  have "int (event_bytes []) \<le> EVENT_BYTES_MAX" by (simp add: event_bytes_def EVENT_BYTES_MAX_def utf8_length_def)
  then show ?thesis by (simp add: bounded_batch_def batch_loop_bytes Let_def)
qed

lemma bounded_batch_prefix:
  "\<exists>k. bounded_batch rows = map row_wire (take k rows) \<and> list_all pr_due (take k rows)
     \<and> k \<le> length rows \<and> k \<le> BATCH_MAX \<and> (rows \<noteq> [] \<and> pr_attempts (hd rows) > 0 \<longrightarrow> k \<le> 1)"
proof -
  define lim where "lim = (case rows of [] \<Rightarrow> BATCH_MAX | r # _ \<Rightarrow> if pr_attempts r > 0 then 1 else BATCH_MAX)"
  obtain k where k: "k \<le> length (take lim rows)"
    and "bounded_batch rows = map row_wire (take k (take lim rows))"
    and "list_all pr_due (take k (take lim rows))"
    using batch_loop_prefix [of "take lim rows" "[]"] by (auto simp: bounded_batch_def lim_def Let_def)
  moreover have "take k (take lim rows) = take k rows" using k by (simp add: min_absorb1)
  moreover have "lim \<le> BATCH_MAX" and "rows \<noteq> [] \<and> pr_attempts (hd rows) > 0 \<longrightarrow> lim = 1"
    by (auto simp: lim_def BATCH_MAX_def split: list.splits)
  ultimately show ?thesis by (intro exI [of _ k]) auto
qed

section \<open>Insertion\<close>

lemma find_append_None: "find P xs = None \<Longrightarrow> find P (xs @ ys) = find P ys"
  by (induction xs) auto

lemma find_append_Some: "find P xs = Some x \<Longrightarrow> find P (xs @ ys) = Some x"
  by (induction xs) (auto split: if_splits)

lemma find_None_iff_ids: "find_event d i = None \<longleftrightarrow> lower i \<notin> ob_id ` set (event_outbox d)"
  by (force simp: find_event_def find_None_iff)

definition stored :: "string \<Rightarrow> db \<Rightarrow> norm_event \<Rightarrow> bool" where
  "stored cid d e = (\<exists>r. find_event d (we_id e) = Some r \<and> same_event cid e r)"

lemma insert_event_stored: "insert_event now cid e d = Inr d' \<Longrightarrow> stored cid d' e"
  by (auto simp: insert_event_def stored_def find_event_def new_row_def same_event_def
      find_append_None split: option.splits if_splits)

lemma insert_event_keeps: "insert_event now cid e d = Inr d' \<Longrightarrow> stored cid' d x \<Longrightarrow> stored cid' d' x"
  by (auto simp: insert_event_def stored_def find_event_def find_append_Some split: option.splits if_splits)

lemma insert_event_again: "stored cid d e \<Longrightarrow> insert_event now cid e d = Inr d"
  by (auto simp: insert_event_def stored_def)

lemma insert_all_stored:
  "rfold (insert_event now cid) es d = Inr d' \<Longrightarrow> \<forall>e \<in> set es. stored cid d' e"
proof (induction es arbitrary: d)
  case Nil
  then show ?case by simp
next
  case (Cons e es)
  then obtain d1 where d1: "insert_event now cid e d = Inr d1" and r: "rfold (insert_event now cid) es d1 = Inr d'"
    by (auto simp: res_simps)
  have "stored cid d' e"
    by (rule rfold_inv [OF r, of "\<lambda>d. stored cid d e"])
       (use d1 in \<open>auto intro: insert_event_stored insert_event_keeps\<close>)
  with Cons.IH [OF r] show ?case by simp
qed

lemma insert_all_again: "\<forall>e \<in> set es. stored cid d e \<Longrightarrow> rfold (insert_event now cid) es d = Inr d"
  by (induction es) (auto simp: insert_event_again)

text \<open>What an insertion adds: pending rows for the destination, behind everything already there.\<close>

definition outbox_grows :: "string \<Rightarrow> db \<Rightarrow> db \<Rightarrow> bool" where
  "outbox_grows cid d d' = (\<exists>new. event_outbox d' = event_outbox d @ new
     \<and> (\<forall>r \<in> set new. ob_target r = cid \<and> ob_status r = Pending \<and> ob_attempts r = 0))"

lemma outbox_grows_refl: "outbox_grows cid d d"
  by (simp add: outbox_grows_def)

lemma outbox_grows_trans: "outbox_grows cid a b \<Longrightarrow> outbox_grows cid b c \<Longrightarrow> outbox_grows cid a c"
  unfolding outbox_grows_def by (elim exE conjE, rule_tac x = "new @ newa" in exI) auto

lemma insert_event_grows: "insert_event now cid e d = Inr d' \<Longrightarrow> outbox_grows cid d d'"
  by (auto simp: insert_event_def outbox_grows_def new_row_def split: option.splits if_splits)

lemma insert_all_grows: "rfold (insert_event now cid) es d = Inr d' \<Longrightarrow> outbox_grows cid d d'"
  by (erule rfold_rel [where R = "outbox_grows cid"])
     (auto intro: outbox_grows_refl outbox_grows_trans insert_event_grows)

lemma lock_destination_outbox: "lock_destination now cid d = Inr d' \<Longrightarrow> event_outbox d' = event_outbox d"
  by (auto simp: lock_destination_def split: option.splits if_splits)

text \<open>The tables an insertion leaves alone.\<close>

definition same_role_tables :: "db \<Rightarrow> db \<Rightarrow> bool" where
  "same_role_tables d d' = (identities d' = identities d \<and> org_roles d' = org_roles d
     \<and> user_org_roles d' = user_org_roles d \<and> role_permissions d' = role_permissions d
     \<and> user_permission_overrides d' = user_permission_overrides d \<and> oauth_clients d' = oauth_clients d
     \<and> app_roles d' = app_roles d \<and> app_role_catalogs d' = app_role_catalogs d
     \<and> org_role_app_defaults d' = org_role_app_defaults d
     \<and> user_app_role_overrides d' = user_app_role_overrides d \<and> settings d' = settings d
     \<and> processed_events d' = processed_events d \<and> org_audit_log d' = org_audit_log d)"

lemma same_role_tables_refl: "same_role_tables d d"
  by (simp add: same_role_tables_def)

lemma same_role_tables_trans: "same_role_tables a b \<Longrightarrow> same_role_tables b c \<Longrightarrow> same_role_tables a c"
  by (simp add: same_role_tables_def)

definition same_sync_tables :: "db \<Rightarrow> db \<Rightarrow> bool" where
  "same_sync_tables d d' = (app_role_sync_state d' = app_role_sync_state d
     \<and> app_role_effective d' = app_role_effective d)"

lemma insert_event_frame:
  "insert_event now cid e d = Inr d' \<Longrightarrow> same_role_tables d d' \<and> same_sync_tables d d'"
  by (auto simp: insert_event_def same_role_tables_def same_sync_tables_def split: option.splits if_splits)

lemma insert_all_frame:
  "rfold (insert_event now cid) es d = Inr d' \<Longrightarrow> same_role_tables d d' \<and> same_sync_tables d d'"
proof (erule rfold_rel [where R = "\<lambda>d d'. same_role_tables d d' \<and> same_sync_tables d d'"])
qed (auto simp: same_role_tables_refl same_sync_tables_def
      dest: insert_event_frame intro: same_role_tables_trans)

lemma insert_event_dests: "insert_event now cid e d = Inr d' \<Longrightarrow> event_destinations d' = event_destinations d"
  by (auto simp: insert_event_def split: option.splits if_splits)

lemma insert_all_dests: "rfold (insert_event now cid) es d = Inr d' \<Longrightarrow> event_destinations d' = event_destinations d"
  by (erule rfold_inv [where P = "\<lambda>x. event_destinations x = event_destinations d"])
     (auto dest: insert_event_dests)

lemma lock_destination_frame:
  "lock_destination now cid d = Inr d' \<Longrightarrow> same_role_tables d d' \<and> same_sync_tables d d'"
  by (auto simp: lock_destination_def same_role_tables_def same_sync_tables_def split: option.splits if_splits)

lemma lock_destination_there: "lock_destination now cid d = Inr d' \<Longrightarrow> tget (event_destinations d') cid \<noteq> None"
  by (auto simp: lock_destination_def tbl_simps split: option.splits if_splits)

lemma lock_destination_again:
  "tget (event_destinations d) cid \<noteq> None \<Longrightarrow> lock_destination now cid d = Inr d"
  by (auto simp: lock_destination_def)

lemma insert_events_frame:
  "insert_events uuid now cid evs d = Inr (ids, d') \<Longrightarrow>
     same_role_tables d d' \<and> same_sync_tables d d' \<and> outbox_grows cid d d'"
proof -
  assume a: "insert_events uuid now cid evs d = Inr (ids, d')"
  then obtain es n d1 where
      l: "(if es \<noteq> [] then lock_destination now cid (d\<lparr>uuid_seq := n\<rparr>) else Inr (d\<lparr>uuid_seq := n\<rparr>)) = Inr d1"
    and r: "rfold (insert_event now cid) es d1 = Inr d'"
    by (auto simp: insert_events_def res_simps Let_def)
  have "same_role_tables d d1 \<and> same_sync_tables d d1 \<and> event_outbox d1 = event_outbox d"
    using l by (auto split: if_splits dest: lock_destination_frame lock_destination_outbox
        simp: same_role_tables_def same_sync_tables_def)
  then show ?thesis using insert_all_frame [OF r] insert_all_grows [OF r]
    by (auto simp: same_role_tables_def same_sync_tables_def outbox_grows_def)
qed

text \<open>The four ways a delivery attempt ends: nothing claimed or sent, a row given up on before
  sending, the lease lost, an answer (or a transport failure) settled.\<close>

definition send_outcome :: "(string \<Rightarrow> string \<Rightarrow> nat option) \<Rightarrow> int \<Rightarrow> claim \<Rightarrow> string \<Rightarrow> settlement" where
  "send_outcome send jitter c token = (case send (the (ck_uri c)) token of
      Some status \<Rightarrow> if status = 204 then SetDelivered
         else SetRetry ''http_rejected'' (backoff_ms (ck_failures c + 1) jitter)
    | None \<Rightarrow> SetRetry ''delivery_failed'' (backoff_ms (ck_failures c + 1) jitter))"

lemma deliver_outcome:
  assumes "deliver_destination ops sign send jitter cid s = (res, s')"
  obtains (idle) found where "op_claim ops cid s = (found, s')" and "\<not> res"
  | (given_up) c s1 ids o' where "op_claim ops cid s = (Some c, s1)" and "o' \<noteq> SetDelivered"
      and "s' = snd (op_settle ops c ids o' s1)" and "\<not> res"
  | (lost) c s1 where "op_claim ops cid s = (Some c, s1)" and "op_renew ops c s1 = (False, s')" and "\<not> res"
  | (sent) c s1 s2 token b where "op_claim ops cid s = (Some c, s1)"
      and "sign cid (bounded_batch (ck_events c)) = Some token" and "op_renew ops c s1 = (True, s2)"
      and "op_settle ops c (map we_id (bounded_batch (ck_events c))) (send_outcome send jitter c token) s2 = (b, s')"
      and "res = (b \<and> send_outcome send jitter c token = SetDelivered)"
proof (cases "op_claim ops cid s")
  case cl: (Pair found s1)
  show ?thesis
  proof (cases found)
    case None
    then show ?thesis using assms cl idle by (simp add: deliver_destination_def)
  next
    case c: (Some c)
    let ?b = "bounded_batch (ck_events c)"
    note d = assms [unfolded deliver_destination_def cl c, simplified, folded send_outcome_def]
    consider (empty) "?b = []" | (gone) "?b \<noteq> []" "ck_uri c = None \<or> ck_uri c = Some [] \<or> ck_disabled c"
      | (unsigned) "?b \<noteq> []" "\<not> (ck_uri c = None \<or> ck_uri c = Some [] \<or> ck_disabled c)" "sign cid ?b = None"
      | (signed) token where "?b \<noteq> []" "\<not> (ck_uri c = None \<or> ck_uri c = Some [] \<or> ck_disabled c)" "sign cid ?b = Some token"
      by (cases "sign cid ?b") blast+
    then show ?thesis
    proof cases
      case empty
      then show ?thesis using d cl c idle given_up [of c s1 "SetDead ''event_too_large''"]
        by (auto simp: Let_def split: list.splits if_splits)
    next
      case gone
      then have "(False, snd (op_settle ops c (map we_id ?b) (SetDead ''destination_unavailable'') s1)) = (res, s')"
        using d by (simp add: Let_def)
      then show ?thesis using cl c given_up [of c s1 "SetDead ''destination_unavailable''" "map we_id ?b"] by simp
    next
      case unsigned
      then show ?thesis using d cl c
          given_up [of c s1 "SetRetry ''signing_failed'' (backoff_ms (ck_failures c + 1) jitter)" "map we_id ?b"]
        by (auto simp: Let_def)
    next
      case signed
      obtain ok s2 where rn: "op_renew ops c s1 = (ok, s2)" by fastforce
      show ?thesis
      proof (cases ok)
        case False
        then show ?thesis using d cl c signed rn lost by (simp add: Let_def)
      next
        case True
        then show ?thesis using d cl c signed rn sent by (simp add: Let_def split: prod.splits)
      qed
    qed
  qed
qed

section \<open>The delivery interface\<close>

text \<open>What a worker may rely on: claiming and renewing leave the rows alone, a refused settlement
  changes nothing, an accepted one moves exactly the named pending rows of the destination.\<close>

locale delivery_store =
  fixes ops :: "'s delivery_ops" and rows :: "'s \<Rightarrow> outbox_row list"
  assumes claim_rows: "op_claim ops cid s = (found, s') \<Longrightarrow> rows s' = rows s"
    and claim_client: "op_claim ops cid s = (Some c, s') \<Longrightarrow> ck_client c = cid"
    and renew_rows: "op_renew ops c s = (b, s') \<Longrightarrow> rows s' = rows s"
    and settle_refused: "op_settle ops c ids o' s = (False, s') \<Longrightarrow> s' = s"
    and settle_rows: "op_settle ops c ids o' s = (True, s') \<Longrightarrow>
        \<exists>t. rows s' = map (settle_row t (ck_client c) ids o') (rows s)"
begin

definition delivered :: "'s \<Rightarrow> string set" where
  "delivered s = {ob_id r | r. r \<in> set (rows s) \<and> ob_status r = Delivered}"

lemma settle_keeps_delivered:
  assumes "o' \<noteq> SetDelivered"
  shows "delivered (snd (op_settle ops c ids o' s)) = delivered s"
proof (cases "op_settle ops c ids o' s")
  case (Pair b s')
  have st: "ob_status (settle_row t (ck_client c) ids o' r) = Delivered \<longleftrightarrow> ob_status r = Delivered" for t r
    using assms by (auto simp: settle_row_def split: settlement.splits)
  have ident: "ob_id (settle_row t (ck_client c) ids o' r) = ob_id r" for t r
    by (auto simp: settle_row_def split: settlement.splits)
  show ?thesis
  proof (cases b)
    case True
    with Pair have "op_settle ops c ids o' s = (True, s')" by simp
    then obtain t where "rows s' = map (settle_row t (ck_client c) ids o') (rows s)"
      using settle_rows by blast
    then have "delivered s' = {ob_id (settle_row t (ck_client c) ids o' r) | r. r \<in> set (rows s)
        \<and> ob_status (settle_row t (ck_client c) ids o' r) = Delivered}"
      by (auto simp: delivered_def)
    then show ?thesis by (simp add: st ident Pair delivered_def)
  next
    case False
    then show ?thesis using settle_refused [of c ids o' s s'] Pair by simp
  qed
qed

lemma settle_delivered_subset:
  assumes "i \<in> delivered (snd (op_settle ops c ids o' s))" and "i \<notin> delivered s"
  shows "i \<in> set ids"
proof (cases "op_settle ops c ids o' s")
  case (Pair b s')
  show ?thesis
  proof (cases b)
    case True
    with Pair have "op_settle ops c ids o' s = (True, s')" by simp
    then obtain t where "rows s' = map (settle_row t (ck_client c) ids o') (rows s)"
      using settle_rows by blast
    then show ?thesis using assms unfolding delivered_def Pair
      by (auto simp: settle_row_def split: if_splits settlement.splits)
  next
    case False
    then show ?thesis using settle_refused [of c ids o' s s'] Pair assms by simp
  qed
qed

lemma delivered_rows: "rows s' = rows s \<Longrightarrow> delivered s' = delivered s"
  by (simp add: delivered_def)

text \<open>A row becomes delivered only when the receiver acknowledged a signed batch holding it with 204.\<close>

lemma deliver_only_acknowledged:
  assumes "deliver_destination ops sign send jitter cid s = (res, s')"
    and "i \<in> delivered s'" and "i \<notin> delivered s"
  shows "\<exists>batch token uri. sign cid batch = Some token \<and> send uri token = Some 204 \<and> i \<in> we_id ` set batch"
  using assms(1)
proof (cases rule: deliver_outcome)
  case (idle found)
  then show ?thesis using assms claim_rows delivered_rows by metis
next
  case (given_up c s1 ids o')
  then show ?thesis using assms claim_rows delivered_rows settle_keeps_delivered by metis
next
  case (lost c s1)
  then show ?thesis using assms claim_rows renew_rows delivered_rows by metis
next
  case (sent c s1 s2 token b)
  have d2: "delivered s2 = delivered s" using sent claim_rows renew_rows delivered_rows by metis
  have "send_outcome send jitter c token = SetDelivered"
    using settle_keeps_delivered assms(2,3) sent(4) d2 by (metis snd_conv)
  then have ack: "send (the (ck_uri c)) token = Some 204"
    by (auto simp: send_outcome_def split: option.splits if_splits)
  have "i \<in> set (map we_id (bounded_batch (ck_events c)))"
    using settle_delivered_subset assms(2,3) sent(4) d2 by (metis snd_conv)
  then show ?thesis using sent(2) ack by auto
qed

end

text \<open>The PostgreSQL store implements the interface; the three operations run at their own times.\<close>

definition pg_store :: "string \<Rightarrow> int \<times> int \<Rightarrow> int \<Rightarrow> int \<times> int \<Rightarrow> db delivery_ops" where
  "pg_store token t1 t2 t3 =
    \<lparr>op_claim = claim_destination (fst t1) (snd t1) token, op_renew = renew t2, op_settle = settle (fst t3) (snd t3)\<rparr>"

lemma release_outbox [simp]: "event_outbox (release now cid token f d) = event_outbox d"
  by (simp add: release_def split: option.splits)

lemma claim_outbox: "claim_destination now clk token cid d = (c, d') \<Longrightarrow> event_outbox d' = event_outbox d"
  by (auto simp: claim_destination_def Let_def split: option.splits if_splits)

lemma claim_fields:
  "claim_destination now clk token cid d = (Some c, d') \<Longrightarrow> ck_client c = cid \<and> ck_token c = token"
  by (auto simp: claim_destination_def Let_def split: option.splits if_splits)

lemma renew_outbox: "renew clk c d = (b, d') \<Longrightarrow> event_outbox d' = event_outbox d"
  by (auto simp: renew_def split: option.splits if_splits)

lemma settle_outbox: "settle now clk c ids o' d = (True, d') \<Longrightarrow>
    event_outbox d' = map (settle_row now (ck_client c) ids o') (event_outbox d)"
  by (auto simp: settle_def Let_def split: option.splits if_splits)

lemma settle_False: "settle now clk c ids o' d = (False, d') \<Longrightarrow> d' = d"
  by (auto simp: settle_def Let_def split: option.splits if_splits)

interpretation pg: delivery_store "pg_store token t1 t2 t3" event_outbox
proof unfold_locales
  fix cid s c s'
  assume "op_claim (pg_store token t1 t2 t3) cid s = (c, s')"
  then show "event_outbox s' = event_outbox s" by (simp add: pg_store_def claim_outbox)
next
  fix cid s c s'
  assume "op_claim (pg_store token t1 t2 t3) cid s = (Some c, s')"
  then show "ck_client c = cid" by (simp add: pg_store_def claim_fields)
next
  fix c s b s'
  assume "op_renew (pg_store token t1 t2 t3) c s = (b, s')"
  then show "event_outbox s' = event_outbox s" by (simp add: pg_store_def renew_outbox)
next
  fix c ids o' s s'
  assume "op_settle (pg_store token t1 t2 t3) c ids o' s = (False, s')"
  then show "s' = s" by (simp add: pg_store_def settle_False)
next
  fix c ids o' s s'
  assume "op_settle (pg_store token t1 t2 t3) c ids o' s = (True, s')"
  then show "\<exists>t. event_outbox s' = map (settle_row t (ck_client c) ids o') (event_outbox s)"
    using settle_outbox by (auto simp: pg_store_def)
qed

section \<open>Lease fencing\<close>

text \<open>What other workers do to one destination, in any order and at any time.\<close>

datatype worker_op =
    WClaim int int string
  | WRenew int claim
  | WSettle int int claim "string list" settlement

fun worker_step :: "string \<Rightarrow> worker_op \<Rightarrow> db \<Rightarrow> db" where
  "worker_step cid (WClaim now clk token) d = snd (claim_destination now clk token cid d)"
| "worker_step cid (WRenew clk c) d = snd (renew clk c d)"
| "worker_step cid (WSettle now clk c ids o') d = snd (settle now clk c ids o' d)"

definition worker_run :: "string \<Rightarrow> worker_op list \<Rightarrow> db \<Rightarrow> db" where
  "worker_run cid ops d = fold (worker_step cid) ops d"

definition token_gone :: "string \<Rightarrow> string \<Rightarrow> db \<Rightarrow> bool" where
  "token_gone cid t d = (case tget (event_destinations d) cid of None \<Rightarrow> True | Some ds \<Rightarrow> ds_token ds \<noteq> Some t)"

lemma release_token_gone: "token_gone cid t d \<Longrightarrow> token_gone cid t (release now cid' tok f d)"
  by (auto simp: token_gone_def release_def tbl_simps split: option.splits)

lemma claim_token_gone:
  assumes "token_gone cid t d" and "token \<noteq> t"
  shows "token_gone cid t (snd (claim_destination now clk token cid' d))"
proof -
  have step: "token_gone cid t (d\<lparr>event_destinations := tput cid' (ds\<lparr>ds_token := Some token, ds_until := u\<rparr>) (event_destinations d)\<rparr>)" for ds u
    using assms by (auto simp: token_gone_def tbl_simps)
  show ?thesis
    using assms(1) step release_token_gone [OF step]
    by (auto simp: claim_destination_def Let_def split: option.splits)
qed

lemma renew_token_gone: "token_gone cid t d \<Longrightarrow> token_gone cid t (snd (renew clk c d))"
  by (auto simp: renew_def token_gone_def tbl_simps split: option.splits)

lemma settle_token_gone: "token_gone cid t d \<Longrightarrow> token_gone cid t (snd (settle now clk c ids o' d))"
proof -
  assume a: "token_gone cid t d"
  have "token_gone cid t (d\<lparr>event_outbox := rows\<rparr>)" for rows
    using a by (simp add: token_gone_def)
  then show ?thesis using a
    by (auto simp: settle_def Let_def release_token_gone split: option.splits)
qed

lemma worker_run_token_gone:
  "token_gone cid t d \<Longrightarrow> \<forall>now clk. WClaim now clk t \<notin> set ops \<Longrightarrow> token_gone cid t (worker_run cid ops d)"
proof (induction ops arbitrary: d)
  case Nil
  then show ?case by (simp add: worker_run_def)
next
  case (Cons x ops)
  have "token_gone cid t (worker_step cid x d)"
    using Cons.prems by (cases x) (auto intro: claim_token_gone renew_token_gone settle_token_gone)
  then show ?case using Cons by (simp add: worker_run_def)
qed

lemma gone_cannot_act:
  assumes "token_gone (ck_client c) (ck_token c) d"
  shows "settle now clk c ids o' d = (False, d)" and "renew clk c d = (False, d)"
  using assms by (auto simp: token_gone_def settle_def renew_def holds_lease_def split: option.splits)

section \<open>Properties\<close>

lemma normalize_explicit:
  "\<forall>e \<in> set evs. oe_id e \<noteq> None \<Longrightarrow> normalize_events uuid evs n = Inr (es, m) \<Longrightarrow>
     m = n \<and> normalize_events uuid' evs k = Inr (es, k)"
proof (induction evs arbitrary: es)
  case Nil
  then show ?case by simp
next
  case (Cons e evs)
  then show ?case by (fastforce simp: res_simps Let_def)
qed

lemma insert_events_again:
  assumes "insert_events uuid now cid evs d = Inr (ids, d')" and "\<forall>e \<in> set evs. oe_id e \<noteq> None"
  shows "insert_events uuid' now' cid evs d' = Inr (ids, d')"
proof -
  from assms(1) obtain es n d1 where
      nm: "normalize_events uuid evs (uuid_seq d) = Inr (es, n)"
    and l: "(if es \<noteq> [] then lock_destination now cid (d\<lparr>uuid_seq := n\<rparr>) else Inr (d\<lparr>uuid_seq := n\<rparr>)) = Inr d1"
    and r: "rfold (insert_event now cid) es d1 = Inr d'" and ids: "ids = map we_id es"
    by (auto simp: insert_events_def res_simps Let_def)
  have "normalize_events uuid' evs (uuid_seq d') = Inr (es, uuid_seq d')"
    using normalize_explicit [OF assms(2) nm] by blast
  moreover have "(if es \<noteq> [] then lock_destination now' cid d' else Inr d') = Inr d'"
  proof (cases "es = []")
    case False
    then have "tget (event_destinations d1) cid \<noteq> None" using l lock_destination_there by simp
    then show ?thesis using insert_all_dests [OF r] lock_destination_again by simp
  qed simp
  moreover have "rfold (insert_event now' cid) es d' = Inr d'"
    using insert_all_stored [OF r] insert_all_again by blast
  ultimately show ?thesis by (simp add: insert_events_def ids)
qed

text \<open>Enqueueing is idempotent: repeating an accepted batch of events with explicit identifiers,
  at any later time, returns the same identifiers and leaves the whole database as it is.\<close>

theorem outbox_retry_is_noop:
  assumes "insert_events uuid now cid evs d = Inr (ids, d')" and "\<forall>e \<in> set evs. oe_id e \<noteq> None"
  shows "insert_events uuid' now' cid evs d' = Inr (ids, d')"
  using assms by (rule insert_events_again)

definition demo_client :: client where
  "demo_client = \<lparr>cl_name = ''Videos'', cl_redirect_uris = [], cl_events_uri = Some ''https://rp/events'', cl_disabled_at = None,
     cl_first_party = True, cl_entry_policy = ''opt_in'', cl_jwks_uri = Some ''https://rp/jwks'', cl_jwks = None,
     cl_scopes = [''openid''], cl_is_system = False, cl_created_at = 0\<rparr>"

definition demo_outbox_db :: db where
  "demo_outbox_db = empty_db\<lparr>oauth_clients := [(''rp'', demo_client)]\<rparr>"

definition demo_event :: out_event where
  "demo_event = \<lparr>oe_type = ''logout'', oe_payload = JObj [], oe_version = None,
     oe_id = Some ''11111111-2222-3333-4444-555555555555''\<rparr>"

definition demo_row :: outbox_row where
  "demo_row = \<lparr>ob_id = ''11111111-2222-3333-4444-555555555555'', ob_kind = ''logout'', ob_target = ''rp'',
     ob_payload = JObj [], ob_version = 0, ob_status = Pending, ob_attempts = 0, ob_next_at = 0,
     ob_created_at = 0, ob_delivered_at = None, ob_error = None, ob_legacy_member = None, ob_legacy_score = None\<rparr>"

definition demo_after :: db where
  "demo_after = demo_outbox_db\<lparr>event_outbox := [demo_row],
     event_destinations := [(''rp'', \<lparr>ds_token = None, ds_until = None, ds_next_at = 0, ds_failures = 0\<rparr>)]\<rparr>"

lemma demo_insert: "insert_events (\<lambda>n. []) 0 ''rp'' [demo_event] demo_outbox_db
    = Inr ([''11111111-2222-3333-4444-555555555555''], demo_after)"
  by code_simp

text \<open>C31. An event becomes delivered only by an acknowledgement: if a delivery attempt on the PostgreSQL
  store leaves a delivered row whose identifier was not delivered before, the destination
  answered 204 to a signed batch that holds this event.  Any other answer, a transport
  failure, a signing failure, a lost lease or a disabled destination never marks a row delivered.\<close>

theorem delivered_only_if_acknowledged:
  assumes "deliver_destination (pg_store token t1 t2 t3) sign send jitter cid d = (res, d')"
    and "r \<in> set (event_outbox d')" and "ob_status r = Delivered"
    and "\<forall>q \<in> set (event_outbox d). ob_id q = ob_id r \<longrightarrow> ob_status q \<noteq> Delivered"
  shows "\<exists>batch tok uri. sign cid batch = Some tok \<and> send uri tok = Some 204 \<and> ob_id r \<in> we_id ` set batch"
proof (rule pg.deliver_only_acknowledged [OF assms(1)])
  show "ob_id r \<in> pg.delivered d'" using assms(2,3) by (auto simp: pg.delivered_def)
  show "ob_id r \<notin> pg.delivered d" using assms(4) by (auto simp: pg.delivered_def)
qed

definition demo_delivered :: db where
  "demo_delivered = demo_after\<lparr>event_outbox := [demo_row\<lparr>ob_status := Delivered, ob_delivered_at := Some 20\<rparr>],
     event_destinations := [(''rp'', \<lparr>ds_token = None, ds_until = None, ds_next_at = 20, ds_failures = 0\<rparr>)]\<rparr>"

lemma demo_deliver:
  "deliver_destination (pg_store ''tok'' (5, 5) 10 (20, 20)) (\<lambda>_ _. Some ''jwt'') (\<lambda>_ _. Some 204) 0 ''rp'' demo_after
     = (True, demo_delivered)"
  by code_simp

theorem delivered_only_if_acknowledged_witness:
  "\<exists>batch tok uri. (\<lambda>_ _. Some ''jwt'') ''rp'' batch = Some (tok :: string)
     \<and> (\<lambda>_ _. Some (204 :: nat)) (uri :: string) tok = Some 204
     \<and> ''11111111-2222-3333-4444-555555555555'' \<in> we_id ` set (batch :: wire_event list)"
  using delivered_only_if_acknowledged [OF demo_deliver, of "demo_row\<lparr>ob_status := Delivered, ob_delivered_at := Some 20\<rparr>"]
  by (simp add: demo_delivered_def demo_after_def demo_row_def)

lemma overtaken_claim_is_fenced_parts:
  assumes "token_gone (ck_client c) (ck_token c) d"
    and "\<forall>now clk. WClaim now clk (ck_token c) \<notin> set ops"
  shows "settle now clk c ids o' (worker_run (ck_client c) ops d) = (False, worker_run (ck_client c) ops d)"
    and "renew clk c (worker_run (ck_client c) ops d) = (False, worker_run (ck_client c) ops d)"
  using gone_cannot_act [OF worker_run_token_gone [OF assms]] by simp_all

text \<open>C32. Lease fencing: once a destination is no longer leased under a claim's token (the lease ran out
  and another worker took it, or it was released), then whatever the other workers do to it
  afterwards, as long as none of them draws that very token again, the old claim can neither
  renew its lease nor settle a row; both are refused and change nothing.\<close>

theorem overtaken_claim_is_fenced:
  assumes "token_gone (ck_client c) (ck_token c) d"
    and "\<forall>now clk. WClaim now clk (ck_token c) \<notin> set ops"
  shows "(settle now clk c ids o' (worker_run (ck_client c) ops d) = (False, worker_run (ck_client c) ops d))
    \<and> (renew clk c (worker_run (ck_client c) ops d) = (False, worker_run (ck_client c) ops d))"
  using overtaken_claim_is_fenced_parts [OF assms] by blast

definition demo_claim :: claim where
  "demo_claim = \<lparr>ck_client = ''rp'', ck_token = ''t1'', ck_uri = Some ''https://rp/events'',
     ck_disabled = False, ck_failures = 0, ck_events = [pending_row_of 0 demo_row]\<rparr>"

definition demo_overtaken :: db where
  "demo_overtaken = snd (claim_destination 40000 40000 ''t2'' ''rp'' (snd (claim_destination 0 0 ''t1'' ''rp'' demo_after)))"

theorem overtaken_claim_is_fenced_witness:
  "settle 40001 40001 demo_claim [''11111111-2222-3333-4444-555555555555''] SetDelivered
     (worker_run ''rp'' [WClaim 80000 80000 ''t3''] demo_overtaken)
   = (False, worker_run ''rp'' [WClaim 80000 80000 ''t3''] demo_overtaken)"
proof -
  have "token_gone ''rp'' ''t1'' demo_overtaken" by code_simp
  then show ?thesis
    using overtaken_claim_is_fenced [of demo_claim demo_overtaken "[WClaim 80000 80000 ''t3'']"]
    by (simp add: demo_claim_def)
qed

text \<open>Ordering and bounds of a batch: it is a prefix of the claimed rows in sequence order, every
  row in it is due (a delayed predecessor is never bypassed), it holds at most 100 events and
  64 KiB, and a head that failed before is sent alone.\<close>

theorem batch_is_due_prefix:
  "\<exists>k. bounded_batch rows = map row_wire (take k rows) \<and> list_all pr_due (take k rows)
     \<and> k \<le> length rows \<and> k \<le> 100 \<and> \<not> (rows \<noteq> [] \<and> pr_attempts (hd rows) > 0 \<and> k > 1)
     \<and> event_bytes (bounded_batch rows) \<le> 65536"
proof -
  obtain k where "bounded_batch rows = map row_wire (take k rows)" "list_all pr_due (take k rows)"
    "k \<le> length rows" "k \<le> BATCH_MAX" "rows \<noteq> [] \<and> pr_attempts (hd rows) > 0 \<longrightarrow> k \<le> 1"
    using bounded_batch_prefix by blast
  moreover have "event_bytes (bounded_batch rows) \<le> 65536"
    using bounded_batch_bytes by (simp add: EVENT_BYTES_MAX_def)
  ultimately show ?thesis by (intro exI [of _ k]) (auto simp: BATCH_MAX_def)
qed

lemma retry_iterate:
  assumes "ob_target r = cid" and "ob_id r \<in> set ids" and "ob_status r = Pending" and "ob_attempts r < MAX_ATTEMPTS"
  shows "let q = (settle_row now cid ids (SetRetry code delay) ^^ n) r in
     ob_target q = cid \<and> ob_id q = ob_id r \<and> ob_attempts q = min (ob_attempts r + int n) MAX_ATTEMPTS
     \<and> ob_status q = (if ob_attempts r + int n \<ge> MAX_ATTEMPTS then Dead else Pending)"
proof (induction n)
  case 0
  then show ?case using assms by simp
next
  case (Suc n)
  then show ?case using assms(1,2) by (auto simp: Let_def settle_row_def)
qed

lemma poison_row_dies_at_cap_parts:
  assumes "ob_target r = cid" and "ob_id r \<in> set ids" and "ob_status r = Pending"
    and "0 \<le> ob_attempts r" and "ob_attempts r < 50"
  shows "ob_status ((settle_row now cid ids (SetRetry code delay) ^^ n) r)
           = (if ob_attempts r + int n \<ge> 50 then Dead else Pending)"
    and "ob_attempts ((settle_row now cid ids (SetRetry code delay) ^^ n) r) = min (ob_attempts r + int n) 50"
  using retry_iterate [where r = r and cid = cid and ids = ids and now = now and code = code
      and delay = delay and n = n] assms
  by (simp_all add: Let_def MAX_ATTEMPTS_def)

text \<open>A poison event ends: a pending row that keeps being rejected stays pending through its first
  49 attempts in all and is dead, with exactly 50 attempts counted, from the fiftieth on; it is
  never retried again.\<close>

theorem poison_row_dies_at_cap:
  assumes "ob_target r = cid" and "ob_id r \<in> set ids" and "ob_status r = Pending"
    and "0 \<le> ob_attempts r" and "ob_attempts r < 50"
  shows "(ob_status ((settle_row now cid ids (SetRetry code delay) ^^ n) r)
           = (if ob_attempts r + int n \<ge> 50 then Dead else Pending))
    \<and> (ob_attempts ((settle_row now cid ids (SetRetry code delay) ^^ n) r) = min (ob_attempts r + int n) 50)"
  using poison_row_dies_at_cap_parts [OF assms] by blast

text \<open>Back-off: with a jitter below 15 s the delay lies between one minute and one hour and 15 s,
  and without jitter it never shrinks as failures accumulate.\<close>

theorem backoff_bounds:
  assumes "0 \<le> jitter" and "jitter < 15000" and "f \<le> g"
  shows "60000 \<le> backoff_ms f jitter \<and> backoff_ms f jitter < 3615000 \<and> backoff_ms f 0 \<le> backoff_ms g 0"
proof -
  have "nat (min (max 0 (f - 1)) 6) \<le> nat (min (max 0 (g - 1)) 6)" using assms(3) by (intro nat_mono) auto
  then have "(2::int) ^ nat (min (max 0 (f - 1)) 6) \<le> 2 ^ nat (min (max 0 (g - 1)) 6)"
    by (rule power_increasing) simp
  moreover have "(1::int) \<le> 2 ^ nat (min (max 0 (f - 1)) 6)" by simp
  ultimately show ?thesis using assms(1,2)
    unfolding backoff_ms_def by (intro conjI) linarith+
qed

lemma drain_loop_bound: "fst (drain_loop i n stopping deliver s) \<le> i + n"
proof (induction n arbitrary: i s)
  case 0
  show ?case by simp
next
  case (Suc n)
  obtain b s' where d: "deliver i s = (b, s')" by fastforce
  show ?case using Suc.IH [of "Suc i" s'] by (cases b) (simp_all add: d)
qed

text \<open>One pass never monopolises a worker: it attempts at most eight deliveries for a destination.\<close>

theorem drain_is_bounded: "fst (drain_destination stopping deliver s) \<le> 8"
  using drain_loop_bound [of 0 8] by (simp add: drain_destination_def SUCCESS_CLAIMS_PER_PASS_def)

end
