(* ===== verification/RoleChanges.thy ===== *)
theory RoleChanges
  imports Outbox
begin

text \<open>
  \<open>src/rbac/roleChanges.ts\<close>: the per-client authority state and the publication of effective role
  changes.  One call compares the resolved roles of the live identities with the ledger
  \<open>app_role_effective\<close>, advances the authority revision once per client that changed, writes one
  event per changed subject to the outbox and brings the ledger up to date, all on the caller's
  transaction.
\<close>

datatype role_fault =
    AuthorityClientUnavailable
  | RevisionExhausted
  | OutboxFault outbox_error

definition ensure_role_sync_state :: "(nat \<Rightarrow> string) \<Rightarrow> string \<Rightarrow> db \<Rightarrow> role_fault + sync_state \<times> db" where
  "ensure_role_sync_state uuid cid d =
    (case tget (app_role_sync_state d) cid of
       Some st \<Rightarrow> Inr (st, d)
     | None \<Rightarrow>
       (case tget (oauth_clients d) cid of
          None \<Rightarrow> Inl AuthorityClientUnavailable
        | Some _ \<Rightarrow>
            let st = \<lparr>ss_mode = Legacy, ss_epoch = None, ss_revision = None, ss_digest = None,
                  ss_last_iat = (case tget (app_role_catalogs d) cid of None \<Rightarrow> 0 | Some c \<Rightarrow> cat_last_iat c),
                  ss_authority_epoch = uuid (uuid_seq d), ss_authority_revision = 0\<rparr>
            in Inr (st, d\<lparr>app_role_sync_state := tput cid st (app_role_sync_state d),
                          uuid_seq := Suc (uuid_seq d)\<rparr>)))"

section \<open>Comparing roles with the ledger\<close>

record effective_change =
  ec_sub :: string
  ec_role :: "int option"
  ec_managed :: bool
  ec_known :: bool
  ec_previous_role :: "int option"
  ec_previous_managed :: "bool option"

text \<open>The \<open>CASE\<close> of the common table expression, for a client with a catalog.\<close>

definition raw_role :: "db \<Rightarrow> string \<Rightarrow> app_catalog \<Rightarrow> string \<Rightarrow> int option" where
  "raw_role d cid cat sub =
    (case tget (user_app_role_overrides d) (sub, cid) of
       Some ov \<Rightarrow> ov
     | None \<Rightarrow> (case org_layer d sub cid of Some od \<Rightarrow> od | None \<Rightarrow> cat_default cat))"

text \<open>The left join with \<open>app_roles\<close>: a role that is not in the catalog reads as no access.\<close>

definition known_role :: "db \<Rightarrow> string \<Rightarrow> int option \<Rightarrow> int option" where
  "known_role d cid role = (case role of
      None \<Rightarrow> None
    | Some r \<Rightarrow> if tget (app_roles d) (cid, r) = None then None else Some r)"

definition live_subjects :: "db \<Rightarrow> string list option \<Rightarrow> string list" where
  "live_subjects d subjects =
    sort (map fst (filter (\<lambda>(sub, i). i_deleted_at i = None
      \<and> (case subjects of None \<Rightarrow> True | Some ss \<Rightarrow> sub \<in> set (map lower ss))) (identities d)))"

definition effective_change_of :: "db \<Rightarrow> string \<Rightarrow> app_catalog \<Rightarrow> string \<Rightarrow> effective_change" where
  "effective_change_of d cid cat sub =
    (let previous = tget (app_role_effective d) (cid, sub)
     in \<lparr>ec_sub = sub, ec_role = known_role d cid (raw_role d cid cat sub), ec_managed = True,
         ec_known = (previous \<noteq> None),
         ec_previous_role = (case previous of None \<Rightarrow> None | Some p \<Rightarrow> eff_role p),
         ec_previous_managed = map_option eff_managed previous\<rparr>)"

definition effective_rows :: "db \<Rightarrow> string \<Rightarrow> string list option \<Rightarrow> effective_change list" where
  "effective_rows d cid subjects =
    (case tget (app_role_catalogs d) cid of
       None \<Rightarrow> []
     | Some cat \<Rightarrow> map (effective_change_of d cid cat) (live_subjects d subjects))"

definition row_changed :: "bool \<Rightarrow> string list \<Rightarrow> effective_change \<Rightarrow> bool" where
  "row_changed force forced row = (force \<or> ec_sub row \<in> set forced \<or> \<not> ec_known row
     \<or> ec_role row \<noteq> ec_previous_role row \<or> Some (ec_managed row) \<noteq> ec_previous_managed row)"

section \<open>Publishing\<close>

fun chunks :: "nat \<Rightarrow> 'a list \<Rightarrow> 'a list list" where
  "chunks n [] = []"
| "chunks n (x # xs) = (x # take (n - 1) xs) # chunks n (drop (n - 1) xs)"

definition role_change_event :: "string \<Rightarrow> int \<Rightarrow> effective_change \<Rightarrow> out_event" where
  "role_change_event epoch revision row =
    \<lparr>oe_type = ''account.roles_change'',
     oe_payload = JObj [(''sub'', JStr (ec_sub row)),
        (''role_id'', case ec_role row of None \<Rightarrow> JNull | Some r \<Rightarrow> JInt r),
        (''authority_epoch'', JStr epoch), (''authority_revision'', JStr (show_int revision))],
     oe_version = Some (show_int revision), oe_id = None\<rparr>"

definition ledger_row :: "int \<Rightarrow> effective_change \<Rightarrow> effective_row" where
  "ledger_row revision row = \<lparr>eff_role = ec_role row, eff_managed = ec_managed row, eff_revision = revision\<rparr>"

definition write_ledger :: "string \<Rightarrow> int \<Rightarrow> effective_change list \<Rightarrow> db \<Rightarrow> db" where
  "write_ledger cid revision rows d =
    d\<lparr>app_role_effective := fold (\<lambda>row. tput (cid, ec_sub row) (ledger_row revision row)) rows (app_role_effective d)\<rparr>"

definition outbox_fault :: "outbox_error + 'a \<Rightarrow> role_fault + 'a" where
  "outbox_fault r = (case r of Inl e \<Rightarrow> Inl (OutboxFault e) | Inr a \<Rightarrow> Inr a)"

definition publish_chunk ::
  "(nat \<Rightarrow> string) \<Rightarrow> int \<Rightarrow> string \<Rightarrow> string \<Rightarrow> int \<Rightarrow> effective_change list \<Rightarrow> db \<Rightarrow> role_fault + db" where
  "publish_chunk uuid now cid epoch revision part d =
    rbind (outbox_fault (insert_events uuid now cid (map (role_change_event epoch revision) part) d))
      (\<lambda>(_, d). Inr (write_ledger cid revision part d))"

definition advance_revision :: "string \<Rightarrow> db \<Rightarrow> role_fault + int \<times> db" where
  "advance_revision cid d =
    (case tget (app_role_sync_state d) cid of
       None \<Rightarrow> Inl RevisionExhausted
     | Some st \<Rightarrow>
         if ss_authority_revision st < MAX_BIGINT then
           let r = ss_authority_revision st + 1
           in Inr (r, d\<lparr>app_role_sync_state := tput cid (st\<lparr>ss_authority_revision := r\<rparr>) (app_role_sync_state d)\<rparr>)
         else Inl RevisionExhausted)"

record publish_options =
  po_force :: bool
  po_force_subjects :: "string list"

definition no_options :: publish_options where
  "no_options = \<lparr>po_force = False, po_force_subjects = []\<rparr>"

definition changed_rows :: "db \<Rightarrow> string \<Rightarrow> string list option \<Rightarrow> publish_options \<Rightarrow> effective_change list" where
  "changed_rows d cid subjects opts =
    filter (row_changed (po_force opts) (po_force_subjects opts)) (effective_rows d cid subjects)"

definition publish_client ::
  "(nat \<Rightarrow> string) \<Rightarrow> int \<Rightarrow> string list option \<Rightarrow> publish_options \<Rightarrow> string \<Rightarrow> nat \<times> db
     \<Rightarrow> role_fault + nat \<times> db" where
  "publish_client uuid now subjects opts cid cd =
    (case cd of (tally, d) \<Rightarrow>
      rbind (ensure_role_sync_state uuid cid d) (\<lambda>(st, d).
      let changed = changed_rows d cid subjects opts
      in if changed = [] then Inr (tally, d)
         else
           rbind (advance_revision cid d) (\<lambda>(revision, d).
           rbind (rfold (publish_chunk uuid now cid (ss_authority_epoch st) revision) (chunks 100 changed) d)
             (\<lambda>d. Inr (tally + length changed, d)))))"

definition publish_role_changes ::
  "(nat \<Rightarrow> string) \<Rightarrow> int \<Rightarrow> string list \<Rightarrow> string list option \<Rightarrow> publish_options \<Rightarrow> db
     \<Rightarrow> role_fault + nat \<times> db" where
  "publish_role_changes uuid now clients subjects opts d =
    rfold (publish_client uuid now subjects opts) (sort (remdups clients)) (0, d)"

section \<open>Chunks\<close>

lemma concat_chunks: "0 < n \<Longrightarrow> concat (chunks n xs) = xs"
  by (induction n xs rule: chunks.induct) (auto simp: append_take_drop_id)

lemma chunk_sizes: "0 < n \<Longrightarrow> c \<in> set (chunks n xs) \<Longrightarrow> c \<noteq> [] \<and> length c \<le> n"
  by (induction n xs rule: chunks.induct) auto

section \<open>One resolution in three places\<close>

definition resolved_role :: "db \<Rightarrow> string \<Rightarrow> string \<Rightarrow> int option" where
  "resolved_role d cid sub = known_role d cid (ea_role_id (effective_app_role d sub cid))"

lemma raw_role_chain:
  "tget (app_role_catalogs d) cid = Some cat \<Longrightarrow> raw_role d cid cat sub = ea_role_id (effective_app_role d sub cid)"
  by (auto simp: raw_role_def effective_app_role_def split: option.splits)

lemma access_iff_resolved:
  "has_app_catalog d cid \<Longrightarrow> app_access_allowed d cid sub \<longleftrightarrow> resolved_role d cid sub \<noteq> None"
  by (auto simp: app_access_allowed_def resolved_role_def known_role_def split: option.splits)

lemma resolved_frame: "same_role_tables d d' \<Longrightarrow> resolved_role d' cid sub = resolved_role d cid sub"
  by (simp add: same_role_tables_def resolved_role_def known_role_def effective_app_role_def org_layer_def
      cong: option.case_cong)

lemma raw_frame: "same_role_tables d d' \<Longrightarrow> raw_role d' cid cat sub = raw_role d cid cat sub"
  by (simp add: same_role_tables_def raw_role_def org_layer_def cong: option.case_cong)

lemma live_subjects_frame: "same_role_tables d d' \<Longrightarrow> live_subjects d' ss = live_subjects d ss"
  by (simp add: same_role_tables_def live_subjects_def)

lemma live_subjects_None:
  "tget (identities d) sub = Some i \<Longrightarrow> i_deleted_at i = None \<Longrightarrow> sub \<in> set (live_subjects d None)"
  by (force simp: live_subjects_def tget_def dest: map_of_SomeD)

section \<open>What a publication does\<close>

lemma ensure_frame:
  "ensure_role_sync_state uuid cid d = Inr (st, d') \<Longrightarrow>
     same_role_tables d d' \<and> app_role_effective d' = app_role_effective d \<and> event_outbox d' = event_outbox d
     \<and> tget (app_role_sync_state d') cid = Some st
     \<and> (\<forall>c. c \<noteq> cid \<longrightarrow> tget (app_role_sync_state d') c = tget (app_role_sync_state d) c)
     \<and> (\<forall>s. tget (app_role_sync_state d) cid = Some s \<longrightarrow> st = s \<and> d' = d)
     \<and> (tget (app_role_sync_state d) cid = None \<longrightarrow> ss_authority_revision st = 0)"
  by (auto simp: ensure_role_sync_state_def same_role_tables_def tbl_simps Let_def split: option.splits)

lemma advance_frame:
  "advance_revision cid d = Inr (r, d') \<Longrightarrow>
     same_role_tables d d' \<and> app_role_effective d' = app_role_effective d \<and> event_outbox d' = event_outbox d
     \<and> (\<exists>st. tget (app_role_sync_state d) cid = Some st \<and> r = ss_authority_revision st + 1
          \<and> tget (app_role_sync_state d') cid = Some (st\<lparr>ss_authority_revision := r\<rparr>))
     \<and> (\<forall>c. c \<noteq> cid \<longrightarrow> tget (app_role_sync_state d') c = tget (app_role_sync_state d) c)"
  by (auto simp: advance_revision_def same_role_tables_def tbl_simps Let_def split: option.splits if_splits)

lemma ledger_fold:
  "tget (fold (\<lambda>row. tput (cid, ec_sub row) (ledger_row rn row)) rows t) (c, s) =
     (if c = cid \<and> s \<in> ec_sub ` set rows
      then Some (ledger_row rn (last (filter (\<lambda>r. ec_sub r = s) rows))) else tget t (c, s))"
proof (induction rows arbitrary: t)
  case Nil
  show ?case by simp
next
  case (Cons r rows)
  show ?case unfolding fold_simps Cons.IH
    by (auto simp: tbl_simps filter_empty_conv image_iff)
qed

lemma chunk_frame:
  assumes "publish_chunk uuid now cid epoch rn part d = Inr d'"
  shows "same_role_tables d d'" and "app_role_sync_state d' = app_role_sync_state d"
    and "outbox_grows cid d d'"
    and "app_role_effective d' = fold (\<lambda>row. tput (cid, ec_sub row) (ledger_row rn row)) part (app_role_effective d)"
proof -
  obtain ids d1 where i: "insert_events uuid now cid (map (role_change_event epoch rn) part) d = Inr (ids, d1)"
    and w: "d' = write_ledger cid rn part d1"
    using assms by (auto simp: publish_chunk_def outbox_fault_def res_simps split: sum.splits)
  from insert_events_frame [OF i] w
  show "same_role_tables d d'" "app_role_sync_state d' = app_role_sync_state d" "outbox_grows cid d d'"
    "app_role_effective d' = fold (\<lambda>row. tput (cid, ec_sub row) (ledger_row rn row)) part (app_role_effective d)"
    by (auto simp: write_ledger_def same_role_tables_def same_sync_tables_def outbox_grows_def)
qed

lemma chunks_frame:
  assumes "rfold (publish_chunk uuid now cid epoch rn) parts d = Inr d'"
  shows "same_role_tables d d' \<and> app_role_sync_state d' = app_role_sync_state d \<and> outbox_grows cid d d'
    \<and> app_role_effective d' =
       fold (\<lambda>row. tput (cid, ec_sub row) (ledger_row rn row)) (concat parts) (app_role_effective d)"
  using assms
proof (induction parts arbitrary: d)
  case Nil
  then show ?case by (simp add: same_role_tables_refl outbox_grows_refl)
next
  case (Cons p parts)
  then obtain d1 where d1: "publish_chunk uuid now cid epoch rn p d = Inr d1"
    and r: "rfold (publish_chunk uuid now cid epoch rn) parts d1 = Inr d'"
    by (auto simp: res_simps)
  show ?case using chunk_frame [OF d1] Cons.IH [OF r]
    by (auto intro: same_role_tables_trans outbox_grows_trans)
qed


section \<open>One client\<close>

lemma publish_client_cases:
  assumes "publish_client uuid now ss opts cid (t, d) = Inr (t', d')"
  obtains (quiet) st where "ensure_role_sync_state uuid cid d = Inr (st, d')" and "changed_rows d' cid ss opts = []" and "t' = t"
  | (published) st d1 rn d2 where "ensure_role_sync_state uuid cid d = Inr (st, d1)"
      and "changed_rows d1 cid ss opts \<noteq> []" and "advance_revision cid d1 = Inr (rn, d2)"
      and "rfold (publish_chunk uuid now cid (ss_authority_epoch st) rn) (chunks 100 (changed_rows d1 cid ss opts)) d2 = Inr d'"
      and "t' = t + length (changed_rows d1 cid ss opts)"
  using assms by (auto simp: publish_client_def res_simps Let_def split: if_splits)

lemma effective_rows_frame:
  "same_role_tables d d' \<Longrightarrow> \<forall>s. tget (app_role_effective d') (cid, s) = tget (app_role_effective d) (cid, s)
     \<Longrightarrow> effective_rows d' cid ss = effective_rows d cid ss"
proof -
  assume f: "same_role_tables d d'" and e: "\<forall>s. tget (app_role_effective d') (cid, s) = tget (app_role_effective d) (cid, s)"
  have "effective_change_of d' cid cat sub = effective_change_of d cid cat sub" for cat sub
    unfolding effective_change_of_def Let_def raw_frame [OF f] e [rule_format]
    using f by (simp add: same_role_tables_def known_role_def cong: option.case_cong)
  then have "effective_change_of d' cid = effective_change_of d cid" by blast
  then show ?thesis using f live_subjects_frame [OF f]
    by (simp add: effective_rows_def same_role_tables_def cong: option.case_cong)
qed

lemma changed_rows_frame:
  "same_role_tables d d' \<Longrightarrow> \<forall>s. tget (app_role_effective d') (cid, s) = tget (app_role_effective d) (cid, s)
     \<Longrightarrow> changed_rows d' cid ss opts = changed_rows d cid ss opts"
  by (simp add: changed_rows_def effective_rows_frame)

definition ledger_current :: "db \<Rightarrow> string \<Rightarrow> string \<Rightarrow> bool" where
  "ledger_current d cid sub = (case tget (app_role_effective d) (cid, sub) of
      None \<Rightarrow> False | Some e \<Rightarrow> eff_role e = resolved_role d cid sub \<and> eff_managed e)"

lemma ledger_current_frame:
  "same_role_tables d d' \<Longrightarrow> tget (app_role_effective d') (cid, sub) = tget (app_role_effective d) (cid, sub)
     \<Longrightarrow> ledger_current d' cid sub = ledger_current d cid sub"
  by (simp add: ledger_current_def resolved_frame cong: option.case_cong)

lemma effective_rowsE:
  assumes "row \<in> set (effective_rows d cid ss)"
  obtains cat where "tget (app_role_catalogs d) cid = Some cat"
    and "row = effective_change_of d cid cat (ec_sub row)" and "ec_sub row \<in> set (live_subjects d ss)"
proof (cases "tget (app_role_catalogs d) cid")
  case None
  then show ?thesis using assms by (simp add: effective_rows_def)
next
  case (Some cat)
  with assms obtain x where x: "x \<in> set (live_subjects d ss)" "row = effective_change_of d cid cat x"
    by (auto simp: effective_rows_def)
  moreover from x(2) have "ec_sub row = x" by (simp add: effective_change_of_def Let_def)
  ultimately show ?thesis using that Some by simp
qed

lemma effective_rows_member:
  assumes "row \<in> set (effective_rows d cid ss)"
  shows "ec_role row = resolved_role d cid (ec_sub row)" and "ec_managed row"
    and "ec_sub row \<in> set (live_subjects d ss)" and "has_app_catalog d cid"
proof -
  obtain cat where c: "tget (app_role_catalogs d) cid = Some cat"
    and r: "row = effective_change_of d cid cat (ec_sub row)" and l: "ec_sub row \<in> set (live_subjects d ss)"
    using assms by (rule effective_rowsE)
  show "ec_role row = resolved_role d cid (ec_sub row)"
    by (subst r) (simp add: effective_change_of_def Let_def resolved_role_def raw_role_chain [OF c])
  show "ec_managed row" by (subst r) (simp add: effective_change_of_def Let_def)
  show "ec_sub row \<in> set (live_subjects d ss)" by (rule l)
  show "has_app_catalog d cid" using c by (simp add: has_app_catalog_def)
qed

lemma effective_rows_complete:
  assumes "has_app_catalog d cid" and "sub \<in> set (live_subjects d ss)"
  obtains row where "row \<in> set (effective_rows d cid ss)" and "ec_sub row = sub"
proof -
  obtain cat where "tget (app_role_catalogs d) cid = Some cat"
    using assms(1) by (auto simp: has_app_catalog_def)
  then have "effective_change_of d cid cat sub \<in> set (effective_rows d cid ss)"
    using assms(2) by (simp add: effective_rows_def)
  then show ?thesis by (rule that) (simp add: effective_change_of_def Let_def)
qed

text \<open>A row counts as changed, without force, exactly when the ledger does not hold the resolved role.\<close>

lemma row_changed_iff:
  assumes "row \<in> set (effective_rows d cid ss)"
  shows "row_changed force forced row \<longleftrightarrow>
    force \<or> ec_sub row \<in> set forced \<or> \<not> ledger_current d cid (ec_sub row)"
proof -
  obtain cat where r: "row = effective_change_of d cid cat (ec_sub row)"
    using assms by (rule effective_rowsE)
  have m: "ec_role row = resolved_role d cid (ec_sub row)" "ec_managed row"
    using effective_rows_member [OF assms] by auto
  have k: "ec_known row = (tget (app_role_effective d) (cid, ec_sub row) \<noteq> None)"
    "ec_previous_role row = (case tget (app_role_effective d) (cid, ec_sub row) of None \<Rightarrow> None | Some p \<Rightarrow> eff_role p)"
    "ec_previous_managed row = map_option eff_managed (tget (app_role_effective d) (cid, ec_sub row))"
    by (subst r, simp add: effective_change_of_def Let_def)+
  show ?thesis
    by (cases "tget (app_role_effective d) (cid, ec_sub row)")
       (auto simp: row_changed_def ledger_current_def m k)
qed

lemma ledger_fold_current:
  assumes "tget (app_role_effective d') (cid, s) = tget (fold (\<lambda>row. tput (cid, ec_sub row) (ledger_row rn row)) rows t) (cid, s)"
    and "s \<in> ec_sub ` set rows" and "\<forall>row \<in> set rows. ec_role row = resolved_role d' cid (ec_sub row) \<and> ec_managed row"
  shows "ledger_current d' cid s"
proof -
  have "filter (\<lambda>r. ec_sub r = s) rows \<noteq> []" using assms(2) by (auto simp: filter_empty_conv)
  then have "last (filter (\<lambda>r. ec_sub r = s) rows) \<in> set (filter (\<lambda>r. ec_sub r = s) rows)" by (rule last_in_set)
  moreover have "tget (app_role_effective d') (cid, s) = Some (ledger_row rn (last (filter (\<lambda>r. ec_sub r = s) rows)))"
    using assms(1,2) by (simp add: ledger_fold)
  ultimately show ?thesis using assms(3) by (simp add: ledger_current_def ledger_row_def)
qed

text \<open>The frame of one client's publication: nothing about other clients moves.\<close>

definition client_step :: "string \<Rightarrow> db \<Rightarrow> db \<Rightarrow> bool" where
  "client_step cid d d' = (same_role_tables d d' \<and> outbox_grows cid d d'
    \<and> (\<forall>c s. c \<noteq> cid \<longrightarrow> tget (app_role_effective d') (c, s) = tget (app_role_effective d) (c, s))
    \<and> (\<forall>c. c \<noteq> cid \<longrightarrow> tget (app_role_sync_state d') c = tget (app_role_sync_state d) c)
    \<and> tget (app_role_sync_state d') cid \<noteq> None)"

lemma publish_client_step:
  assumes "publish_client uuid now ss opts cid (t, d) = Inr (t', d')"
  shows "client_step cid d d'"
  using assms
proof (cases rule: publish_client_cases)
  case (quiet st)
  then show ?thesis using ensure_frame [OF quiet(1)] by (simp add: client_step_def outbox_grows_def)
next
  case (published st d1 rn d2)
  note e = ensure_frame [OF published(1)] and a = advance_frame [OF published(3)]
    and c = chunks_frame [OF published(4)]
  have "same_role_tables d d1" "same_role_tables d1 d2" "same_role_tables d2 d'" using e a c by simp_all
  then have "same_role_tables d d'" by (blast intro: same_role_tables_trans)
  moreover have "outbox_grows cid d d'" using e a c by (simp add: outbox_grows_def)
  moreover have "\<forall>c s. c \<noteq> cid \<longrightarrow> tget (app_role_effective d') (c, s) = tget (app_role_effective d) (c, s)"
    using e a c by (simp add: ledger_fold)
  moreover have "\<forall>c. c \<noteq> cid \<longrightarrow> tget (app_role_sync_state d') c = tget (app_role_sync_state d) c"
  proof (intro allI impI)
    fix k assume k: "k \<noteq> cid"
    have "tget (app_role_sync_state d1) k = tget (app_role_sync_state d) k" using e k by simp
    moreover have "tget (app_role_sync_state d2) k = tget (app_role_sync_state d1) k" using a k by simp
    ultimately show "tget (app_role_sync_state d') k = tget (app_role_sync_state d) k" using c by simp
  qed
  moreover have "tget (app_role_sync_state d') cid \<noteq> None"
  proof -
    have "tget (app_role_sync_state d2) cid \<noteq> None" using a by auto
    then show ?thesis using c by simp
  qed
  ultimately show ?thesis unfolding client_step_def by blast
qed

lemma catalog_frame: "same_role_tables d d' \<Longrightarrow> has_app_catalog d' cid = has_app_catalog d cid"
  by (simp add: has_app_catalog_def same_role_tables_def)

lemma changed_rows_subset: "set (changed_rows d cid ss opts) \<subseteq> set (effective_rows d cid ss)"
  by (auto simp: changed_rows_def)

lemma publish_client_current:
  assumes "publish_client uuid now ss opts cid (t, d) = Inr (t', d')"
    and "has_app_catalog d cid" and "s \<in> set (live_subjects d ss)"
  shows "ledger_current d' cid s"
  using assms(1)
proof (cases rule: publish_client_cases)
  case (quiet st)
  have fr: "same_role_tables d d'" using ensure_frame [OF quiet(1)] by simp
  have "has_app_catalog d' cid" "s \<in> set (live_subjects d' ss)"
    using assms(2,3) live_subjects_frame [OF fr] catalog_frame [OF fr] by simp_all
  then obtain row where row: "row \<in> set (effective_rows d' cid ss)" "ec_sub row = s"
    by (rule effective_rows_complete)
  then have "\<not> row_changed (po_force opts) (po_force_subjects opts) row"
    using quiet(2) by (auto simp: changed_rows_def filter_empty_conv)
  then show ?thesis using row_changed_iff [OF row(1)] row(2) by simp
next
  case (published st d1 rn d2)
  let ?rows = "changed_rows d1 cid ss opts"
  note e = ensure_frame [OF published(1)] and a = advance_frame [OF published(3)]
    and c = chunks_frame [OF published(4)]
  have "same_role_tables d1 d2" "same_role_tables d2 d'" using a c by simp_all
  then have f1: "same_role_tables d1 d'" by (rule same_role_tables_trans)
  have ledger: "app_role_effective d' = fold (\<lambda>row. tput (cid, ec_sub row) (ledger_row rn row)) ?rows (app_role_effective d1)"
    using a c by (simp add: concat_chunks)
  have f0: "same_role_tables d d1" using e by simp
  have "has_app_catalog d1 cid" "s \<in> set (live_subjects d1 ss)"
    using assms(2,3) live_subjects_frame [OF f0] catalog_frame [OF f0] by simp_all
  then obtain row where row: "row \<in> set (effective_rows d1 cid ss)" "ec_sub row = s"
    by (rule effective_rows_complete)
  show ?thesis
  proof (cases "s \<in> ec_sub ` set ?rows")
    case True
    have "ec_role row = resolved_role d' cid (ec_sub row) \<and> ec_managed row" if "row \<in> set ?rows" for row
    proof -
      have "row \<in> set (effective_rows d1 cid ss)" using that changed_rows_subset by blast
      then show ?thesis using effective_rows_member(1,2) resolved_frame [OF f1] by simp
    qed
    then have all: "\<forall>row \<in> set ?rows. ec_role row = resolved_role d' cid (ec_sub row) \<and> ec_managed row"
      by (intro ballI)
    show ?thesis by (rule ledger_fold_current [OF _ True all]) (simp only: ledger)
  next
    case False
    then have "\<not> row_changed (po_force opts) (po_force_subjects opts) row"
      using row by (auto simp: changed_rows_def)
    then have "ledger_current d1 cid s" using row_changed_iff [OF row(1)] row(2) by simp
    then show ?thesis using False ledger ledger_current_frame [OF f1] by (simp add: ledger_fold)
  qed
qed

lemma current_publish_quiet:
  assumes "\<forall>s \<in> set (live_subjects d None). has_app_catalog d cid \<longrightarrow> ledger_current d cid s"
    and "tget (app_role_sync_state d) cid \<noteq> None"
  shows "publish_client uuid now ss no_options cid (t, d) = Inr (t, d)"
proof -
  obtain st where st: "ensure_role_sync_state uuid cid d = Inr (st, d)"
    using assms(2) by (auto simp: ensure_role_sync_state_def)
  have "set (live_subjects d ss) \<subseteq> set (live_subjects d None)" by (auto simp: live_subjects_def)
  then have "\<not> row_changed False [] row" if "row \<in> set (effective_rows d cid ss)" for row
    using that assms(1) effective_rows_member(3,4) [OF that] row_changed_iff [OF that] by auto
  then have "changed_rows d cid ss no_options = []"
    by (simp add: changed_rows_def no_options_def filter_empty_conv)
  then show ?thesis using st by (simp add: publish_client_def Let_def)
qed


section \<open>All clients of a publication\<close>

definition revision_of :: "db \<Rightarrow> string \<Rightarrow> int" where
  "revision_of d cid = (case tget (app_role_sync_state d) cid of None \<Rightarrow> 0 | Some st \<Rightarrow> ss_authority_revision st)"

lemma publish_client_revision:
  assumes "publish_client uuid now ss opts cid (t, d) = Inr (t', d')"
  shows "revision_of d' cid = revision_of d cid + (if changed_rows d cid ss opts = [] then 0 else 1)"
    and "t' = t + length (changed_rows d cid ss opts)"
  using assms
proof (atomize (full), cases rule: publish_client_cases)
  case (quiet st)
  note e = ensure_frame [OF quiet(1)]
  have "changed_rows d cid ss opts = []"
    using e quiet(2) changed_rows_frame [of d d' cid ss opts] by simp
  moreover have "revision_of d' cid = revision_of d cid"
    using e by (auto simp: revision_of_def split: option.splits)
  ultimately show "revision_of d' cid = revision_of d cid + (if changed_rows d cid ss opts = [] then 0 else 1)
      \<and> t' = t + length (changed_rows d cid ss opts)" using quiet(3) by simp
next
  case (published st d1 rn d2)
  note e = ensure_frame [OF published(1)] and a = advance_frame [OF published(3)]
    and c = chunks_frame [OF published(4)]
  have ch: "changed_rows d1 cid ss opts = changed_rows d cid ss opts"
    using e changed_rows_frame [of d d1 cid ss opts] by simp
  have "ss_authority_revision st = revision_of d cid"
    using e by (auto simp: revision_of_def split: option.splits)
  moreover have "revision_of d' cid = ss_authority_revision st + 1"
    using e a c by (auto simp: revision_of_def)
  ultimately show "revision_of d' cid = revision_of d cid + (if changed_rows d cid ss opts = [] then 0 else 1)
      \<and> t' = t + length (changed_rows d cid ss opts)" using published(2,5) ch by simp
qed

text \<open>The frame of a publication over several clients.\<close>

definition publish_step :: "string set \<Rightarrow> db \<Rightarrow> db \<Rightarrow> bool" where
  "publish_step cs d d' = (same_role_tables d d'
    \<and> (\<forall>c s. c \<notin> cs \<longrightarrow> tget (app_role_effective d') (c, s) = tget (app_role_effective d) (c, s))
    \<and> (\<forall>c. c \<notin> cs \<longrightarrow> tget (app_role_sync_state d') c = tget (app_role_sync_state d) c)
    \<and> (\<exists>new. event_outbox d' = event_outbox d @ new \<and> (\<forall>r \<in> set new. ob_status r = Pending \<and> ob_target r \<in> cs)))"

lemma publish_step_refl: "publish_step {} d d"
  by (simp add: publish_step_def same_role_tables_refl)

lemma publish_step_Cons:
  assumes "client_step c d d1" and "publish_step cs d1 d'"
  shows "publish_step (insert c cs) d d'"
proof -
  have "same_role_tables d d1" "same_role_tables d1 d'"
    using assms by (simp_all add: client_step_def publish_step_def)
  then have "same_role_tables d d'" by (rule same_role_tables_trans)
  moreover have "\<exists>new. event_outbox d' = event_outbox d @ new \<and> (\<forall>r \<in> set new. ob_status r = Pending \<and> ob_target r \<in> insert c cs)"
  proof -
    obtain n1 n2 where "event_outbox d1 = event_outbox d @ n1" "\<forall>r \<in> set n1. ob_status r = Pending \<and> ob_target r = c"
      "event_outbox d' = event_outbox d1 @ n2" "\<forall>r \<in> set n2. ob_status r = Pending \<and> ob_target r \<in> cs"
      using assms by (auto simp: client_step_def publish_step_def outbox_grows_def)
    then show ?thesis by (intro exI [of _ "n1 @ n2"]) auto
  qed
  ultimately show ?thesis using assms by (simp add: client_step_def publish_step_def)
qed

lemma publish_all_step: "rfold (publish_client uuid now ss opts) cs (t, d) = Inr (t', d') \<Longrightarrow> publish_step (set cs) d d'"
proof (induction cs arbitrary: t d)
  case Nil
  then show ?case by (simp add: publish_step_refl)
next
  case (Cons c cs)
  then obtain t1 d1 where "publish_client uuid now ss opts c (t, d) = Inr (t1, d1)"
    and r: "rfold (publish_client uuid now ss opts) cs (t1, d1) = Inr (t', d')"
    by (auto simp: res_simps)
  then show ?case using publish_step_Cons [OF publish_client_step Cons.IH [OF r]] by simp
qed

text \<open>Each client of the list is published once; the others of the list do not disturb it.\<close>

lemma publish_all_member:
  assumes "rfold (publish_client uuid now ss opts) cs (t, d) = Inr (t', d')" and "distinct cs" and "c \<in> set cs"
  obtains t1 d1 t2 d2 pre post where "publish_client uuid now ss opts c (t1, d1) = Inr (t2, d2)"
    and "publish_step (set pre) d d1" and "publish_step (set post) d2 d'"
    and "c \<notin> set pre" and "c \<notin> set post"
proof -
  obtain pre post where cs: "cs = pre @ c # post" "c \<notin> set pre" using assms(3) split_list_first by metis
  from assms(1) cs obtain t1 d1 t2 d2
    where p: "rfold (publish_client uuid now ss opts) pre (t, d) = Inr (t1, d1)"
      and m: "publish_client uuid now ss opts c (t1, d1) = Inr (t2, d2)"
      and q: "rfold (publish_client uuid now ss opts) post (t2, d2) = Inr (t', d')"
    by (auto simp: rfold_append res_simps)
  show ?thesis
    by (rule that [OF m publish_all_step [OF p] publish_all_step [OF q]]) (use cs assms(2) in auto)
qed


lemma publish_ledger:
  assumes "publish_role_changes uuid now clients ss opts d = Inr (n, d')"
    and "c \<in> set clients" and "has_app_catalog d c" and "s \<in> set (live_subjects d ss)"
  shows "ledger_current d' c s" and "tget (app_role_sync_state d') c \<noteq> None"
proof -
  have "c \<in> set (sort (remdups clients))" "distinct (sort (remdups clients))" using assms(2) by simp_all
  with assms(1) obtain t1 d1 t2 d2 pre post where m: "publish_client uuid now ss opts c (t1, d1) = Inr (t2, d2)"
    and p: "publish_step (set pre) d d1" and q: "publish_step (set post) d2 d'" and n: "c \<notin> set pre" "c \<notin> set post"
    unfolding publish_role_changes_def by (elim publish_all_member) blast+
  have f1: "same_role_tables d d1" and f2: "same_role_tables d2 d'" using p q by (simp_all add: publish_step_def)
  have "ledger_current d2 c s"
    using publish_client_current [OF m] assms(3,4) catalog_frame [OF f1] live_subjects_frame [OF f1] by simp
  then show "ledger_current d' c s" using ledger_current_frame [OF f2] q n by (simp add: publish_step_def)
  show "tget (app_role_sync_state d') c \<noteq> None"
    using publish_client_step [OF m] q n by (simp add: client_step_def publish_step_def)
qed

lemma publish_client_list:
  assumes "publish_role_changes uuid now clients ss opts d = Inr (n, d')" and "c \<in> set clients"
  obtains t1 d1 t2 d2 pre post where "publish_client uuid now ss opts c (t1, d1) = Inr (t2, d2)"
    and "publish_step (set pre) d d1" and "publish_step (set post) d2 d'"
    and "c \<notin> set pre" and "c \<notin> set post" and "changed_rows d1 c ss opts = changed_rows d c ss opts"
proof -
  have "c \<in> set (sort (remdups clients))" "distinct (sort (remdups clients))" using assms(2) by simp_all
  with assms(1) obtain t1 d1 t2 d2 pre post where m: "publish_client uuid now ss opts c (t1, d1) = Inr (t2, d2)"
    and p: "publish_step (set pre) d d1" and q: "publish_step (set post) d2 d'" and n: "c \<notin> set pre" "c \<notin> set post"
    unfolding publish_role_changes_def by (elim publish_all_member) blast+
  have "changed_rows d1 c ss opts = changed_rows d c ss opts"
    using p n changed_rows_frame by (simp add: publish_step_def)
  with m p q n show ?thesis using that by blast
qed

lemma revision_frame: "publish_step cs d d' \<Longrightarrow> c \<notin> cs \<Longrightarrow> revision_of d' c = revision_of d c"
  by (simp add: publish_step_def revision_of_def)

lemma publish_step_of:
  "publish_role_changes uuid now clients ss opts d = Inr (n, d') \<Longrightarrow> publish_step (set clients) d d'"
  unfolding publish_role_changes_def using publish_all_step [of uuid now ss opts "sort (remdups clients)" 0 d n d'] by simp

section \<open>Events of a publication\<close>

definition event_version :: "out_event \<Rightarrow> string" where
  "event_version e = (case oe_version e of None \<Rightarrow> ''0'' | Some v \<Rightarrow> v)"

lemma normalize_covers:
  "normalize_events uuid evs n = Inr (es, m) \<Longrightarrow> e \<in> set evs \<Longrightarrow>
     \<exists>x \<in> set es. we_type x = oe_type e \<and> we_payload x = oe_payload e
       \<and> ne_version x = event_version e"
proof (induction evs arbitrary: n es m)
  case Nil
  then show ?case by simp
next
  case (Cons a evs)
  then obtain x xs where x: "normalized_event a (case oe_id a of Some i \<Rightarrow> i | None \<Rightarrow> uuid n) = Inr x"
    and xs: "normalize_events uuid evs (if oe_id a = None then Suc n else n) = Inr (xs, m)" and es: "es = x # xs"
    by (auto simp: res_simps Let_def)
  show ?case
  proof (cases "e = a")
    case True
    then show ?thesis using x es by (auto simp: normalized_event_def event_version_def Let_def split: if_splits)
  next
    case False
    then show ?thesis using Cons.IH [OF xs] Cons.prems(2) es by auto
  qed
qed

lemma normalize_only:
  "normalize_events uuid evs n = Inr (es, m) \<Longrightarrow> x \<in> set es \<Longrightarrow>
     \<exists>e \<in> set evs. we_type x = oe_type e \<and> ne_version x = event_version e"
proof (induction evs arbitrary: n es m)
  case Nil
  then show ?case by simp
next
  case (Cons a evs)
  then obtain y xs where y: "normalized_event a (case oe_id a of Some i \<Rightarrow> i | None \<Rightarrow> uuid n) = Inr y"
    and xs: "normalize_events uuid evs (if oe_id a = None then Suc n else n) = Inr (xs, m)" and es: "es = y # xs"
    by (auto simp: res_simps Let_def)
  show ?case
  proof (cases "x = y")
    case True
    then show ?thesis using y by (auto simp: normalized_event_def event_version_def Let_def split: if_splits)
  next
    case False
    then show ?thesis using Cons.IH [OF xs] Cons.prems(2) es by auto
  qed
qed

text \<open>The row in the outbox that stands for an event.\<close>

definition row_of_event :: "string \<Rightarrow> out_event \<Rightarrow> outbox_row \<Rightarrow> bool" where
  "row_of_event cid e r = (ob_target r = cid \<and> ob_kind r = oe_type e \<and> jsonb_eq (ob_payload r) (oe_payload e)
     \<and> ob_version r = big_int (event_version e))"

lemma insert_events_rows:
  assumes "insert_events uuid now cid evs d = Inr (ids, d')" and "e \<in> set evs"
  shows "\<exists>r \<in> set (event_outbox d'). row_of_event cid e r"
proof -
  from assms(1) obtain es n d1 where nm: "normalize_events uuid evs (uuid_seq d) = Inr (es, n)"
    and r: "rfold (insert_event now cid) es d1 = Inr d'"
    by (auto simp: insert_events_def res_simps Let_def)
  obtain x where x: "x \<in> set es" "we_type x = oe_type e" "we_payload x = oe_payload e"
    "ne_version x = event_version e"
    using normalize_covers [OF nm assms(2)] by blast
  obtain q where q: "find_event d' (we_id x) = Some q" "same_event cid x q"
    using insert_all_stored [OF r] x(1) by (auto simp: stored_def)
  then have "q \<in> set (event_outbox d')" by (auto simp: find_event_def find_Some_iff)
  moreover have "row_of_event cid e q" using q(2) x by (simp add: same_event_def row_of_event_def)
  ultimately show ?thesis by blast
qed

definition outbox_adds :: "(outbox_row \<Rightarrow> bool) \<Rightarrow> db \<Rightarrow> db \<Rightarrow> bool" where
  "outbox_adds P d d' = (\<exists>new. event_outbox d' = event_outbox d @ new \<and> (\<forall>r \<in> set new. P r))"

lemma outbox_adds_refl: "outbox_adds P d d"
  by (simp add: outbox_adds_def)

lemma outbox_adds_trans: "outbox_adds P a b \<Longrightarrow> outbox_adds P b c \<Longrightarrow> outbox_adds P a c"
  unfolding outbox_adds_def by (elim exE conjE, rule_tac x = "new @ newa" in exI) auto

lemma insert_events_adds:
  assumes "insert_events uuid now cid evs d = Inr (ids, d')"
  shows "outbox_adds (\<lambda>r. ob_target r = cid \<and> ob_status r = Pending \<and> (\<exists>e \<in> set evs. ob_kind r = oe_type e
     \<and> ob_version r = big_int (event_version e))) d d'" (is "outbox_adds ?P d d'")
proof -
  from assms(1) obtain es n d1 where nm: "normalize_events uuid evs (uuid_seq d) = Inr (es, n)"
    and l: "(if es \<noteq> [] then lock_destination now cid (d\<lparr>uuid_seq := n\<rparr>) else Inr (d\<lparr>uuid_seq := n\<rparr>)) = Inr d1"
    and r: "rfold (insert_event now cid) es d1 = Inr d'"
    by (auto simp: insert_events_def res_simps Let_def)
  have "event_outbox d1 = event_outbox d" using l by (auto split: if_splits dest: lock_destination_outbox)
  moreover have "outbox_adds ?P d1 d'"
  proof (rule rfold_rel [OF r, of "outbox_adds ?P"])
    fix x a b
    assume x: "x \<in> set es" and i: "insert_event now cid x a = Inr b"
    obtain e where "e \<in> set evs" "we_type x = oe_type e"
      "ne_version x = event_version e"
      using normalize_only [OF nm x] by blast
    then have "?P (new_row now cid x)" by (auto simp: new_row_def)
    moreover have "event_outbox b = event_outbox a \<or> event_outbox b = event_outbox a @ [new_row now cid x]"
      using i by (auto simp: insert_event_def split: option.splits if_splits)
    ultimately show "outbox_adds ?P a b" unfolding outbox_adds_def
      by (metis append_Nil2 empty_iff empty_set set_ConsD)
  qed (auto intro: outbox_adds_refl outbox_adds_trans)
  ultimately show ?thesis by (simp add: outbox_adds_def)
qed

lemma publish_chunk_events:
  assumes "publish_chunk uuid now cid epoch rn part d = Inr d'"
  shows "\<forall>row \<in> set part. \<exists>r \<in> set (event_outbox d'). row_of_event cid (role_change_event epoch rn row) r"
    and "outbox_adds (\<lambda>r. ob_target r = cid \<and> ob_status r = Pending \<and> ob_version r = big_int (show_int rn)
        \<and> ob_kind r = ''account.roles_change'') d d'"
proof -
  obtain ids d1 where i: "insert_events uuid now cid (map (role_change_event epoch rn) part) d = Inr (ids, d1)"
    and w: "d' = write_ledger cid rn part d1"
    using assms by (auto simp: publish_chunk_def outbox_fault_def res_simps split: sum.splits)
  have o': "event_outbox d' = event_outbox d1" by (simp add: w write_ledger_def)
  show "\<forall>row \<in> set part. \<exists>r \<in> set (event_outbox d'). row_of_event cid (role_change_event epoch rn row) r"
    using insert_events_rows [OF i] by (simp add: o')
  show "outbox_adds (\<lambda>r. ob_target r = cid \<and> ob_status r = Pending \<and> ob_version r = big_int (show_int rn)
        \<and> ob_kind r = ''account.roles_change'') d d'"
    using insert_events_adds [OF i] by (fastforce simp: outbox_adds_def o' role_change_event_def event_version_def)
qed

lemma publish_chunks_events:
  "rfold (publish_chunk uuid now cid epoch rn) parts d = Inr d' \<Longrightarrow>
     (\<forall>row \<in> set (concat parts). \<exists>r \<in> set (event_outbox d'). row_of_event cid (role_change_event epoch rn row) r)
     \<and> outbox_adds (\<lambda>r. ob_target r = cid \<and> ob_status r = Pending \<and> ob_version r = big_int (show_int rn)
        \<and> ob_kind r = ''account.roles_change'') d d'"
proof (induction parts arbitrary: d)
  case Nil
  then show ?case by (simp add: outbox_adds_refl)
next
  case (Cons p parts)
  then obtain d1 where d1: "publish_chunk uuid now cid epoch rn p d = Inr d1"
    and r: "rfold (publish_chunk uuid now cid epoch rn) parts d1 = Inr d'"
    by (auto simp: res_simps)
  note ih = Cons.IH [OF r]
  have "set (event_outbox d1) \<subseteq> set (event_outbox d')" using ih by (auto simp: outbox_adds_def)
  have "\<forall>row \<in> set (concat (p # parts)). \<exists>r \<in> set (event_outbox d'). row_of_event cid (role_change_event epoch rn row) r"
  proof (intro ballI)
    fix row assume "row \<in> set (concat (p # parts))"
    then consider "row \<in> set p" | "row \<in> set (concat parts)" by auto
    then show "\<exists>r \<in> set (event_outbox d'). row_of_event cid (role_change_event epoch rn row) r"
    proof cases
      case 1
      then show ?thesis using publish_chunk_events(1) [OF d1] \<open>set (event_outbox d1) \<subseteq> set (event_outbox d')\<close> by blast
    next
      case 2
      then show ?thesis using ih by blast
    qed
  qed
  then show ?case using ih publish_chunk_events(2) [OF d1] outbox_adds_trans by blast
qed

text \<open>The invariant of the authority channel: revisions are not negative, and no role change in the
  outbox carries a revision above the current one of its client.\<close>

definition authority_ok :: "db \<Rightarrow> bool" where
  "authority_ok d = (list_all (\<lambda>(c, st). 0 \<le> ss_authority_revision st) (app_role_sync_state d)
     \<and> list_all (\<lambda>r. ob_kind r = ''account.roles_change'' \<longrightarrow> ob_version r \<le> revision_of d (ob_target r)) (event_outbox d))"

lemma set_tput: "set (tput k v t) \<subseteq> insert (k, v) (set t)"
  by (induction t) (auto simp: tput_def split: if_splits)

lemma authority_nonneg: "authority_ok d \<Longrightarrow> 0 \<le> revision_of d c"
  by (force simp: authority_ok_def revision_of_def list_all_iff tget_def split: option.splits dest: map_of_SomeD)

lemma ensure_authority:
  assumes "ensure_role_sync_state uuid cid d = Inr (st, d')" and "authority_ok d"
  shows "authority_ok d'" and "revision_of d' c = revision_of d c"
proof -
  show r: "revision_of d' c = revision_of d c" for c
    by (cases "tget (app_role_sync_state d) cid"; cases "tget (oauth_clients d) cid")
       (use assms(1) in \<open>auto simp: ensure_role_sync_state_def revision_of_def tbl_simps Let_def\<close>)
  have "event_outbox d' = event_outbox d" using ensure_frame [OF assms(1)] by simp
  moreover have "list_all (\<lambda>(c, st). 0 \<le> ss_authority_revision st) (app_role_sync_state d')"
    using assms set_tput by (fastforce simp: ensure_role_sync_state_def authority_ok_def list_all_iff Let_def split: option.splits)
  ultimately show "authority_ok d'" using assms(2) by (simp add: authority_ok_def r)
qed

lemma advance_authority:
  assumes "advance_revision cid d = Inr (rn, d')" and "authority_ok d"
  shows "authority_ok d'" and "rn = revision_of d cid + 1" and "revision_of d' cid = rn" and "0 \<le> rn"
proof -
  note f = advance_frame [OF assms(1)]
  show rn: "rn = revision_of d cid + 1" and own: "revision_of d' cid = rn" using f by (auto simp: revision_of_def)
  show pos: "0 \<le> rn" using authority_nonneg [OF assms(2), of cid] rn by simp
  have up: "revision_of d c \<le> revision_of d' c" for c
    using f rn own by (cases "c = cid") (auto simp: revision_of_def)
  obtain st where st: "tget (app_role_sync_state d) cid = Some st" "rn = ss_authority_revision st + 1"
      "app_role_sync_state d' = tput cid (st\<lparr>ss_authority_revision := rn\<rparr>) (app_role_sync_state d)"
    using assms(1) by (auto simp: advance_revision_def Let_def split: option.splits if_splits)
  have "list_all (\<lambda>(c, st). 0 \<le> ss_authority_revision st) (app_role_sync_state d')"
    using assms(2) st(3) pos set_tput by (fastforce simp: authority_ok_def list_all_iff)
  moreover have "event_outbox d' = event_outbox d" using f by simp
  ultimately show "authority_ok d'" using assms(2) up order_trans
    by (fastforce simp: authority_ok_def list_all_iff)
qed

lemma publish_client_events:
  assumes "publish_client uuid now ss opts cid (t, d) = Inr (t', d')" and "authority_ok d"
  shows "authority_ok d'"
    and "row \<in> set (changed_rows d cid ss opts) \<Longrightarrow>
      \<exists>r \<in> set (event_outbox d'). \<exists>epoch. row_of_event cid (role_change_event epoch (revision_of d' cid) row) r
        \<and> ob_version r = revision_of d' cid \<and> ob_status r = Pending"
  using assms(1)
proof (atomize (full), cases rule: publish_client_cases)
  case (quiet st)
  have "changed_rows d cid ss opts = []"
    using ensure_frame [OF quiet(1)] quiet(2) changed_rows_frame [of d d' cid ss opts] by simp
  then show "authority_ok d' \<and> (row \<in> set (changed_rows d cid ss opts) \<longrightarrow>
      (\<exists>r \<in> set (event_outbox d'). \<exists>epoch. row_of_event cid (role_change_event epoch (revision_of d' cid) row) r
        \<and> ob_version r = revision_of d' cid \<and> ob_status r = Pending))"
    using ensure_authority(1) [OF quiet(1) assms(2)] by simp
next
  case (published st d1 rn d2)
  let ?P = "\<lambda>r. ob_target r = cid \<and> ob_status r = Pending \<and> ob_version r = big_int (show_int rn)
     \<and> ob_kind r = ''account.roles_change''"
  note ok1 = ensure_authority(1) [OF published(1) assms(2)]
  note adv = advance_authority [OF published(3) ok1]
  note ev = publish_chunks_events [OF published(4)] and fr = chunks_frame [OF published(4)]
  have bi: "big_int (show_int rn) = rn" using adv(4) by (rule big_int_show)
  have rv: "revision_of d' c = revision_of d2 c" for c using fr by (simp add: revision_of_def)
  obtain new where new: "event_outbox d' = event_outbox d2 @ new" "\<forall>r \<in> set new. ?P r"
    using ev by (auto simp: outbox_adds_def)
  have "list_all (\<lambda>r. ob_kind r = ''account.roles_change'' \<longrightarrow> ob_version r \<le> revision_of d' (ob_target r)) (event_outbox d')"
    using adv(1,3) new bi by (auto simp: authority_ok_def list_all_iff rv)
  then have ok: "authority_ok d'" using adv(1) fr by (simp add: authority_ok_def)
  have "\<exists>r \<in> set (event_outbox d'). \<exists>epoch. row_of_event cid (role_change_event epoch (revision_of d' cid) row) r
        \<and> ob_version r = revision_of d' cid \<and> ob_status r = Pending"
    if "row \<in> set (changed_rows d cid ss opts)"
  proof -
    have "changed_rows d1 cid ss opts = changed_rows d cid ss opts"
      using ensure_frame [OF published(1)] changed_rows_frame [of d d1 cid ss opts] by simp
    then have "row \<in> set (concat (chunks 100 (changed_rows d1 cid ss opts)))" using that by (simp add: concat_chunks)
    then obtain r where r: "r \<in> set (event_outbox d')"
        "row_of_event cid (role_change_event (ss_authority_epoch st) rn row) r" using ev by blast
    then have v: "ob_version r = rn" and k: "ob_kind r = ''account.roles_change''" "ob_target r = cid"
      by (simp_all add: row_of_event_def role_change_event_def event_version_def bi)
    have "r \<notin> set (event_outbox d1)"
    proof
      assume "r \<in> set (event_outbox d1)"
      then have "ob_version r \<le> revision_of d1 cid" using ok1 k by (auto simp: authority_ok_def list_all_iff)
      then show False using v adv(2) by simp
    qed
    moreover have "event_outbox d2 = event_outbox d1" using advance_frame [OF published(3)] by simp
    ultimately have "ob_status r = Pending" using r(1) new by auto
    then show ?thesis using r v adv(3) rv by auto
  qed
  with ok show "authority_ok d' \<and> (row \<in> set (changed_rows d cid ss opts) \<longrightarrow>
      (\<exists>r \<in> set (event_outbox d'). \<exists>epoch. row_of_event cid (role_change_event epoch (revision_of d' cid) row) r
        \<and> ob_version r = revision_of d' cid \<and> ob_status r = Pending))" by blast
qed

lemma publish_all_authority:
  "rfold (publish_client uuid now ss opts) cs (t, d) = Inr (t', d') \<Longrightarrow> authority_ok d \<Longrightarrow> authority_ok d'"
proof (induction cs arbitrary: t d)
  case Nil
  then show ?case by simp
next
  case (Cons c cs)
  then obtain t1 d1 where p: "publish_client uuid now ss opts c (t, d) = Inr (t1, d1)"
    and r: "rfold (publish_client uuid now ss opts) cs (t1, d1) = Inr (t', d')"
    by (auto simp: res_simps)
  show ?case by (rule Cons.IH [OF r publish_client_events(1) [OF p Cons.prems(2)]])
qed

section \<open>Properties\<close>

text \<open>C27. After a publication the ledger is current: for every published client with a catalog and
  every live identity among the subjects, the ledger holds exactly the role that the layered
  resolution gives in the new database, marked as managed.\<close>

theorem publication_makes_ledger_current:
  assumes "publish_role_changes uuid now clients subjects opts d = Inr (n, d')"
    and "c \<in> set clients" and "has_app_catalog d c" and "s \<in> set (live_subjects d subjects)"
  shows "\<exists>e. tget (app_role_effective d') (c, s) = Some e \<and> eff_managed e
    \<and> eff_role e = known_role d' c (ea_role_id (effective_app_role d' s c))"
proof -
  have "ledger_current d' c s" using publish_ledger(1) [OF assms] .
  then show ?thesis by (auto simp: ledger_current_def resolved_role_def split: option.splits)
qed

definition demo_identity :: identity where
  "demo_identity = \<lparr>i_username = ''ann'', i_display_name = ''Ann'', i_email = None, i_email_verified = False,
     i_password_hash = None, i_password_changed_at = None, i_mfa_enabled = False, i_avatar = None,
     i_status = Active, i_deleted_at = None\<rparr>"

definition demo_sub :: string where
  "demo_sub = ''ann''"

definition demo_uuid :: "nat \<Rightarrow> string" where
  "demo_uuid n = ''00000000-0000-4000-8000-00000000000'' @ [digit_char (n mod 10)]"

definition demo_state :: "int \<Rightarrow> sync_state" where
  "demo_state r = \<lparr>ss_mode = Legacy, ss_epoch = None, ss_revision = None, ss_digest = None,
     ss_last_iat = 3, ss_authority_epoch = ''e1'', ss_authority_revision = r\<rparr>"

definition demo_role_db :: db where
  "demo_role_db = empty_db\<lparr>identities := [(demo_sub, demo_identity)],
     oauth_clients := [(''rp'', demo_client)],
     app_roles := [((''rp'', 7), \<lparr>ar_name = ''viewer'', ar_level = 5, ar_is_system = False\<rparr>)],
     app_role_catalogs := [(''rp'', \<lparr>cat_default = Some 7, cat_synced_at = 0, cat_last_iat = 3\<rparr>)],
     app_role_sync_state := [(''rp'', demo_state 4)]\<rparr>"

definition demo_change :: effective_change where
  "demo_change = \<lparr>ec_sub = demo_sub, ec_role = Some 7, ec_managed = True, ec_known = False,
     ec_previous_role = None, ec_previous_managed = None\<rparr>"

definition demo_norm :: norm_event where
  "demo_norm = \<lparr>we_id = ''00000000-0000-4000-8000-000000000000'', we_type = ''account.roles_change'',
     we_payload = JObj [(''sub'', JStr ''ann''), (''role_id'', JInt 7), (''authority_epoch'', JStr ''e1''),
       (''authority_revision'', JStr ''5'')], ne_version = ''5''\<rparr>"

definition demo_published :: db where
  "demo_published = demo_role_db\<lparr>app_role_sync_state := [(''rp'', demo_state 5)],
     app_role_effective := [((''rp'', demo_sub), \<lparr>eff_role = Some 7, eff_managed = True, eff_revision = 5\<rparr>)],
     event_outbox := [new_row 50 ''rp'' demo_norm],
     event_destinations := [(''rp'', \<lparr>ds_token = None, ds_until = None, ds_next_at = 50, ds_failures = 0\<rparr>)],
     uuid_seq := 1\<rparr>"

lemma demo_normalize: "normalize_events demo_uuid [role_change_event ''e1'' 5 demo_change] 0 = Inr ([demo_norm], 1)"
  by code_simp

lemma demo_changed: "changed_rows demo_role_db ''rp'' None no_options = [demo_change]"
  by code_simp

lemma demo_publish: "publish_role_changes demo_uuid 50 [''rp''] None no_options demo_role_db = Inr (1, demo_published)"
proof -
  let ?d = "demo_role_db\<lparr>app_role_sync_state := [(''rp'', demo_state 5)]\<rparr>"
  have e: "ensure_role_sync_state demo_uuid ''rp'' demo_role_db = Inr (demo_state 4, demo_role_db)"
    by (simp add: ensure_role_sync_state_def demo_role_db_def tget_def)
  have a: "advance_revision ''rp'' demo_role_db = Inr (5, ?d)"
    by (simp add: advance_revision_def demo_role_db_def demo_state_def tget_def tput_def MAX_BIGINT_def Let_def)
  have i: "insert_events demo_uuid 50 ''rp'' [role_change_event ''e1'' 5 demo_change] ?d
      = Inr ([we_id demo_norm], ?d\<lparr>event_outbox := [new_row 50 ''rp'' demo_norm],
         event_destinations := [(''rp'', \<lparr>ds_token = None, ds_until = None, ds_next_at = 50, ds_failures = 0\<rparr>)],
         uuid_seq := 1\<rparr>)"
    using demo_normalize
    by (simp add: insert_events_def demo_role_db_def empty_db_def lock_destination_def insert_event_def find_event_def
        tget_def tput_def Let_def)
  have c: "publish_chunk demo_uuid 50 ''rp'' ''e1'' 5 [demo_change] ?d = Inr demo_published"
    by (simp add: publish_chunk_def i outbox_fault_def)
       (simp add: write_ledger_def ledger_row_def demo_change_def demo_published_def tput_def demo_role_db_def empty_db_def)
  have "ss_authority_epoch (demo_state 4) = ''e1''" by (simp add: demo_state_def)
  then show ?thesis
    by (simp add: publish_role_changes_def publish_client_def e a demo_changed c Let_def)
qed

lemma demo_role_db_live: "has_app_catalog demo_role_db ''rp''" "demo_sub \<in> set (live_subjects demo_role_db None)"
  by code_simp+

theorem publication_makes_ledger_current_witness:
  "\<exists>e. tget (app_role_effective demo_published) (''rp'', demo_sub) = Some e \<and> eff_managed e
    \<and> eff_role e = known_role demo_published ''rp'' (ea_role_id (effective_app_role demo_published demo_sub ''rp''))"
  by (rule publication_makes_ledger_current [OF demo_publish]) (simp_all add: demo_role_db_live)

text \<open>The authority revision of a published client rises by exactly one when at least one subject
  changed and stays as it was otherwise, however many subjects changed; no other client's
  authority state is touched.\<close>

theorem authority_revision_advances_once:
  assumes "publish_role_changes uuid now clients subjects opts d = Inr (n, d')"
  shows "revision_of d' c = revision_of d c
      + (if c \<in> set clients \<and> changed_rows d c subjects opts \<noteq> [] then 1 else 0)"
proof (cases "c \<in> set clients")
  case True
  with assms obtain t1 d1 t2 d2 pre post where m: "publish_client uuid now subjects opts c (t1, d1) = Inr (t2, d2)"
    and s: "publish_step (set pre) d d1" "publish_step (set post) d2 d'" "c \<notin> set pre" "c \<notin> set post"
    and ch: "changed_rows d1 c subjects opts = changed_rows d c subjects opts"
    by (rule publish_client_list)
  show ?thesis using publish_client_revision(1) [OF m] ch revision_frame [OF s(1,3)] revision_frame [OF s(2,4)] True by simp
next
  case False
  then show ?thesis using revision_frame [OF publish_step_of [OF assms]] by simp
qed

text \<open>Publication converges: once all live identities have been published to a set of clients, publishing
  to the same clients again without force, for any choice of subjects, reports zero changes and
  changes nothing; no revision is burnt and no event is sent twice.\<close>

theorem republication_is_quiet:
  assumes "publish_role_changes uuid now clients None opts d = Inr (n, d')"
    and "set clients' \<subseteq> set clients"
  shows "publish_role_changes uuid' now' clients' subjects no_options d' = Inr (0, d')"
proof -
  have f: "same_role_tables d d'" using publish_step_of [OF assms(1)] by (simp add: publish_step_def)
  have quiet: "publish_client uuid' now' subjects no_options c (t, d') = Inr (t, d')" if "c \<in> set clients" for c t
  proof (rule current_publish_quiet)
    show "\<forall>s \<in> set (live_subjects d' None). has_app_catalog d' c \<longrightarrow> ledger_current d' c s"
      using publish_ledger(1) [OF assms(1) that] by (simp add: live_subjects_frame [OF f] catalog_frame [OF f])
    from assms(1) that obtain t1 d1 t2 d2 pre post where m: "publish_client uuid now None opts c (t1, d1) = Inr (t2, d2)"
      and "publish_step (set pre) d d1" and q: "publish_step (set post) d2 d'" and "c \<notin> set pre" and "c \<notin> set post"
      and "changed_rows d1 c None opts = changed_rows d c None opts"
      by (rule publish_client_list)
    show "tget (app_role_sync_state d') c \<noteq> None"
      using publish_client_step [OF m] q \<open>c \<notin> set post\<close> by (simp add: client_step_def publish_step_def)
  qed
  have "rfold (publish_client uuid' now' subjects no_options) cs (0, d') = Inr (0, d')" if "set cs \<subseteq> set clients" for cs
    using that by (induction cs) (simp_all add: quiet)
  then show ?thesis using assms(2) by (simp add: publish_role_changes_def)
qed


lemma changed_roles_are_announced_parts:
  assumes "publish_role_changes uuid now clients subjects opts d = Inr (n, d')" and "authority_ok d"
    and "c \<in> set clients" and "row \<in> set (changed_rows d c subjects opts)"
  shows "authority_ok d'"
    and "\<exists>r \<in> set (event_outbox d'). \<exists>epoch. row_of_event c (role_change_event epoch (revision_of d' c) row) r
        \<and> ob_version r = revision_of d' c \<and> ob_status r = Pending"
proof -
  let ?cs = "sort (remdups clients)"
  from assms(1) have run: "rfold (publish_client uuid now subjects opts) ?cs (0, d) = Inr (n, d')"
    by (simp add: publish_role_changes_def)
  then show "authority_ok d'" using publish_all_authority assms(2) by blast
  obtain pre post where cs: "?cs = pre @ c # post" "c \<notin> set pre" using assms(3) split_list_first [of c ?cs] by auto
  have d: "distinct ?cs" by simp
  then have "c \<notin> set post" using cs by auto
  from run cs obtain t1 d1 t2 d2
    where p: "rfold (publish_client uuid now subjects opts) pre (0, d) = Inr (t1, d1)"
      and m: "publish_client uuid now subjects opts c (t1, d1) = Inr (t2, d2)"
      and q: "rfold (publish_client uuid now subjects opts) post (t2, d2) = Inr (n, d')"
    by (auto simp: rfold_append res_simps)
  note s1 = publish_all_step [OF p] and s2 = publish_all_step [OF q]
  have "changed_rows d1 c subjects opts = changed_rows d c subjects opts"
    using s1 cs(2) changed_rows_frame by (simp add: publish_step_def)
  then obtain r epoch where "r \<in> set (event_outbox d2)"
      "row_of_event c (role_change_event epoch (revision_of d2 c) row) r"
      "ob_version r = revision_of d2 c" "ob_status r = Pending"
    using publish_client_events(2) [OF m publish_all_authority [OF p assms(2)], of row] assms(4) by auto
  moreover have "revision_of d' c = revision_of d2 c" by (rule revision_frame [OF s2 \<open>c \<notin> set post\<close>])
  moreover have "set (event_outbox d2) \<subseteq> set (event_outbox d')" using s2 by (auto simp: publish_step_def)
  ultimately show "\<exists>r \<in> set (event_outbox d'). \<exists>epoch. row_of_event c (role_change_event epoch (revision_of d' c) row) r
        \<and> ob_version r = revision_of d' c \<and> ob_status r = Pending" by auto
qed

text \<open>C28. Every role change is announced: in a database whose outbox is not ahead of its authority
  revisions, a publication leaves, for each changed subject of each published client, a pending
  event in the outbox that carries the subject, its new role and the client's new revision,
  and the invariant holds again afterwards.\<close>

theorem changed_roles_are_announced:
  assumes "publish_role_changes uuid now clients subjects opts d = Inr (n, d')" and "authority_ok d"
    and "c \<in> set clients" and "row \<in> set (changed_rows d c subjects opts)"
  shows "(authority_ok d')
    \<and> (\<exists>r \<in> set (event_outbox d'). \<exists>epoch. row_of_event c (role_change_event epoch (revision_of d' c) row) r
        \<and> ob_version r = revision_of d' c \<and> ob_status r = Pending)"
  using changed_roles_are_announced_parts [OF assms] by blast

theorem changed_roles_are_announced_witness:
  "authority_ok demo_published \<and>
   (\<exists>r \<in> set (event_outbox demo_published). \<exists>epoch. row_of_event ''rp'' (role_change_event epoch (revision_of demo_published ''rp'') demo_change) r
        \<and> ob_version r = revision_of demo_published ''rp'' \<and> ob_status r = Pending)"
proof -
  have "authority_ok demo_role_db" by code_simp
  then show ?thesis
    using changed_roles_are_announced [OF demo_publish, of "''rp''" demo_change] by (simp add: demo_changed)
qed

end
