(* ===== verification/RoleAdmin.thy ===== *)
theory RoleAdmin
  imports RoleChanges
begin

text \<open>
  Administration of roles and access, \<open>src/rbac/roleAdministration.ts\<close>: every operation validates
  the whole request against the actor's own standing, then writes, publishes role changes and
  writes the audit log, inside one transaction.  An operation returns \<open>Inl\<close> the error it throws or
  \<open>Inr\<close> the new state; the transaction keeps the state only on \<open>Inr\<close>.  Subjects are \<open>uuid\<close>
  columns, so the queries see \<open>lower sub\<close>.
\<close>

datatype role_error =
    RoleAccessError nat string "(string \<times> json) list"
  | FieldError nat "(string \<times> string) list"
  | RolePublish role_fault
  | StorageFault
  | DefaultRoleUnavailable

definition MFA_DISABLE :: string where "MFA_DISABLE = ''profile.security.mfa.disable''"

text \<open>\<open>validValue\<close>: null, \<open>'inherit'\<close> or a 32-bit integer.\<close>

definition int32 :: "json \<Rightarrow> bool" where
  "int32 v = (case v of JInt i \<Rightarrow> -2147483648 \<le> i \<and> i \<le> 2147483647 | _ \<Rightarrow> False)"

definition valid_value :: "json \<Rightarrow> bool" where
  "valid_value v = (v = JNull \<or> v = JStr ''inherit'' \<or> int32 v)"

definition fail :: "nat \<Rightarrow> string \<Rightarrow> (string \<times> json) list \<Rightarrow> role_error + 'a" where
  "fail status err extra = Inl (RoleAccessError status err extra)"

definition as_map :: "json option \<Rightarrow> role_error + (string \<times> json) list" where
  "as_map v = (case v of None \<Rightarrow> Inr [] | Some JNull \<Rightarrow> Inr [] | Some (JObj ms) \<Rightarrow> Inr ms
     | Some _ \<Rightarrow> fail 400 ''invalid_request'' [])"

text \<open>\<open>String(v)\<close>.\<close>

fun js_string :: "json \<Rightarrow> string" where
  "js_string JNull = ''null''"
| "js_string (JBool b) = (if b then ''true'' else ''false'')"
| "js_string (JInt i) = show_int i"
| "js_string (JFrac s) = s"
| "js_string (JStr s) = s"
| "js_string (JArr xs) = join_on (CHR '','') (map (\<lambda>x. if x = JNull then [] else js_string x) xs)"
| "js_string (JObj ms) = ''[object Object]''"

record actor =
  ac_sub :: string
  ac_label :: string
  ac_level :: level
  ac_granted :: "string list"

definition require_permission :: "actor \<Rightarrow> string \<Rightarrow> role_error + unit" where
  "require_permission a key = (if key \<in> set (ac_granted a) then Inr ()
     else fail 403 ''permission_denied'' [(''permission'', JStr key)])"

definition or_else :: "string \<Rightarrow> string \<Rightarrow> string" where
  "or_else a b = (if a \<noteq> [] then a else b)"

definition lock_actors :: "db \<Rightarrow> string \<Rightarrow> string list \<Rightarrow> role_error + actor" where
  "lock_actors d actor targets =
    (if \<not> is_uuid actor then fail 401 ''invalid_token'' []
     else if list_ex (\<lambda>t. \<not> is_uuid t) targets then fail 404 ''not_found'' []
     else case tget (identities d) (lower actor) of
       None \<Rightarrow> fail 403 ''permission_denied'' []
     | Some i \<Rightarrow>
         if i_deleted_at i \<noteq> None \<or> i_status i \<noteq> Active then fail 403 ''permission_denied'' []
         else let auth = resolve_authz d (lower actor)
              in Inr \<lparr>ac_sub = actor, ac_label = or_else (i_display_name i) (or_else (i_username i) actor),
                      ac_level = az_level auth, ac_granted = az_granted auth\<rparr>)"

definition org_default :: "db \<Rightarrow> string option \<Rightarrow> string \<Rightarrow> int option" where
  "org_default d slug client =
    (case tget (app_role_catalogs d) client of
       None \<Rightarrow> None
     | Some cat \<Rightarrow> (case slug of
         None \<Rightarrow> cat_default cat
       | Some s \<Rightarrow> (case tget (org_role_app_defaults d) (s, client) of Some v \<Rightarrow> v | None \<Rightarrow> cat_default cat)))"

definition write_audit :: "actor \<Rightarrow> string \<Rightarrow> json \<Rightarrow> (string \<times> string) option \<Rightarrow> db \<Rightarrow> db" where
  "write_audit a action detail target d =
    d\<lparr>org_audit_log := org_audit_log d @ [\<lparr>au_actor = Some (lower (ac_sub a)), au_actor_label = ac_label a,
        au_target = map_option (\<lambda>t. lower (fst t)) target, au_target_label = map_option snd target,
        au_action = action, au_detail = detail\<rparr>]\<rparr>"

definition publish :: "(nat \<Rightarrow> string) \<Rightarrow> int \<Rightarrow> string list \<Rightarrow> string list option \<Rightarrow> db \<Rightarrow> role_error + db" where
  "publish uuid now clients subjects d =
    (case publish_role_changes uuid now clients subjects no_options d of
       Inl f \<Rightarrow> Inl (RolePublish f) | Inr (_, d) \<Rightarrow> Inr d)"

section \<open>A user's access\<close>

record target_row =
  tr_display_name :: string
  tr_username :: string
  tr_slug :: "string option"
  tr_level :: level

definition target_of :: "db \<Rightarrow> string \<Rightarrow> target_row option" where
  "target_of d sub =
    (case tget (identities d) (lower sub) of
       None \<Rightarrow> None
     | Some i \<Rightarrow> if i_deleted_at i \<noteq> None then None
         else Some \<lparr>tr_display_name = i_display_name i, tr_username = i_username i,
                    tr_slug = tget (user_org_roles d) (lower sub), tr_level = get_role_level d (lower sub)\<rparr>)"

definition catalog_clients :: "db \<Rightarrow> string list" where
  "catalog_clients d = sort (tkeys (app_role_catalogs d))"

definition role_of :: "db \<Rightarrow> string \<Rightarrow> string \<Rightarrow> int option" where
  "role_of d sub client = ea_role_id (effective_app_role d (lower sub) client)"

definition effect_item :: "string \<Rightarrow> (string \<times> json) list" where
  "effect_item key = [(''item'', JObj [(''type'', JStr ''permission''), (''key'', JStr key)])]"

definition check_permission :: "actor \<Rightarrow> string list \<Rightarrow> string \<times> json \<Rightarrow> role_error + unit" where
  "check_permission a effects entry = (case entry of (key, eff) \<Rightarrow>
     if key \<notin> set PERM_KEYS \<or> js_string eff \<notin> set effects then fail 400 ''invalid_request'' (effect_item key)
     else if key \<noteq> MFA_DISABLE \<and> key \<notin> set (ac_granted a)
       then fail 403 ''permission_denied'' ((''permission'', JStr key) # effect_item key)
     else Inr ())"

definition role_item :: "string \<Rightarrow> (string \<times> json) list" where
  "role_item client = [(''item'', JObj [(''type'', JStr ''app_role''), (''client'', JStr client)])]"

definition value_role :: "json \<Rightarrow> int option" where
  "value_role v = (case v of JInt i \<Rightarrow> Some i | _ \<Rightarrow> None)"

definition known_value :: "db \<Rightarrow> string \<Rightarrow> json \<Rightarrow> bool" where
  "known_value d client v = (case v of JInt i \<Rightarrow> tget (app_roles d) (client, i) \<noteq> None | _ \<Rightarrow> True)"

definition actor_level :: "db \<Rightarrow> actor \<Rightarrow> string \<Rightarrow> level" where
  "actor_level d a client = app_role_level d client (role_of d (ac_sub a) client)"

definition check_app_role :: "db \<Rightarrow> actor \<Rightarrow> string \<Rightarrow> string option \<Rightarrow> string \<times> json \<Rightarrow> role_error + unit" where
  "check_app_role d a target slug entry = (case entry of (client, v) \<Rightarrow>
     if client \<notin> set (catalog_clients d) then fail 404 ''not_found'' (role_item client)
     else if \<not> valid_value v then fail 400 ''invalid_request'' (role_item client)
     else if \<not> known_value d client v then fail 400 ''unknown_app_role'' (role_item client)
     else if app_role_level d client (role_of d target client) < actor_level d a client
       then fail 403 ''app_role_above_level'' (role_item client)
     else if app_role_level d client (if v = JStr ''inherit'' then org_default d slug client else value_role v)
            < actor_level d a client
       then fail 403 ''app_role_above_level'' (role_item client)
     else Inr ())"

definition check_role_move ::
  "db \<Rightarrow> actor \<Rightarrow> string \<Rightarrow> string option \<Rightarrow> (string \<times> json) list \<Rightarrow> string \<Rightarrow> role_error + unit" where
  "check_role_move d a target slug apps client =
    (if has_own apps client \<or> tget (user_app_role_overrides d) (lower target, client) \<noteq> None then Inr ()
     else if org_default d slug client = role_of d target client then Inr ()
     else if app_role_level d client (org_default d slug client) < actor_level d a client
       then fail 403 ''app_role_above_level'' (role_item client)
     else Inr ())"

definition check_all :: "('x \<Rightarrow> role_error + unit) \<Rightarrow> 'x list \<Rightarrow> role_error + unit" where
  "check_all f xs = rfold (\<lambda>x _. f x) xs ()"

definition write_permission :: "string \<Rightarrow> string \<times> json \<Rightarrow> db \<Rightarrow> role_error + db" where
  "write_permission u entry d = (case entry of (key, eff) \<Rightarrow>
     if eff = JStr ''inherit'' then Inr (d\<lparr>user_permission_overrides := tdel (u, key) (user_permission_overrides d)\<rparr>)
     else if eff = JStr ''grant'' then Inr (d\<lparr>user_permission_overrides := tput (u, key) Grant (user_permission_overrides d)\<rparr>)
     else if eff = JStr ''deny'' then Inr (d\<lparr>user_permission_overrides := tput (u, key) Deny (user_permission_overrides d)\<rparr>)
     else Inl StorageFault)"

definition write_app_role :: "string \<Rightarrow> string \<times> json \<Rightarrow> db \<Rightarrow> db" where
  "write_app_role u entry d = (case entry of (client, v) \<Rightarrow>
     if v = JStr ''inherit'' then d\<lparr>user_app_role_overrides := tdel (u, client) (user_app_role_overrides d)\<rparr>
     else d\<lparr>user_app_role_overrides := tput (u, client) (value_role v) (user_app_role_overrides d)\<rparr>)"

definition json_of_option :: "string option \<Rightarrow> json" where
  "json_of_option v = (case v of None \<Rightarrow> JNull | Some s \<Rightarrow> JStr s)"

definition write_org_role :: "string \<Rightarrow> string option \<Rightarrow> db \<Rightarrow> db" where
  "write_org_role u slug d =
    (case slug of None \<Rightarrow> d | Some s \<Rightarrow> d\<lparr>user_org_roles := tput u s (user_org_roles d)\<rparr>)"

definition org_role_request :: "(string \<times> json) list \<Rightarrow> string option" where
  "org_role_request changes = (case jmember changes ''org_role'' of Some (JStr s) \<Rightarrow> Some s | _ \<Rightarrow> None)"

text \<open>The validation half of \<open>applyUserAccess\<close>: what it fixes before the first write.\<close>

record user_plan =
  up_actor :: actor
  up_target :: target_row
  up_org_role :: "string option"
  up_new_slug :: "string option"
  up_permissions :: "(string \<times> json) list"
  up_apps :: "(string \<times> json) list"

definition plan_user_access ::
  "db \<Rightarrow> string \<Rightarrow> string \<Rightarrow> (string \<times> json) list \<Rightarrow> role_error + user_plan" where
  "plan_user_access d actorSub targetSub changes =
    rbind (lock_actors d actorSub [targetSub]) (\<lambda>a.
    (case target_of d targetSub of
       None \<Rightarrow> fail 404 ''not_found'' []
     | Some target \<Rightarrow>
       if targetSub = actorSub \<or> tr_level target \<le> ac_level a then fail 404 ''not_found'' []
       else
         let orgRole = org_role_request changes in
         rbind (as_map (jmember changes ''permissions'')) (\<lambda>permissions.
         rbind (as_map (jmember changes ''app_roles'')) (\<lambda>apps.
         if (orgRole = None \<or> orgRole = Some []) \<and> permissions = [] \<and> apps = [] then fail 400 ''no_changes'' []
         else if length permissions > 100 \<or> length apps > 50 then fail 400 ''too_many_changes'' []
         else
         rbind (if orgRole \<noteq> None \<or> permissions \<noteq> [] then require_permission a ''org.users.edit.permissions.acctPortal'' else Inr ()) (\<lambda>_.
         rbind (if apps \<noteq> [] then require_permission a ''org.users.edit.permissions.app'' else Inr ()) (\<lambda>_.
         rbind (case orgRole of
             None \<Rightarrow> Inr (tr_slug target)
           | Some s \<Rightarrow> (case tget (org_roles d) s of
               None \<Rightarrow> fail 403 ''role_above_level'' [(''item'', JObj [(''type'', JStr ''org_role'')])]
             | Some r \<Rightarrow> if Lvl (or_level r) \<le> ac_level a
                 then fail 403 ''role_above_level'' [(''item'', JObj [(''type'', JStr ''org_role'')])]
                 else Inr (Some s))) (\<lambda>newSlug.
         rbind (check_all (check_permission a [''grant'', ''deny'', ''inherit'']) permissions) (\<lambda>_.
         rbind (check_all (check_app_role d a targetSub newSlug) apps) (\<lambda>_.
         rbind (if orgRole \<noteq> None then check_all (check_role_move d a targetSub newSlug apps) (catalog_clients d) else Inr ()) (\<lambda>_.
           Inr \<lparr>up_actor = a, up_target = target, up_org_role = orgRole, up_new_slug = newSlug,
                up_permissions = permissions, up_apps = apps\<rparr>))))))))))"

definition user_detail :: "user_plan \<Rightarrow> json" where
  "user_detail p = JObj (
     (if up_org_role p \<noteq> None then [(''org_role'', JObj [(''from'', json_of_option (tr_slug (up_target p))),
         (''to'', json_of_option (up_new_slug p))])] else [])
     @ (if up_permissions p \<noteq> [] then [(''permissions'', JObj (up_permissions p))] else [])
     @ (if up_apps p \<noteq> [] then [(''app_roles'', JObj (up_apps p))] else []))"

definition write_user_tables :: "string \<Rightarrow> user_plan \<Rightarrow> db \<Rightarrow> role_error + db" where
  "write_user_tables targetSub p d =
    (let u = lower targetSub;
         d1 = (if up_org_role p \<noteq> None then write_org_role u (up_new_slug p) d else d)
     in rbind (rfold (write_permission u) (up_permissions p) d1) (\<lambda>d2. Inr (fold (write_app_role u) (up_apps p) d2)))"

definition write_user_access ::
  "(nat \<Rightarrow> string) \<Rightarrow> int \<Rightarrow> string \<Rightarrow> string \<Rightarrow> user_plan \<Rightarrow> db \<Rightarrow> role_error + db" where
  "write_user_access uuid now targetSub action p d =
    rbind (write_user_tables targetSub p d) (\<lambda>d3.
    rbind (if up_org_role p \<noteq> None \<or> up_apps p \<noteq> []
           then publish uuid now (if up_org_role p \<noteq> None then catalog_clients d else map fst (up_apps p)) (Some [targetSub]) d3
           else Inr d3) (\<lambda>d4.
      Inr (write_audit (up_actor p) action (user_detail p)
        (Some (targetSub, or_else (tr_display_name (up_target p)) (or_else (tr_username (up_target p)) targetSub))) d4)))"

definition apply_user_access ::
  "(nat \<Rightarrow> string) \<Rightarrow> int \<Rightarrow> string \<Rightarrow> string \<Rightarrow> (string \<times> json) list \<Rightarrow> string \<Rightarrow> db \<Rightarrow> role_error + db" where
  "apply_user_access uuid now actorSub targetSub changes action d =
    rbind (plan_user_access d actorSub targetSub changes) (\<lambda>p. write_user_access uuid now targetSub action p d)"

section \<open>A role's access\<close>

record role_plan =
  rp_actor :: actor
  rp_permissions :: "(string \<times> json) list"
  rp_defaults :: "(string \<times> json) list"

definition default_item :: "string \<Rightarrow> (string \<times> json) list" where
  "default_item client = [(''item'', JObj [(''type'', JStr ''app_default''), (''client'', JStr client)])]"

definition check_app_default :: "db \<Rightarrow> actor \<Rightarrow> string \<Rightarrow> string \<times> json \<Rightarrow> role_error + unit" where
  "check_app_default d a slug entry = (case entry of (client, v) \<Rightarrow>
     (case tget (app_role_catalogs d) client of
        None \<Rightarrow> fail 404 ''not_found'' (default_item client)
      | Some cat \<Rightarrow>
          if \<not> valid_value v then fail 400 ''invalid_request'' (default_item client)
          else if \<not> known_value d client v then fail 400 ''unknown_app_role'' (default_item client)
          else if app_role_level d client (org_default d (Some slug) client) < actor_level d a client
            then fail 403 ''app_role_above_level'' (default_item client)
          else if app_role_level d client (if v = JStr ''inherit'' then cat_default cat else value_role v)
                 \<le> actor_level d a client
            then fail 403 ''app_role_above_level'' (default_item client)
          else Inr ()))"

definition plan_role_access ::
  "db \<Rightarrow> string \<Rightarrow> string \<Rightarrow> (string \<times> json) list \<Rightarrow> role_error + role_plan" where
  "plan_role_access d actorSub slug changes =
    rbind (lock_actors d actorSub []) (\<lambda>a.
    (case tget (org_roles d) slug of
       None \<Rightarrow> fail 404 ''not_found'' []
     | Some r \<Rightarrow>
       if Lvl (or_level r) \<le> ac_level a then fail 403 ''role_above_level'' []
       else
         rbind (as_map (jmember changes ''permissions'')) (\<lambda>permissions.
         rbind (as_map (jmember changes ''app_defaults'')) (\<lambda>defaults.
         if permissions = [] \<and> defaults = [] then fail 400 ''no_changes'' []
         else if length permissions > 100 \<or> length defaults > 50 then fail 400 ''too_many_changes'' []
         else
         rbind (if permissions \<noteq> [] then require_permission a ''org.roles.edit.permissions.acctPortal'' else Inr ()) (\<lambda>_.
         rbind (if defaults \<noteq> [] then require_permission a ''org.roles.edit.permissions.app'' else Inr ()) (\<lambda>_.
         rbind (check_all (check_permission a [''grant'', ''deny'']) permissions) (\<lambda>_.
         rbind (check_all (check_app_default d a slug) defaults) (\<lambda>_.
           Inr \<lparr>rp_actor = a, rp_permissions = permissions, rp_defaults = defaults\<rparr>))))))))"

definition write_role_permission :: "string \<Rightarrow> string \<times> json \<Rightarrow> db \<Rightarrow> role_error + db" where
  "write_role_permission slug entry d = (case entry of (key, eff) \<Rightarrow>
     if eff = JStr ''grant'' then Inr (d\<lparr>role_permissions := tput (slug, key) Grant (role_permissions d)\<rparr>)
     else if eff = JStr ''deny'' then Inr (d\<lparr>role_permissions := tput (slug, key) Deny (role_permissions d)\<rparr>)
     else Inl StorageFault)"

definition write_app_default :: "string \<Rightarrow> string \<times> json \<Rightarrow> db \<Rightarrow> db" where
  "write_app_default slug entry d = (case entry of (client, v) \<Rightarrow>
     if v = JStr ''inherit'' then d\<lparr>org_role_app_defaults := tdel (slug, client) (org_role_app_defaults d)\<rparr>
     else d\<lparr>org_role_app_defaults := tput (slug, client) (value_role v) (org_role_app_defaults d)\<rparr>)"

definition write_role_tables :: "string \<Rightarrow> role_plan \<Rightarrow> db \<Rightarrow> role_error + db" where
  "write_role_tables slug p d =
    rbind (rfold (write_role_permission slug) (rp_permissions p) d) (\<lambda>d1. Inr (fold (write_app_default slug) (rp_defaults p) d1))"

definition write_role_access ::
  "(nat \<Rightarrow> string) \<Rightarrow> int \<Rightarrow> string \<Rightarrow> string \<Rightarrow> role_plan \<Rightarrow> db \<Rightarrow> role_error + db" where
  "write_role_access uuid now slug action p d =
    rbind (write_role_tables slug p d) (\<lambda>d2.
    rbind (if rp_defaults p \<noteq> [] then publish uuid now (map fst (rp_defaults p)) None d2 else Inr d2) (\<lambda>d3.
      Inr (write_audit (rp_actor p) action
        (JObj ((''slug'', JStr slug) # (if rp_permissions p \<noteq> [] then [(''permissions'', JObj (rp_permissions p))] else [])
          @ (if rp_defaults p \<noteq> [] then [(''app_defaults'', JObj (rp_defaults p))] else []))) None d3)))"

definition apply_role_access ::
  "(nat \<Rightarrow> string) \<Rightarrow> int \<Rightarrow> string \<Rightarrow> string \<Rightarrow> (string \<times> json) list \<Rightarrow> string \<Rightarrow> db \<Rightarrow> role_error + db" where
  "apply_role_access uuid now actorSub slug changes action d =
    rbind (plan_role_access d actorSub slug changes) (\<lambda>p. write_role_access uuid now slug action p d)"

section \<open>The life of a role\<close>

definition default_org_role :: "db \<Rightarrow> string" where
  "default_org_role d = (case tget (settings d) ''default_org_role'' of
      None \<Rightarrow> ''standard_user'' | Some v \<Rightarrow> or_else v ''standard_user'')"

text \<open>\<open>/^[a-z][a-z0-9_-]{1,39}$/\<close>.\<close>

definition is_slug :: "string \<Rightarrow> bool" where
  "is_slug s = (2 \<le> length s \<and> length s \<le> 40 \<and> (CHR ''a'' \<le> hd s \<and> hd s \<le> CHR ''z'')
     \<and> list_all (\<lambda>c. (CHR ''a'' \<le> c \<and> c \<le> CHR ''z'') \<or> is_digit c \<or> c = CHR ''_'' \<or> c = CHR ''-'') (tl s))"

text \<open>\<open>Number(v)\<close> when the result is an integer (\<open>NaN\<close> and fractions are \<open>None\<close>): a decimal literal with
  optional sign, fraction and exponent, or a prefixed hexadecimal, octal or binary literal;
  the empty string and \<open>null\<close> are 0.  Values are exact, without the rounding of doubles.\<close>

definition radix_digit :: "char \<Rightarrow> nat option" where
  "radix_digit c = (let n = of_char c :: nat in
     if 48 \<le> n \<and> n \<le> 57 then Some (n - 48)
     else if 97 \<le> n \<and> n \<le> 102 then Some (n - 87)
     else if 65 \<le> n \<and> n \<le> 70 then Some (n - 55) else None)"

definition radix_number :: "nat \<Rightarrow> string \<Rightarrow> int option" where
  "radix_number b s =
    (if s = [] \<or> list_ex (\<lambda>c. case radix_digit c of None \<Rightarrow> True | Some n \<Rightarrow> b \<le> n) s then None
     else Some (int (foldl (\<lambda>n c. b * n + the (radix_digit c)) 0 s)))"

definition strip_sign :: "string \<Rightarrow> bool \<times> string" where
  "strip_sign s = (case s of [] \<Rightarrow> (False, [])
     | c # cs \<Rightarrow> if c = CHR ''-'' then (True, cs) else if c = CHR ''+'' then (False, cs) else (False, s))"

definition exponent_of :: "string \<Rightarrow> int option" where
  "exponent_of s =
    (case s of [] \<Rightarrow> Some 0
     | c # cs \<Rightarrow>
         if c \<noteq> CHR ''e'' \<and> c \<noteq> CHR ''E'' then None
         else (let (neg, ds) = strip_sign cs in
           if ds = [] \<or> \<not> list_all is_digit ds then None
           else Some (if neg then - int (nat_of_digits ds) else int (nat_of_digits ds))))"

definition scale :: "int \<Rightarrow> int \<Rightarrow> int option" where
  "scale m e = (if 0 \<le> e then Some (m * 10 ^ nat e)
     else if m mod 10 ^ nat (- e) = 0 then Some (m div 10 ^ nat (- e)) else None)"

definition decimal_number :: "string \<Rightarrow> int option" where
  "decimal_number s =
    (let (neg, u) = strip_sign s;
         whole = takeWhile is_digit u;
         r1 = dropWhile is_digit u;
         frac = (case r1 of c # cs \<Rightarrow> if c = CHR ''.'' then takeWhile is_digit cs else [] | [] \<Rightarrow> []);
         r2 = (case r1 of c # cs \<Rightarrow> if c = CHR ''.'' then dropWhile is_digit cs else r1 | [] \<Rightarrow> [])
     in if whole = [] \<and> frac = [] then None
        else (case exponent_of r2 of
            None \<Rightarrow> None
          | Some e \<Rightarrow> map_option (\<lambda>v. if neg then - v else v)
              (scale (int (nat_of_digits (whole @ frac))) (e - int (length frac)))))"

definition number_of_string :: "string \<Rightarrow> int option" where
  "number_of_string s =
    (let t = trim s; p = lower (take 2 t) in
     if t = [] then Some 0
     else if p = ''0x'' then radix_number 16 (drop 2 t)
     else if p = ''0o'' then radix_number 8 (drop 2 t)
     else if p = ''0b'' then radix_number 2 (drop 2 t)
     else decimal_number t)"

definition js_number :: "json option \<Rightarrow> int option" where
  "js_number v = (case v of
      None \<Rightarrow> None
    | Some JNull \<Rightarrow> Some 0
    | Some (JBool b) \<Rightarrow> Some (if b then 1 else 0)
    | Some (JInt i) \<Rightarrow> Some i
    | Some (JFrac _) \<Rightarrow> None
    | Some (JStr s) \<Rightarrow> number_of_string s
    | Some w \<Rightarrow> number_of_string (js_string w))"

definition trimmed :: "json option \<Rightarrow> string" where
  "trimmed v = (case v of Some (JStr s) \<Rightarrow> trim s | _ \<Rightarrow> [])"

definition level_in_range :: "int option \<Rightarrow> bool" where
  "level_in_range l = (case l of None \<Rightarrow> False | Some n \<Rightarrow> 1 \<le> n \<and> n \<le> 9999)"

definition create_org_role :: "string \<Rightarrow> (string \<times> json) list \<Rightarrow> db \<Rightarrow> role_error + string \<times> db" where
  "create_org_role actorSub body d =
    rbind (lock_actors d actorSub []) (\<lambda>a.
    rbind (require_permission a ''org.roles.create'') (\<lambda>_.
    let slug = trimmed (jmember body ''slug'');
        label = trimmed (jmember body ''label'');
        lvl = js_number (jmember body ''level'');
        errors = (if \<not> is_slug slug then [(''slug'', ''lowercase letters, digits, - and _ (2-40)'')] else [])
          @ (if label = [] \<or> length label > 60 then [(''label'', ''Required, max 60 chars'')] else [])
          @ (if \<not> level_in_range lvl then [(''level'', ''Whole number 1-9999'')]
             else if Lvl (the lvl) \<le> ac_level a then [(''level'', ''Must be below your own level'')] else [])
    in if errors \<noteq> [] then Inl (FieldError 422 errors)
       else if tget (org_roles d) slug \<noteq> None then Inl (FieldError 409 [(''slug'', ''Already exists'')])
       else let seed = default_org_role d in
         if tget (org_roles d) seed = None then Inl DefaultRoleUnavailable
         else Inr (slug, write_audit a ''role.create''
             (JObj [(''slug'', JStr slug), (''level'', JInt (the lvl)), (''seeded_from'', JStr seed)]) None
           (d\<lparr>org_roles := tput slug \<lparr>or_label = label, or_level = the lvl, or_is_system = False\<rparr> (org_roles d),
              role_permissions := fold (\<lambda>((r, k), e). if r = seed then tput (slug, k) e else id) (role_permissions d) (role_permissions d),
              org_role_app_defaults := fold (\<lambda>((r, c), v). if r = seed then tput (slug, c) v else id)
                (org_role_app_defaults d) (org_role_app_defaults d)\<rparr>))))"

definition patch_label :: "actor \<Rightarrow> (string \<times> json) list \<Rightarrow> role_error + string option" where
  "patch_label a body = (case jmember body ''label'' of
      Some (JStr s) \<Rightarrow>
        rbind (require_permission a ''org.roles.edit.rename'') (\<lambda>_.
          if trim s = [] \<or> length (trim s) > 60 then Inl (FieldError 422 [(''label'', ''Required, max 60 chars'')])
          else Inr (Some (trim s)))
    | _ \<Rightarrow> Inr None)"

definition patch_level :: "actor \<Rightarrow> (string \<times> json) list \<Rightarrow> role_error + int option" where
  "patch_level a body = (case jmember body ''level'' of
      None \<Rightarrow> Inr None
    | Some v \<Rightarrow>
        rbind (require_permission a ''org.roles.edit.level'') (\<lambda>_.
          let lvl = js_number (Some v) in
          if \<not> level_in_range lvl \<or> Lvl (the lvl) \<le> ac_level a
          then Inl (FieldError 422 [(''level'', ''Whole number 1-9999, below your own level'')])
          else Inr (Some (the lvl))))"

definition patch_org_role :: "string \<Rightarrow> string \<Rightarrow> (string \<times> json) list \<Rightarrow> db \<Rightarrow> role_error + db" where
  "patch_org_role actorSub slug body d =
    rbind (lock_actors d actorSub []) (\<lambda>a.
    (case tget (org_roles d) slug of
       None \<Rightarrow> fail 404 ''not_found'' []
     | Some r \<Rightarrow>
       if Lvl (or_level r) \<le> ac_level a then fail 403 ''role_above_level'' []
       else
         rbind (patch_label a body) (\<lambda>label.
         rbind (patch_level a body) (\<lambda>lvl.
         if label = None \<and> lvl = None then fail 400 ''no_fields'' []
         else
           let r1 = (case label of None \<Rightarrow> r | Some l \<Rightarrow> r\<lparr>or_label := l\<rparr>);
               r2 = (case lvl of None \<Rightarrow> r1 | Some n \<Rightarrow> r1\<lparr>or_level := n\<rparr>)
           in Inr (write_audit a ''role.edit''
               (JObj ((''slug'', JStr slug) # (case label of None \<Rightarrow> [] | Some l \<Rightarrow> [(''label'', JStr l)])
                 @ (case lvl of None \<Rightarrow> [] | Some n \<Rightarrow> [(''level'', JInt n)]))) None
             (d\<lparr>org_roles := tput slug r2 (org_roles d)\<rparr>))))))"

text \<open>\<open>DELETE FROM org_roles\<close> cascades to the tables that reference the role.\<close>

definition remove_role :: "string \<Rightarrow> db \<Rightarrow> db" where
  "remove_role slug d =
    d\<lparr>org_roles := tdel slug (org_roles d),
      user_org_roles := tfilter (\<lambda>_ s. s \<noteq> slug) (user_org_roles d),
      role_permissions := tfilter (\<lambda>(s, _) _. s \<noteq> slug) (role_permissions d),
      org_role_app_defaults := tfilter (\<lambda>(s, _) _. s \<noteq> slug) (org_role_app_defaults d)\<rparr>"

definition delete_org_role :: "string \<Rightarrow> string \<Rightarrow> db \<Rightarrow> role_error + db" where
  "delete_org_role actorSub slug d =
    rbind (lock_actors d actorSub []) (\<lambda>a.
    rbind (require_permission a ''org.roles.remove'') (\<lambda>_.
    (case tget (org_roles d) slug of
       None \<Rightarrow> fail 404 ''not_found'' []
     | Some r \<Rightarrow>
       if or_is_system r then fail 409 ''system_role'' []
       else if Lvl (or_level r) \<le> ac_level a then fail 403 ''role_above_level'' []
       else if list_ex (\<lambda>(_, s). s = slug) (user_org_roles d) then fail 409 ''role_in_use'' []
       else if default_org_role d = slug then fail 409 ''role_is_default'' []
       else Inr (write_audit a ''role.delete'' (JObj [(''slug'', JStr slug)]) None (remove_role slug d)))))"

definition set_default_org_role :: "string \<Rightarrow> string \<Rightarrow> db \<Rightarrow> role_error + db" where
  "set_default_org_role actorSub slug d =
    rbind (lock_actors d actorSub []) (\<lambda>a.
    rbind (require_permission a ''org.roles.edit.default'') (\<lambda>_.
    (case tget (org_roles d) slug of
       None \<Rightarrow> fail 404 ''not_found'' []
     | Some r \<Rightarrow>
       if Lvl (or_level r) \<le> ac_level a then fail 403 ''role_above_level'' []
       else Inr (write_audit a ''role.default_change'' (JObj [(''slug'', JStr slug)]) None
              (d\<lparr>settings := tput ''default_org_role'' slug (settings d)\<rparr>)))))"

record prepared_user =
  pu_sub :: string
  pu_username :: string
  pu_display_name :: string
  pu_email :: string
  pu_password_hash :: string
  pu_role_slug :: string

text \<open>The unique indexes of \<open>identities\<close>: the primary key, and username and address among accounts
  that are not deleted, compared without case.\<close>

definition username_taken :: "db \<Rightarrow> string \<Rightarrow> bool" where
  "username_taken d name = list_ex (\<lambda>(_, i). i_deleted_at i = None \<and> lower (i_username i) = lower name) (identities d)"

definition email_taken :: "db \<Rightarrow> string \<Rightarrow> bool" where
  "email_taken d mail = list_ex (\<lambda>(_, i). i_deleted_at i = None \<and> map_option lower (i_email i) = Some (lower mail)) (identities d)"

definition create_org_user :: "int \<Rightarrow> string \<Rightarrow> prepared_user \<Rightarrow> db \<Rightarrow> role_error + string \<times> db" where
  "create_org_user now actorSub input d =
    rbind (lock_actors d actorSub []) (\<lambda>a.
    rbind (require_permission a ''org.users.create'') (\<lambda>_.
    (case tget (org_roles d) (pu_role_slug input) of
       None \<Rightarrow> Inl (FieldError 422 [(''org_role'', ''Pick a role below your own'')])
     | Some r \<Rightarrow>
       if Lvl (or_level r) \<le> ac_level a then Inl (FieldError 422 [(''org_role'', ''Pick a role below your own'')])
       else if tget (identities d) (lower (pu_sub input)) \<noteq> None \<or> username_taken d (pu_username input)
         then Inl (FieldError 409 [(''username'', ''Already taken'')])
       else if pu_email input \<noteq> [] \<and> email_taken d (pu_email input)
         then Inl (FieldError 409 [(''email'', ''Already in use'')])
       else Inr (pu_sub input, write_audit a ''user.create''
             (JObj [(''username'', JStr (pu_username input)), (''org_role'', JStr (pu_role_slug input))])
             (Some (pu_sub input, or_else (pu_display_name input) (pu_username input)))
           (d\<lparr>identities := tput (lower (pu_sub input))
                \<lparr>i_username = pu_username input, i_display_name = pu_display_name input,
                 i_email = (if pu_email input = [] then None else Some (pu_email input)),
                 i_email_verified = (pu_email input \<noteq> []), i_password_hash = Some (pu_password_hash input),
                 i_password_changed_at = Some now, i_mfa_enabled = False, i_avatar = None,
                 i_status = Active, i_deleted_at = None\<rparr> (identities d),
              user_org_roles := tput (lower (pu_sub input)) (pu_role_slug input) (user_org_roles d)\<rparr>)))))"

end
