(* ===== verification/RoleAdminProps.thy ===== *)
theory RoleAdminProps
  imports RoleAdmin
begin

text \<open>
  What administration can and cannot do: the operations of \<open>RoleAdmin\<close> as one step function over
  transactions, the lemmas that take the validation apart, and the guarantees: no influence
  upwards, no lending of permissions, no application role above the actor's own, a ledger that
  stays current, and the structural invariant of roles and memberships.
\<close>

datatype admin_op =
    UserAccess string "(string \<times> json) list" string
  | RoleAccess string "(string \<times> json) list" string
  | CreateRole "(string \<times> json) list"
  | PatchRole string "(string \<times> json) list"
  | DeleteRole string
  | SetDefaultRole string
  | CreateUser prepared_user

fun admin_run :: "(nat \<Rightarrow> string) \<Rightarrow> int \<Rightarrow> string \<Rightarrow> admin_op \<Rightarrow> db \<Rightarrow> role_error + db" where
  "admin_run uuid now a (UserAccess target changes action) d = apply_user_access uuid now a target changes action d"
| "admin_run uuid now a (RoleAccess slug changes action) d = apply_role_access uuid now a slug changes action d"
| "admin_run uuid now a (CreateRole body) d = rbind (create_org_role a body d) (\<lambda>r. Inr (snd r))"
| "admin_run uuid now a (PatchRole slug body) d = patch_org_role a slug body d"
| "admin_run uuid now a (DeleteRole slug) d = delete_org_role a slug d"
| "admin_run uuid now a (SetDefaultRole slug) d = set_default_org_role a slug d"
| "admin_run uuid now a (CreateUser input) d = rbind (create_org_user now a input d) (\<lambda>r. Inr (snd r))"

text \<open>\<open>withRoleTransaction\<close>: a throw rolls everything back.\<close>

definition admin_step :: "(nat \<Rightarrow> string) \<Rightarrow> int \<Rightarrow> string \<Rightarrow> admin_op \<Rightarrow> db \<Rightarrow> db" where
  "admin_step uuid now a op d = snd (transaction (\<lambda>d. rbind (admin_run uuid now a op d) (\<lambda>d'. Inr ((), d'))) d)"

lemma admin_step_cases:
  "admin_step uuid now a op d = (case admin_run uuid now a op d of Inl _ \<Rightarrow> d | Inr d' \<Rightarrow> d')"
  by (simp add: admin_step_def transaction_def rbind_def split: sum.splits)

section \<open>Taking the validation apart\<close>

lemma lock_actorsD:
  assumes "lock_actors d actor ts = Inr a"
  shows "ac_sub a = actor" and "ac_level a = get_role_level d (lower actor)"
    and "ac_granted a = az_granted (resolve_authz d (lower actor))" and "live_active d (lower actor)"
proof -
  have "ac_sub a = actor \<and> ac_level a = az_level (resolve_authz d (lower actor))
     \<and> ac_granted a = az_granted (resolve_authz d (lower actor)) \<and> live_active d (lower actor)"
    using assms by (auto simp: lock_actors_def fail_def live_active_def Let_def split: if_splits option.splits)
  then show "ac_sub a = actor" "ac_level a = get_role_level d (lower actor)"
    "ac_granted a = az_granted (resolve_authz d (lower actor))" "live_active d (lower actor)"
    by (simp_all add: resolve_authz_def get_role_level_def)
qed

lemma check_all_Inr: "check_all f xs = Inr () \<longleftrightarrow> (\<forall>x \<in> set xs. f x = Inr ())"
proof (induction xs)
  case Nil
  show ?case by (simp add: check_all_def)
next
  case (Cons x xs)
  then show ?case by (cases "f x") (auto simp: check_all_def)
qed

lemma require_permission_Inr: "require_permission a key = Inr () \<longleftrightarrow> key \<in> set (ac_granted a)"
  by (simp add: require_permission_def fail_def)

lemma check_permissionD:
  "check_permission a effects (key, eff) = Inr () \<Longrightarrow>
     key \<in> set PERM_KEYS \<and> (key = MFA_DISABLE \<or> key \<in> set (ac_granted a))"
  by (auto simp: check_permission_def fail_def split: if_splits)

lemma check_app_roleD:
  "check_app_role d a target slug (client, v) = Inr () \<Longrightarrow>
     client \<in> set (catalog_clients d) \<and> valid_value v \<and> known_value d client v
     \<and> actor_level d a client \<le> app_role_level d client (role_of d target client)
     \<and> actor_level d a client \<le> app_role_level d client (if v = JStr ''inherit'' then org_default d slug client else value_role v)"
  by (auto simp: check_app_role_def fail_def split: if_splits)

lemma check_role_moveD:
  "check_role_move d a target slug apps client = Inr () \<Longrightarrow>
     has_own apps client \<or> tget (user_app_role_overrides d) (lower target, client) \<noteq> None
     \<or> org_default d slug client = role_of d target client
     \<or> actor_level d a client \<le> app_role_level d client (org_default d slug client)"
  by (auto simp: check_role_move_def fail_def split: if_splits)

lemma plan_user_accessE:
  assumes "plan_user_access d actorSub targetSub changes = Inr p"
  obtains ts where "lock_actors d actorSub ts = Inr (up_actor p)"
    and "target_of d targetSub = Some (up_target p)" and "targetSub \<noteq> actorSub"
    and "ac_level (up_actor p) < tr_level (up_target p)"
    and "up_org_role p = None \<longrightarrow> up_new_slug p = tr_slug (up_target p)"
    and "\<forall>s. up_org_role p = Some s \<longrightarrow> up_new_slug p = Some s \<and>
           (\<exists>r. tget (org_roles d) s = Some r \<and> ac_level (up_actor p) < Lvl (or_level r))"
    and "check_all (check_permission (up_actor p) [''grant'', ''deny'', ''inherit'']) (up_permissions p) = Inr ()"
    and "check_all (check_app_role d (up_actor p) targetSub (up_new_slug p)) (up_apps p) = Inr ()"
    and "up_org_role p \<noteq> None \<longrightarrow>
           check_all (check_role_move d (up_actor p) targetSub (up_new_slug p) (up_apps p)) (catalog_clients d) = Inr ()"
  using assms unfolding plan_user_access_def fail_def Let_def
proof (elim run_elims, goal_cases)
  case (1 a t perms apps u1 u2 slug u3 u4 u5)
  then have p: "p = \<lparr>up_actor = a, up_target = t, up_org_role = org_role_request changes, up_new_slug = slug,
      up_permissions = perms, up_apps = apps\<rparr>" by simp
  show ?thesis
  proof (rule that [of "[targetSub]"])
    show "up_org_role p = None \<longrightarrow> up_new_slug p = tr_slug (up_target p)" using 1 p by (cases "org_role_request changes") simp_all
    show "\<forall>s. up_org_role p = Some s \<longrightarrow> up_new_slug p = Some s \<and>
           (\<exists>r. tget (org_roles d) s = Some r \<and> ac_level (up_actor p) < Lvl (or_level r))"
      using 1 p by (auto simp: not_le elim!: run_elims)
    show "up_org_role p \<noteq> None \<longrightarrow>
        check_all (check_role_move d (up_actor p) targetSub (up_new_slug p) (up_apps p)) (catalog_clients d) = Inr ()"
      using 1 p by (cases "org_role_request changes") simp_all
  qed (use 1 p in \<open>simp_all add: not_le\<close>)
qed

section \<open>What the writes touch\<close>

lemma write_permissionD:
  "write_permission u (key, eff) d = Inr d' \<Longrightarrow>
     \<exists>t. d' = d\<lparr>user_permission_overrides := t\<rparr> \<and> (\<forall>k. k \<noteq> (u, key) \<longrightarrow> tget t k = tget (user_permission_overrides d) k)"
  by (force simp: write_permission_def tbl_simps split: if_splits)

lemma write_permissionsD:
  "rfold (write_permission u) es d = Inr d' \<Longrightarrow>
     \<exists>t. d' = d\<lparr>user_permission_overrides := t\<rparr>
       \<and> (\<forall>k. k \<notin> Pair u ` fst ` set es \<longrightarrow> tget t k = tget (user_permission_overrides d) k)"
proof (induction es arbitrary: d)
  case Nil
  then show ?case by (intro exI [of _ "user_permission_overrides d"]) simp
next
  case (Cons e es)
  obtain key eff where e: "e = (key, eff)" by (cases e)
  from Cons.prems obtain d1 where d1: "write_permission u (key, eff) d = Inr d1"
    and r: "rfold (write_permission u) es d1 = Inr d'" using e by (auto simp: res_simps)
  obtain t1 where t1: "d1 = d\<lparr>user_permission_overrides := t1\<rparr>"
      "\<forall>k. k \<noteq> (u, key) \<longrightarrow> tget t1 k = tget (user_permission_overrides d) k"
    using write_permissionD [OF d1] by blast
  obtain t2 where t2: "d' = d1\<lparr>user_permission_overrides := t2\<rparr>"
      "\<forall>k. k \<notin> Pair u ` fst ` set es \<longrightarrow> tget t2 k = tget (user_permission_overrides d1) k"
    using Cons.IH [OF r] by blast
  show ?case by (intro exI [of _ t2]) (use t1 t2 e in auto)
qed

lemma write_app_rolesD:
  "\<exists>t. fold (write_app_role u) es d = d\<lparr>user_app_role_overrides := t\<rparr>
     \<and> (\<forall>s c. s \<noteq> u \<or> c \<notin> fst ` set es \<longrightarrow> tget t (s, c) = tget (user_app_role_overrides d) (s, c))
     \<and> (\<forall>c \<in> fst ` set es. \<exists>v. (c, v) \<in> set es
          \<and> tget t (u, c) = (if v = JStr ''inherit'' then None else Some (value_role v)))"
proof (induction es arbitrary: d)
  case Nil
  show ?case by (intro exI [of _ "user_app_role_overrides d"]) simp
next
  case (Cons e es)
  obtain c v where e: "e = (c, v)" by (cases e)
  define t0 where "t0 = (if v = JStr ''inherit'' then tdel (u, c) (user_app_role_overrides d)
      else tput (u, c) (value_role v) (user_app_role_overrides d))"
  have w: "write_app_role u e d = d\<lparr>user_app_role_overrides := t0\<rparr>"
    by (simp add: write_app_role_def e t0_def)
  have t0: "tget t0 (u, c) = (if v = JStr ''inherit'' then None else Some (value_role v))"
    "\<And>k. k \<noteq> (u, c) \<Longrightarrow> tget t0 k = tget (user_app_role_overrides d) k"
    by (simp_all add: t0_def tbl_simps)
  obtain t where t: "fold (write_app_role u) es (d\<lparr>user_app_role_overrides := t0\<rparr>)
        = (d\<lparr>user_app_role_overrides := t0\<rparr>)\<lparr>user_app_role_overrides := t\<rparr>"
      "\<forall>s c. s \<noteq> u \<or> c \<notin> fst ` set es \<longrightarrow> tget t (s, c) = tget t0 (s, c)"
      "\<forall>c \<in> fst ` set es. \<exists>v. (c, v) \<in> set es
          \<and> tget t (u, c) = (if v = JStr ''inherit'' then None else Some (value_role v))"
    using Cons.IH [of "d\<lparr>user_app_role_overrides := t0\<rparr>"] by auto
  have "\<exists>w. (x, w) \<in> set (e # es) \<and> tget t (u, x) = (if w = JStr ''inherit'' then None else Some (value_role w))"
    if x: "x \<in> fst ` set (e # es)" for x
  proof (cases "x \<in> fst ` set es")
    case True
    then show ?thesis using t(3) by (metis list.set_intros(2))
  next
    case False
    then show ?thesis using x e t(2) t0(1) by auto
  qed
  moreover have "tget t (s, x) = tget (user_app_role_overrides d) (s, x)" if "s \<noteq> u \<or> x \<notin> fst ` set (e # es)" for s x
    using that t(2) t0(2) e by (metis (no_types, opaque_lifting) Pair_inject fst_conv image_insert insert_iff list.simps(15))
  ultimately show ?case by (intro exI [of _ t]) (simp add: w t(1))
qed

lemma publishD: "publish uuid now cs ss d = Inr d' \<Longrightarrow> \<exists>n. publish_role_changes uuid now cs ss no_options d = Inr (n, d')"
  by (auto simp: publish_def split: sum.splits)

lemma publish_frame: "publish uuid now cs ss d = Inr d' \<Longrightarrow> same_role_tables d d'"
  using publishD publish_step_of by (metis publish_step_def)

lemma write_audit_simps [simp]:
  "identities (write_audit a x dt tg d) = identities d" "org_roles (write_audit a x dt tg d) = org_roles d"
  "user_org_roles (write_audit a x dt tg d) = user_org_roles d" "role_permissions (write_audit a x dt tg d) = role_permissions d"
  "user_permission_overrides (write_audit a x dt tg d) = user_permission_overrides d"
  "app_roles (write_audit a x dt tg d) = app_roles d" "app_role_catalogs (write_audit a x dt tg d) = app_role_catalogs d"
  "org_role_app_defaults (write_audit a x dt tg d) = org_role_app_defaults d"
  "user_app_role_overrides (write_audit a x dt tg d) = user_app_role_overrides d"
  "settings (write_audit a x dt tg d) = settings d" "app_role_effective (write_audit a x dt tg d) = app_role_effective d"
  by (simp_all add: write_audit_def)

text \<open>The effect of \<open>applyUserAccess\<close> on the tables, before publication and audit.\<close>

lemma write_user_tablesE:
  assumes "write_user_tables tgt p d = Inr d'"
  obtains po ao where
    "identities d' = identities d" and "org_roles d' = org_roles d" and "role_permissions d' = role_permissions d"
    and "app_roles d' = app_roles d" and "app_role_catalogs d' = app_role_catalogs d"
    and "org_role_app_defaults d' = org_role_app_defaults d" and "settings d' = settings d"
    and "app_role_effective d' = app_role_effective d"
    and "user_org_roles d' = (if up_org_role p = None then user_org_roles d
           else case up_new_slug p of None \<Rightarrow> user_org_roles d | Some s \<Rightarrow> tput (lower tgt) s (user_org_roles d))"
    and "user_permission_overrides d' = po"
    and "\<And>k. k \<notin> Pair (lower tgt) ` fst ` set (up_permissions p) \<Longrightarrow> tget po k = tget (user_permission_overrides d) k"
    and "user_app_role_overrides d' = ao"
    and "\<And>s c. s \<noteq> lower tgt \<or> c \<notin> fst ` set (up_apps p) \<Longrightarrow> tget ao (s, c) = tget (user_app_role_overrides d) (s, c)"
    and "\<And>c. c \<in> fst ` set (up_apps p) \<Longrightarrow> \<exists>v. (c, v) \<in> set (up_apps p)
           \<and> tget ao (lower tgt, c) = (if v = JStr ''inherit'' then None else Some (value_role v))"
proof -
  define d1 where "d1 = (if up_org_role p \<noteq> None then write_org_role (lower tgt) (up_new_slug p) d else d)"
  from assms obtain d2 where d2: "rfold (write_permission (lower tgt)) (up_permissions p) d1 = Inr d2"
    and d': "d' = fold (write_app_role (lower tgt)) (up_apps p) d2"
    unfolding write_user_tables_def Let_def d1_def [symmetric] by (elim rbind_InrE) simp
  obtain po where po: "d2 = d1\<lparr>user_permission_overrides := po\<rparr>"
      "\<And>k. k \<notin> Pair (lower tgt) ` fst ` set (up_permissions p) \<Longrightarrow> tget po k = tget (user_permission_overrides d1) k"
    using write_permissionsD [OF d2] by blast
  from write_app_rolesD [of "lower tgt" "up_apps p" d2]
  obtain ao where ao1: "fold (write_app_role (lower tgt)) (up_apps p) d2 = d2\<lparr>user_app_role_overrides := ao\<rparr>"
    and ao2: "\<forall>s c. s \<noteq> lower tgt \<or> c \<notin> fst ` set (up_apps p) \<longrightarrow> tget ao (s, c) = tget (user_app_role_overrides d2) (s, c)"
    and ao3: "\<forall>c \<in> fst ` set (up_apps p). \<exists>v. (c, v) \<in> set (up_apps p)
           \<and> tget ao (lower tgt, c) = (if v = JStr ''inherit'' then None else Some (value_role v))"
    by (elim exE conjE) (rule that)
  have u: "user_org_roles d1 = (if up_org_role p = None then user_org_roles d
           else case up_new_slug p of None \<Rightarrow> user_org_roles d | Some s \<Rightarrow> tput (lower tgt) s (user_org_roles d))"
    by (auto simp: d1_def write_org_role_def split: option.splits)
  have o1: "identities d1 = identities d" "org_roles d1 = org_roles d" "role_permissions d1 = role_permissions d"
    "app_roles d1 = app_roles d" "app_role_catalogs d1 = app_role_catalogs d"
    "org_role_app_defaults d1 = org_role_app_defaults d" "settings d1 = settings d"
    "user_permission_overrides d1 = user_permission_overrides d" "user_app_role_overrides d1 = user_app_role_overrides d"
    "app_role_effective d1 = app_role_effective d"
    by (auto simp: d1_def write_org_role_def split: option.splits)
  show ?thesis
  proof (rule that [of po ao])
    show "\<And>k. k \<notin> Pair (lower tgt) ` fst ` set (up_permissions p) \<Longrightarrow> tget po k = tget (user_permission_overrides d) k"
      using po(2) o1 by simp
    show "\<And>s c. s \<noteq> lower tgt \<or> c \<notin> fst ` set (up_apps p) \<Longrightarrow> tget ao (s, c) = tget (user_app_role_overrides d) (s, c)"
      using ao2 po(1) o1 by simp
    show "\<And>c. c \<in> fst ` set (up_apps p) \<Longrightarrow> \<exists>v. (c, v) \<in> set (up_apps p)
           \<and> tget ao (lower tgt, c) = (if v = JStr ''inherit'' then None else Some (value_role v))"
      using ao3 by (rule bspec)
  qed (use u o1 po(1) ao1 d' in simp_all)
qed

text \<open>Publication and audit move none of these tables.\<close>

lemma write_user_accessE:
  assumes "write_user_access uuid now tgt action p d = Inr d'"
  obtains d3 where "write_user_tables tgt p d = Inr d3"
    and "identities d' = identities d3" and "org_roles d' = org_roles d3" and "role_permissions d' = role_permissions d3"
    and "app_roles d' = app_roles d3" and "app_role_catalogs d' = app_role_catalogs d3"
    and "org_role_app_defaults d' = org_role_app_defaults d3" and "settings d' = settings d3"
    and "user_org_roles d' = user_org_roles d3" and "user_permission_overrides d' = user_permission_overrides d3"
    and "user_app_role_overrides d' = user_app_role_overrides d3"
proof -
  from assms obtain d3 d4 x y where d3: "write_user_tables tgt p d = Inr d3"
    and d4: "(if up_org_role p \<noteq> None \<or> up_apps p \<noteq> []
               then publish uuid now (if up_org_role p \<noteq> None then catalog_clients d else map fst (up_apps p)) (Some [tgt]) d3
               else Inr d3) = Inr d4"
    and d': "d' = write_audit (up_actor p) action x y d4"
    unfolding write_user_access_def by (elim rbind_InrE) (rule that, assumption, assumption, drule Inr_inject, erule sym)
  have f: "same_role_tables d3 d4"
  proof (cases "up_org_role p \<noteq> None \<or> up_apps p \<noteq> []")
    case True
    then show ?thesis using d4 unfolding if_P [OF True] by (rule_tac publish_frame)
  next
    case False
    then show ?thesis using d4 unfolding if_not_P [OF False] by (simp add: same_role_tables_refl)
  qed
  show ?thesis
    by (rule that [OF d3]) (use f [unfolded same_role_tables_def] d' in simp_all)
qed

section \<open>Authority does not flow upwards\<close>

lemma resolve_authz_cong:
  assumes "tget (user_org_roles d') t = tget (user_org_roles d) t"
    and "\<And>s. tget (user_org_roles d) t = Some s \<Longrightarrow> tget (org_roles d') s = tget (org_roles d) s"
    and "\<And>s k. tget (user_org_roles d) t = Some s \<Longrightarrow> tget (role_permissions d') (s, k) = tget (role_permissions d) (s, k)"
    and "\<And>k. tget (user_permission_overrides d') (t, k) = tget (user_permission_overrides d) (t, k)"
  shows "resolve_authz d' t = resolve_authz d t"
proof -
  have "user_role_row d' t = user_role_row d t"
    using assms(1,2) by (auto simp: user_role_row_def split: option.splits)
  moreover have "effective_effect d' t = effective_effect d t"
    using assms(1,3,4) by (auto simp: fun_eq_iff effective_effect_def role_effect_def split: option.splits)
  ultimately show ?thesis by (simp add: resolve_authz_def)
qed

lemma role_levelE:
  assumes "get_role_level d t \<le> l" and "l < Lvl x"
  obtains s r where "tget (user_org_roles d) t = Some s" and "tget (org_roles d) s = Some r" and "Lvl (or_level r) \<le> l"
proof -
  have "get_role_level d t \<noteq> Infinite" using assms by (cases l) auto
  then show ?thesis using that assms(1)
    by (auto simp: get_role_level_def user_role_row_def split: option.splits)
qed

lemma role_level_row: "tget (user_org_roles d) t = Some s \<Longrightarrow> tget (org_roles d) s = Some r \<Longrightarrow> get_role_level d t = Lvl (or_level r)"
  by (simp add: get_role_level_def user_role_row_def)

lemma target_ofD:
  "target_of d sub = Some t \<Longrightarrow> tr_level t = get_role_level d (lower sub) \<and> tr_slug t = tget (user_org_roles d) (lower sub)
     \<and> (\<exists>i. tget (identities d) (lower sub) = Some i \<and> i_deleted_at i = None)"
  by (auto simp: target_of_def split: option.splits if_splits)

lemma user_access_authz:
  assumes "apply_user_access uuid now actor tgt changes action d = Inr d'"
    and "get_role_level d t \<le> get_role_level d (lower actor)"
  shows "resolve_authz d' t = resolve_authz d t"
proof -
  from assms(1) obtain p where p: "plan_user_access d actor tgt changes = Inr p"
    and w: "write_user_access uuid now tgt action p d = Inr d'"
    unfolding apply_user_access_def by (rule rbind_InrE)
  obtain ts where ts: "lock_actors d actor ts = Inr (up_actor p)" and t: "target_of d tgt = Some (up_target p)"
    and lv: "ac_level (up_actor p) < tr_level (up_target p)"
    using p by (rule plan_user_accessE)
  have "tr_level (up_target p) = get_role_level d (lower tgt)" using target_ofD [OF t] by simp
  then have ne: "t \<noteq> lower tgt" using lv lock_actorsD(2) [OF ts] assms(2) by auto
  obtain d3 where w3: "write_user_tables tgt p d = Inr d3"
    and same: "org_roles d' = org_roles d3" "role_permissions d' = role_permissions d3"
      "user_org_roles d' = user_org_roles d3" "user_permission_overrides d' = user_permission_overrides d3"
    using w by (rule write_user_accessE)
  show ?thesis
    using w3
  proof (rule write_user_tablesE)
    fix po ao
    assume o: "org_roles d3 = org_roles d" "role_permissions d3 = role_permissions d"
      and u: "user_org_roles d3 = (if up_org_role p = None then user_org_roles d
           else case up_new_slug p of None \<Rightarrow> user_org_roles d | Some s \<Rightarrow> tput (lower tgt) s (user_org_roles d))"
      and po: "user_permission_overrides d3 = po"
        "\<And>k. k \<notin> Pair (lower tgt) ` fst ` set (up_permissions p) \<Longrightarrow> tget po k = tget (user_permission_overrides d) k"
    show ?thesis
    proof (rule resolve_authz_cong)
      show "tget (user_org_roles d') t = tget (user_org_roles d) t"
        using u ne same by (auto simp: tbl_simps split: option.splits)
      show "\<And>k. tget (user_permission_overrides d') (t, k) = tget (user_permission_overrides d) (t, k)"
        using po ne same by auto
    qed (simp_all add: o same)
  qed
qed

lemma plan_role_accessE:
  assumes "plan_role_access d actorSub slug changes = Inr p"
  obtains r where "lock_actors d actorSub [] = Inr (rp_actor p)" and "tget (org_roles d) slug = Some r"
    and "ac_level (rp_actor p) < Lvl (or_level r)"
    and "check_all (check_permission (rp_actor p) [''grant'', ''deny'']) (rp_permissions p) = Inr ()"
    and "check_all (check_app_default d (rp_actor p) slug) (rp_defaults p) = Inr ()"
  using assms unfolding plan_role_access_def fail_def Let_def
proof (elim run_elims, goal_cases)
  case (1 a r perms defaults u1 u2 u3 u4)
  then have "p = \<lparr>rp_actor = a, rp_permissions = perms, rp_defaults = defaults\<rparr>" by simp
  then show ?thesis using 1 by (intro that [of r]) (simp_all add: not_le)
qed

lemma write_role_permissionsD:
  "rfold (write_role_permission slug) es d = Inr d' \<Longrightarrow>
     \<exists>t. d' = d\<lparr>role_permissions := t\<rparr> \<and> (\<forall>s k. s \<noteq> slug \<longrightarrow> tget t (s, k) = tget (role_permissions d) (s, k))"
proof (induction es arbitrary: d)
  case Nil
  then show ?case by (intro exI [of _ "role_permissions d"]) simp
next
  case (Cons e es)
  from Cons.prems obtain d1 where d1: "write_role_permission slug e d = Inr d1"
    and r: "rfold (write_role_permission slug) es d1 = Inr d'" by (auto simp: res_simps)
  obtain t1 where t1: "d1 = d\<lparr>role_permissions := t1\<rparr>"
      "\<forall>s k. s \<noteq> slug \<longrightarrow> tget t1 (s, k) = tget (role_permissions d) (s, k)"
    using d1 by (cases e) (force simp: write_role_permission_def tbl_simps split: if_splits)
  obtain t2 where t2: "d' = d1\<lparr>role_permissions := t2\<rparr>"
      "\<forall>s k. s \<noteq> slug \<longrightarrow> tget t2 (s, k) = tget (role_permissions d1) (s, k)"
    using Cons.IH [OF r] by blast
  show ?case by (intro exI [of _ t2]) (use t1 t2 in auto)
qed

lemma write_app_defaultsD:
  "\<exists>t. fold (write_app_default slug) es d = d\<lparr>org_role_app_defaults := t\<rparr>
     \<and> (\<forall>s c. s \<noteq> slug \<or> c \<notin> fst ` set es \<longrightarrow> tget t (s, c) = tget (org_role_app_defaults d) (s, c))"
proof (induction es arbitrary: d)
  case Nil
  show ?case by (intro exI [of _ "org_role_app_defaults d"]) simp
next
  case (Cons e es)
  obtain c0 v where e: "e = (c0, v)" by (cases e)
  define t1 where "t1 = (if v = JStr ''inherit'' then tdel (slug, c0) (org_role_app_defaults d)
      else tput (slug, c0) (value_role v) (org_role_app_defaults d))"
  have t1: "write_app_default slug e d = d\<lparr>org_role_app_defaults := t1\<rparr>"
      "\<forall>s c. s \<noteq> slug \<or> c \<noteq> c0 \<longrightarrow> tget t1 (s, c) = tget (org_role_app_defaults d) (s, c)"
    by (simp_all add: write_app_default_def e t1_def tbl_simps)
  from Cons.IH [of "d\<lparr>org_role_app_defaults := t1\<rparr>"]
  obtain t where t: "fold (write_app_default slug) es (d\<lparr>org_role_app_defaults := t1\<rparr>)
        = (d\<lparr>org_role_app_defaults := t1\<rparr>)\<lparr>org_role_app_defaults := t\<rparr>"
      "\<forall>s c. s \<noteq> slug \<or> c \<notin> fst ` set es \<longrightarrow> tget t (s, c) = tget t1 (s, c)" by auto
  show ?case by (intro exI [of _ t]) (use t1 t e in simp)
qed

lemma write_role_tablesE:
  assumes "write_role_tables slug p d = Inr d'"
  obtains rp ad where "d' = d\<lparr>role_permissions := rp, org_role_app_defaults := ad\<rparr>"
    and "\<And>s k. s \<noteq> slug \<Longrightarrow> tget rp (s, k) = tget (role_permissions d) (s, k)"
    and "\<And>s c. s \<noteq> slug \<or> c \<notin> fst ` set (rp_defaults p) \<Longrightarrow> tget ad (s, c) = tget (org_role_app_defaults d) (s, c)"
proof -
  from assms obtain d1 where d1: "rfold (write_role_permission slug) (rp_permissions p) d = Inr d1"
    and d': "d' = fold (write_app_default slug) (rp_defaults p) d1"
    unfolding write_role_tables_def by (elim rbind_InrE) simp
  obtain rp where rp: "d1 = d\<lparr>role_permissions := rp\<rparr>" "\<forall>s k. s \<noteq> slug \<longrightarrow> tget rp (s, k) = tget (role_permissions d) (s, k)"
    using write_role_permissionsD [OF d1] by blast
  from write_app_defaultsD [of slug "rp_defaults p" d1]
  obtain ad where ad: "fold (write_app_default slug) (rp_defaults p) d1 = d1\<lparr>org_role_app_defaults := ad\<rparr>"
    "\<forall>s c. s \<noteq> slug \<or> c \<notin> fst ` set (rp_defaults p) \<longrightarrow> tget ad (s, c) = tget (org_role_app_defaults d1) (s, c)"
    by (elim exE conjE) (rule that)
  show ?thesis by (rule that [of ad rp]) (use d' rp ad in simp_all)
qed

lemma write_role_accessE:
  assumes "write_role_access uuid now slug action p d = Inr d'"
  obtains d2 d3 x where "write_role_tables slug p d = Inr d2"
    and "(if rp_defaults p \<noteq> [] then publish uuid now (map fst (rp_defaults p)) None d2 else Inr d2) = Inr d3"
    and "d' = write_audit (rp_actor p) action x None d3" and "same_role_tables d2 d3"
proof -
  from assms obtain d2 d3 x where d2: "write_role_tables slug p d = Inr d2"
    and d3: "(if rp_defaults p \<noteq> [] then publish uuid now (map fst (rp_defaults p)) None d2 else Inr d2) = Inr d3"
    and d': "d' = write_audit (rp_actor p) action x None d3"
    unfolding write_role_access_def by (elim rbind_InrE) (rule that, assumption, assumption, drule Inr_inject, erule sym)
  have "same_role_tables d2 d3"
    using d3 publish_frame same_role_tables_refl by (cases "rp_defaults p = []") auto
  with d2 d3 d' show ?thesis by (rule that)
qed

lemma role_access_tables:
  assumes "write_role_access uuid now slug action p d = Inr d'"
  shows "identities d' = identities d" and "org_roles d' = org_roles d" and "user_org_roles d' = user_org_roles d"
    and "user_permission_overrides d' = user_permission_overrides d" and "settings d' = settings d"
    and "s \<noteq> slug \<Longrightarrow> tget (role_permissions d') (s, k) = tget (role_permissions d) (s, k)"
    and "s \<noteq> slug \<Longrightarrow> tget (org_role_app_defaults d') (s, k) = tget (org_role_app_defaults d) (s, k)"
proof -
  obtain d2 d3 x where w: "write_role_tables slug p d = Inr d2" and d': "d' = write_audit (rp_actor p) action x None d3"
    and f: "same_role_tables d2 d3"
    using assms by (rule write_role_accessE)
  from w obtain rp ad where "d2 = d\<lparr>role_permissions := rp, org_role_app_defaults := ad\<rparr>"
    and "\<And>s k. s \<noteq> slug \<Longrightarrow> tget rp (s, k) = tget (role_permissions d) (s, k)"
    and "\<And>s c. s \<noteq> slug \<or> c \<notin> fst ` set (rp_defaults p) \<Longrightarrow> tget ad (s, c) = tget (org_role_app_defaults d) (s, c)"
    by (rule write_role_tablesE) blast
  with f [unfolded same_role_tables_def] d'
  show "identities d' = identities d" "org_roles d' = org_roles d" "user_org_roles d' = user_org_roles d"
    "user_permission_overrides d' = user_permission_overrides d" "settings d' = settings d"
    "s \<noteq> slug \<Longrightarrow> tget (role_permissions d') (s, k) = tget (role_permissions d) (s, k)"
    "s \<noteq> slug \<Longrightarrow> tget (org_role_app_defaults d') (s, k) = tget (org_role_app_defaults d) (s, k)"
    by simp_all
qed

lemma role_access_authz:
  assumes "apply_role_access uuid now actor slug changes action d = Inr d'"
    and "get_role_level d t \<le> get_role_level d (lower actor)"
  shows "resolve_authz d' t = resolve_authz d t"
proof -
  from assms(1) obtain p where p: "plan_role_access d actor slug changes = Inr p"
    and w: "write_role_access uuid now slug action p d = Inr d'"
    unfolding apply_role_access_def by (rule rbind_InrE)
  obtain r where a: "lock_actors d actor [] = Inr (rp_actor p)" and r: "tget (org_roles d) slug = Some r"
    and lv: "ac_level (rp_actor p) < Lvl (or_level r)"
    using p by (rule plan_role_accessE)
  have le: "get_role_level d t \<le> ac_level (rp_actor p)" using assms(2) lock_actorsD(2) [OF a] by simp
  from le lv obtain s q where s: "tget (user_org_roles d) t = Some s" "tget (org_roles d) s = Some q" "Lvl (or_level q) \<le> ac_level (rp_actor p)"
    by (rule role_levelE)
  have "s \<noteq> slug" using s r lv by auto
  then show ?thesis
    using role_access_tables [OF w] s by (intro resolve_authz_cong) auto
qed

section \<open>The structure of roles and memberships\<close>

text \<open>The references between the tables, and the default role of new accounts.\<close>

definition org_ok :: "db \<Rightarrow> bool" where
  "org_ok d =
    (list_all (\<lambda>s. case tget (user_org_roles d) s of None \<Rightarrow> True
       | Some slug \<Rightarrow> tget (org_roles d) slug \<noteq> None \<and> tget (identities d) s \<noteq> None) (tkeys (user_org_roles d))
     \<and> list_all (\<lambda>(slug, _). tget (org_roles d) slug \<noteq> None) (tkeys (role_permissions d))
     \<and> list_all (\<lambda>(slug, _). tget (org_roles d) slug \<noteq> None) (tkeys (org_role_app_defaults d))
     \<and> tget (org_roles d) (default_org_role d) \<noteq> None \<and> tget (org_roles d) [] = None)"

lemma tkeys_iff: "k \<in> set (tkeys t) \<longleftrightarrow> tget t k \<noteq> None"
  using tget_None_iff by metis

lemma all_keys: "list_all (\<lambda>(a, b). P a) (tkeys t) \<longleftrightarrow> (\<forall>a b. tget t (a, b) \<noteq> None \<longrightarrow> P a)"
  unfolding list_all_iff Ball_def tkeys_iff by simp

lemma all_values:
  "list_all (\<lambda>k. case tget t k of None \<Rightarrow> True | Some v \<Rightarrow> Q k v) (tkeys t) \<longleftrightarrow> (\<forall>k v. tget t k = Some v \<longrightarrow> Q k v)"
  unfolding list_all_iff Ball_def tkeys_iff by (auto split: option.splits)

lemma org_ok_iff:
  "org_ok d \<longleftrightarrow>
    (\<forall>s slug. tget (user_org_roles d) s = Some slug \<longrightarrow> tget (org_roles d) slug \<noteq> None \<and> tget (identities d) s \<noteq> None)
    \<and> (\<forall>slug k. tget (role_permissions d) (slug, k) \<noteq> None \<longrightarrow> tget (org_roles d) slug \<noteq> None)
    \<and> (\<forall>slug k. tget (org_role_app_defaults d) (slug, k) \<noteq> None \<longrightarrow> tget (org_roles d) slug \<noteq> None)
    \<and> tget (org_roles d) (default_org_role d) \<noteq> None \<and> tget (org_roles d) [] = None"
  by (simp only: org_ok_def all_keys all_values)

definition system_kept :: "db \<Rightarrow> db \<Rightarrow> bool" where
  "system_kept d d' = (\<forall>s r. tget (org_roles d) s = Some r \<and> or_is_system r \<longrightarrow>
     (\<exists>r'. tget (org_roles d') s = Some r' \<and> or_is_system r'))"

lemma user_access_structure:
  assumes "apply_user_access uuid now actor tgt changes action d = Inr d'"
  shows "system_kept d d'" and "org_ok d \<Longrightarrow> org_ok d'"
proof -
  from assms(1) obtain p where p: "plan_user_access d actor tgt changes = Inr p"
    and w: "write_user_access uuid now tgt action p d = Inr d'"
    unfolding apply_user_access_def by (rule rbind_InrE)
  obtain ts where t: "target_of d tgt = Some (up_target p)"
    and some: "\<forall>s. up_org_role p = Some s \<longrightarrow> up_new_slug p = Some s \<and>
           (\<exists>r. tget (org_roles d) s = Some r \<and> ac_level (up_actor p) < Lvl (or_level r))"
    using p by (rule plan_user_accessE)
  obtain d3 where w3: "write_user_tables tgt p d = Inr d3"
    and same: "identities d' = identities d3" "org_roles d' = org_roles d3" "role_permissions d' = role_permissions d3"
      "org_role_app_defaults d' = org_role_app_defaults d3" "settings d' = settings d3" "user_org_roles d' = user_org_roles d3"
    using w by (rule write_user_accessE)
  show "system_kept d d'"
    using w3 by (rule write_user_tablesE) (simp add: system_kept_def same)
  show "org_ok d'" if ok: "org_ok d"
    using w3
  proof (rule write_user_tablesE)
    fix po ao
    assume o': "identities d3 = identities d" "org_roles d3 = org_roles d" "role_permissions d3 = role_permissions d"
        "org_role_app_defaults d3 = org_role_app_defaults d" "settings d3 = settings d"
      and u': "user_org_roles d3 = (if up_org_role p = None then user_org_roles d
           else case up_new_slug p of None \<Rightarrow> user_org_roles d | Some s \<Rightarrow> tput (lower tgt) s (user_org_roles d))"
    note o = o' [folded same] and u = u' [folded same]
    have live: "tget (identities d) (lower tgt) \<noteq> None" using target_ofD [OF t] by auto
    have "tget (org_roles d) slug \<noteq> None \<and> tget (identities d) s \<noteq> None"
      if "tget (user_org_roles d') s = Some slug" for s slug
    proof (cases "up_org_role p")
      case None
      then show ?thesis using that u ok by (simp add: org_ok_iff)
    next
      case (Some x)
      then show ?thesis using that u ok some live by (auto simp: org_ok_iff tbl_simps split: if_splits)
    qed
    then show ?thesis using ok o unfolding org_ok_iff by (simp add: default_org_role_def)
  qed
qed

lemma role_access_structure:
  assumes "apply_role_access uuid now actor slug changes action d = Inr d'"
  shows "system_kept d d'" and "org_ok d \<Longrightarrow> org_ok d'"
proof -
  from assms(1) obtain p where p: "plan_role_access d actor slug changes = Inr p"
    and w: "write_role_access uuid now slug action p d = Inr d'"
    unfolding apply_role_access_def by (rule rbind_InrE)
  obtain r where r: "tget (org_roles d) slug = Some r" using p by (rule plan_role_accessE)
  note o = role_access_tables [OF w]
  show "system_kept d d'" using o(2) by (simp add: system_kept_def)
  show "org_ok d'" if ok: "org_ok d"
  proof -
    have "tget (org_roles d) s \<noteq> None" if "tget (role_permissions d') (s, k) \<noteq> None" for s k
      using that o(6) [of s k] ok r unfolding org_ok_iff by (cases "s = slug") (simp, metis)
    moreover have "tget (org_roles d) s \<noteq> None" if "tget (org_role_app_defaults d') (s, k) \<noteq> None" for s k
      using that o(7) [of s k] ok r unfolding org_ok_iff by (cases "s = slug") (simp, metis)
    ultimately show ?thesis using ok o(1-5) unfolding org_ok_iff by (simp add: default_org_role_def)
  qed
qed

text \<open>Copying the seed role's rows under a new key leaves the rows of every other role alone.\<close>

lemma seed_fold_other:
  "s \<noteq> slug \<Longrightarrow> tget (fold (\<lambda>((r, k), e). if r = seed then tput (slug, k) e else id) rows t) (s, j) = tget t (s, j)"
  by (induction rows arbitrary: t) (auto simp: tbl_simps)

lemma create_role_cases:
  assumes "create_org_role actor body d = Inr (slug, d')"
  obtains a lbl lvl where "lock_actors d actor [] = Inr a" and "tget (org_roles d) slug = None" and "slug \<noteq> []"
    and "tget (org_roles d) (default_org_role d) \<noteq> None" and "ac_level a < Lvl lvl" and "1 \<le> lvl" and "lvl \<le> 9999"
    and "org_roles d' = tput slug \<lparr>or_label = lbl, or_level = lvl, or_is_system = False\<rparr> (org_roles d)"
    and "\<And>s j. s \<noteq> slug \<Longrightarrow> tget (role_permissions d') (s, j) = tget (role_permissions d) (s, j)"
    and "\<And>s j. s \<noteq> slug \<Longrightarrow> tget (org_role_app_defaults d') (s, j) = tget (org_role_app_defaults d) (s, j)"
    and "identities d' = identities d" and "user_org_roles d' = user_org_roles d"
    and "user_permission_overrides d' = user_permission_overrides d" and "settings d' = settings d"
  using assms unfolding create_org_role_def Let_def
proof (elim run_elims, goal_cases)
  case (1 a u)
  define lvl where "lvl = the (js_number (jmember body ''level''))"
  from 1 have sl: "slug = trimmed (jmember body ''slug'')" by simp
  from 1 have "level_in_range (js_number (jmember body ''level''))" and "\<not> Lvl lvl \<le> ac_level a"
    by (auto simp: lvl_def split: if_splits)
  moreover have "slug \<noteq> []" using 1 sl by (auto simp: is_slug_def split: if_splits)
  ultimately have "slug \<noteq> []" "1 \<le> lvl" "lvl \<le> 9999" "ac_level a < Lvl lvl"
    by (auto simp: level_in_range_def lvl_def not_le split: option.splits)
  then show ?thesis
    using 1 sl by (intro that [of a lvl "trimmed (jmember body ''label'')"]) (auto simp: lvl_def seed_fold_other)
qed

lemma patch_levelD:
  "patch_level a body = Inr (Some n) \<Longrightarrow> ac_level a < Lvl n \<and> 1 \<le> n \<and> n \<le> 9999"
  by (auto simp: patch_level_def level_in_range_def Let_def not_le elim!: run_elims split: option.splits)

lemma patch_role_cases:
  assumes "patch_org_role actor slug body d = Inr d'"
  obtains a r r' where "lock_actors d actor [] = Inr a" and "tget (org_roles d) slug = Some r"
    and "ac_level a < Lvl (or_level r)" and "ac_level a < Lvl (or_level r')" and "or_is_system r' = or_is_system r"
    and "org_roles d' = tput slug r' (org_roles d)" and "role_permissions d' = role_permissions d"
    and "org_role_app_defaults d' = org_role_app_defaults d"
    and "identities d' = identities d" and "user_org_roles d' = user_org_roles d"
    and "user_permission_overrides d' = user_permission_overrides d" and "settings d' = settings d"
  using assms unfolding patch_org_role_def fail_def Let_def
proof (elim run_elims, goal_cases)
  case (1 a r lbl lvl)
  define r1 where "r1 = (case lbl of None \<Rightarrow> r | Some l \<Rightarrow> r\<lparr>or_label := l\<rparr>)"
  define r2 where "r2 = (case lvl of None \<Rightarrow> r1 | Some n \<Rightarrow> r1\<lparr>or_level := n\<rparr>)"
  have same: "or_level r1 = or_level r" "or_is_system r1 = or_is_system r" by (simp_all add: r1_def split: option.splits)
  have "ac_level a < Lvl (or_level r2)"
    using 1 patch_levelD [of a body] same by (cases lvl) (auto simp: r2_def not_le)
  moreover have "or_is_system r2 = or_is_system r" using same by (simp add: r2_def split: option.splits)
  ultimately show ?thesis using 1 r1_def r2_def by (intro that [of a r r2]) (auto simp: not_le)
qed

lemma tget_filter_key: "tget (tfilter (\<lambda>k _. P k) t) k = (if P k then tget t k else None)"
  by (induction t) (auto simp: tget_def tfilter_def)

lemma filter_role: "tget (tfilter (\<lambda>(s, _) _. s \<noteq> slug) t) (s, j) = (if s \<noteq> slug then tget t (s, j) else None)"
  using tget_filter_key [of "\<lambda>k. fst k \<noteq> slug" t "(s, j)"] by (simp add: case_prod_beta')

lemma delete_role_cases:
  assumes "delete_org_role actor slug d = Inr d'"
  obtains a r where "lock_actors d actor [] = Inr a" and "tget (org_roles d) slug = Some r" and "\<not> or_is_system r"
    and "ac_level a < Lvl (or_level r)" and "\<And>s. tget (user_org_roles d) s \<noteq> Some slug" and "default_org_role d \<noteq> slug"
    and "org_roles d' = tdel slug (org_roles d)"
    and "\<And>s j. tget (role_permissions d') (s, j) = (if s \<noteq> slug then tget (role_permissions d) (s, j) else None)"
    and "\<And>s j. tget (org_role_app_defaults d') (s, j) = (if s \<noteq> slug then tget (org_role_app_defaults d) (s, j) else None)"
    and "identities d' = identities d" and "user_org_roles d' = user_org_roles d"
    and "user_permission_overrides d' = user_permission_overrides d" and "settings d' = settings d"
  using assms unfolding delete_org_role_def fail_def
proof (elim run_elims, goal_cases)
  case (1 a u r)
  have free: "\<forall>x \<in> set (user_org_roles d). snd x \<noteq> slug" using 1 by (auto simp: list_ex_iff)
  then have "tget (user_org_roles d) s \<noteq> Some slug" for s by (force simp: tget_def dest: map_of_SomeD)
  moreover have "tfilter (\<lambda>_ s. s \<noteq> slug) (user_org_roles d) = user_org_roles d"
    using free by (auto simp: tfilter_def filter_id_conv)
  ultimately show ?thesis
    using 1 by (intro that [of a r]) (auto simp: not_le remove_role_def filter_role)
qed

lemma set_default_cases:
  assumes "set_default_org_role actor slug d = Inr d'"
  obtains a r where "lock_actors d actor [] = Inr a" and "tget (org_roles d) slug = Some r"
    and "ac_level a < Lvl (or_level r)"
    and "org_roles d' = org_roles d" and "role_permissions d' = role_permissions d"
    and "org_role_app_defaults d' = org_role_app_defaults d"
    and "identities d' = identities d" and "user_org_roles d' = user_org_roles d"
    and "user_permission_overrides d' = user_permission_overrides d"
    and "settings d' = tput ''default_org_role'' slug (settings d)"
  using assms unfolding set_default_org_role_def fail_def
  by (elim run_elims) (rule that, assumption, assumption, auto simp: not_le)

lemma create_user_cases:
  assumes "create_org_user now actor input d = Inr (sub, d')"
  obtains a r i where "lock_actors d actor [] = Inr a" and "tget (org_roles d) (pu_role_slug input) = Some r"
    and "ac_level a < Lvl (or_level r)" and "tget (identities d) (lower sub) = None"
    and "identities d' = tput (lower sub) i (identities d)"
    and "user_org_roles d' = tput (lower sub) (pu_role_slug input) (user_org_roles d)"
    and "org_roles d' = org_roles d" and "role_permissions d' = role_permissions d"
    and "org_role_app_defaults d' = org_role_app_defaults d"
    and "user_permission_overrides d' = user_permission_overrides d" and "settings d' = settings d"
  using assms unfolding create_org_user_def
proof (elim run_elims, goal_cases)
  case (1 a u r)
  define i where "i = \<lparr>i_username = pu_username input, i_display_name = pu_display_name input,
     i_email = (if pu_email input = [] then None else Some (pu_email input)),
     i_email_verified = (pu_email input \<noteq> []), i_password_hash = Some (pu_password_hash input),
     i_password_changed_at = Some now, i_mfa_enabled = False, i_avatar = None, i_status = Active, i_deleted_at = None\<rparr>"
  then show ?thesis using 1 unfolding i_def [symmetric] by (intro that [of a r i]) (simp_all add: not_le, auto)
qed

lemma default_tput: "tget (settings d') = tget (tput ''default_org_role'' slug (settings d)) \<Longrightarrow>
    default_org_role d' = or_else slug ''standard_user''"
  by (simp add: default_org_role_def tbl_simps)

lemma admin_run_structure:
  assumes "admin_run uuid now a op d = Inr d'"
  shows "system_kept d d'" and "org_ok d \<Longrightarrow> org_ok d'"
proof -
  have "system_kept d d' \<and> (org_ok d \<longrightarrow> org_ok d')"
  proof (cases op)
    case (UserAccess tgt changes action)
    then show ?thesis using assms user_access_structure by simp
  next
    case (RoleAccess slug changes action)
    then show ?thesis using assms role_access_structure by simp
  next
    case (CreateRole body)
    then obtain slug where c: "create_org_role a body d = Inr (slug, d')" using assms by (auto simp: res_simps)
    then show ?thesis
    proof (rule create_role_cases, goal_cases)
      case (1 act lbl lvl)
      have "tget (org_roles d') s = tget (org_roles d) s" if "s \<noteq> slug" for s using that 1 by (simp add: tbl_simps)
      moreover have "tget (org_roles d') slug \<noteq> None" using 1 by (simp add: tbl_simps)
      moreover have "default_org_role d' = default_org_role d" using 1 by (simp add: default_org_role_def)
      ultimately show ?thesis using 1 unfolding org_ok_iff system_kept_def by (metis not_None_eq)
    qed
  next
    case (PatchRole slug body)
    then have "patch_org_role a slug body d = Inr d'" using assms by simp
    then show ?thesis
    proof (rule patch_role_cases, goal_cases)
      case (1 act r r')
      have "tget (org_roles d') s = (if s = slug then Some r' else tget (org_roles d) s)" for s using 1 by (simp add: tbl_simps)
      moreover have "default_org_role d' = default_org_role d" using 1 by (simp add: default_org_role_def)
      ultimately show ?thesis using 1 unfolding org_ok_iff system_kept_def by auto
    qed
  next
    case (DeleteRole slug)
    then have "delete_org_role a slug d = Inr d'" using assms by simp
    then show ?thesis
    proof (rule delete_role_cases, goal_cases)
      case (1 act r)
      have r: "tget (org_roles d') s = (if s = slug then None else tget (org_roles d) s)" for s using 1 by (simp add: tbl_simps)
      moreover have "default_org_role d' = default_org_role d" using 1 by (simp add: default_org_role_def)
      moreover have "tget (role_permissions d') (s, j) = (if s = slug then None else tget (role_permissions d) (s, j))"
        "tget (org_role_app_defaults d') (s, j) = (if s = slug then None else tget (org_role_app_defaults d) (s, j))" for s j
        using 1 by simp_all
      ultimately show ?thesis using 1 unfolding org_ok_iff system_kept_def by auto
    qed
  next
    case (SetDefaultRole slug)
    then have "set_default_org_role a slug d = Inr d'" using assms by simp
    then show ?thesis
    proof (rule set_default_cases, goal_cases)
      case (1 act r)
      have "default_org_role d' = or_else slug ''standard_user''" using 1 by (intro default_tput) simp
      moreover have "tget (org_roles d) (or_else slug ''standard_user'') \<noteq> None" if "org_ok d"
        using that 1 by (cases "slug = []") (auto simp: org_ok_iff or_else_def)
      ultimately show ?thesis using 1 unfolding org_ok_iff system_kept_def by auto
    qed
  next
    case (CreateUser input)
    then obtain sub where "create_org_user now a input d = Inr (sub, d')" using assms by (auto simp: res_simps)
    then show ?thesis
    proof (rule create_user_cases, goal_cases)
      case (1 act r i)
      have "tget (identities d') s = (if s = lower sub then Some i else tget (identities d) s)"
        "tget (user_org_roles d') s = (if s = lower sub then Some (pu_role_slug input) else tget (user_org_roles d) s)" for s
        using 1 by (simp_all add: tbl_simps)
      moreover have "default_org_role d' = default_org_role d" using 1 by (simp add: default_org_role_def)
      ultimately show ?thesis using 1 unfolding org_ok_iff system_kept_def by auto
    qed
  qed
  then show "system_kept d d'" "org_ok d \<Longrightarrow> org_ok d'" by blast+
qed

lemma admin_run_authz:
  assumes run: "admin_run uuid now a op d = Inr d'" and ok: "org_ok d"
    and le: "get_role_level d t \<le> get_role_level d (lower a)"
  shows "resolve_authz d' t = resolve_authz d t"
proof (cases op)
  case (UserAccess tgt changes action)
  then show ?thesis using run user_access_authz le by simp
next
  case (RoleAccess slug changes action)
  then show ?thesis using run role_access_authz le by simp
next
  case (CreateRole body)
  then obtain slug where c: "create_org_role a body d = Inr (slug, d')" using run by (auto simp: res_simps)
  then show ?thesis
  proof (rule create_role_cases, goal_cases)
    case (1 act lbl lvl)
    have "tget (user_org_roles d) t \<noteq> Some slug" using ok 1 unfolding org_ok_iff by blast
    then show ?thesis using 1 by (intro resolve_authz_cong) (auto simp: tbl_simps)
  qed
next
  case (PatchRole slug body)
  then have "patch_org_role a slug body d = Inr d'" using run by simp
  then show ?thesis
  proof (rule patch_role_cases, goal_cases)
    case (1 act r r')
    have "tget (user_org_roles d) t \<noteq> Some slug"
      using role_level_row [of d t slug r] 1 lock_actorsD(2) [of d a "[]" act] le by auto
    then show ?thesis using 1 by (intro resolve_authz_cong) (auto simp: tbl_simps)
  qed
next
  case (DeleteRole slug)
  then have "delete_org_role a slug d = Inr d'" using run by simp
  then show ?thesis
  proof (rule delete_role_cases, goal_cases)
    case (1 act r)
    then show ?thesis by (intro resolve_authz_cong) (auto simp: tbl_simps)
  qed
next
  case (SetDefaultRole slug)
  then have "set_default_org_role a slug d = Inr d'" using run by simp
  then show ?thesis
    by (rule set_default_cases) (rule resolve_authz_cong, simp_all)
next
  case (CreateUser input)
  then obtain sub where "create_org_user now a input d = Inr (sub, d')" using run by (auto simp: res_simps)
  then show ?thesis
  proof (rule create_user_cases, goal_cases)
    case (1 act r i)
    have "act_level": "get_role_level d t < Lvl (or_level r)" using 1 lock_actorsD(2) [of d a "[]" act] le by auto
    have "t \<noteq> lower sub"
    proof
      assume t: "t = lower sub"
      then have "tget (user_org_roles d) t = None" using ok 1 unfolding org_ok_iff by (metis not_None_eq)
      then show False using "act_level" by (simp add: get_role_level_def user_role_row_def)
    qed
    then show ?thesis using 1 by (intro resolve_authz_cong) (auto simp: tbl_simps)
  qed
qed

section \<open>Application roles\<close>

lemma org_default_frame:
  "app_role_catalogs d' = app_role_catalogs d \<Longrightarrow> org_role_app_defaults d' = org_role_app_defaults d \<Longrightarrow>
     org_default d' s c = org_default d s c"
  by (simp add: org_default_def cong: option.case_cong)

text \<open>Below the user override, the resolution is the default of the role the user holds.\<close>

lemma role_without_override:
  assumes "tget (user_app_role_overrides d) (lower u, c) = None" and "has_app_catalog d c"
  shows "role_of d u c = org_default d (tget (user_org_roles d) (lower u)) c"
  using assms by (auto simp: role_of_def effective_app_role_def org_default_def org_layer_def has_app_catalog_def
      split: option.splits)

lemma role_with_override:
  "tget (user_app_role_overrides d) (lower u, c) = Some r \<Longrightarrow> role_of d u c = r"
  by (simp add: role_of_def effective_app_role_def)

lemma catalog_clients_iff: "c \<in> set (catalog_clients d) \<longleftrightarrow> has_app_catalog d c"
  by (simp add: catalog_clients_def tkeys_iff has_app_catalog_def)

lemma app_level_frame: "app_roles d' = app_roles d \<Longrightarrow> app_role_level d' c r = app_role_level d c r"
  by (simp add: app_role_level_def cong: option.case_cong)

lemma has_own_iff: "has_own ms k \<longleftrightarrow> k \<in> fst ` set ms"
  by (force simp: has_own_def jmember_def map_of_eq_None_iff)

lemma user_access_app_roles:
  assumes run: "apply_user_access uuid now actor tgt changes action d = Inr d'"
    and cat: "has_app_catalog d c" and moved: "role_of d' tgt c \<noteq> role_of d tgt c"
  shows "app_role_level d c (role_of d actor c) \<le> app_role_level d' c (role_of d' tgt c)"
proof -
  from run obtain p where p: "plan_user_access d actor tgt changes = Inr p"
    and w: "write_user_access uuid now tgt action p d = Inr d'"
    unfolding apply_user_access_def by (rule rbind_InrE)
  obtain ts where a: "lock_actors d actor ts = Inr (up_actor p)" and t: "target_of d tgt = Some (up_target p)"
    and none: "up_org_role p = None \<longrightarrow> up_new_slug p = tr_slug (up_target p)"
    and some: "\<forall>s. up_org_role p = Some s \<longrightarrow> up_new_slug p = Some s \<and>
           (\<exists>r. tget (org_roles d) s = Some r \<and> ac_level (up_actor p) < Lvl (or_level r))"
    and apps: "check_all (check_app_role d (up_actor p) tgt (up_new_slug p)) (up_apps p) = Inr ()"
    and moves: "up_org_role p \<noteq> None \<longrightarrow>
           check_all (check_role_move d (up_actor p) tgt (up_new_slug p) (up_apps p)) (catalog_clients d) = Inr ()"
    using p by (rule plan_user_accessE)
  have act: "actor_level d (up_actor p) c = app_role_level d c (role_of d actor c)"
    using lock_actorsD(1) [OF a] by (simp add: actor_level_def)
  obtain d3 where w3: "write_user_tables tgt p d = Inr d3"
    and same: "app_roles d' = app_roles d3" "app_role_catalogs d' = app_role_catalogs d3"
      "org_role_app_defaults d' = org_role_app_defaults d3" "user_org_roles d' = user_org_roles d3"
      "user_app_role_overrides d' = user_app_role_overrides d3"
    using w by (rule write_user_accessE)
  show ?thesis
    using w3
  proof (rule write_user_tablesE)
    fix po ao
    assume o': "app_roles d3 = app_roles d" "app_role_catalogs d3 = app_role_catalogs d"
        "org_role_app_defaults d3 = org_role_app_defaults d"
      and u': "user_org_roles d3 = (if up_org_role p = None then user_org_roles d
           else case up_new_slug p of None \<Rightarrow> user_org_roles d | Some s \<Rightarrow> tput (lower tgt) s (user_org_roles d))"
      and ao0: "user_app_role_overrides d3 = ao"
      and aos:
        "\<And>s c. s \<noteq> lower tgt \<or> c \<notin> fst ` set (up_apps p) \<Longrightarrow> tget ao (s, c) = tget (user_app_role_overrides d) (s, c)"
        "\<And>c. c \<in> fst ` set (up_apps p) \<Longrightarrow> \<exists>v. (c, v) \<in> set (up_apps p)
           \<and> tget ao (lower tgt, c) = (if v = JStr ''inherit'' then None else Some (value_role v))"
    note o = o' [folded same] and u = u' [folded same] and ao = ao0 [folded same] aos
    have slug: "tget (user_org_roles d') (lower tgt) = up_new_slug p"
      using u none some target_ofD [OF t] by (cases "up_org_role p") (auto simp: tbl_simps)
    have cat': "has_app_catalog d' c" using cat o by (simp add: has_app_catalog_def)
    have lev: "app_role_level d' c r = app_role_level d c r" for r by (rule app_level_frame [OF o(1)])
    have below: "role_of d' tgt c = org_default d (up_new_slug p) c" if "tget ao (lower tgt, c) = None"
      using role_without_override [of d' tgt c] that ao(1) cat' slug org_default_frame [OF o(2,3)] by simp
    show ?thesis
    proof (cases "c \<in> fst ` set (up_apps p)")
      case True
      then obtain v where v: "(c, v) \<in> set (up_apps p)"
        and val: "tget ao (lower tgt, c) = (if v = JStr ''inherit'' then None else Some (value_role v))" using ao(3) by blast
      have "check_app_role d (up_actor p) tgt (up_new_slug p) (c, v) = Inr ()" using apps v by (simp add: check_all_Inr)
      then have "actor_level d (up_actor p) c
          \<le> app_role_level d c (if v = JStr ''inherit'' then org_default d (up_new_slug p) c else value_role v)"
        using check_app_roleD by blast
      moreover have "role_of d' tgt c = (if v = JStr ''inherit'' then org_default d (up_new_slug p) c else value_role v)"
        using val below role_with_override [of d' tgt c] ao(1) by (auto split: if_splits)
      ultimately show ?thesis using act lev by simp
    next
      case False
      then have ov: "tget ao (lower tgt, c) = tget (user_app_role_overrides d) (lower tgt, c)" using ao(2) by blast
      have unset: "tget (user_app_role_overrides d) (lower tgt, c) = None"
      proof (rule ccontr)
        assume "\<not> ?thesis"
        then obtain r where "tget (user_app_role_overrides d) (lower tgt, c) = Some r" by auto
        then show False using moved ov ao(1) role_with_override [of d tgt c r] role_with_override [of d' tgt c r] by simp
      qed
      then have new: "role_of d' tgt c = org_default d (up_new_slug p) c" using below ov by simp
      have "up_org_role p \<noteq> None"
      proof
        assume "up_org_role p = None"
        then show False using new moved none role_without_override [OF unset cat] target_ofD [OF t] by simp
      qed
      then have "check_role_move d (up_actor p) tgt (up_new_slug p) (up_apps p) c = Inr ()"
        using moves cat by (simp add: check_all_Inr catalog_clients_iff)
      then have "actor_level d (up_actor p) c \<le> app_role_level d c (org_default d (up_new_slug p) c)"
        using check_role_moveD False unset new moved by (fastforce simp: has_own_iff)
      then show ?thesis using new act lev by simp
    qed
  qed
qed

section \<open>The ledger stays current\<close>

lemma publish_client_others:
  assumes "publish_client uuid now ss opts cid (t, d) = Inr (t', d')" and "s \<notin> set (live_subjects d ss)"
  shows "tget (app_role_effective d') (c, s) = tget (app_role_effective d) (c, s)"
  using assms(1)
proof (cases rule: publish_client_cases)
  case (quiet st)
  then show ?thesis using ensure_frame [OF quiet(1)] by simp
next
  case (published st d1 rn d2)
  note e = ensure_frame [OF published(1)] and a = advance_frame [OF published(3)] and c = chunks_frame [OF published(4)]
  have "same_role_tables d d1" using e by simp
  then have "s \<notin> set (live_subjects d1 ss)" using assms(2) live_subjects_frame by simp
  then have "s \<notin> ec_sub ` set (changed_rows d1 cid ss opts)"
    using changed_rows_subset effective_rows_member(3) by blast
  then show ?thesis using e a c by (simp add: ledger_fold concat_chunks)
qed

lemma publish_others:
  assumes "publish_role_changes uuid now clients ss opts d = Inr (n, d')" and "s \<notin> set (live_subjects d ss)"
  shows "tget (app_role_effective d') (c, s) = tget (app_role_effective d) (c, s)"
proof -
  have "tget (app_role_effective d') (c, s) = tget (app_role_effective d) (c, s)"
    if "rfold (publish_client uuid now ss opts) cs (t, d) = Inr (t', d')" "s \<notin> set (live_subjects d ss)" for cs t t' d d'
    using that
  proof (induction cs arbitrary: t d)
    case Nil
    then show ?case by simp
  next
    case (Cons x cs)
    then obtain t1 d1 where p: "publish_client uuid now ss opts x (t, d) = Inr (t1, d1)"
      and r: "rfold (publish_client uuid now ss opts) cs (t1, d1) = Inr (t', d')"
      by (auto simp: res_simps)
    have "same_role_tables d d1" using publish_client_step [OF p] by (simp add: client_step_def)
    then have "s \<notin> set (live_subjects d1 ss)" using Cons.prems(2) live_subjects_frame by simp
    then show ?case using Cons.IH [OF r] publish_client_others [OF p Cons.prems(2)] by simp
  qed
  then show ?thesis using assms unfolding publish_role_changes_def by blast
qed

text \<open>Every live account's ledger row is the resolved role, for every client with a catalog.\<close>

definition ledger_ok :: "db \<Rightarrow> bool" where
  "ledger_ok d = list_all (\<lambda>c. list_all (ledger_current d c) (live_subjects d None)) (catalog_clients d)"

lemma ledger_ok_iff: "ledger_ok d \<longleftrightarrow> (\<forall>c s. has_app_catalog d c \<longrightarrow> s \<in> set (live_subjects d None) \<longrightarrow> ledger_current d c s)"
  by (auto simp: ledger_ok_def list_all_iff catalog_clients_iff)

text \<open>A write followed by a publication: if the write moves only roles that the publication covers,
  the ledger is current again.\<close>

lemma publish_renews_ledger:
  assumes ok: "ledger_ok d" and pub: "publish_role_changes uuid now clients ss opts d1 = Inr (n, d')"
    and idents: "identities d1 = identities d" and ledger: "app_role_effective d1 = app_role_effective d"
    and covered: "\<And>c s. s \<in> set (live_subjects d1 None) \<Longrightarrow> has_app_catalog d1 c \<Longrightarrow>
        c \<in> set clients \<and> s \<in> set (live_subjects d1 ss)
        \<or> has_app_catalog d c \<and> resolved_role d1 c s = resolved_role d c s"
  shows "ledger_ok d'"
  unfolding ledger_ok_iff
proof (intro allI impI)
  fix c s assume c: "has_app_catalog d' c" and s: "s \<in> set (live_subjects d' None)"
  have f: "same_role_tables d1 d'" using publish_step_of [OF pub] by (simp add: publish_step_def)
  have c1: "has_app_catalog d1 c" and s1: "s \<in> set (live_subjects d1 None)"
    using c s catalog_frame [OF f] live_subjects_frame [OF f] by simp_all
  have s0: "s \<in> set (live_subjects d None)" using s1 idents by (simp add: live_subjects_def)
  show "ledger_current d' c s"
  proof (cases "c \<in> set clients \<and> s \<in> set (live_subjects d1 ss)")
    case True
    then show ?thesis using publish_ledger(1) [OF pub] c1 by blast
  next
    case False
    then have same: "has_app_catalog d c" "resolved_role d1 c s = resolved_role d c s" using covered [OF s1 c1] by blast+
    then have "ledger_current d c s" using ok s0 by (simp add: ledger_ok_iff)
    then have "ledger_current d1 c s" using same(2) ledger by (simp add: ledger_current_def cong: option.case_cong)
    moreover have "tget (app_role_effective d') (c, s) = tget (app_role_effective d1) (c, s)"
    proof (cases "s \<in> set (live_subjects d1 ss)")
      case True
      then have "c \<notin> set clients" using False by blast
      then show ?thesis using publish_step_of [OF pub] by (simp add: publish_step_def)
    next
      case False
      then show ?thesis by (rule publish_others [OF pub])
    qed
    ultimately show ?thesis using ledger_current_frame [OF f] by blast
  qed
qed

lemma publish_keeps_ledger:
  assumes ok: "ledger_ok d" and pub: "publish_role_changes uuid now clients ss no_options d1 = Inr (n, d')"
    and idents: "identities d1 = identities d" and cats: "app_role_catalogs d1 = app_role_catalogs d"
    and ledger: "app_role_effective d1 = app_role_effective d"
    and covered: "\<And>c s. resolved_role d1 c s \<noteq> resolved_role d c s \<Longrightarrow> s \<in> set (live_subjects d1 None) \<Longrightarrow> has_app_catalog d1 c \<Longrightarrow>
        c \<in> set clients \<and> s \<in> set (live_subjects d1 ss)"
  shows "ledger_ok d'"
proof (rule publish_renews_ledger [OF ok pub idents ledger])
  fix c s
  assume "s \<in> set (live_subjects d1 None)" "has_app_catalog d1 c"
  then show "c \<in> set clients \<and> s \<in> set (live_subjects d1 ss)
      \<or> has_app_catalog d c \<and> resolved_role d1 c s = resolved_role d c s"
    using covered cats by (cases "resolved_role d1 c s = resolved_role d c s") (simp_all add: has_app_catalog_def)
qed

lemma resolved_role_cong:
  assumes "app_roles d' = app_roles d" and "app_role_catalogs d' = app_role_catalogs d"
    and "tget (user_app_role_overrides d') (s, c) = tget (user_app_role_overrides d) (s, c)"
    and "tget (user_org_roles d') s = tget (user_org_roles d) s"
    and "\<And>slug. tget (org_role_app_defaults d') (slug, c) = tget (org_role_app_defaults d) (slug, c)"
  shows "resolved_role d' c s = resolved_role d c s"
proof -
  have "org_layer d' s c = org_layer d s c" using assms(4,5) by (simp add: org_layer_def cong: option.case_cong)
  then show ?thesis using assms(1-3)
    by (simp add: resolved_role_def known_role_def effective_app_role_def cong: option.case_cong)
qed

lemma ledger_ok_cong:
  assumes "identities d' = identities d" and "app_role_catalogs d' = app_role_catalogs d"
    and "app_role_effective d' = app_role_effective d"
    and "\<And>c s. has_app_catalog d c \<Longrightarrow> s \<in> set (live_subjects d None) \<Longrightarrow> resolved_role d' c s = resolved_role d c s"
  shows "ledger_ok d' = ledger_ok d"
proof -
  have "has_app_catalog d' = has_app_catalog d" using assms(2) by (simp add: fun_eq_iff has_app_catalog_def)
  moreover have "live_subjects d' None = live_subjects d None" using assms(1) by (simp add: live_subjects_def)
  ultimately show ?thesis using assms(3,4) unfolding ledger_ok_iff
    by (simp add: ledger_current_def cong: option.case_cong imp_cong)
qed

lemma ledger_ok_audit: "ledger_ok (write_audit a x dt tg d) = ledger_ok d"
  by (rule ledger_ok_cong) (simp_all add: resolved_role_cong [of "write_audit a x dt tg d" d])

lemma live_None_one: "s \<in> set (live_subjects d None) \<Longrightarrow> s = lower t \<Longrightarrow> s \<in> set (live_subjects d (Some [t]))"
  by (auto simp: live_subjects_def)

lemma user_access_ledger:
  assumes run: "apply_user_access uuid now actor tgt changes action d = Inr d'" and ok: "ledger_ok d"
  shows "ledger_ok d'"
proof -
  from run obtain p where "plan_user_access d actor tgt changes = Inr p"
    and w: "write_user_access uuid now tgt action p d = Inr d'"
    unfolding apply_user_access_def by (rule rbind_InrE)
  from w obtain d3 d4 x y where d3: "write_user_tables tgt p d = Inr d3"
    and d4: "(if up_org_role p \<noteq> None \<or> up_apps p \<noteq> []
               then publish uuid now (if up_org_role p \<noteq> None then catalog_clients d else map fst (up_apps p)) (Some [tgt]) d3
               else Inr d3) = Inr d4"
    and d': "d' = write_audit (up_actor p) action x y d4"
    unfolding write_user_access_def by (elim rbind_InrE) (rule that, assumption, assumption, drule Inr_inject, erule sym)
  have "ledger_ok d4"
    using d3
  proof (rule write_user_tablesE)
    fix po ao
    assume o: "identities d3 = identities d" "app_roles d3 = app_roles d" "app_role_catalogs d3 = app_role_catalogs d"
        "org_role_app_defaults d3 = org_role_app_defaults d" "app_role_effective d3 = app_role_effective d"
      and u: "user_org_roles d3 = (if up_org_role p = None then user_org_roles d
           else case up_new_slug p of None \<Rightarrow> user_org_roles d | Some s \<Rightarrow> tput (lower tgt) s (user_org_roles d))"
      and ao: "user_app_role_overrides d3 = ao"
        "\<And>s c. s \<noteq> lower tgt \<or> c \<notin> fst ` set (up_apps p) \<Longrightarrow> tget ao (s, c) = tget (user_app_role_overrides d) (s, c)"
    have moved: "s = lower tgt \<and> (up_org_role p \<noteq> None \<or> c \<in> fst ` set (up_apps p))"
      if "resolved_role d3 c s \<noteq> resolved_role d c s" for c s
    proof (rule ccontr)
      assume n: "\<not> ?thesis"
      then have "tget (user_app_role_overrides d3) (s, c) = tget (user_app_role_overrides d) (s, c)"
        using ao by auto
      moreover have "tget (user_org_roles d3) s = tget (user_org_roles d) s"
        using u n by (auto simp: tbl_simps split: option.splits)
      ultimately have "resolved_role d3 c s = resolved_role d c s" using o by (intro resolved_role_cong) simp_all
      with that show False by blast
    qed
    show "ledger_ok d4"
    proof (cases "up_org_role p \<noteq> None \<or> up_apps p \<noteq> []")
      case True
      let ?cs = "if up_org_role p \<noteq> None then catalog_clients d else map fst (up_apps p)"
      from d4 [unfolded if_P [OF True]] obtain n
        where pub: "publish_role_changes uuid now ?cs (Some [tgt]) no_options d3 = Inr (n, d4)"
        using publishD by blast
      show ?thesis
      proof (rule publish_keeps_ledger [OF ok pub o(1,3,5)])
        fix c s
        assume a: "resolved_role d3 c s \<noteq> resolved_role d c s" "s \<in> set (live_subjects d3 None)" "has_app_catalog d3 c"
        have "has_app_catalog d c" using a(3) o(3) by (simp add: has_app_catalog_def)
        then have "c \<in> set ?cs" using moved [OF a(1)] by (auto simp: catalog_clients_iff)
        moreover have "s \<in> set (live_subjects d3 (Some [tgt]))" using live_None_one a(2) moved [OF a(1)] by blast
        ultimately show "c \<in> set ?cs \<and> s \<in> set (live_subjects d3 (Some [tgt]))" by blast
      qed
    next
      case False
      then have "d4 = d3" using d4 by simp
      moreover have "ledger_ok d3 = ledger_ok d"
        using moved False by (intro ledger_ok_cong) (use o in auto)
      ultimately show ?thesis using ok by simp
    qed
  qed
  then show ?thesis by (simp add: d' ledger_ok_audit)
qed

lemma role_access_ledger:
  assumes run: "apply_role_access uuid now actor slug changes action d = Inr d'" and ok: "ledger_ok d"
  shows "ledger_ok d'"
proof -
  from run obtain p where "plan_role_access d actor slug changes = Inr p"
    and w: "write_role_access uuid now slug action p d = Inr d'"
    unfolding apply_role_access_def by (rule rbind_InrE)
  obtain d2 d3 x where t: "write_role_tables slug p d = Inr d2"
    and d3: "(if rp_defaults p \<noteq> [] then publish uuid now (map fst (rp_defaults p)) None d2 else Inr d2) = Inr d3"
    and d': "d' = write_audit (rp_actor p) action x None d3"
    using w by (rule write_role_accessE)
  have "ledger_ok d3"
    using t
  proof (rule write_role_tablesE)
    fix rp ad
    assume d2: "d2 = d\<lparr>role_permissions := rp, org_role_app_defaults := ad\<rparr>"
      and ad: "\<And>s c. s \<noteq> slug \<or> c \<notin> fst ` set (rp_defaults p) \<Longrightarrow> tget ad (s, c) = tget (org_role_app_defaults d) (s, c)"
    have moved: "c \<in> fst ` set (rp_defaults p)" if "resolved_role d2 c s \<noteq> resolved_role d c s" for c s
      using that resolved_role_cong [of d2 d s c] ad d2 by auto
    show "ledger_ok d3"
    proof (cases "rp_defaults p = []")
      case True
      then have "d3 = d2" using d3 by simp
      moreover have "ledger_ok d2 = ledger_ok d" using moved True by (intro ledger_ok_cong) (use d2 in auto)
      ultimately show ?thesis using ok by simp
    next
      case False
      then obtain n where pub: "publish_role_changes uuid now (map fst (rp_defaults p)) None no_options d2 = Inr (n, d3)"
        using d3 [simplified False if_True not_False_eq_True, THEN publishD] by blast
      show ?thesis
      proof (rule publish_keeps_ledger [OF ok pub])
        show "identities d2 = identities d" "app_role_catalogs d2 = app_role_catalogs d" "app_role_effective d2 = app_role_effective d"
          by (simp_all add: d2)
        show "c \<in> set (map fst (rp_defaults p)) \<and> s \<in> set (live_subjects d2 None)"
          if "resolved_role d2 c s \<noteq> resolved_role d c s" "s \<in> set (live_subjects d2 None)" for c s
          using moved [OF that(1)] that(2) by simp
      qed
    qed
  qed
  then show ?thesis by (simp add: d' ledger_ok_audit)
qed

lemma user_access_overrides:
  assumes run: "apply_user_access uuid now actor tgt changes action d = Inr d'"
    and moved: "tget (user_permission_overrides d') (s, key) \<noteq> tget (user_permission_overrides d) (s, key)"
  shows "s = lower tgt \<and> key \<in> set PERM_KEYS \<and> (key = MFA_DISABLE \<or> has_perm d (lower actor) key)"
proof -
  from run obtain p where p: "plan_user_access d actor tgt changes = Inr p"
    and w: "write_user_access uuid now tgt action p d = Inr d'"
    unfolding apply_user_access_def by (rule rbind_InrE)
  obtain ts where a: "lock_actors d actor ts = Inr (up_actor p)"
    and perms: "check_all (check_permission (up_actor p) [''grant'', ''deny'', ''inherit'']) (up_permissions p) = Inr ()"
    using p by (rule plan_user_accessE)
  obtain d3 where w3: "write_user_tables tgt p d = Inr d3"
    and same: "user_permission_overrides d' = user_permission_overrides d3"
    using w by (rule write_user_accessE)
  have "(s, key) \<in> Pair (lower tgt) ` fst ` set (up_permissions p)"
    using w3 by (rule write_user_tablesE) (use moved same in auto)
  then obtain eff where s: "s = lower tgt" and e: "(key, eff) \<in> set (up_permissions p)" by auto
  have "check_permission (up_actor p) [''grant'', ''deny'', ''inherit''] (key, eff) = Inr ()"
    using perms e by (simp add: check_all_Inr)
  from check_permissionD [OF this] show ?thesis using s lock_actorsD(3) [OF a] by (simp add: has_perm_def)
qed

section \<open>Properties\<close>

definition demo_root :: string where "demo_root = ''aaaaaaaa-0000-4000-8000-000000000000''"
definition demo_admin :: string where "demo_admin = ''aaaaaaaa-0000-4000-8000-000000000001''"
definition demo_user :: string where "demo_user = ''aaaaaaaa-0000-4000-8000-000000000002''"

definition demo_org :: db where
  "demo_org = empty_db\<lparr>
     identities := [(demo_root, demo_identity), (demo_admin, demo_identity), (demo_user, demo_identity)],
     org_roles := [(''superadmin'', \<lparr>or_label = ''Superadmin'', or_level = 0, or_is_system = True\<rparr>),
                   (''admin'', \<lparr>or_label = ''Admin'', or_level = 1, or_is_system = True\<rparr>),
                   (''standard_user'', \<lparr>or_label = ''Standard user'', or_level = 10, or_is_system = True\<rparr>)],
     user_org_roles := [(demo_root, ''superadmin''), (demo_admin, ''admin''), (demo_user, ''standard_user'')],
     role_permissions := [((''admin'', ''org.users.view''), Grant), ((''admin'', ''org.users.edit.permissions.acctPortal''), Grant),
                          ((''admin'', ''org.users.edit.permissions.app''), Grant)],
     oauth_clients := [(''rp'', demo_client)],
     app_roles := [((''rp'', 1), \<lparr>ar_name = ''owner'', ar_level = 0, ar_is_system = True\<rparr>),
                   ((''rp'', 7), \<lparr>ar_name = ''viewer'', ar_level = 5, ar_is_system = False\<rparr>)],
     app_role_catalogs := [(''rp'', \<lparr>cat_default = None, cat_synced_at = 0, cat_last_iat = 3\<rparr>)],
     user_app_role_overrides := [((demo_admin, ''rp''), Some 7)],
     app_role_sync_state := [(''rp'', demo_state 4)],
     app_role_effective := [((''rp'', demo_root), \<lparr>eff_role = None, eff_managed = True, eff_revision = 4\<rparr>),
                            ((''rp'', demo_admin), \<lparr>eff_role = Some 7, eff_managed = True, eff_revision = 4\<rparr>),
                            ((''rp'', demo_user), \<lparr>eff_role = None, eff_managed = True, eff_revision = 4\<rparr>)]\<rparr>"

lemma demo_org_ok: "org_ok demo_org"
  by code_simp

lemma demo_org_levels: "get_role_level demo_org demo_root \<le> get_role_level demo_org (lower demo_admin)"
  by code_simp

text \<open>C19. Authority does not flow upwards: whatever an actor asks for (changing a user's role,
  permissions or application roles, editing, creating, deleting or defaulting a role, creating
  a user), the role, level and permissions of everyone at the actor's level or above, the
  actor included, are exactly what they were.\<close>

theorem no_upward_influence:
  assumes "org_ok d" and "get_role_level d t \<le> get_role_level d (lower a)"
  shows "resolve_authz (admin_step uuid now a op d) t = resolve_authz d t"
  using admin_run_authz [OF _ assms] by (auto simp: admin_step_cases split: sum.splits)

theorem no_upward_influence_witness:
  "resolve_authz (admin_step demo_uuid 0 demo_admin
      (UserAccess demo_root [(''org_role'', JStr ''standard_user'')] ''user.access_change'') demo_org) demo_root
    = resolve_authz demo_org demo_root"
  by (rule no_upward_influence [OF demo_org_ok demo_org_levels])

text \<open>C26. Permissions are not lent beyond the actor's own: the only user overrides a successful access
  change touches are those of the target, and only for catalog keys that the actor holds
  itself or for the key that lets a user switch its own second factor off.\<close>

theorem only_own_permissions_handed_out:
  assumes "apply_user_access uuid now actor tgt changes action d = Inr d'"
    and "tget (user_permission_overrides d') (s, key) \<noteq> tget (user_permission_overrides d) (s, key)"
  shows "s = lower tgt \<and> key \<in> set PERM_KEYS \<and> (key = ''profile.security.mfa.disable'' \<or> has_perm d (lower actor) key)"
  using user_access_overrides [OF assms] by (simp add: MFA_DISABLE_def)

definition demo_grant :: "(string \<times> json) list" where
  "demo_grant = [(''permissions'', JObj [(''org.users.view'', JStr ''grant'')])]"

definition demo_plan :: user_plan where
  "demo_plan = \<lparr>up_actor = \<lparr>ac_sub = demo_admin, ac_label = ''Ann'', ac_level = Lvl 1,
       ac_granted = [''org.users.view'', ''org.users.edit.permissions.acctPortal'', ''org.users.edit.permissions.app'']\<rparr>,
     up_target = \<lparr>tr_display_name = ''Ann'', tr_username = ''ann'', tr_slug = Some ''standard_user'', tr_level = Lvl 10\<rparr>,
     up_org_role = None, up_new_slug = Some ''standard_user'',
     up_permissions = [(''org.users.view'', JStr ''grant'')], up_apps = []\<rparr>"

lemma demo_plan: "plan_user_access demo_org demo_admin demo_user demo_grant = Inr demo_plan"
  by code_simp

lemma demo_granted:
  "\<exists>d'. apply_user_access demo_uuid 0 demo_admin demo_user demo_grant ''user.access_change'' demo_org = Inr d'
     \<and> tget (user_permission_overrides d') (lower demo_user, ''org.users.view'') = Some Grant"
  by (simp add: apply_user_access_def demo_plan write_user_access_def write_user_tables_def demo_plan_def
      write_permission_def Let_def write_audit_def tbl_simps)

theorem only_own_permissions_handed_out_witness:
  "lower demo_user = lower demo_user \<and> ''org.users.view'' \<in> set PERM_KEYS
     \<and> (''org.users.view'' = ''profile.security.mfa.disable'' \<or> has_perm demo_org (lower demo_admin) ''org.users.view'')"
proof -
  obtain d' where run: "apply_user_access demo_uuid 0 demo_admin demo_user demo_grant ''user.access_change'' demo_org = Inr d'"
    and g: "tget (user_permission_overrides d') (lower demo_user, ''org.users.view'') = Some Grant"
    using demo_granted by blast
  have "tget (user_permission_overrides demo_org) (lower demo_user, ''org.users.view'') = None" by code_simp
  then show ?thesis using only_own_permissions_handed_out [OF run, of "lower demo_user" "''org.users.view''"] g by simp
qed

definition admin_history :: "(nat \<Rightarrow> string) \<Rightarrow> (int \<times> string \<times> admin_op) list \<Rightarrow> db \<Rightarrow> db" where
  "admin_history uuid hist d = fold (\<lambda>(now, a, op). admin_step uuid now a op) hist d"

lemma system_kept_refl: "system_kept d d"
  by (simp add: system_kept_def)

lemma system_kept_trans: "system_kept a b \<Longrightarrow> system_kept b c \<Longrightarrow> system_kept a c"
  unfolding system_kept_def by blast

lemma admin_step_structure:
  "system_kept d (admin_step uuid now a op d) \<and> (org_ok d \<longrightarrow> org_ok (admin_step uuid now a op d))"
proof (cases "admin_run uuid now a op d")
  case (Inl e)
  then show ?thesis by (simp add: admin_step_cases system_kept_refl)
next
  case (Inr d')
  then show ?thesis using admin_run_structure [OF Inr] by (simp add: admin_step_cases)
qed

text \<open>C25. The structure of the organisation survives any history of administration by any actors:
  memberships, role permissions and role defaults always refer to existing roles and accounts,
  the default role of new accounts always exists, and system roles are never lost.\<close>

theorem org_structure_preserved:
  assumes "org_ok d"
  shows "org_ok (admin_history uuid hist d) \<and> system_kept d (admin_history uuid hist d)"
  using assms
proof (induction hist arbitrary: d)
  case Nil
  then show ?case by (simp add: admin_history_def system_kept_refl)
next
  case (Cons h hist)
  obtain now a op where h: "h = (now, a, op)" by (cases h)
  have "org_ok (admin_step uuid now a op d)" using admin_step_structure Cons.prems by blast
  from Cons.IH [OF this] show ?case
    using admin_step_structure [of d uuid now a op] system_kept_trans by (auto simp: admin_history_def h)
qed

theorem org_structure_preserved_witness:
  "org_ok (admin_history demo_uuid [(0, demo_root, DeleteRole ''standard_user''), (1, demo_admin, CreateRole [])] demo_org)
   \<and> system_kept demo_org (admin_history demo_uuid [(0, demo_root, DeleteRole ''standard_user''), (1, demo_admin, CreateRole [])] demo_org)"
  by (rule org_structure_preserved [OF demo_org_ok])

lemma access_changes_keep_ledger_parts:
  assumes "ledger_ok d"
  shows "ledger_ok (admin_step uuid now a (UserAccess tgt changes action) d)"
    and "ledger_ok (admin_step uuid now a (RoleAccess slug changes action) d)"
  using assms user_access_ledger role_access_ledger by (auto simp: admin_step_cases split: sum.splits)

text \<open>C24. The role ledger stays current: if every live account's ledger row is its resolved role for
  every client with a catalog, the same holds after any successful change of a user's or of a
  role's access; no change of roles escapes publication.\<close>

theorem access_changes_keep_ledger:
  assumes "ledger_ok d"
  shows "(ledger_ok (admin_step uuid now a (UserAccess tgt changes action) d))
    \<and> (ledger_ok (admin_step uuid now a (RoleAccess slug changes action) d))"
  using access_changes_keep_ledger_parts [OF assms] by blast

theorem access_changes_keep_ledger_witness:
  "ledger_ok (admin_step demo_uuid 0 demo_admin (UserAccess demo_user [(''app_roles'', JObj [(''rp'', JInt 7)])] ''x'') demo_org)"
proof -
  have "ledger_ok demo_org" by code_simp
  from access_changes_keep_ledger [OF this] show ?thesis by blast
qed

text \<open>C20. No application role above the actor's own: when a successful access change, by assignment, by
  inheritance or as a side effect of a new organisation role, moves the target's effective role
  in a client with a catalog, the new role ranks no higher than the role the actor has there.\<close>

theorem no_app_role_above_actor:
  assumes "apply_user_access uuid now actor tgt changes action d = Inr d'" and "has_app_catalog d c"
    and "role_of d' tgt c \<noteq> role_of d tgt c"
  shows "app_role_level d c (role_of d actor c) \<le> app_role_level d' c (role_of d' tgt c)"
  using assms by (rule user_access_app_roles)

definition demo_assign :: "(string \<times> json) list" where
  "demo_assign = [(''app_roles'', JObj [(''rp'', JInt 7)])]"

definition demo_assign_plan :: user_plan where
  "demo_assign_plan = demo_plan\<lparr>up_permissions := [], up_apps := [(''rp'', JInt 7)]\<rparr>"

lemma demo_assign_plan: "plan_user_access demo_org demo_admin demo_user demo_assign = Inr demo_assign_plan"
  by code_simp

definition demo_assigned :: db where
  "demo_assigned = demo_org\<lparr>user_app_role_overrides := [((demo_admin, ''rp''), Some 7), ((demo_user, ''rp''), Some 7)]\<rparr>"

definition demo_change2 :: effective_change where
  "demo_change2 = \<lparr>ec_sub = demo_user, ec_role = Some 7, ec_managed = True, ec_known = True,
     ec_previous_role = None, ec_previous_managed = Some True\<rparr>"

lemma demo_assign_tables: "write_user_tables demo_user demo_assign_plan demo_org = Inr demo_assigned"
  by code_simp

lemma demo_changed2: "changed_rows demo_assigned ''rp'' (Some [demo_user]) no_options = [demo_change2]"
  by code_simp

lemma demo_insert_ok:
  assumes "normalize_events uuid evs (uuid_seq d) = Inr ([e], n)" and "tget (oauth_clients d) cid \<noteq> None"
    and "event_outbox d = []"
  shows "\<exists>ids d'. insert_events uuid now cid evs d = Inr (ids, d')"
  using assms by (auto simp: insert_events_def lock_destination_def insert_event_def find_event_def Let_def
      split: option.splits)

lemma demo_assign_runs:
  "\<exists>d'. apply_user_access demo_uuid 50 demo_admin demo_user demo_assign ''user.access_change'' demo_org = Inr d'"
proof -
  let ?d = "demo_assigned\<lparr>app_role_sync_state := [(''rp'', demo_state 5)]\<rparr>"
  have e: "ensure_role_sync_state demo_uuid ''rp'' demo_assigned = Inr (demo_state 4, demo_assigned)"
    by (simp add: ensure_role_sync_state_def demo_assigned_def demo_org_def tget_def)
  have a: "advance_revision ''rp'' demo_assigned = Inr (5, ?d)"
    by (simp add: advance_revision_def demo_assigned_def demo_org_def demo_state_def tget_def tput_def MAX_BIGINT_def Let_def)
  have n: "case normalize_events demo_uuid [role_change_event ''e1'' 5 demo_change2] 0 of
      Inr (es, n) \<Rightarrow> length es = 1 | Inl _ \<Rightarrow> False"
    by code_simp
  then obtain e1 n1 where "normalize_events demo_uuid [role_change_event ''e1'' 5 demo_change2] 0 = Inr ([e1], n1)"
    by (auto split: sum.splits simp: length_Suc_conv)
  moreover have "uuid_seq ?d = 0" "tget (oauth_clients ?d) ''rp'' \<noteq> None" "event_outbox ?d = []"
    by (simp_all add: demo_assigned_def demo_org_def empty_db_def tget_def)
  ultimately obtain ids d1 where i: "insert_events demo_uuid 50 ''rp'' [role_change_event ''e1'' 5 demo_change2] ?d = Inr (ids, d1)"
    using demo_insert_ok [of demo_uuid _ ?d] by metis
  have c: "publish_chunk demo_uuid 50 ''rp'' ''e1'' 5 [demo_change2] ?d = Inr (write_ledger ''rp'' 5 [demo_change2] d1)"
    by (simp add: publish_chunk_def i outbox_fault_def)
  have ep: "ss_authority_epoch (demo_state 4) = ''e1''" by (simp add: demo_state_def)
  have "publish demo_uuid 50 [''rp''] (Some [demo_user]) demo_assigned = Inr (write_ledger ''rp'' 5 [demo_change2] d1)"
    by (simp add: publish_def publish_role_changes_def publish_client_def e a demo_changed2 c Let_def ep)
  then show ?thesis
    by (simp add: apply_user_access_def demo_assign_plan write_user_access_def demo_assign_tables)
       (simp add: demo_assign_plan_def demo_plan_def)
qed

theorem no_app_role_above_actor_witness:
  "\<exists>d'. app_role_level demo_org ''rp'' (role_of demo_org demo_admin ''rp'') \<le> app_role_level d' ''rp'' (role_of d' demo_user ''rp'')"
proof -
  obtain d' where run: "apply_user_access demo_uuid 50 demo_admin demo_user demo_assign ''user.access_change'' demo_org = Inr d'"
    using demo_assign_runs by blast
  have cat: "has_app_catalog demo_org ''rp''" by code_simp
  have "write_user_access demo_uuid 50 demo_user ''user.access_change'' demo_assign_plan demo_org = Inr d'"
    using run by (simp add: apply_user_access_def demo_assign_plan)
  then obtain d3 where "write_user_tables demo_user demo_assign_plan demo_org = Inr d3"
    and "user_app_role_overrides d' = user_app_role_overrides d3" by (rule write_user_accessE)
  then have "user_app_role_overrides d' = user_app_role_overrides demo_assigned" by (simp add: demo_assign_tables)
  then have "tget (user_app_role_overrides d') (lower demo_user, ''rp'') = Some (Some 7)"
    by (simp only:) code_simp
  then have new: "role_of d' demo_user ''rp'' = Some 7" by (rule role_with_override)
  have old: "role_of demo_org demo_user ''rp'' = None" by code_simp
  have "role_of d' demo_user ''rp'' \<noteq> role_of demo_org demo_user ''rp''" using new old by simp
  from no_app_role_above_actor [OF run cat this] show ?thesis by blast
qed

end
