(* ===== verification/RolesSync.thy ===== *)
theory RolesSync
  imports RoleAdminProps
begin

text \<open>
  \<open>src/backchannel/rolesSync.ts\<close>: the inbox of signed events and the reconciliation of a client's
  role catalog.  A report is normalised to a typed catalog, ordered against the stored state
  (by revision once the sender has adopted revisions, by \<open>iat\<close> before that), applied with the
  removal policy and the bootstrap of level-0 roles, published, and its identity recorded.
  SHA-256 is the parameter \<open>sha\<close>; \<open>clock k\<close> is the \<open>k\<close>-th reading of \<open>now()\<close>.  Strings hold no
  surrogates here, so \<open>validText\<close> is the absence of NUL.
\<close>

definition MAX_EVENTS :: nat where "MAX_EVENTS = 100"
definition MAX_ROLES :: nat where "MAX_ROLES = 500"

datatype event_error =
    EventError string nat
  | EventRoleFault role_fault
  | MissingStoredRevision

definition event_fail :: "string \<Rightarrow> event_error + 'a" where
  "event_fail code = Inl (EventError code 400)"

record catalog_role =
  cr_id :: int
  cr_name :: string
  cr_level :: int
  cr_system :: bool

record role_catalog =
  rc_roles :: "catalog_role list"
  rc_default :: "int option"
  rc_site :: "string option"
  rc_epoch :: "string option"
  rc_revision :: "string option"

record incoming_event =
  ie_id :: string
  ie_type :: string
  ie_payload :: json
  ie_catalog :: "role_catalog option"

section \<open>Normalising a report\<close>

definition valid_text :: "string \<Rightarrow> bool" where
  "valid_text s = (CHR 0x00 \<notin> set s)"

definition trim_name :: "string \<Rightarrow> string" where
  "trim_name s = take 100 (trim s)"

definition int_of :: "json option \<Rightarrow> int option" where
  "int_of v = (case v of Some (JInt i) \<Rightarrow> if int32 (JInt i) then Some i else None | _ \<Rightarrow> None)"

text \<open>One row of \<open>payload.roles\<close>, with the identifiers seen so far.\<close>

definition normal_role :: "int list \<Rightarrow> json \<Rightarrow> event_error + catalog_role" where
  "normal_role seen v =
    (case v of
       JObj ms \<Rightarrow>
         (case (int_of (jmember ms ''role_id''), int_of (jmember ms ''level''), jmember ms ''name'', jmember ms ''is_system'') of
            (Some i, Some l, Some (JStr name), sys) \<Rightarrow>
              if trim name = [] \<or> \<not> valid_text name \<or> (case sys of None \<Rightarrow> False | Some (JBool _) \<Rightarrow> False | _ \<Rightarrow> True)
              then event_fail ''invalid_role_row''
              else if i \<in> set seen then event_fail ''duplicate_role_id''
              else Inr \<lparr>cr_id = i, cr_name = trim_name name, cr_level = l, cr_system = (sys = Some (JBool True))\<rparr>
          | _ \<Rightarrow> event_fail ''invalid_role_row'')
     | _ \<Rightarrow> event_fail ''invalid_role_row'')"

fun normal_roles :: "int list \<Rightarrow> json list \<Rightarrow> event_error + catalog_role list" where
  "normal_roles seen [] = Inr []"
| "normal_roles seen (v # vs) =
     rbind (normal_role seen v) (\<lambda>r. rbind (normal_roles (cr_id r # seen) vs) (\<lambda>rs. Inr (r # rs)))"

definition catalog_version :: "(string \<times> json) list \<Rightarrow> event_error + (string \<times> string) option" where
  "catalog_version ms =
    (case (jmember ms ''catalog_epoch'', jmember ms ''catalog_revision'') of
       (None, None) \<Rightarrow> Inr None
     | (Some (JStr e), Some (JStr r)) \<Rightarrow>
         if is_uuid e \<and> positive_revision r \<and> big_int r \<le> MAX_BIGINT then Inr (Some (lower e, r))
         else event_fail ''invalid_catalog_version''
     | _ \<Rightarrow> event_fail ''invalid_catalog_version'')"

definition normalize_role_catalog :: "json option \<Rightarrow> event_error + role_catalog" where
  "normalize_role_catalog payload =
    (case payload of
       Some (JObj ms) \<Rightarrow>
         (case jmember ms ''roles'' of
            Some (JArr rows) \<Rightarrow>
              if length rows > MAX_ROLES then event_fail ''invalid_roles''
              else
                rbind (normal_roles [] rows) (\<lambda>rs.
                if (case jmember ms ''site_name'' of Some (JStr s) \<Rightarrow> \<not> valid_text s | _ \<Rightarrow> False)
                then event_fail ''invalid_site_name''
                else if (case jmember ms ''default_role'' of None \<Rightarrow> False | Some JNull \<Rightarrow> False | Some v \<Rightarrow> \<not> int32 v)
                then event_fail ''invalid_default_role''
                else
                  rbind (catalog_version ms) (\<lambda>version.
                  Inr \<lparr>rc_roles = sort_key cr_id rs,
                       rc_default = (case int_of (jmember ms ''default_role'') of
                          Some i \<Rightarrow> if i \<in> set (map cr_id rs) then Some i else None | None \<Rightarrow> None),
                       rc_site = (case jmember ms ''site_name'' of
                          Some (JStr s) \<Rightarrow> if trim s \<noteq> [] then Some (trim_name s) else None | _ \<Rightarrow> None),
                       rc_epoch = map_option fst version, rc_revision = map_option snd version\<rparr>))
          | _ \<Rightarrow> event_fail ''invalid_roles'')
     | _ \<Rightarrow> event_fail ''invalid_roles'')"

section \<open>Digests\<close>

definition role_json :: "catalog_role \<Rightarrow> json" where
  "role_json r = JObj [(''role_id'', JInt (cr_id r)), (''level'', JInt (cr_level r)),
     (''name'', JStr (cr_name r)), (''is_system'', JBool (cr_system r))]"

definition int_json :: "int option \<Rightarrow> json" where
  "int_json v = (case v of None \<Rightarrow> JNull | Some i \<Rightarrow> JInt i)"

definition state_json :: "catalog_role list \<Rightarrow> int option \<Rightarrow> string option \<Rightarrow> json" where
  "state_json rs dflt site = JObj [(''roles'', JArr (map role_json rs)), (''default_role'', int_json dflt),
     (''site_name'', json_of_option site)]"

definition catalog_json :: "role_catalog \<Rightarrow> json" where
  "catalog_json c = JObj ([(''roles'', JArr (map role_json (rc_roles c))), (''default_role'', int_json (rc_default c)),
      (''site_name'', json_of_option (rc_site c))]
     @ (case rc_epoch c of None \<Rightarrow> [] | Some e \<Rightarrow> [(''catalog_epoch'', JStr e)])
     @ (case rc_revision c of None \<Rightarrow> [] | Some r \<Rightarrow> [(''catalog_revision'', JStr r)]))"

definition digest :: "(string \<Rightarrow> string) \<Rightarrow> json \<Rightarrow> event_error + string" where
  "digest sha v = (case canonical 0 v of Inl _ \<Rightarrow> event_fail ''invalid_event_payload'' | Inr s \<Rightarrow> Inr (sha s))"

text \<open>The digest of a catalog's state leaves out the sender's epoch and revision.\<close>

definition state_digest :: "(string \<Rightarrow> string) \<Rightarrow> catalog_role list \<Rightarrow> int option \<Rightarrow> string option \<Rightarrow> string" where
  "state_digest sha rs dflt site = sha (case canonical 0 (state_json rs dflt site) of Inr s \<Rightarrow> s | Inl _ \<Rightarrow> [])"

definition catalog_digest :: "(string \<Rightarrow> string) \<Rightarrow> role_catalog \<Rightarrow> string" where
  "catalog_digest sha c = state_digest sha (rc_roles c) (rc_default c) (rc_site c)"

definition inbox_digest :: "(string \<Rightarrow> string) \<Rightarrow> incoming_event \<Rightarrow> event_error + string" where
  "inbox_digest sha e = digest sha (JObj [(''type'', JStr (ie_type e)),
     (''payload'', case ie_catalog e of Some c \<Rightarrow> catalog_json c | None \<Rightarrow> ie_payload e)])"

section \<open>Validating a batch\<close>

definition validate_event :: "(string \<Rightarrow> string) \<Rightarrow> json \<Rightarrow> event_error + incoming_event" where
  "validate_event sha v =
    (case v of
       JObj ms \<Rightarrow>
         (case jmember ms ''id'' of
            Some (JStr i) \<Rightarrow>
              if \<not> is_uuid i then event_fail ''invalid_event_id''
              else (case jmember ms ''type'' of
                Some (JStr t) \<Rightarrow>
                  if t = [] \<or> length t > 100 then event_fail ''invalid_event_type''
                  else
                    let payload = (case jmember ms ''payload'' of None \<Rightarrow> JObj [] | Some JNull \<Rightarrow> JObj [] | Some p \<Rightarrow> p)
                    in rbind (if t = ''roles.sync'' then rbind (normalize_role_catalog (jmember ms ''payload'')) (\<lambda>c. Inr (Some c))
                              else Inr None) (\<lambda>cat.
                       let e = \<lparr>ie_id = lower i, ie_type = t, ie_payload = payload, ie_catalog = cat\<rparr>
                       in rbind (inbox_digest sha e) (\<lambda>_. Inr e))
              | _ \<Rightarrow> event_fail ''invalid_event_type'')
          | _ \<Rightarrow> event_fail ''invalid_event_id'')
     | _ \<Rightarrow> event_fail ''invalid_event_id'')"

definition validate_incoming_events :: "(string \<Rightarrow> string) \<Rightarrow> json option \<Rightarrow> event_error + incoming_event list" where
  "validate_incoming_events sha raw =
    (case raw of
       Some (JArr vs) \<Rightarrow> if vs = [] \<or> length vs > MAX_EVENTS then event_fail ''invalid_events''
                          else rmap (validate_event sha) vs
     | _ \<Rightarrow> event_fail ''invalid_events'')"

section \<open>Ordering\<close>

datatype catalog_decision = Apply | Same | Stale

definition conflict :: "string \<Rightarrow> event_error + 'a" where
  "conflict code = Inl (EventError code 409)"

definition catalog_order ::
  "(string \<Rightarrow> string) \<Rightarrow> sync_state \<Rightarrow> role_catalog \<Rightarrow> int \<Rightarrow> bool \<Rightarrow> event_error + catalog_decision" where
  "catalog_order sha st c iat hasCatalog =
    (let same = (ss_digest st = Some (catalog_digest sha c)) in
     if ss_mode st = Revisioned then
       (case rc_epoch c of
          None \<Rightarrow> conflict ''catalog_revision_required''
        | Some e \<Rightarrow>
            if Some e \<noteq> ss_epoch st then conflict ''catalog_epoch_conflict''
            else (case ss_revision st of
              None \<Rightarrow> Inl MissingStoredRevision
            | Some current \<Rightarrow>
                let incoming = (case rc_revision c of None \<Rightarrow> 0 | Some r \<Rightarrow> big_int r) in
                if incoming < current then Inr Stale
                else if incoming = current then (if \<not> same then conflict ''catalog_revision_conflict'' else Inr Same)
                else Inr Apply))
     else if rc_epoch c \<noteq> None \<or> \<not> hasCatalog then Inr Apply
     else if iat < ss_last_iat st then Inr Stale
     else if iat = ss_last_iat st then (if \<not> same then conflict ''catalog_order_ambiguous'' else Inr Same)
     else Inr Apply)"

text \<open>The envelope's \<open>iat\<close> and \<open>exp\<close>; a number that is no integer is \<open>None\<close>.\<close>

record envelope_time =
  et_iat :: "int option"
  et_exp :: "int option"

definition safe_integer :: "int option \<Rightarrow> bool" where
  "safe_integer v = (case v of None \<Rightarrow> False | Some i \<Rightarrow> -9007199254740991 \<le> i \<and> i \<le> 9007199254740991)"

definition assert_envelope_current :: "envelope_time \<Rightarrow> int \<Rightarrow> event_error + unit" where
  "assert_envelope_current t now =
    (let seconds = now div 1000; iat = the (et_iat t); exp = the (et_exp t) in
     if \<not> safe_integer (et_iat t) \<or> \<not> safe_integer (et_exp t) \<or> iat < 0 \<or> exp \<le> iat
        \<or> iat > seconds + 10 \<or> seconds - iat > 310 \<or> exp \<le> seconds - 10
     then Inl (EventError ''invalid_token'' 401) else Inr ())"

section \<open>Applying a catalog\<close>

definition stored_roles :: "db \<Rightarrow> string \<Rightarrow> catalog_role list" where
  "stored_roles d cid = sort_key cr_id (map (\<lambda>((_, i), r). \<lparr>cr_id = i, cr_name = ar_name r, cr_level = ar_level r, cr_system = ar_is_system r\<rparr>)
     (filter (\<lambda>((c, _), _). c = cid) (app_roles d)))"

text \<open>The removal policy: a removed role's holders move to the default only if that is less privileged.\<close>

definition move_to :: "role_catalog \<Rightarrow> catalog_role \<Rightarrow> int option" where
  "move_to c removed =
    (case rc_default c of
       None \<Rightarrow> None
     | Some dflt \<Rightarrow>
         (case find (\<lambda>r. cr_id r = dflt) (rc_roles c) of
            None \<Rightarrow> None
          | Some r \<Rightarrow> if cr_level removed < cr_level r then Some dflt else None))"

definition replace_role :: "string \<Rightarrow> int \<Rightarrow> int option \<Rightarrow> (string \<times> string, int option) table \<Rightarrow> (string \<times> string, int option) table" where
  "replace_role cid old new t = tmap (\<lambda>(_, c) v. if c = cid \<and> v = Some old then new else v) t"

definition remove_stale_role :: "string \<Rightarrow> role_catalog \<Rightarrow> catalog_role \<Rightarrow> db \<Rightarrow> db" where
  "remove_stale_role cid c removed d =
    d\<lparr>user_app_role_overrides := replace_role cid (cr_id removed) (move_to c removed) (user_app_role_overrides d),
      org_role_app_defaults := replace_role cid (cr_id removed) (move_to c removed) (org_role_app_defaults d)\<rparr>"

definition write_roles :: "string \<Rightarrow> role_catalog \<Rightarrow> db \<Rightarrow> db" where
  "write_roles cid c d =
    d\<lparr>app_roles := tfilter (\<lambda>(k, i) _. k \<noteq> cid \<or> i \<in> set (map cr_id (rc_roles c)))
       (fold (\<lambda>r. tput (cid, cr_id r) \<lparr>ar_name = cr_name r, ar_level = cr_level r, ar_is_system = cr_system r\<rparr>)
          (rc_roles c) (app_roles d))\<rparr>"

definition write_catalog :: "(string \<Rightarrow> string) \<Rightarrow> int \<Rightarrow> int \<Rightarrow> string \<Rightarrow> role_catalog \<Rightarrow> db \<Rightarrow> db" where
  "write_catalog sha now iat cid c d =
    d\<lparr>app_role_catalogs := tput cid \<lparr>cat_default = rc_default c, cat_synced_at = now, cat_last_iat = iat\<rparr> (app_role_catalogs d),
      app_role_sync_state := tmap (\<lambda>k st. if k = cid then st\<lparr>ss_mode := (if rc_epoch c \<noteq> None then Revisioned else Legacy),
          ss_epoch := rc_epoch c, ss_revision := map_option big_int (rc_revision c),
          ss_digest := Some (catalog_digest sha c), ss_last_iat := iat\<rparr> else st) (app_role_sync_state d),
      oauth_clients := (case rc_site c of
          None \<Rightarrow> oauth_clients d
        | Some name \<Rightarrow> tmap (\<lambda>k cl. if k = cid then cl\<lparr>cl_name := name\<rparr> else cl) (oauth_clients d))\<rparr>"

text \<open>The most privileged role of the catalog, the smaller identifier on a tie.\<close>

definition top_role :: "catalog_role list \<Rightarrow> catalog_role option" where
  "top_role rs = fold (\<lambda>r best. case best of
      None \<Rightarrow> Some r
    | Some b \<Rightarrow> if cr_level r < cr_level b \<or> (cr_level r = cr_level b \<and> cr_id r < cr_id b) then Some r else Some b) rs None"

definition root_roles :: "db \<Rightarrow> string list" where
  "root_roles d = map fst (filter (\<lambda>(_, r). or_level r = 0) (org_roles d))"

definition root_subjects :: "db \<Rightarrow> string \<Rightarrow> int \<Rightarrow> string list" where
  "root_subjects d cid best =
    map fst (filter (\<lambda>(sub, slug). slug \<in> set (root_roles d)
      \<and> tget (org_role_app_defaults d) (slug, cid) \<noteq> Some (Some best)
      \<and> tget (user_app_role_overrides d) (sub, cid) = None) (user_org_roles d))"

definition bootstrap_roots :: "string \<Rightarrow> role_catalog \<Rightarrow> db \<Rightarrow> string list \<times> db" where
  "bootstrap_roots cid c d =
    (case top_role (rc_roles c) of
       None \<Rightarrow> ([], d)
     | Some best \<Rightarrow> (root_subjects d cid (cr_id best),
         d\<lparr>org_role_app_defaults := fold (\<lambda>slug. tput (slug, cid) (Some (cr_id best))) (root_roles d) (org_role_app_defaults d)\<rparr>))"

definition reconcile_audit :: "string \<Rightarrow> nat \<Rightarrow> db \<Rightarrow> db" where
  "reconcile_audit cid affected d =
    d\<lparr>org_audit_log := org_audit_log d @ [\<lparr>au_actor = None, au_actor_label = ''system (roles.sync)'',
       au_target = None, au_target_label = None, au_action = ''roles.reconcile'',
       au_detail = JObj [(''client'', JStr cid), (''affected'', JInt (int affected))]\<rparr>]\<rparr>"

definition stale_roles :: "string \<Rightarrow> role_catalog \<Rightarrow> db \<Rightarrow> catalog_role list" where
  "stale_roles cid c d = filter (\<lambda>r. cr_id r \<notin> set (map cr_id (rc_roles c))) (stored_roles d cid)"

definition reconcile_tables ::
  "(string \<Rightarrow> string) \<Rightarrow> int \<Rightarrow> string \<Rightarrow> int \<Rightarrow> role_catalog \<Rightarrow> db \<Rightarrow> string list \<times> db" where
  "reconcile_tables sha now cid iat c d =
    bootstrap_roots cid c (write_catalog sha now iat cid c (write_roles cid c
      (fold (remove_stale_role cid c) (stale_roles cid c d) d)))"

definition reconcile ::
  "(string \<Rightarrow> string) \<Rightarrow> (nat \<Rightarrow> string) \<Rightarrow> int \<Rightarrow> string \<Rightarrow> int \<Rightarrow> role_catalog \<Rightarrow> bool \<Rightarrow> db \<Rightarrow> event_error + db" where
  "reconcile sha uuid now cid iat c force d =
    (let (roots, d3) = reconcile_tables sha now cid iat c d
     in (case publish_role_changes uuid now [cid] None \<lparr>po_force = force, po_force_subjects = roots\<rparr> d3 of
           Inl f \<Rightarrow> Inl (EventRoleFault f)
         | Inr (changed, d4) \<Rightarrow> Inr (if changed \<noteq> 0 then reconcile_audit cid changed d4 else d4)))"

definition known_digest :: "(string \<Rightarrow> string) \<Rightarrow> db \<Rightarrow> string \<Rightarrow> role_catalog \<Rightarrow> sync_state \<Rightarrow> sync_state" where
  "known_digest sha d cid c st =
    (case (tget (app_role_catalogs d) cid, tget (oauth_clients d) cid) of
       (Some cat, Some cl) \<Rightarrow>
         if ss_digest st = None \<and> ss_mode st = Legacy
         then st\<lparr>ss_digest := Some (state_digest sha (stored_roles d cid) (cat_default cat)
                (if rc_site c = None then None else Some (cl_name cl)))\<rparr>
         else st
     | _ \<Rightarrow> st)"

definition apply_catalog ::
  "(string \<Rightarrow> string) \<Rightarrow> (nat \<Rightarrow> string) \<Rightarrow> int \<Rightarrow> string \<Rightarrow> int \<Rightarrow> role_catalog \<Rightarrow> sync_state \<Rightarrow> db
     \<Rightarrow> event_error + catalog_decision \<times> db" where
  "apply_catalog sha uuid now cid iat c st d =
    (let existing = (tget (app_role_catalogs d) cid \<noteq> None \<and> tget (oauth_clients d) cid \<noteq> None);
         force = (ss_digest st = None \<or> (ss_mode st = Legacy \<and> rc_epoch c \<noteq> None))
     in rbind (catalog_order sha (known_digest sha d cid c st) c iat existing) (\<lambda>order.
        if order = Stale \<or> (order = Same \<and> \<not> force) then Inr (order, d)
        else rbind (reconcile sha uuid now cid iat c force d) (\<lambda>d. Inr (order, d))))"

section \<open>Processing a batch\<close>

definition lift_fault :: "role_fault + 'a \<Rightarrow> event_error + 'a" where
  "lift_fault r = (case r of Inl f \<Rightarrow> Inl (EventRoleFault f) | Inr a \<Rightarrow> Inr a)"

text \<open>The sync state is read, and its epoch checked, for a catalog event only.\<close>

definition catalog_state ::
  "(nat \<Rightarrow> string) \<Rightarrow> string \<Rightarrow> incoming_event \<Rightarrow> db \<Rightarrow> event_error + sync_state option \<times> db" where
  "catalog_state uuid cid e d =
    (case ie_catalog e of
       None \<Rightarrow> Inr (None, d)
     | Some c \<Rightarrow>
         rbind (lift_fault (ensure_role_sync_state uuid cid d)) (\<lambda>(st, d).
         if ss_mode st = Revisioned \<and> rc_epoch c = None then conflict ''catalog_revision_required''
         else if ss_mode st = Revisioned \<and> rc_epoch c \<noteq> ss_epoch st then conflict ''catalog_epoch_conflict''
         else Inr (Some st, d)))"

definition record_event :: "string \<Rightarrow> incoming_event \<Rightarrow> string \<Rightarrow> db \<Rightarrow> db" where
  "record_event cid e dg d =
    d\<lparr>processed_events := tput (cid, ie_id e) \<lparr>pe_type = Some (ie_type e), pe_digest = Some dg\<rparr> (processed_events d)\<rparr>"

definition process_event ::
  "(string \<Rightarrow> string) \<Rightarrow> (nat \<Rightarrow> string) \<Rightarrow> int \<Rightarrow> string \<Rightarrow> int \<Rightarrow> incoming_event \<Rightarrow> db \<Rightarrow> event_error + db" where
  "process_event sha uuid now cid iat e d =
    rbind (inbox_digest sha e) (\<lambda>dg.
    let prior = tget (processed_events d) (cid, ie_id e) in
    rbind (catalog_state uuid cid e d) (\<lambda>(st, d).
    let unrepaired = (case st of None \<Rightarrow> False | Some s \<Rightarrow> ss_digest s = None);
        historical = (case prior of None \<Rightarrow> False | Some p \<Rightarrow> pe_type p = None \<and> pe_digest p = None);
        mutable = (case ie_catalog e of None \<Rightarrow> False | Some c \<Rightarrow> rc_epoch c = None)
          \<and> (case prior of None \<Rightarrow> False | Some p \<Rightarrow> pe_type p = Some ''roles.sync'' \<and> pe_digest p \<noteq> None)
    in if (case prior of None \<Rightarrow> False | Some p \<Rightarrow> pe_digest p = Some dg) \<and> \<not> unrepaired then Inr d
       else if prior \<noteq> None \<and> \<not> historical \<and> \<not> mutable then conflict ''event_identity_conflict''
       else
         (case (ie_catalog e, st) of
            (Some c, Some s) \<Rightarrow>
              rbind (apply_catalog sha uuid now cid iat c s d) (\<lambda>(order, d).
                if historical \<and> order = Stale then Inr d else Inr (record_event cid e dg d))
          | _ \<Rightarrow> Inr (record_event cid e dg d))))"

fun process_events ::
  "(string \<Rightarrow> string) \<Rightarrow> (nat \<Rightarrow> string) \<Rightarrow> int \<Rightarrow> string \<Rightarrow> envelope_time \<Rightarrow> (nat \<Rightarrow> int) \<Rightarrow> nat
     \<Rightarrow> incoming_event list \<Rightarrow> db \<Rightarrow> event_error + db" where
  "process_events sha uuid now cid t clock k [] d = rbind (assert_envelope_current t (clock k)) (\<lambda>_. Inr d)"
| "process_events sha uuid now cid t clock k (e # es) d =
     rbind (assert_envelope_current t (clock k)) (\<lambda>_.
     rbind (process_event sha uuid now cid (the (et_iat t)) e d) (process_events sha uuid now cid t clock (Suc k) es))"

definition process_incoming_events ::
  "(string \<Rightarrow> string) \<Rightarrow> (nat \<Rightarrow> string) \<Rightarrow> int \<Rightarrow> string \<Rightarrow> envelope_time \<Rightarrow> incoming_event list
     \<Rightarrow> (nat \<Rightarrow> int) \<Rightarrow> db \<Rightarrow> event_error + db" where
  "process_incoming_events sha uuid now cid t events clock d =
    rbind (assert_envelope_current t (clock 0)) (\<lambda>_.
      if \<not> client_enabled d cid then Inl (EventError ''unknown_client'' 401)
      else process_events sha uuid now cid t clock 1 events d)"

end
