(* ===== verification/RolesSyncProps.thy ===== *)
theory RolesSyncProps
  imports RolesSync
begin

text \<open>
  Guarantees of the catalog inbox: normalisation yields well-formed catalogs, reconciliation
  stores exactly the reported catalog and applies the removal policy, level-0 roles keep the top
  role, revisions never go back, redelivery changes nothing, and the ledger stays current.
\<close>

section \<open>Normalised catalogs\<close>

lemma normal_roleD:
  assumes "normal_role seen v = Inr r"
  shows "cr_id r \<notin> set seen" and "int32 (JInt (cr_id r))" and "int32 (JInt (cr_level r))" and "length (cr_name r) \<le> 100"
proof -
  have "cr_id r \<notin> set seen \<and> int32 (JInt (cr_id r)) \<and> int32 (JInt (cr_level r)) \<and> length (cr_name r) \<le> 100"
    using assms by (auto simp: normal_role_def event_fail_def int_of_def trim_name_def Let_def
        split: json.splits option.splits if_splits prod.splits)
  then show "cr_id r \<notin> set seen" "int32 (JInt (cr_id r))" "int32 (JInt (cr_level r))" "length (cr_name r) \<le> 100" by simp_all
qed

definition role_bounds :: "catalog_role \<Rightarrow> bool" where
  "role_bounds r = (int32 (JInt (cr_id r)) \<and> int32 (JInt (cr_level r)) \<and> length (cr_name r) \<le> 100)"

lemma normal_rolesD:
  "normal_roles seen vs = Inr rs \<Longrightarrow>
     distinct (map cr_id rs) \<and> set (map cr_id rs) \<inter> set seen = {} \<and> list_all role_bounds rs \<and> length rs = length vs"
proof (induction vs arbitrary: seen rs)
  case Nil
  then show ?case by simp
next
  case (Cons v vs)
  then obtain r qs where r: "normal_role seen v = Inr r" and q: "normal_roles (cr_id r # seen) vs = Inr qs" and rs: "rs = r # qs"
    by (auto simp: res_simps)
  show ?case using Cons.IH [OF q] normal_roleD [OF r] by (auto simp: rs role_bounds_def)
qed

definition catalog_wf :: "role_catalog \<Rightarrow> bool" where
  "catalog_wf c = (distinct (map cr_id (rc_roles c)) \<and> sorted (map cr_id (rc_roles c)) \<and> length (rc_roles c) \<le> 500
     \<and> list_all role_bounds (rc_roles c)
     \<and> (case rc_default c of None \<Rightarrow> True | Some i \<Rightarrow> i \<in> set (map cr_id (rc_roles c)))
     \<and> (case (rc_epoch c, rc_revision c) of (None, None) \<Rightarrow> True
        | (Some e, Some r) \<Rightarrow> uuid_lower e \<and> 1 \<le> big_int r \<and> big_int r \<le> MAX_BIGINT | _ \<Rightarrow> False))"

lemma big_int_positive: "positive_revision r \<Longrightarrow> 1 \<le> big_int r"
proof -
  assume p: "positive_revision r"
  then obtain c cs where r: "r = c # cs" and d: "is_digit c" and z: "c \<noteq> CHR ''0''"
    by (cases r) (auto simp: positive_revision_def)
  have "of_char c \<noteq> (of_char (CHR ''0'') :: nat)" using z by (metis char_of_char)
  moreover have "(of_char (CHR ''0'') :: nat) = 48" by simp
  moreover have "(of_char (CHR ''0'') :: nat) \<le> of_char c" using d by (simp add: is_digit_def less_eq_char_nat)
  ultimately have "1 \<le> digit_val c" by (simp add: digit_val_def)
  moreover have "m \<le> foldl (\<lambda>n c. 10 * n + digit_val c) m xs" for m xs
  proof (induction xs arbitrary: m)
    case Nil
    show ?case by simp
  next
    case (Cons x xs)
    have "m \<le> 10 * m + digit_val x" by simp
    then show ?case using Cons [of "10 * m + digit_val x"] by simp
  qed
  ultimately have "1 \<le> nat_of_digits r" unfolding r nat_of_digits_def
    by (metis (no_types, lifting) foldl_Cons add_0 mult_0_right order_trans)
  then show ?thesis by (simp add: big_int_def)
qed

lemma catalog_versionD:
  "catalog_version ms = Inr v \<Longrightarrow> (case v of None \<Rightarrow> True
     | Some (e, r) \<Rightarrow> uuid_lower e \<and> 1 \<le> big_int r \<and> big_int r \<le> MAX_BIGINT)"
  by (auto simp: catalog_version_def event_fail_def is_uuid_def dest: big_int_positive
      split: option.splits json.splits if_splits)

lemma normalize_catalog_wf:
  assumes "normalize_role_catalog payload = Inr c"
  shows "catalog_wf c"
proof -
  from assms obtain ms where ms: "payload = Some (JObj ms)"
    by (auto simp: normalize_role_catalog_def event_fail_def split: option.splits json.splits)
  with assms obtain rows where rows': "jmember ms ''roles'' = Some (JArr rows)"
    by (auto simp: normalize_role_catalog_def event_fail_def split: option.splits json.splits)
  obtain rs version where rows: "\<not> length rows > MAX_ROLES" and rs: "normal_roles [] rows = Inr rs"
    and v: "catalog_version ms = Inr version"
    and c: "rc_roles c = sort_key cr_id rs" "rc_epoch c = map_option fst version" "rc_revision c = map_option snd version"
      "rc_default c = (case int_of (jmember ms ''default_role'') of
          Some i \<Rightarrow> if i \<in> set (map cr_id rs) then Some i else None | None \<Rightarrow> None)"
    using assms [unfolded normalize_role_catalog_def event_fail_def ms option.case json.case rows']
    by (elim run_elims) (rule that, assumption+, auto)
  have s: "set (rc_roles c) = set rs" "length (rc_roles c) = length rs" using c(1) by simp_all
  have "mset (map cr_id (rc_roles c)) = mset (map cr_id rs)" using c(1) by simp
  then have d: "distinct (map cr_id (rc_roles c))" using normal_rolesD [OF rs] mset_eq_imp_distinct_iff by blast
  have ver: "case (rc_epoch c, rc_revision c) of (None, None) \<Rightarrow> True
        | (Some e, Some r) \<Rightarrow> uuid_lower e \<and> 1 \<le> big_int r \<and> big_int r \<le> MAX_BIGINT | _ \<Rightarrow> False"
    using catalog_versionD [OF v] c(2,3) by (auto split: option.splits)
  have dflt: "case rc_default c of None \<Rightarrow> True | Some i \<Rightarrow> i \<in> set (map cr_id (rc_roles c))"
    using c(4) s(1) by (auto split: option.splits if_splits)
  show ?thesis unfolding catalog_wf_def using d ver dflt normal_rolesD [OF rs] rows s c(1)
    by (simp add: list_all_iff MAX_ROLES_def)
qed

section \<open>What reconciliation writes\<close>

lemma tget_replace_role:
  "tget (replace_role cid old new t) (s, k) =
     map_option (\<lambda>v. if k = cid \<and> v = Some old then new else v) (tget t (s, k))"
  by (simp add: replace_role_def tget_tmap)

text \<open>The value a stored reference ends up with.\<close>

definition moved_ref :: "role_catalog \<Rightarrow> catalog_role list \<Rightarrow> int option \<Rightarrow> int option" where
  "moved_ref c stale v = (case v of None \<Rightarrow> None
     | Some i \<Rightarrow> (case find (\<lambda>r. cr_id r = i) stale of None \<Rightarrow> Some i | Some r \<Rightarrow> move_to c r))"

lemma move_to_kept: "move_to c r = Some i \<Longrightarrow> i \<in> set (map cr_id (rc_roles c))"
  by (auto simp: move_to_def find_Some_iff split: option.splits if_splits)

lemma moved_ref_Cons:
  assumes "\<forall>r \<in> set (x # stale). cr_id r \<notin> set (map cr_id (rc_roles c))"
  shows "moved_ref c stale (if v = Some (cr_id x) then move_to c x else v) = moved_ref c (x # stale) v"
proof (cases "v = Some (cr_id x)")
  case True
  have "find (\<lambda>r. cr_id r = i) stale = None" if "move_to c x = Some i" for i
    using move_to_kept [OF that] assms by (auto simp: find_None_iff)
  then show ?thesis using True by (auto simp: moved_ref_def split: option.splits)
next
  case False
  then show ?thesis by (auto simp: moved_ref_def split: option.splits)
qed

lemma remove_fold:
  assumes "\<forall>r \<in> set stale. cr_id r \<notin> set (map cr_id (rc_roles c))"
  shows "\<exists>ov ad. fold (remove_stale_role cid c) stale d = d\<lparr>user_app_role_overrides := ov, org_role_app_defaults := ad\<rparr>
    \<and> (\<forall>s k. tget ov (s, k) = map_option (\<lambda>v. if k = cid then moved_ref c stale v else v) (tget (user_app_role_overrides d) (s, k)))
    \<and> (\<forall>s k. tget ad (s, k) = map_option (\<lambda>v. if k = cid then moved_ref c stale v else v) (tget (org_role_app_defaults d) (s, k)))"
  using assms
proof (induction stale arbitrary: d)
  case Nil
  have "moved_ref c [] v = v" for v by (simp add: moved_ref_def split: option.splits)
  then have "(\<lambda>v. if k = cid then moved_ref c [] v else v) = (\<lambda>v. v)" for k by (auto simp: fun_eq_iff)
  then show ?case
    by (rule_tac exI [of _ "user_app_role_overrides d"], rule_tac exI [of _ "org_role_app_defaults d"])
       (simp add: option.map_ident)
next
  case (Cons x stale)
  define d1 where "d1 = remove_stale_role cid c x d"
  have o1: "tget (user_app_role_overrides d1) (s, k) = map_option (\<lambda>v. if k = cid \<and> v = Some (cr_id x) then move_to c x else v)
      (tget (user_app_role_overrides d) (s, k))"
    "tget (org_role_app_defaults d1) (s, k) = map_option (\<lambda>v. if k = cid \<and> v = Some (cr_id x) then move_to c x else v)
      (tget (org_role_app_defaults d) (s, k))" for s k
    by (simp_all add: d1_def remove_stale_role_def tget_replace_role)
  from Cons.IH [of d1] Cons.prems obtain ov ad
    where f: "fold (remove_stale_role cid c) stale d1 = d1\<lparr>user_app_role_overrides := ov, org_role_app_defaults := ad\<rparr>"
    and ov: "\<forall>s k. tget ov (s, k) = map_option (\<lambda>v. if k = cid then moved_ref c stale v else v) (tget (user_app_role_overrides d1) (s, k))"
    and ad: "\<forall>s k. tget ad (s, k) = map_option (\<lambda>v. if k = cid then moved_ref c stale v else v) (tget (org_role_app_defaults d1) (s, k))"
    by auto
  have step: "(if k = cid then moved_ref c stale (if k = cid \<and> v = Some (cr_id x) then move_to c x else v)
        else (if k = cid \<and> v = Some (cr_id x) then move_to c x else v))
      = (if k = cid then moved_ref c (x # stale) v else v)" for k v
    using moved_ref_Cons [OF Cons.prems, of v] by simp
  show ?case
  proof (intro exI conjI allI)
    show "fold (remove_stale_role cid c) (x # stale) d = d\<lparr>user_app_role_overrides := ov, org_role_app_defaults := ad\<rparr>"
      using f by (simp add: d1_def remove_stale_role_def)
    show "tget ov (s, k) = map_option (\<lambda>v. if k = cid then moved_ref c (x # stale) v else v) (tget (user_app_role_overrides d) (s, k))" for s k
      using ov o1(1) step by (simp add: option.map_comp comp_def)
    show "tget ad (s, k) = map_option (\<lambda>v. if k = cid then moved_ref c (x # stale) v else v) (tget (org_role_app_defaults d) (s, k))" for s k
      using ad o1(2) step by (simp add: option.map_comp comp_def)
  qed
qed

definition stored_row :: "catalog_role \<Rightarrow> app_role" where
  "stored_row r = \<lparr>ar_name = cr_name r, ar_level = cr_level r, ar_is_system = cr_system r\<rparr>"

lemma role_fold:
  "distinct (map cr_id rs) \<Longrightarrow> tget (fold (\<lambda>r. tput (cid, cr_id r) (stored_row r)) rs t) (k, i) =
     (if k = cid then (case find (\<lambda>r. cr_id r = i) rs of Some r \<Rightarrow> Some (stored_row r) | None \<Rightarrow> tget t (k, i)) else tget t (k, i))"
proof (induction rs arbitrary: t)
  case Nil
  show ?case by simp
next
  case (Cons r rs)
  have "find (\<lambda>q. cr_id q = cr_id r) rs = None" using Cons.prems by (auto simp: find_None_iff image_iff dest!: bspec)
  then show ?case using Cons by (auto simp: tbl_simps split: option.splits)
qed

lemma write_roles_rows:
  assumes "distinct (map cr_id (rc_roles c))"
  shows "tget (app_roles (write_roles cid c d)) (k, i) =
    (if k = cid then map_option stored_row (find (\<lambda>r. cr_id r = i) (rc_roles c)) else tget (app_roles d) (k, i))"
proof -
  let ?t = "fold (\<lambda>r. tput (cid, cr_id r) (stored_row r)) (rc_roles c) (app_roles d)"
  have "app_roles (write_roles cid c d) = tfilter (\<lambda>p _. (\<lambda>(k, i). k \<noteq> cid \<or> i \<in> set (map cr_id (rc_roles c))) p) ?t"
    by (simp add: write_roles_def stored_row_def case_prod_beta')
  then have "tget (app_roles (write_roles cid c d)) (k, i) = (if k \<noteq> cid \<or> i \<in> set (map cr_id (rc_roles c)) then tget ?t (k, i) else None)"
    using tget_filter_key [of "\<lambda>(k, i). k \<noteq> cid \<or> i \<in> set (map cr_id (rc_roles c))" ?t "(k, i)"] by simp
  then show ?thesis using role_fold [OF assms, of cid "app_roles d" k i]
    by (auto simp: find_None_iff split: option.splits)
qed

lemma top_role_step:
  "\<forall>b. best = Some b \<longrightarrow> b \<in> S \<Longrightarrow>
   (case fold (\<lambda>r best. case best of None \<Rightarrow> Some r
      | Some b \<Rightarrow> if cr_level r < cr_level b \<or> (cr_level r = cr_level b \<and> cr_id r < cr_id b) then Some r else Some b) rs best of
      None \<Rightarrow> best = None \<and> rs = []
    | Some t \<Rightarrow> t \<in> S \<union> set rs \<and> (\<forall>r \<in> set rs. cr_level t \<le> cr_level r) \<and> (\<forall>b. best = Some b \<longrightarrow> cr_level t \<le> cr_level b))"
proof (induction rs arbitrary: best S)
  case Nil
  then show ?case by (auto split: option.splits)
next
  case (Cons r rs)
  define nb where "nb = (case best of None \<Rightarrow> r
      | Some b \<Rightarrow> if cr_level r < cr_level b \<or> (cr_level r = cr_level b \<and> cr_id r < cr_id b) then r else b)"
  have step: "(case best of None \<Rightarrow> Some r
      | Some b \<Rightarrow> if cr_level r < cr_level b \<or> (cr_level r = cr_level b \<and> cr_id r < cr_id b) then Some r else Some b) = Some nb"
    by (auto simp: nb_def split: option.splits)
  have nb: "nb \<in> insert r S" "cr_level nb \<le> cr_level r" "\<forall>b. best = Some b \<longrightarrow> cr_level nb \<le> cr_level b"
    using Cons.prems by (auto simp: nb_def split: option.splits)
  show ?case using Cons.IH [of "Some nb" "insert r S"] nb unfolding fold_simps step
    by (fastforce split: option.splits)
qed

lemma top_roleD:
  "top_role rs = Some t \<Longrightarrow> t \<in> set rs \<and> (\<forall>r \<in> set rs. cr_level t \<le> cr_level r)"
  using top_role_step [of None "{}" rs] by (simp add: top_role_def)

lemma top_role_None: "top_role rs = None \<longleftrightarrow> rs = []"
  using top_role_step [of None "{}" rs] by (auto simp: top_role_def split: option.splits)

lemma root_fold:
  "tget (fold (\<lambda>slug. tput (slug, cid) v) slugs t) (s, k) = (if k = cid \<and> s \<in> set slugs then Some v else tget t (s, k))"
  by (induction slugs arbitrary: t) (auto simp: tbl_simps)

definition new_sync :: "(string \<Rightarrow> string) \<Rightarrow> int \<Rightarrow> role_catalog \<Rightarrow> sync_state \<Rightarrow> sync_state" where
  "new_sync sha iat c st = st\<lparr>ss_mode := (if rc_epoch c \<noteq> None then Revisioned else Legacy), ss_epoch := rc_epoch c,
     ss_revision := map_option big_int (rc_revision c), ss_digest := Some (catalog_digest sha c), ss_last_iat := iat\<rparr>"

lemma reconcile_tables_frame:
  assumes "reconcile_tables sha now cid iat c d = (roots, d3)"
  shows "identities d3 = identities d" and "org_roles d3 = org_roles d" and "user_org_roles d3 = user_org_roles d"
    and "app_role_effective d3 = app_role_effective d" and "event_outbox d3 = event_outbox d"
    and "processed_events d3 = processed_events d"
    and "app_role_catalogs d3 = tput cid \<lparr>cat_default = rc_default c, cat_synced_at = now, cat_last_iat = iat\<rparr> (app_role_catalogs d)"
    and "tget (app_role_sync_state d3) k = (if k = cid then map_option (new_sync sha iat c) (tget (app_role_sync_state d) cid)
           else tget (app_role_sync_state d) k)"
    and "map_option cl_disabled_at (tget (oauth_clients d3) k) = map_option cl_disabled_at (tget (oauth_clients d) k)"
proof -
  have stale: "\<forall>r \<in> set (stale_roles cid c d). cr_id r \<notin> set (map cr_id (rc_roles c))" by (simp add: stale_roles_def)
  from remove_fold [OF stale, of cid d] obtain ov ad
    where d1: "fold (remove_stale_role cid c) (stale_roles cid c d) d = d\<lparr>user_app_role_overrides := ov, org_role_app_defaults := ad\<rparr>"
    by blast
  have d3: "d3 = snd (bootstrap_roots cid c (write_catalog sha now iat cid c (write_roles cid c
      (d\<lparr>user_app_role_overrides := ov, org_role_app_defaults := ad\<rparr>))))"
    using assms unfolding reconcile_tables_def d1 by simp
  show "identities d3 = identities d" "org_roles d3 = org_roles d" "user_org_roles d3 = user_org_roles d"
    "app_role_effective d3 = app_role_effective d" "event_outbox d3 = event_outbox d"
    "processed_events d3 = processed_events d"
    "app_role_catalogs d3 = tput cid \<lparr>cat_default = rc_default c, cat_synced_at = now, cat_last_iat = iat\<rparr> (app_role_catalogs d)"
    by (simp_all add: d3 bootstrap_roots_def write_catalog_def write_roles_def split: option.splits)
  show "tget (app_role_sync_state d3) k = (if k = cid then map_option (new_sync sha iat c) (tget (app_role_sync_state d) cid)
           else tget (app_role_sync_state d) k)"
    by (cases "tget (app_role_sync_state d) k")
       (auto simp: d3 bootstrap_roots_def write_catalog_def write_roles_def new_sync_def tbl_simps split: option.splits)
  show "map_option cl_disabled_at (tget (oauth_clients d3) k) = map_option cl_disabled_at (tget (oauth_clients d) k)"
    by (cases "tget (oauth_clients d) k")
       (auto simp: d3 bootstrap_roots_def write_catalog_def write_roles_def tbl_simps split: option.splits)
qed

lemma reconcile_tables_roles:
  assumes "reconcile_tables sha now cid iat c d = (roots, d3)" and wf: "distinct (map cr_id (rc_roles c))"
  shows "tget (app_roles d3) (k, i) =
      (if k = cid then map_option stored_row (find (\<lambda>r. cr_id r = i) (rc_roles c)) else tget (app_roles d) (k, i))"
    and "tget (user_app_role_overrides d3) (s, k) =
      map_option (\<lambda>v. if k = cid then moved_ref c (stale_roles cid c d) v else v) (tget (user_app_role_overrides d) (s, k))"
    and "tget (org_role_app_defaults d3) (s, k) =
      (case top_role (rc_roles c) of
         Some t \<Rightarrow> if k = cid \<and> s \<in> set (root_roles d) then Some (Some (cr_id t))
           else map_option (\<lambda>v. if k = cid then moved_ref c (stale_roles cid c d) v else v) (tget (org_role_app_defaults d) (s, k))
       | None \<Rightarrow> map_option (\<lambda>v. if k = cid then moved_ref c (stale_roles cid c d) v else v) (tget (org_role_app_defaults d) (s, k)))"
proof -
  have stale: "\<forall>r \<in> set (stale_roles cid c d). cr_id r \<notin> set (map cr_id (rc_roles c))" by (simp add: stale_roles_def)
  from remove_fold [OF stale, of cid d] obtain ov ad
    where d1: "fold (remove_stale_role cid c) (stale_roles cid c d) d = d\<lparr>user_app_role_overrides := ov, org_role_app_defaults := ad\<rparr>"
    and ov: "\<forall>s k. tget ov (s, k) = map_option (\<lambda>v. if k = cid then moved_ref c (stale_roles cid c d) v else v) (tget (user_app_role_overrides d) (s, k))"
    and ad: "\<forall>s k. tget ad (s, k) = map_option (\<lambda>v. if k = cid then moved_ref c (stale_roles cid c d) v else v) (tget (org_role_app_defaults d) (s, k))"
    by (elim exE conjE) (rule that)
  have d3: "d3 = snd (bootstrap_roots cid c (write_catalog sha now iat cid c (write_roles cid c
      (d\<lparr>user_app_role_overrides := ov, org_role_app_defaults := ad\<rparr>))))"
    using assms(1) unfolding reconcile_tables_def d1 by simp
  have roles: "app_roles d3 = app_roles (write_roles cid c (d\<lparr>user_app_role_overrides := ov, org_role_app_defaults := ad\<rparr>))"
    by (simp add: d3 bootstrap_roots_def write_catalog_def split: option.splits)
  show "tget (app_roles d3) (k, i) =
      (if k = cid then map_option stored_row (find (\<lambda>r. cr_id r = i) (rc_roles c)) else tget (app_roles d) (k, i))"
    unfolding roles using write_roles_rows [OF wf] by simp
  have "user_app_role_overrides d3 = ov"
    by (simp add: d3 bootstrap_roots_def write_catalog_def write_roles_def split: option.splits)
  then show "tget (user_app_role_overrides d3) (s, k) =
      map_option (\<lambda>v. if k = cid then moved_ref c (stale_roles cid c d) v else v) (tget (user_app_role_overrides d) (s, k))"
    using ov by simp
  have "org_role_app_defaults d3 = (case top_role (rc_roles c) of None \<Rightarrow> ad
      | Some t \<Rightarrow> fold (\<lambda>slug. tput (slug, cid) (Some (cr_id t))) (root_roles d) ad)"
    by (simp add: d3 bootstrap_roots_def write_catalog_def write_roles_def root_roles_def split: option.splits)
  then show "tget (org_role_app_defaults d3) (s, k) =
      (case top_role (rc_roles c) of
         Some t \<Rightarrow> if k = cid \<and> s \<in> set (root_roles d) then Some (Some (cr_id t))
           else map_option (\<lambda>v. if k = cid then moved_ref c (stale_roles cid c d) v else v) (tget (org_role_app_defaults d) (s, k))
       | None \<Rightarrow> map_option (\<lambda>v. if k = cid then moved_ref c (stale_roles cid c d) v else v) (tget (org_role_app_defaults d) (s, k)))"
    using ad by (auto simp: root_fold split: option.splits)
qed

section \<open>Reconciliation and publication together\<close>

lemma reconcileE:
  assumes "reconcile sha uuid now cid iat c force d = Inr d'"
  obtains roots d3 n d4 where "reconcile_tables sha now cid iat c d = (roots, d3)"
    and "publish_role_changes uuid now [cid] None \<lparr>po_force = force, po_force_subjects = roots\<rparr> d3 = Inr (n, d4)"
    and "d' = (if n \<noteq> 0 then reconcile_audit cid n d4 else d4)"
  using assms by (auto simp: reconcile_def split: prod.splits sum.splits)

lemma reconcile_audit_simps [simp]:
  "identities (reconcile_audit cid n d) = identities d" "org_roles (reconcile_audit cid n d) = org_roles d"
  "user_org_roles (reconcile_audit cid n d) = user_org_roles d" "app_roles (reconcile_audit cid n d) = app_roles d"
  "app_role_catalogs (reconcile_audit cid n d) = app_role_catalogs d"
  "org_role_app_defaults (reconcile_audit cid n d) = org_role_app_defaults d"
  "user_app_role_overrides (reconcile_audit cid n d) = user_app_role_overrides d"
  "app_role_sync_state (reconcile_audit cid n d) = app_role_sync_state d"
  "app_role_effective (reconcile_audit cid n d) = app_role_effective d"
  "processed_events (reconcile_audit cid n d) = processed_events d"
  "oauth_clients (reconcile_audit cid n d) = oauth_clients d"
  by (simp_all add: reconcile_audit_def)

lemma reconcile_same_role_tables:
  assumes "reconcile sha uuid now cid iat c force d = Inr d'"
  obtains roots d3 where "reconcile_tables sha now cid iat c d = (roots, d3)"
    and "identities d' = identities d3" and "user_org_roles d' = user_org_roles d3" and "app_roles d' = app_roles d3"
    and "app_role_catalogs d' = app_role_catalogs d3" and "org_role_app_defaults d' = org_role_app_defaults d3"
    and "user_app_role_overrides d' = user_app_role_overrides d3" and "processed_events d' = processed_events d3"
    and "org_roles d' = org_roles d3" and "oauth_clients d' = oauth_clients d3"
proof -
  obtain roots d3 n d4 where t: "reconcile_tables sha now cid iat c d = (roots, d3)"
    and p: "publish_role_changes uuid now [cid] None \<lparr>po_force = force, po_force_subjects = roots\<rparr> d3 = Inr (n, d4)"
    and d': "d' = (if n \<noteq> 0 then reconcile_audit cid n d4 else d4)"
    using assms by (rule reconcileE)
  have "same_role_tables d3 d4" using publish_step_of [OF p] by (simp add: publish_step_def)
  then show ?thesis by (intro that [OF t]) (auto simp: d' same_role_tables_def)
qed

lemma publish_client_sync:
  assumes "publish_client uuid now ss opts cid (t, d) = Inr (t', d')" and "tget (app_role_sync_state d) cid = Some st"
  shows "\<exists>r. tget (app_role_sync_state d') cid = Some (st\<lparr>ss_authority_revision := r\<rparr>)"
  using assms(1)
proof (cases rule: publish_client_cases)
  case (quiet st')
  then show ?thesis using ensure_frame [OF quiet(1)] assms(2) by (intro exI [of _ "ss_authority_revision st"]) simp
next
  case (published st' d1 rn d2)
  note e = ensure_frame [OF published(1)] and a = advance_frame [OF published(3)] and c = chunks_frame [OF published(4)]
  have "d1 = d" using e assms(2) by blast
  then have "tget (app_role_sync_state d2) cid = Some (st\<lparr>ss_authority_revision := rn\<rparr>)" using a assms(2) by auto
  then show ?thesis using c by auto
qed

lemma reconcile_sync:
  assumes "reconcile sha uuid now cid iat c force d = Inr d'" and "tget (app_role_sync_state d) cid = Some st"
  shows "\<exists>r. tget (app_role_sync_state d') cid = Some ((new_sync sha iat c st)\<lparr>ss_authority_revision := r\<rparr>)"
proof -
  obtain roots d3 n d4 where t: "reconcile_tables sha now cid iat c d = (roots, d3)"
    and p: "publish_role_changes uuid now [cid] None \<lparr>po_force = force, po_force_subjects = roots\<rparr> d3 = Inr (n, d4)"
    and d': "d' = (if n \<noteq> 0 then reconcile_audit cid n d4 else d4)"
    using assms(1) by (rule reconcileE)
  have "tget (app_role_sync_state d3) cid = Some (new_sync sha iat c st)"
    using reconcile_tables_frame(8) [OF t, of cid] assms(2) by simp
  moreover have "publish_client uuid now None \<lparr>po_force = force, po_force_subjects = roots\<rparr> cid (0, d3) = Inr (n, d4)"
    using p by (simp add: publish_role_changes_def rbind_def split: sum.splits)
  ultimately show ?thesis using publish_client_sync d' by auto
qed

lemma reconcile_ledger:
  assumes run: "reconcile sha uuid now cid iat c force d = Inr d'" and ok: "ledger_ok d"
    and wf: "distinct (map cr_id (rc_roles c))"
  shows "ledger_ok d'"
proof -
  obtain roots d3 n d4 where t: "reconcile_tables sha now cid iat c d = (roots, d3)"
    and p: "publish_role_changes uuid now [cid] None \<lparr>po_force = force, po_force_subjects = roots\<rparr> d3 = Inr (n, d4)"
    and d': "d' = (if n \<noteq> 0 then reconcile_audit cid n d4 else d4)"
    using run by (rule reconcileE)
  note f = reconcile_tables_frame [OF t] and r = reconcile_tables_roles [OF t wf]
  have "ledger_ok d4"
  proof (rule publish_renews_ledger [OF ok p f(1) f(4)])
    fix k s
    assume s: "s \<in> set (live_subjects d3 None)" and k: "has_app_catalog d3 k"
    show "k \<in> set [cid] \<and> s \<in> set (live_subjects d3 None) \<or> has_app_catalog d k \<and> resolved_role d3 k s = resolved_role d k s"
    proof (cases "k = cid")
      case True
      then show ?thesis using s by simp
    next
      case False
      have o: "tget (app_role_catalogs d3) k = tget (app_role_catalogs d) k" using f(7) False by (simp add: tbl_simps)
      have ov: "tget (user_app_role_overrides d3) (s, k) = tget (user_app_role_overrides d) (s, k)"
        using r(2) False by (simp add: option.map_ident)
      have ad: "tget (org_role_app_defaults d3) (x, k) = tget (org_role_app_defaults d) (x, k)" for x
        using r(3) [of x k] False by (simp add: option.map_ident split: option.splits)
      have ar: "tget (app_roles d3) (k, i) = tget (app_roles d) (k, i)" for i using r(1) False by simp
      have "org_layer d3 s k = org_layer d s k" using ad f(3) by (simp add: org_layer_def cong: option.case_cong)
      then have "effective_app_role d3 s k = effective_app_role d s k"
        using o ov by (simp add: effective_app_role_def cong: option.case_cong)
      then have "resolved_role d3 k s = resolved_role d k s"
        by (simp add: resolved_role_def known_role_def ar cong: option.case_cong)
      then show ?thesis using o k by (simp add: has_app_catalog_def)
    qed
  qed
  moreover have "ledger_ok (reconcile_audit cid n d4) = ledger_ok d4"
    by (rule ledger_ok_cong) (simp_all add: resolved_role_cong [of "reconcile_audit cid n d4" d4])
  ultimately show ?thesis using d' by simp
qed

section \<open>References to roles\<close>

lemma removed_role_found:
  assumes pk: "pk (app_roles d)" and r: "tget (app_roles d) (cid, i) = Some r" and gone: "i \<notin> set (map cr_id (rc_roles c))"
  obtains q where "find (\<lambda>r. cr_id r = i) (stale_roles cid c d) = Some q" and "cr_level q = ar_level r"
proof -
  let ?q = "\<lparr>cr_id = i, cr_name = ar_name r, cr_level = ar_level r, cr_system = ar_is_system r\<rparr>"
  have stored: "cr_level q = ar_level r" if "q \<in> set (stored_roles d cid)" "cr_id q = i" for q
    using that r pk by (auto simp: stored_roles_def tget_in_set [OF pk, symmetric])
  have "((cid, i), r) \<in> set (app_roles d)" using r pk tget_in_set by metis
  then have "?q \<in> set (stored_roles d cid)" by (force simp: stored_roles_def)
  then have "?q \<in> set (stale_roles cid c d)" using gone by (simp add: stale_roles_def)
  then obtain q where q: "find (\<lambda>r. cr_id r = i) (stale_roles cid c d) = Some q"
    by (cases "find (\<lambda>r. cr_id r = i) (stale_roles cid c d)") (auto simp: find_None_iff)
  then have "q \<in> set (stale_roles cid c d)" "cr_id q = i" by (auto simp: find_Some_iff)
  then show ?thesis using that [OF q] stored by (simp add: stale_roles_def)
qed

text \<open>Every stored override and default of a client names a role of its catalog, or no access.\<close>

definition known_refs :: "db \<Rightarrow> string \<Rightarrow> (string \<times> string, int option) table \<Rightarrow> bool" where
  "known_refs d cid t = list_all (\<lambda>(s, k). k \<noteq> cid \<or> (case tget t (s, k) of
      Some (Some i) \<Rightarrow> tget (app_roles d) (cid, i) \<noteq> None | _ \<Rightarrow> True)) (tkeys t)"

lemma known_refs_iff:
  "known_refs d cid t \<longleftrightarrow> (\<forall>s i. tget t (s, cid) = Some (Some i) \<longrightarrow> tget (app_roles d) (cid, i) \<noteq> None)"
  unfolding known_refs_def list_all_iff Ball_def tkeys_iff
  by (fastforce split: option.splits)

definition refs_ok :: "db \<Rightarrow> string \<Rightarrow> bool" where
  "refs_ok d cid = (known_refs d cid (user_app_role_overrides d) \<and> known_refs d cid (org_role_app_defaults d))"

lemma stored_roles_iff:
  "(\<exists>r \<in> set (stored_roles d cid). cr_id r = i) \<longleftrightarrow> tget (app_roles d) (cid, i) \<noteq> None"
proof -
  have "(\<exists>r \<in> set (stored_roles d cid). cr_id r = i) \<longleftrightarrow> (cid, i) \<in> fst ` set (app_roles d)"
    by (force simp: stored_roles_def)
  also have "\<dots> \<longleftrightarrow> tget (app_roles d) (cid, i) \<noteq> None" by (simp add: tget_def map_of_eq_None_iff)
  finally show ?thesis .
qed

lemma moved_ref_known:
  assumes "moved_ref c (stale_roles cid c d) v = Some j" and "\<And>i. v = Some i \<Longrightarrow> tget (app_roles d) (cid, i) \<noteq> None"
  shows "j \<in> set (map cr_id (rc_roles c))"
proof -
  obtain i where v: "v = Some i" using assms(1) by (cases v) (auto simp: moved_ref_def)
  show ?thesis
  proof (cases "find (\<lambda>r. cr_id r = i) (stale_roles cid c d)")
    case (Some r)
    then show ?thesis using assms(1) v move_to_kept by (auto simp: moved_ref_def)
  next
    case None
    then have j: "j = i" using assms(1) v by (simp add: moved_ref_def)
    have "\<exists>r \<in> set (stored_roles d cid). cr_id r = i" using assms(2) v stored_roles_iff by blast
    then obtain r where "r \<in> set (stored_roles d cid)" "cr_id r = i" by blast
    then show ?thesis using None j by (auto simp: find_None_iff stale_roles_def)
  qed
qed

lemma find_id_iff: "find (\<lambda>r. cr_id r = i) rs \<noteq> None \<longleftrightarrow> i \<in> set (map cr_id rs)"
  by (auto simp: find_None_iff)

lemma reconcile_refs:
  assumes run: "reconcile sha uuid now cid iat c force d = Inr d'" and wf: "distinct (map cr_id (rc_roles c))" and ok: "refs_ok d cid"
  shows "refs_ok d' cid"
proof -
  obtain roots d3 where t: "reconcile_tables sha now cid iat c d = (roots, d3)"
    and same: "app_roles d' = app_roles d3" "org_role_app_defaults d' = org_role_app_defaults d3"
      "user_app_role_overrides d' = user_app_role_overrides d3"
    using run by (rule reconcile_same_role_tables)
  note r = reconcile_tables_roles [OF t wf]
  have known: "tget (app_roles d3) (cid, j) \<noteq> None" if "j \<in> set (map cr_id (rc_roles c))" for j
    using r(1) [of cid j] that find_id_iff [of j "rc_roles c"] by auto
  have moved: "tget (app_roles d3) (cid, j) \<noteq> None"
    if "tget t (s, cid) = Some v" "known_refs d cid t" "moved_ref c (stale_roles cid c d) v = Some j" for t s v j
    using known moved_ref_known [OF that(3)] that(1,2) unfolding known_refs_iff by blast
  have "known_refs d' cid (user_app_role_overrides d')"
    unfolding known_refs_iff same r(2)
    using moved [of "user_app_role_overrides d"] ok by (auto simp: refs_ok_def)
  moreover have "known_refs d' cid (org_role_app_defaults d')"
    unfolding known_refs_iff same
  proof (intro allI impI)
    fix s i
    assume i: "tget (org_role_app_defaults d3) (s, cid) = Some (Some i)"
    consider (top) q where "top_role (rc_roles c) = Some q" "i = cr_id q"
      | (kept) v where "tget (org_role_app_defaults d) (s, cid) = Some v" "moved_ref c (stale_roles cid c d) v = Some i"
      using i unfolding r(3) by (auto split: option.splits if_splits)
    then show "tget (app_roles d3) (cid, i) \<noteq> None"
    proof cases
      case top
      then show ?thesis using known top_roleD by fastforce
    next
      case kept
      then show ?thesis using moved ok by (auto simp: refs_ok_def)
    qed
  qed
  ultimately show ?thesis by (simp add: refs_ok_def)
qed

section \<open>Processing\<close>

lemma catalog_stateE:
  assumes "catalog_state uuid cid e d = Inr (st, d1)"
  obtains (plain) "ie_catalog e = None" and "st = None" and "d1 = d"
  | (cat) c s where "ie_catalog e = Some c" and "st = Some s" and "ensure_role_sync_state uuid cid d = Inr (s, d1)"
      and "ss_mode s = Revisioned \<longrightarrow> rc_epoch c \<noteq> None \<and> rc_epoch c = ss_epoch s"
proof (cases "ie_catalog e")
  case None
  then show ?thesis using assms plain by (simp add: catalog_state_def)
next
  case (Some c)
  show ?thesis
    using assms unfolding catalog_state_def Some option.case conflict_def
    by (elim run_elims) (auto simp: lift_fault_def Some intro: cat split: sum.splits if_splits)
qed

text \<open>The four ways an event is processed.\<close>

lemma process_eventE:
  assumes "process_event sha uuid now cid iat e d = Inr d'"
  obtains (known) dg st d1 p where "inbox_digest sha e = Inr dg" and "catalog_state uuid cid e d = Inr (st, d1)" and "d' = d1"
      and "tget (processed_events d) (cid, ie_id e) = Some p" and "pe_digest p = Some dg"
  | (plain) dg where "inbox_digest sha e = Inr dg" and "ie_catalog e = None" and "d' = record_event cid e dg d"
      and "\<forall>p. tget (processed_events d) (cid, ie_id e) = Some p \<longrightarrow> pe_digest p = None"
  | (unbound) dg c s d1 where "inbox_digest sha e = Inr dg" and "ie_catalog e = Some c"
      and "catalog_state uuid cid e d = Inr (Some s, d1)" and "apply_catalog sha uuid now cid iat c s d1 = Inr (Stale, d')"
      and "\<exists>p. tget (processed_events d) (cid, ie_id e) = Some p \<and> pe_digest p = None"
  | (applied) dg c s d1 order d2 where "inbox_digest sha e = Inr dg" and "ie_catalog e = Some c"
      and "catalog_state uuid cid e d = Inr (Some s, d1)" and "apply_catalog sha uuid now cid iat c s d1 = Inr (order, d2)"
      and "d' = record_event cid e dg d2"
      and "\<forall>p. tget (processed_events d) (cid, ie_id e) = Some p \<longrightarrow> pe_digest p = None \<or> rc_epoch c = None \<or> ss_digest s = None"
proof -
  from assms obtain dg where dg: "inbox_digest sha e = Inr dg" by (auto simp: process_event_def res_simps)
  from assms dg obtain st d1 where cs: "catalog_state uuid cid e d = Inr (st, d1)"
    by (auto simp: process_event_def res_simps Let_def)
  define prior where "prior = tget (processed_events d) (cid, ie_id e)"
  note body = assms [unfolded process_event_def dg cs rbind_Inr Let_def prod.case, folded prior_def]
  show ?thesis
  proof (cases "(case prior of None \<Rightarrow> False | Some p \<Rightarrow> pe_digest p = Some dg)
      \<and> \<not> (case st of None \<Rightarrow> False | Some s \<Rightarrow> ss_digest s = None)")
    case True
    then have "d' = d1" using body by simp
    moreover obtain p where "prior = Some p" "pe_digest p = Some dg" using True by (auto split: option.splits)
    ultimately show ?thesis using known dg cs by (simp add: prior_def)
  next
    case False
    show ?thesis
      using cs
    proof (cases rule: catalog_stateE)
      case plain: plain
      have "prior = None \<or> (\<exists>p. prior = Some p \<and> pe_type p = None \<and> pe_digest p = None)"
        using body False plain by (auto simp: conflict_def split: option.splits if_splits)
      moreover from this have "d' = record_event cid e dg d"
        using body False plain by (auto simp: conflict_def split: option.splits if_splits)
      ultimately show ?thesis using that(2) [OF dg plain(1)] by (auto simp: prior_def)
    next
      case (cat c s)
      have allowed: "prior = None \<or> (\<exists>p. prior = Some p \<and> (pe_digest p = None \<or> rc_epoch c = None))"
        using body False cat by (auto simp: conflict_def split: option.splits if_splits)
      from body False have "rbind (apply_catalog sha uuid now cid iat c s d1) (\<lambda>(order, d).
          if (case prior of None \<Rightarrow> False | Some p \<Rightarrow> pe_type p = None \<and> pe_digest p = None) \<and> order = Stale
          then Inr d else Inr (record_event cid e dg d)) = Inr d'"
        unfolding cat(1,2) option.case prod.case if_not_P [OF False, unfolded cat(2)] conflict_def
        by (simp add: cat(1,2) split: if_splits)
      then obtain od where od: "apply_catalog sha uuid now cid iat c s d1 = Inr od"
        and rest: "(case od of (order, d) \<Rightarrow>
          if (case prior of None \<Rightarrow> False | Some p \<Rightarrow> pe_type p = None \<and> pe_digest p = None) \<and> order = Stale
          then Inr d else Inr (record_event cid e dg d)) = (Inr d' :: event_error + db)"
        by (rule rbind_InrE)
      obtain order d2 where p: "od = (order, d2)" by (cases od)
      have ap: "apply_catalog sha uuid now cid iat c s d1 = Inr (order, d2)" using od p by simp
      have r: "(if (case prior of None \<Rightarrow> False | Some p \<Rightarrow> pe_type p = None \<and> pe_digest p = None) \<and> order = Stale
          then Inr d2 else Inr (record_event cid e dg d2)) = (Inr d' :: event_error + db)"
        using rest unfolding p prod.case .
      show ?thesis
      proof (cases "(case prior of None \<Rightarrow> False | Some p \<Rightarrow> pe_type p = None \<and> pe_digest p = None) \<and> order = Stale")
        case True
        then have "\<exists>p. prior = Some p \<and> pe_digest p = None" by (auto split: option.splits)
        then show ?thesis using unbound [OF dg cat(1)] cs ap r True cat(2) by (simp add: prior_def)
      next
        case False
        have "d' = record_event cid e dg d2" using r unfolding if_not_P [OF False] by (rule Inr_inject [symmetric])
        then show ?thesis using applied [OF dg cat(1) _ ap] cs cat(2) allowed by (auto simp: prior_def)
      qed
    qed
  qed
qed

lemma apply_catalogE:
  assumes "apply_catalog sha uuid now cid iat c st d = Inr (order, d')"
  obtains (skipped) "d' = d" and "order \<noteq> Apply"
  | (reconciled) force where "reconcile sha uuid now cid iat c force d = Inr d'" and "order \<noteq> Stale"
  using assms unfolding apply_catalog_def Let_def
  by (elim run_elims) (auto intro: skipped reconciled elim!: run_elims split: if_splits)

lemma record_event_simps [simp]:
  "app_role_sync_state (record_event cid e dg d) = app_role_sync_state d"
  "oauth_clients (record_event cid e dg d) = oauth_clients d"
  "ledger_ok (record_event cid e dg d) = ledger_ok d"
proof -
  show "app_role_sync_state (record_event cid e dg d) = app_role_sync_state d"
    "oauth_clients (record_event cid e dg d) = oauth_clients d" by (simp_all add: record_event_def)
  have "resolved_role (record_event cid e dg d) a s = resolved_role d a s" for a s
    by (rule resolved_role_cong) (simp_all add: record_event_def)
  then show "ledger_ok (record_event cid e dg d) = ledger_ok d"
    by (intro ledger_ok_cong) (auto simp: record_event_def)
qed

lemma ensure_existing:
  "ensure_role_sync_state uuid cid d = Inr (s, d1) \<Longrightarrow> tget (app_role_sync_state d) cid = Some st \<Longrightarrow> s = st \<and> d1 = d"
  by (simp add: ensure_role_sync_state_def)

text \<open>Revisions of a client that has adopted them.\<close>

definition revision_le :: "sync_state \<Rightarrow> sync_state \<Rightarrow> bool" where
  "revision_le st st' = (ss_mode st' = Revisioned \<and> ss_epoch st' = ss_epoch st \<and> (ss_digest st \<noteq> None \<longrightarrow> ss_digest st' \<noteq> None)
     \<and> (case (ss_revision st, ss_revision st') of (Some n, Some n') \<Rightarrow> n \<le> n' \<and> (n = n' \<longrightarrow> ss_digest st' = ss_digest st) | _ \<Rightarrow> False))"

definition revisioned :: "sync_state \<Rightarrow> bool" where
  "revisioned st = (ss_mode st = Revisioned \<and> (case ss_revision st of None \<Rightarrow> False | Some n \<Rightarrow> 0 \<le> n))"

lemma revision_le_refl: "revisioned st \<Longrightarrow> revision_le st st"
  by (auto simp: revisioned_def revision_le_def split: option.splits)

lemma revision_le_trans: "revision_le a b \<Longrightarrow> revision_le b c \<Longrightarrow> revision_le a c"
  by (auto simp: revision_le_def split: option.splits)

lemma revision_le_revisioned: "revision_le a b \<Longrightarrow> revisioned a \<Longrightarrow> revisioned b"
  by (auto simp: revision_le_def revisioned_def split: option.splits)

lemma apply_catalog_revision:
  assumes run: "apply_catalog sha uuid now cid iat c st d = Inr (order, d')"
    and st: "tget (app_role_sync_state d) cid = Some st" "revisioned st"
  shows "\<exists>st'. tget (app_role_sync_state d') cid = Some st' \<and> revision_le st st'"
proof -
  obtain n where n: "ss_revision st = Some n" "0 \<le> n" and m: "ss_mode st = Revisioned"
    using st(2) by (auto simp: revisioned_def split: option.splits)
  have kd: "known_digest sha d cid c st = st" using m by (simp add: known_digest_def split: option.splits)
  from run obtain o' where ord: "catalog_order sha st c iat (tget (app_role_catalogs d) cid \<noteq> None \<and> tget (oauth_clients d) cid \<noteq> None) = Inr o'"
    and rest: "(if o' = Stale \<or> (o' = Same \<and> \<not> (ss_digest st = None \<or> (ss_mode st = Legacy \<and> rc_epoch c \<noteq> None))) then Inr (o', d)
      else rbind (reconcile sha uuid now cid iat c (ss_digest st = None \<or> (ss_mode st = Legacy \<and> rc_epoch c \<noteq> None)) d) (\<lambda>d. Inr (o', d))) = Inr (order, d')"
    unfolding apply_catalog_def Let_def kd by (rule rbind_InrE)
  obtain e where e: "rc_epoch c = Some e" "ss_epoch st = Some e"
    using ord m by (auto simp: catalog_order_def conflict_def Let_def split: option.splits if_splits)
  show ?thesis
  proof (cases o')
    case Stale
    then show ?thesis using rest st revision_le_refl by auto
  next
    case Same
    then have "ss_digest st = Some (catalog_digest sha c)"
      using ord m n e by (auto simp: catalog_order_def conflict_def Let_def split: option.splits if_splits)
    then show ?thesis using Same rest m st revision_le_refl by auto
  next
    case Apply
    then have lt: "n < (case rc_revision c of None \<Rightarrow> 0 | Some r \<Rightarrow> big_int r)"
      using ord m n e by (auto simp: catalog_order_def conflict_def Let_def split: if_splits)
    then obtain r where r: "rc_revision c = Some r" "n < big_int r" using n(2) by (cases "rc_revision c") auto
    obtain f where "reconcile sha uuid now cid iat c f d = Inr d'" using Apply rest by (auto simp: res_simps)
    from reconcile_sync [OF this st(1)] obtain q where
      "tget (app_role_sync_state d') cid = Some ((new_sync sha iat c st)\<lparr>ss_authority_revision := q\<rparr>)" by blast
    moreover have "revision_le st ((new_sync sha iat c st)\<lparr>ss_authority_revision := q\<rparr>)"
      using r n e by (simp add: revision_le_def new_sync_def)
    ultimately show ?thesis by blast
  qed
qed

lemma process_event_revision:
  assumes run: "process_event sha uuid now cid iat e d = Inr d'"
    and st: "tget (app_role_sync_state d) cid = Some st" "revisioned st"
  shows "\<exists>st'. tget (app_role_sync_state d') cid = Some st' \<and> revision_le st st'"
proof -
  have cs: "s = Some st \<and> d1 = d \<or> s = None \<and> d1 = d" if "catalog_state uuid cid e d = Inr (s, d1)" for s d1
    using that by (cases rule: catalog_stateE) (use ensure_existing st(1) in blast)+
  show ?thesis
    using run
  proof (cases rule: process_eventE)
    case (known dg s d1)
    then show ?thesis using cs st revision_le_refl by blast
  next
    case (plain dg)
    then show ?thesis using st revision_le_refl by simp
  next
    case (unbound dg c s d1)
    then show ?thesis using cs [OF unbound(3)] apply_catalog_revision st by blast
  next
    case (applied dg c s d1 order d2)
    then show ?thesis using cs [OF applied(3)] apply_catalog_revision [of sha uuid now cid iat c st d] st by auto
  qed
qed

lemma process_events_revision:
  "process_events sha uuid now cid t clock k es d = Inr d' \<Longrightarrow> tget (app_role_sync_state d) cid = Some st \<Longrightarrow> revisioned st \<Longrightarrow>
     \<exists>st'. tget (app_role_sync_state d') cid = Some st' \<and> revision_le st st'"
proof (induction es arbitrary: k d st)
  case Nil
  then show ?case using revision_le_refl by (auto simp: res_simps)
next
  case (Cons e es)
  from Cons.prems(1) obtain d1 where d1: "process_event sha uuid now cid (the (et_iat t)) e d = Inr d1"
    and r: "process_events sha uuid now cid t clock (Suc k) es d1 = Inr d'" by (auto simp: res_simps)
  obtain st1 where st1: "tget (app_role_sync_state d1) cid = Some st1" "revision_le st st1"
    using process_event_revision [OF d1 Cons.prems(2,3)] by blast
  then show ?case using Cons.IH [OF r st1(1)] revision_le_revisioned [OF st1(2) Cons.prems(3)] revision_le_trans by blast
qed

section \<open>The ledger\<close>

lemma ensure_ledger:
  assumes "ensure_role_sync_state uuid cid d = Inr (s, d1)" and "ledger_ok d"
  shows "ledger_ok d1"
proof -
  have "same_role_tables d d1" "app_role_effective d1 = app_role_effective d" using ensure_frame [OF assms(1)] by simp_all
  then have "ledger_ok d1 = ledger_ok d"
    by (intro ledger_ok_cong) (simp_all add: same_role_tables_def resolved_role_cong [of d1 d])
  then show ?thesis using assms(2) by simp
qed

lemma apply_catalog_ledger:
  assumes "apply_catalog sha uuid now cid iat c s d = Inr (order, d')" and "ledger_ok d" and "distinct (map cr_id (rc_roles c))"
  shows "ledger_ok d'"
  using assms(1) by (cases rule: apply_catalogE) (use assms(2,3) reconcile_ledger in blast)+

lemma process_event_ledger:
  assumes run: "process_event sha uuid now cid iat e d = Inr d'" and ok: "ledger_ok d"
    and wf: "\<forall>c. ie_catalog e = Some c \<longrightarrow> distinct (map cr_id (rc_roles c))"
  shows "ledger_ok d'"
proof -
  have cs: "ledger_ok d1" if "catalog_state uuid cid e d = Inr (s, d1)" for s d1
    using that by (cases rule: catalog_stateE) (use ensure_ledger ok in blast)+
  show ?thesis
    using run
  proof (cases rule: process_eventE)
    case (unbound dg c s d1)
    then show ?thesis using apply_catalog_ledger cs wf by blast
  next
    case (applied dg c s d1 order d2)
    then show ?thesis using apply_catalog_ledger [OF applied(4) cs [OF applied(3)]] wf by simp
  qed (use cs ok in auto)
qed

lemma process_events_ledger:
  "process_events sha uuid now cid t clock k es d = Inr d' \<Longrightarrow> ledger_ok d \<Longrightarrow>
     \<forall>e \<in> set es. \<forall>c. ie_catalog e = Some c \<longrightarrow> distinct (map cr_id (rc_roles c)) \<Longrightarrow> ledger_ok d'"
proof (induction es arbitrary: k d)
  case Nil
  then show ?case by (auto simp: res_simps)
next
  case (Cons e es)
  from Cons.prems(1) obtain d1 where d1: "process_event sha uuid now cid (the (et_iat t)) e d = Inr d1"
    and r: "process_events sha uuid now cid t clock (Suc k) es d1 = Inr d'" by (auto simp: res_simps)
  show ?case using Cons.IH [OF r] process_event_ledger [OF d1] Cons.prems by simp
qed

lemma validated_catalogs:
  assumes "validate_incoming_events sha raw = Inr es" and "e \<in> set es" and "ie_catalog e = Some c"
  shows "catalog_wf c"
proof -
  obtain vs where "rmap (validate_event sha) vs = Inr es"
    using assms(1) by (auto simp: validate_incoming_events_def event_fail_def split: option.splits json.splits if_splits)
  then obtain v where "validate_event sha v = Inr e" using rmap_set assms(2) by metis
  then have "\<exists>p. normalize_role_catalog p = Inr c"
    using assms(3) by (auto simp: validate_event_def event_fail_def Let_def res_simps split: json.splits option.splits if_splits)
  then show ?thesis using normalize_catalog_wf by blast
qed

section \<open>Redelivery\<close>










section \<open>Properties\<close>

text \<open>Normalisation is total typing: whatever JSON arrives, a catalog that is accepted has distinct
  32-bit identifiers in ascending order, at most 500 roles with names of at most 100 units, a default
  among its own roles, and either no version or a UUID epoch with a positive 64-bit revision.\<close>

theorem normalized_catalog_wf:
  assumes "normalize_role_catalog payload = Inr c"
  shows "catalog_wf c"
  using assms by (rule normalize_catalog_wf)

definition demo_epoch :: string where "demo_epoch = ''bbbbbbbb-0000-4000-8000-000000000001''"

definition demo_role_json :: "int \<Rightarrow> int \<Rightarrow> string \<Rightarrow> json" where
  "demo_role_json i l n = JObj [(''role_id'', JInt i), (''level'', JInt l), (''name'', JStr n)]"

definition demo_payload :: "string \<Rightarrow> json" where
  "demo_payload r = JObj [(''roles'', JArr [demo_role_json 9 8 ''guest'', demo_role_json 1 0 ''owner'']),
     (''default_role'', JInt 9), (''catalog_epoch'', JStr demo_epoch), (''catalog_revision'', JStr r)]"

definition demo_report :: "string \<Rightarrow> role_catalog" where
  "demo_report r = \<lparr>rc_roles = [\<lparr>cr_id = 1, cr_name = ''owner'', cr_level = 0, cr_system = False\<rparr>,
     \<lparr>cr_id = 9, cr_name = ''guest'', cr_level = 8, cr_system = False\<rparr>],
     rc_default = Some 9, rc_site = None, rc_epoch = Some demo_epoch, rc_revision = Some r\<rparr>"

lemma demo_normal: "normalize_role_catalog (Some (demo_payload ''5'')) = Inr (demo_report ''5'')"
  by code_simp

definition demo_sha :: "string \<Rightarrow> string" where "demo_sha s = s"

definition demo_rev_state :: "int \<Rightarrow> sync_state" where
  "demo_rev_state r = \<lparr>ss_mode = Revisioned, ss_epoch = Some demo_epoch, ss_revision = Some r, ss_digest = Some ''x'',
     ss_last_iat = 3, ss_authority_epoch = ''e1'', ss_authority_revision = 2\<rparr>"

definition demo_sync_db :: db where
  "demo_sync_db = empty_db\<lparr>
     org_roles := [(''superadmin'', \<lparr>or_label = ''Superadmin'', or_level = 0, or_is_system = True\<rparr>),
                   (''staff'', \<lparr>or_label = ''Staff'', or_level = 5, or_is_system = False\<rparr>)],
     oauth_clients := [(''rp'', demo_client)],
     app_roles := [((''rp'', 1), \<lparr>ar_name = ''owner'', ar_level = 0, ar_is_system = True\<rparr>),
                   ((''rp'', 7), \<lparr>ar_name = ''viewer'', ar_level = 5, ar_is_system = False\<rparr>)],
     app_role_catalogs := [(''rp'', \<lparr>cat_default = Some 7, cat_synced_at = 0, cat_last_iat = 3\<rparr>)],
     org_role_app_defaults := [((''staff'', ''rp''), Some 7)],
     user_app_role_overrides := [((''u1'', ''rp''), Some 7), ((''u2'', ''rp''), Some 1)],
     app_role_sync_state := [(''rp'', demo_rev_state 4)]\<rparr>"

definition demo_synced_db :: db where
  "demo_synced_db = demo_sync_db\<lparr>
     app_roles := [((''rp'', 1), \<lparr>ar_name = ''owner'', ar_level = 0, ar_is_system = False\<rparr>),
                   ((''rp'', 9), \<lparr>ar_name = ''guest'', ar_level = 8, ar_is_system = False\<rparr>)],
     app_role_catalogs := [(''rp'', \<lparr>cat_default = Some 9, cat_synced_at = 50, cat_last_iat = 6\<rparr>)],
     org_role_app_defaults := [((''staff'', ''rp''), Some 9), ((''superadmin'', ''rp''), Some 1)],
     user_app_role_overrides := [((''u1'', ''rp''), Some 9), ((''u2'', ''rp''), Some 1)],
     app_role_sync_state := [(''rp'', (demo_rev_state 5)\<lparr>ss_digest := Some (catalog_digest demo_sha (demo_report ''5'')), ss_last_iat := 6\<rparr>)]\<rparr>"

lemma demo_reconcile: "reconcile demo_sha demo_uuid 50 ''rp'' 6 (demo_report ''5'') False demo_sync_db = Inr demo_synced_db"
  by code_simp

lemma reconciled_catalog_is_stored_parts:
  assumes "reconcile sha uuid now cid iat c force d = Inr d'" and "distinct (map cr_id (rc_roles c))" and "refs_ok d cid"
  shows "tget (app_roles d') (k, i) =
      (if k = cid then map_option stored_row (find (\<lambda>r. cr_id r = i) (rc_roles c)) else tget (app_roles d) (k, i))"
    and "refs_ok d' cid"
proof -
  obtain roots d3 where t: "reconcile_tables sha now cid iat c d = (roots, d3)" and same: "app_roles d' = app_roles d3"
    using assms(1) by (rule reconcile_same_role_tables)
  show "tget (app_roles d') (k, i) =
      (if k = cid then map_option stored_row (find (\<lambda>r. cr_id r = i) (rc_roles c)) else tget (app_roles d) (k, i))"
    unfolding same by (rule reconcile_tables_roles(1) [OF t assms(2)])
  show "refs_ok d' cid" by (rule reconcile_refs [OF assms])
qed

text \<open>Reconciliation stores the report: afterwards the client's role table holds exactly the reported
  roles, no other client's roles moved, and if every stored assignment and default of the client
  named a known role before, every one does after, so removal leaves nothing dangling.\<close>

theorem reconciled_catalog_is_stored:
  assumes "reconcile sha uuid now cid iat c force d = Inr d'" and "distinct (map cr_id (rc_roles c))" and "refs_ok d cid"
  shows "(tget (app_roles d') (k, i) =
      (if k = cid then map_option stored_row (find (\<lambda>r. cr_id r = i) (rc_roles c)) else tget (app_roles d) (k, i)))
    \<and> (refs_ok d' cid)"
  using reconciled_catalog_is_stored_parts [OF assms] by blast

text \<open>Removing a role never promotes its holders: an override that named a role the new catalog
  drops ends as "no access" or as the catalog's default, and then the default is strictly less
  privileged than the role that went.\<close>

theorem removed_role_never_promotes:
  assumes "reconcile sha uuid now cid iat c force d = Inr d'" and "distinct (map cr_id (rc_roles c))" and "pk (app_roles d)"
    and "tget (user_app_role_overrides d) (s, cid) = Some (Some i)" and "tget (app_roles d) (cid, i) = Some r"
    and "i \<notin> set (map cr_id (rc_roles c))"
  shows "tget (user_app_role_overrides d') (s, cid) = Some None
    \<or> (\<exists>j r'. rc_default c = Some j \<and> tget (user_app_role_overrides d') (s, cid) = Some (Some j)
        \<and> tget (app_roles d') (cid, j) = Some r' \<and> ar_level r < ar_level r')"
proof -
  obtain roots d3 where t: "reconcile_tables sha now cid iat c d = (roots, d3)"
    and same: "app_roles d' = app_roles d3" "user_app_role_overrides d' = user_app_role_overrides d3"
    using assms(1) by (rule reconcile_same_role_tables)
  note w = reconcile_tables_roles(1,2) [OF t assms(2)]
  have new: "tget (user_app_role_overrides d') (s, cid) = Some (moved_ref c (stale_roles cid c d) (Some i))"
    using w(2) assms(4) by (simp add: same)
  obtain q where q: "find (\<lambda>r. cr_id r = i) (stale_roles cid c d) = Some q" "cr_level q = ar_level r"
    using removed_role_found [OF assms(3,5,6)] by blast
  show ?thesis
  proof (cases "move_to c q")
    case None
    then show ?thesis using new q by (simp add: moved_ref_def)
  next
    case (Some j)
    then obtain r' where "rc_default c = Some j" "find (\<lambda>r. cr_id r = j) (rc_roles c) = Some r'" "cr_level q < cr_level r'"
      by (auto simp: move_to_def split: option.splits if_splits)
    then show ?thesis using new q Some w(1) [of cid j] by (simp add: moved_ref_def same stored_row_def)
  qed
qed

text \<open>Level-0 organisation roles keep the top role: after reconciling a catalog that has roles, the
  default of every level-0 organisation role for that client is a role of the catalog that no other
  role of the catalog outranks.\<close>

theorem root_roles_get_top:
  assumes "reconcile sha uuid now cid iat c force d = Inr d'" and "distinct (map cr_id (rc_roles c))"
    and "rc_roles c \<noteq> []" and "slug \<in> set (root_roles d)"
  shows "\<exists>t \<in> set (rc_roles c). tget (org_role_app_defaults d') (slug, cid) = Some (Some (cr_id t))
    \<and> list_all (\<lambda>r. cr_level t \<le> cr_level r) (rc_roles c)"
proof -
  obtain roots d3 where t: "reconcile_tables sha now cid iat c d = (roots, d3)"
    and same: "org_role_app_defaults d' = org_role_app_defaults d3"
    using assms(1) by (rule reconcile_same_role_tables)
  obtain t where "top_role (rc_roles c) = Some t" using assms(3) top_role_None by (cases "top_role (rc_roles c)") auto
  then show ?thesis using reconcile_tables_roles(3) [OF t assms(2), of slug cid] top_roleD [of "rc_roles c" t] assms(4)
    by (auto simp: same list_all_iff)
qed

theorem root_roles_get_top_witness:
  "\<exists>t \<in> set (rc_roles (demo_report ''5'')). tget (org_role_app_defaults demo_synced_db) (''superadmin'', ''rp'') = Some (Some (cr_id t))
    \<and> list_all (\<lambda>r. cr_level t \<le> cr_level r) (rc_roles (demo_report ''5''))"
proof (rule root_roles_get_top [OF demo_reconcile])
  show "distinct (map cr_id (rc_roles (demo_report ''5'')))" "rc_roles (demo_report ''5'') \<noteq> []"
    "''superadmin'' \<in> set (root_roles demo_sync_db)" by code_simp+
qed

lemma process_incomingE:
  assumes "process_incoming_events sha uuid now cid t es clock d = Inr d'"
  shows "process_events sha uuid now cid t clock 1 es d = Inr d'" and "client_enabled d cid"
    and "assert_envelope_current t (clock 0) = Inr ()"
  using assms by (auto simp: process_incoming_events_def res_simps split: if_splits)

text \<open>C30. Catalog revisions never go back: once a client has adopted an epoch and a revision, any accepted
  batch leaves it in revisioned mode, in the same epoch, at the same or a later revision, and at the
  same revision with the same content.\<close>

theorem catalog_revisions_never_go_back:
  assumes "process_incoming_events sha uuid now cid t es clock d = Inr d'"
    and "tget (app_role_sync_state d) cid = Some st" and "ss_mode st = Revisioned" and "ss_revision st = Some n" and "0 \<le> n"
  shows "\<exists>st' n'. tget (app_role_sync_state d') cid = Some st' \<and> ss_mode st' = Revisioned \<and> ss_epoch st' = ss_epoch st
    \<and> ss_revision st' = Some n' \<and> n \<le> n' \<and> (n' = n \<longrightarrow> ss_digest st' = ss_digest st)"
proof -
  have "revisioned st" using assms(3-5) by (simp add: revisioned_def)
  then obtain st' where "tget (app_role_sync_state d') cid = Some st'" "revision_le st st'"
    using process_events_revision [OF process_incomingE(1) [OF assms(1)] assms(2)] by blast
  then show ?thesis using assms(4) by (auto simp: revision_le_def split: option.splits)
qed

definition demo_in_event :: incoming_event where
  "demo_in_event = \<lparr>ie_id = ''cccccccc-0000-4000-8000-000000000001'', ie_type = ''roles.sync'',
     ie_payload = demo_payload ''5'', ie_catalog = Some (demo_report ''5'')\<rparr>"

definition demo_time :: envelope_time where
  "demo_time = \<lparr>et_iat = Some 6, et_exp = Some 300\<rparr>"

lemma demo_time_ok: "assert_envelope_current demo_time 50 = Inr ()"
  by code_simp

definition demo_received_db :: db where
  "demo_received_db = record_event ''rp'' demo_in_event (case inbox_digest demo_sha demo_in_event of Inr s \<Rightarrow> s | Inl _ \<Rightarrow> []) demo_synced_db"

lemma demo_process: "process_event demo_sha demo_uuid 50 ''rp'' 6 demo_in_event demo_sync_db = Inr demo_received_db"
  by code_simp

lemma demo_receive: "process_incoming_events demo_sha demo_uuid 50 ''rp'' demo_time [demo_in_event] (\<lambda>_. 50) demo_sync_db = Inr demo_received_db"
proof -
  have "client_enabled demo_sync_db ''rp''" by code_simp
  moreover have "the (et_iat demo_time) = 6" by (simp add: demo_time_def)
  ultimately show ?thesis using demo_process by (simp add: process_incoming_events_def demo_time_ok)
qed

lemma demo_sync_state: "tget (app_role_sync_state demo_sync_db) ''rp'' = Some (demo_rev_state 4)"
  by code_simp

theorem catalog_revisions_never_go_back_witness:
  "\<exists>st' n'. tget (app_role_sync_state demo_received_db) ''rp'' = Some st' \<and> ss_mode st' = Revisioned \<and> ss_epoch st' = ss_epoch (demo_rev_state 4)
    \<and> ss_revision st' = Some n' \<and> 4 \<le> n' \<and> (n' = 4 \<longrightarrow> ss_digest st' = ss_digest (demo_rev_state 4))"
  by (rule catalog_revisions_never_go_back [OF demo_receive demo_sync_state]) (simp_all add: demo_rev_state_def)



text \<open>The inbox keeps the ledger current: whatever batch of raw JSON passes validation and
  processing, every live account's ledger row still is its resolved role for every client.\<close>

theorem inbox_keeps_ledger:
  assumes "validate_incoming_events sha raw = Inr es" and "process_incoming_events sha uuid now cid t es clock d = Inr d'"
    and "ledger_ok d"
  shows "ledger_ok d'"
proof -
  have "distinct (map cr_id (rc_roles c))" if "e \<in> set es" "ie_catalog e = Some c" for e c
    using validated_catalogs [OF assms(1) that] by (simp add: catalog_wf_def)
  then show ?thesis using process_events_ledger [OF process_incomingE(1) [OF assms(2)] assms(3)] by blast
qed

lemma demo_validate: "validate_incoming_events demo_sha (Some (JArr [JObj [(''id'', JStr ''cccccccc-0000-4000-8000-000000000001''),
    (''type'', JStr ''roles.sync''), (''payload'', demo_payload ''5'')]])) = Inr [demo_in_event]"
  by code_simp

end
