(* ===== verification/Store.thy ===== *)
theory Store
  imports Prelude
begin

text \<open>
  The Redis commands the code uses, on one family of keys at a time: a key holds a value and
  an optional deadline.  Times are milliseconds; \<open>EX n\<close> sets the deadline \<open>n\<close> seconds ahead.
  \<open>SET \<dots> KEEPTTL\<close> keeps the deadline of a live key and gives a key that is not there none.
  Two interfaces rest on the commands: \<open>expiring_store\<close> (what a read returns after each
  command, at every later time) and \<open>one_time_store\<close> (\<open>GETDEL\<close>: a value is handed out once).
\<close>

type_synonym 'v redis = "(string, 'v \<times> int option) table"

definition live_entry :: "int \<Rightarrow> 'v \<times> int option \<Rightarrow> bool" where
  "live_entry now e = (case snd e of None \<Rightarrow> True | Some d \<Rightarrow> now < d)"

definition rget :: "int \<Rightarrow> 'v redis \<Rightarrow> string \<Rightarrow> 'v option" where
  "rget now s k = (case tget s k of
      None \<Rightarrow> None
    | Some e \<Rightarrow> if live_entry now e then Some (fst e) else None)"

definition rset_ex :: "int \<Rightarrow> string \<Rightarrow> 'v \<Rightarrow> int \<Rightarrow> 'v redis \<Rightarrow> 'v redis" where
  "rset_ex now k v secs s = tput k (v, Some (now + secs * 1000)) s"

definition rset_keepttl :: "int \<Rightarrow> string \<Rightarrow> 'v \<Rightarrow> 'v redis \<Rightarrow> 'v redis" where
  "rset_keepttl now k v s = (case tget s k of
      Some e \<Rightarrow> if live_entry now e then tput k (v, snd e) s else tput k (v, None) s
    | None \<Rightarrow> tput k (v, None) s)"

definition rdel :: "string \<Rightarrow> 'v redis \<Rightarrow> 'v redis" where
  "rdel k s = tdel k s"

definition rgetdel :: "int \<Rightarrow> string \<Rightarrow> 'v redis \<Rightarrow> 'v option \<times> 'v redis" where
  "rgetdel now k s = (rget now s k, rdel k s)"

definition rexists :: "int \<Rightarrow> 'v redis \<Rightarrow> string \<Rightarrow> bool" where
  "rexists now s k = (rget now s k \<noteq> None)"

text \<open>\<open>SET k v EX n NX\<close>: whether the key was set.\<close>

definition rset_nx :: "int \<Rightarrow> string \<Rightarrow> 'v \<Rightarrow> int \<Rightarrow> 'v redis \<Rightarrow> bool \<times> 'v redis" where
  "rset_nx now k v secs s = (if rexists now s k then (False, s) else (True, rset_ex now k v secs s))"

locale expiring_store =
  fixes get :: "int \<Rightarrow> 's \<Rightarrow> string \<Rightarrow> 'v option"
    and set_ex :: "int \<Rightarrow> string \<Rightarrow> 'v \<Rightarrow> int \<Rightarrow> 's \<Rightarrow> 's"
    and del :: "string \<Rightarrow> 's \<Rightarrow> 's"
  assumes get_set_ex: "get t (set_ex now k v secs s) j =
      (if j = k then (if t < now + secs * 1000 then Some v else None) else get t s j)"
    and get_del: "get t (del k s) j = (if j = k then None else get t s j)"
    and expired_stays: "get t s k = None \<Longrightarrow> t \<le> t' \<Longrightarrow> get t' s k = None"
begin

lemma live_until: "t < now + secs * 1000 \<Longrightarrow> get t (set_ex now k v secs s) k = Some v"
  by (simp add: get_set_ex)

lemma dead_after: "now + secs * 1000 \<le> t \<Longrightarrow> get t (set_ex now k v secs s) k = None"
  by (simp add: get_set_ex)

lemma del_forgets: "get t (del k (set_ex now k v secs s)) k = None"
  by (simp add: get_del)

lemma live_earlier: "get t' s k = Some v \<Longrightarrow> t \<le> t' \<Longrightarrow> get t s k \<noteq> None"
  using expired_stays by fastforce

end

locale one_time_store = expiring_store +
  fixes take :: "int \<Rightarrow> string \<Rightarrow> 's \<Rightarrow> 'v option \<times> 's"
  assumes take_def: "take t k s = (get t s k, del k s)"
begin

text \<open>A value leaves the store at most once, whenever the second attempt is made.\<close>

lemma take_once: "fst (take t' k (snd (take t k s))) = None"
  by (simp add: take_def get_del)

lemma take_other: "j \<noteq> k \<Longrightarrow> get t' (snd (take t k s)) j = get t' s j"
  by (simp add: take_def get_del)

lemma take_fresh: "t < now + secs * 1000 \<Longrightarrow> fst (take t k (set_ex now k v secs s)) = Some v"
  by (simp add: take_def get_set_ex)

lemma take_late: "now + secs * 1000 \<le> t \<Longrightarrow> fst (take t k (set_ex now k v secs s)) = None"
  by (simp add: take_def get_set_ex)

end

lemma rget_set_ex: "rget t (rset_ex now k v secs s) j =
    (if j = k then (if t < now + secs * 1000 then Some v else None) else rget t s j)"
  by (simp add: rget_def rset_ex_def tbl_simps live_entry_def)

lemma rget_del: "rget t (rdel k s) j = (if j = k then None else rget t s j)"
  by (simp add: rget_def rdel_def tbl_simps)

lemma rget_mono: "rget t s k = None \<Longrightarrow> t \<le> t' \<Longrightarrow> rget t' s k = None"
  by (auto simp: rget_def live_entry_def split: option.splits if_splits)

interpretation rd: one_time_store rget rset_ex rdel rgetdel
  by unfold_locales (auto simp: rget_set_ex rget_del rgetdel_def dest: rget_mono)

lemmas redis_simps = rget_set_ex rget_del

lemma rget_keepttl_live:
  "tget s k = Some e \<Longrightarrow> live_entry now e \<Longrightarrow>
     rget t (rset_keepttl now k v s) k = (if live_entry t e then Some v else None)"
  by (simp add: rset_keepttl_def rget_def tbl_simps live_entry_def)

lemma rget_keepttl_other: "j \<noteq> k \<Longrightarrow> rget t (rset_keepttl now k v s) j = rget t s j"
  by (auto simp: rset_keepttl_def rget_def tbl_simps split: option.splits)

text \<open>\<open>KEEPTTL\<close> on a key that is gone makes a key that never expires.\<close>

lemma rget_keepttl_gone: "rget now s k = None \<Longrightarrow> rget t (rset_keepttl now k v s) k = Some v"
  by (auto simp: rset_keepttl_def rget_def tbl_simps live_entry_def split: option.splits if_splits)

end
