(* ===== verification/Accounts.thy ===== *)
theory Accounts
  imports RoleAdmin Store
begin

text \<open>
  The state of the identity provider around the role model: browser sessions, second factors,
  emailed codes, and the Redis families of login transactions and authorization codes.  Code
  that is not in the repository (random bytes, SHA-256, argon2, AES-GCM, otplib,
  \<open>@simplewebauthn/server\<close>, \<open>jose\<close>, the URL parser) is the record \<open>externals\<close> that every
  operation using it takes.  Times are milliseconds; a timestamp read back with
  \<open>EXTRACT(EPOCH \<dots>)::bigint\<close> is rounded to seconds.
\<close>

section \<open>Rows\<close>

record session =
  se_user :: string
  se_token_hash :: string
  se_amr :: "string list"
  se_acr :: "string option"
  se_auth_time :: int
  se_ip :: "string option"
  se_user_agent :: "string option"
  se_country :: "string option"
  se_city :: "string option"
  se_region :: "string option"
  se_clients :: "string list"
  se_stepup_at :: "int option"
  se_stepup_method :: "string option"
  se_persistent :: bool
  se_created_at :: int
  se_last_seen :: int
  se_expires_at :: int

record passkey =
  pk_user :: string
  pk_credential_id :: string
  pk_public_key :: string
  pk_sign_count :: int
  pk_label :: "string option"
  pk_created_at :: int
  pk_last_used :: "int option"

record totp_credential =
  tc_user :: string
  tc_secret_enc :: string
  tc_label :: "string option"
  tc_confirmed_at :: "int option"
  tc_created_at :: int
  tc_last_used :: "int option"

record email_otp =
  eo_code_enc :: string
  eo_generated_at :: int
  eo_sent_at :: int
  eo_attempts :: int

record otp_limit =
  ol_first_sent :: int
  ol_last_sent :: int
  ol_total :: int

section \<open>What Redis holds\<close>

record auth_code =
  co_client :: string
  co_redirect_uri :: string
  co_user :: string
  co_sid :: string
  co_challenge :: string
  co_challenge_method :: string
  co_nonce :: "string option"
  co_scope :: string
  co_amr :: "string list"
  co_acr :: "string option"
  co_auth_time :: int

text \<open>\<open>LoginTxn\<close>: the request in flight, with the challenge phase and the "stay signed in" phase.\<close>

record txn_mfa =
  tm_sub :: string
  tm_user_label :: string
  tm_kmsi_label :: "string option"
  tm_methods :: "string list"
  tm_attempts :: nat
  tm_masked_email :: "string option"
  tm_email_sent :: bool
  tm_passkey_challenge :: "string option"
  tm_stepup_sid :: "string option"
  tm_stepup_return :: "string option"

record txn_kmsi =
  tk_sid :: string
  tk_sub :: string
  tk_user_label :: string
  tk_amr :: "string list"
  tk_acr :: string
  tk_auth_time :: int

record login_txn =
  tx_client :: string
  tx_redirect_uri :: string
  tx_state :: "string option"
  tx_nonce :: "string option"
  tx_challenge :: string
  tx_challenge_method :: string
  tx_scope :: string
  tx_acr_values :: "string option"
  tx_client_name :: "string option"
  tx_local_next :: "string option"
  tx_passkey :: "string option"
  tx_mfa :: "txn_mfa option"
  tx_kmsi :: "txn_kmsi option"
  tx_csrf :: string

section \<open>Self-service flows\<close>

text \<open>\<open>invitation_codes\<close>, the in-flight registrations, the send limiters' hashes, reset links, the one-time
  login tickets and pending e-mail changes.\<close>

record invite =
  iv_role :: "string option"
  iv_expires_at :: int
  iv_use_count :: nat
  iv_pending_email :: "string option"
  iv_pending_at :: "int option"
  iv_used_by :: "string option"
  iv_used_at :: "int option"
  iv_voided_at :: "int option"
  iv_clear_at :: "int option"

record pending_registration =
  pr_token :: string
  pr_code :: "string option"
  pr_created_at :: int
  pr_last_sent :: int

record send_slot =
  sl_first :: "int option"
  sl_count :: int
  sl_last :: "int option"

record reset_token =
  rt_sub :: string
  rt_attempts :: nat

record login_ticket =
  lt_sub :: string
  lt_amr :: "string list"
  lt_acr :: string
  lt_label :: string

datatype change_kind = ChangeAddress | ConfirmAddress

record email_change =
  ec_sub :: string
  ec_kind :: change_kind
  ec_email :: string
  ec_token :: string
  ec_created_at :: int
  ec_last_sent :: int

section \<open>The state\<close>

text \<open>\<open>core\<close> is the database of the role model and the outbox; \<open>last_touched\<close> is the in-process map of
  \<open>touchSession\<close>; \<open>mails\<close> lists the messages handed to the mailer; \<open>draws\<close> counts random draws.\<close>

record sso =
  core :: db
  sessions :: "(string, session) table"
  passkeys :: "(string, passkey) table"
  totp_credentials :: "(string, totp_credential) table"
  email_otps :: "(string \<times> string, email_otp) table"
  email_otp_limits :: "(string, otp_limit) table"
  txns :: "login_txn redis"
  codes :: "auth_code redis"
  totp_steps :: "int redis"
  passkey_registrations :: "string redis"
  invites :: "(string, invite) table"
  reg_pending :: "pending_registration redis"
  send_limits :: "send_slot redis"
  reset_tokens :: "reset_token redis"
  reset_users :: "string redis"
  reset_limits :: "send_slot redis"
  reset_passkeys :: "string redis"
  login_tickets :: "login_ticket redis"
  email_changes :: "email_change redis"
  email_change_users :: "string redis"
  email_change_addrs :: "string redis"
  stepup_passkeys :: "string redis"
  stepup_fails :: "int redis"
  admin_csrf :: "string redis"
  last_touched :: "(string, int) table"
  mails :: "(string \<times> string) list"
  draws :: nat

definition empty_sso :: "db \<Rightarrow> sso" where
  "empty_sso d = \<lparr>core = d, sessions = [], passkeys = [], totp_credentials = [], email_otps = [],
     email_otp_limits = [], txns = [], codes = [], totp_steps = [], passkey_registrations = [],
     invites = [], reg_pending = [], send_limits = [], reset_tokens = [], reset_users = [], reset_limits = [],
     reset_passkeys = [], login_tickets = [], email_changes = [], email_change_users = [], email_change_addrs = [],
     stepup_passkeys = [], stepup_fails = [], admin_csrf = [], last_touched = [], mails = [], draws = 0\<rparr>"

record externals =
  x_rnd :: "nat \<Rightarrow> string"
  x_int :: "nat \<Rightarrow> nat"
  x_uuid :: "nat \<Rightarrow> string"
  x_sha256 :: "string \<Rightarrow> string"
  x_argon2 :: "string \<Rightarrow> string \<Rightarrow> bool"
  x_argon2_hash :: "nat \<Rightarrow> string \<Rightarrow> string"
  x_seal :: "string \<Rightarrow> string"
  x_open :: "string \<Rightarrow> string option"
  x_totp :: "string \<Rightarrow> string \<Rightarrow> int \<Rightarrow> int option"
  x_credential_id :: "json \<Rightarrow> string"
  x_assertion :: "json \<Rightarrow> string \<Rightarrow> passkey \<Rightarrow> int option option"
  x_attestation :: "json \<Rightarrow> string \<Rightarrow> (string \<times> string \<times> int) option option"
  x_parse_json :: "string \<Rightarrow> json option"
  x_url_host :: "string \<Rightarrow> string option"
  x_mail_ok :: "string \<Rightarrow> string \<Rightarrow> bool"
  x_access :: "string \<Rightarrow> (string \<times> json option) option"
  x_issuer_of :: "string \<Rightarrow> string option"
  x_has_keys :: "string \<Rightarrow> bool"
  x_client_jwt :: "string \<Rightarrow> string \<Rightarrow> bool"

text \<open>
  \<open>x_access t\<close> is the subject and the \<open>scope\<close> claim of an access token the issuer's keys verify;
  \<open>x_issuer_of\<close> decodes the \<open>iss\<close> of a client assertion, \<open>x_has_keys\<close> says whether a client has keys
  registered, and \<open>x_client_jwt c a\<close> whether assertion \<open>a\<close> verifies under the keys of client \<open>c\<close>.
  \<open>x_assertion\<close> is \<open>verifyAuthenticationResponse\<close>: \<open>None\<close> if it throws, else the new signature counter if
  the response verifies; \<open>x_attestation\<close> is \<open>verifyRegistrationResponse\<close> in the same way, with the
  credential's identifier, public key and counter.
  \<open>x_argon2_hash n p\<close> is the hash of password \<open>p\<close> salted by random draw \<open>n\<close>; \<open>x_mail_ok to text\<close> says
  whether the mail service accepts a message.
  \<open>x_totp secret token now\<close> is \<open>verifySync\<close>: the time step the token matched, if it is valid.
\<close>

text \<open>A fresh random string.\<close>

definition draw :: "externals \<Rightarrow> sso \<Rightarrow> string \<times> sso" where
  "draw x s = (x_rnd x (draws s), s\<lparr>draws := Suc (draws s)\<rparr>)"

section \<open>Reading\<close>

text \<open>\<open>getSetting\<close>: an absent or empty value is the fallback.\<close>

definition get_setting :: "db \<Rightarrow> string \<Rightarrow> string option" where
  "get_setting d key = (case tget (settings d) key of Some v \<Rightarrow> if v = [] then None else Some v | None \<Rightarrow> None)"

definition setting_or :: "db \<Rightarrow> string \<Rightarrow> string \<Rightarrow> string" where
  "setting_or d key fallback = (case get_setting d key of Some v \<Rightarrow> v | None \<Rightarrow> fallback)"

definition has_setting :: "db \<Rightarrow> string \<Rightarrow> bool" where
  "has_setting d key = (tget (settings d) key \<noteq> None)"

text \<open>\<open>getSecretSetting\<close>: a value without the prefix of sealed values is no secret; what follows the
  prefix is the sealed bytes in base64.\<close>

definition ENC_PREFIX :: string where "ENC_PREFIX = ''enc:v1:''"

definition get_secret_setting :: "externals \<Rightarrow> db \<Rightarrow> string \<Rightarrow> string option" where
  "get_secret_setting x d key = (case get_setting d key of
      None \<Rightarrow> None
    | Some v \<Rightarrow> if take (length ENC_PREFIX) v \<noteq> ENC_PREFIX then None else x_open x (drop (length ENC_PREFIX) v))"

text \<open>\<open>writeRaw\<close>: no value or an empty one deletes the row.\<close>

definition write_setting :: "string \<Rightarrow> string option \<Rightarrow> db \<Rightarrow> db" where
  "write_setting key v d = d\<lparr>settings := (case v of
      None \<Rightarrow> tdel key (settings d)
    | Some t \<Rightarrow> if t = [] then tdel key (settings d) else tput key t (settings d))\<rparr>"

definition set_secret_setting :: "externals \<Rightarrow> string \<Rightarrow> string option \<Rightarrow> db \<Rightarrow> db" where
  "set_secret_setting x key v d = write_setting key (case v of
      None \<Rightarrow> None | Some t \<Rightarrow> if t = [] then None else Some (ENC_PREFIX @ x_seal x t)) d"

definition identity_active :: "db \<Rightarrow> string \<Rightarrow> bool" where
  "identity_active d sub = (case tget (identities d) sub of
      Some i \<Rightarrow> i_status i = Active \<and> i_deleted_at i = None | None \<Rightarrow> False)"

text \<open>\<open>EXTRACT(EPOCH FROM t)::bigint\<close> and \<open>Math.floor(Date.now() / 1000)\<close>.\<close>

definition epoch_sec :: "int \<Rightarrow> int" where
  "epoch_sec ms = (ms + 500) div 1000"

definition now_sec :: "int \<Rightarrow> int" where
  "now_sec ms = ms div 1000"

text \<open>\<open>qstr\<close>: a body or query value that is no string is the empty string.\<close>

definition qstr :: "json option \<Rightarrow> string" where
  "qstr v = (case v of Some (JStr s) \<Rightarrow> s | _ \<Rightarrow> [])"

text \<open>A JavaScript value in a condition.\<close>

definition truthy :: "json option \<Rightarrow> bool" where
  "truthy v = (case v of None \<Rightarrow> False | Some JNull \<Rightarrow> False | Some (JBool b) \<Rightarrow> b | Some (JInt i) \<Rightarrow> i \<noteq> 0
     | Some (JStr s) \<Rightarrow> s \<noteq> [] | Some _ \<Rightarrow> True)"

text \<open>\<open>a || b\<close> on strings.\<close>

definition or_string :: "string \<Rightarrow> string \<Rightarrow> string" where
  "or_string a b = (if a \<noteq> [] then a else b)"

text \<open>\<open>maskEmail\<close> (\<open>src/emailOtp.ts\<close>); the bullets are written as asterisks.\<close>

definition mask_email :: "string \<Rightarrow> string" where
  "mask_email email = (case split_on (CHR ''@'') email of
      local # domain # _ \<Rightarrow> if domain = [] then ''*****''
        else take (min 2 (max 1 (length local - 1))) local @ ''*****@'' @ domain
    | _ \<Rightarrow> ''*****'')"

end
