(* ===== verification/Sessions.thy ===== *)
theory Sessions
  imports Accounts
begin

text \<open>
  \<open>src/oidc/sessions.ts\<close>, \<open>stepupRules.ts\<close>, \<open>stepupPolicy.ts\<close>, \<open>src/oidc/backchannel.ts\<close> and the
  routes that read and end sessions (\<open>sessionActivity.ts\<close>, \<open>devices.ts\<close>, \<open>logout.ts\<close>,
  \<open>portalToken.ts\<close>).  A session is live inside an idle window against \<open>last_seen\<close> and an absolute
  window against \<open>created_at\<close>, both read from the settings at every check.
\<close>

section \<open>Windows\<close>

definition clamp_hours :: "string option \<Rightarrow> int \<Rightarrow> int \<Rightarrow> int" where
  "clamp_hours v fallback maxRange = (case parse_int (case v of Some s \<Rightarrow> s | None \<Rightarrow> []) of
      Some n \<Rightarrow> if 1 \<le> n \<and> n \<le> maxRange then n else fallback
    | None \<Rightarrow> fallback)"

record session_windows =
  w_idle :: int
  w_max :: int
  w_transient :: int

definition get_session_windows :: "db \<Rightarrow> session_windows" where
  "get_session_windows d =
    (let maxHours = clamp_hours (get_setting d ''session_max_hours'') 168 8760
     in \<lparr>w_idle = min (clamp_hours (get_setting d ''session_idle_hours'') 72 2160) maxHours,
         w_max = maxHours,
         w_transient = min (clamp_hours (get_setting d ''session_transient_max_hours'') 24 8760) maxHours\<rparr>)"

definition hours_ago :: "int \<Rightarrow> int \<Rightarrow> int" where
  "hours_ago now hours = now - hours * 60 * 60 * 1000"

text \<open>The \<open>WHERE\<close> clause of \<open>loadSession\<close>, \<open>loadSessionBySid\<close> and the activity report.\<close>

definition in_windows :: "session_windows \<Rightarrow> int \<Rightarrow> session \<Rightarrow> bool" where
  "in_windows w now r = (se_last_seen r > hours_ago now (w_idle w)
     \<and> se_created_at r > (if se_persistent r then hours_ago now (w_max w) else hours_ago now (w_transient w)))"

definition session_live :: "db \<Rightarrow> int \<Rightarrow> session \<Rightarrow> bool" where
  "session_live d now r = (in_windows (get_session_windows d) now r \<and> identity_active d (se_user r))"

section \<open>Step-up\<close>

definition is_strong_amr :: "string list \<Rightarrow> bool" where
  "is_strong_amr amr = (''otp'' \<in> set amr \<or> ''passkey'' \<in> set amr)"

definition method_from_amr :: "string list \<Rightarrow> string" where
  "method_from_amr amr =
    (if ''passkey'' \<in> set amr then ''passkey''
     else if ''otp'' \<in> set amr then ''totp''
     else if ''email'' \<in> set amr then ''email'' else ''password'')"

definition stepup_validity_minutes :: "string option \<Rightarrow> int" where
  "stepup_validity_minutes v = (case parse_int (case v of Some s \<Rightarrow> s | None \<Rightarrow> []) of
      Some n \<Rightarrow> if 1 \<le> n \<and> n \<le> 1440 then n else 30
    | None \<Rightarrow> 30)"

text \<open>The stamp in milliseconds; a stamp of zero is falsy.\<close>

definition stepup_stamp_fresh :: "int option \<Rightarrow> int \<Rightarrow> int \<Rightarrow> bool" where
  "stepup_stamp_fresh stamp minutes now = (case stamp of None \<Rightarrow> False
     | Some t \<Rightarrow> t \<noteq> 0 \<and> now - t < minutes * 60 * 1000)"

definition accepted_strong_stepup :: "nat \<Rightarrow> nat \<Rightarrow> string list" where
  "accepted_strong_stepup npasskeys ntotp =
    (if npasskeys > 0 then [''passkey''] else if ntotp > 0 then [''totp''] else [])"

definition stepup_satisfies :: "string list \<Rightarrow> string option \<Rightarrow> bool \<Rightarrow> bool" where
  "stepup_satisfies accepted m fresh = (fresh \<and> (case m of None \<Rightarrow> False | Some m \<Rightarrow> m \<in> set accepted))"

definition stamp_stepup :: "int \<Rightarrow> string \<Rightarrow> string \<Rightarrow> sso \<Rightarrow> sso" where
  "stamp_stepup now sid m s = s\<lparr>sessions := tmap (\<lambda>k r. if k = sid
     then r\<lparr>se_stepup_at := Some now, se_stepup_method := Some m\<rparr> else r) (sessions s)\<rparr>"

definition is_stepup_fresh :: "db \<Rightarrow> int \<Rightarrow> int option \<Rightarrow> bool" where
  "is_stepup_fresh d now stepupAt = stepup_stamp_fresh (map_option (\<lambda>t. t * 1000) stepupAt)
     (stepup_validity_minutes (get_setting d ''stepup_validity_minutes'')) now"

definition count_passkeys :: "sso \<Rightarrow> string \<Rightarrow> nat" where
  "count_passkeys s sub = length (filter (\<lambda>(_, p). pk_user p = sub) (passkeys s))"

definition count_authenticators :: "sso \<Rightarrow> string \<Rightarrow> nat" where
  "count_authenticators s sub = length (filter (\<lambda>(_, c). tc_user c = sub \<and> tc_confirmed_at c \<noteq> None) (totp_credentials s))"

datatype stepup_mode = StrongMandatory | Fallback | EmailChange

record accepted_stepup =
  as_accepted :: "string list"
  as_enroll_required :: bool
  as_masked_email :: "string option"

definition accepted_stepup_methods :: "sso \<Rightarrow> string \<Rightarrow> stepup_mode \<Rightarrow> accepted_stepup" where
  "accepted_stepup_methods s sub mode =
    (let np = count_passkeys s sub; nt = count_authenticators s sub in
     if mode = StrongMandatory
     then let acc = accepted_strong_stepup np nt
          in \<lparr>as_accepted = acc, as_enroll_required = (acc = []), as_masked_email = None\<rparr>
     else
       let strong = (if np > 0 then [''passkey''] else []) @ (if nt > 0 then [''totp''] else []) in
       if strong \<noteq> [] then \<lparr>as_accepted = strong, as_enroll_required = False, as_masked_email = None\<rparr>
       else
         (case tget (identities (core s)) sub of
            Some i \<Rightarrow>
              (case i_email i of
                 Some e \<Rightarrow>
                   if i_deleted_at i = None \<and> e \<noteq> [] \<and> i_email_verified i \<and> (mode = EmailChange \<or> i_mfa_enabled i)
                   then \<lparr>as_accepted = [''email''], as_enroll_required = False, as_masked_email = Some (mask_email e)\<rparr>
                   else \<lparr>as_accepted = [''password''], as_enroll_required = False, as_masked_email = None\<rparr>
               | None \<Rightarrow> \<lparr>as_accepted = [''password''], as_enroll_required = False, as_masked_email = None\<rparr>)
          | None \<Rightarrow> \<lparr>as_accepted = [''password''], as_enroll_required = False, as_masked_email = None\<rparr>))"

section \<open>Creating and persisting\<close>

record new_session =
  ns_user :: string
  ns_amr :: "string list"
  ns_acr :: "string option"
  ns_ip :: "string option"
  ns_user_agent :: "string option"
  ns_country :: "string option"
  ns_city :: "string option"
  ns_region :: "string option"

text \<open>The cookie a response sets: the token, and an expiry or none for a browser-session cookie.\<close>

record cookie =
  ck_token :: string
  ck_expires :: "int option"

definition create_session :: "externals \<Rightarrow> int \<Rightarrow> new_session \<Rightarrow> sso \<Rightarrow> string \<times> cookie \<times> sso" where
  "create_session x now n s =
    (let (token, s) = draw x s;
         (sid, s) = draw x s;
         w = get_session_windows (core s)
     in (sid, \<lparr>ck_token = token, ck_expires = None\<rparr>,
         s\<lparr>sessions := tput sid
            \<lparr>se_user = ns_user n, se_token_hash = x_sha256 x token, se_amr = ns_amr n, se_acr = ns_acr n,
             se_auth_time = now, se_ip = ns_ip n, se_user_agent = ns_user_agent n, se_country = ns_country n,
             se_city = ns_city n, se_region = ns_region n, se_clients = [], se_stepup_at = Some now,
             se_stepup_method = Some (method_from_amr (ns_amr n)), se_persistent = False, se_created_at = now,
             se_last_seen = now, se_expires_at = now + w_transient w * 60 * 60 * 1000\<rparr> (sessions s)\<rparr>))"

definition persist_session :: "externals \<Rightarrow> int \<Rightarrow> string option \<Rightarrow> string \<Rightarrow> sso \<Rightarrow> cookie option \<times> sso" where
  "persist_session x now token sid s =
    (case token of
       None \<Rightarrow> (None, s)
     | Some t \<Rightarrow>
         if t = [] then (None, s)
         else
           let expires = now + w_max (get_session_windows (core s)) * 60 * 60 * 1000 in
           (case tget (sessions s) sid of
              None \<Rightarrow> (None, s)
            | Some r \<Rightarrow> if se_token_hash r = x_sha256 x t
                then (Some \<lparr>ck_token = t, ck_expires = Some expires\<rparr>,
                      s\<lparr>sessions := tput sid (r\<lparr>se_persistent := True, se_expires_at := expires\<rparr>) (sessions s)\<rparr>)
                else (None, s)))"

section \<open>Loading\<close>

record active_session =
  a_sid :: string
  a_user :: string
  a_amr :: "string list"
  a_acr :: "string option"
  a_auth_time :: int
  a_stepup_at :: "int option"
  a_stepup_method :: "string option"
  a_persistent :: bool
  a_created_at :: int

definition active_of :: "string \<Rightarrow> session \<Rightarrow> active_session" where
  "active_of sid r = \<lparr>a_sid = sid, a_user = se_user r, a_amr = se_amr r, a_acr = se_acr r,
     a_auth_time = epoch_sec (se_auth_time r), a_stepup_at = map_option epoch_sec (se_stepup_at r),
     a_stepup_method = se_stepup_method r, a_persistent = se_persistent r, a_created_at = epoch_sec (se_created_at r)\<rparr>"

definition touch_session :: "int \<Rightarrow> string \<Rightarrow> sso \<Rightarrow> sso" where
  "touch_session now sid s =
    (if (case tget (last_touched s) sid of None \<Rightarrow> False | Some prev \<Rightarrow> prev \<noteq> 0 \<and> now - prev < 60000) then s
     else
       let m = tput sid now (last_touched s) in
       s\<lparr>last_touched := (if length m > 10000 then [] else m),
         sessions := tmap (\<lambda>k r. if k = sid then r\<lparr>se_last_seen := now\<rparr> else r) (sessions s)\<rparr>)"

definition load_session :: "externals \<Rightarrow> int \<Rightarrow> string option \<Rightarrow> sso \<Rightarrow> active_session option \<times> sso" where
  "load_session x now token s =
    (case token of
       None \<Rightarrow> (None, s)
     | Some t \<Rightarrow>
         if t = [] then (None, s)
         else (case find (\<lambda>(_, r). se_token_hash r = x_sha256 x t \<and> session_live (core s) now r) (sessions s) of
             None \<Rightarrow> (None, s)
           | Some (sid, r) \<Rightarrow> (Some (active_of sid r), touch_session now sid s)))"

definition load_session_by_sid :: "int \<Rightarrow> string \<Rightarrow> sso \<Rightarrow> active_session option \<times> sso" where
  "load_session_by_sid now sid s =
    (case tget (sessions s) sid of
       None \<Rightarrow> (None, s)
     | Some r \<Rightarrow> if session_live (core s) now r then (Some (active_of sid r), touch_session now sid s) else (None, s))"

section \<open>Ending sessions\<close>

definition logout_event :: "string \<Rightarrow> string \<Rightarrow> out_event" where
  "logout_event sub sid = \<lparr>oe_type = ''logout'', oe_payload = JObj [(''sub'', JStr sub), (''sid'', JStr sid)],
     oe_version = None, oe_id = None\<rparr>"

text \<open>\<open>enqueueEvents\<close>: one transaction; a failure rolls back and is swallowed by \<open>allSettled\<close>.\<close>

definition enqueue_events :: "externals \<Rightarrow> int \<Rightarrow> string \<Rightarrow> out_event list \<Rightarrow> sso \<Rightarrow> sso" where
  "enqueue_events x now cid events s =
    (case insert_events (x_uuid x) now cid events (core s) of Inl _ \<Rightarrow> s | Inr (_, d) \<Rightarrow> s\<lparr>core := d\<rparr>)"

definition fan_out_logout :: "externals \<Rightarrow> int \<Rightarrow> string \<Rightarrow> string \<Rightarrow> string list \<Rightarrow> sso \<Rightarrow> sso" where
  "fan_out_logout x now sub sid clients s = fold (\<lambda>c. enqueue_events x now c [logout_event sub sid]) clients s"

text \<open>\<open>DELETE \<dots> RETURNING\<close> and the fan-out of every deleted row.\<close>

definition end_sessions :: "externals \<Rightarrow> int \<Rightarrow> (string \<Rightarrow> session \<Rightarrow> bool) \<Rightarrow> sso \<Rightarrow> sso" where
  "end_sessions x now P s =
    fold (\<lambda>(sid, r). fan_out_logout x now (se_user r) sid (se_clients r)) (filter (\<lambda>(sid, r). P sid r) (sessions s))
      (s\<lparr>sessions := tfilter (\<lambda>sid r. \<not> P sid r) (sessions s)\<rparr>)"

definition expired_session :: "db \<Rightarrow> int \<Rightarrow> session \<Rightarrow> bool" where
  "expired_session d now r =
    (let w = get_session_windows d in
     se_last_seen r < hours_ago now (w_idle w)
     \<or> se_created_at r < (if se_persistent r then hours_ago now (w_max w) else hours_ago now (w_transient w)))"

definition clean_expired_sessions :: "externals \<Rightarrow> int \<Rightarrow> sso \<Rightarrow> sso" where
  "clean_expired_sessions x now s = end_sessions x now (\<lambda>_. expired_session (core s) now) s"

definition logout :: "externals \<Rightarrow> int \<Rightarrow> string option \<Rightarrow> sso \<Rightarrow> sso" where
  "logout x now token s =
    (let (session, s) = load_session x now token s in
     case session of None \<Rightarrow> s
     | Some a \<Rightarrow>
         let clients = (case tget (sessions s) (a_sid a) of Some r \<Rightarrow> se_clients r | None \<Rightarrow> [])
         in fan_out_logout x now (a_user a) (a_sid a) clients (s\<lparr>sessions := tdel (a_sid a) (sessions s)\<rparr>))"

text \<open>The Devices pane: \<open>DELETE /account/sessions/:sid\<close> and \<open>terminate-others\<close>, after their guards.\<close>

definition terminate_session :: "externals \<Rightarrow> int \<Rightarrow> string \<Rightarrow> string \<Rightarrow> sso \<Rightarrow> nat \<times> sso" where
  "terminate_session x now sub sid s =
    (if \<not> is_uuid sid then (404, s)
     else (case tget (sessions s) (lower sid) of
         Some r \<Rightarrow> if se_user r = sub
           then (204, fan_out_logout x now sub sid (se_clients r) (s\<lparr>sessions := tdel (lower sid) (sessions s)\<rparr>))
           else (404, s)
       | None \<Rightarrow> (404, s)))"

definition terminate_others :: "externals \<Rightarrow> int \<Rightarrow> string \<Rightarrow> string \<Rightarrow> sso \<Rightarrow> nat \<times> sso" where
  "terminate_others x now sub keep s =
    (if \<not> is_uuid keep then (400, s)
     else (204, end_sessions x now (\<lambda>sid r. se_user r = sub \<and> sid \<noteq> lower keep) s))"

text \<open>\<open>GET /account/sessions\<close>: the rows it lists, newest activity first, with the applications behind each.\<close>

definition list_sessions :: "string \<Rightarrow> int \<Rightarrow> string \<Rightarrow> sso \<Rightarrow> (string \<times> (string \<times> string) list) list" where
  "list_sessions portal now sub s =
    map (\<lambda>(sid, r). (sid, map (\<lambda>c. (c, case tget (oauth_clients (core s)) c of Some cl \<Rightarrow> cl_name cl | None \<Rightarrow> c))
        (filter (\<lambda>c. c \<noteq> portal) (se_clients r))))
      (sort_key (\<lambda>(_, r). - se_last_seen r)
        (filter (\<lambda>(_, r). se_user r = sub \<and> in_windows (get_session_windows (core s)) now r) (sessions s)))"

section \<open>Reports and renewal\<close>

datatype activity_answer = InvalidSid | Advanced | Gone

text \<open>\<open>POST /internal/session-activity\<close> after the client's assertion: \<open>reported\<close> is \<open>Number(body.last_seen)\<close>.\<close>

definition session_activity :: "int \<Rightarrow> string \<Rightarrow> string \<Rightarrow> int option \<Rightarrow> sso \<Rightarrow> activity_answer \<times> sso" where
  "session_activity now cid sid reported s =
    (if \<not> is_uuid sid then (InvalidSid, s)
     else
       let seen = (case reported of Some t \<Rightarrow> if 0 < t then t else now_sec now * 1000 | None \<Rightarrow> now_sec now * 1000) in
       (case tget (sessions s) (lower sid) of
          Some r \<Rightarrow> if cid \<in> set (se_clients r) \<and> session_live (core s) now r
            then (Advanced, s\<lparr>sessions := tput (lower sid) (r\<lparr>se_last_seen := max (se_last_seen r) (min seen now)\<rparr>) (sessions s)\<rparr>)
            else (Gone, s)
        | None \<Rightarrow> (Gone, s)))"

datatype renewal = BadRenewal | SessionGone | Renewed string

text \<open>\<open>POST /internal/token/renew\<close> after the portal's assertion: the subject of the new access token.\<close>

definition renew_token :: "int \<Rightarrow> json option \<Rightarrow> json option \<Rightarrow> sso \<Rightarrow> renewal \<times> sso" where
  "renew_token now sidv subv s =
    (let sid = qstr sidv; sub = qstr subv in
     if sid = [] \<or> sub = [] then (BadRenewal, s)
     else let (session, s) = load_session_by_sid now (lower sid) s in
       (case session of Some a \<Rightarrow> if a_user a = sub then (Renewed sub, s) else (SessionGone, s)
        | None \<Rightarrow> (SessionGone, s)))"

section \<open>Bearer tokens and the organisation proof\<close>

text \<open>\<open>src/resourceAuth.ts\<close> and \<open>src/rbac/orgProof.ts\<close>.\<close>

record resource_auth =
  ra_sub :: string
  ra_scopes :: "string list"

definition bearer_token :: "string option \<Rightarrow> string option" where
  "bearer_token h = (case h of None \<Rightarrow> None
     | Some s \<Rightarrow> if take 7 s = ''Bearer '' \<and> drop 7 s \<noteq> [] \<and> list_all (\<lambda>c. of_char c \<notin> {10, 13 :: nat}) (drop 7 s)
         then Some (drop 7 s) else None)"

definition verify_access_token :: "externals \<Rightarrow> string option \<Rightarrow> resource_auth option" where
  "verify_access_token x h = (case bearer_token h of
      None \<Rightarrow> None
    | Some t \<Rightarrow> (case x_access x t of
        None \<Rightarrow> None
      | Some (sub, scope) \<Rightarrow> if sub = [] then None
          else Some \<lparr>ra_sub = sub, ra_scopes = filter (\<lambda>w. w \<noteq> [])
            (split_on (CHR '' '') (case scope of None \<Rightarrow> [] | Some JNull \<Rightarrow> [] | Some v \<Rightarrow> js_string v))\<rparr>))"

datatype scope_answer = BadToken | InsufficientScope string

definition require_scope :: "externals \<Rightarrow> string \<Rightarrow> string option \<Rightarrow> scope_answer + resource_auth" where
  "require_scope x scope h = (case verify_access_token x h of
      None \<Rightarrow> Inl BadToken
    | Some a \<Rightarrow> if scope \<noteq> [] \<and> scope \<notin> set (ra_scopes a) then Inl (InsufficientScope scope) else Inr a)"

definition step_up_required :: "role_error + 'a" where
  "step_up_required = fail 403 ''step_up_required'' []"

definition assert_org_role_proof ::
  "externals \<Rightarrow> int \<Rightarrow> string option \<Rightarrow> string \<Rightarrow> string option \<Rightarrow> sso \<Rightarrow> role_error + unit" where
  "assert_org_role_proof x now authorization authSub stepupSid s =
    (case verify_access_token x authorization of
       None \<Rightarrow> fail 401 ''invalid_token'' []
     | Some a \<Rightarrow>
         if ra_sub a \<noteq> authSub then fail 401 ''invalid_token'' []
         else if ''profile'' \<notin> set (ra_scopes a) then fail 403 ''insufficient_scope'' []
         else if tget (settings (core s)) ''stepup_portal_required'' \<noteq> Some ''true'' then Inr ()
         else (case stepupSid of
             None \<Rightarrow> step_up_required
           | Some sid \<Rightarrow>
               if sid = [] then step_up_required
               else (case tget (sessions s) (lower sid) of
                   None \<Rightarrow> step_up_required
                 | Some r \<Rightarrow>
                     if se_user r \<noteq> ra_sub a then step_up_required
                     else if \<not> stepup_satisfies
                         (accepted_strong_stepup (count_passkeys s (ra_sub a)) (count_authenticators s (ra_sub a)))
                         (se_stepup_method r)
                         (stepup_stamp_fresh (se_stepup_at r)
                           (stepup_validity_minutes (tget (settings (core s)) ''stepup_validity_minutes'')) now)
                     then step_up_required else Inr ())))"

end
