(* ===== verification/Factors.thy ===== *)
theory Factors
  imports Sessions
begin

text \<open>
  The second factors: authenticators (\<open>src/mfa.ts\<close>), emailed codes (\<open>src/emailOtp.ts\<close>) and
  passkeys (\<open>src/webauthn.ts\<close>).  Of a passkey's row the columns that only the management page
  displays (transports, aaguid, backup flags) are left out.
\<close>

section \<open>Authenticators\<close>

definition TOTP_STEP_TTL :: int where "TOTP_STEP_TTL = 300"
definition MAX_AUTHENTICATORS :: nat where "MAX_AUTHENTICATORS = 5"
definition SETUP_TTL_MINUTES :: int where "SETUP_TTL_MINUTES = 15"

text \<open>The Lua script: one atomic comparison with the last accepted time step.\<close>

definition claim_totp_step :: "int \<Rightarrow> string \<Rightarrow> int \<Rightarrow> sso \<Rightarrow> bool \<times> sso" where
  "claim_totp_step now ident ts s =
    (let cur = (case rget now (totp_steps s) ident of Some k \<Rightarrow> k | None \<Rightarrow> 0) in
     if ts > cur then (True, s\<lparr>totp_steps := rset_ex now ident ts TOTP_STEP_TTL (totp_steps s)\<rparr>) else (False, s))"

definition six_digits :: "string \<Rightarrow> bool" where
  "six_digits c = (length c = 6 \<and> list_all is_digit c)"

text \<open>The loop of \<open>verifyLoginTotp\<close>: which credential and time step it accepted.\<close>

fun totp_loop :: "externals \<Rightarrow> int \<Rightarrow> string \<Rightarrow> (string \<times> totp_credential) list \<Rightarrow> sso \<Rightarrow> (string \<times> int) option \<times> sso" where
  "totp_loop x now token [] s = (None, s)"
| "totp_loop x now token ((ident, c) # rest) s =
     (case x_open x (tc_secret_enc c) of
        None \<Rightarrow> totp_loop x now token rest s
      | Some secret \<Rightarrow>
          (case x_totp x secret token now of
             None \<Rightarrow> totp_loop x now token rest s
           | Some ts \<Rightarrow>
               (case claim_totp_step now ident ts s of (claimed, s) \<Rightarrow>
                if claimed then (Some (ident, ts), s\<lparr>totp_credentials :=
                    tmap (\<lambda>k c. if k = ident then c\<lparr>tc_last_used := Some now\<rparr> else c) (totp_credentials s)\<rparr>)
                else totp_loop x now token rest s)))"

definition login_totp_match :: "externals \<Rightarrow> int \<Rightarrow> string \<Rightarrow> string \<Rightarrow> sso \<Rightarrow> (string \<times> int) option \<times> sso" where
  "login_totp_match x now sub token s =
    (if \<not> six_digits token then (None, s)
     else totp_loop x now token (filter (\<lambda>(_, c). tc_user c = sub \<and> tc_confirmed_at c \<noteq> None) (totp_credentials s)) s)"

definition verify_login_totp :: "externals \<Rightarrow> int \<Rightarrow> string \<Rightarrow> string \<Rightarrow> sso \<Rightarrow> bool \<times> sso" where
  "verify_login_totp x now sub token s = (case login_totp_match x now sub token s of (m, s) \<Rightarrow> (m \<noteq> None, s))"

text \<open>Setup: the pending row of a subject is replaced; \<open>secret\<close> is what \<open>generateSecret\<close> drew.\<close>

definition start_authenticator_setup ::
  "externals \<Rightarrow> int \<Rightarrow> string \<Rightarrow> string option \<Rightarrow> sso \<Rightarrow> (nat + string \<times> string) \<times> sso" where
  "start_authenticator_setup x now sub label s =
    (if count_authenticators s sub \<ge> MAX_AUTHENTICATORS then (Inl MAX_AUTHENTICATORS, s)
     else
       let s = s\<lparr>totp_credentials := tfilter (\<lambda>_ c. \<not> (tc_user c = sub \<and> tc_confirmed_at c = None)) (totp_credentials s)\<rparr>;
           (secret, s) = draw x s;
           (ident, s) = draw x s
       in (Inr (ident, secret), s\<lparr>totp_credentials := tput ident
            \<lparr>tc_user = sub, tc_secret_enc = x_seal x secret, tc_label = label, tc_confirmed_at = None,
             tc_created_at = now, tc_last_used = None\<rparr> (totp_credentials s)\<rparr>))"

definition confirm_authenticator ::
  "externals \<Rightarrow> int \<Rightarrow> string \<Rightarrow> string \<Rightarrow> string \<Rightarrow> string option \<Rightarrow> sso \<Rightarrow> (string + unit) \<times> sso" where
  "confirm_authenticator x now sub ident token label s =
    (case tget (totp_credentials s) ident of
       None \<Rightarrow> (Inl ''not_found'', s)
     | Some c \<Rightarrow>
         if \<not> (tc_user c = sub \<and> tc_confirmed_at c = None \<and> tc_created_at c > now - SETUP_TTL_MINUTES * 60 * 1000)
         then (Inl ''not_found'', s)
         else (case x_open x (tc_secret_enc c) of
             None \<Rightarrow> (Inl ''decrypt_failed'', s)
           | Some secret \<Rightarrow>
               (case x_totp x secret token now of
                  None \<Rightarrow> (Inl ''invalid_code'', s)
                | Some ts \<Rightarrow>
                    let s = snd (claim_totp_step now ident ts s)
                    in (Inr (), s\<lparr>totp_credentials := tput ident
                         (c\<lparr>tc_confirmed_at := Some now, tc_label := (case label of None \<Rightarrow> tc_label c | Some l \<Rightarrow> Some l)\<rparr>)
                         (totp_credentials s)\<rparr>))))"

definition rename_authenticator :: "string \<Rightarrow> string \<Rightarrow> string \<Rightarrow> sso \<Rightarrow> bool \<times> sso" where
  "rename_authenticator sub ident label s =
    (case tget (totp_credentials s) ident of
       Some c \<Rightarrow> if tc_user c = sub \<and> tc_confirmed_at c \<noteq> None
         then (True, s\<lparr>totp_credentials := tput ident (c\<lparr>tc_label := Some label\<rparr>) (totp_credentials s)\<rparr>) else (False, s)
     | None \<Rightarrow> (False, s))"

definition remove_authenticator :: "string \<Rightarrow> string \<Rightarrow> sso \<Rightarrow> bool \<times> sso" where
  "remove_authenticator sub ident s =
    (case tget (totp_credentials s) ident of
       Some c \<Rightarrow> if tc_user c = sub then (True, s\<lparr>totp_credentials := tdel ident (totp_credentials s)\<rparr>) else (False, s)
     | None \<Rightarrow> (False, s))"

section \<open>Emailed codes\<close>

definition OTP_TTL_SECONDS :: int where "OTP_TTL_SECONDS = 300"
definition MAX_ATTEMPTS_OTP :: int where "MAX_ATTEMPTS_OTP = 5"
definition COOLDOWN_SECONDS :: int where "COOLDOWN_SECONDS = 60"
definition DAILY_CAP :: int where "DAILY_CAP = 20"
definition DAY_MS :: int where "DAY_MS = 24 * 60 * 60 * 1000"

definition pad6 :: "nat \<Rightarrow> string" where
  "pad6 n = (let d = show_nat n in replicate (6 - length d) (CHR ''0'') @ d)"

definition gen_code :: "externals \<Rightarrow> sso \<Rightarrow> string \<times> sso" where
  "gen_code x s = (pad6 (x_int x (draws s) mod 1000000), s\<lparr>draws := Suc (draws s)\<rparr>)"

datatype issue_result = Issued string | Cooldown int | DailyLimit int

definition limit_expired :: "int \<Rightarrow> otp_limit \<Rightarrow> bool" where
  "limit_expired now l = (ol_first_sent l < now - DAY_MS)"

text \<open>\<open>GREATEST(0, EXTRACT(EPOCH FROM \<dots>))::int\<close>.\<close>

definition seconds_of :: "int \<Rightarrow> int" where
  "seconds_of ms = epoch_sec (max 0 ms)"

definition issue_limit :: "int \<Rightarrow> otp_limit option \<Rightarrow> issue_result option" where
  "issue_limit now lim = (case lim of
      None \<Rightarrow> None
    | Some l \<Rightarrow>
        if limit_expired now l then None
        else if ol_total l \<ge> DAILY_CAP then Some (DailyLimit (seconds_of (ol_first_sent l + DAY_MS - now)))
        else if seconds_of (now - ol_last_sent l) < COOLDOWN_SECONDS
        then Some (Cooldown (COOLDOWN_SECONDS - seconds_of (now - ol_last_sent l)))
        else None)"

definition count_send :: "int \<Rightarrow> otp_limit option \<Rightarrow> otp_limit" where
  "count_send now lim = (case lim of
      None \<Rightarrow> \<lparr>ol_first_sent = now, ol_last_sent = now, ol_total = 1\<rparr>
    | Some l \<Rightarrow> if limit_expired now l then \<lparr>ol_first_sent = now, ol_last_sent = now, ol_total = 1\<rparr>
        else l\<lparr>ol_last_sent := now, ol_total := ol_total l + 1\<rparr>)"

text \<open>The live code of a subject and purpose, if it may be sent again.\<close>

definition reusable_code :: "externals \<Rightarrow> int \<Rightarrow> email_otp option \<Rightarrow> string option" where
  "reusable_code x now row = (case row of
      None \<Rightarrow> None
    | Some e \<Rightarrow> if eo_generated_at e > now - OTP_TTL_SECONDS * 1000 \<and> eo_attempts e < MAX_ATTEMPTS_OTP
        then (case x_open x (eo_code_enc e) of Some c \<Rightarrow> if c = [] then None else Some c | None \<Rightarrow> None) else None)"

definition issue_email_otp :: "externals \<Rightarrow> int \<Rightarrow> string \<Rightarrow> string \<Rightarrow> sso \<Rightarrow> issue_result \<times> sso" where
  "issue_email_otp x now sub purpose s =
    (case issue_limit now (tget (email_otp_limits s) sub) of
       Some r \<Rightarrow> (r, s)
     | None \<Rightarrow>
         let (code, s) =
           (case reusable_code x now (tget (email_otps s) (sub, purpose)) of
              Some c \<Rightarrow> (c, s\<lparr>email_otps := tmap (\<lambda>k e. if k = (sub, purpose) then e\<lparr>eo_sent_at := now\<rparr> else e) (email_otps s)\<rparr>)
            | None \<Rightarrow>
                (case gen_code x s of (c, s) \<Rightarrow>
                 (c, s\<lparr>email_otps := tput (sub, purpose)
                    \<lparr>eo_code_enc = x_seal x c, eo_generated_at = now, eo_sent_at = now, eo_attempts = 0\<rparr> (email_otps s)\<rparr>)))
         in (Issued code, s\<lparr>email_otp_limits := tput sub (count_send now (tget (email_otp_limits s) sub)) (email_otp_limits s)\<rparr>))"

datatype verify_otp = OtpValid | OtpInvalid bool

definition verify_email_otp :: "externals \<Rightarrow> int \<Rightarrow> string \<Rightarrow> string \<Rightarrow> string \<Rightarrow> sso \<Rightarrow> verify_otp \<times> sso" where
  "verify_email_otp x now sub purpose token s =
    (case tget (email_otps s) (sub, purpose) of
       None \<Rightarrow> (OtpInvalid True, s)
     | Some e \<Rightarrow>
         if \<not> eo_sent_at e > now - OTP_TTL_SECONDS * 1000 then (OtpInvalid True, s)
         else if eo_attempts e \<ge> MAX_ATTEMPTS_OTP then (OtpInvalid True, s)
         else if x_open x (eo_code_enc e) = Some token \<and> six_digits token
         then (OtpValid, s\<lparr>email_otps := tdel (sub, purpose) (email_otps s)\<rparr>)
         else (OtpInvalid (eo_attempts e + 1 \<ge> MAX_ATTEMPTS_OTP),
               s\<lparr>email_otps := tput (sub, purpose) (e\<lparr>eo_attempts := eo_attempts e + 1\<rparr>) (email_otps s)\<rparr>))"

section \<open>Passkeys\<close>

definition MAX_PASSKEYS :: nat where "MAX_PASSKEYS = 10"
definition CHALLENGE_TTL :: int where "CHALLENGE_TTL = 300"

definition reg_key :: "string \<Rightarrow> string" where
  "reg_key sub = ''acct:webauthn:reg:'' @ sub"

text \<open>The creation options: the challenge and the credentials to exclude.\<close>

definition start_registration :: "externals \<Rightarrow> int \<Rightarrow> string \<Rightarrow> sso \<Rightarrow> (nat + string \<times> string list) \<times> sso" where
  "start_registration x now sub s =
    (if count_passkeys s sub \<ge> MAX_PASSKEYS then (Inl MAX_PASSKEYS, s)
     else
       let (challenge, s) = draw x s
       in (Inr (challenge, map (\<lambda>(_, p). pk_credential_id p) (filter (\<lambda>(_, p). pk_user p = sub) (passkeys s))),
           s\<lparr>passkey_registrations := rset_ex now (reg_key sub) challenge CHALLENGE_TTL (passkey_registrations s)\<rparr>))"

definition default_label :: "externals \<Rightarrow> string option \<Rightarrow> sso \<Rightarrow> string \<times> sso" where
  "default_label x label s =
    (case label of
       Some l \<Rightarrow> if trim l \<noteq> [] then (take 100 (trim l), s)
         else (case draw x s of (r, s) \<Rightarrow> (''Passkey-'' @ take 6 r, s))
     | None \<Rightarrow> (case draw x s of (r, s) \<Rightarrow> (''Passkey-'' @ take 6 r, s)))"

definition finish_registration ::
  "externals \<Rightarrow> int \<Rightarrow> string \<Rightarrow> json \<Rightarrow> string option \<Rightarrow> sso \<Rightarrow> (string + string) \<times> sso" where
  "finish_registration x now sub response label s =
    (case rget now (passkey_registrations s) (reg_key sub) of
       None \<Rightarrow> (Inl ''challenge_expired'', s)
     | Some challenge \<Rightarrow>
         if challenge = [] then (Inl ''challenge_expired'', s)
         else (case x_attestation x response challenge of
             None \<Rightarrow> (Inl ''verify_failed'', s)
           | Some None \<Rightarrow> (Inl ''not_verified'', s)
           | Some (Some (cred, key, counter)) \<Rightarrow>
               let s = s\<lparr>passkey_registrations := rdel (reg_key sub) (passkey_registrations s)\<rparr>;
                   (l, s) = default_label x label s
               in if list_ex (\<lambda>(_, p). pk_credential_id p = cred) (passkeys s) then (Inl ''already_registered'', s)
                  else let (ident, s) = draw x s
                       in (Inr ident, s\<lparr>passkeys := tput ident
                            \<lparr>pk_user = sub, pk_credential_id = cred, pk_public_key = key, pk_sign_count = counter,
                             pk_label = Some l, pk_created_at = now, pk_last_used = None\<rparr> (passkeys s)\<rparr>)))"

definition rename_passkey :: "string \<Rightarrow> string \<Rightarrow> string \<Rightarrow> sso \<Rightarrow> bool \<times> sso" where
  "rename_passkey sub ident label s =
    (case tget (passkeys s) ident of
       Some p \<Rightarrow> if pk_user p = sub then (True, s\<lparr>passkeys := tput ident (p\<lparr>pk_label := Some label\<rparr>) (passkeys s)\<rparr>) else (False, s)
     | None \<Rightarrow> (False, s))"

definition remove_passkey :: "string \<Rightarrow> string \<Rightarrow> sso \<Rightarrow> bool \<times> sso" where
  "remove_passkey sub ident s =
    (case tget (passkeys s) ident of
       Some p \<Rightarrow> if pk_user p = sub then (True, s\<lparr>passkeys := tdel ident (passkeys s)\<rparr>) else (False, s)
     | None \<Rightarrow> (False, s))"

text \<open>The request options: a fresh challenge, and the subject's credentials when the subject is known.\<close>

definition login_auth_options :: "externals \<Rightarrow> string option \<Rightarrow> sso \<Rightarrow> (string \<times> string list option) \<times> sso" where
  "login_auth_options x sub s =
    (case draw x s of (challenge, s) \<Rightarrow>
      ((challenge, (case sub of
          Some u \<Rightarrow> if u = [] then None
            else Some (map (\<lambda>(_, p). pk_credential_id p) (filter (\<lambda>(_, p). pk_user p = u) (passkeys s)))
        | None \<Rightarrow> None)), s))"

definition verify_login_assertion ::
  "externals \<Rightarrow> int \<Rightarrow> json \<Rightarrow> string \<Rightarrow> string option \<Rightarrow> sso \<Rightarrow> (string + string) \<times> sso" where
  "verify_login_assertion x now response challenge expectedSub s =
    (let cred = x_credential_id x response in
     if cred = [] then (Inl ''malformed'', s)
     else (case find (\<lambda>(_, p). pk_credential_id p = cred) (passkeys s) of
         None \<Rightarrow> (Inl ''unknown_credential'', s)
       | Some (ident, p) \<Rightarrow>
           if (case expectedSub of None \<Rightarrow> False | Some u \<Rightarrow> u \<noteq> [] \<and> pk_user p \<noteq> u) then (Inl ''wrong_user'', s)
           else (case x_assertion x response challenge p of
               None \<Rightarrow> (Inl ''verify_failed'', s)
             | Some None \<Rightarrow> (Inl ''not_verified'', s)
             | Some (Some counter) \<Rightarrow>
                 (Inr (pk_user p), s\<lparr>passkeys := tmap (\<lambda>k q. if k = ident
                    then q\<lparr>pk_sign_count := counter, pk_last_used := Some now\<rparr> else q) (passkeys s)\<rparr>))))"

end
