(* ===== verification/SessionProps.thy ===== *)
theory SessionProps
  imports Sessions RoleAdminProps
begin

text \<open>
  Guarantees of the session layer: bounded windows, no traffic that outlives them, revocation
  that reaches every application a session touched, isolation between users, and the step-up
  proof behind the organisation endpoints.
\<close>

section \<open>Frames\<close>

lemma enqueue_frame:
  "sessions (enqueue_events x now c evs s) = sessions s \<and> last_touched (enqueue_events x now c evs s) = last_touched s
   \<and> same_role_tables (core s) (core (enqueue_events x now c evs s))"
  using insert_events_frame [of "x_uuid x" now c evs "core s"]
  by (auto simp: enqueue_events_def same_role_tables_refl split: sum.splits prod.splits)

lemma fan_out_frame:
  "sessions (fan_out_logout x now sub sid cs s) = sessions s \<and> last_touched (fan_out_logout x now sub sid cs s) = last_touched s
     \<and> same_role_tables (core s) (core (fan_out_logout x now sub sid cs s))"
proof (induction cs arbitrary: s)
  case Nil
  show ?case by (simp add: fan_out_logout_def same_role_tables_refl)
next
  case (Cons c cs)
  have "fan_out_logout x now sub sid (c # cs) s = fan_out_logout x now sub sid cs (enqueue_events x now c [logout_event sub sid] s)"
    by (simp add: fan_out_logout_def)
  then show ?case using Cons [of "enqueue_events x now c [logout_event sub sid] s"] enqueue_frame [of x now c "[logout_event sub sid]" s]
    by (auto intro: same_role_tables_trans)
qed

lemma end_frame_fold:
  "sessions (fold (\<lambda>(sid, r). fan_out_logout x now (se_user r) sid (se_clients r)) rs s) = sessions s
     \<and> last_touched (fold (\<lambda>(sid, r). fan_out_logout x now (se_user r) sid (se_clients r)) rs s) = last_touched s
     \<and> same_role_tables (core s) (core (fold (\<lambda>(sid, r). fan_out_logout x now (se_user r) sid (se_clients r)) rs s))"
proof (induction rs arbitrary: s)
  case Nil
  show ?case by (simp add: same_role_tables_refl)
next
  case (Cons p rs)
  then show ?case using fan_out_frame [of x now "se_user (snd p)" "fst p" "se_clients (snd p)" s]
    by (cases p) (auto intro: same_role_tables_trans)
qed

lemma end_sessions_frame:
  "sessions (end_sessions x now P s) = tfilter (\<lambda>sid r. \<not> P sid r) (sessions s)"
  "last_touched (end_sessions x now P s) = last_touched s"
  "same_role_tables (core s) (core (end_sessions x now P s))"
  using end_frame_fold [of x now "filter (\<lambda>(sid, r). P sid r) (sessions s)" "s\<lparr>sessions := tfilter (\<lambda>sid r. \<not> P sid r) (sessions s)\<rparr>"]
  by (simp_all add: end_sessions_def)

lemma windows_frame: "same_role_tables d d' \<Longrightarrow> get_session_windows d' = get_session_windows d"
  by (simp add: same_role_tables_def get_session_windows_def get_setting_def)

lemma live_frame:
  assumes "same_role_tables d d'"
  shows "session_live d' now r = session_live d now r"
proof -
  have "identity_active d' u = identity_active d u" for u
    using assms by (simp add: identity_active_def same_role_tables_def)
  then show ?thesis by (simp add: session_live_def windows_frame [OF assms])
qed

section \<open>Windows\<close>

lemma clamp_range: "1 \<le> fb \<Longrightarrow> fb \<le> m \<Longrightarrow> 1 \<le> clamp_hours v fb m \<and> clamp_hours v fb m \<le> m"
  by (simp add: clamp_hours_def split: option.splits)

text \<open>Whatever text the settings hold, the windows are sane: the idle and the transient window are at
  least one hour and never exceed the absolute window, which is at most a year.\<close>

theorem session_windows_bounded:
  "1 \<le> w_idle (get_session_windows d) \<and> w_idle (get_session_windows d) \<le> w_max (get_session_windows d)
   \<and> 1 \<le> w_transient (get_session_windows d) \<and> w_transient (get_session_windows d) \<le> w_max (get_session_windows d)
   \<and> w_idle (get_session_windows d) \<le> 2160 \<and> w_max (get_session_windows d) \<le> 8760"
  using clamp_range [of 168 8760 "get_setting d ''session_max_hours''"] clamp_range [of 72 2160 "get_setting d ''session_idle_hours''"]
    clamp_range [of 24 8760 "get_setting d ''session_transient_max_hours''"]
  by (simp add: get_session_windows_def Let_def min_le_iff_disj)

section \<open>Traffic\<close>

text \<open>Everything that can happen to existing sessions between two sign-ins.\<close>

datatype traffic =
    Visit "string option"
  | Renew "json option" "json option"
  | Report string string "int option"
  | Verify string string
  | StayIn "string option" string
  | EndOne string string
  | EndOthers string string
  | Leave "string option"
  | Sweep

fun traffic_step :: "externals \<Rightarrow> int \<Rightarrow> traffic \<Rightarrow> sso \<Rightarrow> sso" where
  "traffic_step x now (Visit t) s = snd (load_session x now t s)"
| "traffic_step x now (Renew sid sub) s = snd (renew_token now sid sub s)"
| "traffic_step x now (Report cid sid seen) s = snd (session_activity now cid sid seen s)"
| "traffic_step x now (Verify sid m) s = stamp_stepup now sid m s"
| "traffic_step x now (StayIn t sid) s = snd (persist_session x now t sid s)"
| "traffic_step x now (EndOne sub sid) s = snd (terminate_session x now sub sid s)"
| "traffic_step x now (EndOthers sub sid) s = snd (terminate_others x now sub sid s)"
| "traffic_step x now (Leave t) s = logout x now t s"
| "traffic_step x now Sweep s = clean_expired_sessions x now s"

fun traffic_run :: "externals \<Rightarrow> (int \<times> traffic) list \<Rightarrow> sso \<Rightarrow> sso" where
  "traffic_run x [] s = s"
| "traffic_run x ((now, op) # ops) s = traffic_run x ops (traffic_step x now op s)"

text \<open>What no traffic changes in a session's row, and how far \<open>last_seen\<close> may go.\<close>

definition row_follows :: "int \<Rightarrow> session \<Rightarrow> session \<Rightarrow> bool" where
  "row_follows t r r' = (se_user r' = se_user r \<and> se_token_hash r' = se_token_hash r \<and> se_amr r' = se_amr r
     \<and> se_auth_time r' = se_auth_time r \<and> se_created_at r' = se_created_at r
     \<and> (se_last_seen r \<le> t \<longrightarrow> se_last_seen r' \<le> t))"

definition rows_follow :: "int \<Rightarrow> sso \<Rightarrow> sso \<Rightarrow> bool" where
  "rows_follow t s s' = ((pk (sessions s) \<longrightarrow> pk (sessions s')
       \<and> (\<forall>sid r'. tget (sessions s') sid = Some r' \<longrightarrow> (\<exists>r. tget (sessions s) sid = Some r \<and> row_follows t r r')))
     \<and> same_role_tables (core s) (core s'))"

lemma row_follows_refl: "row_follows t r r"
  by (simp add: row_follows_def)

lemma row_follows_trans: "row_follows t a b \<Longrightarrow> row_follows t b c \<Longrightarrow> row_follows t a c"
  by (simp add: row_follows_def)

lemma rows_follow_refl: "rows_follow t s s"
  using row_follows_refl by (fastforce simp: rows_follow_def same_role_tables_refl)

lemma rows_follow_trans: "rows_follow t a b \<Longrightarrow> rows_follow t b c \<Longrightarrow> rows_follow t a c"
  unfolding rows_follow_def
  by (intro conjI impI allI; (elim conjE)?) (use row_follows_trans same_role_tables_trans in blast)+

lemma rows_follow_tmap:
  assumes "\<And>k r. row_follows t r (f k r)"
  shows "rows_follow t s (s\<lparr>sessions := tmap f (sessions s)\<rparr>)"
  using assms by (auto simp: rows_follow_def tbl_simps pk_tmap same_role_tables_refl)

lemma rows_follow_put:
  assumes "tget (sessions s) sid = Some r" and "row_follows t r r'"
  shows "rows_follow t s (s\<lparr>sessions := tput sid r' (sessions s)\<rparr>)"
  using assms row_follows_refl by (auto simp: rows_follow_def tbl_simps pk_tput same_role_tables_refl)

lemma rows_follow_touch: "now \<le> t \<Longrightarrow> rows_follow t s (touch_session now sid s)"
proof -
  assume t: "now \<le> t"
  let ?s = "s\<lparr>sessions := tmap (\<lambda>k r. if k = sid then r\<lparr>se_last_seen := now\<rparr> else r) (sessions s)\<rparr>"
  have "rows_follow t s ?s" by (rule rows_follow_tmap) (use t in \<open>simp add: row_follows_def\<close>)
  then have "rows_follow t s (s\<lparr>last_touched := m, sessions := sessions ?s\<rparr>)" for m by (simp add: rows_follow_def)
  then show ?thesis using rows_follow_refl by (simp add: touch_session_def Let_def)
qed

lemma rows_follow_load: "now \<le> t \<Longrightarrow> rows_follow t s (snd (load_session x now tok s))"
  using rows_follow_touch rows_follow_refl by (auto simp: load_session_def split: option.splits)

lemma rows_follow_same:
  "sessions s' = sessions s \<Longrightarrow> same_role_tables (core s) (core s') \<Longrightarrow> rows_follow t s s'"
  using row_follows_refl by (auto simp: rows_follow_def)

lemma rows_follow_filter:
  assumes "sessions s' = tfilter Q (sessions s)" and "same_role_tables (core s) (core s')"
  shows "rows_follow t s s'"
  using assms row_follows_refl
  by (auto simp: rows_follow_def pk_tfilter tget_tfilter split: option.splits if_splits)

lemma rows_follow_del:
  assumes "sessions s' = tdel sid (sessions s)" and "same_role_tables (core s) (core s')"
  shows "rows_follow t s s'"
  using assms row_follows_refl by (auto simp: rows_follow_def pk_tdel tbl_simps)

lemma rows_follow_end: "rows_follow t s (end_sessions x now P s)"
  by (rule rows_follow_filter) (rule end_sessions_frame)+

lemma rows_follow_step:
  assumes "now \<le> t"
  shows "rows_follow t s (traffic_step x now op s)"
proof (cases op)
  case (Visit tok)
  then show ?thesis using rows_follow_load assms by simp
next
  case (Renew sid sub)
  show ?thesis unfolding Renew traffic_step.simps renew_token_def load_session_by_sid_def Let_def
    using rows_follow_touch [OF assms] rows_follow_refl by (auto split: option.splits)
next
  case (Report cid sid seen)
  show ?thesis unfolding Report traffic_step.simps session_activity_def Let_def
    using assms by (auto intro!: rows_follow_put simp: rows_follow_refl row_follows_def split: option.splits)
next
  case (Verify sid m)
  show ?thesis unfolding Verify traffic_step.simps stamp_stepup_def
    by (rule rows_follow_tmap) (simp add: row_follows_def)
next
  case (StayIn tok sid)
  show ?thesis unfolding StayIn traffic_step.simps persist_session_def Let_def
    by (auto intro!: rows_follow_put simp: rows_follow_refl row_follows_def split: option.splits)
next
  case (EndOne sub sid)
  have e: "rows_follow t s (fan_out_logout x now u i cs (s\<lparr>sessions := tdel k (sessions s)\<rparr>))" for u i k cs
    using fan_out_frame [of x now u i cs "s\<lparr>sessions := tdel k (sessions s)\<rparr>"] by (intro rows_follow_del) auto
  show ?thesis unfolding EndOne traffic_step.simps terminate_session_def
    by (auto simp: e rows_follow_refl split: option.splits)
next
  case (EndOthers sub sid)
  show ?thesis unfolding EndOthers traffic_step.simps terminate_others_def
    using rows_follow_end rows_follow_refl by simp
next
  case (Leave tok)
  obtain a s1 where l: "load_session x now tok s = (a, s1)" by fastforce
  have 1: "rows_follow t s s1" using rows_follow_load [OF assms, of s x tok] l by simp
  have 2: "rows_follow t s1 (fan_out_logout x now u k cs (s1\<lparr>sessions := tdel k (sessions s1)\<rparr>))" for u k cs
    using fan_out_frame [of x now u k cs "s1\<lparr>sessions := tdel k (sessions s1)\<rparr>"] by (intro rows_follow_del) auto
  show ?thesis unfolding Leave traffic_step.simps logout_def l prod.case Let_def
    using 1 rows_follow_trans [OF 1 2] by (auto split: option.splits)
next
  case Sweep
  show ?thesis unfolding Sweep traffic_step.simps clean_expired_sessions_def by (rule rows_follow_end)
qed

lemma rows_follow_run: "\<forall>(now, op) \<in> set ops. now \<le> t \<Longrightarrow> rows_follow t s (traffic_run x ops s)"
proof (induction ops arbitrary: s)
  case Nil
  show ?case by (simp add: rows_follow_refl)
next
  case (Cons p ops)
  obtain now op where p: "p = (now, op)" by (cases p)
  have "rows_follow t s (traffic_step x now op s)" using Cons.prems p by (intro rows_follow_step) auto
  then show ?case using Cons.IH [of "traffic_step x now op s"] Cons.prems rows_follow_trans by (auto simp: p)
qed

lemma load_needs_live:
  "fst (load_session x t tok s) = Some a \<Longrightarrow> \<exists>r. (a_sid a, r) \<in> set (sessions s) \<and> session_live (core s) t r"
  by (auto simp: load_session_def active_of_def find_Some_iff split: option.splits if_splits)
     (metis nth_mem)

lemma traffic_never_outlives_windows_parts:
  assumes "pk (sessions s)" and "tget (sessions s) sid = Some r" and "se_last_seen r \<le> t0"
    and "\<forall>(now, op) \<in> set ops. now \<le> t0"
    and "t \<ge> t0 + w_idle (get_session_windows (core s)) * 3600000
       \<or> t \<ge> se_created_at r + w_max (get_session_windows (core s)) * 3600000"
  shows "fst (load_session_by_sid t sid (traffic_run x ops s)) = None"
    and "fst (load_session x t tok (traffic_run x ops s)) = Some a \<Longrightarrow> a_sid a \<noteq> sid"
proof -
  let ?s = "traffic_run x ops s"
  have f: "rows_follow t0 s ?s" by (rule rows_follow_run [OF assms(4)])
  have w: "get_session_windows (core ?s) = get_session_windows (core s)"
    using f windows_frame by (simp add: rows_follow_def)
  have le: "w_transient (get_session_windows (core s)) \<le> w_max (get_session_windows (core s))"
    by (simp add: get_session_windows_def Let_def)
  have dead: "\<not> session_live (core ?s) t r'" if now: "tget (sessions ?s) sid = Some r'" for r'
  proof -
    obtain q where "tget (sessions s) sid = Some q" "row_follows t0 q r'"
      using f assms(1) now unfolding rows_follow_def by blast
    then have "row_follows t0 r r'" using assms(2) by simp
    then have "se_last_seen r' \<le> t0" "se_created_at r' = se_created_at r" using assms(3) by (auto simp: row_follows_def)
    then show ?thesis using assms(5) le by (auto simp: session_live_def in_windows_def hours_ago_def w)
  qed
  show "fst (load_session_by_sid t sid ?s) = None" using dead by (auto simp: load_session_by_sid_def split: option.splits)
  show "a_sid a \<noteq> sid" if l: "fst (load_session x t tok ?s) = Some a"
  proof
    assume "a_sid a = sid"
    then obtain r' where "(sid, r') \<in> set (sessions ?s)" "session_live (core ?s) t r'" using load_needs_live [OF l] by auto
    moreover have "pk (sessions ?s)" using f assms(1) by (simp add: rows_follow_def)
    ultimately show False using dead tget_in_set by metis
  qed
qed


text \<open>C33. No traffic holds a session open: whatever visits, renewals, activity reports, verifications,
  "stay signed in" answers, terminations and sweeps happen up to time \<open>t0\<close>, in whatever order and
  with whatever reported times, a session that has existed since before cannot be used, by sid or by
  cookie, once its idle window has passed since \<open>t0\<close> or its absolute window since its creation.\<close>

theorem traffic_never_outlives_windows:
  assumes "pk (sessions s)" and "tget (sessions s) sid = Some r" and "se_last_seen r \<le> t0"
    and "\<forall>(now, op) \<in> set ops. now \<le> t0"
    and "t \<ge> t0 + w_idle (get_session_windows (core s)) * 3600000
       \<or> t \<ge> se_created_at r + w_max (get_session_windows (core s)) * 3600000"
  shows "fst (load_session_by_sid t sid (traffic_run x ops s)) = None
    \<and> (\<forall>tok a. fst (load_session x t tok (traffic_run x ops s)) = Some a \<longrightarrow> a_sid a \<noteq> sid)"
  using traffic_never_outlives_windows_parts [OF assms] by blast

section \<open>Revocation reaches the applications\<close>

lemma utf8_append: "utf8_length (a @ b) = utf8_length a + utf8_length b"
  by (simp add: utf8_length_def)

lemma hex_plain: "is_hex_lower c \<or> c = CHR ''-'' \<Longrightarrow> escape_char c = [c] \<and> (of_char c :: nat) < 128"
proof -
  assume "is_hex_lower c \<or> c = CHR ''-''"
  then have "(48 \<le> (of_char c :: nat) \<and> (of_char c :: nat) \<le> 57) \<or> (97 \<le> (of_char c :: nat) \<and> (of_char c :: nat) \<le> 102) \<or> (of_char c :: nat) = 45"
    by (auto simp: is_hex_lower_def is_digit_def less_eq_char_nat)
  then show ?thesis by (auto simp: escape_char_def Let_def)
qed

lemma uuid_chars: "uuid_lower s \<Longrightarrow> c \<in> set s \<Longrightarrow> is_hex_lower c \<or> c = CHR ''-''"
proof -
  assume u: "uuid_lower s" and c: "c \<in> set s"
  then obtain i where i: "i < 36" "c = s ! i" by (auto simp: uuid_lower_def in_set_conv_nth)
  have "(i, c) \<in> set (zip [0 ..< 36] s)" using u i by (auto simp: uuid_lower_def set_zip intro!: exI [of _ i])
  then show ?thesis using u unfolding uuid_lower_def list_all_iff by (auto split: if_splits)
qed

lemma quote_uuid: "uuid_lower s \<Longrightarrow> utf8_length (quote s) = 38"
proof -
  assume u: "uuid_lower s"
  have "concat (map escape_char xs) = xs \<and> utf8_length xs = length xs" if "set xs \<subseteq> set s" for xs
    using that
  proof (induction xs)
    case Nil
    show ?case by (simp add: utf8_length_def)
  next
    case (Cons c xs)
    then show ?case using hex_plain [OF uuid_chars [OF u, of c]] by (simp add: utf8_length_Cons)
  qed
  from this [of s] show ?thesis using u
    by (simp add: quote_def utf8_length_append utf8_length_Cons uuid_lower_def) (simp add: utf8_length_def)
qed

lemma lower_uuid: "uuid_lower s \<Longrightarrow> lower s = s"
proof -
  assume u: "uuid_lower s"
  have "lower_char c = c" if "c \<in> set s" for c
  proof -
    have "(48 \<le> (of_char c :: nat) \<and> (of_char c :: nat) \<le> 57) \<or> (97 \<le> (of_char c :: nat) \<and> (of_char c :: nat) \<le> 102) \<or> (of_char c :: nat) = 45"
      using uuid_chars [OF u that] by (auto simp: is_hex_lower_def is_digit_def less_eq_char_nat)
    then show ?thesis by (auto simp: lower_char_def Let_def)
  qed
  then show ?thesis by (simp add: lower_def map_idI)
qed

lemma logout_normalized:
  assumes "uuid_lower i" and "uuid_lower sub" and "uuid_lower sid"
  shows "normalized_event (logout_event sub sid) i
    = Inr \<lparr>we_id = i, we_type = ''logout'', we_payload = JObj [(''sub'', JStr sub), (''sid'', JStr sid)], ne_version = ''0''\<rparr>"
proof -
  have "is_uuid i" using assms(1) by (simp add: is_uuid_def lower_uuid)
  moreover have "int (event_bytes [\<lparr>we_id = i, we_type = ''logout'', we_payload = JObj [(''sub'', JStr sub), (''sid'', JStr sid)]\<rparr>]) \<le> EVENT_BYTES_MAX"
    using quote_uuid [OF assms(1)] quote_uuid [OF assms(2)] quote_uuid [OF assms(3)]
    by (simp add: event_bytes_def wire_json_def utf8_length_append utf8_length_Cons EVENT_BYTES_MAX_def quote_def escape_char_def)
  moreover have "any_revision ''0''" "big_int ''0'' \<le> MAX_BIGINT" by (simp add: any_revision_def) code_simp
  ultimately show ?thesis by (simp add: normalized_event_def logout_event_def object_payload_def Let_def)
qed

text \<open>The identifiers the next \<open>n\<close> draws give are well formed, distinct and new.\<close>

definition fresh_draws :: "(nat \<Rightarrow> string) \<Rightarrow> nat \<Rightarrow> db \<Rightarrow> bool" where
  "fresh_draws uuid n d = (let ids = map (\<lambda>i. uuid (uuid_seq d + i)) [0 ..< n] in
     list_all uuid_lower ids \<and> distinct ids \<and> list_all (\<lambda>r. ob_id r \<notin> set ids) (event_outbox d))"

lemma fresh_draws_Suc:
  assumes "fresh_draws uuid (Suc n) d"
  shows "fresh_draws uuid n d" and "uuid_lower (uuid (uuid_seq d))" and "\<forall>r \<in> set (event_outbox d). ob_id r \<noteq> uuid (uuid_seq d)"
    and "\<lbrakk>event_outbox d' = event_outbox d @ [r]; ob_id r = uuid (uuid_seq d); uuid_seq d' = Suc (uuid_seq d)\<rbrakk> \<Longrightarrow> fresh_draws uuid n d'"
proof -
  let ?f = "\<lambda>i. uuid (uuid_seq d + i)"
  have L: "list_all uuid_lower (map ?f [0 ..< Suc n])" and D: "distinct (map ?f [0 ..< Suc n])"
    and O: "\<forall>r \<in> set (event_outbox d). ob_id r \<notin> set (map ?f [0 ..< Suc n])"
    using assms by (simp_all add: fresh_draws_def Let_def list_all_iff del: upt_Suc)
  show "fresh_draws uuid n d" using L D O by (auto simp: fresh_draws_def Let_def list_all_iff)
  have split: "map ?f [0 ..< Suc n] = uuid (uuid_seq d) # map (\<lambda>i. uuid (Suc (uuid_seq d) + i)) [0 ..< n]"
    by (simp add: upt_rec [of 0 "Suc n"] map_Suc_upt [symmetric] comp_def del: upt_Suc)
  show "uuid_lower (uuid (uuid_seq d))" using L unfolding split by simp
  show "\<forall>r \<in> set (event_outbox d). ob_id r \<noteq> uuid (uuid_seq d)" using O unfolding split by auto
  show "fresh_draws uuid n d'"
    if "event_outbox d' = event_outbox d @ [r]" "ob_id r = uuid (uuid_seq d)" "uuid_seq d' = Suc (uuid_seq d)"
    using L D O that unfolding split by (auto simp: fresh_draws_def Let_def list_all_iff)
qed

definition announces_logout :: "string \<Rightarrow> string \<Rightarrow> string \<Rightarrow> outbox_row \<Rightarrow> bool" where
  "announces_logout c sub sid r = (ob_kind r = ''logout'' \<and> ob_target r = c \<and> ob_status r = Pending
     \<and> ob_payload r = JObj [(''sub'', JStr sub), (''sid'', JStr sid)])"

lemma enqueue_logout:
  assumes f: "fresh_draws (x_uuid x) (Suc n) (core s)" and u: "uuid_lower sub" "uuid_lower sid"
  shows "fresh_draws (x_uuid x) n (core (enqueue_events x now c [logout_event sub sid] s))"
    and "set (event_outbox (core s)) \<subseteq> set (event_outbox (core (enqueue_events x now c [logout_event sub sid] s)))"
    and "tget (oauth_clients (core s)) c \<noteq> None \<Longrightarrow>
      \<exists>r \<in> set (event_outbox (core (enqueue_events x now c [logout_event sub sid] s))). announces_logout c sub sid r"
proof -
  let ?d = "core s" and ?i = "x_uuid x (uuid_seq (core s))"
  let ?d1 = "?d\<lparr>uuid_seq := Suc (uuid_seq ?d)\<rparr>"
  let ?e = "\<lparr>we_id = ?i, we_type = ''logout'', we_payload = JObj [(''sub'', JStr sub), (''sid'', JStr sid)], ne_version = ''0''\<rparr>"
  note F = fresh_draws_Suc [OF f]
  have n: "normalize_events (x_uuid x) [logout_event sub sid] (uuid_seq ?d) = Inr ([?e], Suc (uuid_seq ?d))"
    using logout_normalized [OF F(2) u] by (simp add: logout_event_def Let_def)
  have "fresh_draws (x_uuid x) n (core (enqueue_events x now c [logout_event sub sid] s))
    \<and> set (event_outbox ?d) \<subseteq> set (event_outbox (core (enqueue_events x now c [logout_event sub sid] s)))
    \<and> (tget (oauth_clients ?d) c \<noteq> None \<longrightarrow>
      (\<exists>r \<in> set (event_outbox (core (enqueue_events x now c [logout_event sub sid] s))). announces_logout c sub sid r))"
  proof (cases "lock_destination now c ?d1")
    case (Inl err)
    then have "enqueue_events x now c [logout_event sub sid] s = s" by (simp add: enqueue_events_def insert_events_def n Let_def del: normalize_events.simps)
    moreover have "tget (oauth_clients ?d) c = None" using Inl by (auto simp: lock_destination_def split: option.splits if_splits)
    ultimately show ?thesis using F(1) by simp
  next
    case (Inr d2)
    have o: "event_outbox d2 = event_outbox ?d" using lock_destination_outbox [OF Inr] by simp
    have q: "uuid_seq d2 = Suc (uuid_seq ?d)" using Inr by (auto simp: lock_destination_def split: option.splits if_splits)
    have "find_event d2 ?i = None" using F(3) o lower_uuid [OF F(2)] by (auto simp: find_event_def find_None_iff)
    then have r: "core (enqueue_events x now c [logout_event sub sid] s) = d2\<lparr>event_outbox := event_outbox d2 @ [new_row now c ?e]\<rparr>"
      by (simp add: enqueue_events_def insert_events_def n Inr insert_event_def Let_def del: normalize_events.simps)
    have "ob_id (new_row now c ?e) = ?i" using lower_uuid [OF F(2)] by (simp add: new_row_def)
    then have "fresh_draws (x_uuid x) n (core (enqueue_events x now c [logout_event sub sid] s))"
      using F(4) [of _ "new_row now c ?e"] o q r by simp
    then show ?thesis using o by (auto simp: r announces_logout_def new_row_def)
  qed
  then show "fresh_draws (x_uuid x) n (core (enqueue_events x now c [logout_event sub sid] s))"
    "set (event_outbox (core s)) \<subseteq> set (event_outbox (core (enqueue_events x now c [logout_event sub sid] s)))"
    "tget (oauth_clients (core s)) c \<noteq> None \<Longrightarrow>
      \<exists>r \<in> set (event_outbox (core (enqueue_events x now c [logout_event sub sid] s))). announces_logout c sub sid r"
    by simp_all
qed

lemma fan_out_announces:
  "fresh_draws (x_uuid x) (length cs + n) (core s) \<Longrightarrow> uuid_lower sub \<Longrightarrow> uuid_lower sid \<Longrightarrow>
     fresh_draws (x_uuid x) n (core (fan_out_logout x now sub sid cs s))
     \<and> set (event_outbox (core s)) \<subseteq> set (event_outbox (core (fan_out_logout x now sub sid cs s)))
     \<and> (\<forall>c \<in> set cs. tget (oauth_clients (core s)) c \<noteq> None \<longrightarrow>
         (\<exists>r \<in> set (event_outbox (core (fan_out_logout x now sub sid cs s))). announces_logout c sub sid r))"
proof (induction cs arbitrary: s)
  case Nil
  then show ?case by (simp add: fan_out_logout_def)
next
  case (Cons c cs)
  let ?s = "enqueue_events x now c [logout_event sub sid] s"
  have step: "fan_out_logout x now sub sid (c # cs) s = fan_out_logout x now sub sid cs ?s" by (simp add: fan_out_logout_def)
  have f: "fresh_draws (x_uuid x) (Suc (length cs + n)) (core s)" using Cons.prems by simp
  note e = enqueue_logout [OF f Cons.prems(2,3), where now = now and c = c]
  have cl: "oauth_clients (core ?s) = oauth_clients (core s)" using enqueue_frame [of x now c "[logout_event sub sid]" s]
    by (simp add: same_role_tables_def)
  from Cons.IH [OF e(1) Cons.prems(2,3)] show ?case unfolding step cl using e(2,3) by auto
qed

lemma end_fold_announces:
  "fresh_draws (x_uuid x) (length (concat (map (\<lambda>(_, r). se_clients r) rs)) + n) (core s) \<Longrightarrow>
   \<forall>(sid, r) \<in> set rs. uuid_lower sid \<and> uuid_lower (se_user r) \<Longrightarrow>
     set (event_outbox (core s)) \<subseteq> set (event_outbox (core (fold (\<lambda>(sid, r). fan_out_logout x now (se_user r) sid (se_clients r)) rs s)))
     \<and> (\<forall>(sid, r) \<in> set rs. \<forall>c \<in> set (se_clients r). tget (oauth_clients (core s)) c \<noteq> None \<longrightarrow>
         (\<exists>e \<in> set (event_outbox (core (fold (\<lambda>(sid, r). fan_out_logout x now (se_user r) sid (se_clients r)) rs s))).
            announces_logout c (se_user r) sid e))"
proof (induction rs arbitrary: s)
  case Nil
  then show ?case by simp
next
  case (Cons p rs)
  obtain sid r where p: "p = (sid, r)" by (cases p)
  let ?s = "fan_out_logout x now (se_user r) sid (se_clients r) s"
  have f: "fresh_draws (x_uuid x) (length (se_clients r) + (length (concat (map (\<lambda>(_, r). se_clients r) rs)) + n)) (core s)"
    using Cons.prems(1) by (simp add: p add.assoc)
  have u: "uuid_lower (se_user r)" "uuid_lower sid" using Cons.prems(2) by (simp_all add: p)
  note e = fan_out_announces [OF f u, where now = now]
  have cl: "oauth_clients (core ?s) = oauth_clients (core s)"
    using fan_out_frame [of x now "se_user r" sid "se_clients r" s] by (simp add: same_role_tables_def)
  have "set (event_outbox (core ?s)) \<subseteq> set (event_outbox (core (fold (\<lambda>(sid, r). fan_out_logout x now (se_user r) sid (se_clients r)) rs ?s)))
     \<and> (\<forall>(sid, r) \<in> set rs. \<forall>c \<in> set (se_clients r). tget (oauth_clients (core ?s)) c \<noteq> None \<longrightarrow>
         (\<exists>e \<in> set (event_outbox (core (fold (\<lambda>(sid, r). fan_out_logout x now (se_user r) sid (se_clients r)) rs ?s))).
            announces_logout c (se_user r) sid e))"
    by (rule Cons.IH) (use e Cons.prems(2) in auto)
  moreover have "set (event_outbox (core s)) \<subseteq> set (event_outbox (core ?s))"
    "\<forall>c \<in> set (se_clients r). tget (oauth_clients (core s)) c \<noteq> None \<longrightarrow>
       (\<exists>e \<in> set (event_outbox (core ?s)). announces_logout c (se_user r) sid e)"
    using e by simp_all
  ultimately show ?case unfolding cl p fold_simps comp_apply prod.case list.set ball_simps by blast
qed

lemma sweep_revokes_everywhere_parts:
  assumes "pk (sessions s)" and "tget (sessions s) sid = Some r" and "uuid_lower sid" and "uuid_lower (se_user r)"
    and "\<forall>(sid, r) \<in> set (sessions s). uuid_lower sid \<and> uuid_lower (se_user r)"
    and "fresh_draws (x_uuid x) (length (concat (map (\<lambda>(_, r). se_clients r) (filter (\<lambda>(_, r). expired_session (core s) now r) (sessions s))))) (core s)"
  shows "tget (sessions (clean_expired_sessions x now s)) sid = (if expired_session (core s) now r then None else Some r)"
    and "expired_session (core s) now r \<Longrightarrow> c \<in> set (se_clients r) \<Longrightarrow> tget (oauth_clients (core s)) c \<noteq> None \<Longrightarrow>
      \<exists>e \<in> set (event_outbox (core (clean_expired_sessions x now s))). announces_logout c (se_user r) sid e"
proof -
  let ?P = "\<lambda>_ :: string. expired_session (core s) now"
  show "tget (sessions (clean_expired_sessions x now s)) sid = (if expired_session (core s) now r then None else Some r)"
    using assms(1,2) by (simp add: clean_expired_sessions_def end_sessions_frame(1) tget_tfilter)
  let ?rs = "filter (\<lambda>(sid, r). ?P sid r) (sessions s)" and ?s = "s\<lparr>sessions := tfilter (\<lambda>sid r. \<not> ?P sid r) (sessions s)\<rparr>"
  have "(sid, r) \<in> set (sessions s)" using assms(1,2) tget_in_set by metis
  moreover assume "expired_session (core s) now r" "c \<in> set (se_clients r)" "tget (oauth_clients (core s)) c \<noteq> None"
  moreover have "fresh_draws (x_uuid x) (length (concat (map (\<lambda>(_, r). se_clients r) ?rs)) + 0) (core ?s)"
    using assms(6) by simp
  note a = end_fold_announces [OF this, where now = now]
  have "\<forall>(sid, r) \<in> set ?rs. uuid_lower sid \<and> uuid_lower (se_user r)" using assms(5) by auto
  from a [OF this] have "\<forall>(sid, r) \<in> set ?rs. \<forall>c \<in> set (se_clients r). tget (oauth_clients (core s)) c \<noteq> None \<longrightarrow>
         (\<exists>e \<in> set (event_outbox (core (clean_expired_sessions x now s))). announces_logout c (se_user r) sid e)"
    by (simp add: clean_expired_sessions_def end_sessions_def)
  ultimately show "\<exists>e \<in> set (event_outbox (core (clean_expired_sessions x now s))). announces_logout c (se_user r) sid e"
    by auto
qed

text \<open>Expiry is a revocation: the sweep deletes exactly the sessions past a window, keeps every other
  session as it is, and for every deleted session leaves a pending logout event, naming the user
  and the session, for every registered application that session had been used with.\<close>

theorem sweep_revokes_everywhere:
  assumes "pk (sessions s)" and "tget (sessions s) sid = Some r" and "uuid_lower sid" and "uuid_lower (se_user r)"
    and "\<forall>(sid, r) \<in> set (sessions s). uuid_lower sid \<and> uuid_lower (se_user r)"
    and "fresh_draws (x_uuid x) (length (concat (map (\<lambda>(_, r). se_clients r) (filter (\<lambda>(_, r). expired_session (core s) now r) (sessions s))))) (core s)"
  shows "tget (sessions (clean_expired_sessions x now s)) sid = (if expired_session (core s) now r then None else Some r)
    \<and> (\<forall>c. expired_session (core s) now r \<and> c \<in> set (se_clients r) \<and> tget (oauth_clients (core s)) c \<noteq> None \<longrightarrow>
      (\<exists>e \<in> set (event_outbox (core (clean_expired_sessions x now s))). announces_logout c (se_user r) sid e))"
  using sweep_revokes_everywhere_parts [OF assms] by blast

section \<open>The organisation proof\<close>

text \<open>C34. The organisation endpoints take strong proof only: when step-up is required and the proof passes,
  the bearer token is the caller's own with the profile scope, and the session it names belongs to
  the caller and carries a verification less than a day old by a passkey the caller owns, or by an
  authenticator when the caller owns no passkey; a password or an emailed code never passes.\<close>

theorem org_proof_is_strong:
  assumes "assert_org_role_proof x now authorization u sidHeader s = Inr ()"
    and "tget (settings (core s)) ''stepup_portal_required'' = Some ''true''"
  shows "\<exists>a sid r t. verify_access_token x authorization = Some a \<and> ra_sub a = u \<and> ''profile'' \<in> set (ra_scopes a)
    \<and> sidHeader = Some sid \<and> tget (sessions s) (lower sid) = Some r \<and> se_user r = u
    \<and> se_stepup_at r = Some t \<and> now - t < 24 * 60 * 60 * 1000
    \<and> (se_stepup_method r = Some ''passkey'' \<and> 0 < count_passkeys s u
       \<or> se_stepup_method r = Some ''totp'' \<and> count_passkeys s u = 0 \<and> 0 < count_authenticators s u)"
proof -
  obtain a sid r where a: "verify_access_token x authorization = Some a" "ra_sub a = u" "''profile'' \<in> set (ra_scopes a)"
    and r: "sidHeader = Some sid" "tget (sessions s) (lower sid) = Some r" "se_user r = u"
    and st: "stepup_satisfies (accepted_strong_stepup (count_passkeys s u) (count_authenticators s u)) (se_stepup_method r)
      (stepup_stamp_fresh (se_stepup_at r) (stepup_validity_minutes (tget (settings (core s)) ''stepup_validity_minutes'')) now)"
    using assms unfolding assert_org_role_proof_def step_up_required_def fail_def
    by (auto split: option.splits if_splits)
  have v: "stepup_validity_minutes w \<le> 1440" for w by (simp add: stepup_validity_minutes_def split: option.splits)
  obtain m t where m: "se_stepup_method r = Some m" "m \<in> set (accepted_strong_stepup (count_passkeys s u) (count_authenticators s u))"
    and t: "se_stepup_at r = Some t" "now - t < stepup_validity_minutes (tget (settings (core s)) ''stepup_validity_minutes'') * 60 * 1000"
    using st by (auto simp: stepup_satisfies_def stepup_stamp_fresh_def split: option.splits)
  have "now - t < 24 * 60 * 60 * 1000" using t(2) v [of "tget (settings (core s)) ''stepup_validity_minutes''"] by linarith
  moreover have "m = ''passkey'' \<and> 0 < count_passkeys s u \<or> m = ''totp'' \<and> count_passkeys s u = 0 \<and> 0 < count_authenticators s u"
    using m(2) by (auto simp: accepted_strong_stepup_def split: if_splits)
  ultimately show ?thesis using a r m(1) t(1) by auto
qed

definition demo_x :: externals where
  "demo_x = \<lparr>x_rnd = demo_uuid, x_int = (\<lambda>n. n), x_uuid = demo_uuid, x_sha256 = (\<lambda>t. t), x_argon2 = (\<lambda>h p. h = p), x_argon2_hash = (\<lambda>_ p. p),
     x_seal = (\<lambda>c. c), x_open = Some, x_totp = (\<lambda>secret code now. if code = secret then Some (now div 30000) else None),
     x_credential_id = (\<lambda>v. ''cred''),
     x_assertion = (\<lambda>v challenge p. Some (if v = JStr challenge then Some (pk_sign_count p + 1) else None)),
     x_attestation = (\<lambda>v challenge. None),
     x_parse_json = (\<lambda>t. Some (JStr t)), x_url_host = Some, x_mail_ok = (\<lambda>_ _. True),
     x_access = (\<lambda>t. Some (t, Some (JStr ''profile''))), x_issuer_of = Some, x_has_keys = (\<lambda>_. True),
     x_client_jwt = (\<lambda>_ _. True)\<rparr>"

definition demo_session :: session where
  "demo_session = \<lparr>se_user = demo_user, se_token_hash = ''tok'', se_amr = [''passkey''], se_acr = None, se_auth_time = 5000,
     se_ip = None, se_user_agent = None, se_country = None, se_city = None, se_region = None, se_clients = [''rp''],
     se_stepup_at = Some 5000, se_stepup_method = Some ''passkey'', se_persistent = False, se_created_at = 5000,
     se_last_seen = 6000, se_expires_at = 0\<rparr>"

definition demo_sid :: string where "demo_sid = ''dddddddd-0000-4000-8000-000000000001''"

definition demo_passkey :: passkey where
  "demo_passkey = \<lparr>pk_user = demo_user, pk_credential_id = ''cred'', pk_public_key = ''key'', pk_sign_count = 0,
     pk_label = None, pk_created_at = 0, pk_last_used = None\<rparr>"

definition demo_sso :: sso where
  "demo_sso = (empty_sso (demo_org\<lparr>settings := [(''stepup_portal_required'', ''true'')]\<rparr>))\<lparr>
     sessions := [(demo_sid, demo_session)], passkeys := [(''k1'', demo_passkey)]\<rparr>"

theorem org_proof_is_strong_witness:
  "\<exists>a sid r t. verify_access_token demo_x (Some (''Bearer '' @ demo_user)) = Some a \<and> ra_sub a = demo_user \<and> ''profile'' \<in> set (ra_scopes a)
    \<and> Some demo_sid = Some sid \<and> tget (sessions demo_sso) (lower sid) = Some r \<and> se_user r = demo_user
    \<and> se_stepup_at r = Some t \<and> 7000 - t < 24 * 60 * 60 * 1000
    \<and> (se_stepup_method r = Some ''passkey'' \<and> 0 < count_passkeys demo_sso demo_user
       \<or> se_stepup_method r = Some ''totp'' \<and> count_passkeys demo_sso demo_user = 0 \<and> 0 < count_authenticators demo_sso demo_user)"
proof (rule org_proof_is_strong)
  show "assert_org_role_proof demo_x 7000 (Some (''Bearer '' @ demo_user)) demo_user (Some demo_sid) demo_sso = Inr ()"
    by code_simp
  show "tget (settings (core demo_sso)) ''stepup_portal_required'' = Some ''true''" by code_simp
qed

definition demo_traffic :: "(int \<times> traffic) list" where
  "demo_traffic = [(7000, Visit (Some ''tok'')), (8000, Report ''rp'' demo_sid (Some 99000)), (9000, StayIn (Some ''tok'') demo_sid)]"

lemma demo_sso_pk: "pk (sessions demo_sso)" "tget (sessions demo_sso) demo_sid = Some demo_session"
  by code_simp+

theorem traffic_never_outlives_windows_witness:
  "fst (load_session_by_sid 259209000 demo_sid (traffic_run demo_x demo_traffic demo_sso)) = None"
proof (rule conjunct1 [OF traffic_never_outlives_windows [OF demo_sso_pk]])
  show "se_last_seen demo_session \<le> 9000" by code_simp
  show "\<forall>(now, op) \<in> set demo_traffic. now \<le> 9000" by (simp add: demo_traffic_def)
  have "w_idle (get_session_windows (core demo_sso)) = 72" by code_simp
  then show "(259209000 :: int) \<ge> 9000 + w_idle (get_session_windows (core demo_sso)) * 3600000
      \<or> 259209000 \<ge> se_created_at demo_session + w_max (get_session_windows (core demo_sso)) * 3600000" by simp
qed

end
