(* ===== verification/Login.thy ===== *)
theory Login
  imports Factors AppRoles
begin

text \<open>
  Signing in: the login transactions and authorization codes in Redis (\<open>src/oidc/transactions.ts\<close>,
  \<open>codes.ts\<close>), the identities and their passwords (\<open>src/oidc/identities.ts\<close>), and the handlers of
  \<open>src/routes/authorize.ts\<close>.  A handler takes the request, the time and the state and returns the
  reply with the new state; a reply is what the browser can act on: a redirect with the query
  parameters set on it, a form with the transaction, the challenge and the error it shows (its tag or
  the bracketed reason), or an error page with its status and code.
\<close>

section \<open>Requests and replies\<close>

record request =
  rq_cookie :: "string option"
  rq_headers :: "(string, string) table"
  rq_ip :: "string option"
  rq_query :: "(string \<times> json) list"
  rq_body :: "(string \<times> json) list"

datatype page =
    ErrorPage nat string
  | Redirect string "(string \<times> string) list"
  | ToLogin string
  | LocalRedirect string
  | LoginForm nat string "string option" string
  | PasskeyPage string string
  | ChallengeForm nat string string "string option" "string option" "int option"
  | KmsiForm string string
  | EnrollCard string "(string \<times> string) list"
  | BadRequest

record reply =
  rp_page :: page
  rp_cookie :: "cookie option"

definition showing :: "page \<Rightarrow> reply" where
  "showing p = \<lparr>rp_page = p, rp_cookie = None\<rparr>"

definition query_of :: "request \<Rightarrow> string \<Rightarrow> json option" where
  "query_of rq k = jmember (rq_query rq) k"

definition body_of :: "request \<Rightarrow> string \<Rightarrow> json option" where
  "body_of rq k = jmember (rq_body rq) k"

text \<open>\<open>req.query.x ? qstr(req.query.x) : undefined\<close>.\<close>

definition opt_query :: "request \<Rightarrow> string \<Rightarrow> string option" where
  "opt_query rq k = (if truthy (query_of rq k) then Some (qstr (query_of rq k)) else None)"

definition state_param :: "string option \<Rightarrow> (string \<times> string) list" where
  "state_param st = (case st of None \<Rightarrow> [] | Some v \<Rightarrow> if v = [] then [] else [(''state'', v)])"

definition geo_header :: "request \<Rightarrow> string \<Rightarrow> string option" where
  "geo_header rq k = (case tget (rq_headers rq) k of None \<Rightarrow> None
     | Some v \<Rightarrow> if trim v = [] then None else Some (trim v))"

definition csrf_ok :: "externals \<Rightarrow> request \<Rightarrow> login_txn \<Rightarrow> bool" where
  "csrf_ok x rq t =
    (body_of rq ''csrf'' = Some (JStr (tx_csrf t))
     \<and> (case tget (rq_headers rq) ''origin'' of None \<Rightarrow> True
        | Some o' \<Rightarrow> o' = [] \<or> o' = ''null''
            \<or> (case x_url_host x o' of None \<Rightarrow> False | Some h \<Rightarrow> tget (rq_headers rq) ''host'' = Some h))
     \<and> (case tget (rq_headers rq) ''sec-fetch-site'' of None \<Rightarrow> True
        | Some v \<Rightarrow> v = [] \<or> v = ''same-origin'' \<or> v = ''none''))"

section \<open>Transactions and codes\<close>

definition TXN_TTL :: int where "TXN_TTL = 600"
definition CODE_TTL :: int where "CODE_TTL = 60"

definition create_txn :: "externals \<Rightarrow> int \<Rightarrow> login_txn \<Rightarrow> sso \<Rightarrow> string \<times> sso" where
  "create_txn x now t s =
    (let (ident, s) = draw x s; (csrf, s) = draw x s
     in (ident, s\<lparr>txns := rset_ex now ident (t\<lparr>tx_csrf := csrf\<rparr>) TXN_TTL (txns s)\<rparr>))"

definition get_txn :: "int \<Rightarrow> string \<Rightarrow> sso \<Rightarrow> login_txn option" where
  "get_txn now ident s = (if ident = [] then None else rget now (txns s) ident)"

definition update_txn :: "int \<Rightarrow> string \<Rightarrow> login_txn \<Rightarrow> sso \<Rightarrow> sso" where
  "update_txn now ident t s = s\<lparr>txns := rset_keepttl now ident t (txns s)\<rparr>"

definition consume_txn :: "string \<Rightarrow> sso \<Rightarrow> sso" where
  "consume_txn ident s = s\<lparr>txns := rdel ident (txns s)\<rparr>"

definition create_code :: "externals \<Rightarrow> int \<Rightarrow> auth_code \<Rightarrow> sso \<Rightarrow> string \<times> sso" where
  "create_code x now c s =
    (let (code, s) = draw x s in (code, s\<lparr>codes := rset_ex now code c CODE_TTL (codes s)\<rparr>))"

definition consume_code :: "int \<Rightarrow> string \<Rightarrow> sso \<Rightarrow> auth_code option \<times> sso" where
  "consume_code now code s = (case rget now (codes s) code of
      None \<Rightarrow> (None, s)
    | Some c \<Rightarrow> (Some c, s\<lparr>codes := rdel code (codes s)\<rparr>))"

section \<open>Identities\<close>

definition find_by_username :: "db \<Rightarrow> string \<Rightarrow> (string \<times> identity) option" where
  "find_by_username d u = find (\<lambda>(_, i). lower (i_username i) = lower u \<and> i_deleted_at i = None) (identities d)"

definition find_by_email :: "db \<Rightarrow> string \<Rightarrow> (string \<times> identity) option" where
  "find_by_email d e = find (\<lambda>(_, i). map_option lower (i_email i) = Some (lower e) \<and> i_deleted_at i = None) (identities d)"

definition find_by_username_or_email :: "db \<Rightarrow> string \<Rightarrow> (string \<times> identity) option" where
  "find_by_username_or_email d u = (case find_by_username d u of
      Some i \<Rightarrow> Some i
    | None \<Rightarrow> if CHR ''@'' \<in> set u then find_by_email d u else None)"

definition verify_password :: "externals \<Rightarrow> identity \<Rightarrow> string \<Rightarrow> bool" where
  "verify_password x i pw = (case i_password_hash i of
      None \<Rightarrow> False
    | Some h \<Rightarrow> h \<noteq> [] \<and> x_argon2 x h pw)"

section \<open>Pages that touch the transaction\<close>

definition render_kmsi :: "string \<Rightarrow> txn_kmsi \<Rightarrow> page" where
  "render_kmsi ident k = KmsiForm ident (tk_user_label k)"

definition finish_login ::
  "externals \<Rightarrow> int \<Rightarrow> request \<Rightarrow> string \<Rightarrow> login_txn \<Rightarrow> string \<Rightarrow> string list \<Rightarrow> string \<Rightarrow> string \<Rightarrow> sso \<Rightarrow> reply \<times> sso" where
  "finish_login x now rq ident t sub amr acr label s =
    (let (sid, ck, s) = create_session x now
           \<lparr>ns_user = sub, ns_amr = amr, ns_acr = Some acr, ns_ip = rq_ip rq,
            ns_user_agent = Some (case tget (rq_headers rq) ''user-agent'' of None \<Rightarrow> [] | Some v \<Rightarrow> v),
            ns_country = geo_header rq ''cf-ipcountry'', ns_city = geo_header rq ''cf-ipcity'',
            ns_region = geo_header rq ''cf-region''\<rparr> s;
         k = \<lparr>tk_sid = sid, tk_sub = sub, tk_user_label = label, tk_amr = amr, tk_acr = acr, tk_auth_time = now_sec now\<rparr>
     in (\<lparr>rp_page = render_kmsi ident k, rp_cookie = Some ck\<rparr>, update_txn now ident (t\<lparr>tx_kmsi := Some k\<rparr>) s))"

text \<open>\<open>renderChallenge\<close>: the passkey state mints a fresh assertion challenge into the transaction.\<close>

definition render_challenge ::
  "externals \<Rightarrow> int \<Rightarrow> string \<Rightarrow> login_txn \<Rightarrow> txn_mfa \<Rightarrow> string option \<Rightarrow> string option \<Rightarrow> int option \<Rightarrow> sso \<Rightarrow> reply \<times> sso" where
  "render_challenge x now ident t m use err resend s =
    (let how = (case use of
           Some u \<Rightarrow> if u \<noteq> [] \<and> u \<in> set (tm_methods m) then u else concat (take 1 (tm_methods m))
         | None \<Rightarrow> concat (take 1 (tm_methods m)));
         status = (case err of None \<Rightarrow> 200 | Some e \<Rightarrow> if e = [] then 200 else 401)
     in if how = ''passkey''
        then let ((challenge, _), s) = login_auth_options x (Some (tm_sub m)) s
             in (showing (ChallengeForm status ident how (Some challenge) err resend),
                 update_txn now ident (t\<lparr>tx_mfa := Some (m\<lparr>tm_passkey_challenge := Some challenge\<rparr>)\<rparr>) s)
        else (showing (ChallengeForm status ident how None err resend), s))"

text \<open>\<open>loginPasskeyOptions\<close>: minted once per transaction, then reused.\<close>

definition login_passkey_options :: "externals \<Rightarrow> int \<Rightarrow> string \<Rightarrow> login_txn \<Rightarrow> sso \<Rightarrow> string \<times> sso" where
  "login_passkey_options x now ident t s =
    (if tx_passkey t \<noteq> None \<and> tx_passkey t \<noteq> Some [] then (the (tx_passkey t), s)
     else let ((challenge, _), s) = login_auth_options x None s
          in (challenge, update_txn now ident (t\<lparr>tx_passkey := Some challenge\<rparr>) s))"

definition render_login :: "externals \<Rightarrow> int \<Rightarrow> nat \<Rightarrow> string \<Rightarrow> login_txn \<Rightarrow> string option \<Rightarrow> sso \<Rightarrow> reply \<times> sso" where
  "render_login x now status ident t err s =
    (let (challenge, s) = login_passkey_options x now ident t s
     in (showing (LoginForm status ident err challenge), s))"

definition txn_expired :: reply where
  "txn_expired = showing (ErrorPage 400 ''txn_expired'')"

section \<open>GET /authorize\<close>

definition denied :: "(string \<times> string) list" where
  "denied = [(''error'', ''access_denied''), (''error_description'', ''You do not have access to this application'')]"

definition display_label :: "identity \<Rightarrow> string" where
  "display_label i = or_string (i_display_name i) (i_username i)"

text \<open>The transaction of an OIDC request; \<open>csrf\<close> is drawn when it is stored.\<close>

definition request_txn ::
  "string \<Rightarrow> string \<Rightarrow> request \<Rightarrow> string \<Rightarrow> login_txn" where
  "request_txn cid uri rq name =
    \<lparr>tx_client = cid, tx_redirect_uri = uri, tx_state = opt_query rq ''state'', tx_nonce = opt_query rq ''nonce'',
     tx_challenge = qstr (query_of rq ''code_challenge''), tx_challenge_method = qstr (query_of rq ''code_challenge_method''),
     tx_scope = qstr (query_of rq ''scope''), tx_acr_values = None, tx_client_name = Some name,
     tx_local_next = None, tx_passkey = None, tx_mfa = None, tx_kmsi = None, tx_csrf = []\<rparr>"

definition code_of_txn :: "login_txn \<Rightarrow> string \<Rightarrow> string \<Rightarrow> string list \<Rightarrow> string option \<Rightarrow> int \<Rightarrow> auth_code" where
  "code_of_txn t sub sid amr acr authTime =
    \<lparr>co_client = tx_client t, co_redirect_uri = tx_redirect_uri t, co_user = sub, co_sid = sid,
     co_challenge = tx_challenge t, co_challenge_method = tx_challenge_method t, co_nonce = tx_nonce t,
     co_scope = tx_scope t, co_amr = amr, co_acr = acr, co_auth_time = authTime\<rparr>"

definition too_old :: "int \<Rightarrow> json option \<Rightarrow> active_session \<Rightarrow> bool" where
  "too_old now maxAge a =
    (case maxAge of None \<Rightarrow> False | Some JNull \<Rightarrow> False
     | Some v \<Rightarrow> (case number_of_string (qstr (Some v)) of None \<Rightarrow> False | Some n \<Rightarrow> now_sec now - a_auth_time a > n))"

definition stepup_methods :: "sso \<Rightarrow> string \<Rightarrow> string list \<Rightarrow> string list" where
  "stepup_methods s sub wanted =
    (if ''passkey'' \<in> set wanted \<and> count_passkeys s sub > 0 then [''passkey''] else [])
    @ (if ''totp'' \<in> set wanted \<and> count_authenticators s sub > 0 then [''totp''] else [])"

definition words_on :: "char \<Rightarrow> string \<Rightarrow> string list" where
  "words_on c v = filter (\<lambda>w. w \<noteq> []) (split_on c v)"

text \<open>An existing session and a \<open>stepup\<close> parameter: a fresh factor challenge for the same session.\<close>

definition authorize_stepup ::
  "externals \<Rightarrow> int \<Rightarrow> login_txn \<Rightarrow> active_session \<Rightarrow> string list \<Rightarrow> sso \<Rightarrow> reply \<times> sso" where
  "authorize_stepup x now t a wanted s =
    (if \<not> app_access_allowed (core s) (tx_client t) (a_user a)
     then (showing (Redirect (tx_redirect_uri t) (denied @ state_param (tx_state t))), s)
     else let methods = stepup_methods s (a_user a) wanted in
       if methods = []
       then (showing (EnrollCard (tx_redirect_uri t) ((''error'', ''access_denied'') # state_param (tx_state t))), s)
       else
         let label = (case tget (identities (core s)) (a_user a) of
                Some i \<Rightarrow> or_string (display_label i) ''your account'' | None \<Rightarrow> ''your account'');
             m = \<lparr>tm_sub = a_user a, tm_user_label = label, tm_kmsi_label = None, tm_methods = methods, tm_attempts = 0,
                  tm_masked_email = None, tm_email_sent = False, tm_passkey_challenge = None, tm_stepup_sid = None,
                  tm_stepup_return = Some (a_sid a)\<rparr>;
             (ident, s) = create_txn x now (t\<lparr>tx_mfa := Some m\<rparr>) s
         in (showing (ToLogin ident), s))"

definition authorize :: "externals \<Rightarrow> int \<Rightarrow> request \<Rightarrow> sso \<Rightarrow> reply \<times> sso" where
  "authorize x now rq s =
    (let cid = qstr (query_of rq ''client_id''); uri = qstr (query_of rq ''redirect_uri'') in
     case tget (oauth_clients (core s)) cid of
       None \<Rightarrow> (showing (ErrorPage 400 ''unknown_client''), s)
     | Some cl \<Rightarrow>
         if cl_disabled_at cl \<noteq> None then (showing (ErrorPage 403 ''client_disabled''), s)
         else if uri \<notin> set (cl_redirect_uris cl) then (showing (ErrorPage 400 ''invalid_redirect_uri''), s)
         else
           let t = request_txn cid uri rq (cl_name cl);
               back = (\<lambda>params s. (showing (Redirect uri (params @ state_param (tx_state t))), s))
           in if qstr (query_of rq ''response_type'') \<noteq> ''code'' then back [(''error'', ''unsupported_response_type'')] s
              else if ''openid'' \<notin> set (split_on (CHR '' '') (tx_scope t))
              then back [(''error'', ''invalid_scope''), (''error_description'', ''openid required'')] s
              else if tx_challenge t = [] \<or> tx_challenge_method t \<noteq> ''S256''
              then back [(''error'', ''invalid_request''), (''error_description'', ''PKCE S256 required'')] s
              else
                let prompt = words_on (CHR '' '') (qstr (query_of rq ''prompt''));
                    (session, s) = (if ''login'' \<in> set prompt \<or> ''select_account'' \<in> set prompt then (None, s)
                                    else load_session x now (rq_cookie rq) s);
                    wanted = filter (\<lambda>w. w \<noteq> []) (map trim (split_on (CHR '','') (qstr (query_of rq ''stepup''))));
                    usable = (case session of None \<Rightarrow> None
                      | Some a \<Rightarrow> if too_old now (query_of rq ''max_age'') a then None else Some a)
                in case usable of
                     Some a \<Rightarrow>
                       if wanted \<noteq> [] then authorize_stepup x now t a wanted s
                       else if \<not> app_access_allowed (core s) cid (a_user a) then back denied s
                       else let (code, s) = create_code x now (code_of_txn t (a_user a) (a_sid a) (a_amr a) (a_acr a) (a_auth_time a)) s
                            in back [(''code'', code)] s
                   | None \<Rightarrow>
                       if ''none'' \<in> set prompt then back [(''error'', ''login_required'')] s
                       else let (ident, s) = create_txn x now (t\<lparr>tx_acr_values := opt_query rq ''acr_values''\<rparr>) s
                            in (showing (ToLogin ident), s))"

section \<open>The password form\<close>

text \<open>The transaction a form posts back, and its current phase: a transaction past authentication shows
  the "stay signed in" question or the challenge, never the password form.\<close>

definition body_txn :: "request \<Rightarrow> string" where
  "body_txn rq = qstr (body_of rq ''txn'')"

definition get_login :: "externals \<Rightarrow> int \<Rightarrow> request \<Rightarrow> sso \<Rightarrow> reply \<times> sso" where
  "get_login x now rq s =
    (let ident = qstr (query_of rq ''txn'') in
     case get_txn now ident s of
       None \<Rightarrow> (txn_expired, s)
     | Some t \<Rightarrow>
         (case tx_kmsi t of
            Some k \<Rightarrow> (showing (render_kmsi ident k), s)
          | None \<Rightarrow>
              (case tx_mfa t of
                 Some m \<Rightarrow> render_challenge x now ident t m (Some (qstr (query_of rq ''use''))) None None s
               | None \<Rightarrow> render_login x now 200 ident t None s)))"

text \<open>The methods a password login must be completed with: the factors the account owns, strongest
  first, and the emailed code only when it owns none.\<close>

definition login_methods :: "sso \<Rightarrow> string \<Rightarrow> identity \<Rightarrow> string list" where
  "login_methods s sub i =
    (let strong = (if count_passkeys s sub > 0 then [''passkey''] else []) @ (if count_authenticators s sub > 0 then [''totp''] else [])
     in if strong = [] \<and> i_email i \<noteq> None \<and> i_email i \<noteq> Some [] then [''email''] else strong)"

definition post_login :: "externals \<Rightarrow> int \<Rightarrow> request \<Rightarrow> sso \<Rightarrow> reply \<times> sso" where
  "post_login x now rq s =
    (let ident = body_txn rq in
     case get_txn now ident s of
       None \<Rightarrow> (txn_expired, s)
     | Some t \<Rightarrow>
         (case tx_kmsi t of
            Some k \<Rightarrow> (showing (render_kmsi ident k), s)
          | None \<Rightarrow>
              (case tx_mfa t of
                 Some m \<Rightarrow> render_challenge x now ident t m None None None s
               | None \<Rightarrow>
                   if \<not> csrf_ok x rq t then (showing BadRequest, s)
                   else
                     let typed = trim (qstr (body_of rq ''username'')) in
                     (case find_by_username_or_email (core s) typed of
                        None \<Rightarrow> render_login x now 401 ident t (Some ''invalid_credentials'') s
                      | Some (sub, i) \<Rightarrow>
                          if i_status i \<noteq> Active \<or> \<not> verify_password x i (qstr (body_of rq ''password''))
                          then render_login x now 401 ident t (Some ''invalid_credentials'') s
                          else
                            let methods = (if i_mfa_enabled i then login_methods s sub i else []) in
                            if methods \<noteq> []
                            then
                              let m = \<lparr>tm_sub = sub, tm_user_label = typed, tm_kmsi_label = Some (display_label i),
                                       tm_methods = methods, tm_attempts = 0,
                                       tm_masked_email = (if ''email'' \<in> set methods then map_option mask_email (i_email i) else None),
                                       tm_email_sent = False, tm_passkey_challenge = None, tm_stepup_sid = None,
                                       tm_stepup_return = None\<rparr>;
                                  t = t\<lparr>tx_mfa := Some m\<rparr>
                              in render_challenge x now ident t m None None None (update_txn now ident t s)
                            else finish_login x now rq ident t sub [''pwd''] ''urn:dreamsso:1fa'' (display_label i) s))))"

section \<open>Staying signed in\<close>

definition post_stay :: "externals \<Rightarrow> int \<Rightarrow> request \<Rightarrow> sso \<Rightarrow> reply \<times> sso" where
  "post_stay x now rq s =
    (let ident = body_txn rq in
     case get_txn now ident s of
       None \<Rightarrow> (txn_expired, s)
     | Some t \<Rightarrow>
         (case tx_kmsi t of
            None \<Rightarrow> (txn_expired, s)
          | Some k \<Rightarrow>
              if \<not> csrf_ok x rq t then (showing BadRequest, s)
              else
                let (ck, s) = (if qstr (body_of rq ''choice'') = ''yes'' then persist_session x now (rq_cookie rq) (tk_sid k) s else (None, s));
                    back = (\<lambda>params s. (\<lparr>rp_page = Redirect (tx_redirect_uri t) (params @ state_param (tx_state t)), rp_cookie = ck\<rparr>, s))
                in if tx_local_next t \<noteq> None \<and> tx_local_next t \<noteq> Some []
                   then (\<lparr>rp_page = LocalRedirect (the (tx_local_next t)), rp_cookie = ck\<rparr>, consume_txn ident s)
                   else if \<not> app_access_allowed (core s) (tx_client t) (tk_sub k) then back denied (consume_txn ident s)
                   else let (code, s) = create_code x now (code_of_txn t (tk_sub k) (tk_sid k) (tk_amr k) (Some (tk_acr k)) (tk_auth_time k)) s
                        in back [(''code'', code)] (consume_txn ident s)))"

section \<open>Passkey sign-in\<close>

definition get_login_passkey :: "externals \<Rightarrow> int \<Rightarrow> request \<Rightarrow> sso \<Rightarrow> reply \<times> sso" where
  "get_login_passkey x now rq s =
    (let ident = qstr (query_of rq ''txn'') in
     case get_txn now ident s of
       None \<Rightarrow> (txn_expired, s)
     | Some t \<Rightarrow>
         (case tx_kmsi t of
            Some k \<Rightarrow> (showing (render_kmsi ident k), s)
          | None \<Rightarrow>
              (case tx_mfa t of
                 Some m \<Rightarrow> render_challenge x now ident t m None None None s
               | None \<Rightarrow> let (challenge, s) = login_passkey_options x now ident t s
                         in (showing (PasskeyPage ident challenge), s))))"

text \<open>\<open>failBack\<close>: the used challenge is dropped and a fresh one minted.\<close>

definition fail_back :: "externals \<Rightarrow> int \<Rightarrow> string \<Rightarrow> login_txn \<Rightarrow> string \<Rightarrow> sso \<Rightarrow> reply \<times> sso" where
  "fail_back x now ident t reason s =
    (let t = t\<lparr>tx_passkey := None\<rparr> in render_login x now 401 ident t (Some reason) (update_txn now ident t s))"

definition parsed_credential :: "externals \<Rightarrow> request \<Rightarrow> json option" where
  "parsed_credential x rq = x_parse_json x (qstr (body_of rq ''credential''))"

definition post_login_passkey :: "externals \<Rightarrow> int \<Rightarrow> request \<Rightarrow> sso \<Rightarrow> reply \<times> sso" where
  "post_login_passkey x now rq s =
    (let ident = body_txn rq in
     case get_txn now ident s of
       None \<Rightarrow> (txn_expired, s)
     | Some t \<Rightarrow>
         (case tx_kmsi t of
            Some k \<Rightarrow> (showing (render_kmsi ident k), s)
          | None \<Rightarrow>
              (case tx_mfa t of
                 Some m \<Rightarrow> render_challenge x now ident t m None None None s
               | None \<Rightarrow>
                   if \<not> csrf_ok x rq t then (showing BadRequest, s)
                   else if tx_passkey t = None \<or> tx_passkey t = Some [] then fail_back x now ident t ''challenge_expired'' s
                   else (case parsed_credential x rq of
                       None \<Rightarrow> fail_back x now ident t ''malformed'' s
                     | Some credential \<Rightarrow>
                         (case verify_login_assertion x now credential (the (tx_passkey t)) None s of
                            (Inl reason, s) \<Rightarrow> fail_back x now ident t reason s
                          | (Inr sub, s) \<Rightarrow>
                              (case tget (identities (core s)) sub of
                                 None \<Rightarrow> fail_back x now ident t ''account_unavailable'' s
                               | Some i \<Rightarrow>
                                   if i_deleted_at i \<noteq> None \<or> i_status i \<noteq> Active
                                   then fail_back x now ident t ''account_unavailable'' s
                                   else finish_login x now rq ident t sub [''passkey''] ''urn:dreamsso:2fa'' (display_label i) s))))))"

section \<open>The second factor\<close>

text \<open>\<open>sendEmail\<close>: nothing is sent before the service is configured; a message it accepts is recorded.\<close>

definition send_email :: "externals \<Rightarrow> string \<Rightarrow> string \<Rightarrow> sso \<Rightarrow> bool \<times> sso" where
  "send_email x to' content s =
    (if get_setting (core s) ''mail_from'' = None \<or> get_setting (core s) ''cf_account_id'' = None
        \<or> (case get_secret_setting x (core s) ''cf_api_token'' of None \<Rightarrow> True | Some t \<Rightarrow> t = [])
     then (False, s)
     else if x_mail_ok x to' content then (True, s\<lparr>mails := mails s @ [(to', content)]\<rparr>)
     else (False, s))"

definition challenge_error :: "externals \<Rightarrow> int \<Rightarrow> string \<Rightarrow> login_txn \<Rightarrow> txn_mfa \<Rightarrow> string \<Rightarrow> int option \<Rightarrow> sso \<Rightarrow> reply \<times> sso" where
  "challenge_error x now ident t m err resend s = render_challenge x now ident t m (Some ''email'') (Some err) resend s"

definition post_send_email :: "externals \<Rightarrow> int \<Rightarrow> request \<Rightarrow> sso \<Rightarrow> reply \<times> sso" where
  "post_send_email x now rq s =
    (let ident = body_txn rq in
     case get_txn now ident s of
       None \<Rightarrow> (txn_expired, s)
     | Some t \<Rightarrow>
         (case tx_mfa t of
            None \<Rightarrow> (txn_expired, s)
          | Some m \<Rightarrow>
              if \<not> csrf_ok x rq t \<or> ''email'' \<notin> set (tm_methods m) then (showing BadRequest, s)
              else
                (case issue_email_otp x now (tm_sub m) ''login'' s of
                   (DailyLimit _, s) \<Rightarrow> challenge_error x now ident t m ''daily_limit'' None s
                 | (Cooldown n, s) \<Rightarrow> challenge_error x now ident t m ''cooldown'' (Some n) s
                 | (Issued code, s) \<Rightarrow>
                     (case tget (identities (core s)) (tm_sub m) of
                        None \<Rightarrow> challenge_error x now ident t m ''no_email'' None s
                      | Some i \<Rightarrow>
                          (case i_email i of
                             None \<Rightarrow> challenge_error x now ident t m ''no_email'' None s
                           | Some e \<Rightarrow>
                               if e = [] then challenge_error x now ident t m ''no_email'' None s
                               else
                                 (case send_email x e code s of (sent, s) \<Rightarrow>
                                   if \<not> sent then challenge_error x now ident t m ''not_sent'' None s
                                   else
                                     let m = m\<lparr>tm_email_sent := True\<rparr>; t = t\<lparr>tx_mfa := Some m\<rparr>
                                     in render_challenge x now ident t m (Some ''email'') None (Some 60) (update_txn now ident t s)))))))"

definition MAX_CHALLENGE_ATTEMPTS :: nat where "MAX_CHALLENGE_ATTEMPTS = 5"

definition STEPUP_ACR :: string where "STEPUP_ACR = ''urn:dreamsso:stepup''"

definition strong_fail :: "externals \<Rightarrow> int \<Rightarrow> string \<Rightarrow> login_txn \<Rightarrow> txn_mfa \<Rightarrow> string \<Rightarrow> string \<Rightarrow> sso \<Rightarrow> reply \<times> sso" where
  "strong_fail x now ident t m how err s =
    (let m = m\<lparr>tm_attempts := tm_attempts m + 1\<rparr>; t = t\<lparr>tx_mfa := Some m\<rparr> in
     if tm_attempts m \<ge> MAX_CHALLENGE_ATTEMPTS
     then (if tm_stepup_return m \<noteq> None
           then (showing (Redirect (tx_redirect_uri t)
                  ([(''error'', ''login_required''), (''error_description'', ''too_many_attempts'')] @ state_param (tx_state t))),
                 consume_txn ident s)
           else (showing (ErrorPage 403 ''too_many_attempts''), consume_txn ident s))
     else render_challenge x now ident t m (Some how) (Some err) None (update_txn now ident t s))"

definition succeed ::
  "externals \<Rightarrow> int \<Rightarrow> request \<Rightarrow> string \<Rightarrow> login_txn \<Rightarrow> txn_mfa \<Rightarrow> string list \<Rightarrow> string \<Rightarrow> sso \<Rightarrow> reply \<times> sso" where
  "succeed x now rq ident t m amr acr s =
    (case tm_stepup_return m of
       Some sid \<Rightarrow>
         let back = (\<lambda>params s. (showing (Redirect (tx_redirect_uri t) (params @ state_param (tx_state t))), s)) in
         if \<not> app_access_allowed (core s) (tx_client t) (tm_sub m)
         then back [(''error'', ''access_denied'')] (consume_txn ident s)
         else let (code, s) = create_code x now
                    (code_of_txn t (tm_sub m) sid (filter (\<lambda>a. a \<noteq> ''pwd'') amr) (Some STEPUP_ACR) (now_sec now)) s
              in back [(''code'', code)] (consume_txn ident s)
     | None \<Rightarrow>
         if tm_stepup_sid m \<noteq> None \<and> tm_stepup_sid m \<noteq> Some []
         then (showing (LocalRedirect (or_string (case tx_local_next t of None \<Rightarrow> [] | Some p \<Rightarrow> p) ''/admin'')),
               consume_txn ident (stamp_stepup now (the (tm_stepup_sid m)) (method_from_amr amr) s))
         else finish_login x now rq ident t (tm_sub m) amr acr (case tm_kmsi_label m of Some l \<Rightarrow> l | None \<Rightarrow> tm_user_label m) s)"

definition post_challenge :: "externals \<Rightarrow> int \<Rightarrow> request \<Rightarrow> sso \<Rightarrow> reply \<times> sso" where
  "post_challenge x now rq s =
    (let ident = body_txn rq; how = qstr (body_of rq ''method''); code = trim (qstr (body_of rq ''code'')) in
     case get_txn now ident s of
       None \<Rightarrow> (txn_expired, s)
     | Some t \<Rightarrow>
         (case tx_kmsi t of
            Some k \<Rightarrow> (showing (render_kmsi ident k), s)
          | None \<Rightarrow>
              (case tx_mfa t of
                 None \<Rightarrow> (txn_expired, s)
               | Some m \<Rightarrow>
                   if \<not> csrf_ok x rq t \<or> how \<notin> set (tm_methods m) then (showing BadRequest, s)
                   else if how = ''totp''
                   then (case verify_login_totp x now (tm_sub m) code s of (valid, s) \<Rightarrow>
                         if valid then succeed x now rq ident t m [''pwd'', ''otp''] ''urn:dreamsso:2fa'' s
                         else strong_fail x now ident t m ''totp'' ''incorrect'' s)
                   else if how = ''passkey''
                   then
                     let challenge = tm_passkey_challenge m;
                         m = m\<lparr>tm_passkey_challenge := None\<rparr>; t = t\<lparr>tx_mfa := Some m\<rparr> in
                     if challenge = None \<or> challenge = Some [] then strong_fail x now ident t m ''passkey'' ''challenge_expired'' s
                     else (case parsed_credential x rq of
                         None \<Rightarrow> strong_fail x now ident t m ''passkey'' ''malformed'' s
                       | Some credential \<Rightarrow>
                           (case verify_login_assertion x now credential (the challenge) (Some (tm_sub m)) s of
                              (Inl reason, s) \<Rightarrow> strong_fail x now ident t m ''passkey'' reason s
                            | (Inr _, s) \<Rightarrow> succeed x now rq ident t m [''pwd'', ''passkey''] ''urn:dreamsso:2fa'' s))
                   else
                     (case verify_email_otp x now (tm_sub m) ''login'' code s of
                        (OtpInvalid resend, s) \<Rightarrow>
                          challenge_error x now ident t m (if resend then ''must_resend'' else ''incorrect'') None s
                      | (OtpValid, s) \<Rightarrow>
                          finish_login x now rq ident t (tm_sub m) [''pwd'', ''email''] ''urn:dreamsso:2fa''
                            (case tm_kmsi_label m of Some l \<Rightarrow> l | None \<Rightarrow> tm_user_label m) s))))"

end
