(* ===== verification/Token.thy ===== *)
theory Token
  imports Login
begin

text \<open>
  The token endpoint (\<open>src/routes/token.ts\<close>), the claims of the tokens it mints
  (\<open>src/oidc/tokens.ts\<close>) and the client assertion of the other machine endpoints
  (\<open>src/oidc/clientAssertion.ts\<close>).  Signing is left to the JOSE library: a token is the record of
  its claims.  The issuer and the hash \<open>S256\<close> are arguments.
\<close>

section \<open>Client authentication\<close>

definition JWT_BEARER :: string where
  "JWT_BEARER = ''urn:ietf:params:oauth:client-assertion-type:jwt-bearer''"

datatype client_auth = AuthRequired | Malformed | UnknownClient | ClientDisabled | NoKey | BadAssertion

definition enabled_client :: "db \<Rightarrow> string \<Rightarrow> client_auth + client" where
  "enabled_client d cid = (case tget (oauth_clients d) cid of
      None \<Rightarrow> Inl UnknownClient
    | Some cl \<Rightarrow> if cl_disabled_at cl \<noteq> None then Inl ClientDisabled else Inr cl)"

definition verify_client_assertion :: "externals \<Rightarrow> db \<Rightarrow> string \<Rightarrow> client_auth + string" where
  "verify_client_assertion x d assertion = (case x_issuer_of x assertion of
      None \<Rightarrow> Inl Malformed
    | Some iss \<Rightarrow> rbind (enabled_client d iss) (\<lambda>_.
        if \<not> x_has_keys x iss then Inl NoKey
        else if \<not> x_client_jwt x iss assertion then Inl BadAssertion
        else Inr iss))"

definition token_client :: "externals \<Rightarrow> db \<Rightarrow> (string \<times> json) list \<Rightarrow> client_auth + string" where
  "token_client x d b =
    (if jmember b ''client_assertion_type'' \<noteq> Some (JStr JWT_BEARER) \<or> \<not> truthy (jmember b ''client_assertion'')
     then Inl AuthRequired
     else (case jmember b ''client_assertion'' of
         Some (JStr a) \<Rightarrow> verify_client_assertion x d a
       | _ \<Rightarrow> Inl Malformed))"

text \<open>\<open>assertedClient\<close>: every failure is the same answer.\<close>

definition asserted_client :: "externals \<Rightarrow> db \<Rightarrow> (string \<times> json) list \<Rightarrow> string option" where
  "asserted_client x d b =
    (if jmember b ''client_assertion_type'' \<noteq> Some (JStr JWT_BEARER) then None
     else (case jmember b ''client_assertion'' of
         Some (JStr a) \<Rightarrow>
           (case x_issuer_of x a of
              None \<Rightarrow> None
            | Some iss \<Rightarrow> if iss = [] then None
                else (case enabled_client d iss of
                    Inl _ \<Rightarrow> None
                  | Inr _ \<Rightarrow> if x_has_keys x iss \<and> x_client_jwt x iss a then Some iss else None))
       | _ \<Rightarrow> None))"

section \<open>Tokens\<close>

definition ID_TOKEN_TTL :: int where "ID_TOKEN_TTL = 600"
definition ACCESS_TOKEN_TTL :: int where "ACCESS_TOKEN_TTL = 900"

record token_claims =
  tc_name :: "(string \<times> string) option"
  tc_picture :: "string option"
  tc_email :: "(string option \<times> bool) option"
  tc_site_name :: string
  tc_session :: "(bool \<times> int) option"
  tc_app_role :: "(int option \<times> string \<times> string) option"

record id_token =
  it_iss :: string
  it_sub :: string
  it_aud :: string
  it_iat :: int
  it_exp :: int
  it_amr :: "string list"
  it_auth_time :: int
  it_nonce :: "string option"
  it_acr :: "string option"
  it_sid :: "string option"
  it_claims :: token_claims

record access_token =
  at_iss :: string
  at_sub :: string
  at_aud :: string
  at_client :: string
  at_scope :: string
  at_iat :: int
  at_exp :: int

definition some_text :: "string option \<Rightarrow> string option" where
  "some_text v = (case v of Some t \<Rightarrow> if t = [] then None else Some t | None \<Rightarrow> None)"

definition mint_id_token :: "string \<Rightarrow> int \<Rightarrow> auth_code \<Rightarrow> string \<Rightarrow> token_claims \<Rightarrow> id_token" where
  "mint_id_token issuer now c cid claims =
    \<lparr>it_iss = issuer, it_sub = co_user c, it_aud = cid, it_iat = now_sec now, it_exp = now_sec now + ID_TOKEN_TTL,
     it_amr = co_amr c, it_auth_time = co_auth_time c, it_nonce = some_text (co_nonce c), it_acr = some_text (co_acr c),
     it_sid = some_text (Some (co_sid c)), it_claims = claims\<rparr>"

definition mint_access_token :: "string \<Rightarrow> int \<Rightarrow> string \<Rightarrow> string \<Rightarrow> string \<Rightarrow> access_token" where
  "mint_access_token issuer now sub cid scope =
    \<lparr>at_iss = issuer, at_sub = sub, at_aud = issuer, at_client = cid, at_scope = scope,
     at_iat = now_sec now, at_exp = now_sec now + ACCESS_TOKEN_TTL\<rparr>"

section \<open>POST /token\<close>

datatype token_error =
    UnsupportedGrant
  | InvalidClient client_auth
  | InvalidGrant string
  | AccessDenied
  | Unavailable
  | ServerError

record tokens =
  tk_id :: id_token
  tk_access :: access_token

text \<open>The claims the scopes ask for, and the identity they are read from.\<close>

definition name_claims :: "string list \<Rightarrow> identity option \<Rightarrow> (string \<times> string) option \<times> string option" where
  "name_claims scopes i = (case i of
      Some i \<Rightarrow> if ''profile'' \<in> set scopes then (Some (i_display_name i, i_username i), some_text (i_avatar i)) else (None, None)
    | None \<Rightarrow> (None, None))"

definition email_claims :: "string list \<Rightarrow> identity option \<Rightarrow> (string option \<times> bool) option" where
  "email_claims scopes i = (case i of
      Some i \<Rightarrow> if ''email'' \<in> set scopes then Some (i_email i, i_email_verified i) else None
    | None \<Rightarrow> None)"

text \<open>Recording the client under the session, and the session's durability.\<close>

definition join_session :: "string \<Rightarrow> string \<Rightarrow> sso \<Rightarrow> sso" where
  "join_session sid cid s = s\<lparr>sessions := tmap (\<lambda>k r. if k = sid \<and> cid \<notin> set (se_clients r)
     then r\<lparr>se_clients := se_clients r @ [cid]\<rparr> else r) (sessions s)\<rparr>"

definition session_claims :: "string \<Rightarrow> sso \<Rightarrow> (bool \<times> int) option" where
  "session_claims sid s = (case tget (sessions s) sid of
      None \<Rightarrow> None
    | Some r \<Rightarrow> let w = get_session_windows (core s)
        in Some (se_persistent r, epoch_sec (se_created_at r) + (if se_persistent r then w_max w else w_transient w) * 3600))"

definition role_claims :: "db \<Rightarrow> string \<Rightarrow> string \<Rightarrow> token_error + (int option \<times> string \<times> string) option" where
  "role_claims d cid sub = (case read_access_snapshot d cid [sub] of
      Inl _ \<Rightarrow> Inl Unavailable
    | Inr snap \<Rightarrow>
        (case sn_states snap of
           [st] \<Rightarrow> if \<not> as_allowed st then Inl AccessDenied
             else if as_catalog_synced st
             then (case sn_authority snap of None \<Rightarrow> Inl Unavailable
                | Some (epoch, revision) \<Rightarrow> Inr (Some (as_role_id st, epoch, revision)))
             else Inr None
         | _ \<Rightarrow> Inl AccessDenied))"

text \<open>\<open>code\<close> and \<open>code_verifier\<close>: a value that is no string is turned into text, or makes the hash throw.\<close>

definition body_code :: "json option \<Rightarrow> string" where
  "body_code v = (case v of None \<Rightarrow> [] | Some JNull \<Rightarrow> [] | Some w \<Rightarrow> js_string w)"

definition pkce_check :: "(string \<Rightarrow> string) \<Rightarrow> json option \<Rightarrow> string \<Rightarrow> token_error option" where
  "pkce_check s256 v challenge =
    (if \<not> truthy v then Some (InvalidGrant ''PKCE verification failed'')
     else (case v of
         Some (JStr t) \<Rightarrow> if s256 t \<noteq> challenge then Some (InvalidGrant ''PKCE verification failed'') else None
       | _ \<Rightarrow> Some ServerError))"

text \<open>The part after the code has been redeemed for its client.\<close>

definition issue_tokens :: "string \<Rightarrow> int \<Rightarrow> string \<Rightarrow> auth_code \<Rightarrow> sso \<Rightarrow> (token_error + tokens) \<times> sso" where
  "issue_tokens issuer now cid c s =
    (let scopes = split_on (CHR '' '') (co_scope c);
         i = (if ''profile'' \<in> set scopes \<or> ''email'' \<in> set scopes then tget (identities (core s)) (co_user c) else None);
         s = (if co_sid c \<noteq> [] then join_session (co_sid c) cid s else s);
         sess = (if co_sid c \<noteq> [] then session_claims (co_sid c) s else None)
     in (case role_claims (core s) cid (co_user c) of
           Inl e \<Rightarrow> (Inl e, s)
         | Inr role \<Rightarrow>
             let claims = \<lparr>tc_name = fst (name_claims scopes i), tc_picture = snd (name_claims scopes i),
                   tc_email = email_claims scopes i, tc_site_name = setting_or (core s) ''site_name'' ''DreamSSO'',
                   tc_session = sess, tc_app_role = role\<rparr>
             in (Inr \<lparr>tk_id = mint_id_token issuer now c cid claims,
                      tk_access = mint_access_token issuer now (co_user c) cid (co_scope c)\<rparr>, s)))"

definition token_request ::
  "externals \<Rightarrow> (string \<Rightarrow> string) \<Rightarrow> string \<Rightarrow> int \<Rightarrow> (string \<times> json) list \<Rightarrow> sso \<Rightarrow> (token_error + tokens) \<times> sso" where
  "token_request x s256 issuer now b s =
    (if jmember b ''grant_type'' \<noteq> Some (JStr ''authorization_code'') then (Inl UnsupportedGrant, s)
     else (case token_client x (core s) b of
         Inl e \<Rightarrow> (Inl (InvalidClient e), s)
       | Inr cid \<Rightarrow>
           (case consume_code now (body_code (jmember b ''code'')) s of
              (None, s) \<Rightarrow> (Inl (InvalidGrant ''code invalid or expired''), s)
            | (Some c, s) \<Rightarrow>
                if co_client c \<noteq> cid then (Inl (InvalidGrant ''client mismatch''), s)
                else if jmember b ''redirect_uri'' \<noteq> Some (JStr (co_redirect_uri c)) then (Inl (InvalidGrant ''redirect_uri mismatch''), s)
                else (case pkce_check s256 (jmember b ''code_verifier'') (co_challenge c) of
                    Some e \<Rightarrow> (Inl e, s)
                  | None \<Rightarrow> issue_tokens issuer now cid c s))))"

section \<open>GET /userinfo\<close>

record user_info =
  ui_sub :: string
  ui_name :: "(string \<times> string) option"
  ui_picture :: "string option"
  ui_email :: "(string option \<times> bool) option"

definition userinfo :: "externals \<Rightarrow> string option \<Rightarrow> sso \<Rightarrow> user_info option" where
  "userinfo x authorization s = (case bearer_token authorization of
      None \<Rightarrow> None
    | Some t \<Rightarrow> (case x_access x t of
        None \<Rightarrow> None
      | Some (sub, scope) \<Rightarrow> (case tget (identities (core s)) (lower sub) of
          None \<Rightarrow> None
        | Some i \<Rightarrow>
            let scopes = split_on (CHR '' '') (case scope of None \<Rightarrow> [] | Some JNull \<Rightarrow> [] | Some v \<Rightarrow> js_string v)
            in Some \<lparr>ui_sub = lower sub, ui_name = fst (name_claims scopes (Some i)), ui_picture = snd (name_claims scopes (Some i)),
                 ui_email = email_claims scopes (Some i)\<rparr>)))"

end
