(* ===== verification/Ceremony.thy ===== *)
theory Ceremony
  imports Token
begin

text \<open>
  What the self-service ceremonies share: the shape of identifiers and passwords
  (\<open>src/routes/reset.ts\<close>, \<open>register.ts\<close>, \<open>security.ts\<close>), the portal's client assertion, the one-time
  login tickets and the two send limiters (\<open>src/passwordReset.ts\<close>, \<open>src/registration.ts\<close>), which
  share the interface \<open>send_limiter\<close>.
\<close>

section \<open>Shapes\<close>

text \<open>\<open>/^[^\s@]+@[^\s@]+\.[^\s@]+$/\<close>.\<close>

definition email_shape :: "string \<Rightarrow> bool" where
  "email_shape e = (case split_on (CHR ''@'') e of
      [l, host] \<Rightarrow> l \<noteq> [] \<and> list_all (\<lambda>c. \<not> is_ws c) e
        \<and> list_ex (\<lambda>i. 0 < i \<and> Suc i < length host \<and> host ! i = CHR ''.'') [0..<length host]
    | _ \<Rightarrow> False)"

definition valid_email :: "string \<Rightarrow> bool" where
  "valid_email e = (email_shape e \<and> length e \<le> 254)"

definition username_char :: "char \<Rightarrow> bool" where
  "username_char c = (is_alnum c \<or> c = CHR ''_'' \<or> c = CHR ''-'')"

definition valid_username :: "string \<Rightarrow> bool" where
  "valid_username u = (3 \<le> length u \<and> length u \<le> 20 \<and> list_all username_char u)"

definition identifier_ok :: "string \<Rightarrow> bool" where
  "identifier_ok s = (if CHR ''@'' \<in> set s then length s \<le> 254 \<and> email_shape s else valid_username s)"

definition is_upper :: "char \<Rightarrow> bool" where
  "is_upper c = (let n = of_char c :: nat in 65 \<le> n \<and> n \<le> 90)"

definition is_lower :: "char \<Rightarrow> bool" where
  "is_lower c = (let n = of_char c :: nat in 97 \<le> n \<and> n \<le> 122)"

definition password_complexity_ok :: "string \<Rightarrow> bool" where
  "password_complexity_ok pw =
    (8 \<le> length pw \<and>
     3 \<le> (if list_ex is_upper pw then 1 else 0 :: nat) + (if list_ex is_lower pw then 1 else 0)
       + (if list_ex is_digit pw then 1 else 0)
       + (if list_ex (\<lambda>c. \<not> (is_upper c \<or> is_lower c \<or> is_digit c)) pw then 1 else 0))"

definition strong_password :: "string \<Rightarrow> bool" where
  "strong_password pw = (\<not> list_ex is_ws pw \<and> password_complexity_ok pw)"

section \<open>Answers of the machine endpoints\<close>

text \<open>\<open>res.status(n).json({ error, \<dots> })\<close>, field errors, an empty answer, and a JSON answer.\<close>

datatype api =
    ApiFail nat string "(string \<times> json) list"
  | FieldErrors nat "(string \<times> string) list"
  | NoContent
  | Answer "(string \<times> json) list"

definition refuse :: "nat \<Rightarrow> string \<Rightarrow> api" where
  "refuse status err = ApiFail status err []"

section \<open>The portal's assertion\<close>

definition portal_assertion :: "externals \<Rightarrow> string \<Rightarrow> db \<Rightarrow> (string \<times> json) list \<Rightarrow> bool" where
  "portal_assertion x portal d b =
    (jmember b ''client_assertion_type'' = Some (JStr JWT_BEARER)
     \<and> (case jmember b ''client_assertion'' of
          Some (JStr a) \<Rightarrow> (case enabled_client d portal of
              Inl _ \<Rightarrow> False | Inr _ \<Rightarrow> x_has_keys x portal \<and> x_client_jwt x portal a)
        | _ \<Rightarrow> False))"

definition mail_configured :: "db \<Rightarrow> bool" where
  "mail_configured d = (get_setting d ''mail_from'' \<noteq> None \<and> get_setting d ''cf_account_id'' \<noteq> None
     \<and> has_setting d ''cf_api_token'')"

definition site_name :: "db \<Rightarrow> string" where
  "site_name d = setting_or d ''site_name'' ''DreamSSO''"

section \<open>Login tickets\<close>

definition TICKET_TTL :: int where "TICKET_TTL = 60"

definition mint_login_ticket :: "externals \<Rightarrow> int \<Rightarrow> login_ticket \<Rightarrow> sso \<Rightarrow> string \<times> sso" where
  "mint_login_ticket x now t s =
    (case draw x s of (ticket, s) \<Rightarrow>
      (ticket, s\<lparr>login_tickets := rset_ex now (x_sha256 x ticket) t TICKET_TTL (login_tickets s)\<rparr>))"

definition token_length_ok :: "string \<Rightarrow> bool" where
  "token_length_ok t = (20 \<le> length t \<and> length t \<le> 100)"

definition redeem_login_ticket :: "externals \<Rightarrow> int \<Rightarrow> string \<Rightarrow> sso \<Rightarrow> login_ticket option \<times> sso" where
  "redeem_login_ticket x now ticket s =
    (if \<not> token_length_ok ticket then (None, s)
     else (case rgetdel now (x_sha256 x ticket) (login_tickets s) of (t, m) \<Rightarrow> (t, s\<lparr>login_tickets := m\<rparr>)))"

text \<open>\<open>GET /reset/complete\<close> and \<open>GET /welcome\<close>: the ticket becomes a session and a local transaction in
  the "stay signed in" phase, which ends at the portal's login.\<close>

definition ticket_txn :: "db \<Rightarrow> string \<Rightarrow> txn_kmsi \<Rightarrow> login_txn" where
  "ticket_txn d portal k =
    (let next' = setting_or d ''account_portal_url'' portal @ ''/auth/login'' in
     \<lparr>tx_client = [], tx_redirect_uri = next', tx_state = None, tx_nonce = None, tx_challenge = [],
      tx_challenge_method = [], tx_scope = [], tx_acr_values = None, tx_client_name = Some (site_name d),
      tx_local_next = Some next', tx_passkey = None, tx_mfa = None, tx_kmsi = Some k, tx_csrf = []\<rparr>)"

definition complete_ticket :: "externals \<Rightarrow> string \<Rightarrow> int \<Rightarrow> request \<Rightarrow> sso \<Rightarrow> reply \<times> sso" where
  "complete_ticket x portal now rq s =
    (case redeem_login_ticket x now (qstr (query_of rq ''ticket'')) s of
       (None, s) \<Rightarrow> (showing (ErrorPage 400 ''ticket_expired''), s)
     | (Some t, s) \<Rightarrow>
         let (sid, ck, s) = create_session x now
               \<lparr>ns_user = lt_sub t, ns_amr = lt_amr t, ns_acr = Some (lt_acr t), ns_ip = rq_ip rq,
                ns_user_agent = Some (case tget (rq_headers rq) ''user-agent'' of None \<Rightarrow> [] | Some v \<Rightarrow> v),
                ns_country = geo_header rq ''cf-ipcountry'', ns_city = geo_header rq ''cf-ipcity'',
                ns_region = geo_header rq ''cf-region''\<rparr> s;
             k = \<lparr>tk_sid = sid, tk_sub = lt_sub t, tk_user_label = lt_label t, tk_amr = lt_amr t, tk_acr = lt_acr t,
                  tk_auth_time = now_sec now\<rparr>;
             (ident, s) = create_txn x now (ticket_txn (core s) portal k) s
         in (\<lparr>rp_page = ToLogin ident, rp_cookie = Some ck\<rparr>, s))"

text \<open>\<open>GET /welcome\<close>, after a registration, is the same handler with another text on its error page.\<close>

definition welcome_page :: "externals \<Rightarrow> string \<Rightarrow> int \<Rightarrow> request \<Rightarrow> sso \<Rightarrow> reply \<times> sso" where
  "welcome_page x portal now rq s = complete_ticket x portal now rq s"

section \<open>Send limiters\<close>

text \<open>The two Lua scripts.  A missing hash field reads as zero; times are seconds.\<close>

definition WINDOW :: int where "WINDOW = 24 * 3600"
definition RESET_MAX_SENDS :: int where "RESET_MAX_SENDS = 3"
definition RESET_COOLDOWN :: int where "RESET_COOLDOWN = 120"
definition REG_MAX_SENDS :: int where "REG_MAX_SENDS = 5"
definition BACKOFFS :: "int list" where "BACKOFFS = [0, 60, 120, 180, 240]"

definition slot_at :: "int \<Rightarrow> string \<Rightarrow> send_slot redis \<Rightarrow> send_slot" where
  "slot_at now k m = (case rget now m k of Some e \<Rightarrow> e | None \<Rightarrow> \<lparr>sl_first = None, sl_count = 0, sl_last = None\<rparr>)"

definition num :: "int option \<Rightarrow> int" where
  "num v = (case v of None \<Rightarrow> 0 | Some n \<Rightarrow> n)"

definition open_window :: "int \<Rightarrow> send_slot \<Rightarrow> bool" where
  "open_window now e = (0 < sl_count e \<and> now_sec now - num (sl_first e) < WINDOW)"

definition fresh_slot :: "int \<Rightarrow> string \<Rightarrow> send_slot redis \<Rightarrow> send_slot redis" where
  "fresh_slot now k m = rset_ex now k \<lparr>sl_first = Some (now_sec now), sl_count = 1, sl_last = Some (now_sec now)\<rparr> WINDOW m"

definition book_slot :: "int \<Rightarrow> string \<Rightarrow> send_slot redis \<Rightarrow> send_slot redis" where
  "book_slot now k m = (let e = slot_at now k m in
     rset_keepttl now k (e\<lparr>sl_count := sl_count e + 1, sl_last := Some (now_sec now)\<rparr>) m)"

definition reserve_reset_send :: "int \<Rightarrow> string \<Rightarrow> send_slot redis \<Rightarrow> bool \<times> send_slot redis" where
  "reserve_reset_send now email m =
    (let k = lower email; e = slot_at now k m in
     if open_window now e then
       (if sl_count e \<ge> RESET_MAX_SENDS then (False, m)
        else if now_sec now - num (sl_last e) < RESET_COOLDOWN then (False, m)
        else (True, book_slot now k m))
     else (True, fresh_slot now k m))"

datatype reservation = Reserved int | Denied int bool

definition backoff_at :: "int \<Rightarrow> int" where
  "backoff_at n = BACKOFFS ! nat (min n (REG_MAX_SENDS - 1))"

definition reserve_registration_send :: "int \<Rightarrow> string \<Rightarrow> send_slot redis \<Rightarrow> reservation \<times> send_slot redis" where
  "reserve_registration_send now email m =
    (let k = lower email; e = slot_at now k m; n = now_sec now in
     if open_window now e then
       (if sl_count e \<ge> REG_MAX_SENDS then (Denied (max 1 (num (sl_first e) + WINDOW - n)) False, m)
        else if n - num (sl_last e) < backoff_at (sl_count e)
        then (Denied (max 1 (backoff_at (sl_count e) - (n - num (sl_last e)))) True, m)
        else (Reserved (backoff_at (sl_count e + 1)), book_slot now k m))
     else (Reserved (backoff_at 1), fresh_slot now k m))"

definition release_send :: "int \<Rightarrow> string \<Rightarrow> send_slot redis \<Rightarrow> send_slot redis" where
  "release_send now email m = (let k = lower email; e = slot_at now k m in
     rset_keepttl now k (e\<lparr>sl_count := max 0 (sl_count e - 1), sl_last := None\<rparr>) m)"

section \<open>The interface of a send limiter\<close>

text \<open>
  What the flows rely on: within an interval that starts at second \<open>t0\<close> and is no longer than the
  window, \<open>left\<close> is a budget that every granted reservation uses up and only a release gives back.
  The bound it yields is twice the cap, not the cap: the window is fixed at the first send, so an
  interval can see the end of one window and the start of the next.
\<close>

locale send_limiter =
  fixes reserve :: "int \<Rightarrow> string \<Rightarrow> 's \<Rightarrow> bool \<times> 's"
    and release :: "int \<Rightarrow> string \<Rightarrow> 's \<Rightarrow> 's"
    and ok :: "'s \<Rightarrow> bool"
    and left :: "int \<Rightarrow> string \<Rightarrow> 's \<Rightarrow> int"
    and cap :: int and window :: int
  assumes left_range: "ok s \<Longrightarrow> 0 \<le> left t0 k s \<and> left t0 k s \<le> 2 * cap"
    and reserve_ok: "ok s \<Longrightarrow> ok (snd (reserve now k s))"
    and release_ok: "ok s \<Longrightarrow> ok (release now k s)"
    and granted: "ok s \<Longrightarrow> t0 \<le> now_sec now \<Longrightarrow> now_sec now < t0 + window \<Longrightarrow> fst (reserve now k s) \<Longrightarrow>
      left t0 k (snd (reserve now k s)) + 1 \<le> left t0 k s"
    and refused: "\<not> fst (reserve now k s) \<Longrightarrow> snd (reserve now k s) = s"
    and others: "lower j \<noteq> lower k \<Longrightarrow> left t0 k (snd (reserve now j s)) = left t0 k s \<and> left t0 k (release now j s) = left t0 k s"
    and released: "ok s \<Longrightarrow> t0 \<le> now_sec now \<Longrightarrow> now_sec now < t0 + window \<Longrightarrow> left t0 k (release now k s) \<le> left t0 k s + 1"
    and same_key: "lower j = lower k \<Longrightarrow> reserve now j s = reserve now k s \<and> release now j s = release now k s"
begin

text \<open>A history of reservations (\<open>True\<close>) and releases (\<open>False\<close>), and the sends it lets through for a key.\<close>

fun book :: "(int \<times> string \<times> bool) list \<Rightarrow> 's \<Rightarrow> 's" where
  "book [] s = s"
| "book ((now, j, b) # ops) s = book ops (if b then snd (reserve now j s) else release now j s)"

fun sent :: "string \<Rightarrow> (int \<times> string \<times> bool) list \<Rightarrow> 's \<Rightarrow> int" where
  "sent k [] s = 0"
| "sent k ((now, j, b) # ops) s =
    (if b then (if lower j = lower k \<and> fst (reserve now j s) then 1 else 0) + sent k ops (snd (reserve now j s))
     else (if lower j = lower k then -1 else 0) + sent k ops (release now j s))"

lemma sent_budget:
  "ok s \<Longrightarrow> \<forall>(now, j, b) \<in> set ops. t0 \<le> now_sec now \<and> now_sec now < t0 + window \<Longrightarrow>
     sent k ops s + left t0 k (book ops s) \<le> left t0 k s \<and> ok (book ops s)"
proof (induction ops arbitrary: s)
  case Nil
  then show ?case by simp
next
  case (Cons q ops)
  obtain now j b where q: "q = (now, j, b)" by (cases q)
  have t: "t0 \<le> now_sec now" "now_sec now < t0 + window" using Cons.prems(2) q by auto
  let ?s = "if b then snd (reserve now j s) else release now j s"
  have ok': "ok ?s" using Cons.prems(1) by (simp add: reserve_ok release_ok)
  have rest: "sent k ops ?s + left t0 k (book ops ?s) \<le> left t0 k ?s \<and> ok (book ops ?s)"
    using Cons.IH [OF ok'] Cons.prems(2) by simp
  show ?case
  proof (cases "lower j = lower k")
    case False
    then show ?thesis using rest others [OF False, of t0 now s] by (auto simp: q split: if_splits)
  next
    case True
    note same = same_key [OF True, of now s]
    show ?thesis
    proof (cases b)
      case b: True
      show ?thesis
      proof (cases "fst (reserve now k s)")
        case True
        then show ?thesis using rest granted [OF Cons.prems(1) t True] same b \<open>lower j = lower k\<close> by (simp add: q)
      next
        case False
        then show ?thesis using rest refused [OF False] same b \<open>lower j = lower k\<close> by (simp add: q)
      qed
    next
      case b: False
      then show ?thesis using rest released [OF Cons.prems(1) t, of k] same True by (simp add: q)
    qed
  qed
qed

lemma sends_bounded:
  "ok s \<Longrightarrow> \<forall>(now, j, b) \<in> set ops. t0 \<le> now_sec now \<and> now_sec now < t0 + window \<Longrightarrow> sent k ops s \<le> 2 * cap"
  using sent_budget [of s ops t0 k] left_range [of s t0 k] left_range [of "book ops s" t0 k] by fastforce

end

section \<open>Both limiters provide it\<close>

definition slot_left :: "int \<Rightarrow> int \<Rightarrow> string \<Rightarrow> send_slot redis \<Rightarrow> int" where
  "slot_left cap t0 k m = (case tget m (lower k) of
      None \<Rightarrow> cap
    | Some (e, _) \<Rightarrow> (case sl_first e of None \<Rightarrow> cap
        | Some f \<Rightarrow> if t0 \<le> f then cap - sl_count e else 2 * cap - sl_count e))"

definition slot_ok :: "int \<Rightarrow> send_slot \<times> int option \<Rightarrow> bool" where
  "slot_ok cap q = (0 \<le> sl_count (fst q) \<and> sl_count (fst q) \<le> cap
     \<and> (case sl_first (fst q) of None \<Rightarrow> sl_count (fst q) = 0
        | Some f \<Rightarrow> (case snd q of None \<Rightarrow> True | Some t \<Rightarrow> (f + WINDOW) * 1000 \<le> t)))"

definition slots_ok :: "int \<Rightarrow> send_slot redis \<Rightarrow> bool" where
  "slots_ok cap m = (\<forall>k q. tget m k = Some q \<longrightarrow> slot_ok cap q)"

lemma slots_ok_tput: "slots_ok cap m \<Longrightarrow> slot_ok cap q \<Longrightarrow> slots_ok cap (tput k q m)"
  by (cases q) (simp add: slots_ok_def tget_tput)

text \<open>The slot of a key is its live entry, or empty.\<close>

lemma slot_at_cases:
  obtains (live) e d where "tget m k = Some (e, d)" and "live_entry now (e, d)" and "slot_at now k m = e"
  | (gone) "rget now m k = None" and "slot_at now k m = \<lparr>sl_first = None, sl_count = 0, sl_last = None\<rparr>"
proof (cases "rget now m k")
  case None
  then show ?thesis using gone by (simp add: slot_at_def)
next
  case (Some e)
  then obtain d where "tget m k = Some (e, d)" "live_entry now (e, d)"
    by (auto simp: rget_def split: option.splits if_splits)
  then show ?thesis using live Some by (simp add: slot_at_def)
qed

lemma keepttl_live: "tget m k = Some (e, d) \<Longrightarrow> live_entry now (e, d) \<Longrightarrow> rset_keepttl now k v m = tput k (v, d) m"
  by (simp add: rset_keepttl_def)

lemma keepttl_gone: "rget now m k = None \<Longrightarrow> rset_keepttl now k v m = tput k (v, None) m"
  by (auto simp: rset_keepttl_def rget_def split: option.splits if_splits)

lemma now_sec_bounds: "now_sec now * 1000 \<le> now \<and> now < now_sec now * 1000 + 1000"
  by (simp add: now_sec_def) presburger

text \<open>A slot opened inside the interval is still live inside it.\<close>

lemma slot_still_live:
  assumes "slot_ok cap (e, d)" and "sl_first e = Some f" and "t0 \<le> f" and "now_sec now < t0 + WINDOW"
  shows "live_entry now (e, d)"
  using assms now_sec_bounds [of now] by (auto simp: slot_ok_def live_entry_def split: option.splits)

lemma fresh_slot_ok: "1 \<le> cap \<Longrightarrow> slots_ok cap m \<Longrightarrow> slots_ok cap (fresh_slot now k m)"
  using now_sec_bounds [of now]
  by (auto simp: fresh_slot_def rset_ex_def slot_ok_def intro!: slots_ok_tput)

lemma fresh_slot_left:
  assumes "slots_ok cap m" and "\<not> open_window now (slot_at now (lower k) m)" and "t0 \<le> now_sec now" and "now_sec now < t0 + WINDOW"
  shows "slot_left cap t0 k (fresh_slot now (lower k) m) + 1 \<le> slot_left cap t0 k m"
proof -
  have new: "slot_left cap t0 k (fresh_slot now (lower k) m) = cap - 1"
    using assms(3) by (simp add: slot_left_def fresh_slot_def rset_ex_def tget_tput)
  show ?thesis
  proof (cases "tget m (lower k)")
    case None
    then show ?thesis using new by (simp add: slot_left_def)
  next
    case (Some q)
    obtain e d where q: "q = (e, d)" by (cases q)
    have ok: "slot_ok cap (e, d)" using assms(1) Some q by (simp add: slots_ok_def)
    show ?thesis
    proof (cases "sl_first e")
      case None
      then show ?thesis using new Some q by (simp add: slot_left_def)
    next
      case (Some f)
      show ?thesis
      proof (cases "t0 \<le> f")
        case True
        then have "live_entry now (e, d)" using slot_still_live [OF ok Some True assms(4)] by simp
        then have "slot_at now (lower k) m = e" using \<open>tget m (lower k) = Some q\<close> q by (simp add: slot_at_def rget_def)
        then have "\<not> 0 < sl_count e" using assms(2,4) Some True by (simp add: open_window_def num_def)
        then show ?thesis using new ok \<open>tget m (lower k) = Some q\<close> q Some True by (simp add: slot_left_def slot_ok_def)
      next
        case False
        then show ?thesis using new ok \<open>tget m (lower k) = Some q\<close> q Some by (simp add: slot_left_def slot_ok_def)
      qed
    qed
  qed
qed

lemma book_slot_left:
  assumes "slots_ok cap m" and "open_window now (slot_at now (lower k) m)" and "sl_count (slot_at now (lower k) m) < cap"
  shows "slots_ok cap (book_slot now (lower k) m)" and "slot_left cap t0 k (book_slot now (lower k) m) + 1 \<le> slot_left cap t0 k m"
proof -
  have "slots_ok cap (book_slot now (lower k) m) \<and> slot_left cap t0 k (book_slot now (lower k) m) + 1 \<le> slot_left cap t0 k m"
  proof (cases rule: slot_at_cases [of m "lower k" now])
    case (live e d)
    then have ok: "slot_ok cap (e, d)" using assms(1) by (simp add: slots_ok_def)
    obtain f where f: "sl_first e = Some f" using ok assms(2) live by (auto simp: slot_ok_def open_window_def split: option.splits)
    let ?e = "e\<lparr>sl_count := sl_count e + 1, sl_last := Some (now_sec now)\<rparr>"
    have b: "book_slot now (lower k) m = tput (lower k) (?e, d) m"
      using live keepttl_live [OF live(1,2)] by (simp add: book_slot_def)
    have "slot_ok cap (?e, d)" using ok f assms(3) live(3) by (simp add: slot_ok_def)
    then have "slots_ok cap (book_slot now (lower k) m)" unfolding b by (rule slots_ok_tput [OF assms(1)])
    moreover have "slot_left cap t0 k (book_slot now (lower k) m) + 1 \<le> slot_left cap t0 k m"
      unfolding b using live(1) f by (simp add: slot_left_def tget_tput)
    ultimately show ?thesis by blast
  next
    case gone
    then show ?thesis using assms(2) by (simp add: open_window_def)
  qed
  then show "slots_ok cap (book_slot now (lower k) m)" "slot_left cap t0 k (book_slot now (lower k) m) + 1 \<le> slot_left cap t0 k m"
    by blast+
qed

lemma release_slot:
  assumes "1 \<le> cap" and "slots_ok cap m"
  shows "slots_ok cap (release_send now k m)"
    and "t0 \<le> now_sec now \<Longrightarrow> now_sec now < t0 + WINDOW \<Longrightarrow> slot_left cap t0 k (release_send now k m) \<le> slot_left cap t0 k m + 1"
proof -
  have "slots_ok cap (release_send now k m) \<and> (t0 \<le> now_sec now \<and> now_sec now < t0 + WINDOW \<longrightarrow>
      slot_left cap t0 k (release_send now k m) \<le> slot_left cap t0 k m + 1)"
  proof (cases rule: slot_at_cases [of m "lower k" now])
    case (live e d)
    then have ok: "slot_ok cap (e, d)" using assms(2) by (simp add: slots_ok_def)
    let ?e = "e\<lparr>sl_count := max 0 (sl_count e - 1), sl_last := None\<rparr>"
    have b: "release_send now k m = tput (lower k) (?e, d) m"
      using live keepttl_live [OF live(1,2)] by (simp add: release_send_def Let_def)
    have "slot_ok cap (?e, d)" using ok assms(1) by (auto simp: slot_ok_def split: option.splits)
    then have "slots_ok cap (release_send now k m)" unfolding b by (rule slots_ok_tput [OF assms(2)])
    moreover have "slot_left cap t0 k (release_send now k m) \<le> slot_left cap t0 k m + 1"
      unfolding b using live(1) by (auto simp: slot_left_def tget_tput split: option.splits)
    ultimately show ?thesis by blast
  next
    case gone
    let ?e = "\<lparr>sl_first = None, sl_count = 0, sl_last = None\<rparr> :: send_slot"
    have b: "release_send now k m = tput (lower k) (?e, None) m"
      using gone keepttl_gone [OF gone(1)] by (simp add: release_send_def Let_def)
    have "slots_ok cap (release_send now k m)"
      unfolding b by (rule slots_ok_tput [OF assms(2)]) (use assms(1) in \<open>simp add: slot_ok_def\<close>)
    moreover have "slot_left cap t0 k (release_send now k m) \<le> slot_left cap t0 k m + 1" if t: "now_sec now < t0 + WINDOW"
    proof (cases "tget m (lower k)")
      case None
      then show ?thesis unfolding b by (simp add: slot_left_def tget_tput)
    next
      case (Some q)
      obtain e d where q: "q = (e, d)" by (cases q)
      have ok: "slot_ok cap (e, d)" using assms(2) Some q by (simp add: slots_ok_def)
      have dead: "\<not> live_entry now (e, d)" using gone(1) Some q by (auto simp: rget_def)
      show ?thesis unfolding b using Some q ok slot_still_live [OF ok _ _ t] dead
        by (auto simp: slot_left_def tget_tput slot_ok_def split: option.splits if_splits)
    qed
    ultimately show ?thesis by blast
  qed
  then show "slots_ok cap (release_send now k m)"
    "t0 \<le> now_sec now \<Longrightarrow> now_sec now < t0 + WINDOW \<Longrightarrow> slot_left cap t0 k (release_send now k m) \<le> slot_left cap t0 k m + 1"
    by blast+
qed

lemma slot_left_range: "1 \<le> cap \<Longrightarrow> slots_ok cap m \<Longrightarrow> 0 \<le> slot_left cap t0 k m \<and> slot_left cap t0 k m \<le> 2 * cap"
  by (fastforce simp: slots_ok_def slot_ok_def slot_left_def split: option.splits)

lemma slot_left_other: "j \<noteq> lower k \<Longrightarrow> slot_left cap t0 k (tput j q m) = slot_left cap t0 k m"
  by (simp add: slot_left_def tget_tput)

lemma slot_updates:
  "\<exists>q. fresh_slot now j m = tput j q m" "\<exists>q. book_slot now j m = tput j q m" "\<exists>q. release_send now i m = tput (lower i) q m"
  by (auto simp: fresh_slot_def rset_ex_def book_slot_def release_send_def rset_keepttl_def Let_def split: option.splits)

lemma slot_frame:
  "j \<noteq> lower k \<Longrightarrow> slot_left cap t0 k (fresh_slot now j m) = slot_left cap t0 k m"
  "j \<noteq> lower k \<Longrightarrow> slot_left cap t0 k (book_slot now j m) = slot_left cap t0 k m"
  "lower i \<noteq> lower k \<Longrightarrow> slot_left cap t0 k (release_send now i m) = slot_left cap t0 k m"
  using slot_updates(1) [of now j m] slot_updates(2) [of now j m] slot_updates(3) [of now i m] by (auto simp: slot_left_other)

definition granted_registration :: "int \<Rightarrow> string \<Rightarrow> send_slot redis \<Rightarrow> bool \<times> send_slot redis" where
  "granted_registration now k m = (case reserve_registration_send now k m of (r, m) \<Rightarrow> (\<exists>n. r = Reserved n, m))"

interpretation reset_sends: send_limiter reserve_reset_send release_send "slots_ok RESET_MAX_SENDS"
  "slot_left RESET_MAX_SENDS" RESET_MAX_SENDS WINDOW
proof (unfold_locales, goal_cases)
  case (1 s t0 k)
  then show ?case using slot_left_range [of RESET_MAX_SENDS s t0 k] by (simp add: RESET_MAX_SENDS_def)
next
  case (2 s now k)
  then show ?case using fresh_slot_ok [of RESET_MAX_SENDS] book_slot_left(1)
    by (auto simp: reserve_reset_send_def Let_def RESET_MAX_SENDS_def)
next
  case (3 s now k)
  then show ?case using release_slot(1) by (simp add: RESET_MAX_SENDS_def)
next
  case (4 s t0 now k)
  then show ?case using fresh_slot_left [of RESET_MAX_SENDS s now k t0] book_slot_left(2) [of RESET_MAX_SENDS s now k t0]
    by (auto simp: reserve_reset_send_def Let_def split: if_splits)
next
  case (5 now k s)
  then show ?case by (auto simp: reserve_reset_send_def Let_def split: if_splits)
next
  case (6 j k t0 now s)
  then show ?case by (simp add: reserve_reset_send_def Let_def slot_frame)
next
  case (7 s t0 now k)
  then show ?case using release_slot(2) by (simp add: RESET_MAX_SENDS_def)
next
  case (8 j k now s)
  then show ?case by (simp add: reserve_reset_send_def release_send_def)
qed

interpretation registration_sends: send_limiter granted_registration release_send "slots_ok REG_MAX_SENDS"
  "slot_left REG_MAX_SENDS" REG_MAX_SENDS WINDOW
proof (unfold_locales, goal_cases)
  case (1 s t0 k)
  then show ?case using slot_left_range [of REG_MAX_SENDS s t0 k] by (simp add: REG_MAX_SENDS_def)
next
  case (2 s now k)
  then show ?case using fresh_slot_ok [of REG_MAX_SENDS] book_slot_left(1)
    by (auto simp: granted_registration_def reserve_registration_send_def Let_def REG_MAX_SENDS_def)
next
  case (3 s now k)
  then show ?case using release_slot(1) by (simp add: REG_MAX_SENDS_def)
next
  case (4 s t0 now k)
  then show ?case using fresh_slot_left [of REG_MAX_SENDS s now k t0] book_slot_left(2) [of REG_MAX_SENDS s now k t0]
    by (auto simp: granted_registration_def reserve_registration_send_def Let_def split: if_splits)
next
  case (5 now k s)
  then show ?case by (auto simp: granted_registration_def reserve_registration_send_def Let_def split: if_splits)
next
  case (6 j k t0 now s)
  then show ?case by (simp add: granted_registration_def reserve_registration_send_def Let_def slot_frame)
next
  case (7 s t0 now k)
  then show ?case using release_slot(2) by (simp add: REG_MAX_SENDS_def)
next
  case (8 j k now s)
  then show ?case by (simp add: granted_registration_def reserve_registration_send_def release_send_def)
qed

end
