(* ===== verification/Registration.thy ===== *)
theory Registration
  imports Ceremony
begin

text \<open>
  Self-serve registration (\<open>src/registration.ts\<close>, \<open>src/registrationRole.ts\<close>,
  \<open>src/routes/register.ts\<close>): invitation codes, the one pending registration of an address, and the
  handlers from the first form to the account and its login ticket.
\<close>

section \<open>Pending registrations\<close>

definition PENDING_TTL :: int where "PENDING_TTL = 30 * 60"
definition PENDING_REUSE :: int where "PENDING_REUSE = 5 * 60"

definition get_pending :: "int \<Rightarrow> string \<Rightarrow> sso \<Rightarrow> pending_registration option" where
  "get_pending now email s = rget now (reg_pending s) (lower email)"

definition issue_pending :: "externals \<Rightarrow> int \<Rightarrow> string \<Rightarrow> string option \<Rightarrow> sso \<Rightarrow> string \<times> sso" where
  "issue_pending x now email code s =
    (let n = now_sec now;
         fresh = (case draw x s of (token, s) \<Rightarrow>
           (token, s\<lparr>reg_pending := rset_ex now (lower email)
              \<lparr>pr_token = token, pr_code = code, pr_created_at = n, pr_last_sent = n\<rparr> PENDING_TTL (reg_pending s)\<rparr>))
     in case get_pending now email s of
          Some p \<Rightarrow>
            if pr_code p = code \<and> n - pr_last_sent p < PENDING_REUSE
            then (pr_token p, s\<lparr>reg_pending := rset_keepttl now (lower email) (p\<lparr>pr_last_sent := n\<rparr>) (reg_pending s)\<rparr>)
            else fresh
        | None \<Rightarrow> fresh)"

definition validate_pending :: "externals \<Rightarrow> int \<Rightarrow> string \<Rightarrow> string \<Rightarrow> sso \<Rightarrow> pending_registration option" where
  "validate_pending x now email token s =
    (if length token < 32 \<or> 128 < length token then None
     else (case get_pending now email s of
         None \<Rightarrow> None
       | Some p \<Rightarrow> if x_sha256 x (pr_token p) = x_sha256 x token then Some p else None))"

definition drop_pending :: "string \<Rightarrow> sso \<Rightarrow> sso" where
  "drop_pending email s = s\<lparr>reg_pending := rdel (lower email) (reg_pending s)\<rparr>"

definition pending_email_exists :: "int \<Rightarrow> string \<Rightarrow> sso \<Rightarrow> bool" where
  "pending_email_exists now email s = rexists now (reg_pending s) (lower email)"

text \<open>\<open>changePendingForAddress\<close> (\<open>src/emailChange.ts\<close>) and the union of both reservations.\<close>

definition change_pending_for_address :: "int \<Rightarrow> string \<Rightarrow> sso \<Rightarrow> bool" where
  "change_pending_for_address now email s = rexists now (email_change_addrs s) (lower email)"

definition email_reserved :: "int \<Rightarrow> string \<Rightarrow> sso \<Rightarrow> bool" where
  "email_reserved now email s = (pending_email_exists now email s \<or> change_pending_for_address now email s)"

section \<open>Invitation codes\<close>

definition MAX_CODE_USES :: nat where "MAX_CODE_USES = 3"

definition code_shape :: "string \<Rightarrow> bool" where
  "code_shape c = (length c = 12 \<and> list_all (\<lambda>ch. is_upper ch \<or> is_digit ch) c)"

definition live_invite :: "int \<Rightarrow> invite \<Rightarrow> bool" where
  "live_invite now v = (iv_used_by v = None \<and> iv_voided_at v = None \<and> iv_expires_at v > now)"

definition get_live_invite :: "int \<Rightarrow> string \<Rightarrow> sso \<Rightarrow> invite option" where
  "get_live_invite now code s =
    (if \<not> code_shape code then None
     else (case tget (invites s) code of
         Some v \<Rightarrow> if live_invite now v then Some v else None
       | None \<Rightarrow> None))"

definition update_invite :: "string \<Rightarrow> (invite \<Rightarrow> bool) \<Rightarrow> (invite \<Rightarrow> invite) \<Rightarrow> sso \<Rightarrow> sso" where
  "update_invite code P f s = s\<lparr>invites := tmap (\<lambda>k v. if k = code \<and> P v then f v else v) (invites s)\<rparr>"

definition unspent :: "invite \<Rightarrow> bool" where
  "unspent v = (iv_used_by v = None \<and> iv_voided_at v = None)"

definition void_invite :: "int \<Rightarrow> string \<Rightarrow> string option \<Rightarrow> sso \<Rightarrow> sso" where
  "void_invite now code pending s =
    (let s = (case pending of Some e \<Rightarrow> if e = [] then s else drop_pending e s | None \<Rightarrow> s)
     in update_invite code unspent
          (\<lambda>v. v\<lparr>iv_voided_at := Some now, iv_clear_at := Some (now + 24 * 60 * 60 * 1000),
                 iv_pending_email := None, iv_pending_at := None\<rparr>) s)"

datatype invite_use = Resend | Claimed | Voided

definition claim_invite_use :: "int \<Rightarrow> string \<Rightarrow> invite \<Rightarrow> string \<Rightarrow> sso \<Rightarrow> invite_use \<times> sso" where
  "claim_invite_use now code v email s =
    (if (case iv_pending_email v of Some e \<Rightarrow> e \<noteq> [] \<and> lower e = lower email | None \<Rightarrow> False)
     then (Resend, update_invite code (\<lambda>_. True) (\<lambda>v. v\<lparr>iv_pending_at := Some now\<rparr>) s)
     else if iv_use_count v \<ge> MAX_CODE_USES then (Voided, void_invite now code (iv_pending_email v) s)
     else
       let s = (case iv_pending_email v of Some e \<Rightarrow> if e = [] then s else drop_pending e s | None \<Rightarrow> s)
       in (Claimed, update_invite code (\<lambda>_. True)
            (\<lambda>v. v\<lparr>iv_use_count := iv_use_count v + 1, iv_pending_email := Some email, iv_pending_at := Some now\<rparr>) s))"

definition consume_invite :: "int \<Rightarrow> string \<Rightarrow> string \<Rightarrow> sso \<Rightarrow> bool \<times> sso" where
  "consume_invite now code sub s =
    (case tget (invites s) code of
       Some v \<Rightarrow> if unspent v
         then (True, update_invite code unspent
                (\<lambda>v. v\<lparr>iv_used_by := Some sub, iv_used_at := Some now, iv_clear_at := None,
                       iv_pending_email := None, iv_pending_at := None\<rparr>) s)
         else (False, s)
     | None \<Rightarrow> (False, s))"

definition sweep_invitations :: "int \<Rightarrow> sso \<Rightarrow> sso" where
  "sweep_invitations now s =
    s\<lparr>invites := tfilter (\<lambda>_ v. \<not> (case iv_clear_at v of None \<Rightarrow> False | Some t \<Rightarrow> t < now))
        (tmap (\<lambda>_ v. if (case iv_pending_at v of None \<Rightarrow> False | Some t \<Rightarrow> t < now - 40 * 60 * 1000)
                 then v\<lparr>iv_pending_email := None, iv_pending_at := None\<rparr> else v) (invites s))\<rparr>"

section \<open>Settings\<close>

definition registration_enabled :: "db \<Rightarrow> bool" where
  "registration_enabled d = (setting_or d ''enable_registration'' ''false'' = ''true'')"

definition invitation_required :: "db \<Rightarrow> bool" where
  "invitation_required d = (setting_or d ''require_invitation_code'' ''true'' = ''true'')"

text \<open>\<open>toUpperCase\<close>: the sharp s becomes two letters; what maps outside the units modelled is left.\<close>

definition upper :: "string \<Rightarrow> string" where
  "upper s = concat (map (\<lambda>c. let n = of_char c :: nat in
     if is_lower c \<or> 224 \<le> n \<and> n \<le> 254 \<and> n \<noteq> 247 then [char_of (n - 32)]
     else if n = 223 then ''SS'' else [c]) s)"

section \<open>The handlers\<close>

text \<open>The invitation of a request: refused, not needed, or a live code.\<close>

definition start_invite :: "int \<Rightarrow> string \<Rightarrow> sso \<Rightarrow> (api + (string \<times> invite) option)" where
  "start_invite now code s =
    (if invitation_required (core s) \<or> code \<noteq> [] then
       (case get_live_invite now code s of
          None \<Rightarrow> Inl (FieldErrors 422 [(''code'', ''invalid_code'')])
        | Some v \<Rightarrow> Inr (Some (code, v)))
     else Inr None)"

text \<open>From the reserved slot on: claim the code, issue the link, send it.\<close>

definition start_send :: "externals \<Rightarrow> int \<Rightarrow> string \<Rightarrow> (string \<times> invite) option \<Rightarrow> int \<Rightarrow> sso \<Rightarrow> api \<times> sso" where
  "start_send x now email held backoff s =
    (let (use, s) = (case held of None \<Rightarrow> (Claimed, s) | Some (code, v) \<Rightarrow> claim_invite_use now code v email s) in
     if use = Voided
     then (FieldErrors 422 [(''code'', ''invalid_code'')], s\<lparr>send_limits := release_send now email (send_limits s)\<rparr>)
     else
       let (token, s) = issue_pending x now email (map_option fst held) s;
           (sent, s) = send_email x email token s
       in if sent then (Answer [(''sent'', JBool True), (''resend_backoff'', JInt backoff)], s)
          else (refuse 503 ''send_failed'', s\<lparr>send_limits := release_send now email (send_limits s)\<rparr>))"

definition rate_limited :: "int \<Rightarrow> bool \<Rightarrow> api" where
  "rate_limited retry can = ApiFail 429 ''rate_limited'' [(''retry_after'', JInt retry), (''can_retry'', JBool can)]"

definition register_start :: "externals \<Rightarrow> string \<Rightarrow> int \<Rightarrow> (string \<times> json) list \<Rightarrow> sso \<Rightarrow> api \<times> sso" where
  "register_start x portal now b s =
    (if \<not> portal_assertion x portal (core s) b then (refuse 401 ''invalid_client'', s)
     else if \<not> registration_enabled (core s) then (refuse 403 ''registration_closed'', s)
     else
       let email = trim (qstr (jmember b ''email'')); code = upper (trim (qstr (jmember b ''code''))) in
       (case start_invite now code s of
          Inl e \<Rightarrow> (e, s)
        | Inr held \<Rightarrow>
            if \<not> valid_email email then (FieldErrors 422 [(''email'', ''invalid_email'')], s)
            else if email_taken (core s) email \<or> change_pending_for_address now email s
            then (FieldErrors 422 [(''email'', ''email_taken'')], s)
            else if \<not> mail_configured (core s) then (refuse 503 ''email_not_configured'', s)
            else
              (case reserve_registration_send now email (send_limits s) of
                 (Denied retry can, _) \<Rightarrow> (rate_limited retry can, s)
               | (Reserved backoff, limits) \<Rightarrow> start_send x now email held backoff (s\<lparr>send_limits := limits\<rparr>))))"

text \<open>The pending registration a link names.\<close>

definition body_pending :: "externals \<Rightarrow> int \<Rightarrow> (string \<times> json) list \<Rightarrow> sso \<Rightarrow> pending_registration option" where
  "body_pending x now b s = validate_pending x now (trim (qstr (jmember b ''email''))) (qstr (jmember b ''token'')) s"

definition invite_alive :: "int \<Rightarrow> pending_registration \<Rightarrow> sso \<Rightarrow> bool" where
  "invite_alive now p s = (case pr_code p of None \<Rightarrow> True | Some c \<Rightarrow> c = [] \<or> get_live_invite now c s \<noteq> None)"

definition register_validate :: "externals \<Rightarrow> string \<Rightarrow> int \<Rightarrow> (string \<times> json) list \<Rightarrow> sso \<Rightarrow> api" where
  "register_validate x portal now b s =
    (if \<not> portal_assertion x portal (core s) b then refuse 401 ''invalid_client''
     else if \<not> registration_enabled (core s) then refuse 403 ''registration_closed''
     else (case body_pending x now b s of
         None \<Rightarrow> refuse 422 ''invalid_token''
       | Some p \<Rightarrow> if invite_alive now p s then Answer [(''valid'', JBool True)] else refuse 422 ''invalid_token''))"

definition check_username :: "externals \<Rightarrow> string \<Rightarrow> int \<Rightarrow> (string \<times> json) list \<Rightarrow> sso \<Rightarrow> api" where
  "check_username x portal now b s =
    (if \<not> portal_assertion x portal (core s) b then refuse 401 ''invalid_client''
     else if body_pending x now b s = None then refuse 422 ''invalid_token''
     else let username = trim (qstr (jmember b ''username'')) in
       if \<not> valid_username username then FieldErrors 422 [(''username'', ''invalid_username'')]
       else Answer [(''available'', JBool (\<not> username_taken (core s) username))])"

definition shape_errors :: "string \<Rightarrow> string \<Rightarrow> string \<Rightarrow> (string \<times> string) list" where
  "shape_errors username display pw =
    (if valid_username username then [] else [(''username'', ''invalid_username'')])
    @ (if display = [] \<or> 100 < length display then [(''display_name'', ''invalid_display_name'')] else [])
    @ (if strong_password pw then [] else [(''password'', ''weak_password'')])"

definition taken_errors :: "db \<Rightarrow> string \<Rightarrow> string \<Rightarrow> (string \<times> string) list" where
  "taken_errors d username email =
    (if username_taken d username then [(''username'', ''username_taken'')] else [])
    @ (if email_taken d email then [(''email'', ''email_taken'')] else [])"

definition resolve_registration_role :: "db \<Rightarrow> string option \<Rightarrow> string" where
  "resolve_registration_role d invited = (case invited of
      Some r \<Rightarrow> if r \<noteq> [] then r else (case tget (settings d) ''default_org_role'' of
          Some v \<Rightarrow> or_string v ''standard_user'' | None \<Rightarrow> ''standard_user'')
    | None \<Rightarrow> (case tget (settings d) ''default_org_role'' of
          Some v \<Rightarrow> or_string v ''standard_user'' | None \<Rightarrow> ''standard_user''))"

text \<open>The transaction that creates the account: \<open>Inl\<close> is the rollback with its answer.\<close>

definition insert_account :: "string \<Rightarrow> identity \<Rightarrow> string option \<Rightarrow> db \<Rightarrow> api + string \<times> db" where
  "insert_account sub i invited d =
    (let role = resolve_registration_role d invited in
     if tget (identities d) sub \<noteq> None \<or> username_taken d (i_username i)
        \<or> (case i_email i of None \<Rightarrow> False | Some e \<Rightarrow> email_taken d e)
     then Inl (FieldErrors 422 [(''username'', ''username_taken'')])
     else if tget (org_roles d) role = None then Inl (refuse 500 ''internal_error'')
     else Inr (role, d\<lparr>identities := tput sub i (identities d), user_org_roles := tput sub role (user_org_roles d)\<rparr>))"

definition registered_identity :: "string \<Rightarrow> string \<Rightarrow> string \<Rightarrow> string \<Rightarrow> int \<Rightarrow> identity" where
  "registered_identity username display email h now =
    \<lparr>i_username = username, i_display_name = display, i_email = Some email, i_email_verified = True,
     i_password_hash = Some h, i_password_changed_at = Some now, i_mfa_enabled = False, i_avatar = None,
     i_status = Active, i_deleted_at = None\<rparr>"

definition registration_audit :: "string \<Rightarrow> string \<Rightarrow> string option \<Rightarrow> string \<Rightarrow> audit_row" where
  "registration_audit sub label code role =
    \<lparr>au_actor = Some sub, au_actor_label = label, au_target = None, au_target_label = None, au_action = ''user.register'',
     au_detail = JObj ((case code of None \<Rightarrow> [] | Some c \<Rightarrow> [(''invite'', JStr c)]) @ [(''role'', JStr role)])\<rparr>"

text \<open>What follows the commit: the invitation is spent, the pending registration goes, a ticket is minted.\<close>

definition finish_account ::
  "externals \<Rightarrow> string \<Rightarrow> int \<Rightarrow> string \<Rightarrow> identity \<Rightarrow> string \<Rightarrow> string option \<Rightarrow> string \<Rightarrow> sso \<Rightarrow> api \<times> sso" where
  "finish_account x issuer now sub i email code role s =
    (let s = (case code of Some c \<Rightarrow> if c = [] then s else snd (consume_invite now c sub s) | None \<Rightarrow> s);
         s = drop_pending email s;
         s = s\<lparr>core := (core s)\<lparr>org_audit_log := org_audit_log (core s)
               @ [registration_audit sub (i_display_name i @ '' ('' @ i_username i @ '')'') code role]\<rparr>\<rparr>;
         (ticket, s) = mint_login_ticket x now
           \<lparr>lt_sub = sub, lt_amr = [''email''], lt_acr = ''urn:dreamsso:1fa'', lt_label = display_label i\<rparr> s
     in (Answer [(''complete_url'', JStr (issuer @ ''/welcome?ticket='' @ ticket))], s))"

definition register_complete :: "externals \<Rightarrow> string \<Rightarrow> string \<Rightarrow> int \<Rightarrow> (string \<times> json) list \<Rightarrow> sso \<Rightarrow> api \<times> sso" where
  "register_complete x portal issuer now b s =
    (if \<not> portal_assertion x portal (core s) b then (refuse 401 ''invalid_client'', s)
     else if \<not> registration_enabled (core s) then (refuse 403 ''registration_closed'', s)
     else (case body_pending x now b s of
         None \<Rightarrow> (refuse 422 ''invalid_token'', s)
       | Some p \<Rightarrow>
           let email = trim (qstr (jmember b ''email'')); username = trim (qstr (jmember b ''username''));
               display = trim (qstr (jmember b ''display_name'')); pw = qstr (jmember b ''password'') in
           if shape_errors username display pw \<noteq> [] then (FieldErrors 422 (shape_errors username display pw), s)
           else if taken_errors (core s) username email \<noteq> [] then (FieldErrors 422 (taken_errors (core s) username email), s)
           else if \<not> invite_alive now p s then (refuse 409 ''invitation_gone'', s)
           else
             let invited = (case pr_code p of None \<Rightarrow> None
                   | Some c \<Rightarrow> (case get_live_invite now c s of None \<Rightarrow> None | Some v \<Rightarrow> iv_role v));
                 (sub, s) = draw x s;
                 h = x_argon2_hash x (draws s) pw; s = s\<lparr>draws := Suc (draws s)\<rparr>;
                 i = registered_identity username display email h now
             in (case insert_account sub i invited (core s) of
                   Inl e \<Rightarrow> (e, s)
                 | Inr (role, d) \<Rightarrow> finish_account x issuer now sub i email (pr_code p) role (s\<lparr>core := d\<rparr>))))"

end
