(* ===== verification/EmailChange.thy ===== *)
theory EmailChange
  imports Registration
begin

text \<open>
  Changing and confirming an address, and the username (\<open>src/emailChange.ts\<close>,
  \<open>src/routes/emailChangeRoutes.ts\<close>).  A change is committed when the emailed link is opened; until
  then the link, the pointer to it and the reservation of the new address live in Redis.  A handler
  takes the bearer header, the \<open>x-stepup-sid\<close> header and the body.
\<close>

section \<open>Links and reservations\<close>

definition CHANGE_TTL :: int where "CHANGE_TTL = 30 * 60"
definition CHANGE_REUSE :: int where "CHANGE_REUSE = 5 * 60"

definition get_email_change :: "int \<Rightarrow> string \<Rightarrow> sso \<Rightarrow> email_change option" where
  "get_email_change now sub s = (case rget now (email_change_users s) sub of
      None \<Rightarrow> None
    | Some h \<Rightarrow> if h = [] then None else rget now (email_changes s) h)"

definition drop_email_change :: "externals \<Rightarrow> email_change \<Rightarrow> sso \<Rightarrow> sso" where
  "drop_email_change x c s =
    (let s = s\<lparr>email_changes := rdel (x_sha256 x (ec_token c)) (email_changes s),
               email_change_users := rdel (ec_sub c) (email_change_users s)\<rparr>
     in if ec_kind c = ChangeAddress then s\<lparr>email_change_addrs := rdel (lower (ec_email c)) (email_change_addrs s)\<rparr> else s)"

definition reusable_change :: "int \<Rightarrow> change_kind \<Rightarrow> string \<Rightarrow> email_change \<Rightarrow> bool" where
  "reusable_change now kind email c =
    (ec_kind c = kind \<and> lower (ec_email c) = lower email \<and> now_sec now - ec_last_sent c < CHANGE_REUSE)"

definition new_email_change :: "externals \<Rightarrow> int \<Rightarrow> string \<Rightarrow> change_kind \<Rightarrow> string \<Rightarrow> sso \<Rightarrow> string \<times> sso" where
  "new_email_change x now sub kind email s =
    (case draw x s of (token, s) \<Rightarrow>
      let h = x_sha256 x token;
          c = \<lparr>ec_sub = sub, ec_kind = kind, ec_email = email, ec_token = token,
               ec_created_at = now_sec now, ec_last_sent = now_sec now\<rparr>;
          s = s\<lparr>email_changes := rset_ex now h c CHANGE_TTL (email_changes s),
                email_change_users := rset_ex now sub h CHANGE_TTL (email_change_users s)\<rparr>
      in (token, if kind = ChangeAddress
                 then s\<lparr>email_change_addrs := rset_ex now (lower email) sub CHANGE_TTL (email_change_addrs s)\<rparr> else s))"

definition issue_email_change :: "externals \<Rightarrow> int \<Rightarrow> string \<Rightarrow> change_kind \<Rightarrow> string \<Rightarrow> sso \<Rightarrow> string \<times> sso" where
  "issue_email_change x now sub kind email s =
    (case get_email_change now sub s of
       None \<Rightarrow> new_email_change x now sub kind email s
     | Some c \<Rightarrow>
         if reusable_change now kind email c
         then (ec_token c, s\<lparr>email_changes := rset_keepttl now (x_sha256 x (ec_token c))
                 (c\<lparr>ec_last_sent := now_sec now\<rparr>) (email_changes s)\<rparr>)
         else new_email_change x now sub kind email (drop_email_change x c s))"

definition redeem_email_change :: "externals \<Rightarrow> int \<Rightarrow> string \<Rightarrow> sso \<Rightarrow> email_change option \<times> sso" where
  "redeem_email_change x now token s =
    (if \<not> token_length_ok token then (None, s)
     else (case rgetdel now (x_sha256 x token) (email_changes s) of
         (None, m) \<Rightarrow> (None, s\<lparr>email_changes := m\<rparr>)
       | (Some c, m) \<Rightarrow>
           let s = s\<lparr>email_changes := m, email_change_users := rdel (ec_sub c) (email_change_users s)\<rparr>
           in (Some c, if ec_kind c = ChangeAddress
                 then s\<lparr>email_change_addrs := rdel (lower (ec_email c)) (email_change_addrs s)\<rparr> else s)))"

definition cancel_email_change :: "externals \<Rightarrow> int \<Rightarrow> string \<Rightarrow> sso \<Rightarrow> bool \<times> sso" where
  "cancel_email_change x now sub s = (case get_email_change now sub s of
      None \<Rightarrow> (False, s) | Some c \<Rightarrow> (True, drop_email_change x c s))"

definition change_pending_owner :: "int \<Rightarrow> string \<Rightarrow> sso \<Rightarrow> string option" where
  "change_pending_owner now email s = rget now (email_change_addrs s) (lower email)"

section \<open>Guards of the account routes\<close>

text \<open>The bearer token with the profile scope, then the active account.\<close>

definition scoped_sub :: "externals \<Rightarrow> string option \<Rightarrow> api + string" where
  "scoped_sub x authorization = (case require_scope x ''profile'' authorization of
      Inl BadToken \<Rightarrow> Inl (refuse 401 ''invalid_token'')
    | Inl (InsufficientScope _) \<Rightarrow> Inl (refuse 403 ''insufficient_scope'')
    | Inr a \<Rightarrow> Inr (ra_sub a))"

definition load_identity :: "db \<Rightarrow> string \<Rightarrow> identity option" where
  "load_identity d sub = (case tget (identities d) sub of
      Some i \<Rightarrow> if i_deleted_at i = None \<and> i_status i = Active then Some i else None
    | None \<Rightarrow> None)"

definition scoped_identity :: "externals \<Rightarrow> string option \<Rightarrow> sso \<Rightarrow> api + string \<times> identity" where
  "scoped_identity x authorization s = rbind (scoped_sub x authorization) (\<lambda>sub.
     case load_identity (core s) sub of None \<Rightarrow> Inl (refuse 404 ''not_found'') | Some i \<Rightarrow> Inr (sub, i))"

definition permission_refused :: "string \<Rightarrow> api" where
  "permission_refused key = ApiFail 403 ''permission_denied'' [(''permission'', JStr key)]"

text \<open>\<open>requireFreshStepup\<close>: the stamp of the caller's own session, at most ten minutes old, by a method the
  policy accepts.\<close>

definition STEPUP_MAX :: int where "STEPUP_MAX = 600"

definition fresh_own_stepup :: "int \<Rightarrow> stepup_mode \<Rightarrow> int option \<Rightarrow> string \<Rightarrow> session \<Rightarrow> sso \<Rightarrow> bool" where
  "fresh_own_stepup now mode maxAge sub r s =
    (se_user r = sub
     \<and> (case maxAge of None \<Rightarrow> True | Some a \<Rightarrow> (case se_stepup_at r of None \<Rightarrow> False | Some t \<Rightarrow> now - t < a * 1000))
     \<and> stepup_satisfies (as_accepted (accepted_stepup_methods s sub mode)) (se_stepup_method r)
         (stepup_stamp_fresh (se_stepup_at r)
           (stepup_validity_minutes (get_setting (core s) ''stepup_validity_minutes'')) now))"

definition require_fresh_stepup :: "int \<Rightarrow> string \<Rightarrow> string option \<Rightarrow> sso \<Rightarrow> bool" where
  "require_fresh_stepup now sub sidHeader s = (case sidHeader of
      None \<Rightarrow> False
    | Some sid \<Rightarrow> sid \<noteq> [] \<and> (case tget (sessions s) (lower sid) of
          None \<Rightarrow> False
        | Some r \<Rightarrow> fresh_own_stepup now EmailChange (Some STEPUP_MAX) sub r s))"

definition write_identity :: "string \<Rightarrow> (identity \<Rightarrow> identity) \<Rightarrow> sso \<Rightarrow> sso" where
  "write_identity sub f s = s\<lparr>core := (core s)\<lparr>identities := tmap (\<lambda>k i. if k = sub then f i else i) (identities (core s))\<rparr>\<rparr>"

text \<open>\<open>actorLabel\<close> and \<open>audit\<close> (\<open>src/audit.ts\<close>).\<close>

definition actor_label :: "db \<Rightarrow> string \<Rightarrow> string" where
  "actor_label d sub = (case tget (identities d) sub of
      Some i \<Rightarrow> or_string (display_label i) sub | None \<Rightarrow> sub)"

definition audit_self :: "string \<Rightarrow> string \<Rightarrow> (string \<times> json) list \<Rightarrow> sso \<Rightarrow> sso" where
  "audit_self sub action detail s = s\<lparr>core := (core s)\<lparr>org_audit_log := org_audit_log (core s)
     @ [\<lparr>au_actor = Some sub, au_actor_label = actor_label (core s) sub, au_target = None, au_target_label = None,
         au_action = action, au_detail = JObj detail\<rparr>]\<rparr>\<rparr>"

section \<open>Checking a new address or name\<close>

definition email_taken_by_other :: "db \<Rightarrow> string \<Rightarrow> string \<Rightarrow> bool" where
  "email_taken_by_other d sub email = list_ex (\<lambda>(k, i). k \<noteq> sub \<and> i_deleted_at i = None
     \<and> map_option lower (i_email i) = Some (lower email)) (identities d)"

definition username_taken_by_other :: "db \<Rightarrow> string \<Rightarrow> string \<Rightarrow> bool" where
  "username_taken_by_other d sub name = list_ex (\<lambda>(k, i). k \<noteq> sub \<and> i_deleted_at i = None
     \<and> lower (i_username i) = lower name) (identities d)"

definition new_email_error :: "int \<Rightarrow> string \<Rightarrow> identity \<Rightarrow> string \<Rightarrow> sso \<Rightarrow> api option" where
  "new_email_error now sub i email s =
    (if \<not> valid_email email then Some (FieldErrors 422 [(''new_email'', ''invalid_email'')])
     else if lower (case i_email i of None \<Rightarrow> [] | Some e \<Rightarrow> e) = lower email
     then Some (FieldErrors 422 [(''new_email'', ''same_email'')])
     else if email_taken_by_other (core s) sub email \<or> pending_email_exists now email s
        \<or> (case change_pending_owner now email s of None \<Rightarrow> False | Some u \<Rightarrow> u \<noteq> sub)
     then Some (FieldErrors 409 [(''new_email'', ''email_taken'')])
     else None)"

definition new_username_error :: "string \<Rightarrow> identity \<Rightarrow> string \<Rightarrow> sso \<Rightarrow> api option" where
  "new_username_error sub i name s =
    (if \<not> valid_username name then Some (FieldErrors 422 [(''new_username'', ''invalid_username'')])
     else if lower (i_username i) = lower name then Some (FieldErrors 422 [(''new_username'', ''same_username'')])
     else if username_taken_by_other (core s) sub name then Some (FieldErrors 409 [(''new_username'', ''username_taken'')])
     else None)"

definition email_change_check :: "externals \<Rightarrow> int \<Rightarrow> string option \<Rightarrow> (string \<times> json) list \<Rightarrow> sso \<Rightarrow> api" where
  "email_change_check x now authorization b s = (case scoped_identity x authorization s of
      Inl e \<Rightarrow> e
    | Inr (sub, i) \<Rightarrow> (case new_email_error now sub i (trim (qstr (jmember b ''new_email''))) s of
        Some e \<Rightarrow> e | None \<Rightarrow> NoContent))"

definition username_change_check :: "externals \<Rightarrow> string option \<Rightarrow> (string \<times> json) list \<Rightarrow> sso \<Rightarrow> api" where
  "username_change_check x authorization b s = (case scoped_identity x authorization s of
      Inl e \<Rightarrow> e
    | Inr (sub, i) \<Rightarrow>
        if \<not> has_perm (core s) sub ''profile.username.change'' then permission_refused ''profile.username.change''
        else (case new_username_error sub i (trim (qstr (jmember b ''new_username''))) s of Some e \<Rightarrow> e | None \<Rightarrow> NoContent))"

section \<open>Starting, resending, cancelling\<close>

text \<open>A reserved slot, the link, the message; a message that was not sent gives the slot back.\<close>

definition send_change_link ::
  "externals \<Rightarrow> int \<Rightarrow> string \<Rightarrow> change_kind \<Rightarrow> string \<Rightarrow> (int \<Rightarrow> sso \<Rightarrow> api \<times> sso) \<Rightarrow> sso \<Rightarrow> api \<times> sso" where
  "send_change_link x now sub kind email cont s =
    (case reserve_registration_send now email (send_limits s) of
       (Denied retry can, _) \<Rightarrow> (rate_limited retry can, s)
     | (Reserved backoff, limits) \<Rightarrow>
         let (token, s) = issue_email_change x now sub kind email (s\<lparr>send_limits := limits\<rparr>);
             (sent, s) = send_email x email token s
         in if sent then cont backoff s
            else (refuse 503 ''send_failed'', s\<lparr>send_limits := release_send now email (send_limits s)\<rparr>))"

definition sent_answer :: "int \<Rightarrow> sso \<Rightarrow> api \<times> sso" where
  "sent_answer backoff s = (Answer [(''sent'', JBool True), (''resend_backoff'', JInt backoff)], s)"

definition email_change_start ::
  "externals \<Rightarrow> int \<Rightarrow> string option \<Rightarrow> string option \<Rightarrow> (string \<times> json) list \<Rightarrow> sso \<Rightarrow> api \<times> sso" where
  "email_change_start x now authorization sidHeader b s = (case scoped_identity x authorization s of
      Inl e \<Rightarrow> (e, s)
    | Inr (sub, i) \<Rightarrow>
        let key = (if i_email i = None then ''profile.email.add'' else ''profile.email.change'');
            email = trim (qstr (jmember b ''new_email'')) in
        if \<not> has_perm (core s) sub key then (permission_refused key, s)
        else (case new_email_error now sub i email s of
            Some e \<Rightarrow> (e, s)
          | None \<Rightarrow>
              if \<not> require_fresh_stepup now sub sidHeader s then (refuse 403 ''step_up_required'', s)
              else if \<not> mail_configured (core s) then (refuse 503 ''email_not_configured'', s)
              else send_change_link x now sub ChangeAddress email
                (\<lambda>backoff s. (Answer [(''sent'', JBool True), (''new_email'', JStr email), (''resend_backoff'', JInt backoff)],
                   audit_self sub ''email.change_request'' [(''to'', JStr (mask_email email))] s)) s))"

definition email_change_resend :: "externals \<Rightarrow> int \<Rightarrow> string option \<Rightarrow> sso \<Rightarrow> api \<times> sso" where
  "email_change_resend x now authorization s = (case scoped_sub x authorization of
      Inl e \<Rightarrow> (e, s)
    | Inr sub \<Rightarrow> (case get_email_change now sub s of
        None \<Rightarrow> (refuse 404 ''no_pending'', s)
      | Some c \<Rightarrow> send_change_link x now sub (ec_kind c) (ec_email c) sent_answer s))"

definition email_change_cancel :: "externals \<Rightarrow> int \<Rightarrow> string option \<Rightarrow> sso \<Rightarrow> api \<times> sso" where
  "email_change_cancel x now authorization s = (case scoped_sub x authorization of
      Inl e \<Rightarrow> (e, s)
    | Inr sub \<Rightarrow> (NoContent, snd (cancel_email_change x now sub s)))"

definition email_verify_send :: "externals \<Rightarrow> int \<Rightarrow> string option \<Rightarrow> sso \<Rightarrow> api \<times> sso" where
  "email_verify_send x now authorization s = (case scoped_sub x authorization of
      Inl e \<Rightarrow> (e, s)
    | Inr sub \<Rightarrow> (case load_identity (core s) sub of
        None \<Rightarrow> (refuse 409 ''no_email'', s)
      | Some i \<Rightarrow> (case i_email i of
          None \<Rightarrow> (refuse 409 ''no_email'', s)
        | Some e \<Rightarrow>
            if e = [] then (refuse 409 ''no_email'', s)
            else if i_email_verified i then (refuse 409 ''already_verified'', s)
            else send_change_link x now sub ConfirmAddress e sent_answer s)))"

definition username_change ::
  "externals \<Rightarrow> int \<Rightarrow> string option \<Rightarrow> string option \<Rightarrow> (string \<times> json) list \<Rightarrow> sso \<Rightarrow> api \<times> sso" where
  "username_change x now authorization sidHeader b s = (case scoped_identity x authorization s of
      Inl e \<Rightarrow> (e, s)
    | Inr (sub, i) \<Rightarrow>
        let name = trim (qstr (jmember b ''new_username'')) in
        if \<not> has_perm (core s) sub ''profile.username.change'' then (permission_refused ''profile.username.change'', s)
        else (case new_username_error sub i name s of
            Some e \<Rightarrow> (e, s)
          | None \<Rightarrow>
              if \<not> require_fresh_stepup now sub sidHeader s then (refuse 403 ''step_up_required'', s)
              else (Answer [(''username'', JStr name)],
                audit_self sub ''username.change'' [(''from'', JStr (i_username i)), (''to'', JStr name)]
                  (write_identity sub (\<lambda>i. i\<lparr>i_username := name\<rparr>) s))))"

section \<open>Opening the link\<close>

definition email_change_verify :: "externals \<Rightarrow> string \<Rightarrow> int \<Rightarrow> (string \<times> json) list \<Rightarrow> sso \<Rightarrow> api \<times> sso" where
  "email_change_verify x portal now b s =
    (if \<not> portal_assertion x portal (core s) b then (refuse 401 ''invalid_client'', s)
     else (case redeem_email_change x now (qstr (jmember b ''token'')) s of
         (None, s) \<Rightarrow> (refuse 422 ''invalid_token'', s)
       | (Some c, s) \<Rightarrow>
           (case load_identity (core s) (ec_sub c) of
              None \<Rightarrow> (refuse 422 ''invalid_token'', s)
            | Some i \<Rightarrow>
                if ec_kind c = ConfirmAddress then
                  (if map_option lower (i_email i) = Some (lower (ec_email c))
                   then (Answer [(''ok'', JBool True), (''kind'', JStr ''confirm'')],
                         audit_self (ec_sub c) ''email.verify'' [] (write_identity (ec_sub c) (\<lambda>i. i\<lparr>i_email_verified := True\<rparr>) s))
                   else (refuse 422 ''invalid_token'', s))
                else if email_taken_by_other (core s) (ec_sub c) (ec_email c) then (refuse 409 ''email_taken'', s)
                else
                  let s = audit_self (ec_sub c) ''email.change'' [(''to'', JStr (mask_email (ec_email c)))]
                        (write_identity (ec_sub c) (\<lambda>i. i\<lparr>i_email := Some (ec_email c), i_email_verified := True\<rparr>) s);
                      s = (case i_email i of None \<Rightarrow> s
                           | Some old \<Rightarrow> if old = [] then s else snd (send_email x old ''email_changed'' s))
                  in (Answer [(''ok'', JBool True), (''kind'', JStr ''change'')], s))))"

end
