(* ===== verification/Recovery.thy ===== *)
theory Recovery
  imports Ceremony
begin

text \<open>
  Password reset (\<open>src/passwordReset.ts\<close>, \<open>src/routes/reset.ts\<close>): a link that is live for thirty
  minutes and for five failed challenges, the newest one only; a strong factor when the account's MFA
  toggle is on and a factor exists; then the new password, the end of every session and a login
  ticket.  What a handler does in the background is done at once; \<open>portal\<close> and \<open>issuer\<close> are
  configuration.
\<close>

section \<open>Reset links\<close>

definition RESET_TTL :: int where "RESET_TTL = 30 * 60"
definition RESET_PK_TTL :: int where "RESET_PK_TTL = 300"
definition MAX_RESET_ATTEMPTS :: nat where "MAX_RESET_ATTEMPTS = 5"

definition forget_link :: "string \<Rightarrow> sso \<Rightarrow> sso" where
  "forget_link h s = s\<lparr>reset_tokens := rdel h (reset_tokens s), reset_passkeys := rdel h (reset_passkeys s)\<rparr>"

definition issue_reset_token :: "externals \<Rightarrow> int \<Rightarrow> string \<Rightarrow> sso \<Rightarrow> string \<times> sso" where
  "issue_reset_token x now sub s =
    (let (token, s) = draw x s;
         h = x_sha256 x token;
         s = (case rget now (reset_users s) sub of
                None \<Rightarrow> s
              | Some prev \<Rightarrow> if prev = [] then s else forget_link prev s)
     in (token, s\<lparr>reset_tokens := rset_ex now h \<lparr>rt_sub = sub, rt_attempts = 0\<rparr> RESET_TTL (reset_tokens s),
                  reset_users := rset_ex now sub h RESET_TTL (reset_users s)\<rparr>))"

definition get_reset_token :: "externals \<Rightarrow> int \<Rightarrow> string \<Rightarrow> sso \<Rightarrow> (string \<times> reset_token) option" where
  "get_reset_token x now token s =
    (if \<not> token_length_ok token then None
     else (case rget now (reset_tokens s) (x_sha256 x token) of
         None \<Rightarrow> None | Some r \<Rightarrow> Some (x_sha256 x token, r)))"

definition consume_reset_token :: "string \<times> reset_token \<Rightarrow> sso \<Rightarrow> sso" where
  "consume_reset_token q s = (case q of (h, r) \<Rightarrow>
     (forget_link h s)\<lparr>reset_users := rdel (rt_sub r) (reset_users s)\<rparr>)"

definition bump_reset_attempts :: "int \<Rightarrow> string \<times> reset_token \<Rightarrow> sso \<Rightarrow> nat \<times> sso" where
  "bump_reset_attempts now q s = (case q of (h, r) \<Rightarrow>
     let attempts = rt_attempts r + 1 in
     if attempts \<ge> MAX_RESET_ATTEMPTS then (0, consume_reset_token q s)
     else (MAX_RESET_ATTEMPTS - attempts,
           s\<lparr>reset_tokens := rset_keepttl now h \<lparr>rt_sub = rt_sub r, rt_attempts = attempts\<rparr> (reset_tokens s)\<rparr>))"

section \<open>The account behind a link\<close>

definition live_identity :: "db \<Rightarrow> string \<Rightarrow> identity option" where
  "live_identity d sub = (case tget (identities d) sub of
      Some i \<Rightarrow> if i_deleted_at i = None \<and> i_status i = Active then Some i else None
    | None \<Rightarrow> None)"

text \<open>The link's record and its live account.\<close>

definition live_link :: "externals \<Rightarrow> int \<Rightarrow> (string \<times> json) list \<Rightarrow> sso \<Rightarrow> ((string \<times> reset_token) \<times> identity) option" where
  "live_link x now b s = (case get_reset_token x now (qstr (jmember b ''token'')) s of
      None \<Rightarrow> None
    | Some q \<Rightarrow> map_option (\<lambda>i. (q, i)) (live_identity (core s) (rt_sub (snd q))))"

definition strong_methods :: "sso \<Rightarrow> string \<Rightarrow> string list" where
  "strong_methods s sub =
    (if count_passkeys s sub > 0 then [''passkey''] else []) @ (if count_authenticators s sub > 0 then [''totp''] else [])"

definition challenge_for :: "sso \<Rightarrow> string \<Rightarrow> identity \<Rightarrow> (string list \<times> string) option" where
  "challenge_for s sub i =
    (if \<not> i_mfa_enabled i \<or> strong_methods s sub = [] then None else Some (strong_methods s sub, display_label i))"

definition challenge_json :: "(string list \<times> string) option \<Rightarrow> json" where
  "challenge_json c = (case c of None \<Rightarrow> JNull
    | Some (ms, l) \<Rightarrow> JObj [(''methods'', JArr (map JStr ms)), (''label'', JStr l)])"

section \<open>Requesting a link\<close>

text \<open>The background part: silent in every case.\<close>

definition send_reset_link :: "externals \<Rightarrow> int \<Rightarrow> string \<Rightarrow> sso \<Rightarrow> sso" where
  "send_reset_link x now identifier s =
    (case find_by_username_or_email (core s) identifier of
       None \<Rightarrow> s
     | Some (sub, i) \<Rightarrow>
         (case i_email i of
            None \<Rightarrow> s
          | Some e \<Rightarrow>
              if i_status i \<noteq> Active \<or> e = [] then s
              else (case reserve_reset_send now e (reset_limits s) of (granted, limits) \<Rightarrow>
                if \<not> granted then s
                else
                  let (token, s) = issue_reset_token x now sub (s\<lparr>reset_limits := limits\<rparr>);
                      (sent, s) = send_email x e token s
                  in if sent then s else s\<lparr>reset_limits := release_send now e (reset_limits s)\<rparr>)))"

definition reset_request :: "externals \<Rightarrow> string \<Rightarrow> int \<Rightarrow> (string \<times> json) list \<Rightarrow> sso \<Rightarrow> api \<times> sso" where
  "reset_request x portal now b s =
    (if \<not> portal_assertion x portal (core s) b then (refuse 401 ''invalid_client'', s)
     else let identifier = trim (qstr (jmember b ''identifier'')) in
       if \<not> identifier_ok identifier then (refuse 422 ''invalid_identifier'', s)
       else if \<not> mail_configured (core s) then (refuse 503 ''email_not_configured'', s)
       else (NoContent, send_reset_link x now identifier s))"

section \<open>Using a link\<close>

definition reset_validate :: "externals \<Rightarrow> string \<Rightarrow> int \<Rightarrow> (string \<times> json) list \<Rightarrow> sso \<Rightarrow> api" where
  "reset_validate x portal now b s =
    (if \<not> portal_assertion x portal (core s) b then refuse 401 ''invalid_client''
     else (case live_link x now b s of
         None \<Rightarrow> Answer [(''valid'', JBool False)]
       | Some ((h, r), i) \<Rightarrow> Answer [(''valid'', JBool True), (''challenge'', challenge_json (challenge_for s (rt_sub r) i))]))"

definition reset_passkey_options :: "externals \<Rightarrow> string \<Rightarrow> int \<Rightarrow> (string \<times> json) list \<Rightarrow> sso \<Rightarrow> api \<times> sso" where
  "reset_passkey_options x portal now b s =
    (if \<not> portal_assertion x portal (core s) b then (refuse 401 ''invalid_client'', s)
     else (case live_link x now b s of
         None \<Rightarrow> (refuse 422 ''invalid_token'', s)
       | Some ((h, r), i) \<Rightarrow>
           (case challenge_for s (rt_sub r) i of
              None \<Rightarrow> (refuse 400 ''method_unavailable'', s)
            | Some (ms, _) \<Rightarrow>
                if ''passkey'' \<notin> set ms then (refuse 400 ''method_unavailable'', s)
                else let ((challenge, _), s) = login_auth_options x (Some (rt_sub r)) s
                     in (Answer [(''challenge'', JStr challenge)],
                         s\<lparr>reset_passkeys := rset_ex now h challenge RESET_PK_TTL (reset_passkeys s)\<rparr>))))"

text \<open>The strong-factor step of \<open>confirm\<close>: the answer that ends the request, or the factor it proved.\<close>

definition reset_failed :: "int \<Rightarrow> string \<times> reset_token \<Rightarrow> sso \<Rightarrow> (api + string option) \<times> sso" where
  "reset_failed now q s = (case bump_reset_attempts now q s of (n, s) \<Rightarrow>
     (Inl (if n = 0 then refuse 403 ''too_many_attempts''
           else ApiFail 401 ''challenge_failed'' [(''attempts_left'', JInt (int n))]), s))"

definition reset_challenge ::
  "externals \<Rightarrow> int \<Rightarrow> (string \<times> json) list \<Rightarrow> string \<times> reset_token \<Rightarrow> identity \<Rightarrow> sso \<Rightarrow> (api + string option) \<times> sso" where
  "reset_challenge x now b q i s =
    (let sub = rt_sub (snd q); how = qstr (jmember b ''method''); code = trim (qstr (jmember b ''code'')) in
     case challenge_for s sub i of
       None \<Rightarrow> (Inr None, s)
     | Some (ms, label) \<Rightarrow>
         if how = ''totp'' \<and> ''totp'' \<in> set ms
         then (case verify_login_totp x now sub code s of (valid, s) \<Rightarrow>
               if valid then (Inr (Some ''otp''), s) else reset_failed now q s)
         else if how = ''passkey'' \<and> ''passkey'' \<in> set ms
         then (case rgetdel now (fst q) (reset_passkeys s) of (expected, m) \<Rightarrow>
               let s = s\<lparr>reset_passkeys := m\<rparr> in
               if expected = None \<or> expected = Some [] then (Inl (refuse 401 ''challenge_expired''), s)
               else (case x_parse_json x (qstr (jmember b ''credential'')) of
                   None \<Rightarrow> reset_failed now q s
                 | Some credential \<Rightarrow>
                     (case verify_login_assertion x now credential (the expected) (Some sub) s of
                        (Inl _, s) \<Rightarrow> reset_failed now q s
                      | (Inr _, s) \<Rightarrow> (Inr (Some ''passkey''), s))))
         else (Inl (ApiFail 401 ''challenge_required'' [(''challenge'', challenge_json (Some (ms, label)))]), s))"

definition write_password :: "externals \<Rightarrow> int \<Rightarrow> string \<Rightarrow> string \<Rightarrow> sso \<Rightarrow> sso" where
  "write_password x now sub pw s = (let h = x_argon2_hash x (draws s) pw in
     s\<lparr>draws := Suc (draws s), core := (core s)\<lparr>identities := tmap (\<lambda>k i. if k = sub
        then i\<lparr>i_password_hash := Some h, i_password_changed_at := Some now\<rparr> else i) (identities (core s))\<rparr>\<rparr>)"

definition notify_changed :: "externals \<Rightarrow> identity \<Rightarrow> sso \<Rightarrow> sso" where
  "notify_changed x i s = (case i_email i of None \<Rightarrow> s
     | Some e \<Rightarrow> if e = [] then s else snd (send_email x e ''password_changed'' s))"

definition reset_confirm :: "externals \<Rightarrow> string \<Rightarrow> string \<Rightarrow> int \<Rightarrow> (string \<times> json) list \<Rightarrow> sso \<Rightarrow> api \<times> sso" where
  "reset_confirm x portal issuer now b s =
    (if \<not> portal_assertion x portal (core s) b then (refuse 401 ''invalid_client'', s)
     else (case live_link x now b s of
         None \<Rightarrow> (refuse 422 ''invalid_token'', s)
       | Some (q, i) \<Rightarrow>
           (case jmember b ''password'' of
              Some (JStr pw) \<Rightarrow>
                if \<not> strong_password pw then (refuse 422 ''weak_password'', s)
                else (case reset_challenge x now b q i s of
                    (Inl e, s) \<Rightarrow> (e, s)
                  | (Inr factor, s) \<Rightarrow>
                      let sub = rt_sub (snd q);
                          s = consume_reset_token q (write_password x now sub pw s);
                          s = notify_changed x i (end_sessions x now (\<lambda>_ r. se_user r = sub) s);
                          (ticket, s) = mint_login_ticket x now
                            \<lparr>lt_sub = sub, lt_amr = ''email'' # (case factor of None \<Rightarrow> [] | Some f \<Rightarrow> [f]),
                             lt_acr = (if factor = None then ''urn:dreamsso:1fa'' else ''urn:dreamsso:2fa''),
                             lt_label = display_label i\<rparr> s
                      in (Answer [(''complete_url'', JStr (issuer @ ''/reset/complete?ticket='' @ ticket))], s))
            | _ \<Rightarrow> (refuse 422 ''weak_password'', s))))"

end
