(* ===== verification/SelfService.thy ===== *)
theory SelfService
  imports EmailChange Recovery
begin

text \<open>
  The account's own routes behind the bearer token: step-up verification (\<open>src/routes/stepup.ts\<close>), the
  security pane with its password, MFA toggle and factors (\<open>src/routes/security.ts\<close>), and the
  profile (\<open>src/routes/account.ts\<close>).  A session identifier that PostgreSQL would reject as a uuid is
  taken as naming no session.
\<close>

section \<open>Step-up\<close>

definition STEPUP_CHALLENGE_TTL :: int where "STEPUP_CHALLENGE_TTL = 600"
definition MAX_FAILS :: int where "MAX_FAILS = 5"
definition FAIL_WINDOW :: int where "FAIL_WINDOW = 120"

definition mode_of :: "json option \<Rightarrow> stepup_mode" where
  "mode_of v = (if v = Some (JStr ''fallback'') then Fallback
     else if v = Some (JStr ''email-change'') then EmailChange else StrongMandatory)"

definition sid_shape :: "string \<Rightarrow> bool" where
  "sid_shape sid = (length sid = 36 \<and> list_all (\<lambda>c. is_hex_lower (lower_char c) \<or> c = CHR ''-'') sid)"

definition own_session :: "string \<Rightarrow> string \<Rightarrow> sso \<Rightarrow> session option" where
  "own_session sub sid s =
    (if \<not> sid_shape sid then None
     else (case tget (sessions s) (lower sid) of
         None \<Rightarrow> None | Some r \<Rightarrow> if se_user r = sub then Some r else None))"

record stepup_status =
  su_required :: bool
  su_verified :: bool
  su_expires_at :: "int option"
  su_age :: "int option"
  su_methods :: "string list"
  su_enroll :: bool
  su_masked_email :: "string option"

definition stepup_status :: "externals \<Rightarrow> int \<Rightarrow> string option \<Rightarrow> json option \<Rightarrow> json option \<Rightarrow> sso \<Rightarrow> api + stepup_status" where
  "stepup_status x now authorization sidv modev s = rbind (scoped_sub x authorization) (\<lambda>sub.
    (case own_session sub (body_code sidv) s of
       None \<Rightarrow> Inl (refuse 404 ''not_found'')
     | Some r \<Rightarrow>
         let minutes = stepup_validity_minutes (get_setting (core s) ''stepup_validity_minutes'');
             acc = accepted_stepup_methods s sub (mode_of modev);
             fresh = (case se_stepup_at r of None \<Rightarrow> False | Some t \<Rightarrow> now - t < minutes * 60000);
             verified = (fresh \<and> (case se_stepup_method r of None \<Rightarrow> False | Some m \<Rightarrow> m \<in> set (as_accepted acc)))
         in Inr \<lparr>su_required = (setting_or (core s) ''stepup_portal_required'' ''false'' = ''true''), su_verified = verified,
              su_expires_at = (if verified then map_option (\<lambda>t. t + minutes * 60000) (se_stepup_at r) else None),
              su_age = (case se_stepup_at r of None \<Rightarrow> None | Some t \<Rightarrow> if t = 0 then None else Some ((now - t) div 1000)),
              su_methods = as_accepted acc, su_enroll = as_enroll_required acc, su_masked_email = as_masked_email acc\<rparr>))"

definition stepup_passkey_options :: "externals \<Rightarrow> int \<Rightarrow> string option \<Rightarrow> (string \<times> json) list \<Rightarrow> sso \<Rightarrow> api \<times> sso" where
  "stepup_passkey_options x now authorization b s = (case scoped_sub x authorization of
      Inl e \<Rightarrow> (e, s)
    | Inr sub \<Rightarrow>
        let sid = body_code (jmember b ''sid'') in
        if own_session sub sid s = None then (refuse 404 ''not_found'', s)
        else if count_passkeys s sub = 0 then (refuse 422 ''no_passkeys'', s)
        else let ((challenge, _), s) = login_auth_options x (Some sub) s
             in (Answer [(''challenge'', JStr challenge)],
                 s\<lparr>stepup_passkeys := rset_ex now sid challenge STEPUP_CHALLENGE_TTL (stepup_passkeys s)\<rparr>))"

definition stepup_send_email :: "externals \<Rightarrow> int \<Rightarrow> string option \<Rightarrow> (string \<times> json) list \<Rightarrow> sso \<Rightarrow> api \<times> sso" where
  "stepup_send_email x now authorization b s = (case scoped_sub x authorization of
      Inl e \<Rightarrow> (e, s)
    | Inr sub \<Rightarrow>
        if own_session sub (body_code (jmember b ''sid'')) s = None then (refuse 404 ''not_found'', s)
        else (case tget (identities (core s)) sub of
            None \<Rightarrow> (refuse 422 ''no_verified_email'', s)
          | Some i \<Rightarrow> (case i_email i of
              None \<Rightarrow> (refuse 422 ''no_verified_email'', s)
            | Some e \<Rightarrow>
                if i_deleted_at i \<noteq> None \<or> e = [] \<or> \<not> i_email_verified i then (refuse 422 ''no_verified_email'', s)
                else (case issue_email_otp x now sub ''stepup'' s of
                    (Cooldown n, s) \<Rightarrow> (ApiFail 429 ''cooldown'' [(''retry_after'', JInt n)], s)
                  | (DailyLimit n, s) \<Rightarrow> (ApiFail 429 ''daily_limit'' [(''retry_after'', JInt n)], s)
                  | (Issued code, s) \<Rightarrow> (case send_email x e code s of (sent, s) \<Rightarrow>
                      if \<not> sent then (refuse 502 ''send_failed'', s)
                      else (Answer [(''sent'', JBool True), (''masked_email'', JStr (mask_email e)), (''minutes'', JInt 5)], s))))))"

text \<open>\<open>INCR\<close>, and \<open>EXPIRE\<close> when it created the counter.\<close>

definition reserve_attempt :: "int \<Rightarrow> string \<Rightarrow> sso \<Rightarrow> int \<times> sso" where
  "reserve_attempt now sub s = (case rget now (stepup_fails s) sub of
      None \<Rightarrow> (1, s\<lparr>stepup_fails := rset_ex now sub 1 FAIL_WINDOW (stepup_fails s)\<rparr>)
    | Some n \<Rightarrow> (n + 1, s\<lparr>stepup_fails := rset_keepttl now sub (n + 1) (stepup_fails s)\<rparr>))"

text \<open>\<open>TTL\<close>, in rounded seconds.\<close>

definition fail_retry :: "int \<Rightarrow> string \<Rightarrow> sso \<Rightarrow> int" where
  "fail_retry now sub s = (case tget (stepup_fails s) sub of
      Some (_, Some d) \<Rightarrow> if 0 < (d - now + 500) div 1000 then (d - now + 500) div 1000 else FAIL_WINDOW
    | _ \<Rightarrow> FAIL_WINDOW)"

text \<open>The proof of one factor: \<open>Inl\<close> ends the request, \<open>Inr\<close> is the method and whether it verified.\<close>

definition prove_factor ::
  "externals \<Rightarrow> int \<Rightarrow> string \<Rightarrow> string \<Rightarrow> (string \<times> json) list \<Rightarrow> sso \<Rightarrow> (api + string \<times> bool \<times> string) \<times> sso" where
  "prove_factor x now sub sid b s =
    (let how = jmember b ''method''; code = trim (body_code (jmember b ''code'')) in
     if how = Some (JStr ''totp'')
     then (case verify_login_totp x now sub code s of (ok, s) \<Rightarrow> (Inr (''totp'', ok, ''invalid_code''), s))
     else if how = Some (JStr ''passkey'')
     then (case rgetdel now sid (stepup_passkeys s) of (challenge, m) \<Rightarrow>
       let s = s\<lparr>stepup_passkeys := m\<rparr> in
       if challenge = None \<or> challenge = Some [] then (Inl (refuse 422 ''challenge_expired''), s)
       else (case jmember b ''credential'' of
           Some (JObj c) \<Rightarrow>
             (case verify_login_assertion x now (JObj c) (the challenge) (Some sub) s of
                (Inl reason, s) \<Rightarrow> (Inr (''passkey'', False, reason), s)
              | (Inr _, s) \<Rightarrow> (Inr (''passkey'', True, []), s))
         | Some (JArr c) \<Rightarrow>
             (case verify_login_assertion x now (JArr c) (the challenge) (Some sub) s of
                (Inl reason, s) \<Rightarrow> (Inr (''passkey'', False, reason), s)
              | (Inr _, s) \<Rightarrow> (Inr (''passkey'', True, []), s))
         | _ \<Rightarrow> (Inl (refuse 422 ''credential_required''), s)))
     else if how = Some (JStr ''password'')
     then (Inr (''password'', (case tget (identities (core s)) sub of
               None \<Rightarrow> False
             | Some i \<Rightarrow> i_deleted_at i = None \<and> verify_password x i (body_code (jmember b ''password''))), ''invalid_password''), s)
     else if how = Some (JStr ''email'')
     then (if \<not> (case tget (identities (core s)) sub of None \<Rightarrow> False | Some i \<Rightarrow> i_deleted_at i = None \<and> i_email_verified i)
           then (Inl (refuse 422 ''no_verified_email''), s)
           else (case verify_email_otp x now sub ''stepup'' code s of (v, s) \<Rightarrow> (Inr (''email'', v = OtpValid, ''invalid_code''), s)))
     else (Inl (refuse 422 ''unsupported_method''), s))"

definition stepup_verify :: "externals \<Rightarrow> int \<Rightarrow> string option \<Rightarrow> (string \<times> json) list \<Rightarrow> sso \<Rightarrow> api \<times> sso" where
  "stepup_verify x now authorization b s = (case scoped_sub x authorization of
      Inl e \<Rightarrow> (e, s)
    | Inr sub \<Rightarrow>
        let sid = body_code (jmember b ''sid'') in
        if own_session sub sid s = None then (refuse 404 ''not_found'', s)
        else (case reserve_attempt now sub s of (attempt, s) \<Rightarrow>
          if attempt > MAX_FAILS then (ApiFail 429 ''too_many_attempts'' [(''retry_after'', JInt (fail_retry now sub s))], s)
          else (case prove_factor x now sub sid b s of
              (Inl e, s) \<Rightarrow> (e, s)
            | (Inr (how, ok, reason), s) \<Rightarrow>
                if \<not> ok then (ApiFail 403 ''verification_failed'' [(''detail'', JStr reason)], s)
                else let s = stamp_stepup now (lower sid) how s
                     in (NoContent, s\<lparr>stepup_fails := rdel sub (stepup_fails s), stepup_passkeys := rdel sid (stepup_passkeys s)\<rparr>))))"

section \<open>The security pane\<close>

definition FACTOR_STEPUP_MAX :: int where "FACTOR_STEPUP_MAX = 600"

definition strong_factor_count :: "sso \<Rightarrow> string \<Rightarrow> nat" where
  "strong_factor_count s sub = count_authenticators s sub + count_passkeys s sub"

definition blocks_last_factor :: "sso \<Rightarrow> string \<Rightarrow> bool" where
  "blocks_last_factor s sub = (strong_factor_count s sub \<le> 1 \<and> \<not> has_perm (core s) sub ''profile.security.mfa.disable'')"

definition trim_label :: "json option \<Rightarrow> string option" where
  "trim_label v = (case v of Some (JStr l) \<Rightarrow> if trim l = [] then None else Some (take 100 (trim l)) | _ \<Rightarrow> None)"

definition stepup_sid :: "string option \<Rightarrow> string option" where
  "stepup_sid h = (case h of None \<Rightarrow> None
     | Some sid \<Rightarrow> if length sid = 36 \<and> list_all (\<lambda>c. is_hex_lower c \<or> c = CHR ''-'') sid then Some sid else None)"

definition require_security_stepup :: "int \<Rightarrow> int option \<Rightarrow> string \<Rightarrow> string option \<Rightarrow> sso \<Rightarrow> bool" where
  "require_security_stepup now maxAge sub sidHeader s = (case stepup_sid sidHeader of
      None \<Rightarrow> False
    | Some sid \<Rightarrow> (case tget (sessions s) sid of
        None \<Rightarrow> False | Some r \<Rightarrow> fresh_own_stepup now Fallback maxAge sub r s))"

text \<open>The middleware of a mutating route: scope, permission, and fresh step-up when the route asks for it.\<close>

definition guarded ::
  "externals \<Rightarrow> int \<Rightarrow> string option \<Rightarrow> string option \<Rightarrow> string \<Rightarrow> int option option \<Rightarrow> sso \<Rightarrow> api + string" where
  "guarded x now authorization sidHeader key stepup s = rbind (scoped_sub x authorization) (\<lambda>sub.
    if \<not> has_perm (core s) sub key then Inl (permission_refused key)
    else (case stepup of
        None \<Rightarrow> Inr sub
      | Some maxAge \<Rightarrow> if require_security_stepup now maxAge sub sidHeader s then Inr sub
          else Inl (refuse 403 ''step_up_required'')))"

definition change_password ::
  "externals \<Rightarrow> int \<Rightarrow> string option \<Rightarrow> string option \<Rightarrow> (string \<times> json) list \<Rightarrow> sso \<Rightarrow> api \<times> sso" where
  "change_password x now authorization sidHeader b s =
    (case guarded x now authorization sidHeader ''profile.security.password.change'' (Some (Some FACTOR_STEPUP_MAX)) s of
       Inl e \<Rightarrow> (e, s)
     | Inr sub \<Rightarrow>
         (case jmember b ''new_password'' of
            Some (JStr pw) \<Rightarrow>
              if \<not> password_complexity_ok pw then (refuse 400 ''weak_password'', s)
              else (case tget (identities (core s)) sub of
                  None \<Rightarrow> (refuse 404 ''not_found'', s)
                | Some i \<Rightarrow>
                    if i_deleted_at i \<noteq> None then (refuse 404 ''not_found'', s)
                    else let s = write_password x now sub pw s in
                      (NoContent, end_sessions x now (\<lambda>sid r. se_user r = sub
                         \<and> (case stepup_sid sidHeader of None \<Rightarrow> True | Some keep \<Rightarrow> sid \<noteq> keep)) s))
          | _ \<Rightarrow> (refuse 400 ''weak_password'', s)))"

definition set_mfa :: "externals \<Rightarrow> int \<Rightarrow> bool \<Rightarrow> string option \<Rightarrow> string option \<Rightarrow> sso \<Rightarrow> api \<times> sso" where
  "set_mfa x now on authorization sidHeader s =
    (case guarded x now authorization sidHeader
        (if on then ''profile.security.mfa.enable'' else ''profile.security.mfa.disable'') (Some None) s of
       Inl e \<Rightarrow> (e, s)
     | Inr sub \<Rightarrow> (NoContent, write_identity sub (\<lambda>i. if i_deleted_at i = None then i\<lparr>i_mfa_enabled := on\<rparr> else i) s))"

definition limit_reached :: "nat \<Rightarrow> api" where
  "limit_reached n = ApiFail 422 ''limit_reached'' [(''limit'', JInt (int n))]"

definition setup_authenticator ::
  "externals \<Rightarrow> int \<Rightarrow> string option \<Rightarrow> string option \<Rightarrow> (string \<times> json) list \<Rightarrow> sso \<Rightarrow> api \<times> sso" where
  "setup_authenticator x now authorization sidHeader b s =
    (case guarded x now authorization sidHeader ''profile.security.mfa.totp.add'' (Some (Some FACTOR_STEPUP_MAX)) s of
       Inl e \<Rightarrow> (e, s)
     | Inr sub \<Rightarrow>
         (case tget (identities (core s)) sub of
            None \<Rightarrow> (refuse 404 ''not_found'', s)
          | Some i \<Rightarrow>
              if i_deleted_at i \<noteq> None then (refuse 404 ''not_found'', s)
              else if count_authenticators s sub \<ge> MAX_AUTHENTICATORS then (limit_reached MAX_AUTHENTICATORS, s)
              else (case start_authenticator_setup x now sub (trim_label (jmember b ''label'')) s of
                  (Inl n, s) \<Rightarrow> (limit_reached n, s)
                | (Inr (ident, secret), s) \<Rightarrow> (Answer [(''id'', JStr ident), (''secret'', JStr secret)], s))))"

definition confirm_setup ::
  "externals \<Rightarrow> int \<Rightarrow> string option \<Rightarrow> string option \<Rightarrow> (string \<times> json) list \<Rightarrow> sso \<Rightarrow> api \<times> sso" where
  "confirm_setup x now authorization sidHeader b s =
    (case guarded x now authorization sidHeader ''profile.security.mfa.totp.add'' (Some (Some FACTOR_STEPUP_MAX)) s of
       Inl e \<Rightarrow> (e, s)
     | Inr sub \<Rightarrow>
         (case (jmember b ''id'', jmember b ''code'') of
            (Some (JStr ident), Some (JStr code)) \<Rightarrow>
              if count_authenticators s sub \<ge> MAX_AUTHENTICATORS then (limit_reached MAX_AUTHENTICATORS, s)
              else (case confirm_authenticator x now sub (lower ident) code (trim_label (jmember b ''label'')) s of
                  (Inl e, s) \<Rightarrow> (refuse 422 e, s) | (Inr _, s) \<Rightarrow> (NoContent, s))
          | _ \<Rightarrow> (refuse 422 ''id_and_code_required'', s)))"

text \<open>Renaming and removing, of an authenticator or of a passkey.\<close>

definition rename_factor ::
  "externals \<Rightarrow> int \<Rightarrow> string \<Rightarrow> (string \<Rightarrow> string \<Rightarrow> string \<Rightarrow> sso \<Rightarrow> bool \<times> sso) \<Rightarrow> string option \<Rightarrow> string \<Rightarrow> (string \<times> json) list \<Rightarrow> sso \<Rightarrow> api \<times> sso" where
  "rename_factor x now key rename authorization ident b s =
    (case guarded x now authorization None key None s of
       Inl e \<Rightarrow> (e, s)
     | Inr sub \<Rightarrow> (case trim_label (jmember b ''label'') of
         None \<Rightarrow> (refuse 422 ''invalid_label'', s)
       | Some l \<Rightarrow> (case rename sub (lower ident) l s of (ok, s) \<Rightarrow> if ok then (NoContent, s) else (refuse 404 ''not_found'', s))))"

definition remove_factor ::
  "externals \<Rightarrow> int \<Rightarrow> string \<Rightarrow> (string \<Rightarrow> string \<Rightarrow> sso \<Rightarrow> bool \<times> sso) \<Rightarrow> string option \<Rightarrow> string option \<Rightarrow> string \<Rightarrow> sso \<Rightarrow> api \<times> sso" where
  "remove_factor x now key remove authorization sidHeader ident s =
    (case guarded x now authorization sidHeader key (Some (Some FACTOR_STEPUP_MAX)) s of
       Inl e \<Rightarrow> (e, s)
     | Inr sub \<Rightarrow>
         if blocks_last_factor s sub
         then (ApiFail 403 ''permission_denied'' [(''permission'', JStr ''profile.security.mfa.disable''), (''reason'', JStr ''last_strong_factor'')], s)
         else (case remove sub (lower ident) s of (ok, s) \<Rightarrow> if ok then (NoContent, s) else (refuse 404 ''not_found'', s)))"

definition patch_authenticator :: "externals \<Rightarrow> int \<Rightarrow> string option \<Rightarrow> string \<Rightarrow> (string \<times> json) list \<Rightarrow> sso \<Rightarrow> api \<times> sso" where
  "patch_authenticator x now = rename_factor x now ''profile.security.mfa.totp.rename'' rename_authenticator"

definition delete_authenticator :: "externals \<Rightarrow> int \<Rightarrow> string option \<Rightarrow> string option \<Rightarrow> string \<Rightarrow> sso \<Rightarrow> api \<times> sso" where
  "delete_authenticator x now = remove_factor x now ''profile.security.mfa.totp.remove'' remove_authenticator"

definition patch_passkey :: "externals \<Rightarrow> int \<Rightarrow> string option \<Rightarrow> string \<Rightarrow> (string \<times> json) list \<Rightarrow> sso \<Rightarrow> api \<times> sso" where
  "patch_passkey x now = rename_factor x now ''profile.security.mfa.passkey.rename'' rename_passkey"

definition delete_passkey :: "externals \<Rightarrow> int \<Rightarrow> string option \<Rightarrow> string option \<Rightarrow> string \<Rightarrow> sso \<Rightarrow> api \<times> sso" where
  "delete_passkey x now = remove_factor x now ''profile.security.mfa.passkey.remove'' remove_passkey"

definition register_options ::
  "externals \<Rightarrow> int \<Rightarrow> string option \<Rightarrow> string option \<Rightarrow> sso \<Rightarrow> api \<times> sso" where
  "register_options x now authorization sidHeader s =
    (case guarded x now authorization sidHeader ''profile.security.mfa.passkey.add'' (Some (Some FACTOR_STEPUP_MAX)) s of
       Inl e \<Rightarrow> (e, s)
     | Inr sub \<Rightarrow>
         (case tget (identities (core s)) sub of
            None \<Rightarrow> (refuse 404 ''not_found'', s)
          | Some i \<Rightarrow>
              if i_deleted_at i \<noteq> None then (refuse 404 ''not_found'', s)
              else if count_passkeys s sub \<ge> MAX_PASSKEYS then (limit_reached MAX_PASSKEYS, s)
              else (case start_registration x now sub s of
                  (Inl n, s) \<Rightarrow> (limit_reached n, s)
                | (Inr (challenge, excluded), s) \<Rightarrow>
                    (Answer [(''challenge'', JStr challenge), (''exclude'', JArr (map JStr excluded))], s))))"

definition register_passkey ::
  "externals \<Rightarrow> int \<Rightarrow> string option \<Rightarrow> string option \<Rightarrow> (string \<times> json) list \<Rightarrow> sso \<Rightarrow> api \<times> sso" where
  "register_passkey x now authorization sidHeader b s =
    (case guarded x now authorization sidHeader ''profile.security.mfa.passkey.add'' (Some (Some FACTOR_STEPUP_MAX)) s of
       Inl e \<Rightarrow> (e, s)
     | Inr sub \<Rightarrow>
         let credential = (case jmember b ''credential'' of Some (JObj c) \<Rightarrow> Some (JObj c) | Some (JArr c) \<Rightarrow> Some (JArr c) | _ \<Rightarrow> None);
             label = (case jmember b ''label'' of Some (JStr l) \<Rightarrow> Some l | _ \<Rightarrow> None) in
         (case credential of
            None \<Rightarrow> (refuse 422 ''credential_required'', s)
          | Some c \<Rightarrow>
              if count_passkeys s sub \<ge> MAX_PASSKEYS then (limit_reached MAX_PASSKEYS, s)
              else (case finish_registration x now sub c label s of
                  (Inl e, s) \<Rightarrow> (refuse 422 e, s) | (Inr _, s) \<Rightarrow> (NoContent, s))))"

section \<open>The profile\<close>

definition account_permissions :: "externals \<Rightarrow> string option \<Rightarrow> sso \<Rightarrow> api + string list" where
  "account_permissions x authorization s = rbind (scoped_sub x authorization) (\<lambda>sub.
     Inr (az_granted (resolve_authz (core s) sub)))"

definition patch_profile :: "externals \<Rightarrow> string option \<Rightarrow> (string \<times> json) list \<Rightarrow> sso \<Rightarrow> api \<times> sso" where
  "patch_profile x authorization b s = (case scoped_sub x authorization of
      Inl e \<Rightarrow> (e, s)
    | Inr sub \<Rightarrow>
        if jmember b ''email'' \<noteq> None then (refuse 400 ''use_email_change_flow'', s)
        else (case jmember b ''display_name'' of
            None \<Rightarrow> (refuse 400 ''no_fields'', s)
          | Some (JStr l) \<Rightarrow>
              if trim l = [] \<or> 100 < length (trim l) then (refuse 400 ''invalid_display_name'', s)
              else (case tget (identities (core s)) sub of
                  None \<Rightarrow> (refuse 404 ''not_found'', s)
                | Some i \<Rightarrow>
                    if i_deleted_at i \<noteq> None then (refuse 404 ''not_found'', s)
                    else if \<not> has_perm (core s) sub ''profile.displayname.change''
                    then (permission_refused ''profile.displayname.change'', s)
                    else (Answer [(''display_name'', JStr (trim l))], write_identity sub (\<lambda>i. i\<lparr>i_display_name := trim l\<rparr>) s))
          | Some _ \<Rightarrow> (refuse 400 ''invalid_display_name'', s)))"

end
