(* ===== verification/AdminDoor.thy ===== *)
theory AdminDoor
  imports SelfService
begin

text \<open>
  The front door of the admin console (\<open>src/routes/admin.ts\<close>, \<open>src/adminReturnPath.ts\<close>): the return
  path, the bounce to the login page, the permission, the step-up door, and the guards of the admin
  API with its CSRF token.
\<close>

section \<open>The return path\<close>

text \<open>\<open>decodeURIComponent\<close>.  A result with a character above 127 is no admin path, so an escape of a byte
  above 127 is answered like a malformed one.\<close>

definition hex_digit :: "char \<Rightarrow> nat option" where
  "hex_digit c = radix_digit c"

fun percent_decode :: "string \<Rightarrow> string option" where
  "percent_decode [] = Some []"
| "percent_decode (c # cs) =
    (if c \<noteq> CHR ''%'' then map_option (\<lambda>r. c # r) (percent_decode cs)
     else (case cs of
         a # b # rest \<Rightarrow>
           (case (hex_digit a, hex_digit b) of
              (Some m, Some n) \<Rightarrow> if 16 * m + n < 128
                then map_option (\<lambda>r. char_of (16 * m + n) # r) (percent_decode rest) else None
            | _ \<Rightarrow> None)
       | _ \<Rightarrow> None))"

definition slug_start :: "char \<Rightarrow> bool" where
  "slug_start c = (is_lower c \<or> is_digit c)"

definition slug_char :: "char \<Rightarrow> bool" where
  "slug_char c = (is_lower c \<or> is_digit c \<or> c = CHR ''_'' \<or> c = CHR ''-'')"

definition client_slug :: "string \<Rightarrow> bool" where
  "client_slug s = (case s of [] \<Rightarrow> False | c # cs \<Rightarrow> slug_start c \<and> length cs \<le> 63 \<and> list_all slug_char cs)"

text \<open>\<open>/^\/admin(?:\/(?:clients(?:\/slug)?|keys|settings))?\/?$/\<close>, on the path without its optional slash.\<close>

definition console_path :: "string \<Rightarrow> bool" where
  "console_path p =
    (p = ''/admin'' \<or> p = ''/admin/clients'' \<or> p = ''/admin/keys'' \<or> p = ''/admin/settings''
     \<or> take 15 p = ''/admin/clients/'' \<and> client_slug (drop 15 p))"

definition admin_path :: "string \<Rightarrow> bool" where
  "admin_path p = (console_path p \<or> p \<noteq> [] \<and> last p = CHR ''/'' \<and> console_path (butlast p))"

definition forbidden_unit :: "char \<Rightarrow> bool" where
  "forbidden_unit c = (let n = of_char c :: nat in n = 92 \<or> n \<le> 32 \<or> n = 127)"

definition admin_return_path :: "json option \<Rightarrow> string" where
  "admin_return_path v = (case v of
      Some (JStr s) \<Rightarrow>
        if 512 < length s \<or> list_ex forbidden_unit s then ''/admin''
        else (case percent_decode s of
            None \<Rightarrow> ''/admin''
          | Some p \<Rightarrow> if admin_path p then p else ''/admin'')
    | _ \<Rightarrow> ''/admin'')"

section \<open>The door\<close>

text \<open>What the console's shell answers: the bounce to the login, a refusal, the challenge, or the shell.\<close>

datatype door = StartLogin string | NoAdminAccess | EnrollFirst | DoorChallenge string | Shell

definition local_txn :: "db \<Rightarrow> string \<Rightarrow> txn_mfa option \<Rightarrow> login_txn" where
  "local_txn d next' m =
    \<lparr>tx_client = [], tx_redirect_uri = [], tx_state = None, tx_nonce = None, tx_challenge = [], tx_challenge_method = [],
     tx_scope = [], tx_acr_values = None, tx_client_name = Some (site_name d @ '' Admin''), tx_local_next = Some next',
     tx_passkey = None, tx_mfa = m, tx_kmsi = None, tx_csrf = []\<rparr>"

definition admin_stepup_ok :: "int \<Rightarrow> active_session \<Rightarrow> sso \<Rightarrow> bool" where
  "admin_stepup_ok now a s =
    stepup_satisfies (as_accepted (accepted_stepup_methods s (a_user a) StrongMandatory)) (a_stepup_method a)
      (is_stepup_fresh (core s) now (a_stepup_at a))"

definition admin_stepup_required :: "db \<Rightarrow> bool" where
  "admin_stepup_required d = (setting_or d ''stepup_admin_required'' ''false'' = ''true'')"

definition door_mfa :: "active_session \<Rightarrow> sso \<Rightarrow> txn_mfa" where
  "door_mfa a s =
    \<lparr>tm_sub = a_user a,
     tm_user_label = (case tget (identities (core s)) (a_user a) of
        Some i \<Rightarrow> or_string (display_label i) ''your account'' | None \<Rightarrow> ''your account''),
     tm_kmsi_label = None, tm_methods = as_accepted (accepted_stepup_methods s (a_user a) StrongMandatory),
     tm_attempts = 0, tm_masked_email = None, tm_email_sent = False, tm_passkey_challenge = None,
     tm_stepup_sid = Some (a_sid a), tm_stepup_return = None\<rparr>"

definition admin_shell :: "externals \<Rightarrow> int \<Rightarrow> string option \<Rightarrow> string \<Rightarrow> sso \<Rightarrow> door \<times> sso" where
  "admin_shell x now token path s =
    (case load_session x now token s of
       (None, s) \<Rightarrow> (StartLogin (admin_return_path (Some (JStr path))), s)
     | (Some a, s) \<Rightarrow>
         if \<not> has_perm (core s) (a_user a) ''org.siteSettings.sso'' then (NoAdminAccess, s)
         else if \<not> admin_stepup_required (core s) \<or> admin_stepup_ok now a s then (Shell, s)
         else if as_enroll_required (accepted_stepup_methods s (a_user a) StrongMandatory) then (EnrollFirst, s)
         else (case create_txn x now (local_txn (core s) (admin_return_path (Some (JStr path))) (Some (door_mfa a s))) s of
             (ident, s) \<Rightarrow> (DoorChallenge ident, s)))"

definition start_login :: "externals \<Rightarrow> int \<Rightarrow> request \<Rightarrow> sso \<Rightarrow> reply \<times> sso" where
  "start_login x now rq s =
    (case create_txn x now (local_txn (core s) (admin_return_path (query_of rq ''next'')) None) s of
       (ident, s) \<Rightarrow> (showing (ToLogin ident), s))"

section \<open>The admin API\<close>

definition CSRF_TTL :: int where "CSRF_TTL = 60 * 60 * 12"

definition require_admin :: "externals \<Rightarrow> int \<Rightarrow> string option \<Rightarrow> sso \<Rightarrow> (api + active_session) \<times> sso" where
  "require_admin x now token s =
    (case load_session x now token s of
       (None, s) \<Rightarrow> (Inl (refuse 401 ''unauthenticated''), s)
     | (Some a, s) \<Rightarrow>
         if has_perm (core s) (a_user a) ''org.siteSettings.sso'' then (Inr a, s)
         else (Inl (permission_refused ''org.siteSettings.sso''), s))"

definition require_csrf :: "int \<Rightarrow> active_session \<Rightarrow> string option \<Rightarrow> sso \<Rightarrow> bool" where
  "require_csrf now a header s = (case rget now (admin_csrf s) (a_sid a) of
      None \<Rightarrow> False
    | Some expected \<Rightarrow> expected \<noteq> [] \<and> header = Some expected)"

text \<open>The guards of a mutating admin route: session and permission, the step-up door, the CSRF token.\<close>

definition admin_mutation :: "externals \<Rightarrow> int \<Rightarrow> string option \<Rightarrow> string option \<Rightarrow> sso \<Rightarrow> (api + active_session) \<times> sso" where
  "admin_mutation x now token header s =
    (case require_admin x now token s of
       (Inl e, s) \<Rightarrow> (Inl e, s)
     | (Inr a, s) \<Rightarrow>
         if admin_stepup_required (core s) \<and> \<not> admin_stepup_ok now a s then (Inl (refuse 403 ''step_up_required''), s)
         else if \<not> require_csrf now a header s then (Inl (refuse 403 ''csrf_failed''), s)
         else (Inr a, s))"

text \<open>\<open>GET /admin/api/me\<close>: the token is minted once per session.\<close>

definition admin_me :: "externals \<Rightarrow> int \<Rightarrow> string option \<Rightarrow> sso \<Rightarrow> (api + string) \<times> sso" where
  "admin_me x now token s =
    (case require_admin x now token s of
       (Inl e, s) \<Rightarrow> (Inl e, s)
     | (Inr a, s) \<Rightarrow>
         (case rget now (admin_csrf s) (a_sid a) of
            Some c \<Rightarrow> if c \<noteq> [] then (Inr c, s)
              else (case draw x s of (c, s) \<Rightarrow> (Inr c, s\<lparr>admin_csrf := rset_ex now (a_sid a) c CSRF_TTL (admin_csrf s)\<rparr>))
          | None \<Rightarrow> (case draw x s of (c, s) \<Rightarrow> (Inr c, s\<lparr>admin_csrf := rset_ex now (a_sid a) c CSRF_TTL (admin_csrf s)\<rparr>))))"

end
