(* ===== verification/AuthTrace.thy ===== *)
theory AuthTrace
  imports AdminDoor SessionProps
begin

text \<open>
  The sign-in machinery as a transition system: every handler that can create a session, a login
  transaction, an authorization code or a login ticket is a step, in any order and at any times, and
  anything else the program or an administrator does is a step that leaves those stores alone except
  that sessions may be changed or ended.  A history lists the steps with the state each was taken in.
\<close>

section \<open>Steps and histories\<close>

datatype web_op =
    WAuthorize request
  | WGetLogin request
  | WLogin request
  | WStay request
  | WPasskeyPage request
  | WPasskey request
  | WSendEmail request
  | WChallenge request
  | WTicket request
  | WShell "string option" string
  | WStartLogin request
  | WToken "(string \<times> json) list"
  | WReset "(string \<times> json) list"
  | WRegister "(string \<times> json) list"

record site =
  st_s256 :: "string \<Rightarrow> string"
  st_issuer :: string
  st_portal :: string
  st_portal_client :: string

fun web_step :: "externals \<Rightarrow> site \<Rightarrow> int \<Rightarrow> web_op \<Rightarrow> sso \<Rightarrow> sso" where
  "web_step x c now (WAuthorize rq) s = snd (authorize x now rq s)"
| "web_step x c now (WGetLogin rq) s = snd (get_login x now rq s)"
| "web_step x c now (WLogin rq) s = snd (post_login x now rq s)"
| "web_step x c now (WStay rq) s = snd (post_stay x now rq s)"
| "web_step x c now (WPasskeyPage rq) s = snd (get_login_passkey x now rq s)"
| "web_step x c now (WPasskey rq) s = snd (post_login_passkey x now rq s)"
| "web_step x c now (WSendEmail rq) s = snd (post_send_email x now rq s)"
| "web_step x c now (WChallenge rq) s = snd (post_challenge x now rq s)"
| "web_step x c now (WTicket rq) s = snd (complete_ticket x (st_portal c) now rq s)"
| "web_step x c now (WShell token path) s = snd (admin_shell x now token path s)"
| "web_step x c now (WStartLogin rq) s = snd (start_login x now rq s)"
| "web_step x c now (WToken b) s = snd (token_request x (st_s256 c) (st_issuer c) now b s)"
| "web_step x c now (WReset b) s = snd (reset_confirm x (st_portal_client c) (st_issuer c) now b s)"
| "web_step x c now (WRegister b) s = snd (register_complete x (st_portal_client c) (st_issuer c) now b s)"

text \<open>What else may happen: users, roles, settings, factors, links and sessions change at will, but no
  session appears, and none changes its user, its factors or its level.\<close>

definition same_proof :: "session \<Rightarrow> session \<Rightarrow> bool" where
  "same_proof r r' = (se_user r' = se_user r \<and> se_amr r' = se_amr r \<and> se_acr r' = se_acr r)"

definition elsewhere :: "sso \<Rightarrow> sso \<Rightarrow> bool" where
  "elsewhere s s' = (txns s' = txns s \<and> codes s' = codes s \<and> login_tickets s' = login_tickets s
     \<and> (\<forall>(sid, r') \<in> set (sessions s'). \<exists>r. (sid, r) \<in> set (sessions s) \<and> same_proof r r'))"

text \<open>A uuid column never holds the empty text.\<close>

definition uuid_keys :: "db \<Rightarrow> bool" where
  "uuid_keys d = (\<forall>(k, i) \<in> set (identities d). k \<noteq> [])"

definition uuid_columns :: "sso \<Rightarrow> bool" where
  "uuid_columns s = (uuid_keys (core s) \<and> (\<forall>(k, r) \<in> set (sessions s). k \<noteq> []))"

type_synonym history = "(int \<times> web_op \<times> sso) list"

inductive served :: "externals \<Rightarrow> site \<Rightarrow> history \<Rightarrow> sso \<Rightarrow> bool" for x :: externals and c :: site where
  start: "txns s = [] \<Longrightarrow> codes s = [] \<Longrightarrow> login_tickets s = [] \<Longrightarrow> sessions s = [] \<Longrightarrow> served x c [] s"
| handler: "served x c h s \<Longrightarrow> uuid_columns s \<Longrightarrow> served x c ((now, op, s) # h) (web_step x c now op s)"
| other: "served x c h s \<Longrightarrow> elsewhere s s' \<Longrightarrow> served x c h s'"

section \<open>What a request proves\<close>

text \<open>The credential a request presents, checked in the state it met: a password, an emailed or an
  authenticator's code, an assertion over a challenge the server had put into the transaction or
  behind the reset link, or the link mailed to an address.\<close>

definition proves_password :: "externals \<Rightarrow> request \<Rightarrow> sso \<Rightarrow> string \<Rightarrow> bool" where
  "proves_password x rq s u = (\<exists>i. find_by_username_or_email (core s) (trim (qstr (body_of rq ''username''))) = Some (u, i)
     \<and> i_status i = Active \<and> verify_password x i (qstr (body_of rq ''password'')))"

definition proves_passkey :: "externals \<Rightarrow> json \<Rightarrow> string \<Rightarrow> sso \<Rightarrow> string \<Rightarrow> bool" where
  "proves_passkey x credential challenge s u = (\<exists>k p n. (k, p) \<in> set (passkeys s) \<and> pk_user p = u
     \<and> pk_credential_id p = x_credential_id x credential \<and> x_assertion x credential challenge p = Some (Some n))"

fun proves :: "externals \<Rightarrow> int \<Rightarrow> web_op \<Rightarrow> sso \<Rightarrow> string \<Rightarrow> string \<Rightarrow> bool" where
  "proves x now (WLogin rq) s u a = (a = ''pwd'' \<and> proves_password x rq s u)"
| "proves x now (WPasskey rq) s u a = (a = ''passkey'' \<and>
     (\<exists>t challenge credential. get_txn now (body_txn rq) s = Some t \<and> tx_passkey t = Some challenge
        \<and> parsed_credential x rq = Some credential \<and> proves_passkey x credential challenge s u))"
| "proves x now (WChallenge rq) s u a =
     (\<exists>t m. get_txn now (body_txn rq) s = Some t \<and> tx_mfa t = Some m \<and> tm_sub m = u \<and>
        (a = ''otp'' \<and> fst (verify_login_totp x now u (trim (qstr (body_of rq ''code''))) s)
       \<or> a = ''email'' \<and> fst (verify_email_otp x now u ''login'' (trim (qstr (body_of rq ''code''))) s) = OtpValid
       \<or> a = ''passkey'' \<and> (\<exists>challenge credential. tm_passkey_challenge m = Some challenge
            \<and> parsed_credential x rq = Some credential \<and> proves_passkey x credential challenge s u)))"
| "proves x now (WReset b) s u a =
     (\<exists>q i. live_link x now b s = Some (q, i) \<and> rt_sub (snd q) = u \<and>
        (a = ''email''
       \<or> a = ''otp'' \<and> fst (verify_login_totp x now u (trim (qstr (jmember b ''code''))) s)
       \<or> a = ''passkey'' \<and> (\<exists>challenge credential. rget now (reset_passkeys s) (fst q) = Some challenge
            \<and> x_parse_json x (qstr (jmember b ''credential'')) = Some credential \<and> proves_passkey x credential challenge s u)))"
| "proves x now (WRegister b) s u a = (a = ''email'' \<and> u = x_rnd x (draws s) \<and> body_pending x now b s \<noteq> None)"
| "proves x now _ s u a = False"

definition proven :: "externals \<Rightarrow> history \<Rightarrow> string \<Rightarrow> string \<Rightarrow> bool" where
  "proven x h u a = (\<exists>(now, op, s) \<in> set h. proves x now op s u a)"

lemma proven_mono: "proven x h u a \<Longrightarrow> proven x (e # h) u a"
  by (auto simp: proven_def)

lemma proven_now: "proves x now op s u a \<Longrightarrow> proven x ((now, op, s) # h) u a"
  by (auto simp: proven_def)

section \<open>Everything in a store\<close>

definition every :: "('v \<Rightarrow> bool) \<Rightarrow> ('k, 'v) table \<Rightarrow> bool" where
  "every P t = (\<forall>(k, v) \<in> set t. P v)"

definition every_entry :: "('v \<Rightarrow> bool) \<Rightarrow> 'v redis \<Rightarrow> bool" where
  "every_entry P m = (\<forall>(k, v, d) \<in> set m. P v)"

lemma every_Nil [simp]: "every P []" "every_entry P []"
  by (simp_all add: every_def every_entry_def)

lemma rows_of_tput: "set (tput k v t) \<subseteq> insert (k, v) (set t)"
  by (induction t) (auto simp: tput_def)

lemma every_tput: "every P t \<Longrightarrow> P v \<Longrightarrow> every P (tput k v t)"
  using rows_of_tput [of k v t] by (fastforce simp: every_def)

lemma every_tdel: "every P t \<Longrightarrow> every P (tdel k t)"
  by (auto simp: every_def tdel_def AList.delete_eq)

lemma every_tmap: "every P t \<Longrightarrow> (\<And>k v. P v \<Longrightarrow> P (f k v)) \<Longrightarrow> every P (tmap f t)"
  by (auto simp: every_def tmap_def)

lemma every_tfilter: "every P t \<Longrightarrow> every P (tfilter Q t)"
  by (auto simp: every_def tfilter_def)

lemma every_tget: "every P t \<Longrightarrow> tget t k = Some v \<Longrightarrow> P v"
  unfolding every_def tget_def by (fastforce dest: map_of_SomeD)

lemma every_mono: "every P t \<Longrightarrow> (\<And>v. P v \<Longrightarrow> Q v) \<Longrightarrow> every Q t"
  by (auto simp: every_def)

lemma entry_mono: "every_entry P m \<Longrightarrow> (\<And>v. P v \<Longrightarrow> Q v) \<Longrightarrow> every_entry Q m"
  by (auto simp: every_entry_def)

lemma entry_tput: "every_entry P m \<Longrightarrow> P v \<Longrightarrow> every_entry P (tput k (v, d) m)"
  using rows_of_tput [of k "(v, d)" m] by (fastforce simp: every_entry_def)

lemma entry_set_ex: "every_entry P m \<Longrightarrow> P v \<Longrightarrow> every_entry P (rset_ex now k v n m)"
  by (simp add: rset_ex_def entry_tput)

lemma entry_keepttl: "every_entry P m \<Longrightarrow> P v \<Longrightarrow> every_entry P (rset_keepttl now k v m)"
  by (auto simp: rset_keepttl_def entry_tput split: option.splits)

lemma entry_del: "every_entry P m \<Longrightarrow> every_entry P (rdel k m)"
  by (auto simp: every_entry_def rdel_def tdel_def AList.delete_eq)

lemma entry_get: "every_entry P m \<Longrightarrow> rget now m k = Some v \<Longrightarrow> P v"
  unfolding every_entry_def rget_def tget_def by (fastforce split: option.splits if_splits dest: map_of_SomeD)

lemmas store_intros = every_tput every_tdel every_tmap every_tfilter entry_set_ex entry_keepttl entry_del

section \<open>The invariant\<close>

text \<open>The password alone is enough for an account that, when it was checked, had its MFA toggle off or
  nothing to be challenged with.\<close>

definition password_alone :: "externals \<Rightarrow> history \<Rightarrow> string \<Rightarrow> bool" where
  "password_alone x h u = (\<exists>(now, op, s) \<in> set h. \<exists>rq i. op = WLogin rq
     \<and> find_by_username_or_email (core s) (trim (qstr (body_of rq ''username''))) = Some (u, i)
     \<and> i_status i = Active \<and> verify_password x i (qstr (body_of rq ''password''))
     \<and> (\<not> i_mfa_enabled i \<or> login_methods s u i = []))"

abbreviation authentic :: "externals \<Rightarrow> history \<Rightarrow> string \<Rightarrow> string list \<Rightarrow> bool" where
  "authentic x h u amr \<equiv> amr \<noteq> [] \<and> (\<forall>a \<in> set amr. proven x h u a) \<and> (amr = [''pwd''] \<longrightarrow> password_alone x h u)"

lemma password_alone_mono: "password_alone x h u \<Longrightarrow> password_alone x (e # h) u"
  by (auto simp: password_alone_def)

definition session_ok :: "externals \<Rightarrow> history \<Rightarrow> session \<Rightarrow> bool" where
  "session_ok x h r = (authentic x h (se_user r) (se_amr r) \<and> se_acr r \<noteq> Some STEPUP_ACR \<and> se_user r \<noteq> [])"

definition ticket_ok :: "externals \<Rightarrow> history \<Rightarrow> login_ticket \<Rightarrow> bool" where
  "ticket_ok x h t = (authentic x h (lt_sub t) (lt_amr t) \<and> lt_acr t \<noteq> STEPUP_ACR \<and> lt_sub t \<noteq> [])"

definition kmsi_ok :: "externals \<Rightarrow> history \<Rightarrow> txn_kmsi \<Rightarrow> bool" where
  "kmsi_ok x h k = (authentic x h (tk_sub k) (tk_amr k) \<and> tk_acr k \<noteq> STEPUP_ACR \<and> tk_sub k \<noteq> [])"

text \<open>A challenge that completes a password login: it is for no step-up, or it accepts an emailed code.\<close>

definition stands_in :: "txn_mfa \<Rightarrow> bool" where
  "stands_in m = (tm_stepup_return m = None \<and> (tm_stepup_sid m = None \<or> tm_stepup_sid m = Some [])
     \<or> \<not> set (tm_methods m) \<subseteq> {''passkey'', ''totp''})"

definition mfa_ok :: "externals \<Rightarrow> history \<Rightarrow> txn_mfa \<Rightarrow> bool" where
  "mfa_ok x h m = (tm_sub m \<noteq> [] \<and> (stands_in m \<longrightarrow> proven x h (tm_sub m) ''pwd''))"

text \<open>The redirect address was registered for the enabled client when the history met it.\<close>

definition registered :: "history \<Rightarrow> string \<Rightarrow> string \<Rightarrow> bool" where
  "registered h cid uri = (\<exists>(now, op, s) \<in> set h. \<exists>cl. tget (oauth_clients (core s)) cid = Some cl
     \<and> cl_disabled_at cl = None \<and> uri \<in> set (cl_redirect_uris cl))"

definition goes_home :: "history \<Rightarrow> login_txn \<Rightarrow> bool" where
  "goes_home h t = (registered h (tx_client t) (tx_redirect_uri t)
     \<or> tx_local_next t \<noteq> None \<and> tx_local_next t \<noteq> Some [] \<and> (\<forall>m. tx_mfa t = Some m \<longrightarrow> tm_stepup_return m = None))"

definition txn_ok :: "externals \<Rightarrow> history \<Rightarrow> login_txn \<Rightarrow> bool" where
  "txn_ok x h t = ((\<forall>k. tx_kmsi t = Some k \<longrightarrow> kmsi_ok x h k) \<and> (\<forall>m. tx_mfa t = Some m \<longrightarrow> mfa_ok x h m) \<and> goes_home h t)"

text \<open>A step-up code carries one strong factor, proved at the very time the code names.\<close>

definition fresh_factor :: "externals \<Rightarrow> history \<Rightarrow> auth_code \<Rightarrow> bool" where
  "fresh_factor x h c = (\<exists>a now rq s. (a = ''otp'' \<or> a = ''passkey'') \<and> co_amr c = [a] \<and> co_auth_time c = now_sec now
     \<and> (now, WChallenge rq, s) \<in> set h \<and> proves x now (WChallenge rq) s (co_user c) a)"

definition code_ok :: "externals \<Rightarrow> history \<Rightarrow> auth_code \<Rightarrow> bool" where
  "code_ok x h c = (registered h (co_client c) (co_redirect_uri c)
     \<and> authentic x h (co_user c) (co_amr c)
     \<and> (co_acr c = Some STEPUP_ACR \<longrightarrow> fresh_factor x h c))"

definition trusted :: "externals \<Rightarrow> history \<Rightarrow> sso \<Rightarrow> bool" where
  "trusted x h s = (every (session_ok x h) (sessions s) \<and> every_entry (txn_ok x h) (txns s)
     \<and> every_entry (code_ok x h) (codes s) \<and> every_entry (ticket_ok x h) (login_tickets s))"

lemma registered_mono: "registered h cid uri \<Longrightarrow> registered (e # h) cid uri"
  by (auto simp: registered_def)

lemma ok_mono:
  "session_ok x h r \<Longrightarrow> session_ok x (e # h) r"
  "ticket_ok x h t \<Longrightarrow> ticket_ok x (e # h) t"
  "txn_ok x h u \<Longrightarrow> txn_ok x (e # h) u"
  "code_ok x h c \<Longrightarrow> code_ok x (e # h) c"
proof -
  show "session_ok x h r \<Longrightarrow> session_ok x (e # h) r" "ticket_ok x h t \<Longrightarrow> ticket_ok x (e # h) t"
    by (auto simp: session_ok_def ticket_ok_def intro: proven_mono password_alone_mono)
  show "txn_ok x h u \<Longrightarrow> txn_ok x (e # h) u"
    by (auto simp: txn_ok_def kmsi_ok_def mfa_ok_def goes_home_def intro: proven_mono password_alone_mono registered_mono)
  show "code_ok x h c \<Longrightarrow> code_ok x (e # h) c"
    by (fastforce simp: code_ok_def fresh_factor_def intro: proven_mono password_alone_mono registered_mono)
qed

lemma trusted_mono: "trusted x h s \<Longrightarrow> trusted x (e # h) s"
  unfolding trusted_def by (blast intro: every_mono entry_mono ok_mono)

text \<open>Operations that leave the four stores as they are.\<close>

definition stores_same :: "sso \<Rightarrow> sso \<Rightarrow> bool" where
  "stores_same s s' = (core s' = core s \<and> sessions s' = sessions s \<and> txns s' = txns s \<and> codes s' = codes s \<and> login_tickets s' = login_tickets s)"

lemma trusted_same: "trusted x h s \<Longrightarrow> stores_same s s' \<Longrightarrow> trusted x h s'"
  by (simp add: trusted_def stores_same_def)

lemma stores_same_trans: "stores_same s s' \<Longrightarrow> stores_same s' s'' \<Longrightarrow> stores_same s s''"
  by (simp add: stores_same_def)

lemma stores_same_refl [simp]: "stores_same s s"
  by (simp add: stores_same_def)

named_theorems same_intros \<open>operations outside the four stores\<close>

lemma draw_same [same_intros]: "draw x s = (v, s') \<Longrightarrow> stores_same s s'"
  by (auto simp: draw_def stores_same_def)

lemma auth_options_same [same_intros]: "login_auth_options x u s = (v, s') \<Longrightarrow> stores_same s s'"
  by (auto simp: login_auth_options_def draw_def stores_same_def)

lemma assertion_same [same_intros]: "verify_login_assertion x now cr ch u s = (v, s') \<Longrightarrow> stores_same s s'"
  by (cases "x_credential_id x cr = []"; cases "find (\<lambda>(_, p). pk_credential_id p = x_credential_id x cr) (passkeys s)")
     (auto simp: verify_login_assertion_def stores_same_def Let_def split: if_splits option.splits)

lemma claim_same [same_intros]: "claim_totp_step now ident ts s = (b, s') \<Longrightarrow> stores_same s s'"
  by (auto simp: claim_totp_step_def stores_same_def Let_def split: if_splits)

lemma totp_loop_same: "totp_loop x now tok cs s = (v, s') \<Longrightarrow> stores_same s s'"
proof (induction cs arbitrary: s)
  case Nil
  then show ?case by simp
next
  case (Cons q cs)
  obtain ident c where q: "q = (ident, c)" by (cases q)
  show ?case
  proof (cases "x_open x (tc_secret_enc c)")
    case None
    then show ?thesis using Cons by (simp add: q)
  next
    case secret: (Some secret)
    show ?thesis
    proof (cases "x_totp x secret tok now")
      case None
      then show ?thesis using Cons secret by (simp add: q)
    next
      case (Some ts)
      obtain b s1 where cl: "claim_totp_step now ident ts s = (b, s1)" by fastforce
      note same = claim_same [OF this]
      show ?thesis
      proof (cases b)
        case True
        then show ?thesis using Cons.prems secret Some cl same by (auto simp: q stores_same_def)
      next
        case False
        then show ?thesis using Cons.prems Cons.IH [of s1] secret Some cl stores_same_trans [OF same] by (simp add: q)
      qed
    qed
  qed
qed

lemma verify_totp_same [same_intros]: "verify_login_totp x now u tok s = (v, s') \<Longrightarrow> stores_same s s'"
  by (auto simp: verify_login_totp_def login_totp_match_def dest: totp_loop_same split: if_splits prod.splits)

lemma issue_otp_same [same_intros]: "issue_email_otp x now u p s = (v, s') \<Longrightarrow> stores_same s s'"
  by (auto simp: issue_email_otp_def gen_code_def stores_same_def Let_def split: option.splits)

lemma verify_otp_same [same_intros]: "verify_email_otp x now u p tok s = (v, s') \<Longrightarrow> stores_same s s'"
  by (auto simp: verify_email_otp_def stores_same_def split: option.splits if_splits)

lemma send_email_same [same_intros]: "send_email x e v s = (b, s') \<Longrightarrow> stores_same s s'"
  by (auto simp: send_email_def stores_same_def split: if_splits)

section \<open>The building blocks keep it\<close>

lemma trusted_txn: "trusted x h s \<Longrightarrow> get_txn now ident s = Some t \<Longrightarrow> txn_ok x h t"
  by (auto simp: trusted_def get_txn_def intro: entry_get split: if_splits)

lemma trusted_session: "trusted x h s \<Longrightarrow> (sid, r) \<in> set (sessions s) \<Longrightarrow> session_ok x h r"
  by (auto simp: trusted_def every_def)

lemma txn_ok_simps [simp]:
  "txn_ok x h (t\<lparr>tx_csrf := v\<rparr>) = txn_ok x h t" "txn_ok x h (t\<lparr>tx_passkey := p\<rparr>) = txn_ok x h t"
  "txn_ok x h (t\<lparr>tx_acr_values := w\<rparr>) = txn_ok x h t"
  by (simp_all add: txn_ok_def goes_home_def)

lemma txn_ok_kmsi: "txn_ok x h t \<Longrightarrow> kmsi_ok x h k \<Longrightarrow> txn_ok x h (t\<lparr>tx_kmsi := Some k\<rparr>)"
  by (simp add: txn_ok_def goes_home_def)

text \<open>Rewriting the challenge phase without touching whom it is for.\<close>

lemma txn_ok_mfa:
  "txn_ok x h t \<Longrightarrow> tx_mfa t = Some m \<Longrightarrow> tm_sub m' = tm_sub m \<Longrightarrow> tm_stepup_sid m' = tm_stepup_sid m \<Longrightarrow>
    tm_stepup_return m' = tm_stepup_return m \<Longrightarrow> tm_methods m' = tm_methods m \<Longrightarrow> txn_ok x h (t\<lparr>tx_mfa := Some m'\<rparr>)"
  by (auto simp: txn_ok_def mfa_ok_def stands_in_def goes_home_def)

lemma trusted_create_txn: "trusted x h s \<Longrightarrow> txn_ok x h t \<Longrightarrow> trusted x h (snd (create_txn x now t s))"
  by (auto simp: create_txn_def draw_def trusted_def intro: store_intros)

lemma trusted_update_txn: "trusted x h s \<Longrightarrow> txn_ok x h t \<Longrightarrow> trusted x h (update_txn now ident t s)"
  by (auto simp: update_txn_def trusted_def intro: store_intros)

lemma trusted_consume_txn: "trusted x h s \<Longrightarrow> trusted x h (consume_txn ident s)"
  by (auto simp: consume_txn_def trusted_def intro: store_intros)

lemma trusted_create_code: "trusted x h s \<Longrightarrow> code_ok x h c \<Longrightarrow> trusted x h (snd (create_code x now c s))"
  by (auto simp: create_code_def draw_def trusted_def intro: store_intros)

lemma trusted_create_session:
  assumes "trusted x h s" and "authentic x h (ns_user n) (ns_amr n)" and "ns_acr n \<noteq> Some STEPUP_ACR"
    and "ns_user n \<noteq> []"
  shows "trusted x h (snd (snd (create_session x now n s)))"
  using assms by (auto simp: create_session_def draw_def trusted_def Let_def session_ok_def intro!: every_tput)

lemma session_row_update:
  "trusted x h s \<Longrightarrow> tget (sessions s) sid = Some r \<Longrightarrow> same_proof r r' \<Longrightarrow> trusted x h (s\<lparr>sessions := tput sid r' (sessions s)\<rparr>)"
  by (auto simp: trusted_def session_ok_def same_proof_def intro!: every_tput dest: every_tget)

lemma trusted_persist: "trusted x h s \<Longrightarrow> trusted x h (snd (persist_session x now tok sid s))"
  by (auto simp: persist_session_def same_proof_def Let_def intro!: session_row_update split: option.splits)

lemma session_rows_map:
  "trusted x h s \<Longrightarrow> (\<And>k r. same_proof r (f k r)) \<Longrightarrow> trusted x h (s\<lparr>sessions := tmap f (sessions s)\<rparr>)"
  by (auto simp: trusted_def session_ok_def same_proof_def intro!: every_tmap)

lemma trusted_stamp: "trusted x h s \<Longrightarrow> trusted x h (stamp_stepup now sid how s)"
  by (auto simp: stamp_stepup_def same_proof_def intro!: session_rows_map)

lemma trusted_join: "trusted x h s \<Longrightarrow> trusted x h (join_session sid cid s)"
  by (auto simp: join_session_def same_proof_def intro!: session_rows_map)

lemma trusted_touch: "trusted x h s \<Longrightarrow> trusted x h (touch_session now sid s)"
proof -
  assume t: "trusted x h s"
  have "trusted x h (s\<lparr>sessions := tmap (\<lambda>k r. if k = sid then r\<lparr>se_last_seen := now\<rparr> else r) (sessions s)\<rparr>)"
    by (rule session_rows_map [OF t]) (simp add: same_proof_def)
  then show ?thesis using t by (simp add: touch_session_def Let_def trusted_def)
qed

lemma load_session_trusted:
  assumes "trusted x h s" and "load_session x now tok s = (r, s')"
  shows "trusted x h s'" and "core s' = core s"
    and "r = Some a \<Longrightarrow> authentic x h (a_user a) (a_amr a) \<and> a_acr a \<noteq> Some STEPUP_ACR \<and> a_user a \<noteq> []"
proof -
  have "trusted x h s' \<and> core s' = core s \<and> (r = Some a \<longrightarrow> authentic x h (a_user a) (a_amr a) \<and> a_acr a \<noteq> Some STEPUP_ACR \<and> a_user a \<noteq> [])"
  proof (cases "r")
    case None
    then show ?thesis using assms by (auto simp: load_session_def split: option.splits if_splits)
  next
    case (Some b)
    then obtain sid row where l: "(sid, row) \<in> set (sessions s)" "b = active_of sid row" "s' = touch_session now sid s"
      using assms(2) by (auto simp: load_session_def find_Some_iff split: option.splits if_splits) (metis nth_mem)
    have "session_ok x h row" by (rule trusted_session [OF assms(1) l(1)])
    then show ?thesis using l Some trusted_touch [OF assms(1), of now sid]
      by (auto simp: session_ok_def active_of_def touch_session_def Let_def)
  qed
  then show "trusted x h s'" "core s' = core s"
    "r = Some a \<Longrightarrow> authentic x h (a_user a) (a_amr a) \<and> a_acr a \<noteq> Some STEPUP_ACR \<and> a_user a \<noteq> []" by blast+
qed

lemma trusted_finish_login:
  assumes "trusted x h s" and "txn_ok x h t" and "authentic x h sub amr" and "acr \<noteq> STEPUP_ACR" and "sub \<noteq> []"
  shows "trusted x h (snd (finish_login x now rq ident t sub amr acr label s))"
proof -
  define n where "n = \<lparr>ns_user = sub, ns_amr = amr, ns_acr = Some acr, ns_ip = rq_ip rq,
    ns_user_agent = Some (case tget (rq_headers rq) ''user-agent'' of None \<Rightarrow> [] | Some v \<Rightarrow> v),
    ns_country = geo_header rq ''cf-ipcountry'', ns_city = geo_header rq ''cf-ipcity'',
    ns_region = geo_header rq ''cf-region''\<rparr>"
  obtain sid ck s1 where c: "create_session x now n s = (sid, ck, s1)" by (metis prod_cases3)
  have "trusted x h s1" using trusted_create_session [of x h s n now] assms c by (simp add: n_def)
  moreover have "kmsi_ok x h \<lparr>tk_sid = sid, tk_sub = sub, tk_user_label = label, tk_amr = amr, tk_acr = acr, tk_auth_time = now_sec now\<rparr>"
    using assms(3-5) by (simp add: kmsi_ok_def)
  ultimately show ?thesis using assms(2) c
    by (simp add: finish_login_def Let_def n_def trusted_update_txn txn_ok_kmsi)
qed

lemma trusted_render_challenge:
  assumes "trusted x h s" and "txn_ok x h t" and "tx_mfa t = Some m"
  shows "trusted x h (snd (render_challenge x now ident t m use err resend s))"
proof -
  obtain ch al s1 where o: "login_auth_options x (Some (tm_sub m)) s = ((ch, al), s1)" by (metis prod.collapse)
  have "trusted x h s1" by (rule trusted_same [OF assms(1) auth_options_same [OF o]])
  then show ?thesis using assms o
    by (auto simp: render_challenge_def Let_def intro!: trusted_update_txn txn_ok_mfa [OF assms(2,3)])
qed

lemma trusted_render_login:
  assumes "trusted x h s" and "txn_ok x h t"
  shows "trusted x h (snd (login_passkey_options x now ident t s))"
    and "trusted x h (snd (render_login x now status ident t err s))"
proof -
  obtain ch al s1 where o: "login_auth_options x None s = ((ch, al), s1)" by (metis prod.collapse)
  have "trusted x h s1" by (rule trusted_same [OF assms(1) auth_options_same [OF o]])
  then have "trusted x h (snd (login_passkey_options x now ident t s))" using assms o
    by (auto simp: login_passkey_options_def Let_def intro!: trusted_update_txn)
  then show "trusted x h (snd (login_passkey_options x now ident t s))"
    "trusted x h (snd (render_login x now status ident t err s))"
    by (auto simp: render_login_def split: prod.splits)
qed

lemma trusted_fail_back: "trusted x h s \<Longrightarrow> txn_ok x h t \<Longrightarrow> trusted x h (snd (fail_back x now ident t reason s))"
  by (simp add: fail_back_def trusted_render_login trusted_update_txn Let_def)

lemma trusted_strong_fail:
  assumes "trusted x h s" and "txn_ok x h t" and "tx_mfa t = Some m"
  shows "trusted x h (snd (strong_fail x now ident t m how err s))"
proof -
  have "txn_ok x h (t\<lparr>tx_mfa := Some (m\<lparr>tm_attempts := tm_attempts m + 1\<rparr>)\<rparr>)" by (rule txn_ok_mfa [OF assms(2,3)]) simp_all
  then show ?thesis using assms(1)
    by (auto simp: strong_fail_def Let_def intro!: trusted_consume_txn trusted_render_challenge trusted_update_txn)
qed

section \<open>What a verification that succeeded says\<close>

lemma find_in: "find P xs = Some y \<Longrightarrow> y \<in> set xs \<and> P y"
  by (induction xs) (auto split: if_splits)

lemma assertion_proves:
  assumes "verify_login_assertion x now cr ch u s = (Inr sub, s')"
  shows "proves_passkey x cr ch s sub" and "u = Some v \<Longrightarrow> v \<noteq> [] \<Longrightarrow> sub = v"
proof -
  obtain ident p where f: "find (\<lambda>(_, p). pk_credential_id p = x_credential_id x cr) (passkeys s) = Some (ident, p)"
    using assms by (auto simp: verify_login_assertion_def Let_def split: if_splits option.splits)
  then have "(ident, p) \<in> set (passkeys s)" "pk_credential_id p = x_credential_id x cr"
    using find_in [OF f] by auto
  moreover have "\<exists>n. x_assertion x cr ch p = Some (Some n)" "pk_user p = sub" "u = Some v \<Longrightarrow> v \<noteq> [] \<Longrightarrow> sub = v"
    using assms f by (auto simp: verify_login_assertion_def Let_def split: if_splits option.splits)
  ultimately show "proves_passkey x cr ch s sub" "u = Some v \<Longrightarrow> v \<noteq> [] \<Longrightarrow> sub = v"
    unfolding proves_passkey_def by blast+
qed

lemma identity_key: "uuid_keys d \<Longrightarrow> tget (identities d) k = Some i \<Longrightarrow> k \<noteq> []"
  unfolding uuid_keys_def tget_def by (auto dest: map_of_SomeD)

lemma found_key: "uuid_keys d \<Longrightarrow> find_by_username_or_email d u = Some (k, i) \<Longrightarrow> k \<noteq> []"
proof -
  have in_ids: "find P (identities d) = Some (k, i) \<Longrightarrow> (k, i) \<in> set (identities d)" for P
    using find_in by fastforce
  show "uuid_keys d \<Longrightarrow> find_by_username_or_email d u = Some (k, i) \<Longrightarrow> k \<noteq> []"
    by (auto simp: find_by_username_or_email_def find_by_username_def find_by_email_def uuid_keys_def
        dest!: in_ids split: option.splits if_splits)
qed

section \<open>Every handler keeps it\<close>

lemma code_of_session:
  assumes "registered h (tx_client t) (tx_redirect_uri t)" and "authentic x h sub amr" and "acr \<noteq> Some STEPUP_ACR"
  shows "code_ok x h (code_of_txn t sub sid amr acr at)"
  using assms by (simp add: code_ok_def code_of_txn_def)

text \<open>The part of \<open>authorize\<close> that follows the session lookup.\<close>

definition after_lookup :: "externals \<Rightarrow> int \<Rightarrow> request \<Rightarrow> login_txn \<Rightarrow> active_session option \<times> sso \<Rightarrow> reply \<times> sso" where
  "after_lookup x now rq t q =
    (let (session, s) = q;
         prompt = words_on (CHR '' '') (qstr (query_of rq ''prompt''));
         wanted = filter (\<lambda>w. w \<noteq> []) (map trim (split_on (CHR '','') (qstr (query_of rq ''stepup''))));
         back = (\<lambda>params s. (showing (Redirect (tx_redirect_uri t) (params @ state_param (tx_state t))), s));
         usable = (case session of None \<Rightarrow> None | Some a \<Rightarrow> if too_old now (query_of rq ''max_age'') a then None else Some a)
     in case usable of
          Some a \<Rightarrow>
            if wanted \<noteq> [] then authorize_stepup x now t a wanted s
            else if \<not> app_access_allowed (core s) (tx_client t) (a_user a) then back denied s
            else let (code, s) = create_code x now (code_of_txn t (a_user a) (a_sid a) (a_amr a) (a_acr a) (a_auth_time a)) s
                 in back [(''code'', code)] s
        | None \<Rightarrow>
            if ''none'' \<in> set prompt then back [(''error'', ''login_required'')] s
            else let (ident, s) = create_txn x now (t\<lparr>tx_acr_values := opt_query rq ''acr_values''\<rparr>) s
                 in (showing (ToLogin ident), s))"

definition lookup_session :: "externals \<Rightarrow> int \<Rightarrow> request \<Rightarrow> sso \<Rightarrow> active_session option \<times> sso" where
  "lookup_session x now rq s =
    (let prompt = words_on (CHR '' '') (qstr (query_of rq ''prompt''))
     in if ''login'' \<in> set prompt \<or> ''select_account'' \<in> set prompt then (None, s) else load_session x now (rq_cookie rq) s)"

lemma authorize_cases:
  obtains (refused) "snd (authorize x now rq s) = s"
  | (valid) cl t where "tget (oauth_clients (core s)) (tx_client t) = Some cl" "cl_disabled_at cl = None"
      "tx_redirect_uri t \<in> set (cl_redirect_uris cl)" "t = request_txn (tx_client t) (tx_redirect_uri t) rq (cl_name cl)"
      "authorize x now rq s = after_lookup x now rq t (lookup_session x now rq s)"
proof (cases "tget (oauth_clients (core s)) (qstr (query_of rq ''client_id''))")
  case None
  then show ?thesis using refused by (simp add: authorize_def)
next
  case (Some cl)
  define t where "t = request_txn (qstr (query_of rq ''client_id'')) (qstr (query_of rq ''redirect_uri'')) rq (cl_name cl)"
  have f: "tx_client t = qstr (query_of rq ''client_id'')" "tx_redirect_uri t = qstr (query_of rq ''redirect_uri'')"
    by (simp_all add: t_def request_txn_def)
  have t: "request_txn (tx_client t) (tx_redirect_uri t) rq (cl_name cl) = t" unfolding f by (simp add: t_def)
  note now_known = authorize_def Let_def f [symmetric] Some [folded f] t
  consider "cl_disabled_at cl \<noteq> None" | "cl_disabled_at cl = None" "tx_redirect_uri t \<notin> set (cl_redirect_uris cl)"
    | "cl_disabled_at cl = None" "tx_redirect_uri t \<in> set (cl_redirect_uris cl)" "qstr (query_of rq ''response_type'') \<noteq> ''code''"
    | "cl_disabled_at cl = None" "tx_redirect_uri t \<in> set (cl_redirect_uris cl)" "qstr (query_of rq ''response_type'') = ''code''"
      "''openid'' \<notin> set (split_on (CHR '' '') (tx_scope t))"
    | "cl_disabled_at cl = None" "tx_redirect_uri t \<in> set (cl_redirect_uris cl)" "qstr (query_of rq ''response_type'') = ''code''"
      "''openid'' \<in> set (split_on (CHR '' '') (tx_scope t))" "tx_challenge t = [] \<or> tx_challenge_method t \<noteq> ''S256''"
    | (ok) "cl_disabled_at cl = None" "tx_redirect_uri t \<in> set (cl_redirect_uris cl)" "qstr (query_of rq ''response_type'') = ''code''"
      "''openid'' \<in> set (split_on (CHR '' '') (tx_scope t))" "\<not> (tx_challenge t = [] \<or> tx_challenge_method t \<noteq> ''S256'')"
    by blast
  then show ?thesis
  proof cases
    case ok
    have "authorize x now rq s = after_lookup x now rq t (lookup_session x now rq s)"
      using ok by (simp add: now_known after_lookup_def lookup_session_def)
    then show ?thesis using valid [of t cl] Some [folded f] ok t by simp
  qed (use refused in \<open>simp_all add: now_known\<close>)
qed

lemma trusted_authorize:
  assumes "trusted x h s" and "(now, op, s) \<in> set h"
  shows "trusted x h (snd (authorize x now rq s))"
proof (cases rule: authorize_cases [of x now rq s])
  case refused
  then show ?thesis using assms(1) by simp
next
  case (valid cl t)
  obtain session s1 where l: "lookup_session x now rq s = (session, s1)" by fastforce
  have s1: "trusted x h s1"
    using assms(1) l load_session_trusted(1) [OF assms(1)] by (auto simp: lookup_session_def Let_def split: if_splits)
  have a: "authentic x h (a_user a) (a_amr a) \<and> a_acr a \<noteq> Some STEPUP_ACR \<and> a_user a \<noteq> []" if "session = Some a" for a
    using l that load_session_trusted(3) [OF assms(1)] by (auto simp: lookup_session_def Let_def split: if_splits)
  have reg: "registered h (tx_client t) (tx_redirect_uri t)"
    using valid(1-3) assms(2) unfolding registered_def by fastforce
  have "tx_kmsi t = None" "tx_mfa t = None" by (subst valid(4), simp add: request_txn_def)+
  then have t: "txn_ok x h t" using reg by (simp add: txn_ok_def goes_home_def)
  have mfa: "txn_ok x h (t\<lparr>tx_mfa := Some m\<rparr>)" if "tm_stepup_return m \<noteq> None" "tm_sub m \<noteq> []" "set (tm_methods m) \<subseteq> {''passkey'', ''totp''}" for m
    using t reg that by (auto simp: txn_ok_def mfa_ok_def stands_in_def goes_home_def)
  have step: "trusted x h (snd (authorize_stepup x now t b wanted s1))" if "session = Some b" for b wanted
    using s1 a [OF that] by (auto simp: authorize_stepup_def stepup_methods_def Let_def case_prod_beta intro!: mfa trusted_create_txn)
  have code: "trusted x h (snd (create_code x now (code_of_txn t (a_user b) (a_sid b) (a_amr b) (a_acr b) (a_auth_time b)) s1))"
    if "session = Some b" for b
    using a [OF that] by (intro trusted_create_code [OF s1] code_of_session [OF reg]) simp_all
  have new: "trusted x h (snd (create_txn x now (t\<lparr>tx_acr_values := w\<rparr>) s1))" for w
    using t by (intro trusted_create_txn [OF s1]) simp
  show ?thesis unfolding valid(5) l
    using s1 step code new by (simp add: after_lookup_def Let_def case_prod_beta split: option.splits)
qed

text \<open>The phase check shared by the forms: an expired transaction, the "stay signed in" question and the
  challenge are answered before anything else.\<close>

lemma trusted_get_login: "trusted x h s \<Longrightarrow> trusted x h (snd (get_login x now rq s))"
  by (auto simp: get_login_def Let_def dest: trusted_txn split: option.splits
      intro: trusted_render_challenge trusted_render_login)

lemma trusted_passkey_page: "trusted x h s \<Longrightarrow> trusted x h (snd (get_login_passkey x now rq s))"
  by (auto simp: get_login_passkey_def Let_def case_prod_beta dest: trusted_txn split: option.splits
      intro: trusted_render_challenge trusted_render_login)

lemma txn_ok_new_mfa:
  "txn_ok x h t \<Longrightarrow> tm_stepup_return m = None \<Longrightarrow> mfa_ok x h m \<Longrightarrow> txn_ok x h (t\<lparr>tx_mfa := Some m\<rparr>)"
  by (auto simp: txn_ok_def goes_home_def)

lemma trusted_post_login:
  assumes t: "trusted x h s" and keys: "uuid_keys (core s)" and now: "(now, WLogin rq, s) \<in> set h"
  shows "trusted x h (snd (post_login x now rq s))"
proof (cases "get_txn now (body_txn rq) s")
  case None
  then show ?thesis using t by (simp add: post_login_def)
next
  case txn: (Some u)
  have ok: "txn_ok x h u" by (rule trusted_txn [OF t txn])
  show ?thesis
  proof (cases "tx_kmsi u = None \<and> tx_mfa u = None \<and> csrf_ok x rq u")
    case False
    then show ?thesis using t txn ok by (auto simp: post_login_def Let_def intro: trusted_render_challenge split: option.splits)
  next
    case True
    define typed where "typed = trim (qstr (body_of rq ''username''))"
    show ?thesis
    proof (cases "find_by_username_or_email (core s) typed")
      case None
      then show ?thesis using t txn ok True by (simp add: post_login_def Let_def typed_def trusted_render_login)
    next
      case (Some q)
      obtain sub i where q: "q = (sub, i)" by (cases q)
      have sub: "sub \<noteq> []" using found_key [OF keys] Some q by simp
      show ?thesis
      proof (cases "i_status i = Active \<and> verify_password x i (qstr (body_of rq ''password''))")
        case False
        then show ?thesis using t txn ok True Some q
          by (auto simp: post_login_def Let_def typed_def [symmetric] trusted_render_login)
      next
        case valid: True
        have "proves x now (WLogin rq) s sub ''pwd''" using Some q valid by (simp add: proves_password_def typed_def)
        then have pwd: "proven x h sub ''pwd''" using now unfolding proven_def by blast
        have fin: "trusted x h (snd (finish_login x now rq (body_txn rq) u sub [''pwd''] ''urn:dreamsso:1fa'' (display_label i) s))"
          if "\<not> i_mfa_enabled i \<or> login_methods s sub i = []"
        proof -
          have "password_alone x h sub" using Some q valid now that unfolding password_alone_def typed_def by fastforce
          then show ?thesis using pwd sub by (intro trusted_finish_login [OF t ok]) (simp_all add: STEPUP_ACR_def)
        qed
        have chal: "trusted x h (snd (render_challenge x now (body_txn rq) (u\<lparr>tx_mfa := Some m\<rparr>) m None None None
            (update_txn now (body_txn rq) (u\<lparr>tx_mfa := Some m\<rparr>) s)))" if "tm_stepup_return m = None" "tm_sub m = sub" for m
        proof -
          have "txn_ok x h (u\<lparr>tx_mfa := Some m\<rparr>)" using that pwd sub by (intro txn_ok_new_mfa [OF ok]) (simp_all add: mfa_ok_def)
          then show ?thesis by (intro trusted_render_challenge trusted_update_txn t) simp_all
        qed
        show ?thesis using txn True Some q valid fin chal
          by (simp add: post_login_def Let_def typed_def [symmetric])
      qed
    qed
  qed
qed

lemma trusted_post_stay:
  assumes t: "trusted x h s"
  shows "trusted x h (snd (post_stay x now rq s))"
proof (cases "get_txn now (body_txn rq) s")
  case None
  then show ?thesis using t by (simp add: post_stay_def)
next
  case txn: (Some u)
  have ok: "txn_ok x h u" by (rule trusted_txn [OF t txn])
  show ?thesis
  proof (cases "tx_kmsi u")
    case None
    then show ?thesis using t txn by (simp add: post_stay_def)
  next
    case (Some k)
    have k: "kmsi_ok x h k" using ok Some by (simp add: txn_ok_def)
    obtain ck s1 where p: "(if qstr (body_of rq ''choice'') = ''yes'' then persist_session x now (rq_cookie rq) (tk_sid k) s else (None, s)) = (ck, s1)"
      by fastforce
    have s1: "trusted x h s1" using p t trusted_persist [OF t, of now "rq_cookie rq" "tk_sid k"] by (auto split: if_splits)
    have code: "trusted x h (consume_txn (body_txn rq)
        (snd (create_code x now (code_of_txn u (tk_sub k) (tk_sid k) (tk_amr k) (Some (tk_acr k)) (tk_auth_time k)) s1)))"
      if "tx_local_next u = None \<or> tx_local_next u = Some []"
    proof -
      have "registered h (tx_client u) (tx_redirect_uri u)" using ok that by (auto simp: txn_ok_def goes_home_def)
      then show ?thesis using k
        by (intro trusted_consume_txn trusted_create_code [OF s1] code_of_session) (simp_all add: kmsi_ok_def)
    qed
    show ?thesis
    proof (cases "csrf_ok x rq u")
      case False
      then show ?thesis using t txn Some by (simp add: post_stay_def)
    next
      case True
      show ?thesis using txn Some True s1 code trusted_consume_txn [OF s1, of "body_txn rq"]
        by (auto simp: post_stay_def Let_def p case_prod_beta split: if_splits)
    qed
  qed
qed

lemma trusted_post_passkey:
  assumes t: "trusted x h s" and keys: "uuid_keys (core s)" and now: "(now, WPasskey rq, s) \<in> set h"
  shows "trusted x h (snd (post_login_passkey x now rq s))"
proof (cases "get_txn now (body_txn rq) s")
  case None
  then show ?thesis using t by (simp add: post_login_passkey_def)
next
  case txn: (Some u)
  have ok: "txn_ok x h u" by (rule trusted_txn [OF t txn])
  have fb: "trusted x h (snd (fail_back x now (body_txn rq) u reason s'))" if "trusted x h s'" for s' reason
    by (rule trusted_fail_back [OF that ok])
  show ?thesis
  proof (cases "tx_kmsi u = None \<and> tx_mfa u = None \<and> csrf_ok x rq u")
    case False
    then show ?thesis using t txn ok by (auto simp: post_login_passkey_def Let_def intro: trusted_render_challenge split: option.splits)
  next
    case True
    show ?thesis
    proof (cases "tx_passkey u = None \<or> tx_passkey u = Some [] \<or> parsed_credential x rq = None")
      case False
      then obtain ch cr where ch: "tx_passkey u = Some ch" "ch \<noteq> []" "parsed_credential x rq = Some cr" by auto
      obtain v s1 where a: "verify_login_assertion x now cr ch None s = (v, s1)" by fastforce
      have s1: "trusted x h s1" by (rule trusted_same [OF t assertion_same [OF a]])
      show ?thesis
      proof (cases v)
        case (Inl reason)
        then show ?thesis using txn True ch a fb [OF s1] by (simp add: post_login_passkey_def Let_def)
      next
        case (Inr sub)
        have "core s1 = core s" using a by (auto simp: verify_login_assertion_def Let_def split: if_splits option.splits)
        then have key: "sub \<noteq> []" if "tget (identities (core s1)) sub = Some i" for i using identity_key [OF keys] that by simp
        have "proves x now (WPasskey rq) s sub ''passkey''" using assertion_proves(1) [OF a [unfolded Inr]] txn ch by auto
        then have "proven x h sub ''passkey''" using now unfolding proven_def by blast
        then have fin: "trusted x h (snd (finish_login x now rq (body_txn rq) u sub [''passkey''] ''urn:dreamsso:2fa'' l s1))"
          if "sub \<noteq> []" for l using that by (intro trusted_finish_login [OF s1 ok]) (simp_all add: STEPUP_ACR_def)
        show ?thesis using txn True ch a Inr fb [OF s1] fin key
          by (auto simp: post_login_passkey_def Let_def split: option.splits)
      qed
    qed (use txn True fb [OF t] in \<open>auto simp: post_login_passkey_def Let_def\<close>)
  qed
qed

end
