(* ===== verification/AuthInvariant.thy ===== *)
theory AuthInvariant
  imports AuthTrace
begin

text \<open>
  The remaining handlers keep the invariant of \<open>AuthTrace\<close>: the second factor, the tickets, the
  console's door, the token endpoint, the reset and the registration; and the rule induction over a
  history of steps.
\<close>

section \<open>The second factor\<close>

lemma trusted_mails: "trusted x h (s\<lparr>mails := v\<rparr>) = trusted x h s"
  by (simp add: trusted_def)

lemma trusted_challenge_error:
  "trusted x h s \<Longrightarrow> txn_ok x h t \<Longrightarrow> tx_mfa t = Some m \<Longrightarrow> trusted x h (snd (challenge_error x now ident t m err resend s))"
  by (simp add: challenge_error_def trusted_render_challenge)

lemma trusted_send_email:
  assumes t: "trusted x h s"
  shows "trusted x h (snd (post_send_email x now rq s))"
proof (cases "get_txn now (body_txn rq) s")
  case None
  then show ?thesis using t by (simp add: post_send_email_def)
next
  case txn: (Some u)
  have ok: "txn_ok x h u" by (rule trusted_txn [OF t txn])
  show ?thesis
  proof (cases "tx_mfa u")
    case None
    then show ?thesis using t txn by (simp add: post_send_email_def)
  next
    case (Some m)
    obtain v s1 where o: "issue_email_otp x now (tm_sub m) ''login'' s = (v, s1)" by fastforce
    have s1: "trusted x h s1" by (rule trusted_same [OF t issue_otp_same [OF o]])
    have fail: "trusted x h (snd (challenge_error x now ident u m err resend s1))" for ident err resend
      by (rule trusted_challenge_error [OF s1 ok Some])
    have ok': "txn_ok x h (u\<lparr>tx_mfa := Some (m\<lparr>tm_email_sent := True\<rparr>)\<rparr>)" by (rule txn_ok_mfa [OF ok Some]) simp_all
    have sent: "trusted x h (snd (render_challenge x now ident (u\<lparr>tx_mfa := Some (m\<lparr>tm_email_sent := True\<rparr>)\<rparr>)
        (m\<lparr>tm_email_sent := True\<rparr>) use err resend
        (update_txn now ident (u\<lparr>tx_mfa := Some (m\<lparr>tm_email_sent := True\<rparr>)\<rparr>) (s1\<lparr>mails := w\<rparr>))))" for ident use err resend w
      by (intro trusted_render_challenge trusted_update_txn ok') (simp_all add: trusted_mails s1)
    show ?thesis using t txn Some o fail sent
      by (simp add: post_send_email_def send_email_def Let_def split: issue_result.splits option.splits)
  qed
qed

text \<open>A challenge that was passed: what it wins depends on what it was for.\<close>

lemma trusted_succeed:
  assumes s: "trusted x h s" and ok: "txn_ok x h t" and m: "tx_mfa t = Some m"
    and factor: "proves x now (WChallenge rq) s0 (tm_sub m) f" "(now, WChallenge rq, s0) \<in> set h"
    and strong: "f = ''otp'' \<or> f = ''passkey''"
  shows "trusted x h (snd (succeed x now rq ident t m [''pwd'', f] ''urn:dreamsso:2fa'' s))"
proof -
  have sub: "tm_sub m \<noteq> []" using ok m by (simp add: txn_ok_def mfa_ok_def)
  have f: "proven x h (tm_sub m) f" using factor unfolding proven_def by blast
  show ?thesis
  proof (cases "tm_stepup_return m")
    case (Some sid)
    have reg: "registered h (tx_client t) (tx_redirect_uri t)" using ok m Some by (auto simp: txn_ok_def goes_home_def)
    define c where "c = code_of_txn t (tm_sub m) sid (filter (\<lambda>a. a \<noteq> ''pwd'') [''pwd'', f]) (Some STEPUP_ACR) (now_sec now)"
    have amr: "filter (\<lambda>a. a \<noteq> ''pwd'') [''pwd'', f] = [f]" using strong by auto
    have "fresh_factor x h c" unfolding fresh_factor_def
    proof (intro exI conjI)
      show "f = ''otp'' \<or> f = ''passkey''" by (rule strong)
      show "(now, WChallenge rq, s0) \<in> set h" by (rule factor(2))
      show "co_amr c = [f]" "co_auth_time c = now_sec now" "proves x now (WChallenge rq) s0 (co_user c) f"
        using factor(1) strong by (auto simp: c_def code_of_txn_def simp del: proves.simps)
    qed
    then have "code_ok x h c" using reg f strong by (auto simp: code_ok_def c_def code_of_txn_def)
    then have "trusted x h (consume_txn ident (snd (create_code x now c s)))"
      by (intro trusted_consume_txn trusted_create_code [OF s])
    then show ?thesis using Some trusted_consume_txn [OF s, of ident]
      by (simp add: succeed_def Let_def case_prod_beta c_def)
  next
    case None
    show ?thesis
    proof (cases "tm_stepup_sid m \<noteq> None \<and> tm_stepup_sid m \<noteq> Some []")
      case True
      then show ?thesis using None s by (simp add: succeed_def trusted_consume_txn trusted_stamp)
    next
      case False
      then have "proven x h (tm_sub m) ''pwd''" using ok m None by (auto simp: txn_ok_def mfa_ok_def stands_in_def)
      then have "trusted x h (snd (finish_login x now rq ident t (tm_sub m) [''pwd'', f] ''urn:dreamsso:2fa'' l s))" for l
        using f sub by (intro trusted_finish_login [OF s ok]) (simp_all add: STEPUP_ACR_def)
      moreover have "succeed x now rq ident t m [''pwd'', f] ''urn:dreamsso:2fa'' s = finish_login x now rq ident t (tm_sub m)
          [''pwd'', f] ''urn:dreamsso:2fa'' (case tm_kmsi_label m of Some l \<Rightarrow> l | None \<Rightarrow> tm_user_label m) s"
        using None False unfolding succeed_def by auto
      ultimately show ?thesis by simp
    qed
  qed
qed

lemma mfa_step: "txn_ok x h t \<Longrightarrow> tx_mfa t = Some m \<Longrightarrow> txn_ok x h (t\<lparr>tx_mfa := Some (m\<lparr>tm_passkey_challenge := c\<rparr>)\<rparr>)"
  by (rule txn_ok_mfa) simp_all

lemma trusted_post_challenge:
  assumes t: "trusted x h s" and now: "(now, WChallenge rq, s) \<in> set h"
  shows "trusted x h (snd (post_challenge x now rq s))"
proof (cases "get_txn now (body_txn rq) s")
  case None
  then show ?thesis using t by (simp add: post_challenge_def)
next
  case txn: (Some u)
  have ok: "txn_ok x h u" by (rule trusted_txn [OF t txn])
  show ?thesis
  proof (cases "\<exists>m. tx_kmsi u = None \<and> tx_mfa u = Some m \<and> csrf_ok x rq u \<and> qstr (body_of rq ''method'') \<in> set (tm_methods m)")
    case False
    then show ?thesis using t txn by (auto simp: post_challenge_def Let_def split: option.splits)
  next
    case True
    then obtain m where m: "tx_kmsi u = None" "tx_mfa u = Some m" "csrf_ok x rq u" "qstr (body_of rq ''method'') \<in> set (tm_methods m)"
      by blast
    have sub: "tm_sub m \<noteq> []" using ok m by (simp add: txn_ok_def mfa_ok_def)
    consider (totp) "qstr (body_of rq ''method'') = ''totp''" | (passkey) "qstr (body_of rq ''method'') = ''passkey''"
      | (email) "qstr (body_of rq ''method'') \<noteq> ''totp''" "qstr (body_of rq ''method'') \<noteq> ''passkey''" by blast
    then show ?thesis
    proof cases
      case totp
      obtain v s1 where v: "verify_login_totp x now (tm_sub m) (trim (qstr (body_of rq ''code''))) s = (v, s1)" by fastforce
      have s1: "trusted x h s1" by (rule trusted_same [OF t verify_totp_same [OF v]])
      have "trusted x h (snd (succeed x now rq ident u m [''pwd'', ''otp''] ''urn:dreamsso:2fa'' s1))" if "v" for ident
        by (rule trusted_succeed [OF s1 ok m(2) _ now]) (use txn m v that in simp_all)
      then show ?thesis using txn m totp v trusted_strong_fail [OF s1 ok m(2)]
        by (simp add: post_challenge_def Let_def)
    next
      case passkey
      define m' where "m' = m\<lparr>tm_passkey_challenge := None\<rparr>"
      define u' where "u' = u\<lparr>tx_mfa := Some m'\<rparr>"
      have ok': "txn_ok x h u'" "tx_mfa u' = Some m'" "u\<lparr>tx_mfa := Some m'\<rparr> = u'" "tm_sub m' = tm_sub m" using mfa_step [OF ok m(2)] by (simp_all add: u'_def m'_def)
      note fail = trusted_strong_fail [OF _ ok'(1,2)]
      show ?thesis
      proof (cases "tm_passkey_challenge m = None \<or> tm_passkey_challenge m = Some [] \<or> parsed_credential x rq = None")
        case True
        then show ?thesis using txn m passkey fail [OF t]
          by (auto simp: post_challenge_def Let_def m'_def [symmetric] ok'(3,4))
      next
        case False
        then obtain ch cr where ch: "tm_passkey_challenge m = Some ch" "ch \<noteq> []" "parsed_credential x rq = Some cr" by auto
        obtain v s1 where v: "verify_login_assertion x now cr ch (Some (tm_sub m)) s = (v, s1)" by fastforce
        have s1: "trusted x h s1" by (rule trusted_same [OF t assertion_same [OF v]])
        show ?thesis
        proof (cases v)
          case (Inl reason)
          then show ?thesis using txn m passkey ch v fail [OF s1]
            by (simp add: post_challenge_def Let_def m'_def [symmetric] ok'(3,4))
        next
          case (Inr w)
          have "proves_passkey x cr ch s (tm_sub m)" using assertion_proves [OF v [unfolded Inr]] sub by simp
          then have "trusted x h (snd (succeed x now rq ident u' m' [''pwd'', ''passkey''] ''urn:dreamsso:2fa'' s1))" for ident
            by (intro trusted_succeed [OF s1 ok'(1,2) _ now]) (use txn m ch in \<open>auto simp: m'_def\<close>)
          then show ?thesis using txn m passkey ch v Inr
            by (simp add: post_challenge_def Let_def m'_def [symmetric] ok'(3,4))
        qed
      qed
    next
      case email
      obtain v s1 where v: "verify_email_otp x now (tm_sub m) ''login'' (trim (qstr (body_of rq ''code''))) s = (v, s1)" by fastforce
      have s1: "trusted x h s1" by (rule trusted_same [OF t verify_otp_same [OF v]])
      have "stands_in m" using m(4) email by (auto simp: stands_in_def)
      then have pwd: "proven x h (tm_sub m) ''pwd''" using ok m(2) by (simp add: txn_ok_def mfa_ok_def)
      have "proves x now (WChallenge rq) s (tm_sub m) ''email''" if "v = OtpValid" using txn m(2) v that by simp
      then have "proven x h (tm_sub m) ''email''" if "v = OtpValid" using now that unfolding proven_def by blast
      then have "trusted x h (snd (finish_login x now rq ident u (tm_sub m) [''pwd'', ''email''] ''urn:dreamsso:2fa'' l s1))"
        if "v = OtpValid" for ident l using pwd sub that
        by (intro trusted_finish_login [OF s1 ok]) (simp_all add: STEPUP_ACR_def)
      then show ?thesis using txn m email v trusted_challenge_error [OF s1 ok m(2)]
        by (simp add: post_challenge_def Let_def split: verify_otp.splits)
    qed
  qed
qed

section \<open>Tickets\<close>

lemma trusted_ticket: "trusted x h s \<Longrightarrow> ticket_ok x h t \<Longrightarrow> trusted x h (snd (mint_login_ticket x now t s))"
  by (auto simp: mint_login_ticket_def draw_def trusted_def intro: store_intros)

lemma redeem_trusted:
  assumes "trusted x h s" and "redeem_login_ticket x now token s = (r, s')"
  shows "trusted x h s'" and "r = Some t \<Longrightarrow> ticket_ok x h t"
  using assms by (auto simp: redeem_login_ticket_def rgetdel_def trusted_def Let_def split: if_splits intro: entry_del entry_get)

lemma goes_home_local: "tx_local_next t = Some p \<Longrightarrow> p \<noteq> [] \<Longrightarrow> (\<And>m. tx_mfa t = Some m \<Longrightarrow> tm_stepup_return m = None) \<Longrightarrow> goes_home h t"
  by (simp add: goes_home_def)

lemma trusted_complete_ticket:
  assumes t: "trusted x h s"
  shows "trusted x h (snd (complete_ticket x portal now rq s))"
proof -
  obtain r s1 where r: "redeem_login_ticket x now (qstr (query_of rq ''ticket'')) s = (r, s1)" by fastforce
  note s1 = redeem_trusted [OF t r]
  show ?thesis
  proof (cases r)
    case None
    then show ?thesis using r s1(1) by (simp add: complete_ticket_def)
  next
    case (Some lt)
    have lt: "ticket_ok x h lt" by (rule s1(2) [OF Some])
    define n where "n = \<lparr>ns_user = lt_sub lt, ns_amr = lt_amr lt, ns_acr = Some (lt_acr lt), ns_ip = rq_ip rq,
      ns_user_agent = Some (case tget (rq_headers rq) ''user-agent'' of None \<Rightarrow> [] | Some v \<Rightarrow> v),
      ns_country = geo_header rq ''cf-ipcountry'', ns_city = geo_header rq ''cf-ipcity'',
      ns_region = geo_header rq ''cf-region''\<rparr>"
    obtain sid ck s2 where c: "create_session x now n s1 = (sid, ck, s2)" by (metis prod_cases3)
    have s2: "trusted x h s2" using trusted_create_session [OF s1(1), of n now] lt c by (simp add: n_def ticket_ok_def)
    have "txn_ok x h (ticket_txn d portal \<lparr>tk_sid = sid, tk_sub = lt_sub lt, tk_user_label = lt_label lt, tk_amr = lt_amr lt,
        tk_acr = lt_acr lt, tk_auth_time = now_sec now\<rparr>)" for d
      using lt by (simp add: txn_ok_def kmsi_ok_def ticket_ok_def ticket_txn_def goes_home_def Let_def)
    then have "trusted x h (snd (create_txn x now (ticket_txn (core s2) portal \<lparr>tk_sid = sid, tk_sub = lt_sub lt,
        tk_user_label = lt_label lt, tk_amr = lt_amr lt, tk_acr = lt_acr lt, tk_auth_time = now_sec now\<rparr>) s2))"
      by (intro trusted_create_txn [OF s2])
    then show ?thesis using r Some c by (simp add: complete_ticket_def Let_def n_def case_prod_beta)
  qed
qed

section \<open>The console's door\<close>

lemma return_path_nonempty: "admin_return_path v \<noteq> []"
proof (cases v)
  case (Some j)
  have "\<not> admin_path []" by (simp add: admin_path_def console_path_def)
  then show ?thesis using Some by (cases j) (auto simp: admin_return_path_def split: option.splits if_splits)
qed (simp add: admin_return_path_def)

lemma trusted_local_txn:
  assumes "trusted x h s" and "\<And>m. w = Some m \<Longrightarrow> mfa_ok x h m \<and> tm_stepup_return m = None"
  shows "trusted x h (snd (create_txn x now (local_txn d (admin_return_path v) w) s))"
  using assms by (intro trusted_create_txn) (auto simp: txn_ok_def local_txn_def goes_home_def return_path_nonempty)

lemma trusted_start_login: "trusted x h s \<Longrightarrow> trusted x h (snd (start_login x now rq s))"
  using trusted_local_txn [of x h s None] by (simp add: start_login_def case_prod_beta)

text \<open>A session identifier is a drawn uuid: it is not empty.\<close>

lemma door_mfa_ok:
  assumes "a_user a \<noteq> []" and "a_sid a \<noteq> []"
  shows "mfa_ok x h (door_mfa a s)"
proof -
  have "set (as_accepted (accepted_stepup_methods s (a_user a) StrongMandatory)) \<subseteq> {''passkey'', ''totp''}"
    by (auto simp: accepted_stepup_methods_def accepted_strong_stepup_def Let_def)
  then show ?thesis using assms by (auto simp: mfa_ok_def stands_in_def door_mfa_def)
qed

lemma loaded_key:
  assumes "load_session x now tok s = (Some a, s')" and "\<forall>(k, r) \<in> set (sessions s). k \<noteq> []"
  shows "a_sid a \<noteq> []"
  using assms by (auto simp: load_session_def active_of_def split: option.splits if_splits dest!: find_in)

lemma trusted_admin_shell:
  assumes t: "trusted x h s" and keys: "\<forall>(k, r) \<in> set (sessions s). k \<noteq> []"
  shows "trusted x h (snd (admin_shell x now token path s))"
proof -
  obtain r s1 where l: "load_session x now token s = (r, s1)" by fastforce
  have s1: "trusted x h s1" by (rule load_session_trusted(1) [OF t l])
  show ?thesis
  proof (cases r)
    case None
    then show ?thesis using l s1 by (simp add: admin_shell_def)
  next
    case (Some a)
    have "a_user a \<noteq> []" using load_session_trusted(3) [OF t l Some] by simp
    then have "mfa_ok x h (door_mfa a s1)" using loaded_key [OF l [unfolded Some] keys] by (rule door_mfa_ok)
    then have "trusted x h (snd (create_txn x now (local_txn d (admin_return_path v) (Some (door_mfa a s1))) s1))" for d v
      by (intro trusted_local_txn [OF s1]) (auto simp: door_mfa_def)
    then show ?thesis using l Some s1 by (simp add: admin_shell_def case_prod_beta)
  qed
qed

section \<open>Tokens, the reset and the registration\<close>

lemma trusted_token:
  assumes t: "trusted x h s"
  shows "trusted x h (snd (token_request x s256 issuer now b s))"
proof -
  have code: "trusted x h (snd (consume_code now code s))" for code
    using t by (auto simp: consume_code_def trusted_def intro: entry_del split: option.splits)
  have issue: "trusted x h s' \<Longrightarrow> trusted x h (snd (issue_tokens issuer now cid c s'))" for s' cid c
    by (auto simp: issue_tokens_def Let_def trusted_join split: sum.splits)
  show ?thesis
  proof (cases "token_client x (core s) b")
    case (Inr cid)
    obtain r s1 where r: "consume_code now (body_code (jmember b ''code'')) s = (r, s1)" by fastforce
    then have "trusted x h s1" using code [of "body_code (jmember b ''code'')"] by simp
    then show ?thesis using t Inr r issue by (simp add: token_request_def split: option.splits)
  qed (use t in \<open>simp add: token_request_def\<close>)
qed

text \<open>Ending sessions only takes rows away; publishing the logouts does not touch the stores.\<close>

lemma enqueue_core: "\<exists>d. enqueue_events x now c es s = s\<lparr>core := d\<rparr>"
proof (cases "insert_events (x_uuid x) now c es (core s)")
  case Inl
  then show ?thesis by (intro exI [of _ "core s"]) (simp add: enqueue_events_def)
next
  case (Inr q)
  then show ?thesis by (intro exI [of _ "snd q"]) (simp add: enqueue_events_def split_beta)
qed

lemma fan_out_core: "\<exists>d. fan_out_logout x now u sid cs s = s\<lparr>core := d\<rparr>"
proof (induction cs arbitrary: s)
  case Nil
  show ?case by (intro exI [of _ "core s"]) (simp add: fan_out_logout_def)
next
  case (Cons c cs)
  obtain d where "enqueue_events x now c [logout_event u sid] s = s\<lparr>core := d\<rparr>" using enqueue_core by blast
  then show ?case using Cons [of "s\<lparr>core := d\<rparr>"] by (simp add: fan_out_logout_def)
qed

lemma end_sessions_core: "\<exists>d. end_sessions x now P s = s\<lparr>sessions := tfilter (\<lambda>sid r. \<not> P sid r) (sessions s), core := d\<rparr>"
proof -
  have "\<exists>d. fold (\<lambda>(sid, r). fan_out_logout x now (se_user r) sid (se_clients r)) rs s = s\<lparr>core := d\<rparr>" for rs and s :: sso
  proof (induction rs arbitrary: s)
    case Nil
    show ?case by (intro exI [of _ "core s"]) simp
  next
    case (Cons q rs)
    obtain d where "fan_out_logout x now (se_user (snd q)) (fst q) (se_clients (snd q)) s = s\<lparr>core := d\<rparr>" using fan_out_core by blast
    then show ?case using Cons [of "s\<lparr>core := d\<rparr>"] by (simp add: split_beta)
  qed
  from this [of "filter (\<lambda>(sid, r). P sid r) (sessions s)" "s\<lparr>sessions := tfilter (\<lambda>sid r. \<not> P sid r) (sessions s)\<rparr>"]
  show ?thesis by (simp add: end_sessions_def)
qed

lemma trusted_end: "trusted x h s \<Longrightarrow> trusted x h (end_sessions x now P s)"
proof -
  assume t: "trusted x h s"
  obtain d where "end_sessions x now P s = s\<lparr>sessions := tfilter (\<lambda>sid r. \<not> P sid r) (sessions s), core := d\<rparr>"
    using end_sessions_core by blast
  then show ?thesis using t by (auto simp: trusted_def intro: every_tfilter)
qed

lemma reset_failed_same: "stores_same s (snd (reset_failed now q s))"
  by (cases q) (auto simp: reset_failed_def bump_reset_attempts_def consume_reset_token_def forget_link_def stores_same_def Let_def)

lemma reset_failed_result: "\<exists>e. fst (reset_failed now q s) = Inl e"
  by (simp add: reset_failed_def case_prod_beta)

text \<open>What the strong-factor step of a reset lets through.\<close>

lemma challenge_step:
  assumes link: "live_link x now b s = Some (q, i)" and sub: "rt_sub (snd q) \<noteq> []"
    and r: "reset_challenge x now b q i s = (v, s')"
  shows "stores_same s s' \<and> (\<forall>f. v = Inr (Some f) \<longrightarrow> proves x now (WReset b) s (rt_sub (snd q)) f \<and> (f = ''otp'' \<or> f = ''passkey''))"
proof (cases "challenge_for s (rt_sub (snd q)) i")
  case None
  then show ?thesis using r by (auto simp: reset_challenge_def)
next
  case (Some c)
  obtain ms label where c: "c = (ms, label)" by (cases c)
  define how where "how = qstr (jmember b ''method'')"
  consider (totp) "how = ''totp''" "''totp'' \<in> set ms" | (passkey) "how = ''passkey''" "''passkey'' \<in> set ms"
    | (neither) "\<not> (how = ''totp'' \<and> ''totp'' \<in> set ms)" "\<not> (how = ''passkey'' \<and> ''passkey'' \<in> set ms)" by blast
  then show ?thesis
  proof cases
    case totp
    obtain ok s1 where v: "verify_login_totp x now (rt_sub (snd q)) (trim (qstr (jmember b ''code''))) s = (ok, s1)" by fastforce
    note s1 = verify_totp_same [OF v]
    show ?thesis using r Some c totp v link s1 stores_same_trans [OF s1 reset_failed_same [of s1 now q]] reset_failed_result [of now q s1]
      by (auto simp: reset_challenge_def how_def Let_def split: if_splits)
  next
    case passkey
    obtain expected m where g: "rgetdel now (fst q) (reset_passkeys s) = (expected, m)" by fastforce
    define s1 where "s1 = s\<lparr>reset_passkeys := m\<rparr>"
    have s1: "stores_same s s1" by (simp add: stores_same_def s1_def)
    have pk: "proves_passkey x cr ch s1 u = proves_passkey x cr ch s u" for cr ch u by (simp add: proves_passkey_def s1_def)
    have g': "expected = rget now (reset_passkeys s) (fst q)" using g by (simp add: rgetdel_def)
    show ?thesis
    proof (cases "expected = None \<or> expected = Some [] \<or> x_parse_json x (qstr (jmember b ''credential'')) = None")
      case True
      then show ?thesis using r Some c passkey g s1 stores_same_trans [OF s1 reset_failed_same [of s1 now q]] reset_failed_result [of now q s1]
        by (auto simp: reset_challenge_def how_def Let_def s1_def [symmetric] split: if_splits)
    next
      case False
      then obtain ch cr where ch: "expected = Some ch" "ch \<noteq> []" "x_parse_json x (qstr (jmember b ''credential'')) = Some cr" by auto
      obtain w s2 where v: "verify_login_assertion x now cr ch (Some (rt_sub (snd q))) s1 = (w, s2)" by fastforce
      note s2 = stores_same_trans [OF s1 assertion_same [OF v]]
      show ?thesis
      proof (cases w)
        case (Inl reason)
        then show ?thesis using r Some c passkey g ch v stores_same_trans [OF s2 reset_failed_same [of s2 now q]] reset_failed_result [of now q s2]
          by (auto simp: reset_challenge_def how_def Let_def s1_def [symmetric])
      next
        case (Inr u)
        have "proves_passkey x cr ch s (rt_sub (snd q))" using assertion_proves [OF v [unfolded Inr]] sub pk by simp
        then show ?thesis using r Some c passkey g ch v Inr s2 link g'
          by (auto simp: reset_challenge_def how_def Let_def s1_def [symmetric])
      qed
    qed
  next
    case neither
    then show ?thesis using r Some c by (auto simp: reset_challenge_def how_def Let_def)
  qed
qed

lemma send_notice: "trusted x h s \<Longrightarrow> trusted x h (notify_changed x i s)"
proof -
  assume t: "trusted x h s"
  have "trusted x h (snd (send_email x e v s))" for e v
    using trusted_same [OF t send_email_same [of x e v s "fst (send_email x e v s)" "snd (send_email x e v s)"]] by simp
  then show ?thesis using t by (simp add: notify_changed_def split: option.splits)
qed

lemma trusted_consume_reset: "trusted x h s \<Longrightarrow> trusted x h (consume_reset_token q s)"
  by (cases q) (simp add: trusted_def consume_reset_token_def forget_link_def)

lemma trusted_password: "trusted x h s \<Longrightarrow> trusted x h (write_password x now sub pw s)"
  by (simp add: trusted_def write_password_def Let_def)

lemma live_link_key: "uuid_keys (core s) \<Longrightarrow> live_link x now b s = Some (q, i) \<Longrightarrow> rt_sub (snd q) \<noteq> []"
  by (auto simp: live_link_def live_identity_def dest: identity_key split: option.splits if_splits)

lemma trusted_reset_confirm:
  assumes t: "trusted x h s" and keys: "uuid_keys (core s)" and now: "(now, WReset b, s) \<in> set h"
  shows "trusted x h (snd (reset_confirm x portal issuer now b s))"
proof (cases "live_link x now b s")
  case None
  then show ?thesis using t by (simp add: reset_confirm_def)
next
  case (Some w)
  obtain q i where w: "w = (q, i)" by (cases w)
  note link = Some [unfolded w]
  have sub: "rt_sub (snd q) \<noteq> []" by (rule live_link_key [OF keys link])
  obtain v s1 where r: "reset_challenge x now b q i s = (v, s1)" by fastforce
  note step = challenge_step [OF link sub r]
  have s1: "trusted x h s1" by (rule trusted_same [OF t conjunct1 [OF step]])
  have email: "proven x h (rt_sub (snd q)) ''email''"
    using link now unfolding proven_def by (intro bexI [OF _ now]) (cases q, simp)
  have issued: "trusted x h (snd (mint_login_ticket x now \<lparr>lt_sub = rt_sub (snd q),
      lt_amr = ''email'' # (case f of None \<Rightarrow> [] | Some f \<Rightarrow> [f]),
      lt_acr = (if f = None then ''urn:dreamsso:1fa'' else ''urn:dreamsso:2fa''), lt_label = display_label i\<rparr>
      (notify_changed x i (end_sessions x now P (consume_reset_token q (write_password x now (rt_sub (snd q)) pw s1))))))"
    if "v = Inr f" for f P pw
  proof (intro trusted_ticket send_notice trusted_end trusted_consume_reset trusted_password)
    show "trusted x h s1" by (rule s1)
    have "proven x h (rt_sub (snd q)) a" if a: "f = Some a" for a
    proof -
      have "proves x now (WReset b) s (rt_sub (snd q)) a" using step \<open>v = Inr f\<close> a by blast
      then show ?thesis using now unfolding proven_def by blast
    qed
    then show "ticket_ok x h \<lparr>lt_sub = rt_sub (snd q), lt_amr = ''email'' # (case f of None \<Rightarrow> [] | Some f \<Rightarrow> [f]),
      lt_acr = (if f = None then ''urn:dreamsso:1fa'' else ''urn:dreamsso:2fa''), lt_label = display_label i\<rparr>"
      using sub email by (simp add: ticket_ok_def STEPUP_ACR_def split: option.splits)
  qed
  show ?thesis using t link r s1 issued
    by (simp add: reset_confirm_def Let_def case_prod_beta split: option.splits json.splits sum.splits)
qed

lemma trusted_register_complete:
  assumes t: "trusted x h s" and rnd: "\<forall>n. x_rnd x n \<noteq> []" and now: "(now, WRegister b, s) \<in> set h"
  shows "trusted x h (snd (register_complete x portal issuer now b s))"
proof (cases "body_pending x now b s")
  case None
  then show ?thesis using t by (simp add: register_complete_def)
next
  case (Some p)
  define sub where "sub = x_rnd x (draws s)"
  have email: "proven x h sub ''email''" using Some now unfolding proven_def by (intro bexI [OF _ now]) (simp add: sub_def)
  have fin: "trusted x h (snd (finish_account x issuer now sub i e code role s'))" if "trusted x h s'" for i e code role s'
  proof -
    have "trusted x h (snd (consume_invite now c sub s'))" for c
      using that by (auto simp: consume_invite_def update_invite_def trusted_def split: option.splits)
    then have spent: "trusted x h (case code of None \<Rightarrow> s' | Some c \<Rightarrow> if c = [] then s' else snd (consume_invite now c sub s'))"
      using that by (simp split: option.splits)
    have "trusted x h s0 \<Longrightarrow> trusted x h ((drop_pending e s0)\<lparr>core := d\<rparr>)" for s0 d
      by (simp add: drop_pending_def trusted_def)
    note logged = this [OF spent]
    have "ticket_ok x h \<lparr>lt_sub = sub, lt_amr = [''email''], lt_acr = ''urn:dreamsso:1fa'', lt_label = l\<rparr>" for l
      using email rnd by (simp add: ticket_ok_def STEPUP_ACR_def sub_def)
    then show ?thesis unfolding finish_account_def Let_def case_prod_beta snd_conv
      by (intro trusted_ticket logged)
  qed
  have frame: "trusted x h (s\<lparr>draws := n\<rparr>)" "trusted x h (s\<lparr>draws := n, core := d\<rparr>)" for n d
    using t by (simp_all add: trusted_def)
  show ?thesis using t Some fin frame
    by (simp add: register_complete_def Let_def draw_def sub_def [symmetric] case_prod_beta split: sum.splits)
qed

section \<open>The whole history\<close>

lemma trusted_step:
  assumes "trusted x ((now, op, s) # h) s" and "uuid_columns s" and "\<forall>n. x_rnd x n \<noteq> []"
  shows "trusted x ((now, op, s) # h) (web_step x c now op s)"
proof -
  have keys: "uuid_keys (core s)" "\<forall>(k, r) \<in> set (sessions s). k \<noteq> []" using assms(2) by (auto simp: uuid_columns_def)
  have now: "(now, op, s) \<in> set ((now, op, s) # h)" by simp
  show ?thesis
    using trusted_authorize [OF assms(1) now] trusted_get_login [OF assms(1)] trusted_post_login [OF assms(1) keys(1)]
      trusted_post_stay [OF assms(1)] trusted_passkey_page [OF assms(1)] trusted_post_passkey [OF assms(1) keys(1)]
      trusted_send_email [OF assms(1)] trusted_post_challenge [OF assms(1)] trusted_complete_ticket [OF assms(1)]
      trusted_admin_shell [OF assms(1) keys(2)] trusted_start_login [OF assms(1)] trusted_token [OF assms(1)]
      trusted_reset_confirm [OF assms(1) keys(1)] trusted_register_complete [OF assms(1) assms(3)]
    by (cases op) auto
qed

lemma trusted_elsewhere: "trusted x h s \<Longrightarrow> elsewhere s s' \<Longrightarrow> trusted x h s'"
  by (fastforce simp: trusted_def elsewhere_def every_def session_ok_def same_proof_def)

text \<open>Random values (identifiers, tokens) are never the empty text.\<close>

lemma served_trusted: "served x c h s \<Longrightarrow> \<forall>n. x_rnd x n \<noteq> [] \<Longrightarrow> trusted x h s"
proof (induction rule: served.induct)
  case (start s)
  then show ?case by (simp add: trusted_def)
next
  case (handler h s now op)
  then show ?case by (intro trusted_step trusted_mono)
next
  case (other h s s')
  then show ?case by (blast intro: trusted_elsewhere)
qed

end
