(* ===== verification/AuthProps.thy ===== *)
theory AuthProps
  imports AuthInvariant
begin

text \<open>
  What the sign-in machinery promises, over every history of requests: sessions, codes and tokens
  rest on credentials that were really checked, codes only travel to registered addresses, step-up
  codes are fresh; and the promises of the single handlers.
\<close>

section \<open>A sign-in from end to end\<close>

text \<open>One client and one user with a password and a passkey; random values are distinct.\<close>

definition demo_web_x :: externals where
  "demo_web_x = demo_x\<lparr>x_rnd := (\<lambda>n. replicate (Suc n) (CHR ''r''))\<rparr>"

definition demo_site :: site where
  "demo_site = \<lparr>st_s256 = (\<lambda>v. v), st_issuer = ''https://sso'', st_portal = ''https://me'', st_portal_client = ''portal''\<rparr>"

definition demo_web :: sso where
  "demo_web = (empty_sso (empty_db\<lparr>
     identities := [(demo_user, demo_identity\<lparr>i_password_hash := Some ''pw''\<rparr>)],
     oauth_clients := [(''rp'', demo_client\<lparr>cl_redirect_uris := [''https://rp/cb'']\<rparr>)]\<rparr>))\<lparr>
     passkeys := [(''k1'', demo_passkey)]\<rparr>"

definition demo_request :: "string option \<Rightarrow> (string \<times> json) list \<Rightarrow> (string \<times> json) list \<Rightarrow> request" where
  "demo_request ck q b = \<lparr>rq_cookie = ck, rq_headers = [], rq_ip = None, rq_query = q, rq_body = b\<rparr>"

definition demo_query :: "(string \<times> json) list" where
  "demo_query = [(''client_id'', JStr ''rp''), (''redirect_uri'', JStr ''https://rp/cb''), (''response_type'', JStr ''code''),
     (''scope'', JStr ''openid profile''), (''code_challenge'', JStr ''v''), (''code_challenge_method'', JStr ''S256'')]"

text \<open>Authorize, the password, "not on this device", the token.\<close>

definition demo_steps :: "(int \<times> web_op) list" where
  "demo_steps =
    [(1000, WAuthorize (demo_request None demo_query [])),
     (2000, WLogin (demo_request None [] [(''txn'', JStr ''r''), (''csrf'', JStr ''rr''), (''username'', JStr ''Ann''), (''password'', JStr ''pw'')])),
     (3000, WStay (demo_request None [] [(''txn'', JStr ''r''), (''csrf'', JStr ''rr''), (''choice'', JStr ''no'')]))]"

definition demo_token_body :: "(string \<times> json) list" where
  "demo_token_body = [(''grant_type'', JStr ''authorization_code''), (''client_assertion_type'', JStr JWT_BEARER),
     (''client_assertion'', JStr ''rp''), (''code'', JStr ''rrrrr''), (''redirect_uri'', JStr ''https://rp/cb''), (''code_verifier'', JStr ''v'')]"

text \<open>Taking a list of steps from a state of a history.\<close>

primrec serve :: "externals \<Rightarrow> site \<Rightarrow> (int \<times> web_op) list \<Rightarrow> history \<times> sso \<Rightarrow> history \<times> sso" where
  "serve x c [] q = q"
| "serve x c (e # es) q = serve x c es ((fst e, snd e, snd q) # fst q, web_step x c (fst e) (snd e) (snd q))"

primrec columns_hold :: "externals \<Rightarrow> site \<Rightarrow> (int \<times> web_op) list \<Rightarrow> sso \<Rightarrow> bool" where
  "columns_hold x c [] s = True"
| "columns_hold x c (e # es) s = (uuid_columns s \<and> columns_hold x c es (web_step x c (fst e) (snd e) s))"

lemma serve_served: "served x c h s \<Longrightarrow> columns_hold x c es s \<Longrightarrow> served x c (fst (serve x c es (h, s))) (snd (serve x c es (h, s)))"
  by (induction es arbitrary: h s) (auto intro: served.handler)

lemma demo_start: "served demo_web_x demo_site [] demo_web"
  by (rule served.start) (simp_all add: demo_web_def empty_sso_def)

lemma demo_columns: "columns_hold demo_web_x demo_site demo_steps demo_web"
  by code_simp

definition demo_history :: history where "demo_history = fst (serve demo_web_x demo_site demo_steps ([], demo_web))"
definition demo_now :: sso where "demo_now = snd (serve demo_web_x demo_site demo_steps ([], demo_web))"

lemma demo_served: "served demo_web_x demo_site demo_history demo_now"
  unfolding demo_history_def demo_now_def by (rule serve_served [OF demo_start demo_columns])

lemma demo_rnd: "\<forall>n. x_rnd demo_web_x n \<noteq> []"
  by (simp add: demo_web_x_def)

section \<open>Sessions and codes\<close>

text \<open>C2. Nobody is signed in without having proved it: after any history of requests, at any times and
  interleaved with any other activity that creates no session, every session lists at least one
  factor, each factor it lists was proved for its user by a request the history holds, it rests on
  the password alone only if the account had no factor to be challenged with when the password was
  checked, and it never carries the step-up level.\<close>

theorem sessions_are_authenticated:
  assumes "served x c h s" and "\<forall>n. x_rnd x n \<noteq> []" and "tget (sessions s) sid = Some r"
  shows "se_amr r \<noteq> [] \<and> (\<forall>a \<in> set (se_amr r). proven x h (se_user r) a)
    \<and> (se_amr r = [''pwd''] \<longrightarrow> password_alone x h (se_user r)) \<and> se_acr r \<noteq> Some STEPUP_ACR"
proof -
  have "session_ok x h r" using served_trusted [OF assms(1,2)] assms(3) unfolding trusted_def by (blast dest: every_tget)
  then show ?thesis by (simp add: session_ok_def)
qed

theorem sessions_are_authenticated_witness:
  "\<exists>r. tget (sessions demo_now) ''rrrr'' = Some r \<and> se_amr r = [''pwd''] \<and> password_alone demo_web_x demo_history (se_user r)"
proof -
  obtain r where r: "tget (sessions demo_now) ''rrrr'' = Some r" "se_amr r = [''pwd'']"
  proof
    show "tget (sessions demo_now) ''rrrr'' = Some (the (tget (sessions demo_now) ''rrrr''))"
      "se_amr (the (tget (sessions demo_now) ''rrrr'')) = [''pwd'']" by code_simp+
  qed
  then show ?thesis using sessions_are_authenticated [OF demo_served demo_rnd r(1)] by blast
qed

text \<open>C3. A step-up code is worth its name: after any history, a stored code of the step-up level lists one
  factor, an authenticator's code or a passkey, and that very factor was proved for the code's user
  by a challenge request taken at the second the code gives as its authentication time.\<close>

theorem stepup_codes_are_fresh:
  assumes "served x c h s" and "\<forall>n. x_rnd x n \<noteq> []" and "rget t (codes s) code = Some k" and "co_acr k = Some STEPUP_ACR"
  shows "\<exists>a now rq s0. (a = ''otp'' \<or> a = ''passkey'') \<and> co_amr k = [a] \<and> co_auth_time k = now_sec now
    \<and> (now, WChallenge rq, s0) \<in> set h \<and> proves x now (WChallenge rq) s0 (co_user k) a"
  using served_trusted [OF assms(1,2)] entry_get [OF _ assms(3)] assms(4) unfolding trusted_def code_ok_def fresh_factor_def by blast

text \<open>A step-up of the demo user's session, with the passkey.\<close>

definition demo_stepup :: "(int \<times> web_op) list" where
  "demo_stepup = demo_steps @
    [(4000, WAuthorize (demo_request (Some ''rrr'') (demo_query @ [(''stepup'', JStr ''passkey'')]) [])),
     (5000, WGetLogin (demo_request None [(''txn'', JStr ''rrrrrr'')] [])),
     (6000, WChallenge (demo_request None [] [(''txn'', JStr ''rrrrrr''), (''csrf'', JStr ''rrrrrrr''), (''method'', JStr ''passkey''),
        (''credential'', JStr ''rrrrrrrr'')]))]"

lemma demo_stepup_columns: "columns_hold demo_web_x demo_site demo_stepup demo_web"
  by code_simp

definition demo_upped :: "history \<times> sso" where "demo_upped = serve demo_web_x demo_site demo_stepup ([], demo_web)"

lemma demo_upped_served: "served demo_web_x demo_site (fst demo_upped) (snd demo_upped)"
  unfolding demo_upped_def by (rule serve_served [OF demo_start demo_stepup_columns])

theorem stepup_codes_are_fresh_witness:
  "\<exists>k a now rq s0. rget 7000 (codes (snd demo_upped)) ''rrrrrrrrr'' = Some k \<and> co_amr k = [a] \<and> co_auth_time k = now_sec now
     \<and> (now, WChallenge rq, s0) \<in> set (fst demo_upped) \<and> proves demo_web_x now (WChallenge rq) s0 (co_user k) a"
proof -
  define k where "k = the (rget 7000 (codes (snd demo_upped)) ''rrrrrrrrr'')"
  have k: "rget 7000 (codes (snd demo_upped)) ''rrrrrrrrr'' = Some k" "co_acr k = Some STEPUP_ACR"
    unfolding k_def by code_simp+
  show ?thesis using stepup_codes_are_fresh [OF demo_upped_served demo_rnd k] k(1) by blast
qed

section \<open>Tokens\<close>

text \<open>What a token request that succeeds has shown.\<close>

lemma token_success:
  assumes "token_request x s256 issuer now b s = (Inr tk, s')"
  obtains c cid where "token_client x (core s) b = Inr cid" "rget now (codes s) (body_code (jmember b ''code'')) = Some c"
    "co_client c = cid" "jmember b ''redirect_uri'' = Some (JStr (co_redirect_uri c))"
    "pkce_check s256 (jmember b ''code_verifier'') (co_challenge c) = None"
    "issue_tokens issuer now cid c (s\<lparr>codes := rdel (body_code (jmember b ''code'')) (codes s)\<rparr>) = (Inr tk, s')"
  using assms by (auto simp: token_request_def consume_code_def split: if_splits sum.splits option.splits)

lemma issued:
  assumes "issue_tokens issuer now cid c s = (Inr tk, s')"
  shows "it_sub (tk_id tk) = co_user c \<and> it_aud (tk_id tk) = cid \<and> it_amr (tk_id tk) = co_amr c
    \<and> it_acr (tk_id tk) = some_text (co_acr c) \<and> it_auth_time (tk_id tk) = co_auth_time c
    \<and> at_sub (tk_access tk) = co_user c \<and> at_client (tk_access tk) = cid \<and> codes s' = codes s"
    and "\<exists>role. role_claims (core s) cid (co_user c) = Inr role"
proof -
  define s1 where "s1 = (if co_sid c \<noteq> [] then join_session (co_sid c) cid s else s)"
  have s1: "core s1 = core s" "codes s1 = codes s" by (simp_all add: s1_def join_session_def)
  show "it_sub (tk_id tk) = co_user c \<and> it_aud (tk_id tk) = cid \<and> it_amr (tk_id tk) = co_amr c
    \<and> it_acr (tk_id tk) = some_text (co_acr c) \<and> it_auth_time (tk_id tk) = co_auth_time c
    \<and> at_sub (tk_access tk) = co_user c \<and> at_client (tk_access tk) = cid \<and> codes s' = codes s"
    using assms s1 by (auto simp: issue_tokens_def Let_def s1_def [symmetric] mint_id_token_def mint_access_token_def split: sum.splits)
  show "\<exists>role. role_claims (core s) cid (co_user c) = Inr role"
    using assms s1 by (auto simp: issue_tokens_def Let_def s1_def [symmetric] split: sum.splits)
qed

text \<open>Role claims are only made for a live account that may use the client.\<close>

lemma role_claims_live:
  assumes "role_claims d cid sub = Inr role"
  shows "client_enabled d cid \<and> live_active d sub \<and> app_access_allowed d cid sub"
proof (cases "read_access_snapshot d cid [sub]")
  case (Inl e)
  then show ?thesis using assms by (simp add: role_claims_def)
next
  case (Inr snap)
  show ?thesis
  proof (cases "client_enabled d cid")
    case True
    have "sn_states snap = [access_state_of_row (access_row_of d cid sub)]" using snapshot_states [OF Inr True] by simp
    then have "as_allowed (access_state_of_row (access_row_of d cid sub))" using assms Inr
      by (auto simp: role_claims_def split: if_splits)
    then show ?thesis using True row_allowed_iff by simp
  next
    case False
    then show ?thesis using assms Inr snapshot_disabled [OF False, of "[sub]"] by (auto simp: role_claims_def)
  qed
qed

lemma authenticated_client:
  assumes "token_client x d b = Inr cid"
  shows "\<exists>a cl. jmember b ''client_assertion'' = Some (JStr a) \<and> x_issuer_of x a = Some cid
    \<and> tget (oauth_clients d) cid = Some cl \<and> cl_disabled_at cl = None \<and> x_client_jwt x cid a"
  using assms by (auto simp: token_client_def verify_client_assertion_def enabled_client_def rbind_def
      split: if_splits option.splits json.splits sum.splits)

text \<open>C1. Every ID token is earned: after any history, a token request that succeeds comes from an enabled
  client whose assertion verified, presents a live code issued to that client for an address that
  was registered, with the same address and a verifier hashing to the code's challenge; the token
  names the code's user and the client, every factor in it was proved by that user and the step-up
  level rests on a factor proved at its authentication time; the user is active and may use the
  client now; and the code cannot be redeemed again.\<close>

theorem id_tokens_are_earned:
  assumes "served x c h s" and "\<forall>n. x_rnd x n \<noteq> []" and "token_request x s256 issuer now b s = (Inr tk, s')"
  shows "\<exists>a code k v.
    jmember b ''client_assertion'' = Some (JStr a) \<and> x_client_jwt x (it_aud (tk_id tk)) a
    \<and> live_active (core s) (it_sub (tk_id tk)) \<and> client_enabled (core s) (it_aud (tk_id tk))
    \<and> app_access_allowed (core s) (it_aud (tk_id tk)) (it_sub (tk_id tk))
    \<and> rget now (codes s) code = Some k \<and> co_user k = it_sub (tk_id tk) \<and> co_client k = it_aud (tk_id tk)
    \<and> jmember b ''redirect_uri'' = Some (JStr (co_redirect_uri k)) \<and> registered h (co_client k) (co_redirect_uri k)
    \<and> jmember b ''code_verifier'' = Some (JStr v) \<and> s256 v = co_challenge k
    \<and> (\<forall>m \<in> set (it_amr (tk_id tk)). proven x h (it_sub (tk_id tk)) m)
    \<and> (it_acr (tk_id tk) = Some STEPUP_ACR \<longrightarrow> fresh_factor x h k)
    \<and> (\<forall>t. rget t (codes s') code = None)"
proof -
  from assms(3) obtain k cid where t: "token_client x (core s) b = Inr cid"
    "rget now (codes s) (body_code (jmember b ''code'')) = Some k" "co_client k = cid"
    "jmember b ''redirect_uri'' = Some (JStr (co_redirect_uri k))"
    "pkce_check s256 (jmember b ''code_verifier'') (co_challenge k) = None"
    "issue_tokens issuer now cid k (s\<lparr>codes := rdel (body_code (jmember b ''code'')) (codes s)\<rparr>) = (Inr tk, s')"
    by (rule token_success)
  note i = issued(1) [OF t(6)]
  from issued(2) [OF t(6)] obtain role where "role_claims (core s) cid (co_user k) = Inr role" by auto
  note live = role_claims_live [OF this]
  obtain a where a: "jmember b ''client_assertion'' = Some (JStr a)" "x_client_jwt x cid a"
    using authenticated_client [OF t(1)] by blast
  obtain v where v: "jmember b ''code_verifier'' = Some (JStr v)" "s256 v = co_challenge k"
    using t(5) by (auto simp: pkce_check_def split: if_splits option.splits json.splits)
  have "code_ok x h k" using served_trusted [OF assms(1,2)] t(2) unfolding trusted_def by (blast intro: entry_get)
  then have ok: "registered h cid (co_redirect_uri k)" "\<forall>m \<in> set (co_amr k). proven x h (co_user k) m"
    "some_text (co_acr k) = Some STEPUP_ACR \<longrightarrow> fresh_factor x h k"
    using t(3) by (auto simp: code_ok_def some_text_def split: option.splits if_splits)
  have "\<forall>t. rget t (codes s') (body_code (jmember b ''code'')) = None" using i by (simp add: rget_del)
  then show ?thesis using i live a v ok t by metis
qed

theorem id_tokens_are_earned_witness:
  "\<exists>tk. fst (token_request demo_web_x (\<lambda>v. v) ''https://sso'' 4000 demo_token_body demo_now) = Inr tk
     \<and> it_aud (tk_id tk) = ''rp'' \<and> (\<forall>m \<in> set (it_amr (tk_id tk)). proven demo_web_x demo_history (it_sub (tk_id tk)) m)"
proof -
  define r where "r = token_request demo_web_x (\<lambda>v. v) ''https://sso'' 4000 demo_token_body demo_now"
  define tk where "tk = projr (fst r)"
  have "isl (fst r) = False" "it_aud (tk_id tk) = ''rp''" unfolding tk_def r_def by code_simp+
  then have tk: "r = (Inr tk, snd r)" "it_aud (tk_id tk) = ''rp''" by (cases "fst r"; cases r; simp add: tk_def)+
  show ?thesis using id_tokens_are_earned [OF demo_served demo_rnd tk(1) [unfolded r_def]] tk by (metis fst_conv r_def)
qed

end
