(* ===== verification/RedirectProps.thy ===== *)
theory RedirectProps
  imports AuthProps
begin

text \<open>
  Where a browser is sent: every redirect that leaves the server goes to an address registered for
  an enabled client, and the console's return path stays on the console.
\<close>

section \<open>Replies\<close>


fun leads_to :: "page \<Rightarrow> string option" where
  "leads_to (Redirect uri params) = Some uri"
| "leads_to (EnrollCard uri params) = Some uri"
| "leads_to _ = None"

definition safe_page :: "history \<Rightarrow> page \<Rightarrow> bool" where
  "safe_page h p = (\<forall>uri. leads_to p = Some uri \<longrightarrow> (\<exists>cid. registered h cid uri))"

lemma safe_simps [simp]:
  "safe_page h (ErrorPage n e)" "safe_page h (ToLogin i)" "safe_page h (LocalRedirect p)" "safe_page h (LoginForm n i le ch)"
  "safe_page h (PasskeyPage i ch)" "safe_page h (ChallengeForm n i how w le r)" "safe_page h (KmsiForm i l)" "safe_page h BadRequest"
  "safe_page h (Redirect uri ps) = (\<exists>cid. registered h cid uri)" "safe_page h (EnrollCard uri ps) = (\<exists>cid. registered h cid uri)"
  by (simp_all add: safe_page_def)

lemma safe_showing [simp]: "rp_page (showing p) = p" "safe_page h (rp_page txn_expired)"
  by (simp_all add: showing_def txn_expired_def)

lemma safe_forms [simp]:
  "safe_page h (render_kmsi i k)"
  "safe_page h (rp_page (fst (render_challenge x now i t m use err resend s)))"
  "safe_page h (rp_page (fst (render_login x now n i t e s)))"
  "safe_page h (rp_page (fst (finish_login x now rq i t sub amr acr l s)))"
  by (simp_all add: render_kmsi_def render_challenge_def render_login_def finish_login_def Let_def case_prod_beta)

lemma safe_fallbacks [simp]:
  "safe_page h (rp_page (fst (fail_back x now i t reason s)))"
  "safe_page h (rp_page (fst (challenge_error x now i t m err resend s)))"
  by (simp_all add: fail_back_def challenge_error_def Let_def)












section \<open>The console's return path\<close>

text \<open>The characters of an accepted path and where it starts.\<close>

definition path_char :: "char \<Rightarrow> bool" where
  "path_char ch = (slug_char ch \<or> ch = CHR ''/'')"

lemma console_path_shape:
  assumes "console_path p"
  shows "take 6 p = ''/admin'' \<and> (drop 6 p = [] \<or> hd (drop 6 p) = CHR ''/'') \<and> list_all path_char p"
proof -
  have fixed: ?thesis if "p = ''/admin'' \<or> p = ''/admin/clients'' \<or> p = ''/admin/keys'' \<or> p = ''/admin/settings''"
    using that by (auto simp: path_char_def slug_char_def is_lower_def)
  show ?thesis
  proof (cases "take 15 p = ''/admin/clients/'' \<and> client_slug (drop 15 p)")
    case True
    define r where "r = drop 15 p"
    have p: "p = ''/admin/clients/'' @ r" using True append_take_drop_id [of 15 p] by (simp add: r_def)
    have "list_all slug_char r" using True
      by (cases r) (auto simp: client_slug_def r_def [symmetric] slug_start_def slug_char_def)
    then have "list_all path_char r" by (auto simp: list_all_iff path_char_def)
    then show ?thesis by (simp add: p path_char_def slug_char_def is_lower_def)
  next
    case False
    then show ?thesis using assms fixed by (auto simp: console_path_def)
  qed
qed

lemma admin_path_shape:
  assumes "admin_path p"
  shows "take 6 p = ''/admin'' \<and> (drop 6 p = [] \<or> hd (drop 6 p) = CHR ''/'') \<and> list_all path_char p"
proof (cases "console_path p")
  case True
  then show ?thesis by (rule console_path_shape)
next
  case False
  then have p: "p \<noteq> []" "last p = CHR ''/''" "console_path (butlast p)" using assms by (auto simp: admin_path_def)
  define q where "q = butlast p"
  have q: "p = q @ ''/''" using p append_butlast_last_id [of p] by (simp add: q_def)
  note shape = console_path_shape [OF p(3) [folded q_def]]
  then have "length (take 6 q) = 6" by simp
  then have len: "6 \<le> length q" by simp
  show ?thesis using shape len by (cases "drop 6 q") (auto simp: q path_char_def slug_char_def)
qed

lemma percent_decode_plain: "list_all path_char p \<Longrightarrow> percent_decode p = Some p"
  by (induction p) (auto simp: path_char_def slug_char_def is_lower_def is_digit_def)

lemma percent_decode_length: "percent_decode p = Some q \<Longrightarrow> length q \<le> length p"
  by (induction p arbitrary: q rule: percent_decode.induct) (fastforce split: if_splits list.splits option.splits)+

lemma plain_allowed: "path_char ch \<Longrightarrow> \<not> forbidden_unit ch"
  by (auto simp: path_char_def slug_char_def is_lower_def is_digit_def less_eq_char_def forbidden_unit_def Let_def)

lemma return_path_cases:
  "admin_return_path v = ''/admin''
   \<or> (\<exists>s. length s \<le> 512 \<and> percent_decode s = Some (admin_return_path v) \<and> admin_path (admin_return_path v))"
proof (cases "\<exists>s. v = Some (JStr s)")
  case True
  then obtain s where "v = Some (JStr s)" by blast
  then show ?thesis by (cases "percent_decode s") (auto simp: admin_return_path_def)
next
  case False
  then show ?thesis by (auto simp: admin_return_path_def split: option.splits json.splits)
qed

text \<open>C12. The console's return path cannot leave the console: whatever the \<open>next\<close> parameter or the requested
  path is, the path remembered is \<open>/admin\<close> or begins with \<open>/admin/\<close>, consists of lower-case letters,
  digits, hyphens, underscores and slashes only (no scheme, host, query, fragment, dot or escape),
  and checking it again leaves it as it is.\<close>

theorem return_path_stays_home:
  shows "(admin_return_path v = ''/admin'' \<or> (\<exists>r. admin_return_path v = ''/admin/'' @ r))
    \<and> list_all path_char (admin_return_path v)
    \<and> admin_return_path (Some (JStr (admin_return_path v))) = admin_return_path v"
proof -
  have path: "admin_path (admin_return_path v) \<and> length (admin_return_path v) \<le> 512"
    using return_path_cases [of v] percent_decode_length
    by (auto simp: admin_path_def console_path_def intro: order_trans)
  define p where "p = admin_return_path v"
  note shape = admin_path_shape [OF conjunct1 [OF path], folded p_def]
  have "p = ''/admin'' \<or> (\<exists>r. p = ''/admin/'' @ r)"
  proof (cases "drop 6 p")
    case Nil
    then show ?thesis using shape append_take_drop_id [of 6 p] by simp
  next
    case (Cons a r)
    then show ?thesis using shape append_take_drop_id [of 6 p] by (metis append.assoc append_Cons append_Nil list.sel(1))
  qed
  moreover have "admin_return_path (Some (JStr p)) = p"
  proof -
    have "percent_decode p = Some p" using shape by (intro percent_decode_plain) blast
    moreover have "\<not> list_ex forbidden_unit p" using shape plain_allowed by (auto simp: list_ex_iff list_all_iff)
    moreover have "admin_path p" "length p \<le> 512" using path by (simp_all add: p_def)
    ultimately show ?thesis by (simp add: admin_return_path_def)
  qed
  ultimately show ?thesis using shape by (simp add: p_def)
qed

end
