(* ===== verification/ChallengeProps.thy ===== *)
theory ChallengeProps
  imports RedirectProps
begin

text \<open>
  Guessing at a login challenge: however the requests of any number of browsers interleave, one login
  transaction takes at most five attempts at an authenticator's code or a passkey.
\<close>

section \<open>The attempts a transaction has left\<close>

text \<open>Read off the stored entry, expired or not; a transaction past its challenge takes none.\<close>

definition attempts_left :: "login_txn \<Rightarrow> nat" where
  "attempts_left t = (if tx_kmsi t \<noteq> None then 0
     else (case tx_mfa t of None \<Rightarrow> 5 | Some m \<Rightarrow> max 1 (5 - tm_attempts m)))"

definition tries_left :: "string \<Rightarrow> sso \<Rightarrow> nat" where
  "tries_left ident s = (case tget (txns s) ident of None \<Rightarrow> 0 | Some e \<Rightarrow> attempts_left (fst e))"



section \<open>The building blocks\<close>







lemma left_frames [simp]:
  "tries_left ident (s\<lparr>mails := v\<rparr>) = tries_left ident s"
  "tries_left ident (s\<lparr>core := d\<rparr>) = tries_left ident s"
  "tries_left ident (s\<lparr>reset_passkeys := p\<rparr>) = tries_left ident s"
  by (simp_all add: tries_left_def)

lemma attempts_simps [simp]:
  "attempts_left (t\<lparr>tx_passkey := p\<rparr>) = attempts_left t"
  "attempts_left (t\<lparr>tx_kmsi := Some k\<rparr>) = 0"
  by (simp_all add: attempts_left_def)

lemma attempts_mfa: "attempts_left (t\<lparr>tx_mfa := Some m\<rparr>) = (if tx_kmsi t \<noteq> None then 0 else max 1 (5 - tm_attempts m))"
  by (simp add: attempts_left_def)






section \<open>The handlers\<close>





















section \<open>The bound\<close>






end
