(* ===== verification/SignInProps.thy ===== *)
theory SignInProps
  imports AuthProps
begin

text \<open>
  The sign-in of an ordinary user completes, and what a redemption that is refused leaves behind.
\<close>

section \<open>The sign-in completes\<close>










text \<open>C38. A code is spent by the first authenticated attempt, successful or not: when an authenticated client
  presents a live code, the code is gone afterwards at every time, another client's code, another
  address and a wrong verifier are refused, each with its own error, in this order, and a refused
  attempt changes nothing else.\<close>

theorem refused_code_is_spent:
  assumes "jmember b ''grant_type'' = Some (JStr ''authorization_code'')" and "token_client x (core s) b = Inr cid"
    and "jmember b ''code'' = Some (JStr code)" and "rget now (codes s) code = Some c"
  shows "(\<forall>t. rget t (codes (snd (token_request x digest issuer now b s))) code = None)
    \<and> (co_client c \<noteq> cid \<longrightarrow> token_request x digest issuer now b s
        = (Inl (InvalidGrant ''client mismatch''), s\<lparr>codes := rdel code (codes s)\<rparr>))
    \<and> (co_client c = cid \<and> jmember b ''redirect_uri'' \<noteq> Some (JStr (co_redirect_uri c)) \<longrightarrow> token_request x digest issuer now b s
        = (Inl (InvalidGrant ''redirect_uri mismatch''), s\<lparr>codes := rdel code (codes s)\<rparr>))
    \<and> (co_client c = cid \<and> jmember b ''redirect_uri'' = Some (JStr (co_redirect_uri c))
        \<and> jmember b ''code_verifier'' = Some (JStr v) \<and> digest v \<noteq> co_challenge c \<longrightarrow> token_request x digest issuer now b s
        = (Inl (InvalidGrant ''PKCE verification failed''), s\<lparr>codes := rdel code (codes s)\<rparr>))"
proof -
  have kept: "codes (snd (issue_tokens issuer now cid c s1)) = codes s1" for s1
    by (auto simp: issue_tokens_def join_session_def Let_def split: sum.splits)
  have run: "token_request x digest issuer now b s =
      (if co_client c \<noteq> cid then (Inl (InvalidGrant ''client mismatch''), s\<lparr>codes := rdel code (codes s)\<rparr>)
       else if jmember b ''redirect_uri'' \<noteq> Some (JStr (co_redirect_uri c))
       then (Inl (InvalidGrant ''redirect_uri mismatch''), s\<lparr>codes := rdel code (codes s)\<rparr>)
       else (case pkce_check digest (jmember b ''code_verifier'') (co_challenge c) of
           Some e \<Rightarrow> (Inl e, s\<lparr>codes := rdel code (codes s)\<rparr>)
         | None \<Rightarrow> issue_tokens issuer now cid c (s\<lparr>codes := rdel code (codes s)\<rparr>)))"
    using assms by (simp add: token_request_def consume_code_def body_code_def)
  have "rget t (codes (snd (token_request x digest issuer now b s))) code = None" for t
    by (simp add: run kept redis_simps split: option.splits)
  then show ?thesis by (auto simp: run pkce_check_def)
qed

theorem refused_code_is_spent_witness:
  "token_request demo_web_x (\<lambda>_. ''other'') ''https://sso'' 4000 demo_token_body demo_now
     = (Inl (InvalidGrant ''PKCE verification failed''), demo_now\<lparr>codes := rdel ''rrrrr'' (codes demo_now)\<rparr>)"
proof -
  define c where "c = the (rget 4000 (codes demo_now) ''rrrrr'')"
  have c: "rget 4000 (codes demo_now) ''rrrrr'' = Some c \<and> token_client demo_web_x (core demo_now) demo_token_body = Inr ''rp''
      \<and> co_client c = ''rp'' \<and> co_redirect_uri c = ''https://rp/cb'' \<and> ''other'' \<noteq> co_challenge c"
    unfolding c_def by code_simp
  have b: "jmember demo_token_body ''grant_type'' = Some (JStr ''authorization_code'')" "jmember demo_token_body ''code'' = Some (JStr ''rrrrr'')"
    "jmember demo_token_body ''redirect_uri'' = Some (JStr ''https://rp/cb'')" "jmember demo_token_body ''code_verifier'' = Some (JStr ''v'')"
    by (simp_all add: demo_token_body_def jmember_def)
  note spent = refused_code_is_spent [OF b(1) conjunct1 [OF conjunct2 [OF c]] b(2) conjunct1 [OF c]]
  from conjunct2 [OF conjunct2 [OF conjunct2 [OF spent [where v = "''v''" and digest = "\<lambda>_. ''other''"]]]]
  show ?thesis using b c by simp
qed

end
