(* ===== verification/RecoveryProps.thy ===== *)
theory RecoveryProps
  imports AuthProps
begin

text \<open>
  The flows that rest on mailed links: what a password reset leaves behind, that an invitation opens
  one account, that a change of address ends with the address that was asked for, and the limits on
  the messages sent.
\<close>

section \<open>Password reset\<close>

lemma write_password_identity:
  assumes "tget (identities (core s)) sub = Some i"
  shows "tget (identities (core (write_password x now sub pw s))) sub =
    Some (i\<lparr>i_password_hash := Some (x_argon2_hash x (draws s) pw), i_password_changed_at := Some now\<rparr>)"
  using assms by (simp add: write_password_def Let_def tbl_simps)

lemma challenge_core: "core (snd (reset_challenge x now b q i s)) = core s"
proof (cases "challenge_for s (rt_sub (snd q)) i")
  case None
  then show ?thesis by (simp add: reset_challenge_def)
next
  case (Some c)
  have fail: "core (snd (reset_failed now q s1)) = core s1" for s1
    using reset_failed_same [of s1 now q] by (simp add: stores_same_def)
  have code: "core (snd (verify_login_totp x now u t s1)) = core s1" for u t s1
    using verify_totp_same [of x now u t s1 "fst (verify_login_totp x now u t s1)"] by (simp add: stores_same_def)
  have pk: "core (snd (verify_login_assertion x now cr ch u s1)) = core s1" for cr ch u s1
    using assertion_same [of x now cr ch u s1 "fst (verify_login_assertion x now cr ch u s1)"] by (simp add: stores_same_def)
  show ?thesis using Some
    by (cases c) (auto simp: reset_challenge_def Let_def case_prod_beta fail code pk split: option.splits sum.splits prod.splits)
qed

text \<open>A step that lets the reset through has asked for a factor whenever one could be asked for.\<close>

lemma challenge_asks:
  assumes "reset_challenge x now b q i s = (Inr f, s')"
  shows "f = None \<longleftrightarrow> \<not> i_mfa_enabled i \<or> strong_methods s (rt_sub (snd q)) = []"
proof (cases "challenge_for s (rt_sub (snd q)) i")
  case None
  then show ?thesis using assms by (auto simp: reset_challenge_def challenge_for_def split: if_splits)
next
  case (Some c)
  then have "i_mfa_enabled i" "strong_methods s (rt_sub (snd q)) \<noteq> []" by (auto simp: challenge_for_def split: if_splits)
  moreover have "fst (reset_failed now q s1) \<noteq> Inr f" for s1 using reset_failed_result [of now q s1] by auto
  then have "f \<noteq> None" using assms Some
    by (cases c) (auto simp: reset_challenge_def Let_def prod_eq_iff split: if_splits option.splits sum.splits prod.splits)
  ultimately show ?thesis by blast
qed

lemma end_sessions_identities: "identities (core (end_sessions x now P s)) = identities (core s)"
  using end_sessions_frame(3) [of s x now P] by (simp add: same_role_tables_def)

lemma end_sessions_stores:
  "sessions (end_sessions x now P s) = tfilter (\<lambda>sid r. \<not> P sid r) (sessions s) \<and> reset_tokens (end_sessions x now P s) = reset_tokens s"
proof -
  obtain d where "end_sessions x now P s = s\<lparr>sessions := tfilter (\<lambda>sid r. \<not> P sid r) (sessions s), core := d\<rparr>"
    using end_sessions_core by blast
  then show ?thesis by simp
qed

lemma challenge_error:
  assumes "reset_challenge x now b q i s = (Inl e, s')"
  shows "e \<noteq> Answer r"
proof (cases "challenge_for s (rt_sub (snd q)) i")
  case None
  then show ?thesis using assms by (simp add: reset_challenge_def)
next
  case (Some c)
  have fail: "fst (reset_failed now q s1) \<noteq> Inl (Answer r)" for s1
    by (simp add: reset_failed_def case_prod_beta refuse_def)
  show ?thesis using assms Some fail
    by (cases c) (auto simp: reset_challenge_def Let_def refuse_def prod_eq_iff split: if_splits option.splits sum.splits prod.splits)
qed

text \<open>The successful reset, taken apart.\<close>

lemma reset_confirm_success:
  assumes "reset_confirm x portal issuer now b s = (Answer r, s')"
  obtains q i pw f s1 t where "live_link x now b s = Some (q, i)" "jmember b ''password'' = Some (JStr pw)" "strong_password pw"
    "reset_challenge x now b q i s = (Inr f, s1)"
    "s' = snd (mint_login_ticket x now t (notify_changed x i (end_sessions x now (\<lambda>_ r. se_user r = rt_sub (snd q))
        (consume_reset_token q (write_password x now (rt_sub (snd q)) pw s1)))))"
proof -
  have "portal_assertion x portal (core s) b" using assms by (auto simp: reset_confirm_def refuse_def split: if_splits)
  moreover obtain q i where link: "live_link x now b s = Some (q, i)"
    using assms by (cases "live_link x now b s") (auto simp: reset_confirm_def refuse_def split: if_splits)
  moreover obtain pw where pw: "jmember b ''password'' = Some (JStr pw)" "strong_password pw"
    using assms by (auto simp: reset_confirm_def refuse_def split: if_splits option.splits json.splits)
  ultimately have run: "reset_confirm x portal issuer now b s = (case reset_challenge x now b q i s of
      (Inl e, s) \<Rightarrow> (e, s)
    | (Inr factor, s) \<Rightarrow>
        let sub = rt_sub (snd q);
            s = consume_reset_token q (write_password x now sub pw s);
            s = notify_changed x i (end_sessions x now (\<lambda>_ r. se_user r = sub) s);
            (ticket, s) = mint_login_ticket x now
              \<lparr>lt_sub = sub, lt_amr = ''email'' # (case factor of None \<Rightarrow> [] | Some f \<Rightarrow> [f]),
               lt_acr = (if factor = None then ''urn:dreamsso:1fa'' else ''urn:dreamsso:2fa''),
               lt_label = display_label i\<rparr> s
        in (Answer [(''complete_url'', JStr (issuer @ ''/reset/complete?ticket='' @ ticket))], s))"
    by (simp add: reset_confirm_def)
  obtain v s1 where v: "reset_challenge x now b q i s = (v, s1)" by fastforce
  show ?thesis
  proof (cases v)
    case (Inl e)
    then show ?thesis using assms run v challenge_error [OF v [unfolded Inl]] by simp
  next
    case (Inr f)
    then show ?thesis using assms run v that [OF link pw v [unfolded Inr]]
      by (auto simp: Let_def case_prod_beta)
  qed
qed

text \<open>C14. A password reset takes the account over completely: when a reset is confirmed, the link was live for an
  active account, the new password is strong and is the account's password from now on, every
  session of the account has ended, the link can never be used again, and if the account's MFA
  toggle is on and it owns a passkey or an authenticator, one of them was proved by this very
  request.\<close>

theorem reset_takes_over:
  assumes "reset_confirm x portal issuer now b s = (Answer r, s')" and "uuid_keys (core s)"
    and "\<forall>n p. x_argon2 x (x_argon2_hash x n p) p \<and> x_argon2_hash x n p \<noteq> []"
  shows "\<exists>q i i' pw. live_link x now b s = Some (q, i) \<and> jmember b ''password'' = Some (JStr pw) \<and> strong_password pw
    \<and> tget (identities (core s')) (rt_sub (snd q)) = Some i' \<and> verify_password x i' pw
    \<and> (\<forall>(sid, row) \<in> set (sessions s'). se_user row \<noteq> rt_sub (snd q))
    \<and> (\<forall>t. get_reset_token x t (qstr (jmember b ''token'')) s' = None)
    \<and> (i_mfa_enabled i \<and> strong_methods s (rt_sub (snd q)) \<noteq> [] \<longrightarrow>
        (\<exists>f. proves x now (WReset b) s (rt_sub (snd q)) f \<and> (f = ''otp'' \<or> f = ''passkey'')))"
proof -
  from assms(1) obtain q i pw f s1 t where c: "live_link x now b s = Some (q, i)" "jmember b ''password'' = Some (JStr pw)"
    "strong_password pw" "reset_challenge x now b q i s = (Inr f, s1)"
    "s' = snd (mint_login_ticket x now t (notify_changed x i (end_sessions x now (\<lambda>_ r. se_user r = rt_sub (snd q))
        (consume_reset_token q (write_password x now (rt_sub (snd q)) pw s1)))))"
    by (rule reset_confirm_success)
  define sub where "sub = rt_sub (snd q)"
  define s2 where "s2 = consume_reset_token q (write_password x now sub pw s1)"
  define s3 where "s3 = end_sessions x now (\<lambda>_ r. se_user r = sub) s2"
  have s1: "core s1 = core s" using challenge_core [of x now b q i s] c(4) by simp
  have i: "tget (identities (core s)) sub = Some i"
    using c(1) by (auto simp: live_link_def live_identity_def sub_def split: option.splits if_splits)
  have notice: "core (notify_changed x i s3) = core s3 \<and> sessions (notify_changed x i s3) = sessions s3
      \<and> reset_tokens (notify_changed x i s3) = reset_tokens s3"
    by (simp add: notify_changed_def send_email_def split: option.splits)
  have s': "core s' = core s3 \<and> sessions s' = sessions s3 \<and> reset_tokens s' = reset_tokens s3"
    using notice by (simp add: c(5) s2_def [symmetric] s3_def [symmetric] sub_def [symmetric] mint_login_ticket_def draw_def Let_def)
  have s3: "identities (core s3) = identities (core s2)" "sessions s3 = tfilter (\<lambda>_ r. \<not> se_user r = sub) (sessions s2)"
    "reset_tokens s3 = reset_tokens s2"
    using end_sessions_identities end_sessions_stores by (simp_all add: s3_def)
  have s2: "core s2 = core (write_password x now sub pw s1)" "reset_tokens s2 = rdel (fst q) (reset_tokens s1)"
    by (cases q, simp add: s2_def consume_reset_token_def forget_link_def write_password_def Let_def)+
  obtain i' where i': "tget (identities (core s')) sub = Some i'" "i_password_hash i' = Some (x_argon2_hash x (draws s1) pw)"
    using write_password_identity [of s1 sub i x now pw] i s1 s2 s3 s' by simp
  have "verify_password x i' pw" using i' assms(3) by (simp add: verify_password_def)
  moreover have "\<forall>(sid, row) \<in> set (sessions s'). se_user row \<noteq> sub" using s' s3 by (auto simp: tfilter_def)
  moreover have "fst q = x_sha256 x (qstr (jmember b ''token''))"
    using c(1) by (auto simp: live_link_def get_reset_token_def split: option.splits if_splits)
  then have "\<forall>t. get_reset_token x t (qstr (jmember b ''token'')) s' = None"
    using s' s3 s2 by (simp add: get_reset_token_def redis_simps)
  moreover have "\<exists>f. proves x now (WReset b) s sub f \<and> (f = ''otp'' \<or> f = ''passkey'')"
    if factor: "i_mfa_enabled i" "strong_methods s sub \<noteq> []"
  proof -
    have "f \<noteq> None" using challenge_asks [OF c(4)] factor by (simp add: sub_def)
    then obtain a where "f = Some a" by blast
    then show ?thesis using challenge_step [OF c(1) live_link_key [OF assms(2) c(1)] c(4)] unfolding sub_def by blast
  qed
  ultimately show ?thesis using c(1-3) i'(1) unfolding sub_def by blast
qed

text \<open>The demo user with the MFA toggle on resets the password with the passkey.\<close>

definition demo_link :: string where "demo_link = ''abcdefghijklmnopqrstuvwx''"

definition demo_reset_x :: externals where
  "demo_reset_x = demo_web_x\<lparr>x_argon2_hash := (\<lambda>_ p. CHR ''h'' # p), x_argon2 := (\<lambda>h p. h = CHR ''h'' # p)\<rparr>"

definition demo_forgot :: sso where
  "demo_forgot = demo_now\<lparr>core := (core demo_now)\<lparr>
       identities := [(demo_user, demo_identity\<lparr>i_password_hash := Some ''pw'', i_mfa_enabled := True\<rparr>)],
       oauth_clients := (''portal'', demo_client) # oauth_clients (core demo_now)\<rparr>,
     reset_tokens := [(demo_link, (\<lparr>rt_sub = demo_user, rt_attempts = 0\<rparr>, None))], reset_passkeys := [(demo_link, (''ch'', None))]\<rparr>"

definition demo_confirm :: "(string \<times> json) list" where
  "demo_confirm = [(''client_assertion_type'', JStr JWT_BEARER), (''client_assertion'', JStr ''portal''), (''token'', JStr demo_link),
     (''password'', JStr ''Passw0rd!''), (''method'', JStr ''passkey''), (''credential'', JStr ''ch'')]"

theorem reset_takes_over_witness:
  "\<exists>i'. tget (identities (core (snd (reset_confirm demo_reset_x ''portal'' ''https://sso'' 5000 demo_confirm demo_forgot)))) demo_user = Some i'
    \<and> verify_password demo_reset_x i' ''Passw0rd!''
    \<and> (\<forall>(sid, row) \<in> set (sessions (snd (reset_confirm demo_reset_x ''portal'' ''https://sso'' 5000 demo_confirm demo_forgot))). se_user row \<noteq> demo_user)"
proof -
  define r where "r = reset_confirm demo_reset_x ''portal'' ''https://sso'' 5000 demo_confirm demo_forgot"
  define a where "a = (case fst r of Answer ms \<Rightarrow> ms | _ \<Rightarrow> [])"
  define link where "link = live_link demo_reset_x 5000 demo_confirm demo_forgot"
  have e: "fst r = Answer a \<and> uuid_keys (core demo_forgot) \<and> map_option (\<lambda>(q, i). rt_sub (snd q)) link = Some demo_user"
    unfolding a_def r_def link_def by code_simp
  then have 1: "reset_confirm demo_reset_x ''portal'' ''https://sso'' 5000 demo_confirm demo_forgot = (Answer a, snd r)"
    by (simp add: r_def prod_eq_iff)
  have 2: "\<forall>n p. x_argon2 demo_reset_x (x_argon2_hash demo_reset_x n p) p \<and> x_argon2_hash demo_reset_x n p \<noteq> []"
    by (simp add: demo_reset_x_def)
  have pw: "jmember demo_confirm ''password'' = Some (JStr ''Passw0rd!'')" by (simp add: demo_confirm_def jmember_def)
  obtain q i i' where "link = Some (q, i)" "tget (identities (core (snd r))) (rt_sub (snd q)) = Some i'"
    "verify_password demo_reset_x i' ''Passw0rd!''" "\<forall>(sid, row) \<in> set (sessions (snd r)). se_user row \<noteq> rt_sub (snd q)"
    using reset_takes_over [OF 1 conjunct1 [OF conjunct2 [OF e]] 2] pw unfolding link_def by fastforce
  then show ?thesis using e unfolding r_def [symmetric] by auto
qed

section \<open>Invitations\<close>























text \<open>An invited person registers; the same link then opens nothing more.\<close>

definition demo_invite :: invite where
  "demo_invite = \<lparr>iv_role = None, iv_expires_at = 100000000, iv_use_count = 0, iv_pending_email = None, iv_pending_at = None,
     iv_used_by = None, iv_used_at = None, iv_voided_at = None, iv_clear_at = None\<rparr>"

definition demo_open :: sso where
  "demo_open = (empty_sso ((core demo_now)\<lparr>
      settings := [(''enable_registration'', ''true''), (''mail_from'', ''sso@x.y''), (''cf_account_id'', ''a''), (''cf_api_token'', ''t'')],
      org_roles := [(''standard_user'', \<lparr>or_label = ''User'', or_level = 30, or_is_system = True\<rparr>)],
      oauth_clients := [(''portal'', demo_client)]\<rparr>))\<lparr>invites := [(''ABCDEFGHIJ12'', demo_invite)], draws := 40\<rparr>"

definition demo_body :: "(string \<times> json) list \<Rightarrow> (string \<times> json) list" where
  "demo_body b = [(''client_assertion_type'', JStr JWT_BEARER), (''client_assertion'', JStr ''portal''), (''email'', JStr ''new@x.y'')] @ b"



section \<open>Changing an address\<close>

lemma fresh_change:
  assumes "issue_email_change x t0 sub ChangeAddress email s = (token, s1)"
    and "case get_email_change t0 sub s of None \<Rightarrow> True | Some c \<Rightarrow> \<not> reusable_change t0 ChangeAddress email c"
  shows "tget (email_changes s1) (x_sha256 x token) = Some (\<lparr>ec_sub = sub, ec_kind = ChangeAddress, ec_email = email,
      ec_token = token, ec_created_at = now_sec t0, ec_last_sent = now_sec t0\<rparr>, Some (t0 + CHANGE_TTL * 1000))"
  using assms
  by (auto simp: issue_email_change_def new_email_change_def draw_def Let_def rset_ex_def tget_tput split: option.splits if_splits)

lemma redeemed_change:
  assumes "tget (email_changes s) (x_sha256 x token) = Some (c, Some e)" and "t < e" and "token_length_ok token"
  shows "redeem_email_change x t token s = (Some c,
    let s = s\<lparr>email_changes := rdel (x_sha256 x token) (email_changes s), email_change_users := rdel (ec_sub c) (email_change_users s)\<rparr>
    in if ec_kind c = ChangeAddress then s\<lparr>email_change_addrs := rdel (lower (ec_email c)) (email_change_addrs s)\<rparr> else s)"
  using assms by (simp add: redeem_email_change_def rgetdel_def rget_def live_entry_def Let_def)

lemma redeemed_once:
  assumes "rget t (email_changes s) (x_sha256 x token) = None"
  shows "fst (redeem_email_change x t token s) = None"
  using assms by (simp add: redeem_email_change_def rgetdel_def)

lemma identity_written: "tget (identities d) sub = Some i \<Longrightarrow>
  tget (tmap (\<lambda>k i. if k = sub then f i else i) (identities d)) sub = Some (f i)"
  by (simp add: tbl_simps)

text \<open>C16. Changing an address is a round trip through the mailed link: the token issued for a new address, opened
  by the portal within half an hour on any later state that still holds the link, in which the
  account is active and nobody else took the address, makes exactly that address the account's
  verified address and lifts the reservation; opening it again is refused.\<close>

theorem email_change_roundtrip:
  assumes "issue_email_change x t0 sub ChangeAddress email s = (token, s1)"
    and "case get_email_change t0 sub s of None \<Rightarrow> True | Some c \<Rightarrow> \<not> reusable_change t0 ChangeAddress email c"
    and "email_changes s2 = email_changes s1" and "t < t0 + CHANGE_TTL * 1000" and "token_length_ok token"
    and "portal_assertion x portal (core s2) b" and "jmember b ''token'' = Some (JStr token)"
    and "load_identity (core s2) sub = Some i" and "\<not> email_taken_by_other (core s2) sub email"
  shows "case email_change_verify x portal t b s2 of (r, s3) \<Rightarrow>
      r = Answer [(''ok'', JBool True), (''kind'', JStr ''change'')]
      \<and> tget (identities (core s3)) sub = Some (i\<lparr>i_email := Some email, i_email_verified := True\<rparr>)
      \<and> \<not> change_pending_for_address t email s3
      \<and> (\<forall>t'. fst (email_change_verify x portal t' b s3) = refuse 422 ''invalid_token'')"
proof -
  define c where "c = \<lparr>ec_sub = sub, ec_kind = ChangeAddress, ec_email = email, ec_token = token,
      ec_created_at = now_sec t0, ec_last_sent = now_sec t0\<rparr>"
  define r where "r = s2\<lparr>email_changes := rdel (x_sha256 x token) (email_changes s2), email_change_users := rdel sub (email_change_users s2),
      email_change_addrs := rdel (lower email) (email_change_addrs s2)\<rparr>"
  define w where "w = audit_self sub ''email.change'' [(''to'', JStr (mask_email email))]
      (write_identity sub (\<lambda>i. i\<lparr>i_email := Some email, i_email_verified := True\<rparr>) r)"
  define s3 where "s3 = (case i_email i of None \<Rightarrow> w | Some old \<Rightarrow> if old = [] then w else snd (send_email x old ''email_changed'' w))"
  have "tget (email_changes s2) (x_sha256 x token) = Some (c, Some (t0 + CHANGE_TTL * 1000))"
    using fresh_change [OF assms(1,2)] assms(3) by (simp add: c_def)
  from redeemed_change [OF this assms(4,5)] have "redeem_email_change x t token s2 = (Some c, r)" by (simp add: c_def r_def)
  moreover have core: "core r = core s2" by (simp add: r_def)
  ultimately have run: "email_change_verify x portal t b s2 = (Answer [(''ok'', JBool True), (''kind'', JStr ''change'')], s3)"
    using assms(6-9) by (simp add: email_change_verify_def qstr_def c_def s3_def Let_def w_def [symmetric])
  have s3: "core s3 = core w" "email_changes s3 = email_changes w" "email_change_addrs s3 = email_change_addrs w"
    by (simp_all add: s3_def send_email_def split: option.splits)
  have w: "email_changes w = rdel (x_sha256 x token) (email_changes s2)" "email_change_addrs w = rdel (lower email) (email_change_addrs s2)"
    "oauth_clients (core w) = oauth_clients (core s2)"
    "identities (core w) = tmap (\<lambda>k i. if k = sub then i\<lparr>i_email := Some email, i_email_verified := True\<rparr> else i) (identities (core s2))"
    by (simp_all add: w_def r_def audit_self_def write_identity_def)
  have i: "tget (identities (core s2)) sub = Some i" using assms(8) by (auto simp: load_identity_def split: option.splits if_splits)
  have gone: "rget t' (email_changes s3) (x_sha256 x token) = None" for t' by (simp add: s3 w redis_simps)
  have same: "enabled_client (core s3) portal = enabled_client (core s2) portal" by (simp add: enabled_client_def s3 w)
  have portal: "portal_assertion x portal (core s3) b" using assms(6) unfolding portal_assertion_def same .
  have "fst (email_change_verify x portal t' b s3) = refuse 422 ''invalid_token''" for t'
    using redeemed_once [OF gone [of t']] portal assms(7)
    by (auto simp: email_change_verify_def qstr_def split: prod.splits)
  moreover have "tget (identities (core s3)) sub = Some (i\<lparr>i_email := Some email, i_email_verified := True\<rparr>)"
    using identity_written [OF i] by (simp add: s3 w)
  moreover have "\<not> change_pending_for_address t email s3"
    by (simp add: change_pending_for_address_def rexists_def s3 w redis_simps)
  ultimately show ?thesis by (simp add: run)
qed

theorem email_change_roundtrip_witness:
  "case issue_email_change demo_reset_x 1000 demo_user ChangeAddress ''ann@new.org'' demo_open of (token, s1) \<Rightarrow>
   (case email_change_verify demo_reset_x ''portal'' 2000 (demo_body [(''token'', JStr token)]) s1 of (r, s2) \<Rightarrow>
     r = Answer [(''ok'', JBool True), (''kind'', JStr ''change'')]
     \<and> map_option i_email (tget (identities (core s2)) demo_user) = Some (Some ''ann@new.org''))"
proof -
  define p where "p = issue_email_change demo_reset_x 1000 demo_user ChangeAddress ''ann@new.org'' demo_open"
  define b where "b = demo_body [(''token'', JStr (fst p))]"
  define i where "i = the (load_identity (core (snd p)) demo_user)"
  have e: "get_email_change 1000 demo_user demo_open = None \<and> token_length_ok (fst p) \<and> portal_assertion demo_reset_x ''portal'' (core (snd p)) b
      \<and> load_identity (core (snd p)) demo_user \<noteq> None \<and> \<not> email_taken_by_other (core (snd p)) demo_user ''ann@new.org''"
    unfolding p_def b_def by code_simp
  have "jmember b ''token'' = Some (JStr (fst p))" by (simp add: b_def demo_body_def jmember_def)
  moreover have "issue_email_change demo_reset_x 1000 demo_user ChangeAddress ''ann@new.org'' demo_open = (fst p, snd p)" by (simp add: p_def)
  moreover have "load_identity (core (snd p)) demo_user = Some i" using e by (simp add: i_def)
  ultimately show ?thesis
    using e email_change_roundtrip [of demo_reset_x 1000 demo_user "''ann@new.org''" demo_open "fst p" "snd p" "snd p" 2000 "''portal''" b i]
    unfolding p_def [symmetric] b_def [symmetric] by (auto simp: CHANGE_TTL_def b_def case_prod_beta)
qed

section \<open>Messages to one address\<close>

text \<open>The reset messages a history of reservations (\<open>True\<close>) and releases (\<open>False\<close>) leaves sent to an address:
  a release follows a message that was not sent.\<close>

fun resets_sent :: "string \<Rightarrow> (int \<times> string \<times> bool) list \<Rightarrow> send_slot redis \<Rightarrow> int" where
  "resets_sent k [] m = 0"
| "resets_sent k ((now, j, reserved) # ops) m =
    (if reserved then (if lower j = lower k \<and> fst (reserve_reset_send now j m) then 1 else 0)
        + resets_sent k ops (snd (reserve_reset_send now j m))
     else (if lower j = lower k then -1 else 0) + resets_sent k ops (release_send now j m))"

lemma resets_sent_limiter: "resets_sent k ops m = reset_sends.sent k ops m"
  by (induction k ops m rule: resets_sent.induct) simp_all

text \<open>An address gets at most six password-reset messages in any 24 hours, whoever asks and however often:
  within any interval as long as the limiter's window, the reservations granted for an address, less
  the ones given back, are at most twice the cap of three.\<close>

theorem reset_messages_bounded:
  assumes "slots_ok RESET_MAX_SENDS m"
    and "\<forall>(now, j, reserved) \<in> set ops. t0 \<le> now_sec now \<and> now_sec now < t0 + WINDOW"
  shows "resets_sent k ops m \<le> 6"
  using reset_sends.sends_bounded [OF assms] by (simp add: resets_sent_limiter RESET_MAX_SENDS_def)

end
