(* ===== verification/KeyRotation.thy ===== *)
theory KeyRotation
  imports Json Store
begin

text \<open>
  The provider's own signing keys (\<open>src/signingKeyRotation.ts\<close>, \<open>src/keys.ts\<close>, \<open>src/routes/jwks.ts\<close>,
  \<open>src/clientKeyStatus.ts\<close>): the table of keys, the staged rotation (publish, wait, activate, retire),
  the published key set with each process's cache, and the status document.  A transaction of the
  source holds an advisory lock and is one step; what a process does between its transactions is
  left to the interleaving of steps in \<open>KeyRotationProps\<close>.  Key pairs, their thumbprint, the sealing
  of private keys and the self-test signature are the fields of \<open>key_externals\<close>.
\<close>

section \<open>Rows and key material\<close>

datatype key_stage = KeyCurrent | KeyNext | KeyRetired

record signing_key =
  sk_alg :: string
  sk_jwk :: "(string \<times> json) list"
  sk_private :: string
  sk_status :: key_stage
  sk_created_at :: int
  sk_activated_at :: "int option"
  sk_retired_at :: "int option"
  sk_rotation_id :: "string option"
  sk_published_at :: "int option"
  sk_activate_after :: "int option"

type_synonym key_row = "string \<times> signing_key"

record key_db =
  signing_keys :: "(string, signing_key) table"
  key_draws :: nat

text \<open>A state that cannot be used, and a write that the indexes or column types refuse.\<close>

datatype key_error = StateUnavailable | WriteRefused

record key_externals =
  kx_pair :: "nat \<Rightarrow> (string \<times> json) list \<times> string"
  kx_thumb :: "(string \<times> json) list \<Rightarrow> string"
  kx_matches :: "string \<Rightarrow> (string \<times> json) list \<Rightarrow> bool"
  kx_seal :: "string \<Rightarrow> string"
  kx_open :: "string \<Rightarrow> string option"
  kx_uuid :: "nat \<Rightarrow> string"

definition ALG :: string where "ALG = ''EdDSA''"

definition base64url_char :: "char \<Rightarrow> bool" where
  "base64url_char c = (is_alnum c \<or> c = CHR ''_'' \<or> c = CHR ''-'')"

definition base64url :: "nat \<Rightarrow> nat \<Rightarrow> json option \<Rightarrow> bool" where
  "base64url lo hi v = (case v of Some (JStr t) \<Rightarrow> lo \<le> length t \<and> length t \<le> hi \<and> list_all base64url_char t | _ \<Rightarrow> False)"

definition text_of :: "json option \<Rightarrow> string" where
  "text_of v = (case v of Some (JStr t) \<Rightarrow> t | _ \<Rightarrow> [])"

definition public_signing_jwk :: "(string \<times> json) list \<Rightarrow> key_error + (string \<times> json) list" where
  "public_signing_jwk j =
    (if jmember j ''kty'' \<noteq> Some (JStr ''OKP'') \<or> jmember j ''crv'' \<noteq> Some (JStr ''Ed25519'')
        \<or> \<not> base64url 43 43 (jmember j ''x'') \<or> \<not> base64url 1 200 (jmember j ''kid'')
        \<or> (jmember j ''alg'' \<noteq> None \<and> jmember j ''alg'' \<noteq> Some (JStr ALG))
        \<or> list_ex (has_own j) [''d'', ''p'', ''q'', ''dp'', ''dq'', ''qi'', ''k'']
     then Inl StateUnavailable
     else Inr [(''kty'', JStr ''OKP''), (''crv'', JStr ''Ed25519''), (''x'', JStr (text_of (jmember j ''x''))),
       (''kid'', JStr (text_of (jmember j ''kid''))), (''alg'', JStr ALG), (''use'', JStr ''sig'')])"

record key_material =
  km_kid :: string
  km_alg :: string
  km_jwk :: "(string \<times> json) list"
  km_private :: string

definition generate_material :: "key_externals \<Rightarrow> nat \<Rightarrow> key_error + key_material" where
  "generate_material x n =
    (let (pub, priv) = kx_pair x n; kid = kx_thumb x pub;
         jwk = tput ''use'' (JStr ''sig'') (tput ''alg'' (JStr ALG) (tput ''kid'' (JStr kid) pub))
     in if \<not> kx_matches x priv pub then Inl StateUnavailable
        else rbind (public_signing_jwk jwk) (\<lambda>_.
          Inr \<lparr>km_kid = kid, km_alg = ALG, km_jwk = jwk, km_private = kx_seal x priv\<rparr>))"

section \<open>Reading the authority\<close>

definition PREPUBLICATION :: int where "PREPUBLICATION = 300"

definition with_status :: "key_stage \<Rightarrow> key_row list \<Rightarrow> key_row list" where
  "with_status st = filter (\<lambda>(_, r). sk_status r = st)"

definition newest_first :: "key_row list \<Rightarrow> key_row list" where
  "newest_first = sort_key (\<lambda>(_, r). - sk_created_at r)"

definition key_row_ok :: "key_row \<Rightarrow> bool" where
  "key_row_ok q = (case q of (kid, r) \<Rightarrow>
     kid \<noteq> [] \<and> (sk_published_at r = None) = (sk_activate_after r = None)
     \<and> (case (sk_published_at r, sk_activate_after r) of
          (Some p, Some a) \<Rightarrow> a - p \<ge> PREPUBLICATION * 1000 | _ \<Rightarrow> True)
     \<and> (sk_status r = KeyNext \<longrightarrow>
          (case sk_rotation_id r of None \<Rightarrow> False | Some i \<Rightarrow> i \<noteq> []) \<and> sk_activated_at r = None \<and> sk_retired_at r = None))"

definition key_rows :: "key_db \<Rightarrow> key_error + key_row list" where
  "key_rows d =
    (let rows = newest_first (filter (\<lambda>(_, r). sk_status r \<noteq> KeyRetired) (signing_keys d))
     in if length rows \<le> 2 \<and> length (with_status KeyCurrent rows) \<le> 1 \<and> length (with_status KeyNext rows) \<le> 1
           \<and> list_all key_row_ok rows
        then Inr rows else Inl StateUnavailable)"

definition first_with :: "key_stage \<Rightarrow> key_row list \<Rightarrow> key_row option" where
  "first_with st rows = find (\<lambda>(_, r). sk_status r = st) rows"

section \<open>The transactions\<close>

text \<open>A failed transaction leaves the table as it was; what it drew is not drawn again.\<close>

definition key_transaction :: "(key_db \<Rightarrow> key_error + 'a \<times> key_db) \<Rightarrow> key_db \<Rightarrow> (key_error + 'a) \<times> key_db" where
  "key_transaction work d = (case work d of
     Inl e \<Rightarrow> (Inl e, d\<lparr>key_draws := key_draws d + 3\<rparr>) | Inr (a, d') \<Rightarrow> (Inr a, d'))"

text \<open>The primary key, the three unique indexes and the uuid column.\<close>

definition insert_key :: "string \<Rightarrow> signing_key \<Rightarrow> key_db \<Rightarrow> key_error + key_db" where
  "insert_key kid r d =
    (if tget (signing_keys d) kid \<noteq> None
        \<or> (sk_status r \<noteq> KeyRetired \<and> with_status (sk_status r) (signing_keys d) \<noteq> [])
        \<or> (case sk_rotation_id r of None \<Rightarrow> False
           | Some i \<Rightarrow> \<not> is_uuid i \<or> list_ex (\<lambda>(_, r'). sk_rotation_id r' = Some i) (signing_keys d))
     then Inl WriteRefused
     else Inr (d\<lparr>signing_keys := tput kid r (signing_keys d)\<rparr>))"

definition key_of_material :: "key_material \<Rightarrow> key_stage \<Rightarrow> int \<Rightarrow> int option \<Rightarrow> string option \<Rightarrow> signing_key" where
  "key_of_material m st now activated rotation =
    \<lparr>sk_alg = km_alg m, sk_jwk = km_jwk m, sk_private = km_private m, sk_status = st, sk_created_at = now,
     sk_activated_at = activated, sk_retired_at = None, sk_rotation_id = rotation, sk_published_at = None,
     sk_activate_after = None\<rparr>"

definition bootstrap :: "key_externals \<Rightarrow> int \<Rightarrow> key_row list \<Rightarrow> key_db \<Rightarrow> key_error + key_db" where
  "bootstrap x now rows d =
    (if first_with KeyCurrent rows \<noteq> None then Inr d
     else if rows \<noteq> [] \<or> signing_keys d \<noteq> [] then Inl StateUnavailable
     else rbind (generate_material x (key_draws d)) (\<lambda>m.
       rbind (insert_key (km_kid m) (key_of_material m KeyCurrent now (Some now) None)
           (d\<lparr>key_draws := Suc (key_draws d)\<rparr>)) (\<lambda>d'.
       rbind (key_rows d') (\<lambda>_. Inr d'))))"

definition bootstrap_work :: "key_externals \<Rightarrow> int \<Rightarrow> key_db \<Rightarrow> key_error + unit \<times> key_db" where
  "bootstrap_work x now d = rbind (key_rows d) (\<lambda>rows. rbind (bootstrap x now rows d) (\<lambda>d'. Inr ((), d')))"

definition publish_key :: "int \<Rightarrow> string \<Rightarrow> key_db \<Rightarrow> key_db" where
  "publish_key now kid d = d\<lparr>signing_keys := tmap (\<lambda>k r.
     if k = kid \<and> sk_status r = KeyNext \<and> sk_published_at r = None
     then r\<lparr>sk_published_at := Some now, sk_activate_after := Some (now + PREPUBLICATION * 1000)\<rparr> else r) (signing_keys d)\<rparr>"

definition retire_key :: "int \<Rightarrow> string \<Rightarrow> key_db \<Rightarrow> key_db" where
  "retire_key now kid d = d\<lparr>signing_keys := tmap (\<lambda>k r.
     if k = kid \<and> sk_status r = KeyCurrent then r\<lparr>sk_status := KeyRetired, sk_retired_at := Some now\<rparr> else r) (signing_keys d)\<rparr>"

definition activate_key :: "int \<Rightarrow> string \<Rightarrow> key_db \<Rightarrow> key_db" where
  "activate_key now kid d = d\<lparr>signing_keys := tmap (\<lambda>k r.
     if k = kid \<and> sk_status r = KeyNext then r\<lparr>sk_status := KeyCurrent, sk_activated_at := Some now\<rparr> else r) (signing_keys d)\<rparr>"

text \<open>\<open>reconcile\<close>: whether anything was modified.\<close>

definition reconcile_work :: "int \<Rightarrow> string \<Rightarrow> key_db \<Rightarrow> key_error + bool \<times> key_db" where
  "reconcile_work now kid d = rbind (key_rows d) (\<lambda>rows.
     case first_with KeyCurrent rows of
       None \<Rightarrow> Inl StateUnavailable
     | Some (cur, _) \<Rightarrow> (case first_with KeyNext rows of
         None \<Rightarrow> Inr (False, d)
       | Some (k, n) \<Rightarrow>
           if k \<noteq> kid then Inr (False, d)
           else if sk_published_at n = None then Inr (True, publish_key now kid d)
           else (case sk_activate_after n of
               None \<Rightarrow> Inl StateUnavailable
             | Some a \<Rightarrow> if now < a then Inr (False, d) else Inr (True, activate_key now kid (retire_key now cur d)))))"

definition reconcile_keys :: "int \<Rightarrow> string \<Rightarrow> key_db \<Rightarrow> (key_error + bool) \<times> key_db" where
  "reconcile_keys now kid d = key_transaction (reconcile_work now kid) d"

text \<open>The transaction of \<open>schedule\<close>: the pending key's identifier.  PostgreSQL prints a uuid in lower case.\<close>

definition schedule_work :: "key_externals \<Rightarrow> int \<Rightarrow> key_db \<Rightarrow> key_error + string \<times> key_db" where
  "schedule_work x now d = rbind (key_rows d) (\<lambda>rows. rbind (bootstrap x now rows d) (\<lambda>d.
     case first_with KeyNext rows of
       Some (k, _) \<Rightarrow> Inr (k, d)
     | None \<Rightarrow> rbind (generate_material x (key_draws d)) (\<lambda>m.
         rbind (insert_key (km_kid m) (key_of_material m KeyNext now None (Some (lower (kx_uuid x (key_draws d)))))
             (d\<lparr>key_draws := Suc (key_draws d)\<rparr>)) (\<lambda>d'. Inr (km_kid m, d')))))"

section \<open>The operations\<close>

text \<open>The answer, whether this process's key-set cache was invalidated, and the table.\<close>

definition due :: "int \<Rightarrow> signing_key \<Rightarrow> bool" where
  "due now n = (sk_published_at n = None \<or> (case sk_activate_after n of None \<Rightarrow> True | Some a \<Rightarrow> now \<ge> a))"

definition select_current :: "key_db \<Rightarrow> key_error + key_row" where
  "select_current d = rbind (key_rows d) (\<lambda>rows.
     case first_with KeyCurrent rows of None \<Rightarrow> Inl StateUnavailable | Some q \<Rightarrow> Inr q)"

definition ensure_current :: "key_externals \<Rightarrow> int \<Rightarrow> key_db \<Rightarrow> (key_error + bool) \<times> key_db" where
  "ensure_current x now d = (case key_rows d of
      Inl e \<Rightarrow> (Inl e, d)
    | Inr rows \<Rightarrow> if first_with KeyCurrent rows \<noteq> None then (Inr False, d)
        else (case key_transaction (bootstrap_work x now) d of
            (Inl e, d) \<Rightarrow> (Inl e, d) | (Inr _, d) \<Rightarrow> (Inr True, d)))"

definition current_key :: "key_externals \<Rightarrow> int \<Rightarrow> bool \<Rightarrow> key_db \<Rightarrow> (key_error + key_row) \<times> bool \<times> key_db" where
  "current_key x now strict d = (case ensure_current x now d of
      (Inl e, d) \<Rightarrow> (Inl e, False, d)
    | (Inr booted, d) \<Rightarrow> (case key_rows d of
        Inl e \<Rightarrow> (Inl e, booted, d)
      | Inr rows \<Rightarrow> (case first_with KeyNext rows of
          None \<Rightarrow> (select_current d, booted, d)
        | Some (k, n) \<Rightarrow>
            if \<not> due now n then (select_current d, booted, d)
            else (case reconcile_keys now k d of
                (Inl e, d) \<Rightarrow> if strict then (Inl e, booted, d) else (select_current d, booted, d)
              | (Inr modified, d) \<Rightarrow> (select_current d, booted \<or> modified, d)))))"

record key_rotation =
  kr_id :: string
  kr_kid :: string
  kr_published_at :: "int option"
  kr_activate_after :: "int option"

record key_status_doc =
  ks_kid :: string
  ks_rotated_at :: "int option"
  ks_rotation :: "key_rotation option"

text \<open>The state of the document is \<open>pending\<close> when it has a rotation and \<open>active\<close> otherwise.\<close>

definition status_of_rows :: "key_row list \<Rightarrow> key_error + key_status_doc" where
  "status_of_rows rows = (case first_with KeyCurrent rows of
      None \<Rightarrow> Inl StateUnavailable
    | Some (c, r) \<Rightarrow> Inr \<lparr>ks_kid = c, ks_rotated_at = sk_activated_at r,
        ks_rotation = (case first_with KeyNext rows of
            None \<Rightarrow> None
          | Some (k, n) \<Rightarrow> Some \<lparr>kr_id = (case sk_rotation_id n of None \<Rightarrow> [] | Some i \<Rightarrow> i), kr_kid = k,
              kr_published_at = sk_published_at n, kr_activate_after = sk_activate_after n\<rparr>)\<rparr>)"

definition key_status :: "key_externals \<Rightarrow> int \<Rightarrow> key_db \<Rightarrow> (key_error + key_status_doc) \<times> bool \<times> key_db" where
  "key_status x now d = (case current_key x now True d of
      (Inl e, ch, d) \<Rightarrow> (Inl e, ch, d)
    | (Inr _, ch, d) \<Rightarrow> (rbind (key_rows d) status_of_rows, ch, d))"

definition rotate_key :: "key_externals \<Rightarrow> int \<Rightarrow> key_db \<Rightarrow> (key_error + key_status_doc) \<times> bool \<times> key_db" where
  "rotate_key x now d = (case key_transaction (schedule_work x now) d of
      (Inl e, d) \<Rightarrow> (Inl e, False, d)
    | (Inr kid, d) \<Rightarrow> (case reconcile_keys now kid d of
        (Inl e, d) \<Rightarrow> (Inl e, True, d)
      | (Inr _, d) \<Rightarrow> (case key_status x now d of (v, _, d) \<Rightarrow> (v, True, d))))"

section \<open>Signing and the published set\<close>

text \<open>\<open>getSigningKey\<close>: the row that signs, checked when its private key is not the one already imported.\<close>

definition signing_key_of :: "key_externals \<Rightarrow> string option \<Rightarrow> key_row \<Rightarrow> key_error + key_row" where
  "signing_key_of x imported q = (case q of (kid, r) \<Rightarrow>
     if imported = Some kid then Inr q
     else rbind (public_signing_jwk (sk_jwk r)) (\<lambda>j.
       if sk_alg r \<noteq> ALG \<or> jmember j ''kid'' \<noteq> Some (JStr kid) then Inl StateUnavailable
       else (case kx_open x (sk_private r) of
           None \<Rightarrow> Inl StateUnavailable
         | Some priv \<Rightarrow> if kx_matches x priv j then Inr q else Inl StateUnavailable)))"

definition get_signing_key :: "key_externals \<Rightarrow> int \<Rightarrow> string option \<Rightarrow> key_db \<Rightarrow> (key_error + key_row) \<times> bool \<times> key_db" where
  "get_signing_key x now imported d = (case current_key x now False d of
      (Inl e, ch, d) \<Rightarrow> (Inl e, ch, d)
    | (Inr q, ch, d) \<Rightarrow> (signing_key_of x imported q, ch, d))"

definition RETIRED_WINDOW :: int where "RETIRED_WINDOW = 24 * 60 * 60 * 1000"
definition JWKS_CACHE_MS :: int where "JWKS_CACHE_MS = 60000"

definition published :: "int \<Rightarrow> signing_key \<Rightarrow> bool" where
  "published now r = (sk_status r \<noteq> KeyRetired
     \<or> (case sk_retired_at r of None \<Rightarrow> False | Some t \<Rightarrow> t > now - RETIRED_WINDOW))"

type_synonym jwks = "(string \<times> json) list list"

definition read_jwks :: "int \<Rightarrow> key_db \<Rightarrow> key_error + jwks" where
  "read_jwks now d =
    (let rows = newest_first (filter (\<lambda>(_, r). published now r) (signing_keys d))
     in if rows = [] then Inl StateUnavailable else rmap (\<lambda>(_, r). public_signing_jwk (sk_jwk r)) rows)"

text \<open>\<open>getJwks\<close> outside a transaction, with the process's cache: the key set and when it was read.\<close>

definition get_jwks :: "int \<Rightarrow> (jwks \<times> int) option \<Rightarrow> key_db \<Rightarrow> (key_error + jwks) \<times> (jwks \<times> int) option" where
  "get_jwks now cache d =
    (case cache of
       Some (v, at) \<Rightarrow> if now - at < JWKS_CACHE_MS then (Inr v, cache)
         else (case read_jwks now d of Inl e \<Rightarrow> (Inl e, cache) | Inr v \<Rightarrow> (Inr v, Some (v, now)))
     | None \<Rightarrow> (case read_jwks now d of Inl e \<Rightarrow> (Inl e, cache) | Inr v \<Rightarrow> (Inr v, Some (v, now))))"

text \<open>The public route.\<close>

datatype jwks_answer = MethodNotAllowed | KeysServed jwks | KeysUnavailable

definition jwks_route :: "string \<Rightarrow> int \<Rightarrow> (jwks \<times> int) option \<Rightarrow> key_db \<Rightarrow> jwks_answer \<times> (jwks \<times> int) option" where
  "jwks_route verb now cache d =
    (if verb \<noteq> ''GET'' then (MethodNotAllowed, cache)
     else (case get_jwks now cache d of
         (Inr v, c) \<Rightarrow> (KeysServed v, c) | (Inl _, c) \<Rightarrow> (KeysUnavailable, c)))"

section \<open>The status document on the wire\<close>

text \<open>\<open>show_at\<close> prints an instant (\<open>toISOString\<close>) and \<open>date\<close> is \<open>Date.parse\<close>; an instant read is kept as its time.\<close>

definition json_of_instant :: "(int \<Rightarrow> string) \<Rightarrow> int option \<Rightarrow> json" where
  "json_of_instant show_at t = (case t of None \<Rightarrow> JNull | Some t \<Rightarrow> JStr (show_at t))"

definition json_of_status :: "(int \<Rightarrow> string) \<Rightarrow> key_status_doc \<Rightarrow> json" where
  "json_of_status show_at s = JObj
    [(''kid'', JStr (ks_kid s)), (''rotated_at'', json_of_instant show_at (ks_rotated_at s)),
     (''state'', JStr (if ks_rotation s = None then ''active'' else ''pending'')),
     (''rotation'', (case ks_rotation s of None \<Rightarrow> JNull
        | Some r \<Rightarrow> JObj [(''id'', JStr (kr_id r)), (''kid'', JStr (kr_kid r)),
            (''published_at'', json_of_instant show_at (kr_published_at r)),
            (''activate_after'', json_of_instant show_at (kr_activate_after r))]))]"

definition status_kid :: "json option \<Rightarrow> string option" where
  "status_kid v = (case v of
     Some (JStr k) \<Rightarrow> if 0 < length k \<and> length k \<le> 200
         \<and> list_all (\<lambda>c. let n = of_char c :: nat in 32 < n \<and> n \<noteq> 127) k then Some k else None
   | _ \<Rightarrow> None)"

definition status_instant :: "(string \<Rightarrow> int option) \<Rightarrow> json option \<Rightarrow> int option option" where
  "status_instant date v = (case v of
     Some JNull \<Rightarrow> Some None
   | Some (JStr t) \<Rightarrow> (case date t of None \<Rightarrow> None | Some i \<Rightarrow> Some (Some i))
   | _ \<Rightarrow> None)"

definition status_rotation :: "(string \<Rightarrow> int option) \<Rightarrow> string \<Rightarrow> json option \<Rightarrow> key_rotation option" where
  "status_rotation date cur v = (case v of
     Some (JObj r) \<Rightarrow> (case (jmember r ''id'', status_kid (jmember r ''kid'')) of
       (Some (JStr i), Some k) \<Rightarrow>
         if \<not> uuid_lower i \<or> k = cur then None
         else (case (status_instant date (jmember r ''published_at''), status_instant date (jmember r ''activate_after'')) of
             (Some None, Some None) \<Rightarrow> Some \<lparr>kr_id = i, kr_kid = k, kr_published_at = None, kr_activate_after = None\<rparr>
           | (Some (Some p), Some (Some a)) \<Rightarrow>
               if a - p \<ge> 300000
               then Some \<lparr>kr_id = i, kr_kid = k, kr_published_at = Some p, kr_activate_after = Some a\<rparr> else None
           | _ \<Rightarrow> None)
     | _ \<Rightarrow> None)
   | _ \<Rightarrow> None)"

text \<open>\<open>readClientKeyStatus\<close>, from the parsed body on; \<open>None\<close> is \<open>portal_key_status_invalid\<close>.\<close>

definition read_client_key_status :: "(string \<Rightarrow> int option) \<Rightarrow> json \<Rightarrow> key_status_doc option" where
  "read_client_key_status date v = (case v of
     JObj ms \<Rightarrow> (case (status_kid (jmember ms ''kid''), status_instant date (jmember ms ''rotated_at'')) of
       (Some k, Some at) \<Rightarrow>
         if jmember ms ''state'' = Some (JStr ''active'') then
           (if jmember ms ''rotation'' = Some JNull then Some \<lparr>ks_kid = k, ks_rotated_at = at, ks_rotation = None\<rparr> else None)
         else if jmember ms ''state'' = Some (JStr ''pending'') then
           (case status_rotation date k (jmember ms ''rotation'') of
              None \<Rightarrow> None | Some r \<Rightarrow> Some \<lparr>ks_kid = k, ks_rotated_at = at, ks_rotation = Some r\<rparr>)
         else None
     | _ \<Rightarrow> None)
   | _ \<Rightarrow> None)"

end
