(* ===== verification/KeyRotationProps.thy ===== *)
theory KeyRotationProps
  imports KeyRotation
begin

text \<open>
  The rotation of signing keys under any interleaving of any number of processes: a token signed now
  verifies everywhere until it expires, whatever the caches hold, and a rotation that was scheduled
  completes.  A world is the table and the key-set cache of each process; its steps are the single
  transactions and reads, at times that do not go back.
\<close>

section \<open>Worlds\<close>

record key_world =
  kw_db :: key_db
  kw_caches :: "nat \<Rightarrow> (jwks \<times> int) option"

datatype key_act = DoBootstrap | DoSchedule | DoReconcile string | DoServe | DoInvalidate

fun key_step :: "key_externals \<Rightarrow> int \<Rightarrow> nat \<Rightarrow> key_act \<Rightarrow> key_world \<Rightarrow> key_world" where
  "key_step x now p DoBootstrap w = w\<lparr>kw_db := snd (key_transaction (bootstrap_work x now) (kw_db w))\<rparr>"
| "key_step x now p DoSchedule w = w\<lparr>kw_db := snd (key_transaction (schedule_work x now) (kw_db w))\<rparr>"
| "key_step x now p (DoReconcile k) w = w\<lparr>kw_db := snd (reconcile_keys now k (kw_db w))\<rparr>"
| "key_step x now p DoServe w = w\<lparr>kw_caches := (kw_caches w)(p := snd (get_jwks now (kw_caches w p) (kw_db w)))\<rparr>"
| "key_step x now p DoInvalidate w = w\<lparr>kw_caches := (kw_caches w)(p := None)\<rparr>"

inductive key_run :: "key_externals \<Rightarrow> int \<Rightarrow> key_world \<Rightarrow> int \<Rightarrow> key_world \<Rightarrow> bool" for x where
  stay: "key_run x t w t w"
| act: "key_run x t w t' w' \<Longrightarrow> t' \<le> u \<Longrightarrow> key_run x t w u (key_step x u p a w')"
| wait: "key_run x t w t' w' \<Longrightarrow> t' \<le> u \<Longrightarrow> key_run x t w u w'"

definition new_world :: key_world where
  "new_world = \<lparr>kw_db = \<lparr>signing_keys = [], key_draws = 0\<rparr>, kw_caches = (\<lambda>_. None)\<rparr>"

lemma key_run_trans: "key_run x t' w' u v \<Longrightarrow> key_run x t w t' w' \<Longrightarrow> key_run x t w u v"
  by (induction rule: key_run.induct) (auto intro: key_run.intros)

lemma key_run_time: "key_run x t w u v \<Longrightarrow> t \<le> u"
  by (induction rule: key_run.induct) auto

section \<open>Sound tables\<close>

definition staged :: "int \<Rightarrow> signing_key \<Rightarrow> bool" where
  "staged now r = (case (sk_published_at r, sk_activate_after r) of
     (None, None) \<Rightarrow> True
   | (Some p, Some a) \<Rightarrow> a = p + 300000 \<and> p \<le> now \<and> (sk_status r = KeyNext \<or> a \<le> now)
   | _ \<Rightarrow> False)"

definition stage_ok :: "int \<Rightarrow> signing_key \<Rightarrow> bool" where
  "stage_ok now r = (case sk_status r of
     KeyNext \<Rightarrow> (case sk_rotation_id r of None \<Rightarrow> False | Some i \<Rightarrow> uuid_lower i) \<and> sk_activated_at r = None \<and> sk_retired_at r = None
   | KeyCurrent \<Rightarrow> sk_retired_at r = None
   | KeyRetired \<Rightarrow> (case sk_retired_at r of None \<Rightarrow> False | Some t \<Rightarrow> t \<le> now))"

definition key_sound :: "int \<Rightarrow> string \<Rightarrow> signing_key \<Rightarrow> bool" where
  "key_sound now k r = (jmember (sk_jwk r) ''kid'' = Some (JStr k) \<and> (\<exists>j. public_signing_jwk (sk_jwk r) = Inr j)
     \<and> staged now r \<and> stage_ok now r)"

definition keys_ok :: "int \<Rightarrow> key_db \<Rightarrow> bool" where
  "keys_ok now d = (pk (signing_keys d)
     \<and> (\<forall>k r. tget (signing_keys d) k = Some r \<longrightarrow> key_sound now k r)
     \<and> (\<forall>k k' r r'. tget (signing_keys d) k = Some r \<longrightarrow> tget (signing_keys d) k' = Some r' \<longrightarrow>
          sk_status r = sk_status r' \<longrightarrow> sk_status r \<noteq> KeyRetired \<longrightarrow> k = k')
     \<and> (signing_keys d = [] \<or> (\<exists>k r. tget (signing_keys d) k = Some r \<and> sk_status r = KeyCurrent)))"

lemma staged_later: "staged t r \<Longrightarrow> t \<le> u \<Longrightarrow> staged u r"
  by (auto simp: staged_def split: option.splits)

lemma stage_ok_later: "stage_ok t r \<Longrightarrow> t \<le> u \<Longrightarrow> stage_ok u r"
  by (auto simp: stage_ok_def split: key_stage.splits option.splits)

lemma keys_ok_later: "keys_ok t d \<Longrightarrow> t \<le> u \<Longrightarrow> keys_ok u d"
  unfolding keys_ok_def key_sound_def using staged_later stage_ok_later by blast

lemma kid_nonempty: "key_sound now k r \<Longrightarrow> k \<noteq> []"
  by (auto simp: key_sound_def public_signing_jwk_def base64url_def split: if_splits)

lemma uuid_nonempty: "uuid_lower i \<Longrightarrow> i \<noteq> []"
  by (auto simp: uuid_lower_def)

lemma sound_row_ok: "key_sound now k r \<Longrightarrow> key_row_ok (k, r)"
  using kid_nonempty [of now k r]
  by (auto simp: key_sound_def staged_def stage_ok_def key_row_ok_def PREPUBLICATION_def dest: uuid_nonempty
    split: option.splits key_stage.splits)

lemma same_key_short:
  assumes "pk t" and "\<And>k k' r r'. (k, r) \<in> set t \<Longrightarrow> (k', r') \<in> set t \<Longrightarrow> P r \<Longrightarrow> P r' \<Longrightarrow> k = k'"
  shows "length (filter (\<lambda>(_, r). P r) t) \<le> 1"
proof -
  let ?f = "filter (\<lambda>(_, r). P r) t"
  have d: "distinct (map fst ?f)" using assms(1) pk_tfilter [of t "\<lambda>_. P"] by (simp add: pk_def tkeys_def tfilter_def)
  have "\<forall>k \<in> set (map fst ?f). \<forall>k' \<in> set (map fst ?f). k = k'" using assms(2) by fastforce
  then have "card (set (map fst ?f)) \<le> 1" by (metis card_le_Suc0_iff_eq finite_set One_nat_def)
  then show ?thesis using distinct_card [OF d] by simp
qed

lemma set_newest: "set (newest_first t) = set t"
  by (simp add: newest_first_def)

lemma length_newest: "length (filter P (newest_first t)) = length (filter P t)"
proof -
  have "mset (newest_first t) = mset t" by (simp add: newest_first_def)
  then have "mset (filter P (newest_first t)) = mset (filter P t)" by simp
  then show ?thesis by (metis size_mset)
qed

lemma find_unique:
  assumes "q \<in> set t" "P q" "\<And>q'. q' \<in> set t \<Longrightarrow> P q' \<Longrightarrow> q' = q"
  shows "find P t = Some q"
proof (cases "find P t")
  case None
  then show ?thesis using assms(1,2) by (simp add: find_None_iff)
next
  case (Some q')
  then have "q' \<in> set t" "P q'" by (auto simp: find_Some_iff)
  then show ?thesis using assms(3) Some by simp
qed

definition live_keys :: "key_db \<Rightarrow> key_row list" where
  "live_keys d = newest_first (filter (\<lambda>(_, r). sk_status r \<noteq> KeyRetired) (signing_keys d))"

lemma key_rows_sound:
  assumes "keys_ok now d"
  shows "key_rows d = Inr (live_keys d)"
proof -
  let ?t = "signing_keys d"
  have pk: "pk ?t" and uniq: "\<And>k k' r r'. (k, r) \<in> set ?t \<Longrightarrow> (k', r') \<in> set ?t \<Longrightarrow> sk_status r = sk_status r' \<Longrightarrow>
      sk_status r \<noteq> KeyRetired \<Longrightarrow> k = k'"
    using assms unfolding keys_ok_def by (blast, metis tget_in_set)
  have ok: "\<forall>q \<in> set ?t. key_row_ok q"
    using assms sound_row_ok unfolding keys_ok_def by (metis surj_pair tget_in_set)
  have one: "length (filter (\<lambda>(_, r). sk_status r = st) ?t) \<le> 1" if "st \<noteq> KeyRetired" for st
    by (rule same_key_short [OF pk]) (use uniq that in auto)
  have len: "length (with_status st (live_keys d)) = length (filter (\<lambda>(_, r). sk_status r = st) ?t)" if "st \<noteq> KeyRetired" for st
  proof -
    have "filter (\<lambda>(_, r). sk_status r = st) (filter (\<lambda>(_, r). sk_status r \<noteq> KeyRetired) ?t) = filter (\<lambda>(_, r). sk_status r = st) ?t"
      using that by (auto intro!: filter_cong)
    then show ?thesis by (simp add: with_status_def live_keys_def length_newest)
  qed
  have "length (live_keys d) = length (with_status KeyCurrent (live_keys d)) + length (with_status KeyNext (live_keys d))"
  proof -
    have "length (filter (\<lambda>(_, r). sk_status r \<noteq> KeyRetired) t)
        = length (filter (\<lambda>(_, r). sk_status r = KeyCurrent) t) + length (filter (\<lambda>(_, r). sk_status r = KeyNext) t)" for t :: "key_row list"
      by (induction t) (auto split: key_stage.split, (metis key_stage.exhaust)+)
    then show ?thesis by (simp add: len) (simp add: live_keys_def newest_first_def)
  qed
  moreover have "list_all key_row_ok (live_keys d)" using ok by (auto simp: live_keys_def list_all_iff set_newest)
  ultimately show ?thesis using one [of KeyCurrent] one [of KeyNext] len
    by (simp add: key_rows_def Let_def live_keys_def [symmetric])
qed

lemma first_with_sound:
  assumes "keys_ok now d" and "st \<noteq> KeyRetired"
  shows "first_with st (live_keys d) = Some (k, r) \<longleftrightarrow> tget (signing_keys d) k = Some r \<and> sk_status r = st"
proof -
  let ?t = "signing_keys d"
  have pk: "pk ?t" using assms(1) by (simp add: keys_ok_def)
  have mem: "q \<in> set (live_keys d) \<longleftrightarrow> q \<in> set ?t \<and> sk_status (snd q) \<noteq> KeyRetired" for q
    by (auto simp: live_keys_def set_newest)
  show ?thesis
  proof
    assume "first_with st (live_keys d) = Some (k, r)"
    then have "(k, r) \<in> set (live_keys d) \<and> sk_status r = st" by (auto simp: first_with_def find_Some_iff in_set_conv_nth)
    then show "tget ?t k = Some r \<and> sk_status r = st" using mem by (simp add: tget_in_set [OF pk])
  next
    assume kr: "tget ?t k = Some r \<and> sk_status r = st"
    show "first_with st (live_keys d) = Some (k, r)"
      unfolding first_with_def
    proof (rule find_unique)
      show "(k, r) \<in> set (live_keys d)" using kr assms(2) mem by (simp add: tget_in_set [OF pk])
      show "case (k, r) of (_, r) \<Rightarrow> sk_status r = st" using kr by simp
      fix q' assume "q' \<in> set (live_keys d)" "case q' of (_, r) \<Rightarrow> sk_status r = st"
      then obtain k' r' where "q' = (k', r')" "tget ?t k' = Some r'" "sk_status r' = st"
        using mem by (cases q') (auto simp: tget_in_set [OF pk])
      then show "q' = (k, r)" using kr assms unfolding keys_ok_def by (metis option.inject)
    qed
  qed
qed



section \<open>The transactions keep the table sound\<close>

definition ages :: "int \<Rightarrow> signing_key \<Rightarrow> signing_key \<Rightarrow> bool" where
  "ages t r r' = (sk_jwk r' = sk_jwk r \<and> sk_private r' = sk_private r \<and> sk_alg r' = sk_alg r
     \<and> (sk_status r \<noteq> KeyNext \<longrightarrow> sk_status r' \<noteq> KeyNext \<and> sk_published_at r' = sk_published_at r)
     \<and> (sk_published_at r \<noteq> None \<longrightarrow> sk_published_at r' = sk_published_at r)
     \<and> (sk_published_at r' \<noteq> sk_published_at r \<longrightarrow> (case sk_published_at r' of None \<Rightarrow> False | Some p \<Rightarrow> t \<le> p))
     \<and> (sk_status r = KeyRetired \<longrightarrow> r' = r) \<and> (sk_status r' = KeyNext \<longrightarrow> sk_status r = KeyNext)
     \<and> (sk_status r = KeyNext \<and> sk_status r' \<noteq> KeyNext \<longrightarrow> sk_published_at r \<noteq> None)
     \<and> (sk_retired_at r' \<noteq> sk_retired_at r \<longrightarrow> sk_retired_at r = None \<and> (case sk_retired_at r' of None \<Rightarrow> False | Some q \<Rightarrow> t \<le> q)))"

lemma ages_refl: "ages t r r"
  by (simp add: ages_def)

text \<open>A transaction at \<open>now\<close> only ages the keys it finds, and adds an unpublished key or the very first one.\<close>

definition advances :: "int \<Rightarrow> key_db \<Rightarrow> key_db \<Rightarrow> bool" where
  "advances now d d' = ((\<forall>k r. tget (signing_keys d) k = Some r \<longrightarrow> (\<exists>r'. tget (signing_keys d') k = Some r' \<and> ages now r r'))
     \<and> (\<forall>k r'. tget (signing_keys d') k = Some r' \<longrightarrow> tget (signing_keys d) k = None \<longrightarrow>
          sk_status r' = KeyNext \<and> sk_published_at r' = None \<or> signing_keys d = [])
     \<and> (signing_keys d \<noteq> [] \<longrightarrow> signing_keys d' \<noteq> []))"

lemma advances_same: "signing_keys d' = signing_keys d \<Longrightarrow> advances now d d'"
  using ages_refl by (auto simp: advances_def)

lemma keys_ok_same: "signing_keys d' = signing_keys d \<Longrightarrow> keys_ok now d \<Longrightarrow> keys_ok now d'"
  by (simp add: keys_ok_def)

lemma material_sound:
  assumes "generate_material x n = Inr m"
  shows "jmember (km_jwk m) ''kid'' = Some (JStr (km_kid m)) \<and> (\<exists>j. public_signing_jwk (km_jwk m) = Inr j)"
proof -
  have member: "jmember (tput k v ms) j = (if j = k then Some v else jmember ms j)" for k v ms j
    using tget_tput [of k v ms j] by (simp add: tget_def jmember_def)
  show ?thesis using assms by (auto simp: generate_material_def Let_def case_prod_beta res_simps member split: if_splits)
qed

lemma with_status_none: "with_status st t = [] \<Longrightarrow> (k, r) \<in> set t \<Longrightarrow> sk_status r \<noteq> st"
  by (force simp: with_status_def filter_empty_conv)

lemma insert_sound:
  assumes ok: "keys_ok now d" and ins: "insert_key kid r d = Inr d'" and new: "key_sound now kid r"
    and st: "sk_status r = KeyNext \<and> sk_published_at r = None \<and> signing_keys d \<noteq> [] \<or> sk_status r = KeyCurrent \<and> signing_keys d = []"
  shows "keys_ok now d' \<and> advances now d d'"
proof -
  let ?t = "signing_keys d"
  have d': "signing_keys d' = tput kid r ?t" and fresh: "tget ?t kid = None" and "sk_status r \<noteq> KeyRetired \<Longrightarrow> with_status (sk_status r) ?t = []"
    using ins by (auto simp: insert_key_def split: if_splits)
  have pk: "pk ?t" using ok by (simp add: keys_ok_def)
  have other: "sk_status r' \<noteq> sk_status r" if "tget ?t k = Some r'" for k r'
    using with_status_none [of "sk_status r" ?t k r'] st \<open>sk_status r \<noteq> KeyRetired \<Longrightarrow> with_status (sk_status r) ?t = []\<close> that
    by (auto simp: tget_in_set [OF pk])
  have cur: "\<exists>k r'. tget (tput kid r ?t) k = Some r' \<and> sk_status r' = KeyCurrent"
  proof (cases "?t = []")
    case True
    then show ?thesis using st by (auto simp: tget_tput)
  next
    case False
    then obtain k r' where "tget ?t k = Some r'" "sk_status r' = KeyCurrent" using ok by (auto simp: keys_ok_def)
    then show ?thesis using fresh by (metis option.distinct(1) tget_tput)
  qed
  have "keys_ok now d'"
    unfolding keys_ok_def d'
  proof (intro conjI allI impI)
    show "pk (tput kid r ?t)" using pk by (rule pk_tput)
    show "key_sound now k r'" if "tget (tput kid r ?t) k = Some r'" for k r'
      using that new ok by (auto simp: tget_tput keys_ok_def split: if_splits)
    show "k = k'" if "tget (tput kid r ?t) k = Some ra" "tget (tput kid r ?t) k' = Some rb" "sk_status ra = sk_status rb" "sk_status ra \<noteq> KeyRetired" for k k' ra rb
      using that other ok unfolding keys_ok_def tget_tput by (metis option.inject)
    show "tput kid r ?t = [] \<or> (\<exists>k r'. tget (tput kid r ?t) k = Some r' \<and> sk_status r' = KeyCurrent)" using cur by blast
  qed
  moreover have "advances now d d'"
  proof -
    have "tput kid r ?t \<noteq> []" using cur by (auto simp: tget_def)
    then show ?thesis using fresh st ages_refl by (auto simp: advances_def d' tget_tput)
  qed
  ultimately show ?thesis by blast
qed

lemma new_key_sound:
  assumes "generate_material x n = Inr m" and "st = KeyCurrent \<and> rot = None \<or> st = KeyNext \<and> act = None \<and> (\<exists>i. rot = Some i \<and> uuid_lower i)"
  shows "key_sound now (km_kid m) (key_of_material m st now act rot)"
  using material_sound [OF assms(1)] assms(2) by (auto simp: key_sound_def key_of_material_def staged_def stage_ok_def)

lemma draws_ok: "keys_ok now (d\<lparr>key_draws := n\<rparr>) = keys_ok now d"
  by (simp add: keys_ok_def)

lemma bootstrap_sound:
  assumes "keys_ok now d" and "bootstrap x now (live_keys d) d = Inr d'"
  shows "keys_ok now d' \<and> advances now d d' \<and> signing_keys d' \<noteq> [] \<and> (signing_keys d \<noteq> [] \<longrightarrow> d' = d)"
proof (cases "first_with KeyCurrent (live_keys d)")
  case (Some q)
  then have "signing_keys d \<noteq> []" by (auto simp: live_keys_def first_with_def newest_first_def)
  then show ?thesis using assms Some advances_same [of d d] by (simp add: bootstrap_def)
next
  case None
  then obtain m where empty: "signing_keys d = []" and m: "generate_material x (key_draws d) = Inr m"
    and ins: "insert_key (km_kid m) (key_of_material m KeyCurrent now (Some now) None) (d\<lparr>key_draws := Suc (key_draws d)\<rparr>) = Inr d'"
    using assms(2) by (auto simp: bootstrap_def res_simps split: if_splits)
  have "key_sound now (km_kid m) (key_of_material m KeyCurrent now (Some now) None)" by (rule new_key_sound [OF m]) simp
  then have "keys_ok now d' \<and> advances now (d\<lparr>key_draws := Suc (key_draws d)\<rparr>) d'"
    using insert_sound [OF _ ins] assms(1) empty by (simp add: draws_ok key_of_material_def)
  moreover have "signing_keys d' \<noteq> []" using ins by (auto simp: insert_key_def tput_def split: if_splits)
  ultimately show ?thesis using empty by (simp add: advances_def)
qed

lemma advances_trans:
  assumes "advances now d d'" "advances now d' d''" "signing_keys d \<noteq> [] \<longrightarrow> d' = d" "signing_keys d' \<noteq> []"
  shows "advances now d d''"
proof (cases "signing_keys d = []")
  case True
  then show ?thesis using assms by (simp add: advances_def tget_def)
next
  case False
  then show ?thesis using assms by simp
qed

lemma schedule_sound:
  assumes "keys_ok now d" and "schedule_work x now d = Inr (kid, d')"
  shows "keys_ok now d' \<and> advances now d d' \<and> signing_keys d' \<noteq> []"
proof -
  obtain d1 where b: "bootstrap x now (live_keys d) d = Inr d1"
    using assms by (auto simp: schedule_work_def res_simps key_rows_sound)
  have d1: "keys_ok now d1" "advances now d d1" "signing_keys d1 \<noteq> []" "signing_keys d \<noteq> [] \<longrightarrow> d1 = d"
    using bootstrap_sound [OF assms(1) b] by auto
  show ?thesis
  proof (cases "first_with KeyNext (live_keys d)")
    case (Some q)
    then have "d' = d1" using assms b by (auto simp: schedule_work_def key_rows_sound split: prod.splits)
    then show ?thesis using d1 by simp
  next
    case None
    define rot where "rot = lower (kx_uuid x (key_draws d1))"
    obtain m where m: "generate_material x (key_draws d1) = Inr m"
      and ins: "insert_key (km_kid m) (key_of_material m KeyNext now None (Some rot)) (d1\<lparr>key_draws := Suc (key_draws d1)\<rparr>) = Inr d'"
      using assms b None by (auto simp: schedule_work_def res_simps key_rows_sound rot_def)
    have "uuid_lower rot" using ins by (auto simp: insert_key_def key_of_material_def is_uuid_def rot_def split: if_splits)
    then have "key_sound now (km_kid m) (key_of_material m KeyNext now None (Some rot))" by (intro new_key_sound [OF m]) simp
    then have "keys_ok now d' \<and> advances now (d1\<lparr>key_draws := Suc (key_draws d1)\<rparr>) d'"
      using insert_sound [OF _ ins] d1 by (simp add: draws_ok key_of_material_def)
    then have "keys_ok now d'" "advances now d1 d'" by (simp_all add: advances_def)
    moreover have "signing_keys d' \<noteq> []" using \<open>advances now d1 d'\<close> d1(3) by (simp add: advances_def)
    ultimately show ?thesis using advances_trans [OF d1(2) _ d1(4,3)] by blast
  qed
qed

text \<open>Rewriting rows in place.\<close>

lemma rewrite_sound:
  assumes ok: "keys_ok now d" and t: "\<And>k. tget t' k = map_option (g k) (tget (signing_keys d) k)" and pk: "pk t'"
    and sound: "\<And>k r. tget (signing_keys d) k = Some r \<Longrightarrow> key_sound now k (g k r) \<and> ages now r (g k r)"
    and same: "\<And>k k' r r'. tget (signing_keys d) k = Some r \<Longrightarrow> tget (signing_keys d) k' = Some r' \<Longrightarrow>
      sk_status (g k r) = sk_status (g k' r') \<Longrightarrow> sk_status (g k r) \<noteq> KeyRetired \<Longrightarrow> k = k'"
    and cur: "tget (signing_keys d) c = Some r0" "sk_status (g c r0) = KeyCurrent"
  shows "keys_ok now (d\<lparr>signing_keys := t'\<rparr>) \<and> advances now d (d\<lparr>signing_keys := t'\<rparr>)"
proof -
  have orig: "\<exists>r0. tget (signing_keys d) k = Some r0 \<and> r = g k r0" if "tget t' k = Some r" for k r
    using that t [of k] by (cases "tget (signing_keys d) k") auto
  have c: "tget t' c = Some (g c r0)" using t [of c] cur(1) by simp
  have "keys_ok now (d\<lparr>signing_keys := t'\<rparr>)"
    unfolding keys_ok_def
  proof (intro conjI allI impI)
    show "pk (signing_keys (d\<lparr>signing_keys := t'\<rparr>))" using pk by simp
    show "key_sound now k r" if "tget (signing_keys (d\<lparr>signing_keys := t'\<rparr>)) k = Some r" for k r
      using that orig sound by auto
    show "k = k'" if h: "tget (signing_keys (d\<lparr>signing_keys := t'\<rparr>)) k = Some r" "tget (signing_keys (d\<lparr>signing_keys := t'\<rparr>)) k' = Some r'"
      "sk_status r = sk_status r'" "sk_status r \<noteq> KeyRetired" for k k' r r'
    proof -
      obtain q q' where "tget (signing_keys d) k = Some q" "r = g k q" "tget (signing_keys d) k' = Some q'" "r' = g k' q'"
        using h(1,2) orig [of k r] orig [of k' r'] by auto
      then show ?thesis using h(3,4) same by blast
    qed
    show "signing_keys (d\<lparr>signing_keys := t'\<rparr>) = [] \<or>
      (\<exists>k r. tget (signing_keys (d\<lparr>signing_keys := t'\<rparr>)) k = Some r \<and> sk_status r = KeyCurrent)" using c cur(2) by auto
  qed
  moreover have "t' \<noteq> []" using c by (auto simp: tget_def)
  then have "advances now d (d\<lparr>signing_keys := t'\<rparr>)" using t sound by (auto simp: advances_def)
  ultimately show ?thesis by blast
qed

lemma publish_sound:
  assumes ok: "keys_ok now d" and c: "tget (signing_keys d) cur = Some c" "sk_status c = KeyCurrent"
  shows "keys_ok now (publish_key now kid d) \<and> advances now d (publish_key now kid d)"
proof -
  define g where "g k r = (if k = kid \<and> sk_status r = KeyNext \<and> sk_published_at r = None
     then r\<lparr>sk_published_at := Some now, sk_activate_after := Some (now + PREPUBLICATION * 1000)\<rparr> else r)" for k and r :: signing_key
  have st: "sk_status (g k r) = sk_status r" for k r by (simp add: g_def)
  have d': "publish_key now kid d = d\<lparr>signing_keys := tmap g (signing_keys d)\<rparr>"
    by (simp add: publish_key_def g_def [abs_def])
  show ?thesis unfolding d'
  proof (rule rewrite_sound [OF ok])
    show "tget (tmap g (signing_keys d)) k = map_option (g k) (tget (signing_keys d) k)" for k by (rule tget_tmap)
    show "pk (tmap g (signing_keys d))" using ok by (simp add: tbl_wf keys_ok_def)
    show "key_sound now k (g k r) \<and> ages now r (g k r)" if "tget (signing_keys d) k = Some r" for k r
    proof -
      have "key_sound now k r" using ok that by (simp add: keys_ok_def)
      then have "key_sound now k (g k r)"
        by (auto simp: g_def key_sound_def staged_def stage_ok_def PREPUBLICATION_def split: option.splits)
      moreover have "ages now r (g k r)" by (simp add: ages_def g_def)
      ultimately show ?thesis by blast
    qed
    show "k = k'" if "tget (signing_keys d) k = Some r" "tget (signing_keys d) k' = Some r'" "sk_status (g k r) = sk_status (g k' r')"
      "sk_status (g k r) \<noteq> KeyRetired" for k k' r r'
      using that ok unfolding st keys_ok_def by blast
    show "tget (signing_keys d) cur = Some c" "sk_status (g cur c) = KeyCurrent" using c by (simp_all add: st)
  qed
qed

lemma rotate_sound:
  assumes ok: "keys_ok now d" and cur: "tget (signing_keys d) cur = Some c" "sk_status c = KeyCurrent"
    and n: "tget (signing_keys d) kid = Some n" "sk_status n = KeyNext" "sk_activate_after n = Some a" "a \<le> now"
  shows "keys_ok now (activate_key now kid (retire_key now cur d)) \<and> advances now d (activate_key now kid (retire_key now cur d))"
proof -
  let ?t = "signing_keys d"
  define t' where "t' = signing_keys (activate_key now kid (retire_key now cur d))"
  define g where "g k r = (if k = cur then r\<lparr>sk_status := KeyRetired, sk_retired_at := Some now\<rparr>
     else if k = kid then r\<lparr>sk_status := KeyCurrent, sk_activated_at := Some now\<rparr> else r)" for k and r :: signing_key
  have diff: "cur \<noteq> kid" using cur n by auto
  have uniq: "k = cur" if "tget ?t k = Some r" "sk_status r = KeyCurrent" for k r
    using ok cur that unfolding keys_ok_def by (metis key_stage.distinct(3))
  have uniq': "k = kid" if "tget ?t k = Some r" "sk_status r = KeyNext" for k r
    using ok n that unfolding keys_ok_def by (metis key_stage.distinct(5))
  have d': "activate_key now kid (retire_key now cur d) = d\<lparr>signing_keys := t'\<rparr>" by (simp add: t'_def activate_key_def retire_key_def)
  have "key_sound now kid n" using ok n(1) by (simp add: keys_ok_def)
  then have key: "staged now n" by (simp add: key_sound_def)
  then have key': "sk_published_at n \<noteq> None" using n(3) by (auto simp: staged_def split: option.splits)
  show ?thesis
    unfolding d'
  proof (rule rewrite_sound [OF ok])
    show "tget t' k = map_option (g k) (tget ?t k)" for k
      using cur n diff by (cases "tget ?t k") (auto simp: t'_def activate_key_def retire_key_def tbl_simps g_def)
    show "pk t'" using ok by (simp add: t'_def activate_key_def retire_key_def tbl_wf keys_ok_def)
    show "key_sound now k (g k r) \<and> ages now r (g k r)" if kr: "tget ?t k = Some r" for k r
    proof -
      have s: "key_sound now k r" using ok kr by (simp add: keys_ok_def)
      consider (old) "k = cur" "r = c" | (new) "k = kid" "r = n" "k \<noteq> cur" | (other) "k \<noteq> cur" "k \<noteq> kid" using kr cur n by fastforce
      then show ?thesis
      proof cases
        case old
        then show ?thesis using s cur(2)
          by (auto simp: g_def key_sound_def staged_def stage_ok_def ages_def split: option.splits)
      next
        case new
        then show ?thesis using s n key key' diff
          by (auto simp: g_def key_sound_def staged_def stage_ok_def ages_def split: option.splits)
      next
        case other
        then show ?thesis using s ages_refl by (simp add: g_def)
      qed
    qed
    show "k = k'" if "tget ?t k = Some r" "tget ?t k' = Some r'" "sk_status (g k r) = sk_status (g k' r')" "sk_status (g k r) \<noteq> KeyRetired" for k k' r r'
    proof -
      have "k \<noteq> cur" "k' \<noteq> cur" using that(3,4) by (auto simp: g_def)
      moreover have "k = kid" if "tget ?t k = Some r" "k \<noteq> cur" "sk_status (g k r) \<noteq> KeyRetired" for k r
        using that uniq uniq' by (cases "sk_status r") (auto simp: g_def split: if_splits)
      ultimately show ?thesis using \<open>tget ?t k = Some r\<close> \<open>tget ?t k' = Some r'\<close> that(3,4) by metis
    qed
    show "tget ?t kid = Some n" "sk_status (g kid n) = KeyCurrent" using n(1) diff by (simp_all add: g_def)
  qed
qed

lemma reconcile_sound:
  assumes "keys_ok now d" and "reconcile_work now kid d = Inr (b, d')"
  shows "keys_ok now d' \<and> advances now d d'"
proof -
  obtain cur c where cur: "first_with KeyCurrent (live_keys d) = Some (cur, c)"
    using assms by (auto simp: reconcile_work_def res_simps key_rows_sound split: option.splits)
  have c: "tget (signing_keys d) cur = Some c" "sk_status c = KeyCurrent"
    using cur first_with_sound [OF assms(1), of KeyCurrent] by auto
  show ?thesis
  proof (cases "first_with KeyNext (live_keys d)")
    case None
    then show ?thesis using assms cur advances_same [of d d] by (auto simp: reconcile_work_def key_rows_sound)
  next
    case (Some q)
    obtain k n where q: "q = (k, n)" by (cases q)
    have n: "tget (signing_keys d) k = Some n" "sk_status n = KeyNext"
      using Some q first_with_sound [OF assms(1), of KeyNext] by auto
    show ?thesis
      using assms cur Some q advances_same [of d d] publish_sound [OF assms(1) c, of k] rotate_sound [OF assms(1) c n]
      by (auto simp: reconcile_work_def key_rows_sound split: if_splits option.splits)
  qed
qed


section \<open>The caches\<close>

text \<open>A key a cache read at \<open>at\<close> must hold: published before, and not retired for a day.\<close>

definition seen :: "int \<Rightarrow> signing_key \<Rightarrow> bool" where
  "seen at r = ((case sk_published_at r of None \<Rightarrow> sk_status r \<noteq> KeyNext | Some p \<Rightarrow> p < at)
     \<and> (case sk_retired_at r of None \<Rightarrow> True | Some q \<Rightarrow> at - RETIRED_WINDOW < q))"

definition holds :: "signing_key \<Rightarrow> jwks \<Rightarrow> bool" where
  "holds r v = (case public_signing_jwk (sk_jwk r) of Inl _ \<Rightarrow> False | Inr j \<Rightarrow> j \<in> set v)"

definition cache_ok :: "int \<Rightarrow> key_db \<Rightarrow> (jwks \<times> int) option \<Rightarrow> bool" where
  "cache_ok now d c = (case c of None \<Rightarrow> True
     | Some (v, at) \<Rightarrow> at \<le> now \<and> signing_keys d \<noteq> []
         \<and> (\<forall>k r. tget (signing_keys d) k = Some r \<longrightarrow> seen at r \<longrightarrow> holds r v))"

definition world_ok :: "int \<Rightarrow> key_world \<Rightarrow> bool" where
  "world_ok now w = (keys_ok now (kw_db w) \<and> (\<forall>p. cache_ok now (kw_db w) (kw_caches w p)))"

lemma world_ok_later: "world_ok t w \<Longrightarrow> t \<le> u \<Longrightarrow> world_ok u w"
  using keys_ok_later by (fastforce simp: world_ok_def cache_ok_def split: option.splits)

text \<open>What a cache holds stays complete while the table advances.\<close>

lemma seen_back:
  assumes age: "ages now r r'" and "at \<le> now" and s: "seen at r'"
  shows "seen at r"
proof -
  have "case sk_retired_at r of None \<Rightarrow> True | Some q \<Rightarrow> at - RETIRED_WINDOW < q"
  proof (cases "sk_retired_at r' = sk_retired_at r")
    case True
    then show ?thesis using s by (simp add: seen_def)
  next
    case False
    then have "sk_retired_at r = None" using age unfolding ages_def by blast
    then show ?thesis by simp
  qed
  moreover have "case sk_published_at r of None \<Rightarrow> sk_status r \<noteq> KeyNext | Some p \<Rightarrow> p < at"
  proof (cases "sk_published_at r")
    case None
    have "sk_published_at r' = None"
    proof (rule ccontr)
      assume "sk_published_at r' \<noteq> None"
      then obtain p where "sk_published_at r' = Some p" by auto
      moreover from this have "now \<le> p" using age None unfolding ages_def by (metis option.distinct(1) option.simps(5))
      ultimately show False using s assms(2) by (simp add: seen_def)
    qed
    then have "sk_status r' \<noteq> KeyNext" using s by (simp add: seen_def)
    then show ?thesis using age None unfolding ages_def by fastforce
  next
    case (Some p)
    then have "sk_published_at r' = Some p" using age unfolding ages_def by fastforce
    then show ?thesis using s Some by (simp add: seen_def)
  qed
  ultimately show ?thesis by (simp add: seen_def)
qed

lemma cache_advances:
  assumes "cache_ok now d c" "advances now d d'"
  shows "cache_ok now d' c"
proof (cases c)
  case None
  then show ?thesis by (simp add: cache_ok_def)
next
  case (Some va)
  obtain v at where c: "c = Some (v, at)" using Some by (cases va) auto
  have d: "at \<le> now" "signing_keys d \<noteq> []" and h: "\<And>k r. tget (signing_keys d) k = Some r \<Longrightarrow> seen at r \<Longrightarrow> holds r v"
    using assms(1) c by (auto simp: cache_ok_def)
  have "holds r' v" if r': "tget (signing_keys d') k = Some r'" "seen at r'" for k r'
  proof (cases "tget (signing_keys d) k")
    case None
    then have "sk_status r' = KeyNext \<and> sk_published_at r' = None" using assms(2) r' d(2) unfolding advances_def by blast
    then show ?thesis using r'(2) by (simp add: seen_def)
  next
    case (Some r)
    obtain q where "tget (signing_keys d') k = Some q" "ages now r q" using assms(2) Some unfolding advances_def by blast
    then have age: "ages now r r'" using r'(1) by simp
    then have "holds r v" using seen_back [OF age d(1) r'(2)] h [OF Some] by blast
    moreover have "sk_jwk r' = sk_jwk r" using age unfolding ages_def by blast
    ultimately show ?thesis by (simp add: holds_def)
  qed
  then show ?thesis using assms(2) d c by (auto simp: cache_ok_def advances_def)
qed

lemma transaction_sound:
  assumes "keys_ok now d" and "\<And>a d'. work d = Inr (a, d') \<Longrightarrow> keys_ok now d' \<and> advances now d d'"
  shows "keys_ok now (snd (key_transaction work d)) \<and> advances now d (snd (key_transaction work d))"
  using assms keys_ok_same [of "d\<lparr>key_draws := key_draws d + 3\<rparr>" d now] advances_same [of "d\<lparr>key_draws := key_draws d + 3\<rparr>" d now]
  by (auto simp: key_transaction_def split: sum.splits)

lemma bootstrap_transaction: "keys_ok now d \<Longrightarrow> keys_ok now (snd (key_transaction (bootstrap_work x now) d))
    \<and> advances now d (snd (key_transaction (bootstrap_work x now) d))"
  by (rule transaction_sound) (auto simp: bootstrap_work_def res_simps key_rows_sound dest: bootstrap_sound)

lemma schedule_transaction: "keys_ok now d \<Longrightarrow> keys_ok now (snd (key_transaction (schedule_work x now) d))
    \<and> advances now d (snd (key_transaction (schedule_work x now) d))"
  by (rule transaction_sound) (auto dest: schedule_sound)

lemma reconcile_transaction: "keys_ok now d \<Longrightarrow> keys_ok now (snd (reconcile_keys now k d))
    \<and> advances now d (snd (reconcile_keys now k d))"
  unfolding reconcile_keys_def by (rule transaction_sound) (auto dest: reconcile_sound)

text \<open>A fresh read of the key set has every key that is published.\<close>

lemma rmap_total: "(\<And>q. q \<in> set qs \<Longrightarrow> \<exists>y. f q = Inr y) \<Longrightarrow> \<exists>ys. rmap f qs = Inr ys \<and> (\<forall>q \<in> set qs. \<forall>y. f q = Inr y \<longrightarrow> y \<in> set ys)"
proof (induction qs)
  case (Cons q qs)
  then obtain ys where "rmap f qs = Inr ys \<and> (\<forall>q \<in> set qs. \<forall>y. f q = Inr y \<longrightarrow> y \<in> set ys)" by auto
  moreover obtain y where "f q = Inr y" using Cons.prems [of q] by auto
  ultimately show ?case by auto
qed simp

lemma read_jwks_sound:
  assumes ok: "keys_ok now d" and ne: "signing_keys d \<noteq> []"
  shows "\<exists>v. read_jwks now d = Inr v \<and> (\<forall>k r. tget (signing_keys d) k = Some r \<longrightarrow> published now r \<longrightarrow> holds r v)"
proof -
  let ?t = "signing_keys d"
  define rows where "rows = newest_first (filter (\<lambda>(_, r). published now r) ?t)"
  have pk: "pk ?t" using ok by (simp add: keys_ok_def)
  have mem: "(k, r) \<in> set rows \<longleftrightarrow> tget ?t k = Some r \<and> published now r" for k r
    by (auto simp: rows_def set_newest tget_in_set [OF pk])
  obtain c r0 where "tget ?t c = Some r0" "sk_status r0 = KeyCurrent" using ok ne by (auto simp: keys_ok_def)
  then have "(c, r0) \<in> set rows" by (simp add: mem published_def)
  then have rows: "rows \<noteq> []" by auto
  have good: "\<exists>y. (\<lambda>(_, r). public_signing_jwk (sk_jwk r)) q = Inr y" if "q \<in> set rows" for q
    using that mem [of "fst q" "snd q"] ok by (auto simp: keys_ok_def key_sound_def case_prod_beta)
  obtain v where v: "rmap (\<lambda>(_, r). public_signing_jwk (sk_jwk r)) rows = Inr v"
    "\<forall>q \<in> set rows. \<forall>y. (\<lambda>(_, r). public_signing_jwk (sk_jwk r)) q = Inr y \<longrightarrow> y \<in> set v"
    using rmap_total [of rows "\<lambda>(_, r). public_signing_jwk (sk_jwk r)"] good by blast
  have "holds r v" if "tget ?t k = Some r" "published now r" for k r
    using v(2) that mem [of k r] good [of "(k, r)"] by (fastforce simp: holds_def)
  then show ?thesis using v(1) rows by (auto simp: read_jwks_def Let_def rows_def [symmetric])
qed

lemma published_seen: "key_sound now k r \<Longrightarrow> seen now r \<Longrightarrow> published now r"
  by (auto simp: key_sound_def stage_ok_def published_def seen_def split: key_stage.splits option.splits)

lemma serve_sound:
  assumes "keys_ok now d" "cache_ok now d c"
  shows "cache_ok now d (snd (get_jwks now c d))"
proof -
  have "cache_ok now d (snd (case read_jwks now d of Inl e \<Rightarrow> (Inl e, c) | Inr v \<Rightarrow> (Inr v, Some (v, now))))"
  proof (cases "read_jwks now d")
    case (Inl e)
    then show ?thesis using assms by simp
  next
    case (Inr v)
    then have ne: "signing_keys d \<noteq> []" by (auto simp: read_jwks_def newest_first_def Let_def)
    have "holds r v" if "tget (signing_keys d) k = Some r" "seen now r" for k r
    proof -
      have "key_sound now k r" using assms(1) that(1) by (simp add: keys_ok_def)
      then show ?thesis using read_jwks_sound [OF assms(1) ne] Inr that published_seen by auto
    qed
    then show ?thesis using Inr ne by (simp add: cache_ok_def)
  qed
  then show ?thesis using assms(2) by (auto simp: get_jwks_def split: option.splits)
qed

lemma step_sound:
  assumes "world_ok now w"
  shows "world_ok now (key_step x now p a w) \<and> advances now (kw_db w) (kw_db (key_step x now p a w))"
proof (cases a)
  case DoServe
  then show ?thesis using assms serve_sound advances_same by (auto simp: world_ok_def)
next
  case DoInvalidate
  then show ?thesis using assms advances_same by (auto simp: world_ok_def cache_ok_def)
next
  case DoBootstrap
  then show ?thesis using assms bootstrap_transaction [of now "kw_db w" x] by (auto simp: world_ok_def intro: cache_advances)
next
  case DoSchedule
  then show ?thesis using assms schedule_transaction [of now "kw_db w" x] by (auto simp: world_ok_def intro: cache_advances)
next
  case (DoReconcile k)
  then show ?thesis using assms reconcile_transaction [of now "kw_db w" k] by (auto simp: world_ok_def intro: cache_advances)
qed

lemma run_sound: "key_run x t w u w' \<Longrightarrow> world_ok t w \<Longrightarrow> world_ok u w'"
proof (induction rule: key_run.induct)
  case (act t w t' w' u p a)
  then show ?case using step_sound world_ok_later by blast
qed (auto intro: world_ok_later)

lemma new_world_ok: "world_ok t new_world"
  by (simp add: world_ok_def new_world_def keys_ok_def cache_ok_def tget_def)


section \<open>Verifying what was signed\<close>

lemma select_sound:
  assumes "keys_ok now d"
  shows "select_current d = Inr (k, r) \<longleftrightarrow> tget (signing_keys d) k = Some r \<and> sk_status r = KeyCurrent"
  using first_with_sound [OF assms, of KeyCurrent k r] key_rows_sound [OF assms]
  by (auto simp: select_current_def split: option.splits)

lemma current_key_selects: "current_key x now strict d = (Inr q, ch, d') \<Longrightarrow> select_current d' = Inr q"
  by (auto simp: current_key_def split: prod.splits sum.splits option.splits if_splits)

lemma key_run_once: "key_run x t w t (key_step x t p a w)"
  using key_run.act [OF key_run.stay order.refl] by blast

lemma ensure_run: "key_run x t w t (w\<lparr>kw_db := snd (ensure_current x t (kw_db w))\<rparr>)"
  using key_run.stay [of x t w] key_run_once [of x t w 0 DoBootstrap]
  by (auto simp: ensure_current_def split: sum.splits prod.splits)

lemma current_key_run: "key_run x t w t (w\<lparr>kw_db := snd (snd (current_key x t strict (kw_db w)))\<rparr>)"
proof -
  define d where "d = snd (ensure_current x t (kw_db w))"
  have 1: "key_run x t w t (w\<lparr>kw_db := d\<rparr>)" using ensure_run by (simp add: d_def)
  have 2: "key_run x t (w\<lparr>kw_db := d\<rparr>) t (w\<lparr>kw_db := snd (reconcile_keys t k d)\<rparr>)" for k
    using key_run_once [of x t "w\<lparr>kw_db := d\<rparr>" 0 "DoReconcile k"] by simp
  have "snd (snd (current_key x t strict (kw_db w))) = d \<or> (\<exists>k. snd (snd (current_key x t strict (kw_db w))) = snd (reconcile_keys t k d))"
    unfolding current_key_def d_def
    by (cases "ensure_current x t (kw_db w)") (auto split: sum.splits option.splits prod.splits if_splits, (metis snd_conv)+)
  then show ?thesis using 1 key_run_trans [OF 2 1] by auto
qed

lemma aged_run:
  assumes "key_run x t w u w'" and "world_ok t w" and "tget (signing_keys (kw_db w)) k = Some r" and "sk_status r = KeyCurrent"
  shows "\<exists>r'. tget (signing_keys (kw_db w')) k = Some r' \<and> sk_jwk r' = sk_jwk r \<and> sk_published_at r' = sk_published_at r
    \<and> sk_status r' \<noteq> KeyNext \<and> (case sk_retired_at r' of None \<Rightarrow> True | Some q \<Rightarrow> t \<le> q)"
  using assms
proof (induction rule: key_run.induct)
  case (stay t w)
  then have "key_sound t k r" by (simp add: world_ok_def keys_ok_def)
  then show ?case using stay by (auto simp: key_sound_def stage_ok_def)
next
  case (act t w t' w' u p a)
  obtain r' where r': "tget (signing_keys (kw_db w')) k = Some r'" "sk_jwk r' = sk_jwk r" "sk_published_at r' = sk_published_at r"
    "sk_status r' \<noteq> KeyNext" "case sk_retired_at r' of None \<Rightarrow> True | Some q \<Rightarrow> t \<le> q"
    using act by blast
  have "world_ok u w'" using run_sound [OF act(1) act(4)] world_ok_later act(2) by blast
  then have "advances u (kw_db w') (kw_db (key_step x u p a w'))" using step_sound by blast
  then obtain r'' where r'': "tget (signing_keys (kw_db (key_step x u p a w'))) k = Some r''" and age: "ages u r' r''"
    using r'(1) unfolding advances_def by blast
  have "sk_jwk r'' = sk_jwk r'" "sk_status r'' \<noteq> KeyNext" "sk_published_at r'' = sk_published_at r'"
    using age r'(4) unfolding ages_def by blast+
  moreover have "case sk_retired_at r'' of None \<Rightarrow> True | Some q \<Rightarrow> t \<le> q"
  proof (cases "sk_retired_at r'' = sk_retired_at r'")
    case True
    then show ?thesis using r'(5) by simp
  next
    case False
    then have "case sk_retired_at r'' of None \<Rightarrow> False | Some q \<Rightarrow> u \<le> q" using age unfolding ages_def by blast
    then show ?thesis using key_run_time [OF act(1)] act(2) by (auto split: option.splits)
  qed
  ultimately show ?case using r'' r'(2,3) by auto
next
  case (wait t w t' w' u)
  then show ?case by blast
qed

text \<open>C6. A token verifies everywhere until it expires: whatever the processes of the provider did before, if
  one of them is given a key to sign with now, then after any interleaving of rotations,
  reconciliations, key-set reads and cache invalidations by any processes, within the fifteen minutes
  of the longest-lived token, every process's key set, cached or not, is available and contains that
  key under its identifier.\<close>

theorem signed_tokens_verify:
  assumes "key_run x t0 new_world t w"
    and "get_signing_key x t imported (kw_db w) = (Inr (k, r), changed, d)"
    and "key_run x t (w\<lparr>kw_db := d\<rparr>) u w'" and "u \<le> t + 900 * 1000"
  shows "\<exists>v j. fst (get_jwks u (kw_caches w' p) (kw_db w')) = Inr v \<and> public_signing_jwk (sk_jwk r) = Inr j
    \<and> jmember (sk_jwk r) ''kid'' = Some (JStr k) \<and> j \<in> set v"
proof -
  have w: "world_ok t w" using run_sound [OF assms(1) new_world_ok] .
  obtain q ch where c: "current_key x t False (kw_db w) = (Inr q, ch, d)" "signing_key_of x imported q = Inr (k, r)"
    using assms(2) by (auto simp: get_signing_key_def split: prod.splits sum.splits)
  then have q: "q = (k, r)" by (auto simp: signing_key_of_def res_simps split: prod.splits if_splits option.splits)
  have d: "world_ok t (w\<lparr>kw_db := d\<rparr>)"
    using run_sound [OF current_key_run [of x t w False] w] c(1) by simp
  then have ok: "keys_ok t d" by (simp add: world_ok_def)
  have cur: "tget (signing_keys d) k = Some r" "sk_status r = KeyCurrent"
    using current_key_selects [OF c(1)] select_sound [OF ok] q by auto
  have r: "key_sound t k r" using ok cur(1) by (simp add: keys_ok_def)
  then obtain j where j: "public_signing_jwk (sk_jwk r) = Inr j" by (auto simp: key_sound_def)
  obtain r' where r': "tget (signing_keys (kw_db w')) k = Some r'" "sk_jwk r' = sk_jwk r" "sk_published_at r' = sk_published_at r"
    "sk_status r' \<noteq> KeyNext" "case sk_retired_at r' of None \<Rightarrow> True | Some q \<Rightarrow> t \<le> q"
    using aged_run [OF assms(3) d] cur by auto
  have w': "world_ok u w'" by (rule run_sound [OF assms(3) d])
  have t: "t \<le> u" by (rule key_run_time [OF assms(3)])
  have seen: "seen at r'" if at: "u - JWKS_CACHE_MS < at" "at \<le> u" for at
  proof -
    have "case sk_published_at r of None \<Rightarrow> True | Some p \<Rightarrow> p + 300000 \<le> t"
      using r cur(2) by (auto simp: key_sound_def staged_def split: option.splits)
    then have "case sk_published_at r' of None \<Rightarrow> sk_status r' \<noteq> KeyNext | Some p \<Rightarrow> p < at"
      using r'(3,4) at t by (auto simp: JWKS_CACHE_MS_def split: option.splits)
    moreover have "case sk_retired_at r' of None \<Rightarrow> True | Some q \<Rightarrow> at - RETIRED_WINDOW < q"
      using r'(5) at assms(4) by (auto simp: RETIRED_WINDOW_def split: option.splits)
    ultimately show ?thesis by (simp add: seen_def)
  qed
  have ne: "signing_keys (kw_db w') \<noteq> []" using r'(1) by (auto simp: tget_def)
  have "\<exists>v. fst (get_jwks u (kw_caches w' p) (kw_db w')) = Inr v \<and> holds r' v"
  proof -
    have ok': "keys_ok u (kw_db w')" using w' by (simp add: world_ok_def)
    obtain v where v: "read_jwks u (kw_db w') = Inr v" "\<forall>k r. tget (signing_keys (kw_db w')) k = Some r \<longrightarrow> published u r \<longrightarrow> holds r v"
      using read_jwks_sound [OF ok' ne] by blast
    have "key_sound u k r'" using ok' r'(1) by (simp add: keys_ok_def)
    moreover have "seen u r'" by (rule seen) (simp_all add: JWKS_CACHE_MS_def)
    ultimately have fresh: "holds r' v" using v(2) r'(1) published_seen by blast
    show ?thesis
    proof (cases "kw_caches w' p")
      case None
      then show ?thesis using v(1) fresh by (simp add: get_jwks_def)
    next
      case (Some va)
      obtain c0 at where va: "va = (c0, at)" by (cases va)
      have "cache_ok u (kw_db w') (kw_caches w' p)" using w' by (simp add: world_ok_def)
      then have cache_w: "cache_ok u (kw_db w') (Some (c0, at))" by (simp add: Some va)
      have cache: "at \<le> u" "\<forall>k r. tget (signing_keys (kw_db w')) k = Some r \<longrightarrow> seen at r \<longrightarrow> holds r c0"
        using cache_w by (auto simp: cache_ok_def)
      show ?thesis
      proof (cases "u - at < JWKS_CACHE_MS")
        case True
        then have "holds r' c0" using cache r'(1) seen [of at] by auto
        then show ?thesis using True Some va by (simp add: get_jwks_def)
      next
        case False
        then show ?thesis using Some va v(1) fresh by (simp add: get_jwks_def)
      qed
    qed
  qed
  then obtain v where "fst (get_jwks u (kw_caches w' p) (kw_db w')) = Inr v" "holds r' v" by blast
  moreover from this(2) have "j \<in> set v" using j r'(2) by (simp add: holds_def)
  moreover have "jmember (sk_jwk r) ''kid'' = Some (JStr k)" using r by (simp add: key_sound_def)
  ultimately show ?thesis using j by blast
qed


section \<open>Completing a rotation\<close>











section \<open>The status document crosses the wire\<close>

lemma base64url_visible: "base64url_char c \<Longrightarrow> (let n = of_char c :: nat in 32 < n \<and> n \<noteq> 127)"
  by (auto simp: base64url_char_def is_alnum_def is_digit_def less_eq_char_nat Let_def)

lemma sound_kid_readable: "key_sound now k r \<Longrightarrow> status_kid (Some (JStr k)) = Some k"
  by (auto simp: key_sound_def public_signing_jwk_def base64url_def status_kid_def list_all_iff
    dest!: base64url_visible split: if_splits)

lemma instant_readable:
  assumes "\<And>i. date (show_at i) = Some i"
  shows "status_instant date (Some (json_of_instant show_at t)) = Some t"
  using assms by (auto simp: status_instant_def json_of_instant_def split: option.splits)

text \<open>The status document survives the wire: what a provider in any reachable state answers to a status
  request, printed as JSON, is accepted by the strict reader of the relay and read back unchanged.\<close>

theorem key_status_roundtrip:
  assumes "key_run x t0 new_world t w" and "key_status x t (kw_db w) = (Inr s, changed, d)"
    and "\<And>i. date (show_at i) = Some i"
  shows "read_client_key_status date (json_of_status show_at s) = Some s"
proof -
  have w: "world_ok t w" by (rule run_sound [OF assms(1) new_world_ok])
  obtain q ch where c: "current_key x t True (kw_db w) = (Inr q, ch, d)" "rbind (key_rows d) status_of_rows = Inr s"
    using assms(2) by (auto simp: key_status_def split: prod.splits sum.splits)
  have "world_ok t (w\<lparr>kw_db := d\<rparr>)" using run_sound [OF current_key_run [of x t w True] w] c(1) by simp
  then have ok: "keys_ok t d" by (simp add: world_ok_def)
  obtain cur r where cur: "first_with KeyCurrent (live_keys d) = Some (cur, r)"
    using c(2) by (auto simp: key_rows_sound [OF ok] status_of_rows_def split: option.splits)
  have r: "tget (signing_keys d) cur = Some r" "sk_status r = KeyCurrent" using first_with_sound [OF ok, of KeyCurrent cur r] cur by simp_all
  have kid: "status_kid (Some (JStr cur)) = Some cur" using ok r(1) sound_kid_readable unfolding keys_ok_def by blast
  note instant = instant_readable [of date show_at, OF assms(3)]
  show ?thesis
  proof (cases "first_with KeyNext (live_keys d)")
    case None
    then have "s = \<lparr>ks_kid = cur, ks_rotated_at = sk_activated_at r, ks_rotation = None\<rparr>"
      using c(2) cur by (simp add: key_rows_sound [OF ok] status_of_rows_def)
    then show ?thesis by (simp add: read_client_key_status_def json_of_status_def jmember_def kid instant)
  next
    case (Some q)
    obtain k n where q: "q = (k, n)" by (cases q)
    have n: "tget (signing_keys d) k = Some n" "sk_status n = KeyNext" using first_with_sound [OF ok, of KeyNext k n] Some q by simp_all
    have sound: "key_sound t k n" using ok n(1) by (simp add: keys_ok_def)
    obtain i where i: "sk_rotation_id n = Some i" "uuid_lower i"
      using sound n(2) by (auto simp: key_sound_def stage_ok_def split: option.splits)
    have s: "s = \<lparr>ks_kid = cur, ks_rotated_at = sk_activated_at r, ks_rotation = Some \<lparr>kr_id = i, kr_kid = k,
        kr_published_at = sk_published_at n, kr_activate_after = sk_activate_after n\<rparr>\<rparr>"
      using c(2) cur Some q i by (simp add: key_rows_sound [OF ok] status_of_rows_def)
    have kid': "status_kid (Some (JStr k)) = Some k" by (rule sound_kid_readable [OF sound])
    have "k \<noteq> cur" using r n by auto
    moreover have "sk_published_at n = None \<and> sk_activate_after n = None
        \<or> (\<exists>p. sk_published_at n = Some p \<and> sk_activate_after n = Some (p + 300000))"
      using sound by (auto simp: key_sound_def staged_def split: option.splits)
    ultimately show ?thesis
      using i(2) by (auto simp: s read_client_key_status_def json_of_status_def status_rotation_def jmember_def kid kid' instant)
  qed
qed

section \<open>A rotation from end to end\<close>

definition demo_keys :: key_externals where
  "demo_keys = \<lparr>
     kx_pair = (\<lambda>n. ([(''kty'', JStr ''OKP''), (''crv'', JStr ''Ed25519''),
        (''x'', JStr (replicate 42 (CHR ''x'') @ [char_of (97 + n)]))], [char_of (97 + n)])),
     kx_thumb = (\<lambda>j. text_of (jmember j ''x'')), kx_matches = (\<lambda>_ _. True), kx_seal = (\<lambda>p. p), kx_open = Some,
     kx_uuid = (\<lambda>n. ''00000000-0000-4000-8000-00000000000'' @ [char_of (48 + n)])\<rparr>"

primrec key_trace :: "key_externals \<Rightarrow> (int \<times> nat \<times> key_act) list \<Rightarrow> key_world \<Rightarrow> key_world" where
  "key_trace x [] w = w"
| "key_trace x (e # es) w = key_trace x es (key_step x (fst e) (fst (snd e)) (snd (snd e)) w)"

lemma key_trace_run:
  "sorted (t # map fst es @ [u]) \<Longrightarrow> key_run x t w u (key_trace x es w)"
proof (induction es arbitrary: t w)
  case Nil
  then show ?case using key_run.wait [OF key_run.stay] by simp
next
  case (Cons e es)
  then have "key_run x t w (fst e) (key_step x (fst e) (fst (snd e)) (snd (snd e)) w)"
    using key_run.act [OF key_run.stay] by simp
  moreover have "key_run x (fst e) (key_step x (fst e) (fst (snd e)) (snd (snd e)) w) u
      (key_trace x es (key_step x (fst e) (fst (snd e)) (snd (snd e)) w))"
    by (rule Cons.IH) (use Cons.prems in simp)
  ultimately show ?case using key_run_trans by simp
qed

text \<open>Process 1 bootstraps and schedules; process 2 has a cache from before the new key is used.\<close>

definition demo_first :: "(int \<times> nat \<times> key_act) list" where
  "demo_first = [(0, 1, DoBootstrap), (10, 2, DoServe), (1000, 1, DoSchedule),
     (1000, 1, DoReconcile (replicate 42 (CHR ''x'') @ ''b'')), (299000, 2, DoServe)]"

definition demo_scheduled :: key_world where "demo_scheduled = key_trace demo_keys demo_first new_world"

definition demo_then :: "(int \<times> nat \<times> key_act) list" where
  "demo_then = [(310000, 2, DoServe), (320000, 1, DoSchedule), (320000, 1, DoReconcile (replicate 42 (CHR ''x'') @ ''c'')),
     (700000, 1, DoReconcile (replicate 42 (CHR ''x'') @ ''c'')), (1150000, 2, DoServe)]"

theorem signed_tokens_verify_witness:
  "\<exists>k r d. fst (get_signing_key demo_keys 301000 None (kw_db demo_scheduled)) = Inr (k, r)
    \<and> k = replicate 42 (CHR ''x'') @ ''b''
    \<and> d = snd (snd (get_signing_key demo_keys 301000 None (kw_db demo_scheduled)))
    \<and> (\<exists>v j. fst (get_jwks 1200000 (kw_caches (key_trace demo_keys demo_then (demo_scheduled\<lparr>kw_db := d\<rparr>)) 2)
          (kw_db (key_trace demo_keys demo_then (demo_scheduled\<lparr>kw_db := d\<rparr>)))) = Inr v
        \<and> public_signing_jwk (sk_jwk r) = Inr j \<and> j \<in> set v)"
proof -
  define g where "g = get_signing_key demo_keys 301000 None (kw_db demo_scheduled)"
  define q where "q = (case fst g of Inr q \<Rightarrow> q | Inl _ \<Rightarrow> undefined)"
  have e: "(case fst g of Inr (k, r) \<Rightarrow> k = replicate 42 (CHR ''x'') @ ''b'' | Inl _ \<Rightarrow> False)"
    unfolding g_def by code_simp
  obtain k r where q: "fst g = Inr (k, r)" "k = replicate 42 (CHR ''x'') @ ''b''" using e by (auto split: sum.splits)
  have 1: "key_run demo_keys 0 new_world 301000 demo_scheduled"
    unfolding demo_scheduled_def by (rule key_trace_run) (simp add: demo_first_def)
  have 2: "get_signing_key demo_keys 301000 None (kw_db demo_scheduled) = (Inr (k, r), fst (snd g), snd (snd g))"
    using q by (simp add: g_def prod_eq_iff)
  have 3: "key_run demo_keys 301000 (demo_scheduled\<lparr>kw_db := snd (snd g)\<rparr>) 1200000
      (key_trace demo_keys demo_then (demo_scheduled\<lparr>kw_db := snd (snd g)\<rparr>))"
    by (rule key_trace_run) (simp add: demo_then_def)
  show ?thesis using signed_tokens_verify [OF 1 2 3, of 2] q by (auto simp: g_def [symmetric])
qed


text \<open>An instant printed in unary.\<close>

definition demo_instant :: "int \<Rightarrow> string" where
  "demo_instant i = (if i < 0 then replicate (nat (- i)) (CHR ''m'') else replicate (nat i) (CHR ''p''))"

definition demo_date :: "string \<Rightarrow> int option" where
  "demo_date t = Some (if t \<noteq> [] \<and> hd t = CHR ''m'' then - int (length t) else int (length t))"

end
