(* ===== verification/ClientKeys.thy ===== *)
theory ClientKeys
  imports Json
begin

text \<open>
  The public keys of registered clients: the bounded download of \<open>src/clientJwksTransport.ts\<close> as a machine
  over the events of Node's \<open>http\<close>, and the caching resolver of \<open>src/clientKeys.ts\<close>.  The library \<open>jose\<close> is
  the record \<open>key_lib\<close>; the network is a function from the time and the address to what a download gives.
  Downloads that overlap are joined by the source; here a download is one step.
\<close>

section \<open>Errors and what is told of them\<close>

text \<open>An error as \<open>safeKeyError\<close> reads it: its \<open>code\<close>, its message and the code of its cause.\<close>

record jwks_error =
  ke_code :: "string option"
  ke_message :: string
  ke_cause :: "string option"

definition SAFE_CODES :: "string list" where
  "SAFE_CODES = [''EACCES'', ''EPERM'', ''ECONNREFUSED'', ''ENOTFOUND'', ''EAI_AGAIN'', ''ECONNRESET'',
     ''EHOSTUNREACH'', ''ENETUNREACH'', ''ETIMEDOUT'', ''ERR_TLS_CERT_ALTNAME_INVALID'',
     ''UNABLE_TO_VERIFY_LEAF_SIGNATURE'', ''UNABLE_TO_GET_ISSUER_CERT_LOCALLY'',
     ''DEPTH_ZERO_SELF_SIGNED_CERT'', ''SELF_SIGNED_CERT_IN_CHAIN'', ''CERT_HAS_EXPIRED'',
     ''ERR_JWKS_TIMEOUT'', ''ERR_JWKS_RESPONSE_TOO_LARGE'', ''ERR_JWKS_INVALID'', ''ERR_JWK_INVALID'', ''ERR_JOSE_GENERIC'']"

definition MSG_NOT_OK :: string where
  "MSG_NOT_OK = ''Expected 200 OK from the JSON Web Key Set HTTP response''"

definition MSG_BAD_JSON :: string where
  "MSG_BAD_JSON = ''Failed to parse the JSON Web Key Set HTTP response as JSON''"

definition safe_code :: "jwks_error \<Rightarrow> string option" where
  "safe_code e = find (\<lambda>c. c \<in> set SAFE_CODES)
     (case (ke_code e, ke_cause e) of (Some a, Some b) \<Rightarrow> [a, b] | (Some a, None) \<Rightarrow> [a] | (None, Some b) \<Rightarrow> [b] | _ \<Rightarrow> [])"

definition safe_key_error :: "jwks_error \<Rightarrow> string \<times> string" where
  "safe_key_error e =
    (let code = safe_code e in
     (case code of None \<Rightarrow> ''UNKNOWN'' | Some c \<Rightarrow> c,
      if ke_message e = MSG_NOT_OK then ''jwks_http_non_200''
      else if ke_message e = MSG_BAD_JSON then ''jwks_bad_json''
      else if code = Some ''ERR_JWKS_TIMEOUT'' then ''jwks_timeout''
      else if code = Some ''ERR_JWKS_RESPONSE_TOO_LARGE'' then ''jwks_response_too_large''
      else if code = Some ''ERR_JWKS_INVALID'' \<or> code = Some ''ERR_JWK_INVALID'' then ''invalid_key_material''
      else if code \<noteq> None then ''key_transport_or_material_failure''
      else ''key_configuration_or_resolution_failure''))"

definition jose_error :: "string \<Rightarrow> string \<Rightarrow> jwks_error" where
  "jose_error code message = \<lparr>ke_code = Some code, ke_message = message, ke_cause = None\<rparr>"

section \<open>The download\<close>

definition CLIENT_JWKS_TIMEOUT_MS :: int where "CLIENT_JWKS_TIMEOUT_MS = 3000"
definition CLIENT_JWKS_MAX_BYTES :: nat where "CLIENT_JWKS_MAX_BYTES = 256 * 1024"

definition timeout_error :: jwks_error where
  "timeout_error = jose_error ''ERR_JWKS_TIMEOUT'' ''request timed out''"

definition too_large_error :: jwks_error where
  "too_large_error = jose_error ''ERR_JWKS_RESPONSE_TOO_LARGE'' ''JWKS response exceeds the size limit.''"

definition incomplete_error :: jwks_error where
  "incomplete_error = jose_error ''ERR_JOSE_GENERIC'' ''Incomplete JWKS response.''"

text \<open>What Node reports: the headers with their \<open>content-length\<close>, a piece of the body, the end of the body with
  \<open>res.complete\<close>, a broken response, an error of the response or the request, the timer.\<close>

datatype net_event =
    Headers nat "string option"
  | Body string
  | End_of_body bool
  | Aborted
  | NetError jwks_error
  | TimerFired

record download =
  dl_result :: "(jwks_error + json) option"
  dl_response :: "nat option"
  dl_streaming :: bool
  dl_bytes :: nat
  dl_chunks :: "string list"
  dl_destroyed :: bool

definition new_download :: download where
  "new_download = \<lparr>dl_result = None, dl_response = None, dl_streaming = False, dl_bytes = 0, dl_chunks = [], dl_destroyed = False\<rparr>"

definition dl_fail :: "jwks_error \<Rightarrow> download \<Rightarrow> download" where
  "dl_fail e d = (if dl_result d \<noteq> None then d
     else d\<lparr>dl_result := Some (Inl e), dl_chunks := [], dl_destroyed := True\<rparr>)"

definition announced_too_large :: "nat \<Rightarrow> string option \<Rightarrow> bool" where
  "announced_too_large limit len = (case len of
      None \<Rightarrow> False | Some t \<Rightarrow> t \<noteq> [] \<and> list_all is_digit t \<and> limit < nat_of_digits t)"

text \<open>One event at \<open>elapsed\<close> milliseconds after the start; \<open>parse\<close> is \<open>JSON.parse\<close> of the UTF-8 bytes.\<close>

fun dl_step :: "(string \<Rightarrow> json option) \<Rightarrow> int \<Rightarrow> nat \<Rightarrow> int \<Rightarrow> net_event \<Rightarrow> download \<Rightarrow> download" where
  "dl_step parse timeout limit elapsed (Headers status len) d =
    (if dl_response d \<noteq> None then d
     else let d = d\<lparr>dl_response := Some status\<rparr> in
       if dl_result d \<noteq> None then d\<lparr>dl_destroyed := True\<rparr>
       else if status \<noteq> 200 then dl_fail (jose_error ''ERR_JOSE_GENERIC'' MSG_NOT_OK) d
       else if announced_too_large limit len then dl_fail too_large_error d
       else d\<lparr>dl_streaming := True\<rparr>)"
| "dl_step parse timeout limit elapsed (Body part) d =
    (if \<not> dl_streaming d \<or> dl_result d \<noteq> None then d
     else let d = d\<lparr>dl_bytes := dl_bytes d + length part\<rparr> in
       if limit < dl_bytes d then dl_fail too_large_error d else d\<lparr>dl_chunks := dl_chunks d @ [part]\<rparr>)"
| "dl_step parse timeout limit elapsed (End_of_body complete) d =
    (if \<not> dl_streaming d \<or> dl_result d \<noteq> None then d
     else if \<not> complete then dl_fail incomplete_error d
     else (case parse (concat (dl_chunks d)) of
         None \<Rightarrow> dl_fail (jose_error ''ERR_JOSE_GENERIC'' MSG_BAD_JSON) d
       | Some v \<Rightarrow> if timeout \<le> elapsed then dl_fail timeout_error d
           else d\<lparr>dl_result := Some (Inr v), dl_chunks := []\<rparr>))"
| "dl_step parse timeout limit elapsed Aborted d = (if dl_response d = None then d else dl_fail incomplete_error d)"
| "dl_step parse timeout limit elapsed (NetError e) d = dl_fail e d"
| "dl_step parse timeout limit elapsed TimerFired d = dl_fail timeout_error d"

text \<open>\<open>fetchClientJwks\<close> over the events of one request, each with its time.\<close>

definition fetch_client_jwks :: "(string \<Rightarrow> json option) \<Rightarrow> (int \<times> net_event) list \<Rightarrow> download" where
  "fetch_client_jwks parse events =
    fold (\<lambda>(t, e). dl_step parse CLIENT_JWKS_TIMEOUT_MS CLIENT_JWKS_MAX_BYTES t e) events new_download"

section \<open>The resolver\<close>

text \<open>\<open>createLocalJWKSet\<close> (\<open>kl_import\<close>: it throws on what is no key set) and its key selection.\<close>

datatype find_failure = NoMatchingKey | OtherFailure jwks_error

record 'k key_lib =
  kl_import :: "json \<Rightarrow> jwks_error option"
  kl_find :: "json \<Rightarrow> string \<Rightarrow> find_failure + 'k"

record remote_set =
  rs_local :: "json option"
  rs_fetched_at :: "int option"

definition age_below :: "int \<Rightarrow> int \<Rightarrow> remote_set \<Rightarrow> bool" where
  "age_below now ms r = (case rs_fetched_at r of None \<Rightarrow> False | Some t \<Rightarrow> now < t + ms)"

type_synonym network = "int \<Rightarrow> string \<Rightarrow> jwks_error + json"

definition reload :: "'k key_lib \<Rightarrow> network \<Rightarrow> int \<Rightarrow> string \<Rightarrow> remote_set \<Rightarrow> jwks_error option \<times> remote_set" where
  "reload lib net now uri r = (case net now uri of
      Inl e \<Rightarrow> (Some e, r)
    | Inr doc \<Rightarrow> (case kl_import lib doc of
        Some e \<Rightarrow> (Some e, r)
      | None \<Rightarrow> (None, r\<lparr>rs_local := Some doc, rs_fetched_at := Some now\<rparr>)))"

definition find_local :: "'k key_lib \<Rightarrow> string \<Rightarrow> remote_set \<Rightarrow> find_failure + 'k" where
  "find_local lib header r = (case rs_local r of None \<Rightarrow> Inl NoMatchingKey | Some doc \<Rightarrow> kl_find lib doc header)"

definition resolve_found :: "'k key_lib \<Rightarrow> network \<Rightarrow> int \<Rightarrow> string \<Rightarrow> string \<Rightarrow> remote_set \<Rightarrow> (find_failure + 'k) \<times> remote_set" where
  "resolve_found lib net now uri header r =
    (case find_local lib header r of
       Inl NoMatchingKey \<Rightarrow>
         if age_below now 30000 r then (Inl NoMatchingKey, r)
         else (case reload lib net now uri r of
             (Some e, r) \<Rightarrow> (Inl (OtherFailure e), r)
           | (None, r) \<Rightarrow> (find_local lib header r, r))
     | found \<Rightarrow> (found, r))"

definition remote_resolve :: "'k key_lib \<Rightarrow> network \<Rightarrow> int \<Rightarrow> string \<Rightarrow> string \<Rightarrow> remote_set \<Rightarrow> (find_failure + 'k) \<times> remote_set" where
  "remote_resolve lib net now uri header r =
    (if rs_local r = None \<or> \<not> age_below now 600000 r
     then (case reload lib net now uri r of
         (Some e, r) \<Rightarrow> (Inl (OtherFailure e), r)
       | (None, r) \<Rightarrow> resolve_found lib net now uri header r)
     else resolve_found lib net now uri header r)"

record key_registration =
  kr_client :: string
  kr_jwks_uri :: "string option"
  kr_jwks :: "json option"

text \<open>\<open>ClientKeyResolver\<close>: one cached set per client and address.  \<open>url_ok\<close> says whether \<open>new URL\<close> accepts.\<close>

type_synonym resolver = "(string \<times> string, remote_set) table"

datatype 'k key_answer = NoKeysRegistered | KeyFailed find_failure | KeyFound 'k

definition answer_of :: "find_failure + 'k \<Rightarrow> 'k key_answer" where
  "answer_of r = (case r of Inl e \<Rightarrow> KeyFailed e | Inr k \<Rightarrow> KeyFound k)"

definition invalid_url_error :: jwks_error where
  "invalid_url_error = \<lparr>ke_code = Some ''ERR_INVALID_URL'', ke_message = ''Invalid URL'', ke_cause = None\<rparr>"

definition new_remote :: remote_set where
  "new_remote = \<lparr>rs_local = None, rs_fetched_at = None\<rparr>"

definition resolve_key ::
  "'k key_lib \<Rightarrow> (string \<Rightarrow> bool) \<Rightarrow> network \<Rightarrow> int \<Rightarrow> key_registration \<Rightarrow> string \<Rightarrow> resolver \<Rightarrow> 'k key_answer \<times> resolver" where
  "resolve_key lib url_ok net now client header rv =
    (case (kr_jwks_uri client, kr_jwks client) of
       (Some (c # cs), _) \<Rightarrow>
         if \<not> url_ok (c # cs) then (KeyFailed (OtherFailure invalid_url_error), rv)
         else let key = (kr_client client, c # cs);
                  r = (case tget rv key of None \<Rightarrow> new_remote | Some r \<Rightarrow> r);
                  (found, r) = remote_resolve lib net now (c # cs) header r
              in (answer_of found, tput key r rv)
     | (_, Some doc) \<Rightarrow> (case kl_import lib doc of
           Some e \<Rightarrow> (KeyFailed (OtherFailure e), rv)
         | None \<Rightarrow> (answer_of (kl_find lib doc header), rv))
     | _ \<Rightarrow> (NoKeysRegistered, rv))"

text \<open>\<open>verifyUri\<close>: the check at registration.  \<open>protocol_ok\<close> says that the address parses and is https, or
  http on the loopback host.\<close>

definition jwks_keys_empty :: "json \<Rightarrow> bool" where
  "jwks_keys_empty doc = (case doc of
      JObj ms \<Rightarrow> (case jmember ms ''keys'' of Some (JArr ks) \<Rightarrow> ks = [] | _ \<Rightarrow> False) | _ \<Rightarrow> False)"

definition verify_uri ::
  "'k key_lib \<Rightarrow> (string \<Rightarrow> bool) \<Rightarrow> network \<Rightarrow> int \<Rightarrow> string \<Rightarrow> (string \<times> string) + json" where
  "verify_uri lib protocol_ok net now uri =
    (if \<not> protocol_ok uri then Inl (safe_key_error \<lparr>ke_code = None, ke_message = [], ke_cause = None\<rparr>)
     else (case reload lib net now uri new_remote of
         (Some e, _) \<Rightarrow> Inl (safe_key_error e)
       | (None, r) \<Rightarrow> (case rs_local r of
           None \<Rightarrow> Inl (safe_key_error (jose_error ''ERR_JWKS_INVALID'' ''JWKS must contain keys.''))
         | Some doc \<Rightarrow> if jwks_keys_empty doc then Inl (safe_key_error (jose_error ''ERR_JWKS_INVALID'' ''JWKS must contain keys.''))
             else Inr doc)))"

end
