(* ===== verification/ClientKeyProps.thy ===== *)
theory ClientKeyProps
  imports ClientKeys
begin

text \<open>
  What a client's keys rest on: a download is small, complete and in time, and a key the resolver hands
  out was served at the client's own address within the last ten minutes.
\<close>

section \<open>The download\<close>

definition is_headers :: "net_event \<Rightarrow> bool" where
  "is_headers e = (case e of Headers _ _ \<Rightarrow> True | _ \<Rightarrow> False)"

definition body_part :: "net_event \<Rightarrow> string" where
  "body_part e = (case e of Body b \<Rightarrow> b | _ \<Rightarrow> [])"

text \<open>The body received by a list of events: what comes after the headers.\<close>

definition body_of :: "(int \<times> net_event) list \<Rightarrow> string" where
  "body_of es = concat (map (\<lambda>(_, e). body_part e) (dropWhile (\<lambda>(_, e). \<not> is_headers e) es))"

lemma dropWhile_snoc: "dropWhile P (xs @ [x]) = (if \<forall>y \<in> set xs. P y then (if P x then [] else [x]) else dropWhile P xs @ [x])"
  by (induction xs) auto

lemma body_of_snoc: "body_of (es @ [(t, e)]) =
    (if \<forall>y \<in> set es. \<not> is_headers (snd y) then [] else body_of es @ body_part e)"
proof -
  have "is_headers e \<Longrightarrow> body_part e = []" by (cases e) (simp_all add: is_headers_def body_part_def)
  moreover have "\<forall>y \<in> set es. \<not> is_headers (snd y) \<Longrightarrow> body_of es = []"
    by (simp add: body_of_def case_prod_beta dropWhile_eq_Nil_conv [THEN iffD2])
  ultimately show ?thesis
    by (auto simp: body_of_def dropWhile_snoc case_prod_beta)
qed

definition dl_ok :: "(string \<Rightarrow> json option) \<Rightarrow> (int \<times> net_event) list \<Rightarrow> download \<Rightarrow> bool" where
  "dl_ok parse es d =
    (length (concat (dl_chunks d)) \<le> CLIENT_JWKS_MAX_BYTES
     \<and> (dl_response d = None \<longrightarrow> (\<forall>y \<in> set es. \<not> is_headers (snd y)) \<and> \<not> dl_streaming d \<and> dl_bytes d = 0 \<and> dl_chunks d = [])
     \<and> (dl_response d \<noteq> None \<longrightarrow> \<not> (\<forall>y \<in> set es. \<not> is_headers (snd y)))
     \<and> (dl_streaming d \<longrightarrow> dl_response d = Some 200)
     \<and> (dl_streaming d \<and> dl_result d = None \<longrightarrow> concat (dl_chunks d) = body_of es \<and> dl_bytes d = length (body_of es))
     \<and> (\<forall>v. dl_result d = Some (Inr v) \<longrightarrow> dl_response d = Some 200
         \<and> (\<exists>pre t post. es = pre @ (t, End_of_body True) # post \<and> t < CLIENT_JWKS_TIMEOUT_MS
              \<and> length (body_of pre) \<le> CLIENT_JWKS_MAX_BYTES \<and> parse (body_of pre) = Some v)))"

lemma dl_fail_ok:
  assumes "dl_ok parse es d" and "dl_response d \<noteq> None \<or> \<not> is_headers e"
  shows "dl_ok parse (es @ [(t, e)]) (dl_fail f d)"
proof (cases "dl_result d")
  case None
  then show ?thesis using assms by (auto simp: dl_ok_def dl_fail_def)
next
  case (Some r)
  then show ?thesis using assms by (fastforce simp: dl_ok_def dl_fail_def)
qed

lemma dl_skip_ok:
  assumes "dl_ok parse es d" and "dl_response d \<noteq> None \<or> \<not> is_headers e" and "body_part e = [] \<or> \<not> dl_streaming d \<or> dl_result d \<noteq> None"
  shows "dl_ok parse (es @ [(t, e)]) d"
  using assms by (fastforce simp: dl_ok_def body_of_snoc)

lemma dl_headers_ok:
  assumes "dl_ok parse es d"
  shows "dl_ok parse (es @ [(t, Headers st len)]) (dl_step parse CLIENT_JWKS_TIMEOUT_MS CLIENT_JWKS_MAX_BYTES t (Headers st len) d)"
proof (cases "dl_response d")
  case (Some r)
  then show ?thesis using dl_skip_ok [OF assms] by (simp add: body_part_def)
next
  case None
  have h: "is_headers (Headers st len)" "body_part (Headers st len) = []" by (simp_all add: is_headers_def body_part_def)
  have r: "\<nexists>v. dl_result d = Some (Inr v)" "\<not> dl_streaming d" "dl_bytes d = 0" "dl_chunks d = []" "\<forall>y \<in> set es. \<not> is_headers (snd y)"
    using assms None by (auto simp: dl_ok_def)
  show ?thesis using assms None r h by (auto simp: dl_ok_def dl_fail_def Let_def body_of_snoc)
qed

lemma dl_body_ok:
  assumes "dl_ok parse es d"
  shows "dl_ok parse (es @ [(t, Body part)]) (dl_step parse CLIENT_JWKS_TIMEOUT_MS CLIENT_JWKS_MAX_BYTES t (Body part) d)"
proof (cases "\<not> dl_streaming d \<or> dl_result d \<noteq> None")
  case True
  then show ?thesis using dl_skip_ok [OF assms, of "Body part" t] by (auto simp: is_headers_def)
next
  case False
  then have r: "dl_response d = Some 200" "concat (dl_chunks d) = body_of es" "dl_bytes d = length (body_of es)"
      "\<not> (\<forall>y \<in> set es. \<not> is_headers (snd y))" "dl_result d = None" "dl_streaming d"
    using assms by (auto simp: dl_ok_def)
  have b: "body_of (es @ [(t, Body part)]) = body_of es @ part" using r(4) by (auto simp: body_of_snoc body_part_def)
  show ?thesis using r b by (auto simp: dl_ok_def dl_fail_def Let_def)
qed

lemma dl_end_ok:
  assumes "dl_ok parse es d"
  shows "dl_ok parse (es @ [(t, End_of_body c)]) (dl_step parse CLIENT_JWKS_TIMEOUT_MS CLIENT_JWKS_MAX_BYTES t (End_of_body c) d)"
proof (cases "\<not> dl_streaming d \<or> dl_result d \<noteq> None \<or> \<not> c")
  case True
  then show ?thesis
    using dl_skip_ok [OF assms, of "End_of_body c" t] dl_fail_ok [OF assms, of "End_of_body c" t incomplete_error]
    by (auto simp: is_headers_def body_part_def)
next
  case False
  then have r: "dl_response d = Some 200" "concat (dl_chunks d) = body_of es" "dl_result d = None" "dl_streaming d" c
      "\<not> (\<forall>y \<in> set es. \<not> is_headers (snd y))" "length (body_of es) \<le> CLIENT_JWKS_MAX_BYTES"
    using assms by (auto simp: dl_ok_def)
  show ?thesis
  proof (cases "parse (body_of es)")
    case None
    then show ?thesis using r dl_fail_ok [OF assms, of "End_of_body c" t] by (simp add: is_headers_def)
  next
    case (Some v)
    show ?thesis
    proof (cases "CLIENT_JWKS_TIMEOUT_MS \<le> t")
      case True
      then show ?thesis using Some r dl_fail_ok [OF assms, of "End_of_body c" t] by (simp add: is_headers_def)
    next
      case False
      have "es @ [(t, End_of_body c)] = es @ (t, End_of_body True) # []" using r(5) by simp
      then show ?thesis using Some r False
        by (simp add: dl_ok_def) (metis not_le)
    qed
  qed
qed

lemma dl_step_ok:
  assumes "dl_ok parse es d"
  shows "dl_ok parse (es @ [(t, e)]) (dl_step parse CLIENT_JWKS_TIMEOUT_MS CLIENT_JWKS_MAX_BYTES t e d)"
proof (cases e)
  case (Headers st len)
  then show ?thesis using dl_headers_ok [OF assms] by simp
next
  case (Body part)
  then show ?thesis using dl_body_ok [OF assms] by simp
next
  case (End_of_body c)
  then show ?thesis using dl_end_ok [OF assms] by simp
next
  case Aborted
  then show ?thesis using dl_skip_ok [OF assms, of e t] dl_fail_ok [OF assms, of e t incomplete_error]
    by (auto simp: is_headers_def body_part_def)
next
  case (NetError f)
  then show ?thesis using dl_fail_ok [OF assms, of e t f] by (simp add: is_headers_def)
next
  case TimerFired
  then show ?thesis using dl_fail_ok [OF assms, of e t timeout_error] by (simp add: is_headers_def)
qed

lemma fetch_ok: "dl_ok parse events (fetch_client_jwks parse events)"
proof (induction events rule: rev_induct)
  case Nil
  show ?case by (simp add: fetch_client_jwks_def dl_ok_def new_download_def body_of_def CLIENT_JWKS_MAX_BYTES_def)
next
  case (snoc x xs)
  obtain u e where x: "x = (u, e)" by fastforce
  have "fetch_client_jwks parse (xs @ [(u, e)])
      = dl_step parse CLIENT_JWKS_TIMEOUT_MS CLIENT_JWKS_MAX_BYTES u e (fetch_client_jwks parse xs)"
    by (simp only: fetch_client_jwks_def fold_append comp_apply fold_simps prod.case)
  then show ?case using dl_step_ok [OF snoc.IH, of u e] x by simp
qed

text \<open>Whatever the network does, a download of a client's keys never holds more than 256 KiB, and a
  document is accepted only when the answer was 200 and its body ended complete before the three
  seconds were over; the document is then the parse of exactly the body received.\<close>

theorem downloads_are_bounded:
  "length (concat (dl_chunks (fetch_client_jwks parse events))) \<le> 256 * 1024
   \<and> (dl_result (fetch_client_jwks parse events) = Some (Inr v) \<longrightarrow>
       dl_response (fetch_client_jwks parse events) = Some 200
       \<and> (\<exists>pre t post. events = pre @ (t, End_of_body True) # post \<and> t < 3000
            \<and> length (body_of pre) \<le> 256 * 1024 \<and> parse (body_of pre) = Some v))"
  using fetch_ok [of parse events]
  by (simp add: dl_ok_def CLIENT_JWKS_MAX_BYTES_def CLIENT_JWKS_TIMEOUT_MS_def)

section \<open>The resolver\<close>

text \<open>Any sequence of look-ups, for any clients, at times that do not go back.\<close>

inductive resolver_run :: "'k key_lib \<Rightarrow> (string \<Rightarrow> bool) \<Rightarrow> network \<Rightarrow> int \<Rightarrow> resolver \<Rightarrow> bool" for lib url_ok net where
  fresh: "resolver_run lib url_ok net t []"
| look_up: "resolver_run lib url_ok net t rv \<Longrightarrow> t \<le> u \<Longrightarrow>
     resolver_run lib url_ok net u (snd (resolve_key lib url_ok net u client header rv))"
| idle: "resolver_run lib url_ok net t rv \<Longrightarrow> t \<le> u \<Longrightarrow> resolver_run lib url_ok net u rv"

definition remote_ok :: "'k key_lib \<Rightarrow> network \<Rightarrow> int \<Rightarrow> string \<Rightarrow> remote_set \<Rightarrow> bool" where
  "remote_ok lib net now uri r = (case (rs_local r, rs_fetched_at r) of
      (None, None) \<Rightarrow> True
    | (Some doc, Some t) \<Rightarrow> t \<le> now \<and> net t uri = Inr doc \<and> kl_import lib doc = None
    | _ \<Rightarrow> False)"

lemma remote_ok_later: "remote_ok lib net t uri r \<Longrightarrow> t \<le> u \<Longrightarrow> remote_ok lib net u uri r"
  by (auto simp: remote_ok_def split: option.splits)

lemma remote_ok_new: "remote_ok lib net now uri new_remote"
  by (simp add: remote_ok_def new_remote_def)

lemma reload_ok:
  assumes "remote_ok lib net now uri r" and "reload lib net now uri r = (e, r')"
  shows "remote_ok lib net now uri r' \<and> (e = None \<longrightarrow> rs_fetched_at r' = Some now)"
proof (cases "net now uri")
  case (Inl x)
  then show ?thesis using assms by (auto simp: reload_def)
next
  case (Inr doc)
  then show ?thesis using assms by (cases "kl_import lib doc") (auto simp: reload_def remote_ok_def)
qed

definition fresh_answer :: "'k key_lib \<Rightarrow> network \<Rightarrow> int \<Rightarrow> string \<Rightarrow> string \<Rightarrow> find_failure + 'k \<Rightarrow> bool" where
  "fresh_answer lib net now uri header found = (\<forall>k. found = Inr k \<longrightarrow>
     (\<exists>t doc. now - 600000 < t \<and> t \<le> now \<and> net t uri = Inr doc \<and> kl_import lib doc = None \<and> kl_find lib doc header = Inr k))"

lemma find_local_fresh:
  assumes "remote_ok lib net now uri r" and "age_below now 600000 r"
  shows "fresh_answer lib net now uri header (find_local lib header r)"
proof (cases "rs_local r")
  case None
  then show ?thesis by (simp add: fresh_answer_def find_local_def)
next
  case (Some doc)
  then obtain t where t: "rs_fetched_at r = Some t" "t \<le> now" "net t uri = Inr doc" "kl_import lib doc = None"
    using assms(1) by (auto simp: remote_ok_def split: option.splits)
  have "now - 600000 < t" using assms(2) t(1) by (simp add: age_below_def)
  then show ?thesis using t Some by (auto simp: fresh_answer_def find_local_def)
qed

lemma resolve_found_ok:
  assumes ok: "remote_ok lib net now uri r" and age: "age_below now 600000 r"
    and res: "resolve_found lib net now uri header r = (found, r')"
  shows "remote_ok lib net now uri r' \<and> fresh_answer lib net now uri header found"
proof (cases "find_local lib header r = Inl NoMatchingKey \<and> \<not> age_below now 30000 r")
  case False
  then have "found = find_local lib header r \<and> r' = r" using res
    by (auto simp: resolve_found_def split: sum.splits find_failure.splits if_splits)
  then show ?thesis using ok find_local_fresh [OF ok age] by simp
next
  case True
  obtain e r1 where re: "reload lib net now uri r = (e, r1)" by fastforce
  note rl = reload_ok [OF ok re]
  show ?thesis
  proof (cases e)
    case None
    then have f: "found = find_local lib header r1" "r' = r1" using True res re by (auto simp: resolve_found_def)
    have "age_below now 600000 r1" using rl None by (simp add: age_below_def)
    then show ?thesis using rl f find_local_fresh by blast
  next
    case (Some x)
    then show ?thesis using True res re rl by (auto simp: resolve_found_def fresh_answer_def)
  qed
qed

lemma remote_resolve_ok:
  assumes ok: "remote_ok lib net now uri r" and res: "remote_resolve lib net now uri header r = (found, r')"
  shows "remote_ok lib net now uri r' \<and> fresh_answer lib net now uri header found"
proof (cases "rs_local r = None \<or> \<not> age_below now 600000 r")
  case False
  then show ?thesis using resolve_found_ok [OF ok _] res by (auto simp: remote_resolve_def)
next
  case True
  obtain e r1 where re: "reload lib net now uri r = (e, r1)" by fastforce
  note rl = reload_ok [OF ok re]
  show ?thesis
  proof (cases e)
    case None
    then have f: "resolve_found lib net now uri header r1 = (found, r')" using True res re by (simp add: remote_resolve_def)
    have "age_below now 600000 r1" using rl None by (simp add: age_below_def)
    then show ?thesis using rl resolve_found_ok f by blast
  next
    case (Some x)
    then show ?thesis using True res re rl by (auto simp: remote_resolve_def fresh_answer_def)
  qed
qed

definition resolver_ok :: "'k key_lib \<Rightarrow> network \<Rightarrow> int \<Rightarrow> resolver \<Rightarrow> bool" where
  "resolver_ok lib net now rv = (\<forall>c uri r. tget rv (c, uri) = Some r \<longrightarrow> remote_ok lib net now uri r)"

lemma resolve_key_remote:
  assumes "resolver_ok lib net now rv" and "kr_jwks_uri client = Some uri" and "uri \<noteq> []"
    and "resolve_key lib url_ok net now client header rv = (a, rv')"
  shows "resolver_ok lib net now rv' \<and> (\<forall>k. a = KeyFound k \<longrightarrow> fresh_answer lib net now uri header (Inr k))"
proof (cases "url_ok uri")
  case False
  then show ?thesis using assms by (cases uri) (auto simp: resolve_key_def)
next
  case True
  define r where "r = (case tget rv (kr_client client, uri) of None \<Rightarrow> new_remote | Some r \<Rightarrow> r)"
  obtain found r' where rr: "remote_resolve lib net now uri header r = (found, r')" by fastforce
  have "remote_ok lib net now uri r"
    using assms(1) remote_ok_new by (auto simp: r_def resolver_ok_def split: option.splits)
  note done' = remote_resolve_ok [OF this rr]
  have "a = answer_of found \<and> rv' = tput (kr_client client, uri) r' rv"
    using assms(2-4) True rr by (cases uri) (auto simp: resolve_key_def Let_def r_def)
  then show ?thesis using done' assms(1)
    by (auto simp: resolver_ok_def tbl_simps answer_of_def split: sum.splits)
qed

lemma resolve_key_ok:
  assumes "resolver_ok lib net now rv"
  shows "resolver_ok lib net now (snd (resolve_key lib url_ok net now client header rv))"
proof (cases "\<exists>uri. kr_jwks_uri client = Some uri \<and> uri \<noteq> []")
  case True
  then show ?thesis using resolve_key_remote [OF assms] by (metis prod.collapse)
next
  case False
  then show ?thesis using assms
    by (auto simp: resolve_key_def split: option.splits list.splits)
qed

lemma resolver_run_ok: "resolver_run lib url_ok net t rv \<Longrightarrow> resolver_ok lib net t rv"
proof (induction rule: resolver_run.induct)
  case (fresh t)
  show ?case by (simp add: resolver_ok_def tget_def)
next
  case (look_up t rv u client header)
  then have "resolver_ok lib net u rv" by (auto simp: resolver_ok_def intro: remote_ok_later)
  then show ?case by (rule resolve_key_ok)
next
  case (idle t rv u)
  then show ?case by (auto simp: resolver_ok_def intro: remote_ok_later)
qed

text \<open>C8. After any history of look-ups, a key the resolver returns for a client that registered an address is in
  a key set served at that very address within the last ten minutes: neither the snapshot stored at
  registration, nor another client's keys, nor a withdrawn key older than that is ever used.\<close>

theorem client_keys_are_fresh:
  assumes "resolver_run lib url_ok net t rv" and "t \<le> now"
    and "kr_jwks_uri client = Some uri" and "uri \<noteq> []"
    and "fst (resolve_key lib url_ok net now client header rv) = KeyFound k"
  shows "\<exists>u doc. now - 600000 < u \<and> u \<le> now \<and> net u uri = Inr doc
    \<and> kl_import lib doc = None \<and> kl_find lib doc header = Inr k"
proof -
  have "resolver_ok lib net now rv" using resolver_run_ok [OF assms(1)] assms(2)
    by (auto simp: resolver_ok_def intro: remote_ok_later)
  then show ?thesis using resolve_key_remote [OF _ assms(3,4)] assms(5)
    by (metis fresh_answer_def prod.collapse)
qed

definition demo_lib :: "string key_lib" where
  "demo_lib = \<lparr>kl_import = (\<lambda>_. None), kl_find = (\<lambda>doc h. if doc = JStr h then Inr h else Inl NoMatchingKey)\<rparr>"

definition demo_net :: network where
  "demo_net t uri = (if t < 700000 then Inr (JStr ''old'') else Inr (JStr ''new''))"

definition demo_registration :: key_registration where
  "demo_registration = \<lparr>kr_client = ''rp'', kr_jwks_uri = Some ''https://rp/jwks'', kr_jwks = Some (JStr ''new'')\<rparr>"

theorem client_keys_are_fresh_witness:
  "\<exists>u doc. (750000 :: int) - 600000 < u \<and> u \<le> 750000 \<and> demo_net u ''https://rp/jwks'' = Inr doc
    \<and> kl_import demo_lib doc = None \<and> kl_find demo_lib doc ''new'' = Inr ''new''"
proof (rule client_keys_are_fresh)
  show "resolver_run demo_lib (\<lambda>_. True) demo_net 1000
      (snd (resolve_key demo_lib (\<lambda>_. True) demo_net 1000 demo_registration ''old'' []))"
    by (rule resolver_run.look_up [OF resolver_run.fresh [of _ _ _ 1000]]) simp
  show "fst (resolve_key demo_lib (\<lambda>_. True) demo_net 750000 demo_registration ''new''
      (snd (resolve_key demo_lib (\<lambda>_. True) demo_net 1000 demo_registration ''old'' []))) = KeyFound ''new''"
    by code_simp
qed (simp_all add: demo_registration_def)

end
