(* ===== verification/ClientRegistry.thy ===== *)
theory ClientRegistry
  imports AdminDoor ClientKeys
begin

text \<open>
  The registry of clients: the shared normalisation rules of \<open>src/clientNormalize.ts\<close> and the client routes of
  \<open>src/routes/admin.ts\<close> behind the guards of \<open>AdminDoor\<close>.  \<open>new URL\<close> is a parameter that gives the parts
  of an address; the check of a key address is \<open>verify_uri\<close> of \<open>ClientKeys\<close>.
\<close>

section \<open>Normalising what was typed\<close>

text \<open>The parts of a parsed URL that the source reads.\<close>

record url_parts =
  ul_protocol :: string
  ul_hostname :: string
  ul_port :: string
  ul_pathname :: string
  ul_search :: string
  ul_hash :: string

type_synonym url_parser = "string \<Rightarrow> url_parts option"

datatype reason =
    Required
  | NoPorts
  | BadHostname
  | BadUrl
  | HostnameFirst
  | ForeignHost string
  | BadPathCharacters
  | BadSlug
  | NameTooLong
  | NeedsPath
  | NeedsHttps
  | BadJwks
  | NeedsKey
  | BadScopes
  | NotBoolean
  | BadPolicy
  | JwksCheckFailed string string

record norm =
  nm_value :: string
  nm_error :: "reason option"

definition strip :: "string \<Rightarrow> string" where
  "strip s = map (\<lambda>c. if c = CHR 0x5C then CHR ''/'' else c) (filter (\<lambda>c. \<not> is_ws c) s)"

definition scheme_char :: "char \<Rightarrow> bool" where
  "scheme_char c = (is_alnum c \<or> c = CHR ''+'' \<or> c = CHR ''.'' \<or> c = CHR ''-'')"

text \<open>\<open>/^[a-z][a-z0-9+.-]*:\/\//i\<close>: the rest after it, if it matches.\<close>

definition after_scheme :: "string \<Rightarrow> string option" where
  "after_scheme v = (case v of
      [] \<Rightarrow> None
    | c # _ \<Rightarrow> let rest = dropWhile scheme_char v in
        if (is_upper c \<or> is_lower c) \<and> take 3 rest = ''://'' then Some (drop 3 rest) else None)"

definition host_char :: "char \<Rightarrow> bool" where
  "host_char c = (is_lower c \<or> is_digit c)"

definition host_label :: "string \<Rightarrow> bool" where
  "host_label l = (l \<noteq> [] \<and> host_char (hd l) \<and> host_char (last l) \<and> list_all (\<lambda>c. host_char c \<or> c = CHR ''-'') l)"

text \<open>\<open>HOSTNAME_RE\<close>: labels separated by dots.\<close>

definition hostname_re :: "string \<Rightarrow> bool" where
  "hostname_re v = list_all host_label (split_on (CHR ''.'') v)"

definition ends_in_port :: "string \<Rightarrow> bool" where
  "ends_in_port v = (case dropWhile is_digit (rev v) of [] \<Rightarrow> False | c # _ \<Rightarrow> c = CHR '':'')"

definition bare_hostname :: "string \<Rightarrow> string" where
  "bare_hostname input =
    (let v = strip input;
         v = (case after_scheme v of None \<Rightarrow> v | Some rest \<Rightarrow> rest);
         v = (if take 2 v = ''//'' then drop 2 v else v)
     in lower (takeWhile (\<lambda>c. c \<notin> set ''/?#'') v))"

definition normalize_hostname :: "string \<Rightarrow> norm" where
  "normalize_hostname input =
    (let v = bare_hostname input in
     \<lparr>nm_value = v,
      nm_error = (if v = [] then Some Required
        else if ends_in_port v then Some NoPorts
        else if CHR '':'' \<in> set v then Some BadHostname
        else if \<not> hostname_re v then Some BadHostname
        else None)\<rparr>)"

fun collapse_slashes :: "string \<Rightarrow> string" where
  "collapse_slashes (a # b # cs) = (if a = CHR ''/'' \<and> b = CHR ''/'' then collapse_slashes (b # cs) else a # collapse_slashes (b # cs))"
| "collapse_slashes cs = cs"

text \<open>\<open>/^\/[!-~]*$/\<close>.\<close>

definition plain_path :: "string \<Rightarrow> bool" where
  "plain_path v = (take 1 v = ''/'' \<and> list_all (\<lambda>c. let n = of_char c :: nat in 33 \<le> n \<and> n \<le> 126) v)"

definition rooted_path :: "string \<Rightarrow> norm" where
  "rooted_path v =
    (let v = collapse_slashes (if take 1 v = ''/'' then v else CHR ''/'' # v)
     in \<lparr>nm_value = v, nm_error = (if plain_path v then None else Some BadPathCharacters)\<rparr>)"

definition normalize_path :: "url_parser \<Rightarrow> bool \<Rightarrow> string \<Rightarrow> string \<Rightarrow> norm" where
  "normalize_path url required input hostname =
    (let v = strip input in
     if v = [] then \<lparr>nm_value = v, nm_error = (if required then Some Required else None)\<rparr>
     else if take 2 v = ''//'' \<or> after_scheme v \<noteq> None
     then (case url (if take 2 v = ''//'' then ''https:'' @ v else v) of
         None \<Rightarrow> \<lparr>nm_value = v, nm_error = Some BadUrl\<rparr>
       | Some u \<Rightarrow>
           if hostname = [] then \<lparr>nm_value = v, nm_error = Some HostnameFirst\<rparr>
           else if lower (ul_hostname u) \<noteq> hostname then \<lparr>nm_value = v, nm_error = Some (ForeignHost (lower (ul_hostname u)))\<rparr>
           else if ul_port u \<noteq> [] then \<lparr>nm_value = v, nm_error = Some NoPorts\<rparr>
           else rooted_path (ul_pathname u @ ul_search u))
     else rooted_path v)"

text \<open>\<open>SLUG_RE\<close>: one character, or up to 64 with letters or digits at both ends.\<close>

definition slug_re :: "string \<Rightarrow> bool" where
  "slug_re v = (v \<noteq> [] \<and> length v \<le> 64 \<and> host_char (hd v) \<and> host_char (last v)
     \<and> list_all (\<lambda>c. host_char c \<or> c = CHR ''_'' \<or> c = CHR ''-'') v)"

definition normalize_slug :: "string \<Rightarrow> norm" where
  "normalize_slug input =
    (let v = lower (strip input) in
     \<lparr>nm_value = v, nm_error = (if v = [] then Some Required else if \<not> slug_re v then Some BadSlug else None)\<rparr>)"

definition normalize_name :: "string \<Rightarrow> norm" where
  "normalize_name input =
    (let v = trim input in
     \<lparr>nm_value = v, nm_error = (if v = [] then Some Required else if 100 < length v then Some NameTooLong else None)\<rparr>)"

definition compose_url :: "string \<Rightarrow> string \<Rightarrow> string" where
  "compose_url hostname path = ''https://'' @ hostname @ path"

definition decompose_url :: "url_parser \<Rightarrow> string \<Rightarrow> string \<Rightarrow> string option" where
  "decompose_url url u hostname = (case url u of
      None \<Rightarrow> None
    | Some p \<Rightarrow> if lower (ul_hostname p) = hostname then Some (ul_pathname p @ ul_search p) else None)"

section \<open>The form\<close>

definition CLIENT_SCOPES :: "string list" where
  "CLIENT_SCOPES = [''openid'', ''profile'', ''email'']"

text \<open>The protocols a key address may have: https anywhere, http on the loopback host.\<close>

definition jwks_protocol_ok :: "url_parser \<Rightarrow> string \<Rightarrow> bool" where
  "jwks_protocol_ok url v = (case url v of
      None \<Rightarrow> False
    | Some u \<Rightarrow> ul_protocol u = ''https:''
        \<or> ul_protocol u = ''http:'' \<and> (ul_hostname u = ''localhost'' \<or> ul_hostname u = ''127.0.0.1''))"

definition is_url :: "url_parser \<Rightarrow> json \<Rightarrow> bool" where
  "is_url url v = (case v of JStr s \<Rightarrow> jwks_protocol_ok url s | _ \<Rightarrow> False)"

record client_input =
  ci_name :: string
  ci_hostname :: string
  ci_redirect_paths :: "string list"
  ci_events_path :: "string option"
  ci_jwks_uri :: "string option"
  ci_jwks :: "json option"
  ci_scopes :: "string list"
  ci_first_party :: bool
  ci_entry_policy :: string

type_synonym form_errors = "(string \<times> reason) list"

definition field_error :: "string \<Rightarrow> norm \<Rightarrow> form_errors" where
  "field_error field n = (case nm_error n of None \<Rightarrow> [] | Some r \<Rightarrow> [(field, r)])"

text \<open>A member that is absent or null; \<open>json_list\<close> is \<open>Array.isArray\<close>.\<close>

definition present :: "json option \<Rightarrow> json option" where
  "present v = (case v of Some JNull \<Rightarrow> None | _ \<Rightarrow> v)"

definition json_list :: "json option \<Rightarrow> json list option" where
  "json_list v = (case v of Some (JArr xs) \<Rightarrow> Some xs | _ \<Rightarrow> None)"

definition redirect_norms :: "url_parser \<Rightarrow> string \<Rightarrow> (string \<times> json) list \<Rightarrow> norm list" where
  "redirect_norms url hostname b = (case json_list (jmember b ''redirect_paths'') of
      None \<Rightarrow> [] | Some xs \<Rightarrow> map (\<lambda>v. normalize_path url True (qstr (Some v)) hostname) xs)"

definition redirect_errors :: "norm list \<Rightarrow> form_errors" where
  "redirect_errors ns = (if ns = [] then [(''redirect_paths'', NeedsPath)]
     else concat (map (\<lambda>(i, n). field_error (''redirect_paths.'' @ show_nat i) n) (zip [0 ..< length ns] ns)))"

definition jwks_document_ok :: "json \<Rightarrow> bool" where
  "jwks_document_ok v = (case v of
      JObj ms \<Rightarrow> (case jmember ms ''keys'' of Some (JArr ks) \<Rightarrow> ks \<noteq> [] | _ \<Rightarrow> False) | _ \<Rightarrow> False)"

definition key_errors :: "url_parser \<Rightarrow> json option \<Rightarrow> json option \<Rightarrow> form_errors" where
  "key_errors url uri jwks =
    (let e1 = (case uri of Some v \<Rightarrow> if is_url url v then [] else [(''jwks_uri'', NeedsHttps)] | None \<Rightarrow> []);
         e2 = (case jwks of Some v \<Rightarrow> if jwks_document_ok v then [] else [(''jwks'', BadJwks)] | None \<Rightarrow> []);
         e3 = (if uri = None \<and> jwks = None then [(''jwks'', NeedsKey)] else [])
     in e1 @ e2 @ e3)"

definition scope_values :: "json option \<Rightarrow> string list option" where
  "scope_values v = (case json_list v of
      None \<Rightarrow> None
    | Some xs \<Rightarrow> if xs \<noteq> [] \<and> list_all (\<lambda>x. x \<in> set (map JStr CLIENT_SCOPES)) xs
        then Some (map (\<lambda>x. qstr (Some x)) xs) else None)"

definition policy_of :: "(string \<times> json) list \<Rightarrow> string option" where
  "policy_of b = (case jmember b ''entry_policy'' of
      Some (JStr p) \<Rightarrow> if p = ''opt_in'' \<or> p = ''baseline'' then Some p else None | _ \<Rightarrow> None)"

definition validate_client_input :: "url_parser \<Rightarrow> (string \<times> json) list \<Rightarrow> form_errors \<times> client_input" where
  "validate_client_input url b =
    (let name = normalize_name (qstr (jmember b ''name''));
         host = normalize_hostname (qstr (jmember b ''hostname''));
         paths = redirect_norms url (nm_value host) b;
         events = normalize_path url False (qstr (jmember b ''events_path'')) (nm_value host);
         uri = present (jmember b ''jwks_uri'');
         jwks = present (jmember b ''jwks'');
         scopes = scope_values (jmember b ''allowed_scopes'');
         party = (case jmember b ''is_first_party'' of Some (JBool p) \<Rightarrow> Some p | _ \<Rightarrow> None);
         policy = policy_of b
     in (field_error ''name'' name @ field_error ''hostname'' host @ redirect_errors paths
           @ field_error ''events_path'' events @ key_errors url uri jwks
           @ (if scopes = None then [(''allowed_scopes'', BadScopes)] else [])
           @ (if party = None then [(''is_first_party'', NotBoolean)] else [])
           @ (if policy = None then [(''entry_policy'', BadPolicy)] else []),
         \<lparr>ci_name = nm_value name, ci_hostname = nm_value host, ci_redirect_paths = map nm_value paths,
          ci_events_path = (if nm_value events = [] then None else Some (nm_value events)),
          ci_jwks_uri = (case uri of Some (JStr u) \<Rightarrow> Some u | _ \<Rightarrow> None), ci_jwks = jwks,
          ci_scopes = (case scopes of Some xs \<Rightarrow> xs | None \<Rightarrow> CLIENT_SCOPES),
          ci_first_party = (party = Some True),
          ci_entry_policy = (case policy of Some p \<Rightarrow> p | None \<Rightarrow> [])\<rparr>))"

text \<open>\<open>decomposeRow\<close>.\<close>

definition row_hostname :: "url_parser \<Rightarrow> client \<Rightarrow> string" where
  "row_hostname url c = (case cl_redirect_uris c of
      [] \<Rightarrow> [] | u # _ \<Rightarrow> (case url u of None \<Rightarrow> [] | Some p \<Rightarrow> lower (ul_hostname p)))"

record client_view =
  cv_id :: string
  cv_client :: client
  cv_hostname :: string
  cv_redirect_paths :: "string list"
  cv_events_path :: "string option"

definition decompose_row :: "url_parser \<Rightarrow> string \<Rightarrow> client \<Rightarrow> client_view" where
  "decompose_row url ident c =
    (let h = row_hostname url c in
     \<lparr>cv_id = ident, cv_client = c, cv_hostname = h,
      cv_redirect_paths = List.map_filter (\<lambda>u. decompose_url url u h) (cl_redirect_uris c),
      cv_events_path = (case cl_events_uri c of None \<Rightarrow> None | Some e \<Rightarrow> if e = [] then None else decompose_url url e h)\<rparr>)"

section \<open>The routes\<close>

datatype registry_reply =
    Refused api
  | Invalid form_errors
  | Created client_view
  | Listed "client_view list"
  | Changed
  | Catalog "int option" "int option" "(int \<times> app_role) list"

definition composed_client :: "client_input \<Rightarrow> client \<Rightarrow> client" where
  "composed_client v c = c\<lparr>cl_name := ci_name v, cl_first_party := ci_first_party v, cl_entry_policy := ci_entry_policy v,
     cl_redirect_uris := map (compose_url (ci_hostname v)) (ci_redirect_paths v),
     cl_events_uri := map_option (compose_url (ci_hostname v)) (ci_events_path v),
     cl_jwks_uri := ci_jwks_uri v, cl_jwks := ci_jwks v, cl_scopes := ci_scopes v\<rparr>"

definition blank_client :: "int \<Rightarrow> client" where
  "blank_client now = \<lparr>cl_name = [], cl_redirect_uris = [], cl_events_uri = None, cl_disabled_at = None,
     cl_first_party = True, cl_entry_policy = ''opt_in'', cl_jwks_uri = None, cl_jwks = None, cl_scopes = CLIENT_SCOPES,
     cl_is_system = False, cl_created_at = now\<rparr>"

text \<open>\<open>verifyJwksUri\<close> on the address of the form, if the handler asks for the check.\<close>

definition confirm_keys :: "'k key_lib \<Rightarrow> url_parser \<Rightarrow> network \<Rightarrow> int \<Rightarrow> bool \<Rightarrow> client_input \<Rightarrow> form_errors + client_input" where
  "confirm_keys lib url net now wanted v = (case ci_jwks_uri v of
      Some u \<Rightarrow> if \<not> wanted \<or> u = [] then Inr v
        else (case verify_uri lib (jwks_protocol_ok url) net now u of
            Inl (code, why) \<Rightarrow> Inl [(''jwks_uri'', JwksCheckFailed code why)]
          | Inr doc \<Rightarrow> Inr (v\<lparr>ci_jwks := Some doc\<rparr>))
    | None \<Rightarrow> Inr v)"

definition create_client ::
  "'k key_lib \<Rightarrow> url_parser \<Rightarrow> network \<Rightarrow> int \<Rightarrow> (string \<times> json) list \<Rightarrow> db \<Rightarrow> registry_reply \<times> db" where
  "create_client lib url net now b d =
    (let (errors, v) = validate_client_input url b;
         slug = normalize_slug (qstr (jmember b ''client_id''));
         errors = errors @ field_error ''client_id'' slug
     in if errors \<noteq> [] then (Invalid errors, d)
        else (case confirm_keys lib url net now True v of
            Inl e \<Rightarrow> (Invalid e, d)
          | Inr v \<Rightarrow>
              if tget (oauth_clients d) (nm_value slug) \<noteq> None then (Refused (refuse 409 ''client_id_taken''), d)
              else let c = composed_client v (blank_client now)
                   in (Created (decompose_row url (nm_value slug) c),
                       d\<lparr>oauth_clients := tput (nm_value slug) c (oauth_clients d)\<rparr>)))"

text \<open>\<open>{ name: current.name, \<dots>, ...body }\<close>: the members of the body come first, as \<open>jmember\<close> takes the first.\<close>

definition current_form :: "client_view \<Rightarrow> (string \<times> json) list" where
  "current_form cv =
    [(''name'', JStr (cl_name (cv_client cv))), (''hostname'', JStr (cv_hostname cv)),
     (''redirect_paths'', JArr (map JStr (cv_redirect_paths cv))),
     (''events_path'', (case cv_events_path cv of None \<Rightarrow> JNull | Some e \<Rightarrow> JStr e)),
     (''jwks_uri'', (case cl_jwks_uri (cv_client cv) of None \<Rightarrow> JNull | Some u \<Rightarrow> JStr u)),
     (''jwks'', (case cl_jwks (cv_client cv) of None \<Rightarrow> JNull | Some j \<Rightarrow> j)),
     (''allowed_scopes'', JArr (map JStr (cl_scopes (cv_client cv)))),
     (''is_first_party'', JBool (cl_first_party (cv_client cv))),
     (''entry_policy'', JStr (cl_entry_policy (cv_client cv)))]"

definition merged_form :: "client_view \<Rightarrow> (string \<times> json) list \<Rightarrow> (string \<times> json) list" where
  "merged_form cv b = b @ current_form cv"

definition patch_client ::
  "'k key_lib \<Rightarrow> url_parser \<Rightarrow> network \<Rightarrow> int \<Rightarrow> string \<Rightarrow> (string \<times> json) list \<Rightarrow> db \<Rightarrow> registry_reply \<times> db" where
  "patch_client lib url net now ident b d =
    (case tget (oauth_clients d) ident of
       None \<Rightarrow> (Refused (refuse 404 ''not_found''), d)
     | Some c \<Rightarrow>
         let cv = decompose_row url ident c;
             (errors, v) = validate_client_input url (merged_form cv b)
         in if errors \<noteq> [] then (Invalid errors, d)
            else (case confirm_keys lib url net now (has_own b ''jwks_uri'' \<and> ci_jwks_uri v \<noteq> cl_jwks_uri c) v of
                Inl e \<Rightarrow> (Invalid e, d)
              | Inr v \<Rightarrow> (Changed, d\<lparr>oauth_clients := tput ident (composed_client v c) (oauth_clients d)\<rparr>)))"

definition list_clients :: "url_parser \<Rightarrow> db \<Rightarrow> registry_reply" where
  "list_clients url d = Listed (map (\<lambda>(k, c). decompose_row url k c)
     (sort_key (\<lambda>(_, c). cl_created_at c) (oauth_clients d)))"

definition sync_request_event :: out_event where
  "sync_request_event = \<lparr>oe_type = ''roles.sync_request'', oe_payload = JObj [], oe_version = None, oe_id = None\<rparr>"

text \<open>\<open>enqueueEvents\<close>: a transaction of its own, whose failure the caller sees.\<close>

definition enqueue_alone :: "(nat \<Rightarrow> string) \<Rightarrow> int \<Rightarrow> string \<Rightarrow> out_event list \<Rightarrow> db \<Rightarrow> outbox_error option \<times> db" where
  "enqueue_alone uuid now cid evs d = (case insert_events uuid now cid evs d of
      Inl e \<Rightarrow> (Some e, d) | Inr (_, d) \<Rightarrow> (None, d))"

definition request_role_sync :: "(nat \<Rightarrow> string) \<Rightarrow> int \<Rightarrow> string \<Rightarrow> db \<Rightarrow> registry_reply \<times> db" where
  "request_role_sync uuid now ident d =
    (case tget (oauth_clients d) ident of
       None \<Rightarrow> (Refused (refuse 404 ''not_found''), d)
     | Some c \<Rightarrow>
         if cl_disabled_at c \<noteq> None then (Refused (refuse 409 ''client_disabled''), d)
         else (case cl_events_uri c of
             None \<Rightarrow> (Refused (refuse 409 ''no_events_endpoint''), d)
           | Some e \<Rightarrow> if e = [] then (Refused (refuse 409 ''no_events_endpoint''), d)
               else (case enqueue_alone uuid now ident [sync_request_event] d of
                   (Some _, d) \<Rightarrow> (Refused (refuse 500 ''server_error''), d)
                 | (None, d) \<Rightarrow> (Changed, d))))"

definition client_role_catalog :: "string \<Rightarrow> db \<Rightarrow> registry_reply" where
  "client_role_catalog ident d =
    (let cat = tget (app_role_catalogs d) ident
     in Catalog (map_option cat_synced_at cat) (case cat of None \<Rightarrow> None | Some c \<Rightarrow> cat_default c)
          (sort_key (\<lambda>(r, a). ar_level a) (sort_key fst
             (map (\<lambda>((_, r), a). (r, a)) (filter (\<lambda>((c, _), _). c = ident) (app_roles d))))))"

definition disable_client :: "int \<Rightarrow> string \<Rightarrow> db \<Rightarrow> registry_reply \<times> db" where
  "disable_client now ident d =
    (case tget (oauth_clients d) ident of
       None \<Rightarrow> (Refused (refuse 404 ''not_found''), d)
     | Some c \<Rightarrow>
         if cl_is_system c then (Refused (refuse 409 ''system_client''), d)
         else if cl_disabled_at c \<noteq> None then (Refused (refuse 404 ''not_found''), d)
         else (Changed, d\<lparr>oauth_clients := tput ident (c\<lparr>cl_disabled_at := Some now\<rparr>) (oauth_clients d)\<rparr>))"

definition enable_client :: "string \<Rightarrow> db \<Rightarrow> registry_reply \<times> db" where
  "enable_client ident d =
    (case tget (oauth_clients d) ident of
       None \<Rightarrow> (Refused (refuse 404 ''not_found''), d)
     | Some c \<Rightarrow>
         if cl_disabled_at c = None then (Refused (refuse 404 ''not_found''), d)
         else (Changed, d\<lparr>oauth_clients := tput ident (c\<lparr>cl_disabled_at := None\<rparr>) (oauth_clients d)\<rparr>))"

text \<open>\<open>DELETE FROM oauth_clients\<close> with its \<open>ON DELETE CASCADE\<close> references.\<close>

definition remove_client :: "string \<Rightarrow> db \<Rightarrow> db" where
  "remove_client ident d = d\<lparr>
     oauth_clients := tdel ident (oauth_clients d),
     app_roles := tfilter (\<lambda>(c, _) _. c \<noteq> ident) (app_roles d),
     app_role_catalogs := tdel ident (app_role_catalogs d),
     org_role_app_defaults := tfilter (\<lambda>(_, c) _. c \<noteq> ident) (org_role_app_defaults d),
     user_app_role_overrides := tfilter (\<lambda>(_, c) _. c \<noteq> ident) (user_app_role_overrides d),
     app_role_sync_state := tdel ident (app_role_sync_state d),
     app_role_effective := tfilter (\<lambda>(c, _) _. c \<noteq> ident) (app_role_effective d),
     event_destinations := tdel ident (event_destinations d),
     event_outbox := filter (\<lambda>r. ob_target r \<noteq> ident) (event_outbox d)\<rparr>"

definition delete_client :: "string \<Rightarrow> db \<Rightarrow> registry_reply \<times> db" where
  "delete_client ident d =
    (case tget (oauth_clients d) ident of
       None \<Rightarrow> (Refused (refuse 404 ''not_found''), d)
     | Some c \<Rightarrow>
         if cl_is_system c then (Refused (refuse 409 ''system_client''), d)
         else if cl_disabled_at c = None then (Refused (refuse 409 ''must_disable_first''), d)
         else (Changed, remove_client ident d))"

section \<open>Behind the door\<close>

datatype registry_request =
    CreateClient "(string \<times> json) list"
  | PatchClient string "(string \<times> json) list"
  | RequestRoleSync string
  | DisableClient string
  | EnableClient string
  | DeleteClient string

fun registry_call :: "'k key_lib \<Rightarrow> url_parser \<Rightarrow> network \<Rightarrow> (nat \<Rightarrow> string) \<Rightarrow> int \<Rightarrow> registry_request \<Rightarrow> db \<Rightarrow> registry_reply \<times> db" where
  "registry_call lib url net uuid now (CreateClient b) d = create_client lib url net now b d"
| "registry_call lib url net uuid now (PatchClient i b) d = patch_client lib url net now i b d"
| "registry_call lib url net uuid now (RequestRoleSync i) d = request_role_sync uuid now i d"
| "registry_call lib url net uuid now (DisableClient i) d = disable_client now i d"
| "registry_call lib url net uuid now (EnableClient i) d = enable_client i d"
| "registry_call lib url net uuid now (DeleteClient i) d = delete_client i d"

definition registry_route ::
  "'k key_lib \<Rightarrow> url_parser \<Rightarrow> network \<Rightarrow> externals \<Rightarrow> int \<Rightarrow> string option \<Rightarrow> string option \<Rightarrow> registry_request
   \<Rightarrow> sso \<Rightarrow> registry_reply \<times> sso" where
  "registry_route lib url net x now token header call s =
    (case admin_mutation x now token header s of
       (Inl e, s) \<Rightarrow> (Refused e, s)
     | (Inr _, s) \<Rightarrow>
         (case registry_call lib url net (x_uuid x) now call (core s) of (r, d) \<Rightarrow> (r, s\<lparr>core := d\<rparr>)))"

text \<open>The reading routes ask for the session and the permission only.\<close>

definition registry_read :: "externals \<Rightarrow> int \<Rightarrow> string option \<Rightarrow> (db \<Rightarrow> registry_reply) \<Rightarrow> sso \<Rightarrow> registry_reply \<times> sso" where
  "registry_read x now token view s =
    (case require_admin x now token s of
       (Inl e, s) \<Rightarrow> (Refused e, s)
     | (Inr _, s) \<Rightarrow> (view (core s), s))"

end
