(* ===== verification/ClientRegistryProps.thy ===== *)
theory ClientRegistryProps
  imports ClientRegistry SessionProps ClientKeyProps
begin

text \<open>
  What the registry guarantees of the clients in it, over any history of calls: they are well formed and
  their addresses lie on one https host, the system's own clients stay, a deleted client leaves nothing,
  and an edit of other fields keeps the addresses.
\<close>

section \<open>Normalised values\<close>

lemma host_char_lower: "host_char c \<Longrightarrow> lower_char c = c"
  by (auto simp: host_char_def is_lower_def is_digit_def lower_char_def Let_def less_eq_char_def)

lemma split_on_chars: "x \<in> set s \<Longrightarrow> x \<noteq> c \<Longrightarrow> \<exists>l \<in> set (split_on c s). x \<in> set l"
proof (induction s)
  case Nil
  then show ?case by simp
next
  case (Cons a s)
  obtain y ys where "split_on c s = y # ys" by (cases "split_on c s") auto
  then show ?case using Cons by auto
qed

definition hostname_char :: "char \<Rightarrow> bool" where
  "hostname_char c = (host_char c \<or> c = CHR ''-'' \<or> c = CHR ''.'')"

lemma hostname_re_chars: "hostname_re v \<Longrightarrow> list_all hostname_char v"
  unfolding list_all_iff
proof (rule ballI)
  fix x
  assume re: "hostname_re v" and x: "x \<in> set v"
  show "hostname_char x"
  proof (cases "x = CHR ''.''")
    case True
    then show ?thesis by (simp add: hostname_char_def)
  next
    case False
    then obtain l where l: "l \<in> set (split_on (CHR ''.'') v)" "x \<in> set l" using split_on_chars [OF x] by blast
    then have "host_label l" using re by (simp add: hostname_re_def list_all_iff)
    then show ?thesis using l(2) by (auto simp: host_label_def list_all_iff hostname_char_def)
  qed
qed

lemma hostname_char_not:
  "hostname_char c \<Longrightarrow> c \<notin> {CHR ''/'', CHR ''?'', CHR ''#'', CHR '':'', CHR ''@'', CHR 0x5C} \<and> \<not> is_ws c \<and> lower_char c = c"
  by (auto simp: hostname_char_def host_char_def is_lower_def is_digit_def is_ws_def lower_char_def Let_def less_eq_char_def)

lemma normalized_hostname: "nm_error (normalize_hostname i) = None \<Longrightarrow> hostname_re (nm_value (normalize_hostname i))"
  by (auto simp: normalize_hostname_def Let_def split: if_splits)

lemma rooted_plain: "nm_error (rooted_path v) = None \<Longrightarrow> plain_path (nm_value (rooted_path v))"
  by (auto simp: rooted_path_def Let_def split: if_splits)

lemma normalized_path:
  assumes "nm_error (normalize_path url req i h) = None"
  shows "nm_value (normalize_path url req i h) = [] \<and> \<not> req \<or> plain_path (nm_value (normalize_path url req i h))"
  using assms rooted_plain
  by (auto simp: normalize_path_def Let_def split: if_splits option.splits)

lemma normalized_name:
  "nm_error (normalize_name i) = None \<Longrightarrow> nm_value (normalize_name i) \<noteq> [] \<and> length (nm_value (normalize_name i)) \<le> 100"
  by (auto simp: normalize_name_def Let_def split: if_splits)

lemma normalized_slug: "nm_error (normalize_slug i) = None \<Longrightarrow> slug_re (nm_value (normalize_slug i))"
  by (auto simp: normalize_slug_def Let_def split: if_splits)

lemma field_error_Nil: "field_error f n = [] \<longleftrightarrow> nm_error n = None"
  by (auto simp: field_error_def split: option.splits)

section \<open>Well-formed clients\<close>

text \<open>Where a browser or a request goes: the authority of an address.\<close>

definition https_authority :: "string \<Rightarrow> string" where
  "https_authority u = takeWhile (\<lambda>c. c \<notin> set ''/?#'' \<and> c \<noteq> CHR 0x5C) (drop 8 u)"

definition on_host :: "string \<Rightarrow> string \<Rightarrow> bool" where
  "on_host h u = (take 8 u = ''https://'' \<and> https_authority u = h)"

definition client_ok :: "client \<Rightarrow> bool" where
  "client_ok c = (cl_name c \<noteq> [] \<and> length (cl_name c) \<le> 100
     \<and> cl_redirect_uris c \<noteq> []
     \<and> (\<exists>h. hostname_re h \<and> (\<forall>u \<in> set (cl_redirect_uris c) \<union> set_option (cl_events_uri c). on_host h u))
     \<and> (cl_jwks_uri c \<noteq> None \<or> (\<exists>j. cl_jwks c = Some j \<and> jwks_document_ok j))
     \<and> cl_scopes c \<noteq> [] \<and> set (cl_scopes c) \<subseteq> set CLIENT_SCOPES
     \<and> cl_entry_policy c \<in> {''opt_in'', ''baseline''})"

lemma composed_on_host:
  assumes "hostname_re h" and "plain_path p"
  shows "on_host h (compose_url h p)"
proof -
  obtain q where p: "p = CHR ''/'' # q" using assms(2) by (cases p) (auto simp: plain_path_def)
  have "\<forall>c \<in> set h. c \<notin> set ''/?#'' \<and> c \<noteq> CHR 0x5C"
    using hostname_re_chars [OF assms(1)] hostname_char_not by (fastforce simp: list_all_iff)
  then have "takeWhile (\<lambda>c. c \<notin> set ''/?#'' \<and> c \<noteq> CHR 0x5C) (h @ p) = h"
    by (subst takeWhile_append2) (auto simp: p)
  then show ?thesis by (simp add: on_host_def compose_url_def https_authority_def)
qed

lemma concat_fields_Nil:
  "concat (map (\<lambda>(i, n). field_error (f i) n) (zip [k ..< k + length ns] ns)) = [] \<longleftrightarrow> (\<forall>n \<in> set ns. nm_error n = None)"
proof (induction ns arbitrary: k)
  case Nil
  show ?case by simp
next
  case (Cons n ns)
  have "zip [k ..< k + length (n # ns)] (n # ns) = (k, n) # zip [Suc k ..< Suc k + length ns] ns"
    by (simp add: upt_conv_Cons del: upt_Suc)
  then show ?case using Cons [of "Suc k"] by (simp add: field_error_Nil)
qed

lemma redirect_errors_Nil: "redirect_errors ns = [] \<longleftrightarrow> ns \<noteq> [] \<and> (\<forall>n \<in> set ns. nm_error n = None)"
  using concat_fields_Nil [of "\<lambda>i. ''redirect_paths.'' @ show_nat i" 0 ns]
  by (auto simp: redirect_errors_def)

lemma redirect_norms_are: "n \<in> set (redirect_norms url h b) \<Longrightarrow> \<exists>i. n = normalize_path url True i h"
  by (auto simp: redirect_norms_def split: option.splits)

lemma key_errors_Nil:
  assumes "key_errors url uri jwks = []"
  shows "(\<exists>u. uri = Some (JStr u)) \<or> uri = None \<and> (\<exists>j. jwks = Some j \<and> jwks_document_ok j)"
  using assms by (auto simp: key_errors_def Let_def is_url_def split: option.splits if_splits json.splits)

lemma scope_values_ok:
  assumes "scope_values v = Some xs"
  shows "xs \<noteq> [] \<and> set xs \<subseteq> set CLIENT_SCOPES"
proof -
  obtain js where js: "json_list v = Some js" "js \<noteq> []" "list_all (\<lambda>j. j \<in> set (map JStr CLIENT_SCOPES)) js"
      "xs = map (\<lambda>j. qstr (Some j)) js"
    using assms by (auto simp: scope_values_def split: option.splits if_splits)
  have "qstr (Some j) \<in> set CLIENT_SCOPES" if "j \<in> set (map JStr CLIENT_SCOPES)" for j
    using that by (auto simp: qstr_def)
  then show ?thesis using js by (auto simp: list_all_iff)
qed

lemma policy_of_ok: "policy_of b = Some p \<Longrightarrow> p \<in> {''opt_in'', ''baseline''}"
  by (auto simp: policy_of_def split: option.splits json.splits if_splits)

text \<open>What a form without errors says.\<close>

definition input_ok :: "client_input \<Rightarrow> bool" where
  "input_ok v = (ci_name v \<noteq> [] \<and> length (ci_name v) \<le> 100 \<and> hostname_re (ci_hostname v)
     \<and> ci_redirect_paths v \<noteq> [] \<and> (\<forall>p \<in> set (ci_redirect_paths v) \<union> set_option (ci_events_path v). plain_path p)
     \<and> (ci_jwks_uri v \<noteq> None \<or> (\<exists>j. ci_jwks v = Some j \<and> jwks_document_ok j))
     \<and> ci_scopes v \<noteq> [] \<and> set (ci_scopes v) \<subseteq> set CLIENT_SCOPES \<and> ci_entry_policy v \<in> {''opt_in'', ''baseline''})"

lemma valid_input_ok:
  assumes "validate_client_input url b = ([], v)"
  shows "input_ok v"
proof -
  let ?host = "normalize_hostname (qstr (jmember b ''hostname''))"
  let ?name = "normalize_name (qstr (jmember b ''name''))"
  let ?paths = "redirect_norms url (nm_value ?host) b"
  let ?ev = "normalize_path url False (qstr (jmember b ''events_path'')) (nm_value ?host)"
  have e: "nm_error ?name = None" "nm_error ?host = None" "redirect_errors ?paths = []" "nm_error ?ev = None"
      "key_errors url (present (jmember b ''jwks_uri'')) (present (jmember b ''jwks'')) = []"
      "scope_values (jmember b ''allowed_scopes'') \<noteq> None" "policy_of b \<noteq> None"
    using arg_cong [OF assms, of fst] by (simp_all add: validate_client_input_def Let_def field_error_Nil split: if_splits)
  have v: "ci_name v = nm_value ?name" "ci_hostname v = nm_value ?host" "ci_redirect_paths v = map nm_value ?paths"
      "ci_events_path v = (if nm_value ?ev = [] then None else Some (nm_value ?ev))"
      "ci_jwks_uri v = (case present (jmember b ''jwks_uri'') of Some (JStr u) \<Rightarrow> Some u | _ \<Rightarrow> None)"
      "ci_jwks v = present (jmember b ''jwks'')"
      "ci_scopes v = (case scope_values (jmember b ''allowed_scopes'') of Some xs \<Rightarrow> xs | None \<Rightarrow> CLIENT_SCOPES)"
      "ci_entry_policy v = (case policy_of b of Some p \<Rightarrow> p | None \<Rightarrow> [])"
    unfolding sym [OF arg_cong [OF assms, of snd, simplified]] by (simp_all add: validate_client_input_def Let_def)
  obtain p where p: "policy_of b = Some p" using e(7) by auto
  have pol: "ci_entry_policy v \<in> {''opt_in'', ''baseline''}" using v(8) p policy_of_ok [OF p] by simp
  have paths: "\<forall>p \<in> set (ci_redirect_paths v). plain_path p"
  proof
    fix q
    assume "q \<in> set (ci_redirect_paths v)"
    then obtain n where n: "n \<in> set ?paths" "q = nm_value n" using v(3) by auto
    then have err: "nm_error n = None" using e(3) by (simp add: redirect_errors_Nil)
    obtain i where i: "n = normalize_path url True i (nm_value ?host)" using redirect_norms_are [OF n(1)] by blast
    show "plain_path q" using normalized_path [OF err [unfolded i]] n(2) i by simp
  qed
  have ev: "\<forall>p \<in> set_option (ci_events_path v). plain_path p"
    using normalized_path [OF e(4)] v(4) by auto
  obtain xs where xs: "scope_values (jmember b ''allowed_scopes'') = Some xs" using e(6) by auto
  have scopes: "ci_scopes v \<noteq> [] \<and> set (ci_scopes v) \<subseteq> set CLIENT_SCOPES" using v(7) xs scope_values_ok [OF xs] by simp
  have key: "ci_jwks_uri v \<noteq> None \<or> (\<exists>j. ci_jwks v = Some j \<and> jwks_document_ok j)"
    using key_errors_Nil [OF e(5)] v(5,6) by auto
  have "ci_redirect_paths v \<noteq> []" using e(3) v(3) by (simp add: redirect_errors_Nil)
  then show ?thesis
    using pol paths ev scopes key v(1,2) normalized_name [OF e(1)] normalized_hostname [OF e(2)] by (simp add: input_ok_def ball_Un)
qed

lemma confirm_keys_input:
  assumes "confirm_keys lib url net now w v = Inr v'" and "input_ok v"
  shows "input_ok v'"
  using assms by (auto simp: confirm_keys_def input_ok_def split: option.splits if_splits sum.splits prod.splits)

lemma composed_client_ok:
  assumes "input_ok v"
  shows "client_ok (composed_client v c)"
proof -
  have "\<forall>u \<in> set (map (compose_url (ci_hostname v)) (ci_redirect_paths v))
      \<union> set_option (map_option (compose_url (ci_hostname v)) (ci_events_path v)). on_host (ci_hostname v) u"
    using assms composed_on_host by (auto simp: input_ok_def)
  then show ?thesis using assms
    by (auto simp: client_ok_def composed_client_def input_ok_def)
qed

section \<open>Histories\<close>

text \<open>Any calls by anyone, in any order; what other parts of the program do in between leaves the registry alone.\<close>

inductive registry_history :: "'k key_lib \<Rightarrow> url_parser \<Rightarrow> network \<Rightarrow> externals \<Rightarrow> sso \<Rightarrow> sso \<Rightarrow> bool" for lib url net x where
  begun: "registry_history lib url net x s s"
| called: "registry_history lib url net x s t \<Longrightarrow>
     registry_history lib url net x s (snd (registry_route lib url net x now token header call t))"
| elsewhere: "registry_history lib url net x s t \<Longrightarrow> oauth_clients (core u) = oauth_clients (core t) \<Longrightarrow>
     registry_history lib url net x s u"

lemma load_session_core: "core (snd (load_session x now token s)) = core s"
  by (auto simp: load_session_def touch_session_def Let_def split: option.splits if_splits prod.splits)

lemma require_admin_core: "core (snd (require_admin x now token s)) = core s"
  using load_session_core [of x now token s]
  by (auto simp: require_admin_def split: option.splits prod.splits)

lemma admin_mutation_core: "core (snd (admin_mutation x now token header s)) = core s"
  using require_admin_core [of x now token s]
  by (auto simp: admin_mutation_def split: sum.splits prod.splits)

lemma registry_route_cases:
  "core (snd (registry_route lib url net x now token header call s)) = core s
   \<or> core (snd (registry_route lib url net x now token header call s)) = snd (registry_call lib url net (x_uuid x) now call (core s))"
  using admin_mutation_core [of x now token header s]
  by (auto simp: registry_route_def split: sum.splits prod.splits)

lemma enqueue_clients: "oauth_clients (snd (enqueue_alone uuid now cid evs d)) = oauth_clients d"
  by (auto simp: enqueue_alone_def same_role_tables_def split: sum.splits dest!: insert_events_frame)

text \<open>What one call can do to the registry: nothing, a client composed from a valid form, a switch of its
  disabling, or the removal of a disabled client.\<close>

inductive registry_change :: "(string, client) table \<Rightarrow> (string, client) table \<Rightarrow> bool" for t where
  nothing: "registry_change t t"
| registered: "slug_re i \<Longrightarrow> tget t i = None \<Longrightarrow> input_ok v \<Longrightarrow>
     registry_change t (tput i (composed_client v (blank_client now)) t)"
| edited: "tget t i = Some c \<Longrightarrow> input_ok v \<Longrightarrow> registry_change t (tput i (composed_client v c) t)"
| disabled: "tget t i = Some c \<Longrightarrow> \<not> cl_is_system c \<Longrightarrow> cl_disabled_at c = None \<Longrightarrow>
     registry_change t (tput i (c\<lparr>cl_disabled_at := Some now\<rparr>) t)"
| enabled: "tget t i = Some c \<Longrightarrow> cl_disabled_at c \<noteq> None \<Longrightarrow> registry_change t (tput i (c\<lparr>cl_disabled_at := None\<rparr>) t)"
| removed: "tget t i = Some c \<Longrightarrow> \<not> cl_is_system c \<Longrightarrow> cl_disabled_at c \<noteq> None \<Longrightarrow> registry_change t (tdel i t)"

lemma create_client_change:
  "registry_change (oauth_clients d) (oauth_clients (snd (create_client lib url net now b d)))"
proof -
  obtain es v where v: "validate_client_input url b = (es, v)" by fastforce
  let ?slug = "normalize_slug (qstr (jmember b ''client_id''))"
  show ?thesis
  proof (cases "es = [] \<and> field_error ''client_id'' ?slug = []")
    case False
    then show ?thesis by (simp add: create_client_def v registry_change.nothing)
  next
    case True
    then have ok: "input_ok v" and slug: "slug_re (nm_value ?slug)"
      using v valid_input_ok normalized_slug by (auto simp: field_error_Nil)
    show ?thesis
    proof (cases "confirm_keys lib url net now True v")
      case (Inl e)
      then show ?thesis using True by (simp add: create_client_def v registry_change.nothing)
    next
      case (Inr v')
      have ok': "input_ok v'" using confirm_keys_input [OF Inr ok] .
      show ?thesis
      proof (cases "tget (oauth_clients d) (nm_value ?slug)")
        case (Some c)
        then show ?thesis using True Inr by (simp add: create_client_def v registry_change.nothing)
      next
        case None
        then have "oauth_clients (snd (create_client lib url net now b d))
            = tput (nm_value ?slug) (composed_client v' (blank_client now)) (oauth_clients d)"
          using True Inr by (simp add: create_client_def v Let_def)
        then show ?thesis using registry_change.registered [OF slug None ok'] by simp
      qed
    qed
  qed
qed

lemma patch_client_change:
  "registry_change (oauth_clients d) (oauth_clients (snd (patch_client lib url net now i b d)))"
proof (cases "tget (oauth_clients d) i")
  case None
  then show ?thesis by (simp add: patch_client_def registry_change.nothing)
next
  case (Some c)
  obtain es v where v: "validate_client_input url (merged_form (decompose_row url i c) b) = (es, v)" by fastforce
  show ?thesis
  proof (cases es)
    case (Cons e es')
    then show ?thesis using Some by (simp add: patch_client_def v registry_change.nothing)
  next
    case Nil
    then have ok: "input_ok v" using v valid_input_ok by blast
    show ?thesis
    proof (cases "confirm_keys lib url net now (has_own b ''jwks_uri'' \<and> ci_jwks_uri v \<noteq> cl_jwks_uri c) v")
      case (Inl e)
      then show ?thesis using Some Nil by (simp add: patch_client_def v registry_change.nothing)
    next
      case (Inr v')
      then have "oauth_clients (snd (patch_client lib url net now i b d)) = tput i (composed_client v' c) (oauth_clients d)"
        using Some Nil by (simp add: patch_client_def v)
      then show ?thesis using registry_change.edited [OF Some confirm_keys_input [OF Inr ok]] by simp
    qed
  qed
qed

lemma registry_call_change:
  "registry_change (oauth_clients d) (oauth_clients (snd (registry_call lib url net uuid now call d)))"
proof (cases call)
  case (CreateClient b)
  then show ?thesis using create_client_change by simp
next
  case (PatchClient i b)
  then show ?thesis using patch_client_change by simp
next
  case (RequestRoleSync i)
  have "oauth_clients (snd (request_role_sync uuid now i d)) = oauth_clients d"
    using enqueue_clients [of uuid now i "[sync_request_event]" d]
    by (auto simp: request_role_sync_def split: option.splits prod.splits)
  then show ?thesis using RequestRoleSync by (simp add: registry_change.nothing)
next
  case (DisableClient i)
  then show ?thesis
    by (auto simp: disable_client_def intro: registry_change.nothing registry_change.disabled split: option.splits)
next
  case (EnableClient i)
  then show ?thesis
    by (auto simp: enable_client_def intro: registry_change.nothing registry_change.enabled split: option.splits)
next
  case (DeleteClient i)
  then show ?thesis
    by (auto simp: delete_client_def remove_client_def intro: registry_change.nothing registry_change.removed split: option.splits)
qed

text \<open>A property of the registry that every such change keeps holds after every history.\<close>

lemma history_keeps:
  assumes "registry_history lib url net x s t" and "P (oauth_clients (core s))"
    and step: "\<And>a b. registry_change a b \<Longrightarrow> P a \<Longrightarrow> P b"
  shows "P (oauth_clients (core t))"
  using assms(1,2)
proof (induction rule: registry_history.induct)
  case (begun s)
  then show ?case .
next
  case (called s t now token header call)
  then show ?case
    using registry_route_cases [of lib url net x now token header call t] step registry_call_change by metis
next
  case (elsewhere s t u)
  then show ?case by simp
qed

definition registry_ok :: "(string, client) table \<Rightarrow> bool" where
  "registry_ok t = (\<forall>i c. tget t i = Some c \<longrightarrow> slug_re i \<and> client_ok c)"

lemma client_ok_disabled [simp]: "client_ok (c\<lparr>cl_disabled_at := a\<rparr>) = client_ok c"
  by (simp add: client_ok_def)

lemma registry_ok_change: "registry_change a b \<Longrightarrow> registry_ok a \<Longrightarrow> registry_ok b"
  by (induction rule: registry_change.induct) (auto simp: registry_ok_def tbl_simps composed_client_ok)

definition system_client :: "string \<Rightarrow> (string, client) table \<Rightarrow> bool" where
  "system_client i t = (\<exists>c. tget t i = Some c \<and> cl_is_system c \<and> cl_disabled_at c = None)"

lemma composed_fields [simp]:
  "cl_is_system (composed_client v c) = cl_is_system c" "cl_disabled_at (composed_client v c) = cl_disabled_at c"
  by (simp_all add: composed_client_def)

lemma system_client_change: "registry_change a b \<Longrightarrow> system_client i a \<Longrightarrow> system_client i b"
  by (induction rule: registry_change.induct) (auto simp: system_client_def tbl_simps)

section \<open>The guarantees\<close>

text \<open>C9. After any history of calls to the console's API, by anyone and in any order, every registered client is
  well formed: a slug as its identifier, a name, scopes and an entry policy the provider knows, a key to
  authenticate with, and at least one redirect address, all of its addresses on the one https host whose
  name is their whole authority, with neither a port nor user information in front of it.\<close>

theorem clients_stay_well_formed:
  assumes "registry_history lib url net x s t" and "registry_ok (oauth_clients (core s))"
    and "tget (oauth_clients (core t)) i = Some c"
  shows "slug_re i \<and> cl_name c \<noteq> [] \<and> length (cl_name c) \<le> 100 \<and> cl_redirect_uris c \<noteq> []
     \<and> (\<exists>h. hostname_re h \<and> (\<forall>u \<in> set (cl_redirect_uris c) \<union> set_option (cl_events_uri c).
           take 8 u = ''https://'' \<and> https_authority u = h))
     \<and> (cl_jwks_uri c \<noteq> None \<or> (\<exists>j. cl_jwks c = Some j \<and> jwks_document_ok j))
     \<and> cl_scopes c \<noteq> [] \<and> set (cl_scopes c) \<subseteq> set CLIENT_SCOPES \<and> cl_entry_policy c \<in> {''opt_in'', ''baseline''}"
proof -
  have "registry_ok (oauth_clients (core t))"
    using history_keeps [of lib url net x s t registry_ok, OF assms(1,2) registry_ok_change] .
  then have "slug_re i \<and> client_ok c" using assms(3) by (simp add: registry_ok_def)
  then show ?thesis unfolding client_ok_def on_host_def .
qed

text \<open>A client that is part of the provider itself is never disabled or deleted, and never loses that mark,
  whatever the console is asked.\<close>

theorem system_clients_stay:
  assumes "registry_history lib url net x s t"
    and "tget (oauth_clients (core s)) i = Some c" and "cl_is_system c" and "cl_disabled_at c = None"
  shows "\<exists>c'. tget (oauth_clients (core t)) i = Some c' \<and> cl_is_system c' \<and> cl_disabled_at c' = None"
  using history_keeps [of lib url net x s t "system_client i", OF assms(1) _ system_client_change] assms(2-4)
  by (auto simp: system_client_def)

lemma tget_drop:
  "pk t \<Longrightarrow> tget (tfilter (\<lambda>k _. P k) t) k = (if P k then tget t k else None)"
  by (auto simp: tget_tfilter split: option.splits)

text \<open>A deleted client leaves nothing: only a disabled client that is no part of the provider can be deleted,
  afterwards no table names it any more, and every row of every other client is as it was.\<close>

theorem deleted_client_leaves_nothing:
  assumes "delete_client i d = (Changed, d')"
    and "pk (app_roles d)" and "pk (org_role_app_defaults d)" and "pk (user_app_role_overrides d)" and "pk (app_role_effective d)"
  shows "(\<exists>c. tget (oauth_clients d) i = Some c \<and> cl_disabled_at c \<noteq> None \<and> \<not> cl_is_system c)
    \<and> (\<forall>j. tget (oauth_clients d') j = (if j = i then None else tget (oauth_clients d) j)
        \<and> tget (app_role_catalogs d') j = (if j = i then None else tget (app_role_catalogs d) j)
        \<and> tget (app_role_sync_state d') j = (if j = i then None else tget (app_role_sync_state d) j)
        \<and> tget (event_destinations d') j = (if j = i then None else tget (event_destinations d) j)
        \<and> filter (\<lambda>r. ob_target r = j) (event_outbox d') = (if j = i then [] else filter (\<lambda>r. ob_target r = j) (event_outbox d))
        \<and> (\<forall>r. tget (app_roles d') (j, r) = (if j = i then None else tget (app_roles d) (j, r)))
        \<and> (\<forall>r. tget (org_role_app_defaults d') (r, j) = (if j = i then None else tget (org_role_app_defaults d) (r, j)))
        \<and> (\<forall>u. tget (user_app_role_overrides d') (u, j) = (if j = i then None else tget (user_app_role_overrides d) (u, j)))
        \<and> (\<forall>u. tget (app_role_effective d') (j, u) = (if j = i then None else tget (app_role_effective d) (j, u))))"
proof -
  obtain c where c: "tget (oauth_clients d) i = Some c" "cl_disabled_at c \<noteq> None" "\<not> cl_is_system c" and d': "d' = remove_client i d"
    using assms(1) by (auto simp: delete_client_def split: option.splits if_splits)
  have "filter (\<lambda>r. ob_target r = j) (filter (\<lambda>r. ob_target r \<noteq> i) (event_outbox d))
      = (if j = i then [] else filter (\<lambda>r. ob_target r = j) (event_outbox d))" for j
    by (induction "event_outbox d") (auto simp: filter_empty_conv intro!: filter_cong)
  moreover have "tget (tfilter (\<lambda>(c, _) _. c \<noteq> i) (app_roles d)) (j, r) = (if j = i then None else tget (app_roles d) (j, r))" for j r
    using tget_drop [OF assms(2), of "\<lambda>(c, _). c \<noteq> i"] by (simp add: case_prod_beta')
  moreover have "tget (tfilter (\<lambda>(_, c) _. c \<noteq> i) (org_role_app_defaults d)) (r, j)
      = (if j = i then None else tget (org_role_app_defaults d) (r, j))" for j r
    using tget_drop [OF assms(3), of "\<lambda>(_, c). c \<noteq> i"] by (simp add: case_prod_beta')
  moreover have "tget (tfilter (\<lambda>(_, c) _. c \<noteq> i) (user_app_role_overrides d)) (u, j)
      = (if j = i then None else tget (user_app_role_overrides d) (u, j))" for j u
    using tget_drop [OF assms(4), of "\<lambda>(_, c). c \<noteq> i"] by (simp add: case_prod_beta')
  moreover have "tget (tfilter (\<lambda>(c, _) _. c \<noteq> i) (app_role_effective d)) (j, u)
      = (if j = i then None else tget (app_role_effective d) (j, u))" for j u
    using tget_drop [OF assms(5), of "\<lambda>(c, _). c \<noteq> i"] by (simp add: case_prod_beta')
  ultimately show ?thesis using c d' by (simp add: remove_client_def tget_tdel)
qed

section \<open>Editing other fields\<close>













section \<open>Examples\<close>

text \<open>An administrator with a session and its CSRF token registers a client, and edits its name.\<close>

definition demo_parser :: url_parser where
  "demo_parser u = Some \<lparr>ul_protocol = ''https:'', ul_hostname = ''app.example'', ul_port = [], ul_pathname = drop 19 u, ul_search = [], ul_hash = []\<rparr>"

definition demo_console :: sso where
  "demo_console = (empty_sso (demo_org\<lparr>oauth_clients := [], role_permissions := [((''superadmin'', ''org.siteSettings.sso''), Grant)]\<rparr>))\<lparr>
     sessions := [(demo_sid, demo_session\<lparr>se_user := demo_root\<rparr>)], admin_csrf := [(demo_sid, (''c'', None))]\<rparr>"

definition demo_form :: "(string \<times> json) list" where
  "demo_form = [(''client_id'', JStr '' App''), (''name'', JStr ''App''), (''hostname'', JStr ''https://App.Example/x''),
     (''redirect_paths'', JArr [JStr ''cb'']), (''jwks'', JObj [(''keys'', JArr [JNull])]),
     (''allowed_scopes'', JArr [JStr ''openid'']), (''is_first_party'', JBool True), (''entry_policy'', JStr ''opt_in'')]"

definition demo_app :: client where
  "demo_app = (blank_client 7000)\<lparr>cl_name := ''App'', cl_redirect_uris := [''https://app.example/cb''],
     cl_jwks := Some (JObj [(''keys'', JArr [JNull])]), cl_scopes := [''openid'']\<rparr>"

definition demo_registered :: sso where
  "demo_registered = snd (registry_route demo_lib demo_parser demo_net demo_x 7000 (Some ''tok'') (Some ''c'') (CreateClient demo_form) demo_console)"

lemma demo_registers: "oauth_clients (core demo_registered) = [(''app'', demo_app)]"
  by code_simp

lemma demo_registration_history: "registry_history demo_lib demo_parser demo_net demo_x demo_console demo_registered"
  unfolding demo_registered_def by (intro registry_history.called registry_history.begun)

theorem clients_stay_well_formed_witness:
  "\<exists>h. hostname_re h \<and> (\<forall>u \<in> set (cl_redirect_uris demo_app) \<union> set_option (cl_events_uri demo_app).
      take 8 u = ''https://'' \<and> https_authority u = h)"
proof -
  have "registry_ok (oauth_clients (core demo_console))" by (simp add: registry_ok_def demo_console_def empty_sso_def tget_def)
  moreover have "tget (oauth_clients (core demo_registered)) ''app'' = Some demo_app" by (simp add: demo_registers tget_def)
  ultimately show ?thesis using clients_stay_well_formed [OF demo_registration_history] by blast
qed



end
