(* ===== verification/Mtls.thy ===== *)
theory Mtls
  imports Accounts
begin

text \<open>
  The client certificate of outgoing service calls (\<open>src/mtls.ts\<close>, \<open>src/s2sFetch.ts\<close>): its set-up, its
  installation against the private key, the switch of its use, and what a call presents.  X.509 and the
  generation of keys are the record \<open>cert_lib\<close>; an installation is one step.
\<close>

section \<open>Certificates\<close>

record certificate =
  ct_subject :: string
  ct_issuer :: string
  ct_valid_from :: int
  ct_valid_to :: int
  ct_spki :: "string option"

text \<open>\<open>cb_parse\<close> is \<open>new X509Certificate\<close> (\<open>None\<close>: it throws), \<open>cb_public\<close> the public key of a private key in
  PEM, \<open>cb_generate n cn\<close> the private key and the request of the \<open>n\<close>-th set-up.\<close>

record cert_lib =
  cb_parse :: "string \<Rightarrow> certificate option"
  cb_public :: "string \<Rightarrow> string option"
  cb_generate :: "nat \<Rightarrow> string \<Rightarrow> string \<times> string"

definition BEGIN_CERT :: string where "BEGIN_CERT = ''-----BEGIN CERTIFICATE-----''"
definition END_CERT :: string where "END_CERT = ''-----END CERTIFICATE-----''"

text \<open>The text before and after the first occurrence of a pattern.\<close>

fun find_sub :: "string \<Rightarrow> string \<Rightarrow> (string \<times> string) option" where
  "find_sub pat s =
    (if take (length pat) s = pat then Some ([], drop (length pat) s)
     else (case s of [] \<Rightarrow> None
       | c # cs \<Rightarrow> (case find_sub pat cs of None \<Rightarrow> None | Some (a, b) \<Rightarrow> Some (c # a, b))))"

declare find_sub.simps [simp del]

lemma find_sub_sound: "find_sub pat s = Some (a, b) \<Longrightarrow> s = a @ pat @ b"
proof (induction s arbitrary: a b)
  case Nil
  then show ?case by (auto simp: find_sub.simps [of pat "[]"] split: if_splits)
next
  case (Cons c cs)
  show ?case
  proof (cases "take (length pat) (c # cs) = pat")
    case True
    then show ?thesis using Cons.prems append_take_drop_id [of "length pat" "c # cs"]
      by (simp add: find_sub.simps [of pat "c # cs"])
  next
    case False
    then show ?thesis using Cons
      by (auto simp: find_sub.simps [of pat "c # cs"] split: option.splits prod.splits)
  qed
qed

text \<open>All matches of \<open>PEM_CERT_RE\<close>.\<close>

function pem_blocks :: "string \<Rightarrow> string list" where
  "pem_blocks s = (case find_sub BEGIN_CERT s of
      None \<Rightarrow> []
    | Some (_, rest) \<Rightarrow> (case find_sub END_CERT rest of
        None \<Rightarrow> []
      | Some (body, rest') \<Rightarrow> (BEGIN_CERT @ body @ END_CERT) # pem_blocks rest'))"
  by pat_completeness auto

termination
  by (relation "measure length") (auto dest!: find_sub_sound simp: BEGIN_CERT_def)

declare pem_blocks.simps [simp del]

definition leaf_text :: "string \<Rightarrow> string" where
  "leaf_text pem = (case pem_blocks pem of [] \<Rightarrow> pem | b # _ \<Rightarrow> b)"

text \<open>\<open>/CN=(.+)/\<close>: to the end of the line.\<close>

fun common_name :: "string \<Rightarrow> string option" where
  "common_name [] = None"
| "common_name (c # cs) =
    (let line = takeWhile (\<lambda>c. c \<noteq> CHR 0x0A \<and> c \<noteq> CHR 0x0D) (drop 2 cs) in
     if take 3 (c # cs) = ''CN='' \<and> line \<noteq> [] then Some line else common_name cs)"

definition name_or :: "string option \<Rightarrow> string option \<Rightarrow> string option" where
  "name_or v w = (case v of None \<Rightarrow> w | Some t \<Rightarrow> if trim t = [] then w else Some (trim t))"

record cert_info =
  cf_cn :: "string option"
  cf_issuer :: "string option"
  cf_not_before :: int
  cf_not_after :: int
  cf_expired :: bool

definition one_line :: "string \<Rightarrow> string" where
  "one_line s = concat (map (\<lambda>c. if c = CHR 0x0A then '', '' else [c]) s)"

definition cert_info_of :: "cert_lib \<Rightarrow> int \<Rightarrow> string \<Rightarrow> cert_info option" where
  "cert_info_of lib now pem = (case cb_parse lib (leaf_text pem) of
      None \<Rightarrow> None
    | Some c \<Rightarrow> Some \<lparr>cf_cn = name_or (common_name (ct_subject c)) None,
        cf_issuer = name_or (common_name (ct_issuer c))
          (if one_line (ct_issuer c) = [] then None else Some (one_line (ct_issuer c))),
        cf_not_before = ct_valid_from c, cf_not_after = ct_valid_to c, cf_expired = (ct_valid_to c < now)\<rparr>)"

datatype cert_refusal = ParseFailed | Expired | KeyMismatch | NoCert | NoKey | NotConfigured | CertUnreadable

fun parse_all :: "cert_lib \<Rightarrow> string list \<Rightarrow> certificate list option" where
  "parse_all lib [] = Some []"
| "parse_all lib (b # bs) = (case (cb_parse lib b, parse_all lib bs) of (Some c, Some cs) \<Rightarrow> Some (c # cs) | _ \<Rightarrow> None)"

text \<open>The first index whose certificate carries the key.\<close>

fun leaf_index :: "string \<Rightarrow> certificate list \<Rightarrow> nat option" where
  "leaf_index spki [] = None"
| "leaf_index spki (c # cs) = (if ct_spki c = Some spki then Some 0 else map_option Suc (leaf_index spki cs))"

definition leaf_first :: "nat \<Rightarrow> string list \<Rightarrow> string" where
  "leaf_first i blocks = join_on (CHR 0x0A) (blocks ! i # take i blocks @ drop (Suc i) blocks)"

definition validate_cert :: "cert_lib \<Rightarrow> int \<Rightarrow> string \<Rightarrow> string \<Rightarrow> cert_refusal + string" where
  "validate_cert lib now pem key =
    (let blocks = pem_blocks pem in
     if blocks = [] then Inl ParseFailed
     else (case parse_all lib blocks of
         None \<Rightarrow> Inl ParseFailed
       | Some parsed \<Rightarrow> (case cb_public lib key of
           None \<Rightarrow> Inl KeyMismatch
         | Some spki \<Rightarrow> (case leaf_index spki parsed of
             None \<Rightarrow> Inl KeyMismatch
           | Some i \<Rightarrow> if ct_valid_to (parsed ! i) < now then Inl Expired else Inr (leaf_first i blocks)))))"

section \<open>Operations\<close>

definition MTLS_CERT :: string where "MTLS_CERT = ''mtls_cert''"
definition MTLS_CN :: string where "MTLS_CN = ''mtls_cn''"
definition MTLS_ENFORCE :: string where "MTLS_ENFORCE = ''mtls_enforce''"
definition MTLS_ACTIVE_KEY :: string where "MTLS_ACTIVE_KEY = ''mtls_private_key''"
definition MTLS_PENDING_KEY :: string where "MTLS_PENDING_KEY = ''mtls_pending_key''"
definition MTLS_PENDING_CN :: string where "MTLS_PENDING_CN = ''mtls_pending_cn''"

datatype mtls_status = MtlsNotConfigured bool | MtlsConfigured bool cert_info | MtlsUnreadable

text \<open>A secret that is present and not empty.\<close>

definition secret_text :: "externals \<Rightarrow> db \<Rightarrow> string \<Rightarrow> string option" where
  "secret_text x d key = (case get_secret_setting x d key of None \<Rightarrow> None | Some t \<Rightarrow> if t = [] then None else Some t)"

definition mtls_status :: "externals \<Rightarrow> cert_lib \<Rightarrow> int \<Rightarrow> db \<Rightarrow> mtls_status" where
  "mtls_status x lib now d = (case get_setting d MTLS_CERT of
      None \<Rightarrow> MtlsNotConfigured (secret_text x d MTLS_PENDING_KEY \<noteq> None)
    | Some cert \<Rightarrow> (case cert_info_of lib now cert of
        None \<Rightarrow> MtlsUnreadable
      | Some info \<Rightarrow> MtlsConfigured (setting_or d MTLS_ENFORCE ''false'' = ''true'' \<and> \<not> cf_expired info) info))"

text \<open>\<open>randomCn\<close>.\<close>

definition random_cn :: "string \<Rightarrow> string" where
  "random_cn bytes = ''dreamsso-'' @ take 12 (filter is_alnum bytes)"

definition start_setup :: "externals \<Rightarrow> cert_lib \<Rightarrow> string option \<Rightarrow> sso \<Rightarrow> (string \<times> string) \<times> sso" where
  "start_setup x lib wanted s =
    (let (cn, s) = (case wanted of
           Some w \<Rightarrow> if trim w \<noteq> [] then (take 64 (trim w), s) else (case draw x s of (b, s) \<Rightarrow> (random_cn b, s))
         | None \<Rightarrow> (case draw x s of (b, s) \<Rightarrow> (random_cn b, s)));
         (key, csr) = cb_generate lib (draws s) cn
     in ((cn, csr), s\<lparr>draws := Suc (draws s),
           core := write_setting MTLS_PENDING_CN (Some cn) (set_secret_setting x MTLS_PENDING_KEY (Some key) (core s))\<rparr>))"

definition promote_pending :: "externals \<Rightarrow> string option \<Rightarrow> db \<Rightarrow> db" where
  "promote_pending x pending d = (case pending of
      None \<Rightarrow> d
    | Some k \<Rightarrow> write_setting MTLS_PENDING_CN None (set_secret_setting x MTLS_PENDING_KEY None
        (set_secret_setting x MTLS_ACTIVE_KEY (Some k) d)))"

definition install_cert :: "externals \<Rightarrow> cert_lib \<Rightarrow> int \<Rightarrow> json option \<Rightarrow> db \<Rightarrow> (cert_refusal + cert_info) \<times> db" where
  "install_cert x lib now body d =
    (let pem = trim (qstr body);
         pending = secret_text x d MTLS_PENDING_KEY
     in if pem = [] then (Inl NoCert, d)
        else (case (case pending of Some k \<Rightarrow> Some k | None \<Rightarrow> secret_text x d MTLS_ACTIVE_KEY) of
            None \<Rightarrow> (Inl NoKey, d)
          | Some key \<Rightarrow> (case validate_cert lib now pem key of
              Inl e \<Rightarrow> (Inl e, d)
            | Inr chain \<Rightarrow>
                let d = promote_pending x pending d in
                (case cert_info_of lib now chain of
                   None \<Rightarrow> (Inl CertUnreadable, d)
                 | Some info \<Rightarrow> (Inr info, write_setting MTLS_ENFORCE (Some ''true'')
                     (write_setting MTLS_CN (cf_cn info) (write_setting MTLS_CERT (Some chain) d)))))))"

definition set_enforce :: "cert_lib \<Rightarrow> int \<Rightarrow> bool \<Rightarrow> db \<Rightarrow> cert_refusal option \<times> db" where
  "set_enforce lib now enabled d =
    (let refusal = (if \<not> enabled then None
        else (case get_setting d MTLS_CERT of
            None \<Rightarrow> Some NotConfigured
          | Some cert \<Rightarrow> (case cert_info_of lib now cert of
              None \<Rightarrow> Some CertUnreadable
            | Some info \<Rightarrow> if cf_expired info then Some Expired else None)))
     in if refusal \<noteq> None then (refusal, d)
        else (None, write_setting MTLS_ENFORCE (Some (if enabled then ''true'' else ''false'')) d))"

definition mtls_reset :: "db \<Rightarrow> db" where
  "mtls_reset d = write_setting MTLS_ENFORCE (Some ''false'') (write_setting MTLS_PENDING_CN None
     (write_setting MTLS_PENDING_KEY None (write_setting MTLS_ACTIVE_KEY None
       (write_setting MTLS_CN None (write_setting MTLS_CERT None d)))))"

text \<open>\<open>Inl\<close>: the stored certificate cannot be read, and the call fails.\<close>

definition outbound_identity :: "externals \<Rightarrow> cert_lib \<Rightarrow> int \<Rightarrow> db \<Rightarrow> unit + (string \<times> string) option" where
  "outbound_identity x lib now d =
    (if setting_or d MTLS_ENFORCE ''false'' \<noteq> ''true'' then Inr None
     else (case (get_setting d MTLS_CERT, secret_text x d MTLS_ACTIVE_KEY) of
         (Some cert, Some key) \<Rightarrow> (case cert_info_of lib now cert of
             None \<Rightarrow> Inl () | Some info \<Rightarrow> Inr (if cf_expired info then None else Some (cert, key)))
       | _ \<Rightarrow> Inr None))"

section \<open>Outgoing calls\<close>

text \<open>\<open>s2sFetch\<close>: the cached agent with the certificate and key it presents.  \<open>Inl\<close> is the refusal of a process
  that is shutting down or of an unreadable certificate; \<open>Inr None\<close> a plain call.\<close>

record agent =
  ag_cert :: string
  ag_key :: string

definition s2s_fetch :: "externals \<Rightarrow> cert_lib \<Rightarrow> int \<Rightarrow> bool \<Rightarrow> db \<Rightarrow> agent option \<Rightarrow> (unit + agent option) \<times> agent option" where
  "s2s_fetch x lib now stopping d cached =
    (if stopping then (Inl (), cached)
     else (case outbound_identity x lib now d of
         Inl _ \<Rightarrow> (Inl (), cached)
       | Inr None \<Rightarrow> (Inr None, None)
       | Inr (Some (cert, key)) \<Rightarrow>
           let ag = (case cached of
               Some a \<Rightarrow> if ag_cert a = cert then a else \<lparr>ag_cert = cert, ag_key = key\<rparr>
             | None \<Rightarrow> \<lparr>ag_cert = cert, ag_key = key\<rparr>)
           in (Inr (Some ag), Some ag)))"

end
