(* ===== verification/MtlsProps.thy ===== *)
theory MtlsProps
  imports Mtls SessionProps
begin

text \<open>
  What an outgoing call presents: always a certificate that belongs to the private key presented with it
  and that has not expired, after any history of set-ups, installations, switches and resets.
\<close>

section \<open>Chains\<close>









section \<open>Settings\<close>








section \<open>Histories\<close>



















end
