(* ===== verification/AdminSettings.thy ===== *)
theory AdminSettings
  imports ClientRegistry KeyRotation Mtls
begin

text \<open>
  The rest of the console's API (\<open>src/routes/admin.ts\<close>): the list and rotation of signing keys, the relay to the
  account portal's own key, the client certificate, the site's settings, the key of the edge gate and the
  test message.
\<close>

section \<open>Signing keys\<close>

record listed_key =
  lk_kid :: string
  lk_key :: signing_key
  lk_in_jwks :: bool

definition list_keys :: "jwks \<Rightarrow> key_db \<Rightarrow> listed_key list" where
  "list_keys v d =
    (let kids = List.map_filter (\<lambda>j. case jmember j ''kid'' of Some (JStr k) \<Rightarrow> Some k | _ \<Rightarrow> None) v
     in filter (\<lambda>k. sk_status (lk_key k) \<noteq> KeyRetired \<or> lk_in_jwks k)
          (map (\<lambda>(kid, r). \<lparr>lk_kid = kid, lk_key = r, lk_in_jwks = (kid \<in> set kids)\<rparr>) (newest_first (signing_keys d))))"

datatype keys_reply = KeysListed "listed_key list" jwks key_status_doc | KeysFailed key_error | RotationAnswer nat key_status_doc

text \<open>\<open>GET /admin/api/keys\<close> and \<open>POST /admin/api/keys/rotate\<close>, with the process's key-set cache, which a
  change of the table invalidates.\<close>

definition keys_route :: "key_externals \<Rightarrow> int \<Rightarrow> (jwks \<times> int) option \<Rightarrow> key_db \<Rightarrow> keys_reply \<times> (jwks \<times> int) option \<times> key_db" where
  "keys_route x now cache d = (case key_status x now d of
      (Inl e, changed, d) \<Rightarrow> (KeysFailed e, if changed then None else cache, d)
    | (Inr status, changed, d) \<Rightarrow> (case get_jwks now (if changed then None else cache) d of
        (Inl e, cache) \<Rightarrow> (KeysFailed e, cache, d)
      | (Inr v, cache) \<Rightarrow> (KeysListed (list_keys v d) v status, cache, d)))"

definition rotate_route :: "key_externals \<Rightarrow> int \<Rightarrow> (jwks \<times> int) option \<Rightarrow> key_db \<Rightarrow> keys_reply \<times> (jwks \<times> int) option \<times> key_db" where
  "rotate_route x now cache d = (case rotate_key x now d of
      (Inl e, changed, d) \<Rightarrow> (KeysFailed e, if changed then None else cache, d)
    | (Inr status, changed, d) \<Rightarrow>
        (RotationAnswer (if ks_rotation status \<noteq> None then 202 else 200) status, if changed then None else cache, d))"

section \<open>The portal's client key\<close>

text \<open>\<open>relay verb path token\<close> is the call to the portal: no answer, a status that is no success, or a success
  with its status and the parsed body.  \<open>sign\<close> signs claims with a type under the current key.\<close>

datatype portal_answer = PortalUnreachable | PortalFailed nat | PortalOk nat "json option"

type_synonym portal_relay = "string \<Rightarrow> string \<Rightarrow> string \<Rightarrow> portal_answer"

datatype relay_reply = RelayRefused nat string | RelayStatus nat key_status_doc

definition trim_slashes :: "string \<Rightarrow> string" where
  "trim_slashes s = rev (dropWhile (\<lambda>c. c = CHR ''/'') (rev s))"

definition portal_url :: "db \<Rightarrow> string \<Rightarrow> string" where
  "portal_url d fallback = trim_slashes (setting_or d ''account_portal_url'' fallback)"

definition relay_claims :: "string \<Rightarrow> string \<Rightarrow> string \<Rightarrow> int \<Rightarrow> (string \<times> json) list" where
  "relay_claims issuer audience jti now =
    [(''iss'', JStr issuer), (''aud'', JStr audience), (''iat'', JInt (now_sec now)), (''exp'', JInt (now_sec now + 60)),
     (''jti'', JStr jti)]"

definition read_status :: "(string \<Rightarrow> int option) \<Rightarrow> json option \<Rightarrow> key_status_doc option" where
  "read_status date body = (case body of None \<Rightarrow> None | Some v \<Rightarrow> read_client_key_status date v)"

definition rotate_client_key ::
  "(string \<Rightarrow> int option) \<Rightarrow> (string \<Rightarrow> (string \<times> json) list \<Rightarrow> string) \<Rightarrow> portal_relay \<Rightarrow> string \<Rightarrow> string \<Rightarrow> string \<Rightarrow> string
   \<Rightarrow> int \<Rightarrow> db \<Rightarrow> relay_reply" where
  "rotate_client_key date sign relay issuer portal fallback jti now d =
    (case relay ''POST'' (portal_url d fallback @ ''/internal/rotate-client-key'') (sign ''rotate+jwt'' (relay_claims issuer portal jti now)) of
       PortalUnreachable \<Rightarrow> RelayRefused 502 ''portal_unreachable''
     | PortalFailed _ \<Rightarrow> RelayRefused 502 ''rotate_failed''
     | PortalOk status body \<Rightarrow> (case read_status date body of
         None \<Rightarrow> RelayRefused 502 ''portal_status_unavailable''
       | Some doc \<Rightarrow> RelayStatus (if status = 202 then 202 else 200) doc))"

definition client_key_status ::
  "(string \<Rightarrow> int option) \<Rightarrow> (string \<Rightarrow> (string \<times> json) list \<Rightarrow> string) \<Rightarrow> portal_relay \<Rightarrow> string \<Rightarrow> string \<Rightarrow> string \<Rightarrow> string
   \<Rightarrow> int \<Rightarrow> db \<Rightarrow> relay_reply" where
  "client_key_status date sign relay issuer portal fallback jti now d =
    (case relay ''GET'' (portal_url d fallback @ ''/internal/rotate-client-key'')
        (sign ''client-key-status+jwt'' ([(''method'', JStr ''GET''), (''path'', JStr ''/internal/rotate-client-key'')]
           @ relay_claims issuer portal jti now)) of
       PortalOk _ body \<Rightarrow> (case read_status date body of
         None \<Rightarrow> RelayRefused 502 ''portal_status_unavailable''
       | Some doc \<Rightarrow> RelayStatus 200 doc)
     | _ \<Rightarrow> RelayRefused 502 ''portal_status_unavailable'')"

section \<open>The settings form\<close>

datatype setting_reason =
    NeedsName
  | BarePortal
  | WholeHours int
  | BelowIdle
  | AboveMaximum
  | WholeMinutes
  | OwnFactorFirst
  | BadSiteKey
  | BadAddress
  | BadAccountId
  | BadApiBase

type_synonym setting_errors = "(string \<times> setting_reason) list"

definition str_member :: "(string \<times> json) list \<Rightarrow> string \<Rightarrow> string option" where
  "str_member b k = (case jmember b k of Some (JStr s) \<Rightarrow> Some (trim s) | _ \<Rightarrow> None)"

definition bool_member :: "(string \<times> json) list \<Rightarrow> string \<Rightarrow> bool option" where
  "bool_member b k = (case jmember b k of Some (JBool v) \<Rightarrow> Some v | _ \<Rightarrow> None)"

definition site_name_errors :: "string option \<Rightarrow> setting_errors" where
  "site_name_errors v = (case v of
      None \<Rightarrow> [] | Some t \<Rightarrow> if t = [] \<or> 100 < length t then [(''site_name'', NeedsName)] else [])"

text \<open>The portal's address: the value to store, or nothing if it is refused.\<close>

definition bare_portal :: "url_parser \<Rightarrow> string \<Rightarrow> string option" where
  "bare_portal url t = (case url t of
      None \<Rightarrow> None
    | Some u \<Rightarrow> let host = normalize_hostname (ul_hostname u) in
        if (ul_protocol u \<noteq> ''https:'' \<and> ul_protocol u \<noteq> ''http:'') \<or> ul_port u \<noteq> []
          \<or> (ul_pathname u \<noteq> ''/'' \<and> ul_pathname u \<noteq> []) \<or> ul_search u \<noteq> [] \<or> ul_hash u \<noteq> [] \<or> nm_error host \<noteq> None
        then None else Some (ul_protocol u @ ''//'' @ nm_value host))"

definition portal_errors :: "url_parser \<Rightarrow> string option \<Rightarrow> setting_errors" where
  "portal_errors url v = (case v of
      None \<Rightarrow> [] | Some t \<Rightarrow> if bare_portal url t = None then [(''account_portal_url'', BarePortal)] else [])"

text \<open>\<open>/^\d{1,4}$/\<close> between 1 and a bound.\<close>

definition whole_in :: "int \<Rightarrow> string \<Rightarrow> bool" where
  "whole_in hi t = (t \<noteq> [] \<and> length t \<le> 4 \<and> list_all is_digit t \<and> 1 \<le> int (nat_of_digits t) \<and> int (nat_of_digits t) \<le> hi)"

definition hour_val :: "int \<Rightarrow> string option \<Rightarrow> int option" where
  "hour_val hi v = (case v of None \<Rightarrow> None | Some t \<Rightarrow> if whole_in hi t then Some (int (nat_of_digits t)) else None)"

definition hour_errors :: "string \<Rightarrow> int \<Rightarrow> string option \<Rightarrow> setting_errors" where
  "hour_errors field hi v = (case v of None \<Rightarrow> [] | Some t \<Rightarrow> if whole_in hi t then [] else [(field, WholeHours hi)])"

definition effective_hours :: "db \<Rightarrow> int option \<Rightarrow> string \<Rightarrow> string \<Rightarrow> int option" where
  "effective_hours d v key fallback = (case v of Some n \<Rightarrow> Some n | None \<Rightarrow> parse_int (setting_or d key fallback))"

text \<open>A comparison with \<open>NaN\<close> is false.\<close>

definition js_less :: "int option \<Rightarrow> int option \<Rightarrow> bool" where
  "js_less a b = (case (a, b) of (Some m, Some n) \<Rightarrow> m < n | _ \<Rightarrow> False)"

definition window_errors :: "db \<Rightarrow> string option \<Rightarrow> string option \<Rightarrow> string option \<Rightarrow> setting_errors" where
  "window_errors d idle mx short =
    (let es = hour_errors ''session_idle_hours'' 2160 idle @ hour_errors ''session_max_hours'' 8760 mx
           @ hour_errors ''session_transient_max_hours'' 8760 short
     in if es \<noteq> [] \<or> (idle = None \<and> mx = None \<and> short = None) then es
        else let i = effective_hours d (hour_val 2160 idle) ''session_idle_hours'' ''72'';
                 m = effective_hours d (hour_val 8760 mx) ''session_max_hours'' ''168'';
                 t = effective_hours d (hour_val 8760 short) ''session_transient_max_hours'' ''24''
             in (if js_less m i then [(''session_max_hours'', BelowIdle)] else [])
                @ (if js_less m t then [(''session_transient_max_hours'', AboveMaximum)] else []))"

definition minutes_errors :: "string option \<Rightarrow> setting_errors" where
  "minutes_errors v = (case v of
      None \<Rightarrow> [] | Some t \<Rightarrow> if whole_in 1440 t then [] else [(''stepup_validity_minutes'', WholeMinutes)])"

definition own_factor_errors :: "sso \<Rightarrow> string \<Rightarrow> bool option \<Rightarrow> bool option \<Rightarrow> setting_errors" where
  "own_factor_errors s sub admin portal =
    (if (admin = Some True \<or> portal = Some True) \<and> count_passkeys s sub + count_authenticators s sub = 0
     then (if admin = Some True then [(''stepup_admin_required'', OwnFactorFirst)] else [])
        @ (if portal = Some True then [(''stepup_portal_required'', OwnFactorFirst)] else [])
     else [])"

definition optional_errors :: "string \<Rightarrow> (string \<Rightarrow> bool) \<Rightarrow> setting_reason \<Rightarrow> string option \<Rightarrow> setting_errors" where
  "optional_errors field ok why v = (case v of None \<Rightarrow> [] | Some t \<Rightarrow> if t = [] \<or> ok t then [] else [(field, why)])"

definition site_key_ok :: "string \<Rightarrow> bool" where
  "site_key_ok t = (list_all (\<lambda>c. \<not> is_ws c) t \<and> length t \<le> 100)"

definition account_id_ok :: "string \<Rightarrow> bool" where
  "account_id_ok t = (length t = 32 \<and> list_all is_hex_lower t)"

definition loopback_base :: "string \<Rightarrow> bool" where
  "loopback_base t = list_ex (\<lambda>host. take (length host) t = host
      \<and> (drop (length host) t = [] \<or> (hd (drop (length host) t) = CHR '':'' \<and> tl (drop (length host) t) \<noteq> []
          \<and> list_all is_digit (tl (drop (length host) t))))) [''http://localhost'', ''http://127.0.0.1'']"

definition api_base_ok :: "string \<Rightarrow> bool" where
  "api_base_ok t = (take 8 t = ''https://'' \<or> loopback_base t)"

definition settings_errors :: "url_parser \<Rightarrow> sso \<Rightarrow> string \<Rightarrow> (string \<times> json) list \<Rightarrow> setting_errors" where
  "settings_errors url s sub b =
    site_name_errors (str_member b ''site_name'') @ portal_errors url (str_member b ''account_portal_url'')
    @ window_errors (core s) (str_member b ''session_idle_hours'') (str_member b ''session_max_hours'')
        (str_member b ''session_transient_max_hours'')
    @ minutes_errors (str_member b ''stepup_validity_minutes'')
    @ own_factor_errors s sub (bool_member b ''stepup_admin_required'') (bool_member b ''stepup_portal_required'')
    @ optional_errors ''turnstile_site_key'' site_key_ok BadSiteKey (str_member b ''turnstile_site_key'')
    @ optional_errors ''mail_from'' email_shape BadAddress (str_member b ''mail_from'')
    @ optional_errors ''cf_account_id'' account_id_ok BadAccountId (str_member b ''cf_account_id'')
    @ optional_errors ''cf_api_base'' api_base_ok BadApiBase (str_member b ''cf_api_base'')"

section \<open>Writing the settings\<close>

definition write_when :: "string \<Rightarrow> string option \<Rightarrow> db \<Rightarrow> db" where
  "write_when key v d = (case v of None \<Rightarrow> d | Some t \<Rightarrow> write_setting key (Some t) d)"

definition show_bool :: "bool \<Rightarrow> string" where
  "show_bool v = (if v then ''true'' else ''false'')"

definition secret_when :: "externals \<Rightarrow> string \<Rightarrow> string option \<Rightarrow> db \<Rightarrow> db" where
  "secret_when x key v d = (case v of None \<Rightarrow> d | Some t \<Rightarrow> if t = [] then d else set_secret_setting x key (Some t) d)"

definition org_settings_event :: "string \<Rightarrow> out_event" where
  "org_settings_event name = \<lparr>oe_type = ''org.settings'', oe_payload = JObj [(''site_name'', JStr name)], oe_version = None, oe_id = None\<rparr>"

definition event_connected :: "string \<Rightarrow> db \<Rightarrow> string list" where
  "event_connected portal d = map fst (filter (\<lambda>(i, c). cl_events_uri c \<noteq> None \<and> cl_disabled_at c = None \<and> i \<noteq> portal) (oauth_clients d))"

definition write_site_name :: "externals \<Rightarrow> string \<Rightarrow> int \<Rightarrow> string option \<Rightarrow> sso \<Rightarrow> sso" where
  "write_site_name x portal now v s = (case v of
      None \<Rightarrow> s
    | Some name \<Rightarrow>
        let previous = setting_or (core s) ''site_name'' ''DreamSSO'';
            s = s\<lparr>core := write_setting ''site_name'' (Some name) (core s)\<rparr>
        in if previous = name then s
           else fold (\<lambda>c. enqueue_events x now c [org_settings_event name]) (event_connected portal (core s)) s)"

definition write_settings :: "externals \<Rightarrow> url_parser \<Rightarrow> (string \<times> json) list \<Rightarrow> db \<Rightarrow> db" where
  "write_settings x url b d =
    (let d = write_when ''account_portal_url'' (Option.bind (str_member b ''account_portal_url'') (bare_portal url)) d;
         d = write_when ''session_idle_hours'' (map_option show_int (hour_val 2160 (str_member b ''session_idle_hours''))) d;
         d = write_when ''session_max_hours'' (map_option show_int (hour_val 8760 (str_member b ''session_max_hours''))) d;
         d = write_when ''session_transient_max_hours'' (map_option show_int (hour_val 8760 (str_member b ''session_transient_max_hours''))) d;
         d = write_when ''stepup_admin_required'' (map_option show_bool (bool_member b ''stepup_admin_required'')) d;
         d = write_when ''stepup_portal_required'' (map_option show_bool (bool_member b ''stepup_portal_required'')) d;
         d = write_when ''enable_registration'' (map_option show_bool (bool_member b ''enable_registration'')) d;
         d = write_when ''require_invitation_code'' (map_option show_bool (bool_member b ''require_invitation_code'')) d;
         d = write_when ''stepup_validity_minutes'' (str_member b ''stepup_validity_minutes'') d;
         d = write_when ''mail_from'' (str_member b ''mail_from'') d;
         d = write_when ''cf_account_id'' (str_member b ''cf_account_id'') d;
         d = write_when ''cf_api_base'' (str_member b ''cf_api_base'') d;
         d = secret_when x ''cf_api_token'' (case jmember b ''cf_api_token'' of Some (JStr t) \<Rightarrow> Some t | _ \<Rightarrow> None) d;
         d = write_when ''turnstile_site_key'' (str_member b ''turnstile_site_key'') d
     in secret_when x ''turnstile_secret_key'' (str_member b ''turnstile_secret_key'') d)"

datatype settings_reply = SettingsRefused api | SettingsInvalid setting_errors | SettingsSaved

definition put_settings :: "externals \<Rightarrow> url_parser \<Rightarrow> string \<Rightarrow> int \<Rightarrow> string \<Rightarrow> (string \<times> json) list \<Rightarrow> sso \<Rightarrow> settings_reply \<times> sso" where
  "put_settings x url portal now sub b s =
    (let errors = settings_errors url s sub b
     in if errors \<noteq> [] then (SettingsInvalid errors, s)
        else let s = write_site_name x portal now (str_member b ''site_name'') s
             in (SettingsSaved, s\<lparr>core := write_settings x url b (core s)\<rparr>))"

definition put_settings_route ::
  "externals \<Rightarrow> url_parser \<Rightarrow> string \<Rightarrow> int \<Rightarrow> string option \<Rightarrow> string option \<Rightarrow> (string \<times> json) list \<Rightarrow> sso \<Rightarrow> settings_reply \<times> sso" where
  "put_settings_route x url portal now token header b s =
    (case admin_mutation x now token header s of
       (Inl e, s) \<Rightarrow> (SettingsRefused e, s)
     | (Inr a, s) \<Rightarrow> put_settings x url portal now (a_user a) b s)"

section \<open>Reading the settings\<close>

record settings_view =
  sv_site_name :: string
  sv_portal :: string
  sv_idle :: string
  sv_max :: string
  sv_transient :: string
  sv_stepup_admin :: bool
  sv_stepup_portal :: bool
  sv_stepup_minutes :: string
  sv_mail_from :: "string option"
  sv_account_id :: "string option"
  sv_token_set :: bool
  sv_site_key :: "string option"
  sv_secret_set :: bool
  sv_gate_key :: "(json \<times> json) option"
  sv_registration :: bool
  sv_invitations :: bool
  sv_live_invites :: nat

text \<open>The identity of the edge gate's key; a corrupt row reads as none.\<close>

definition gate_key_view :: "externals \<Rightarrow> db \<Rightarrow> (json \<times> json) option" where
  "gate_key_view x d = (case get_setting d ''gate_signing_public_jwk'' of
      None \<Rightarrow> None
    | Some raw \<Rightarrow> (case present (x_parse_json x raw) of
        None \<Rightarrow> None
      | Some v \<Rightarrow> let ms = (case v of JObj ms \<Rightarrow> ms | _ \<Rightarrow> []);
            field = (\<lambda>k fb. case present (jmember ms k) of Some w \<Rightarrow> w | None \<Rightarrow> JStr fb)
          in Some (field ''kid'' ''?'', field ''created_at'' [])))"

definition live_invites :: "int \<Rightarrow> sso \<Rightarrow> nat" where
  "live_invites now s = length (filter (\<lambda>(_, i). iv_used_by i = None \<and> iv_voided_at i = None \<and> iv_expires_at i > now) (invites s))"

definition get_settings :: "externals \<Rightarrow> string \<Rightarrow> int \<Rightarrow> sso \<Rightarrow> settings_view" where
  "get_settings x portal now s =
    (let d = core s in
     \<lparr>sv_site_name = setting_or d ''site_name'' ''DreamSSO'', sv_portal = setting_or d ''account_portal_url'' portal,
      sv_idle = setting_or d ''session_idle_hours'' ''72'', sv_max = setting_or d ''session_max_hours'' ''168'',
      sv_transient = setting_or d ''session_transient_max_hours'' ''24'',
      sv_stepup_admin = (setting_or d ''stepup_admin_required'' ''false'' = ''true''),
      sv_stepup_portal = (setting_or d ''stepup_portal_required'' ''false'' = ''true''),
      sv_stepup_minutes = setting_or d ''stepup_validity_minutes'' ''30'',
      sv_mail_from = get_setting d ''mail_from'', sv_account_id = get_setting d ''cf_account_id'',
      sv_token_set = has_setting d ''cf_api_token'', sv_site_key = get_setting d ''turnstile_site_key'',
      sv_secret_set = has_setting d ''turnstile_secret_key'', sv_gate_key = gate_key_view x d,
      sv_registration = (setting_or d ''enable_registration'' ''false'' = ''true''),
      sv_invitations = (setting_or d ''require_invitation_code'' ''true'' = ''true''),
      sv_live_invites = live_invites now s\<rparr>)"

section \<open>The edge gate and the test message\<close>

text \<open>\<open>pair n\<close> is the \<open>n\<close>-th generated key pair as public and private JWK; the private one is answered once and
  not stored.\<close>

record gate_key_answer =
  gk_private :: "(string \<times> json) list"
  gk_kid :: string
  gk_created_at :: string

definition generate_gate_key ::
  "externals \<Rightarrow> (nat \<Rightarrow> (string \<times> json) list \<times> (string \<times> json) list) \<Rightarrow> (int \<Rightarrow> string) \<Rightarrow> int \<Rightarrow> sso \<Rightarrow> gate_key_answer \<times> sso" where
  "generate_gate_key x pair show_at now s =
    (let (pub, priv) = pair (draws s);
         (kid, s) = draw x (s\<lparr>draws := Suc (draws s)\<rparr>);
         stored = tput ''created_at'' (JStr (show_at now)) (tput ''kid'' (JStr kid) pub)
     in (\<lparr>gk_private = tput ''kid'' (JStr kid) priv, gk_kid = kid, gk_created_at = show_at now\<rparr>,
         s\<lparr>core := write_setting ''gate_signing_public_jwk'' (Some (stringify (JObj stored))) (core s)\<rparr>))"

datatype test_reply = TestInvalid | TestFailed | TestSent

definition test_email :: "externals \<Rightarrow> (string \<times> json) list \<Rightarrow> sso \<Rightarrow> test_reply \<times> sso" where
  "test_email x b s =
    (let to' = trim (qstr (jmember b ''to'')) in
     if \<not> email_shape to' then (TestInvalid, s)
     else (case send_email x to' (''test '' @ setting_or (core s) ''site_name'' ''DreamSSO'') s of
         (ok, s) \<Rightarrow> (if ok then TestSent else TestFailed, s)))"

section \<open>The certificate routes\<close>

text \<open>A mutating route of the console runs behind the guards of \<open>AdminDoor\<close>.\<close>

definition behind_door ::
  "externals \<Rightarrow> int \<Rightarrow> string option \<Rightarrow> string option \<Rightarrow> (active_session \<Rightarrow> sso \<Rightarrow> 'r \<times> sso) \<Rightarrow> sso \<Rightarrow> (api + 'r) \<times> sso" where
  "behind_door x now token header handler s =
    (case admin_mutation x now token header s of
       (Inl e, s) \<Rightarrow> (Inl e, s)
     | (Inr a, s) \<Rightarrow> (case handler a s of (r, s) \<Rightarrow> (Inr r, s)))"

datatype mtls_reply = CsrAnswer string string | CertRefused cert_refusal | CertInstalled cert_info | MtlsDone | MtlsCrashed

definition mtls_csr_route :: "externals \<Rightarrow> cert_lib \<Rightarrow> (string \<times> json) list \<Rightarrow> sso \<Rightarrow> mtls_reply \<times> sso" where
  "mtls_csr_route x lib b s =
    (case start_setup x lib (case jmember b ''cn'' of Some (JStr t) \<Rightarrow> Some t | _ \<Rightarrow> None) s of
       ((cn, csr), s) \<Rightarrow> (CsrAnswer cn csr, s))"

definition mtls_cert_route :: "externals \<Rightarrow> cert_lib \<Rightarrow> int \<Rightarrow> (string \<times> json) list \<Rightarrow> sso \<Rightarrow> mtls_reply \<times> sso" where
  "mtls_cert_route x lib now b s =
    (case install_cert x lib now (jmember b ''cert'') (core s) of
       (Inl e, d) \<Rightarrow> (if e = CertUnreadable then MtlsCrashed else CertRefused e, s\<lparr>core := d\<rparr>)
     | (Inr info, d) \<Rightarrow> (CertInstalled info, s\<lparr>core := d\<rparr>))"

definition mtls_enforce_route :: "cert_lib \<Rightarrow> int \<Rightarrow> (string \<times> json) list \<Rightarrow> sso \<Rightarrow> mtls_reply \<times> sso" where
  "mtls_enforce_route lib now b s =
    (case set_enforce lib now (truthy (jmember b ''enabled'')) (core s) of
       (Some e, d) \<Rightarrow> (if e = CertUnreadable then MtlsCrashed else CertRefused e, s\<lparr>core := d\<rparr>)
     | (None, d) \<Rightarrow> (MtlsDone, s\<lparr>core := d\<rparr>))"

definition mtls_delete_route :: "sso \<Rightarrow> mtls_reply \<times> sso" where
  "mtls_delete_route s = (MtlsDone, s\<lparr>core := mtls_reset (core s)\<rparr>)"

end
