(* ===== verification/AdminSettingsProps.thy ===== *)
theory AdminSettingsProps
  imports AdminSettings SessionProps
begin

text \<open>
  What the settings form guarantees: the session windows it stores are the ones in force, and the
  administrator who demands step-up verification for the console can pass it.
\<close>

section \<open>Settings after a write\<close>

lemma get_write_when:
  "get_setting (write_when k v d) j = (if j = k \<and> v \<noteq> None then (if v = Some [] then None else v) else get_setting d j)"
  by (auto simp: write_when_def get_setting_def write_setting_def tbl_simps split: option.splits)

lemma get_secret_when: "j \<noteq> k \<Longrightarrow> get_setting (secret_when x k v d) j = get_setting d j"
  by (auto simp: secret_when_def set_secret_setting_def get_setting_def write_setting_def tbl_simps split: option.splits)

lemma show_int_nonempty: "0 \<le> n \<Longrightarrow> show_int n \<noteq> []"
  by (simp add: show_int_def)

lemma write_settings_hours:
  "get_setting (write_settings x url b d) ''session_idle_hours'' = (case hour_val 2160 (str_member b ''session_idle_hours'') of
     Some n \<Rightarrow> Some (show_int n) | None \<Rightarrow> get_setting d ''session_idle_hours'')"
  "get_setting (write_settings x url b d) ''session_max_hours'' = (case hour_val 8760 (str_member b ''session_max_hours'') of
     Some n \<Rightarrow> Some (show_int n) | None \<Rightarrow> get_setting d ''session_max_hours'')"
  "get_setting (write_settings x url b d) ''session_transient_max_hours'' = (case hour_val 8760 (str_member b ''session_transient_max_hours'') of
     Some n \<Rightarrow> Some (show_int n) | None \<Rightarrow> get_setting d ''session_transient_max_hours'')"
  by (auto simp: write_settings_def Let_def get_write_when get_secret_when hour_val_def show_int_nonempty split: option.splits if_splits)

lemma write_settings_door:
  "get_setting (write_settings x url b d) ''stepup_admin_required'' = (case bool_member b ''stepup_admin_required'' of
     Some v \<Rightarrow> Some (show_bool v) | None \<Rightarrow> get_setting d ''stepup_admin_required'')"
  by (auto simp: write_settings_def Let_def get_write_when get_secret_when show_bool_def split: option.splits)

lemma enqueue_settings: "settings (core (enqueue_events x now c evs s)) = settings (core s)"
  by (auto simp: enqueue_events_def same_role_tables_def split: sum.splits dest!: insert_events_frame)

lemma broadcast_settings:
  "settings (core (fold (\<lambda>c. enqueue_events x now c evs) cs s)) = settings (core s)"
  by (induction cs arbitrary: s) (simp_all add: enqueue_settings)

lemma broadcast_factors:
  "passkeys (fold (\<lambda>c. enqueue_events x now c evs) cs s) = passkeys s
   \<and> totp_credentials (fold (\<lambda>c. enqueue_events x now c evs) cs s) = totp_credentials s"
  by (induction cs arbitrary: s) (auto simp: enqueue_events_def split: sum.splits)

lemma site_name_setting: "j \<noteq> ''site_name'' \<Longrightarrow> get_setting (core (write_site_name x portal now v s)) j = get_setting (core s) j"
  by (auto simp: write_site_name_def Let_def get_setting_def broadcast_settings write_setting_def tbl_simps split: option.splits)

lemma site_name_factors:
  "passkeys (write_site_name x portal now v s) = passkeys s \<and> totp_credentials (write_site_name x portal now v s) = totp_credentials s"
  by (auto simp: write_site_name_def Let_def broadcast_factors split: option.splits)

section \<open>Reading numbers\<close>

lemma digit_facts: "is_digit c \<Longrightarrow> \<not> is_ws c \<and> c \<noteq> CHR ''-'' \<and> c \<noteq> CHR ''+''"
  by (auto simp: is_digit_def is_ws_def less_eq_char_def)

lemma parse_digits: "list_all is_digit t \<Longrightarrow> t \<noteq> [] \<Longrightarrow> parse_int t = Some (int (nat_of_digits t))"
proof -
  assume d: "list_all is_digit t" and n: "t \<noteq> []"
  obtain c cs where t: "t = c # cs" using n by (cases t) auto
  have dw: "dropWhile is_ws t = t" using d digit_facts t by simp
  have hd: "hd t \<noteq> CHR ''-''" "hd t \<noteq> CHR ''+''" using d digit_facts t by simp_all
  have tw: "takeWhile is_digit t = t" using d by (simp add: takeWhile_eq_all_conv list_all_iff)
  show ?thesis by (simp add: parse_int_def Let_def dw hd tw n)
qed

lemma parse_show: "0 \<le> n \<Longrightarrow> parse_int (show_int n) = Some n"
  using parse_digits [OF show_nat_digits show_nat_nonempty, of "nat n"]
  by (simp add: show_int_def nat_of_digits_show)

lemma default_hours: "parse_int ''72'' = Some 72" "parse_int ''168'' = Some 168" "parse_int ''24'' = Some 24"
  by code_simp+

section \<open>Session windows\<close>

definition hours_of :: "db \<Rightarrow> string \<Rightarrow> string \<Rightarrow> int option" where
  "hours_of d key fallback = parse_int (setting_or d key fallback)"

definition windows_ok :: "db \<Rightarrow> bool" where
  "windows_ok d = (\<exists>i m t. hours_of d ''session_idle_hours'' ''72'' = Some i \<and> hours_of d ''session_max_hours'' ''168'' = Some m
     \<and> hours_of d ''session_transient_max_hours'' ''24'' = Some t
     \<and> 1 \<le> i \<and> i \<le> 2160 \<and> 1 \<le> m \<and> m \<le> 8760 \<and> 1 \<le> t \<and> t \<le> 8760 \<and> i \<le> m \<and> t \<le> m)"

lemma windows_ok_same:
  assumes "\<And>k. k \<in> {''session_idle_hours'', ''session_max_hours'', ''session_transient_max_hours''} \<Longrightarrow> get_setting d' k = get_setting d k"
  shows "windows_ok d' = windows_ok d"
  using assms by (simp add: windows_ok_def hours_of_def setting_or_def)

lemma windows_ok_fresh:
  assumes "\<And>k. k \<in> {''session_idle_hours'', ''session_max_hours'', ''session_transient_max_hours''} \<Longrightarrow> get_setting d k = None"
  shows "windows_ok d"
  using assms by (simp add: windows_ok_def hours_of_def setting_or_def default_hours)

lemma clamp_in_range: "parse_int (case v of Some s \<Rightarrow> s | None \<Rightarrow> fb) = Some n \<Longrightarrow> 1 \<le> n \<Longrightarrow> n \<le> m \<Longrightarrow> parse_int fb = Some f \<Longrightarrow>
    clamp_hours v f m = n"
  by (cases v) (simp_all add: clamp_hours_def parse_int_def)

lemma windows_in_force:
  assumes "windows_ok d"
  shows "hours_of d ''session_idle_hours'' ''72'' = Some (w_idle (get_session_windows d))
    \<and> hours_of d ''session_max_hours'' ''168'' = Some (w_max (get_session_windows d))
    \<and> hours_of d ''session_transient_max_hours'' ''24'' = Some (w_transient (get_session_windows d))
    \<and> 1 \<le> w_idle (get_session_windows d) \<and> 1 \<le> w_transient (get_session_windows d)
    \<and> w_idle (get_session_windows d) \<le> w_max (get_session_windows d) \<and> w_transient (get_session_windows d) \<le> w_max (get_session_windows d)"
proof -
  obtain i m t where h: "hours_of d ''session_idle_hours'' ''72'' = Some i" "hours_of d ''session_max_hours'' ''168'' = Some m"
      "hours_of d ''session_transient_max_hours'' ''24'' = Some t"
    and r: "1 \<le> i" "i \<le> 2160" "1 \<le> m" "m \<le> 8760" "1 \<le> t" "t \<le> 8760" "i \<le> m" "t \<le> m"
    using assms by (auto simp: windows_ok_def)
  have "clamp_hours (get_setting d ''session_idle_hours'') 72 2160 = i"
    using h(1) r default_hours(1) by (intro clamp_in_range [where fb = "''72''"]) (simp_all add: hours_of_def setting_or_def)
  moreover have "clamp_hours (get_setting d ''session_max_hours'') 168 8760 = m"
    using h(2) r default_hours(2) by (intro clamp_in_range [where fb = "''168''"]) (simp_all add: hours_of_def setting_or_def)
  moreover have "clamp_hours (get_setting d ''session_transient_max_hours'') 24 8760 = t"
    using h(3) r default_hours(3) by (intro clamp_in_range [where fb = "''24''"]) (simp_all add: hours_of_def setting_or_def)
  ultimately show ?thesis using h r by (simp add: get_session_windows_def Let_def)
qed

lemma hour_errors_Nil: "hour_errors f hi v = [] \<longleftrightarrow> v = None \<or> (\<exists>n. hour_val hi v = Some n \<and> 1 \<le> n \<and> n \<le> hi)"
  by (auto simp: hour_errors_def hour_val_def whole_in_def split: option.splits)

lemma hour_val_None [simp]: "hour_val hi None = None"
  by (simp add: hour_val_def)

text \<open>What the form computed is what the stored value reads as.\<close>

lemma effective_stored:
  assumes "\<And>n. hour_val hi v = Some n \<Longrightarrow> 1 \<le> n"
    and "get_setting d' key = (case hour_val hi v of Some n \<Rightarrow> Some (show_int n) | None \<Rightarrow> get_setting d key)"
  shows "hours_of d' key fb = effective_hours d (hour_val hi v) key fb"
proof (cases "hour_val hi v")
  case None
  then show ?thesis using assms(2) by (simp add: hours_of_def effective_hours_def setting_or_def)
next
  case (Some n)
  then have "0 \<le> n" using assms(1) by fastforce
  then show ?thesis using assms(2) Some parse_show by (simp add: hours_of_def effective_hours_def setting_or_def)
qed

lemma saved_windows:
  assumes "window_errors d idle mx short = []" and "windows_ok d"
    and "get_setting d' ''session_idle_hours'' = (case hour_val 2160 idle of Some n \<Rightarrow> Some (show_int n) | None \<Rightarrow> get_setting d ''session_idle_hours'')"
    and "get_setting d' ''session_max_hours'' = (case hour_val 8760 mx of Some n \<Rightarrow> Some (show_int n) | None \<Rightarrow> get_setting d ''session_max_hours'')"
    and "get_setting d' ''session_transient_max_hours'' = (case hour_val 8760 short of Some n \<Rightarrow> Some (show_int n) | None \<Rightarrow> get_setting d ''session_transient_max_hours'')"
  shows "windows_ok d'"
proof (cases "idle = None \<and> mx = None \<and> short = None")
  case True
  then show ?thesis using assms(2-5) windows_ok_same [of d' d] by auto
next
  case False
  have e: "hour_errors ''session_idle_hours'' 2160 idle = []" "hour_errors ''session_max_hours'' 8760 mx = []"
      "hour_errors ''session_transient_max_hours'' 8760 short = []"
    using assms(1) False by (auto simp: window_errors_def Let_def split: if_splits)
  obtain i m t where h: "hours_of d ''session_idle_hours'' ''72'' = Some i" "hours_of d ''session_max_hours'' ''168'' = Some m"
      "hours_of d ''session_transient_max_hours'' ''24'' = Some t"
    and r: "1 \<le> i" "i \<le> 2160" "1 \<le> m" "m \<le> 8760" "1 \<le> t" "t \<le> 8760"
    using assms(2) by (auto simp: windows_ok_def)
  define i' where "i' = (case hour_val 2160 idle of Some n \<Rightarrow> n | None \<Rightarrow> i)"
  define m' where "m' = (case hour_val 8760 mx of Some n \<Rightarrow> n | None \<Rightarrow> m)"
  define t' where "t' = (case hour_val 8760 short of Some n \<Rightarrow> n | None \<Rightarrow> t)"
  have range: "1 \<le> i'" "i' \<le> 2160" "1 \<le> m'" "m' \<le> 8760" "1 \<le> t'" "t' \<le> 8760"
    using e r by (auto simp: hour_errors_Nil i'_def m'_def t'_def split: option.splits)
  have eff: "effective_hours d (hour_val 2160 idle) ''session_idle_hours'' ''72'' = Some i'"
      "effective_hours d (hour_val 8760 mx) ''session_max_hours'' ''168'' = Some m'"
      "effective_hours d (hour_val 8760 short) ''session_transient_max_hours'' ''24'' = Some t'"
    using h by (simp_all add: effective_hours_def i'_def m'_def t'_def hours_of_def split: option.splits)
  have "\<not> m' < i'" "\<not> m' < t'"
    using assms(1) False e eff by (auto simp: window_errors_def js_less_def split: if_splits)
  moreover have "hours_of d' ''session_idle_hours'' ''72'' = Some i'"
    using effective_stored [OF _ assms(3), of "''72''"] eff(1) e(1) by (auto simp: hour_errors_Nil)
  moreover have "hours_of d' ''session_max_hours'' ''168'' = Some m'"
    using effective_stored [OF _ assms(4), of "''168''"] eff(2) e(2) by (auto simp: hour_errors_Nil)
  moreover have "hours_of d' ''session_transient_max_hours'' ''24'' = Some t'"
    using effective_stored [OF _ assms(5), of "''24''"] eff(3) e(3) by (auto simp: hour_errors_Nil)
  ultimately show ?thesis using range by (auto simp: windows_ok_def)
qed

lemma put_settings_windows:
  assumes "windows_ok (core s)"
  shows "windows_ok (core (snd (put_settings x url portal now sub b s)))"
proof (cases "settings_errors url s sub b = []")
  case False
  then show ?thesis using assms by (simp add: put_settings_def)
next
  case True
  let ?s1 = "write_site_name x portal now (str_member b ''site_name'') s"
  have w: "window_errors (core s) (str_member b ''session_idle_hours'') (str_member b ''session_max_hours'')
      (str_member b ''session_transient_max_hours'') = []"
    using True by (simp add: settings_errors_def)
  have c: "core (snd (put_settings x url portal now sub b s)) = write_settings x url b (core ?s1)"
    using True by (simp add: put_settings_def Let_def)
  show ?thesis
    unfolding c
    by (rule saved_windows [OF w assms]) (simp_all add: write_settings_hours site_name_setting split: option.split)
qed

inductive settings_history :: "externals \<Rightarrow> url_parser \<Rightarrow> string \<Rightarrow> sso \<Rightarrow> sso \<Rightarrow> bool" for x url portal where
  begun: "settings_history x url portal s s"
| saved: "settings_history x url portal s t \<Longrightarrow>
     settings_history x url portal s (snd (put_settings_route x url portal now token header b t))"
| elsewhere: "settings_history x url portal s t \<Longrightarrow>
     \<forall>k \<in> {''session_idle_hours'', ''session_max_hours'', ''session_transient_max_hours''}. get_setting (core u) k = get_setting (core t) k \<Longrightarrow>
     settings_history x url portal s u"

lemma guard_core: "core (snd (admin_mutation x now token header s)) = core s"
proof -
  have "core (snd (load_session x now token s)) = core s"
    by (auto simp: load_session_def touch_session_def Let_def split: option.splits if_splits prod.splits)
  then have "core (snd (require_admin x now token s)) = core s"
    by (auto simp: require_admin_def split: option.splits prod.splits)
  then show ?thesis by (auto simp: admin_mutation_def split: sum.splits prod.splits)
qed

lemma route_windows:
  assumes "windows_ok (core s)"
  shows "windows_ok (core (snd (put_settings_route x url portal now token header b s)))"
proof -
  obtain r s1 where g: "admin_mutation x now token header s = (r, s1)" by fastforce
  then have "core s1 = core s" using guard_core [of x now token header s] by simp
  then show ?thesis using assms g put_settings_windows [of s1] by (cases r) (simp_all add: put_settings_route_def)
qed

text \<open>C11. The session windows the console stores are the ones in force: from a fresh installation, after any
  history of saves, each accepted as a whole or refused as a whole, the idle, absolute and transient
  windows that sessions are measured with are the very numbers the settings say, at least one hour, and
  neither the idle nor the transient window is longer than the absolute one.\<close>

theorem session_windows_in_force:
  assumes "settings_history x url portal s t"
    and "\<forall>k \<in> {''session_idle_hours'', ''session_max_hours'', ''session_transient_max_hours''}. get_setting (core s) k = None"
  shows "parse_int (setting_or (core t) ''session_idle_hours'' ''72'') = Some (w_idle (get_session_windows (core t)))
    \<and> parse_int (setting_or (core t) ''session_max_hours'' ''168'') = Some (w_max (get_session_windows (core t)))
    \<and> parse_int (setting_or (core t) ''session_transient_max_hours'' ''24'') = Some (w_transient (get_session_windows (core t)))
    \<and> 1 \<le> w_idle (get_session_windows (core t)) \<and> 1 \<le> w_transient (get_session_windows (core t))
    \<and> w_idle (get_session_windows (core t)) \<le> w_max (get_session_windows (core t))
    \<and> w_transient (get_session_windows (core t)) \<le> w_max (get_session_windows (core t))"
proof -
  have "windows_ok (core t)" using assms
  proof (induction rule: settings_history.induct)
    case (begun s)
    then show ?case using windows_ok_fresh by blast
  next
    case (saved s t now token header b)
    then show ?case using route_windows by blast
  next
    case (elsewhere s t u)
    then show ?case using windows_ok_same [of "core u" "core t"] by blast
  qed
  then show ?thesis using windows_in_force by (simp add: hours_of_def)
qed

text \<open>The administrator who demands step-up verification for the console is not locked out by it: a save that
  switches the demand on leaves it in force, and the step-up methods accepted from that administrator
  are not empty, so the console's door asks for a factor and never for an enrolment.\<close>

theorem stepup_door_is_passable:
  assumes "put_settings x url portal now sub b s = (SettingsSaved, s')" and "jmember b ''stepup_admin_required'' = Some (JBool True)"
  shows "admin_stepup_required (core s') \<and> as_accepted (accepted_stepup_methods s' sub StrongMandatory) \<noteq> []
    \<and> \<not> as_enroll_required (accepted_stepup_methods s' sub StrongMandatory)"
proof -
  let ?s1 = "write_site_name x portal now (str_member b ''site_name'') s"
  have e: "settings_errors url s sub b = []" and s': "s' = ?s1\<lparr>core := write_settings x url b (core ?s1)\<rparr>"
    using assms(1) by (auto simp: put_settings_def Let_def split: if_splits)
  have b: "bool_member b ''stepup_admin_required'' = Some True" using assms(2) by (simp add: bool_member_def)
  have "0 < count_passkeys s sub + count_authenticators s sub"
    using e b by (auto simp: settings_errors_def own_factor_errors_def split: if_splits)
  then have "0 < count_passkeys s' sub + count_authenticators s' sub"
    using site_name_factors by (simp add: s' count_passkeys_def count_authenticators_def)
  then have "accepted_strong_stepup (count_passkeys s' sub) (count_authenticators s' sub) \<noteq> []"
    by (auto simp: accepted_strong_stepup_def)
  moreover have "admin_stepup_required (core s')"
    using b by (simp add: s' admin_stepup_required_def setting_or_def write_settings_door show_bool_def)
  ultimately show ?thesis by (simp add: accepted_stepup_methods_def Let_def)
qed

definition demo_settings_console :: sso where
  "demo_settings_console = (empty_sso (demo_org\<lparr>role_permissions := [((''superadmin'', ''org.siteSettings.sso''), Grant)]\<rparr>))\<lparr>
     sessions := [(demo_sid, demo_session\<lparr>se_user := demo_root\<rparr>)], admin_csrf := [(demo_sid, (''c'', None))],
     passkeys := [(''k'', demo_passkey\<lparr>pk_user := demo_root\<rparr>)]\<rparr>"

definition demo_settings_saved :: sso where
  "demo_settings_saved = snd (put_settings_route demo_x (\<lambda>_. None) ''portal'' 7000 (Some ''tok'') (Some ''c'')
     [(''session_idle_hours'', JStr '' 100''), (''session_transient_max_hours'', JStr ''12'')] demo_settings_console)"

theorem session_windows_in_force_witness:
  "get_session_windows (core demo_settings_saved) = \<lparr>w_idle = 100, w_max = 168, w_transient = 12\<rparr>"
proof -
  have h: "settings_history demo_x (\<lambda>_. None) ''portal'' demo_settings_console demo_settings_saved"
    unfolding demo_settings_saved_def by (intro settings_history.saved settings_history.begun)
  have "parse_int (setting_or (core demo_settings_saved) ''session_idle_hours'' ''72'') = Some 100
      \<and> parse_int (setting_or (core demo_settings_saved) ''session_max_hours'' ''168'') = Some 168
      \<and> parse_int (setting_or (core demo_settings_saved) ''session_transient_max_hours'' ''24'') = Some 12" by code_simp
  moreover have "\<forall>k \<in> {''session_idle_hours'', ''session_max_hours'', ''session_transient_max_hours''}. get_setting (core demo_settings_console) k = None"
    by (simp add: demo_settings_console_def empty_sso_def demo_org_def empty_db_def get_setting_def tget_def)
  ultimately show ?thesis using session_windows_in_force [OF h] by simp
qed

end
