(* ===== verification/Avatars.thy ===== *)
theory Avatars
  imports AdminDoor
begin

text \<open>
  Profile pictures (\<open>src/avatars.ts\<close>, \<open>src/routes/avatar.ts\<close>) and the state that the account API keeps beside
  \<open>sso\<close>: the picture files, the organisation API's one-time proofs (\<open>src/routes/org.ts\<close>), and the columns of
  \<open>invitation_codes\<close> that registration does not read.  The image library is the record \<open>imaging\<close>.
\<close>

section \<open>The state\<close>

record action_grant =
  ag_actor :: string
  ag_action :: string
  ag_target :: string

record invite_origin =
  io_by :: "string option"
  io_label :: string
  io_created_at :: int

record account_api =
  ap_sso :: sso
  avatar_files :: "(string, string) table"
  action_tokens :: "action_grant redis"
  action_passkeys :: "string redis"
  invite_origins :: "(string, invite_origin) table"

definition on_sso :: "(sso \<Rightarrow> sso) \<Rightarrow> account_api \<Rightarrow> account_api" where
  "on_sso f t = t\<lparr>ap_sso := f (ap_sso t)\<rparr>"

section \<open>Processing and files\<close>

text \<open>\<open>sharp\<close>: \<open>im_decode\<close> is the upright image with the width and height its metadata gives, \<open>im_square img left
  top side out\<close> the crop, the scaling and the encoding; \<open>None\<close> where the library throws.\<close>

record imaging =
  im_decode :: "string \<Rightarrow> (string \<times> nat option \<times> nat option) option"
  im_square :: "string \<Rightarrow> nat \<Rightarrow> nat \<Rightarrow> nat \<Rightarrow> nat \<Rightarrow> string option"

text \<open>\<open>AVATAR_FILE_RE\<close>: a subject, sixteen hexadecimal digits and the suffix.\<close>

definition avatar_name :: "string \<Rightarrow> bool" where
  "avatar_name f = (list_all (\<lambda>c. is_hex_lower c \<or> c = CHR ''-'') (take 36 f) \<and> take 1 (drop 36 f) = ''-''
     \<and> list_all is_hex_lower (take 16 (drop 37 f)) \<and> drop 53 f = ''.webp'')"

definition avatar_file :: "string \<Rightarrow> string \<Rightarrow> string" where
  "avatar_file sub suffix = sub @ ''-'' @ suffix @ ''.webp''"

definition process_avatar :: "imaging \<Rightarrow> string \<Rightarrow> (string \<times> nat) option" where
  "process_avatar im input = (case im_decode im input of
      Some (img, Some w, Some h) \<Rightarrow>
        if w = 0 \<or> h = 0 then None
        else let side = min w h; out = min 512 side
             in map_option (\<lambda>webp. (webp, out)) (im_square im img ((w - side) div 2) ((h - side) div 2) side out)
    | _ \<Rightarrow> None)"

definition store_avatar :: "externals \<Rightarrow> imaging \<Rightarrow> string \<Rightarrow> string \<Rightarrow> account_api \<Rightarrow> (string \<times> nat) option \<times> account_api" where
  "store_avatar x im sub input t = (case process_avatar im input of
      None \<Rightarrow> (None, t)
    | Some (webp, out) \<Rightarrow> (case draw x (ap_sso t) of (suffix, s) \<Rightarrow>
        let file = avatar_file sub suffix
        in (Some (file, out), t\<lparr>ap_sso := s, avatar_files := tput file webp (avatar_files t)\<rparr>)))"

definition read_avatar :: "string \<Rightarrow> account_api \<Rightarrow> string option" where
  "read_avatar file t = (if avatar_name file then tget (avatar_files t) file else None)"

definition delete_avatar_file :: "string option \<Rightarrow> account_api \<Rightarrow> account_api" where
  "delete_avatar_file file t = (case file of
      None \<Rightarrow> t
    | Some f \<Rightarrow> if avatar_name f then t\<lparr>avatar_files := tdel f (avatar_files t)\<rparr> else t)"

section \<open>Announcing\<close>

definition profile_audience :: "string \<Rightarrow> db \<Rightarrow> string list" where
  "profile_audience portal d = map fst (filter (\<lambda>(i, c). cl_events_uri c \<noteq> None \<and> cl_disabled_at c = None \<and> i \<noteq> portal) (oauth_clients d))"

definition profile_event :: "string \<Rightarrow> string option \<Rightarrow> out_event" where
  "profile_event sub avatar = \<lparr>oe_type = ''account.profile_change'',
     oe_payload = JObj [(''sub'', JStr sub), (''avatar'', json_of_option avatar)], oe_version = None, oe_id = None\<rparr>"

definition push_avatar_change :: "externals \<Rightarrow> string \<Rightarrow> int \<Rightarrow> string \<Rightarrow> string option \<Rightarrow> sso \<Rightarrow> sso" where
  "push_avatar_change x portal now sub avatar s =
    fold (\<lambda>c. enqueue_events x now c [profile_event sub avatar]) (profile_audience portal (core s)) s"

section \<open>The routes\<close>

text \<open>The row a query by subject finds, if the account is not deleted.\<close>

definition undeleted :: "db \<Rightarrow> string \<Rightarrow> identity option" where
  "undeleted d sub = (case tget (identities d) sub of
      Some i \<Rightarrow> if i_deleted_at i = None then Some i else None | None \<Rightarrow> None)"

definition set_avatar :: "string \<Rightarrow> string option \<Rightarrow> sso \<Rightarrow> sso" where
  "set_avatar sub file s = write_identity sub (\<lambda>i. i\<lparr>i_avatar := file\<rparr>) s"

text \<open>\<open>body\<close> is what the body parser leaves: the bytes, when they have an accepted type.\<close>

definition upload_avatar ::
  "externals \<Rightarrow> imaging \<Rightarrow> string \<Rightarrow> int \<Rightarrow> string option \<Rightarrow> string option \<Rightarrow> account_api \<Rightarrow> api \<times> account_api" where
  "upload_avatar x im portal now authorization body t =
    (case guarded x now authorization None ''profile.picture.set'' None (ap_sso t) of
       Inl e \<Rightarrow> (e, t)
     | Inr sub \<Rightarrow>
         if body = None \<or> body = Some [] then (refuse 422 ''unprocessable_image'', t)
         else (case store_avatar x im sub (the body) t of
             (None, t) \<Rightarrow> (refuse 422 ''unprocessable_image'', t)
           | (Some (file, side), t) \<Rightarrow>
               (case undeleted (core (ap_sso t)) sub of
                  None \<Rightarrow> (refuse 404 ''not_found'', delete_avatar_file (Some file) t)
                | Some i \<Rightarrow>
                    (Answer [(''avatar'', JStr file), (''size'', JInt (int side))],
                     on_sso (push_avatar_change x portal now sub (Some file))
                       (delete_avatar_file (i_avatar i) (on_sso (set_avatar sub (Some file)) t))))))"

definition has_picture :: "identity \<Rightarrow> bool" where
  "has_picture i = (case i_avatar i of None \<Rightarrow> False | Some f \<Rightarrow> f \<noteq> [])"

definition drop_avatar :: "externals \<Rightarrow> string \<Rightarrow> int \<Rightarrow> string \<Rightarrow> identity \<Rightarrow> account_api \<Rightarrow> account_api" where
  "drop_avatar x portal now sub i t =
    on_sso (push_avatar_change x portal now sub None) (delete_avatar_file (i_avatar i) (on_sso (set_avatar sub None) t))"

definition delete_own_avatar :: "externals \<Rightarrow> string \<Rightarrow> int \<Rightarrow> string option \<Rightarrow> account_api \<Rightarrow> api \<times> account_api" where
  "delete_own_avatar x portal now authorization t =
    (case guarded x now authorization None ''profile.picture.set'' None (ap_sso t) of
       Inl e \<Rightarrow> (e, t)
     | Inr sub \<Rightarrow> (case undeleted (core (ap_sso t)) sub of
         None \<Rightarrow> (refuse 404 ''not_found'', t)
       | Some i \<Rightarrow> (NoContent, if has_picture i then drop_avatar x portal now sub i t else t)))"

datatype picture = NoPicture nat | Picture string

definition get_avatar :: "string \<Rightarrow> account_api \<Rightarrow> picture" where
  "get_avatar file t = (case read_avatar file t of None \<Rightarrow> NoPicture 404 | Some b \<Rightarrow> Picture b)"

text \<open>\<open>POST /internal/avatar\<close>: \<open>String(body.file ?? '')\<close> behind a client's assertion.\<close>

definition fetch_avatar :: "externals \<Rightarrow> (string \<times> json) list \<Rightarrow> account_api \<Rightarrow> picture" where
  "fetch_avatar x b t =
    (if asserted_client x (core (ap_sso t)) b = None then NoPicture 401
     else (case read_avatar (case jmember b ''file'' of None \<Rightarrow> [] | Some JNull \<Rightarrow> [] | Some v \<Rightarrow> js_string v) t of
         None \<Rightarrow> NoPicture 404 | Some p \<Rightarrow> Picture p))"

end
