(* ===== verification/OrgUsers.thy ===== *)
theory OrgUsers
  imports Avatars Registration
begin

text \<open>
  The users part of the organisation API (\<open>src/routes/org.ts\<close>): who may act on whom, the list and the detail of
  accounts, creation, profile edits, passwords, second factors behind the one-time action proof, and sessions.
  A subject that PostgreSQL would reject as a uuid is taken as naming no account, a statement that the source
  leaves to the background is done at once.  A request runs alone, so the unique indexes of \<open>identities\<close> behind the
  checks of a profile edit have nothing left to refuse.
\<close>

section \<open>Guards\<close>

definition INF_LEVEL :: int where "INF_LEVEL = 2147483647"

definition fresh_org_stepup :: "int \<Rightarrow> string \<Rightarrow> string option \<Rightarrow> sso \<Rightarrow> bool" where
  "fresh_org_stepup now sub sidHeader s =
    (setting_or (core s) ''stepup_portal_required'' ''false'' \<noteq> ''true''
     \<or> (case sidHeader of
          None \<Rightarrow> False
        | Some sid \<Rightarrow> sid \<noteq> [] \<and> (case tget (sessions s) (lower sid) of
              None \<Rightarrow> False
            | Some r \<Rightarrow> fresh_own_stepup now StrongMandatory None sub r s)))"

text \<open>The middleware of a route: the scope, the route's permission if it has one, the step-up.\<close>

definition org_route ::
  "externals \<Rightarrow> int \<Rightarrow> string option \<Rightarrow> string option \<Rightarrow> string option \<Rightarrow> sso \<Rightarrow> api + string" where
  "org_route x now authorization sidHeader key s = rbind (scoped_sub x authorization) (\<lambda>sub.
    case key of
      Some k \<Rightarrow> if \<not> has_perm (core s) sub k then Inl (permission_refused k)
        else if fresh_org_stepup now sub sidHeader s then Inr sub else Inl (refuse 403 ''step_up_required'')
    | None \<Rightarrow> if fresh_org_stepup now sub sidHeader s then Inr sub else Inl (refuse 403 ''step_up_required''))"

record org_actor =
  oa_sub :: string
  oa_level :: int
  oa_granted :: "string list"
  oa_label :: string

definition int_level :: "level \<Rightarrow> int" where
  "int_level l = (case l of Lvl n \<Rightarrow> n | Infinite \<Rightarrow> INF_LEVEL)"

definition actor_ctx :: "db \<Rightarrow> string \<Rightarrow> org_actor" where
  "actor_ctx d sub = (let az = resolve_authz d sub in
     \<lparr>oa_sub = sub, oa_level = int_level (az_level az), oa_granted = az_granted az, oa_label = actor_label d sub\<rparr>)"

definition may_edit_perm :: "string list \<Rightarrow> string \<Rightarrow> bool" where
  "may_edit_perm granted key = (key = MFA_DISABLE \<or> key \<in> set granted)"

record org_target =
  tg_sub :: string
  tg_row :: identity
  tg_role :: "(string \<times> org_role) option"

definition load_target :: "db \<Rightarrow> string \<Rightarrow> org_target option" where
  "load_target d sub = map_option (\<lambda>i. \<lparr>tg_sub = sub, tg_row = i, tg_role = user_role_row d sub\<rparr>) (undeleted d sub)"

definition role_level_of :: "(string \<times> org_role) option \<Rightarrow> int" where
  "role_level_of r = (case r of None \<Rightarrow> INF_LEVEL | Some (_, q) \<Rightarrow> or_level q)"

definition target_label :: "org_target \<Rightarrow> string" where
  "target_label g = display_label (tg_row g)"

definition sub_shape :: "string \<Rightarrow> bool" where
  "sub_shape sub = (length sub = 36 \<and> list_all (\<lambda>c. is_hex_lower c \<or> c = CHR ''-'') sub)"

definition editable_target :: "db \<Rightarrow> string \<Rightarrow> string \<Rightarrow> (org_actor \<times> org_target) option" where
  "editable_target d actor sub =
    (let a = actor_ctx d actor in
     if \<not> sub_shape sub then None
     else (case load_target d sub of
         None \<Rightarrow> None
       | Some g \<Rightarrow> if tg_sub g = oa_sub a \<or> role_level_of (tg_role g) \<le> oa_level a then None else Some (a, g)))"

text \<open>A route on one account: the middleware, then the account it may act on.\<close>

definition on_target ::
  "externals \<Rightarrow> int \<Rightarrow> string option \<Rightarrow> string option \<Rightarrow> string option \<Rightarrow> string
    \<Rightarrow> (org_actor \<Rightarrow> org_target \<Rightarrow> account_api \<Rightarrow> api \<times> account_api) \<Rightarrow> account_api \<Rightarrow> api \<times> account_api" where
  "on_target x now authorization sidHeader key sub handler t =
    (case org_route x now authorization sidHeader key (ap_sso t) of
       Inl e \<Rightarrow> (e, t)
     | Inr actor \<Rightarrow> (case editable_target (core (ap_sso t)) actor sub of
         None \<Rightarrow> (refuse 404 ''not_found'', t)
       | Some (a, g) \<Rightarrow> handler a g t))"

definition audit_act :: "org_actor \<Rightarrow> org_target option \<Rightarrow> string \<Rightarrow> (string \<times> json) list \<Rightarrow> sso \<Rightarrow> sso" where
  "audit_act a g action detail s = s\<lparr>core := (core s)\<lparr>org_audit_log := org_audit_log (core s)
     @ [\<lparr>au_actor = Some (oa_sub a), au_actor_label = oa_label a, au_target = map_option tg_sub g,
         au_target_label = map_option target_label g, au_action = action, au_detail = JObj detail\<rparr>]\<rparr>\<rparr>"

text \<open>\<open>revokeAllSessions\<close>: how many rows went, and the state.\<close>

definition revoke_all_sessions :: "externals \<Rightarrow> int \<Rightarrow> string \<Rightarrow> sso \<Rightarrow> nat \<times> sso" where
  "revoke_all_sessions x now sub s =
    (length (filter (\<lambda>(_, r). se_user r = sub) (sessions s)), end_sessions x now (\<lambda>_ r. se_user r = sub) s)"

section \<open>Role transactions\<close>

definition role_answer :: "role_error \<Rightarrow> api" where
  "role_answer e = (case e of
      RoleAccessError status err extra \<Rightarrow> ApiFail status err extra
    | FieldError status errs \<Rightarrow> FieldErrors status errs
    | _ \<Rightarrow> refuse 503 ''role_access_unavailable'')"

text \<open>The proof before and after the work, in one transaction.\<close>

definition role_mutation ::
  "externals \<Rightarrow> int \<Rightarrow> string option \<Rightarrow> string \<Rightarrow> string option \<Rightarrow> ('a \<Rightarrow> api) \<Rightarrow> (db \<Rightarrow> role_error + 'a \<times> db) \<Rightarrow> sso \<Rightarrow> api \<times> sso" where
  "role_mutation x now authorization sub sidHeader answer work s =
    (case transaction (\<lambda>d.
        rbind (assert_org_role_proof x now authorization sub sidHeader (s\<lparr>core := d\<rparr>)) (\<lambda>_.
        rbind (work d) (\<lambda>(v, d').
        rbind (assert_org_role_proof x now authorization sub sidHeader (s\<lparr>core := d'\<rparr>)) (\<lambda>_. Inr (v, d'))))) (core s) of
       (Inl e, d) \<Rightarrow> (role_answer e, s\<lparr>core := d\<rparr>)
     | (Inr v, d) \<Rightarrow> (answer v, s\<lparr>core := d\<rparr>))"

text \<open>A route whose work returns the new database only; success is 204.\<close>

definition role_route ::
  "externals \<Rightarrow> int \<Rightarrow> string option \<Rightarrow> string option \<Rightarrow> string option \<Rightarrow> (string \<Rightarrow> db \<Rightarrow> role_error + db) \<Rightarrow> sso \<Rightarrow> api \<times> sso" where
  "role_route x now authorization sidHeader key work s =
    (case org_route x now authorization sidHeader key s of
       Inl e \<Rightarrow> (e, s)
     | Inr sub \<Rightarrow> role_mutation x now authorization sub sidHeader (\<lambda>_. NoContent)
         (\<lambda>d. rbind (work sub d) (\<lambda>d'. Inr ((), d'))) s)"

section \<open>The list\<close>

text \<open>\<open>LIKE\<close> with its wildcards and the escape character.\<close>

fun like :: "string \<Rightarrow> string \<Rightarrow> bool" where
  "like [] s = (s = [])"
| "like (p # ps) s =
    (if p = CHR ''%'' then like ps s \<or> (case s of [] \<Rightarrow> False | _ # cs \<Rightarrow> like (p # ps) cs)
     else if p = CHR 0x5C
     then (case ps of [] \<Rightarrow> False | q # qs \<Rightarrow> (case s of [] \<Rightarrow> False | c # cs \<Rightarrow> c = q \<and> like qs cs))
     else (case s of [] \<Rightarrow> False | c # cs \<Rightarrow> (p = CHR ''_'' \<or> c = p) \<and> like ps cs))"

definition ilike :: "string \<Rightarrow> string \<Rightarrow> bool" where
  "ilike s pattern = like (lower pattern) (lower s)"

definition page_limit :: "int \<Rightarrow> json option \<Rightarrow> nat" where
  "page_limit fallback v =
    (let n = (case parse_int (qstr v) of None \<Rightarrow> fallback | Some n \<Rightarrow> if n = 0 then fallback else n)
     in nat (min (max n 1) 200))"

definition page_offset :: "json option \<Rightarrow> nat" where
  "page_offset v = nat (max (case parse_int (qstr v) of None \<Rightarrow> 0 | Some n \<Rightarrow> n) 0)"

record listed_user =
  lu_sub :: string
  lu_row :: identity
  lu_role :: "(string \<times> org_role) option"
  lu_me :: bool
  lu_editable :: bool

definition search_hit :: "string \<Rightarrow> identity \<Rightarrow> bool" where
  "search_hit q i = (if q = [] then True else (let pattern = CHR ''%'' # q @ ''%'' in
     ilike (i_username i) pattern \<or> ilike (i_display_name i) pattern
     \<or> (case i_email i of None \<Rightarrow> False | Some e \<Rightarrow> ilike e pattern)))"

text \<open>The rows in order: level, then display name without case, then subject.\<close>

definition visible_users :: "db \<Rightarrow> int \<Rightarrow> string \<Rightarrow> (string \<times> identity) list" where
  "visible_users d level q =
    sort_key (\<lambda>(sub, _). role_level_of (user_role_row d sub))
      (sort_key (\<lambda>(_, i). lower (i_display_name i))
        (sort_key fst
          (filter (\<lambda>(sub, i). i_deleted_at i = None \<and> level \<le> role_level_of (user_role_row d sub) \<and> search_hit q i)
            (identities d))))"

definition listed_of :: "db \<Rightarrow> org_actor \<Rightarrow> string \<times> identity \<Rightarrow> listed_user" where
  "listed_of d a row = (case row of (sub, i) \<Rightarrow>
     \<lparr>lu_sub = sub, lu_row = i, lu_role = user_role_row d sub, lu_me = (sub = oa_sub a),
      lu_editable = (sub \<noteq> oa_sub a \<and> oa_level a < role_level_of (user_role_row d sub))\<rparr>)"

definition list_users ::
  "externals \<Rightarrow> int \<Rightarrow> string option \<Rightarrow> string option \<Rightarrow> (string \<times> json) list \<Rightarrow> sso \<Rightarrow> api + nat \<times> listed_user list" where
  "list_users x now authorization sidHeader q s =
    rbind (org_route x now authorization sidHeader (Some ''org.users.view'') s) (\<lambda>actor.
    let a = actor_ctx (core s) actor;
        rows = visible_users (core s) (oa_level a) (take 100 (trim (qstr (jmember q ''query''))));
        page = take (page_limit 100 (jmember q ''limit'')) (drop (page_offset (jmember q ''offset'')) rows)
    in Inr (if page = [] then 0 else length rows, map (listed_of (core s) a) page))"

section \<open>Creating an account\<close>

record new_user =
  nu_username :: string
  nu_display_name :: string
  nu_email :: string
  nu_password :: string
  nu_role :: string

definition read_new_user :: "(string \<times> json) list \<Rightarrow> new_user" where
  "read_new_user b = \<lparr>nu_username = trimmed (jmember b ''username''), nu_display_name = trimmed (jmember b ''display_name''),
     nu_email = trimmed (jmember b ''email''), nu_password = qstr (jmember b ''password''), nu_role = qstr (jmember b ''org_role'')\<rparr>"

definition new_user_errors :: "db \<Rightarrow> org_actor \<Rightarrow> new_user \<Rightarrow> (string \<times> string) list" where
  "new_user_errors d a u =
    (if valid_username (nu_username u) then [] else [(''username'', ''3-20 characters: letters, digits, - and _'')])
    @ (if nu_display_name u = [] \<or> 100 < length (nu_display_name u) then [(''display_name'', ''Required, max 100 chars'')] else [])
    @ (if nu_email u \<noteq> [] \<and> \<not> email_shape (nu_email u) then [(''email'', ''Enter a valid email address'')] else [])
    @ (if strong_password (nu_password u) then [] else [(''password'', ''At least 8 characters, no spaces, and 3 of: uppercase, lowercase, digits, special characters'')])
    @ (case tget (org_roles d) (nu_role u) of
         None \<Rightarrow> [(''org_role'', ''Pick a role below your own'')]
       | Some r \<Rightarrow> if or_level r \<le> oa_level a then [(''org_role'', ''Pick a role below your own'')] else [])"

definition new_user_taken :: "int \<Rightarrow> new_user \<Rightarrow> sso \<Rightarrow> (string \<times> string) list" where
  "new_user_taken now u s =
    (if username_taken (core s) (nu_username u) then [(''username'', ''Already taken'')] else [])
    @ (if nu_email u \<noteq> [] \<and> (email_taken (core s) (nu_email u) \<or> email_reserved now (nu_email u) s)
       then [(''email'', ''Already in use'')] else [])"

definition create_user ::
  "externals \<Rightarrow> int \<Rightarrow> string option \<Rightarrow> string option \<Rightarrow> (string \<times> json) list \<Rightarrow> sso \<Rightarrow> api \<times> sso" where
  "create_user x now authorization sidHeader b s =
    (case org_route x now authorization sidHeader (Some ''org.users.create'') s of
       Inl e \<Rightarrow> (e, s)
     | Inr actor \<Rightarrow>
         let a = actor_ctx (core s) actor; u = read_new_user b in
         if new_user_errors (core s) a u \<noteq> [] then (FieldErrors 422 (new_user_errors (core s) a u), s)
         else if new_user_taken now u s \<noteq> [] then (FieldErrors 409 (new_user_taken now u s), s)
         else let (sub, s) = draw x s;
                  h = x_argon2_hash x (draws s) (nu_password u);
                  s = s\<lparr>draws := Suc (draws s)\<rparr>
              in role_mutation x now authorization actor sidHeader (\<lambda>v. Answer [(''sub'', JStr v)])
                   (create_org_user now actor \<lparr>pu_sub = sub, pu_username = nu_username u, pu_display_name = nu_display_name u,
                      pu_email = nu_email u, pu_password_hash = h, pu_role_slug = nu_role u\<rparr>) s)"

section \<open>Editing the profile\<close>

record profile_changes =
  pc_display_name :: "string option"
  pc_email :: "string option"
  pc_username :: "string option"

definition edit_display_name :: "org_actor \<Rightarrow> (string \<times> json) list \<Rightarrow> api + string option" where
  "edit_display_name a b = (case jmember b ''display_name'' of
      Some (JStr v) \<Rightarrow>
        if ''org.users.edit.displayname'' \<notin> set (oa_granted a) then Inl (permission_refused ''org.users.edit.displayname'')
        else if trim v = [] \<or> 100 < length (trim v) then Inl (FieldErrors 422 [(''display_name'', ''Required, max 100 chars'')])
        else Inr (Some (trim v))
    | _ \<Rightarrow> Inr None)"

definition edit_email :: "int \<Rightarrow> org_actor \<Rightarrow> string \<Rightarrow> sso \<Rightarrow> (string \<times> json) list \<Rightarrow> api + string option" where
  "edit_email now a sub s b = (case jmember b ''email'' of
      Some (JStr v) \<Rightarrow>
        if ''org.users.edit.email'' \<notin> set (oa_granted a) then Inl (permission_refused ''org.users.edit.email'')
        else if trim v \<noteq> [] \<and> \<not> email_shape (trim v) then Inl (FieldErrors 422 [(''email'', ''Enter a valid email address'')])
        else if trim v \<noteq> [] \<and> (email_taken_by_other (core s) sub (trim v) \<or> email_reserved now (trim v) s)
        then Inl (FieldErrors 409 [(''email'', ''Already in use'')])
        else Inr (Some (trim v))
    | _ \<Rightarrow> Inr None)"

definition edit_username :: "org_actor \<Rightarrow> string \<Rightarrow> db \<Rightarrow> (string \<times> json) list \<Rightarrow> api + string option" where
  "edit_username a sub d b = (case jmember b ''username'' of
      Some (JStr v) \<Rightarrow>
        if ''org.users.edit.username'' \<notin> set (oa_granted a) then Inl (permission_refused ''org.users.edit.username'')
        else if \<not> valid_username (trim v) then Inl (FieldErrors 422 [(''username'', ''3-20 characters: letters, digits, - and _'')])
        else if username_taken_by_other d sub (trim v) then Inl (FieldErrors 409 [(''username'', ''Already taken'')])
        else Inr (Some (trim v))
    | _ \<Rightarrow> Inr None)"

definition profile_edits :: "int \<Rightarrow> org_actor \<Rightarrow> string \<Rightarrow> sso \<Rightarrow> (string \<times> json) list \<Rightarrow> api + profile_changes" where
  "profile_edits now a sub s b =
    rbind (edit_display_name a b) (\<lambda>n.
    rbind (edit_email now a sub s b) (\<lambda>e.
    rbind (edit_username a sub (core s) b) (\<lambda>u.
      if n = None \<and> e = None \<and> u = None then Inl (refuse 400 ''no_fields'')
      else Inr \<lparr>pc_display_name = n, pc_email = e, pc_username = u\<rparr>)))"

definition changed_fields :: "profile_changes \<Rightarrow> string list" where
  "changed_fields c = (if pc_display_name c \<noteq> None then [''display_name''] else [])
     @ (if pc_email c \<noteq> None then [''email''] else []) @ (if pc_username c \<noteq> None then [''username''] else [])"

definition apply_changes :: "profile_changes \<Rightarrow> identity \<Rightarrow> identity" where
  "apply_changes c i =
    (let i = (case pc_display_name c of None \<Rightarrow> i | Some v \<Rightarrow> i\<lparr>i_display_name := v\<rparr>);
         i = (case pc_email c of None \<Rightarrow> i | Some v \<Rightarrow> i\<lparr>i_email := (if v = [] then None else Some v), i_email_verified := (v \<noteq> [])\<rparr>)
     in (case pc_username c of None \<Rightarrow> i | Some v \<Rightarrow> i\<lparr>i_username := v\<rparr>))"

definition patch_user ::
  "externals \<Rightarrow> int \<Rightarrow> string option \<Rightarrow> string option \<Rightarrow> string \<Rightarrow> (string \<times> json) list \<Rightarrow> account_api \<Rightarrow> api \<times> account_api" where
  "patch_user x now authorization sidHeader sub b = on_target x now authorization sidHeader None sub
    (\<lambda>a g t. case profile_edits now a (tg_sub g) (ap_sso t) b of
        Inl e \<Rightarrow> (e, t)
      | Inr c \<Rightarrow> (NoContent, on_sso (audit_act a (Some g) ''user.profile_edit'' [(''fields'', JArr (map JStr (changed_fields c)))])
            (on_sso (write_identity (tg_sub g) (apply_changes c)) t)))"

definition remove_user_avatar ::
  "externals \<Rightarrow> string \<Rightarrow> int \<Rightarrow> string option \<Rightarrow> string option \<Rightarrow> string \<Rightarrow> account_api \<Rightarrow> api \<times> account_api" where
  "remove_user_avatar x portal now authorization sidHeader sub =
    on_target x now authorization sidHeader (Some ''org.users.edit.profilePicture.remove'') sub
    (\<lambda>a g t. (NoContent, if has_picture (tg_row g)
       then on_sso (audit_act a (Some g) ''user.avatar_remove'' []) (drop_avatar x portal now (tg_sub g) (tg_row g) t) else t))"

end
