(* ===== verification/OrgControl.thy ===== *)
theory OrgControl
  imports OrgUsers
begin

text \<open>
  The organisation API's control over one account (\<open>src/routes/org.ts\<close>): its password, its second factors with
  the one-time proof their removal asks for, its sessions, its status, and its access; and the detail view.
\<close>

section \<open>Passwords\<close>

definition set_user_password ::
  "externals \<Rightarrow> int \<Rightarrow> string option \<Rightarrow> string option \<Rightarrow> string \<Rightarrow> (string \<times> json) list \<Rightarrow> account_api \<Rightarrow> api \<times> account_api" where
  "set_user_password x now authorization sidHeader sub b =
    on_target x now authorization sidHeader (Some ''org.users.edit.password'') sub
    (\<lambda>a g t. case jmember b ''password'' of
        Some (JStr pw) \<Rightarrow>
          if \<not> strong_password pw then (refuse 422 ''weak_password'', t)
          else (case revoke_all_sessions x now (tg_sub g) (write_password x now (tg_sub g) pw (ap_sso t)) of (n, s) \<Rightarrow>
            (NoContent, t\<lparr>ap_sso := notify_changed x (tg_row g)
               (audit_act a (Some g) ''user.password_set'' [(''sessions_revoked'', JInt (int n))] s)\<rparr>))
      | _ \<Rightarrow> (refuse 422 ''weak_password'', t))"

text \<open>Every refusal of the mail service is answered \<open>502\<close>; its reason is the service's own.\<close>

definition send_user_reset ::
  "externals \<Rightarrow> int \<Rightarrow> string option \<Rightarrow> string option \<Rightarrow> string \<Rightarrow> account_api \<Rightarrow> api \<times> account_api" where
  "send_user_reset x now authorization sidHeader sub =
    on_target x now authorization sidHeader (Some ''org.users.edit.password'') sub
    (\<lambda>a g t. case i_email (tg_row g) of
        None \<Rightarrow> (refuse 400 ''no_email'', t)
      | Some e \<Rightarrow>
          if e = [] then (refuse 400 ''no_email'', t)
          else let (token, s) = issue_reset_token x now (tg_sub g) (ap_sso t);
                   (sent, s) = send_email x e token s
               in if \<not> sent then (refuse 502 ''not_sent'', t\<lparr>ap_sso := s\<rparr>)
                  else (NoContent, t\<lparr>ap_sso := audit_act a (Some g) ''user.reset_link_sent'' [] s\<rparr>))"

section \<open>Second factors\<close>

definition disable_user_mfa ::
  "externals \<Rightarrow> int \<Rightarrow> string option \<Rightarrow> string option \<Rightarrow> string \<Rightarrow> account_api \<Rightarrow> api \<times> account_api" where
  "disable_user_mfa x now authorization sidHeader sub =
    on_target x now authorization sidHeader (Some ''org.users.edit.mfa.disable'') sub
    (\<lambda>a g t. (NoContent, on_sso (\<lambda>s. audit_act a (Some g) ''user.mfa_disable'' []
       (write_identity (tg_sub g) (\<lambda>i. i\<lparr>i_mfa_enabled := False\<rparr>) s)) t))"

definition ACTION_TTL :: int where "ACTION_TTL = 120"
definition ACTION_PK_TTL :: int where "ACTION_PK_TTL = 300"

definition action_challenge :: "externals \<Rightarrow> int \<Rightarrow> string option \<Rightarrow> account_api \<Rightarrow> api \<times> account_api" where
  "action_challenge x now authorization t = (case scoped_sub x authorization of
      Inl e \<Rightarrow> (e, t)
    | Inr sub \<Rightarrow>
        let methods = strong_methods (ap_sso t) sub; ms = (''methods'', JArr (map JStr methods)) in
        if ''passkey'' \<in> set methods
        then (case login_auth_options x (Some sub) (ap_sso t) of ((challenge, _), s) \<Rightarrow>
          (Answer [ms, (''passkey_options'', JStr challenge)],
           t\<lparr>ap_sso := s, action_passkeys := rset_ex now sub challenge ACTION_PK_TTL (action_passkeys t)\<rparr>))
        else (Answer [ms, (''passkey_options'', JNull)], t))"

text \<open>The factor that earns a proof: \<open>Inl\<close> is the refusal.\<close>

definition prove_action ::
  "externals \<Rightarrow> int \<Rightarrow> string \<Rightarrow> (string \<times> json) list \<Rightarrow> account_api \<Rightarrow> (api + unit) \<times> account_api" where
  "prove_action x now sub b t =
    (if qstr (jmember b ''method'') = ''totp'' then
       (let code = trim (qstr (jmember b ''code'')) in
        if \<not> six_digits code then (Inl (refuse 401 ''challenge_failed''), t)
        else (case verify_login_totp x now sub code (ap_sso t) of (ok, s) \<Rightarrow>
          (if ok then Inr () else Inl (refuse 401 ''challenge_failed''), t\<lparr>ap_sso := s\<rparr>)))
     else if qstr (jmember b ''method'') = ''passkey'' then
       (case rgetdel now sub (action_passkeys t) of (challenge, m) \<Rightarrow>
        let t = t\<lparr>action_passkeys := m\<rparr> in
        if challenge = None \<or> challenge = Some [] then (Inl (refuse 401 ''challenge_expired''), t)
        else (case x_parse_json x (qstr (jmember b ''credential'')) of
            None \<Rightarrow> (Inl (refuse 401 ''challenge_failed''), t)
          | Some cred \<Rightarrow> (case verify_login_assertion x now cred (the challenge) (Some sub) (ap_sso t) of
              (Inl _, s) \<Rightarrow> (Inl (refuse 401 ''challenge_failed''), t\<lparr>ap_sso := s\<rparr>)
            | (Inr _, s) \<Rightarrow> (Inr (), t\<lparr>ap_sso := s\<rparr>))))
     else (Inl (refuse 400 ''invalid_method''), t))"

definition action_token ::
  "externals \<Rightarrow> int \<Rightarrow> string option \<Rightarrow> (string \<times> json) list \<Rightarrow> account_api \<Rightarrow> api \<times> account_api" where
  "action_token x now authorization b t = (case scoped_sub x authorization of
      Inl e \<Rightarrow> (e, t)
    | Inr sub \<Rightarrow>
        let action = qstr (jmember b ''action''); target = qstr (jmember b ''target_sub'') in
        if action = [] \<or> \<not> sub_shape target then (refuse 400 ''invalid_request'', t)
        else (case prove_action x now sub b t of
            (Inl e, t) \<Rightarrow> (e, t)
          | (Inr _, t) \<Rightarrow> (case draw x (ap_sso t) of (token, s) \<Rightarrow>
              (Answer [(''action_token'', JStr token)],
               t\<lparr>ap_sso := s, action_tokens := rset_ex now token
                   \<lparr>ag_actor = sub, ag_action = action, ag_target = target\<rparr> ACTION_TTL (action_tokens t)\<rparr>))))"

text \<open>The proof is spent whether or not it fits.\<close>

definition spend_action :: "int \<Rightarrow> string \<Rightarrow> string \<Rightarrow> string \<Rightarrow> string \<Rightarrow> account_api \<Rightarrow> bool \<times> account_api" where
  "spend_action now token actor action target t =
    (case rgetdel now token (action_tokens t) of (g, m) \<Rightarrow>
      (g = Some \<lparr>ag_actor = actor, ag_action = action, ag_target = target\<rparr>, t\<lparr>action_tokens := m\<rparr>))"

definition drop_factors :: "string \<Rightarrow> sso \<Rightarrow> sso" where
  "drop_factors sub s = s\<lparr>totp_credentials := tfilter (\<lambda>_ c. tc_user c \<noteq> sub) (totp_credentials s),
     passkeys := tfilter (\<lambda>_ p. pk_user p \<noteq> sub) (passkeys s)\<rparr>"

definition apply_mfa_reset :: "org_actor \<Rightarrow> org_target \<Rightarrow> sso \<Rightarrow> sso" where
  "apply_mfa_reset a g s =
    (let nt = length (filter (\<lambda>(_, c). tc_user c = tg_sub g) (totp_credentials s));
         np = length (filter (\<lambda>(_, p). pk_user p = tg_sub g) (passkeys s))
     in audit_act a (Some g) ''user.mfa_reset'' [(''totp_removed'', JInt (int nt)), (''passkeys_removed'', JInt (int np))]
          (write_identity (tg_sub g) (\<lambda>i. i\<lparr>i_mfa_enabled := False\<rparr>) (drop_factors (tg_sub g) s)))"

definition reset_user_mfa ::
  "externals \<Rightarrow> int \<Rightarrow> string option \<Rightarrow> string option \<Rightarrow> string \<Rightarrow> (string \<times> json) list \<Rightarrow> account_api \<Rightarrow> api \<times> account_api" where
  "reset_user_mfa x now authorization sidHeader sub b =
    on_target x now authorization sidHeader (Some ''org.users.edit.mfa.reset'') sub
    (\<lambda>a g t.
      if setting_or (core (ap_sso t)) ''stepup_portal_required'' ''false'' = ''true''
      then (case spend_action now (qstr (jmember b ''action_token'')) (oa_sub a) ''mfa.reset'' (tg_sub g) t of (ok, t) \<Rightarrow>
          if ok then (NoContent, on_sso (apply_mfa_reset a g) t) else (refuse 403 ''action_challenge_required'', t))
      else (NoContent, on_sso (apply_mfa_reset a g) t))"

section \<open>Sessions and status\<close>

text \<open>\<open>GET \<dots>/sessions\<close>: the rows, by last activity and then by sign-in, newest first.\<close>

definition list_user_sessions ::
  "externals \<Rightarrow> int \<Rightarrow> string option \<Rightarrow> string option \<Rightarrow> string \<Rightarrow> sso \<Rightarrow> api + (string \<times> session) list" where
  "list_user_sessions x now authorization sidHeader sub s =
    rbind (org_route x now authorization sidHeader (Some ''org.users.edit.sessions.view'') s) (\<lambda>actor.
    case editable_target (core s) actor sub of
      None \<Rightarrow> Inl (refuse 404 ''not_found'')
    | Some (_, g) \<Rightarrow> Inr (sort_key (\<lambda>(_, r). - se_last_seen r) (sort_key (\<lambda>(_, r). - se_auth_time r)
        (filter (\<lambda>(_, r). se_user r = tg_sub g) (sessions s)))))"

definition terminate_user_session ::
  "externals \<Rightarrow> int \<Rightarrow> string option \<Rightarrow> string option \<Rightarrow> string \<Rightarrow> string \<Rightarrow> account_api \<Rightarrow> api \<times> account_api" where
  "terminate_user_session x now authorization sidHeader sub sid =
    on_target x now authorization sidHeader (Some ''org.users.edit.sessions.terminate'') sub
    (\<lambda>a g t. case tget (sessions (ap_sso t)) (lower sid) of
        None \<Rightarrow> (refuse 404 ''not_found'', t)
      | Some r \<Rightarrow>
          if se_user r \<noteq> tg_sub g then (refuse 404 ''not_found'', t)
          else (NoContent, on_sso (\<lambda>s. audit_act a (Some g) ''user.session_terminate'' []
            (fan_out_logout x now (tg_sub g) sid (se_clients r) (s\<lparr>sessions := tdel (lower sid) (sessions s)\<rparr>))) t))"

text \<open>A change of the row, the end of every session, and the audit with their number.\<close>

definition end_all_for ::
  "externals \<Rightarrow> int \<Rightarrow> string \<Rightarrow> string \<Rightarrow> org_actor \<Rightarrow> org_target \<Rightarrow> sso \<Rightarrow> sso" where
  "end_all_for x now action field a g s = (case revoke_all_sessions x now (tg_sub g) s of (n, s) \<Rightarrow>
     audit_act a (Some g) action [(field, JInt (int n))] s)"

definition terminate_all_sessions ::
  "externals \<Rightarrow> int \<Rightarrow> string option \<Rightarrow> string option \<Rightarrow> string \<Rightarrow> account_api \<Rightarrow> api \<times> account_api" where
  "terminate_all_sessions x now authorization sidHeader sub =
    on_target x now authorization sidHeader (Some ''org.users.edit.sessions.terminate'') sub
    (\<lambda>a g t. (NoContent, on_sso (end_all_for x now ''user.sessions_terminate_all'' ''count'' a g) t))"

definition suspend_user ::
  "externals \<Rightarrow> int \<Rightarrow> string option \<Rightarrow> string option \<Rightarrow> string \<Rightarrow> account_api \<Rightarrow> api \<times> account_api" where
  "suspend_user x now authorization sidHeader sub =
    on_target x now authorization sidHeader (Some ''org.users.edit.deactivate'') sub
    (\<lambda>a g t. (NoContent, on_sso (\<lambda>s. end_all_for x now ''user.suspend'' ''sessions_revoked'' a g
       (write_identity (tg_sub g) (\<lambda>i. i\<lparr>i_status := Disabled\<rparr>) s)) t))"

definition reactivate_user ::
  "externals \<Rightarrow> int \<Rightarrow> string option \<Rightarrow> string option \<Rightarrow> string \<Rightarrow> account_api \<Rightarrow> api \<times> account_api" where
  "reactivate_user x now authorization sidHeader sub =
    on_target x now authorization sidHeader (Some ''org.users.edit.reactivate'') sub
    (\<lambda>a g t. (NoContent, on_sso (\<lambda>s. audit_act a (Some g) ''user.reactivate'' []
       (write_identity (tg_sub g) (\<lambda>i. i\<lparr>i_status := Active\<rparr>) s)) t))"

section \<open>Access\<close>

definition user_org_role_route ::
  "externals \<Rightarrow> int \<Rightarrow> string option \<Rightarrow> string option \<Rightarrow> string \<Rightarrow> (string \<times> json) list \<Rightarrow> sso \<Rightarrow> api \<times> sso" where
  "user_org_role_route x now authorization sidHeader sub b =
    role_route x now authorization sidHeader (Some ''org.users.edit.permissions.acctPortal'')
    (\<lambda>actor. apply_user_access (x_uuid x) now actor sub [(''org_role'', JStr (qstr (jmember b ''role_slug'')))] ''user.role_change'')"

definition user_permission_route ::
  "externals \<Rightarrow> int \<Rightarrow> string option \<Rightarrow> string option \<Rightarrow> string \<Rightarrow> string \<Rightarrow> (string \<times> json) list \<Rightarrow> sso \<Rightarrow> api \<times> sso" where
  "user_permission_route x now authorization sidHeader sub key b =
    role_route x now authorization sidHeader (Some ''org.users.edit.permissions.acctPortal'')
    (\<lambda>actor. apply_user_access (x_uuid x) now actor sub
       [(''permissions'', JObj [(key, JStr (qstr (jmember b ''effect'')))])] ''user.permission_override'')"

text \<open>A member that the body does not have makes an entry whose value no check accepts.\<close>

definition value_entry :: "string \<Rightarrow> (string \<times> json) list \<Rightarrow> json" where
  "value_entry client b = JObj [(client, case jmember b ''value'' of Some v \<Rightarrow> v | None \<Rightarrow> JBool False)]"

definition user_app_role_route ::
  "externals \<Rightarrow> int \<Rightarrow> string option \<Rightarrow> string option \<Rightarrow> string \<Rightarrow> string \<Rightarrow> (string \<times> json) list \<Rightarrow> sso \<Rightarrow> api \<times> sso" where
  "user_app_role_route x now authorization sidHeader sub client b =
    role_route x now authorization sidHeader (Some ''org.users.edit.permissions.app'')
    (\<lambda>actor. apply_user_access (x_uuid x) now actor sub [(''app_roles'', value_entry client b)] ''user.app_role_change'')"

definition user_access_route ::
  "externals \<Rightarrow> int \<Rightarrow> string option \<Rightarrow> string option \<Rightarrow> string \<Rightarrow> (string \<times> json) list \<Rightarrow> sso \<Rightarrow> api \<times> sso" where
  "user_access_route x now authorization sidHeader sub b =
    role_route x now authorization sidHeader None
    (\<lambda>actor. apply_user_access (x_uuid x) now actor sub b ''user.access_change'')"

section \<open>The detail view\<close>

record app_role_view =
  av_client :: string
  av_name :: string
  av_roles :: "(int \<times> app_role) list"
  av_catalog_default :: "int option"
  av_org_default :: "int option option"
  av_override :: "int option option"
  av_effective :: "effective_app_role option"
  av_editable :: bool
  av_actor_level :: "int option"

record perm_view =
  pv_key :: string
  pv_role_effect :: effect
  pv_override :: "effect option"
  pv_editable :: bool

record account_view =
  vw_target :: org_target
  vw_totp :: "(string \<times> totp_credential) list"
  vw_passkeys :: "(string \<times> passkey) list"
  vw_permissions :: "perm_view list"
  vw_app_roles :: "app_role_view list"

definition finite_level :: "level \<Rightarrow> int option" where
  "finite_level l = (case l of Lvl n \<Rightarrow> Some n | Infinite \<Rightarrow> None)"

text \<open>The clients with a catalog, and a client's roles by level and identifier.\<close>

definition catalog_apps :: "db \<Rightarrow> (string \<times> client \<times> app_catalog) list" where
  "catalog_apps d = sort_key fst (List.map_filter (\<lambda>(c, cat). map_option (\<lambda>cl. (c, cl, cat)) (tget (oauth_clients d) c))
     (app_role_catalogs d))"

definition roles_of_app :: "db \<Rightarrow> string \<Rightarrow> (int \<times> app_role) list" where
  "roles_of_app d client = sort_key (\<lambda>(_, r). ar_level r) (sort_key fst
     (List.map_filter (\<lambda>((c, n), r). if c = client then Some (n, r) else None) (app_roles d)))"

definition user_app_view :: "db \<Rightarrow> org_actor \<Rightarrow> org_target \<Rightarrow> string \<times> client \<times> app_catalog \<Rightarrow> app_role_view" where
  "user_app_view d a g app = (case app of (c, cl, cat) \<Rightarrow>
    let eff = effective_app_role d (tg_sub g) c;
        own = app_role_level d c (ea_role_id (effective_app_role d (oa_sub a) c))
    in \<lparr>av_client = c, av_name = cl_name cl, av_roles = roles_of_app d c, av_catalog_default = cat_default cat,
        av_org_default = (case tg_role g of None \<Rightarrow> None | Some (slug, _) \<Rightarrow> tget (org_role_app_defaults d) (slug, c)),
        av_override = tget (user_app_role_overrides d) (tg_sub g, c), av_effective = Some eff,
        av_editable = (own \<le> app_role_level d c (ea_role_id eff)), av_actor_level = finite_level own\<rparr>)"

definition user_perm_view :: "db \<Rightarrow> org_actor \<Rightarrow> org_target \<Rightarrow> string \<Rightarrow> perm_view" where
  "user_perm_view d a g key =
    \<lparr>pv_key = key,
     pv_role_effect = (case tg_role g of None \<Rightarrow> Deny | Some (slug, _) \<Rightarrow>
        (case tget (role_permissions d) (slug, key) of Some e \<Rightarrow> e | None \<Rightarrow> Deny)),
     pv_override = tget (user_permission_overrides d) (tg_sub g, key),
     pv_editable = may_edit_perm (oa_granted a) key\<rparr>"

definition view_user ::
  "externals \<Rightarrow> int \<Rightarrow> string option \<Rightarrow> string option \<Rightarrow> string \<Rightarrow> sso \<Rightarrow> api + account_view" where
  "view_user x now authorization sidHeader sub s =
    rbind (org_route x now authorization sidHeader (Some ''org.users.view'') s) (\<lambda>actor.
    case editable_target (core s) actor sub of
      None \<Rightarrow> Inl (refuse 404 ''not_found'')
    | Some (a, g) \<Rightarrow> Inr
        \<lparr>vw_target = g,
         vw_totp = sort_key (\<lambda>(_, c). tc_created_at c)
           (filter (\<lambda>(_, c). tc_user c = tg_sub g \<and> tc_confirmed_at c \<noteq> None) (totp_credentials s)),
         vw_passkeys = sort_key (\<lambda>(_, p). pk_created_at p) (filter (\<lambda>(_, p). pk_user p = tg_sub g) (passkeys s)),
         vw_permissions = map (user_perm_view (core s) a g) PERM_KEYS,
         vw_app_roles = map (user_app_view (core s) a g) (catalog_apps (core s))\<rparr>)"

end
