(* ===== verification/OrgRoles.thy ===== *)
theory OrgRoles
  imports OrgControl
begin

text \<open>
  The organisation API's roles, applications and overview (\<open>src/routes/org.ts\<close>): the views of roles with what
  the viewer may edit, the routes over the role transactions, the application catalog and the dashboard.
\<close>

section \<open>Views of roles\<close>

record listed_role =
  lr_slug :: string
  lr_role :: org_role
  lr_members :: nat
  lr_editable :: bool

definition members_of :: "db \<Rightarrow> string \<Rightarrow> nat" where
  "members_of d slug = length (filter (\<lambda>(_, s). s = slug) (user_org_roles d))"

definition roles_by_level :: "db \<Rightarrow> (string \<times> org_role) list" where
  "roles_by_level d = sort_key (\<lambda>(_, r). or_level r) (sort_key fst (org_roles d))"

definition listed_role_of :: "db \<Rightarrow> org_actor \<Rightarrow> string \<times> org_role \<Rightarrow> listed_role" where
  "listed_role_of d a row = (case row of (slug, r) \<Rightarrow>
     \<lparr>lr_slug = slug, lr_role = r, lr_members = members_of d slug, lr_editable = (oa_level a < or_level r)\<rparr>)"

definition list_roles ::
  "externals \<Rightarrow> int \<Rightarrow> string option \<Rightarrow> string option \<Rightarrow> sso \<Rightarrow> api + string \<times> listed_role list" where
  "list_roles x now authorization sidHeader s =
    rbind (org_route x now authorization sidHeader (Some ''org.roles.view'') s) (\<lambda>actor.
    let a = actor_ctx (core s) actor in
    Inr (setting_or (core s) ''default_org_role'' ''standard_user'',
         map (listed_role_of (core s) a) (roles_by_level (core s))))"

record role_view =
  rv_role :: listed_role
  rv_permissions :: "(string \<times> effect \<times> bool) list"
  rv_apps :: "app_role_view list"

definition role_app_view :: "db \<Rightarrow> org_actor \<Rightarrow> string \<Rightarrow> org_role \<Rightarrow> string \<times> client \<times> app_catalog \<Rightarrow> app_role_view" where
  "role_app_view d a slug r app = (case app of (c, cl, cat) \<Rightarrow>
    let own = app_role_level d c (ea_role_id (effective_app_role d (oa_sub a) c));
        current = tget (org_role_app_defaults d) (slug, c);
        level = app_role_level d c (case current of Some v \<Rightarrow> v | None \<Rightarrow> cat_default cat)
    in \<lparr>av_client = c, av_name = cl_name cl, av_roles = roles_of_app d c, av_catalog_default = cat_default cat,
        av_org_default = current, av_override = None, av_effective = None,
        av_editable = (oa_level a < or_level r \<and> own \<le> level), av_actor_level = finite_level own\<rparr>)"

definition view_role ::
  "externals \<Rightarrow> int \<Rightarrow> string option \<Rightarrow> string option \<Rightarrow> string \<Rightarrow> sso \<Rightarrow> api + role_view" where
  "view_role x now authorization sidHeader slug s =
    rbind (org_route x now authorization sidHeader (Some ''org.roles.view'') s) (\<lambda>actor.
    let d = core s; a = actor_ctx d actor in
    case tget (org_roles d) slug of
      None \<Rightarrow> Inl (refuse 404 ''not_found'')
    | Some r \<Rightarrow> Inr
        \<lparr>rv_role = listed_role_of d a (slug, r),
         rv_permissions = map (\<lambda>k. (k, case tget (role_permissions d) (slug, k) of Some e \<Rightarrow> e | None \<Rightarrow> Deny,
            oa_level a < or_level r \<and> may_edit_perm (oa_granted a) k)) PERM_KEYS,
         rv_apps = map (role_app_view d a slug r) (catalog_apps d)\<rparr>)"

section \<open>Changing roles\<close>

definition create_role_route ::
  "externals \<Rightarrow> int \<Rightarrow> string option \<Rightarrow> string option \<Rightarrow> (string \<times> json) list \<Rightarrow> sso \<Rightarrow> api \<times> sso" where
  "create_role_route x now authorization sidHeader b s =
    (case org_route x now authorization sidHeader (Some ''org.roles.create'') s of
       Inl e \<Rightarrow> (e, s)
     | Inr actor \<Rightarrow> role_mutation x now authorization actor sidHeader (\<lambda>v. Answer [(''slug'', JStr v)]) (create_org_role actor b) s)"

definition patch_role_route ::
  "externals \<Rightarrow> int \<Rightarrow> string option \<Rightarrow> string option \<Rightarrow> string \<Rightarrow> (string \<times> json) list \<Rightarrow> sso \<Rightarrow> api \<times> sso" where
  "patch_role_route x now authorization sidHeader slug b =
    role_route x now authorization sidHeader None (\<lambda>actor. patch_org_role actor slug b)"

definition role_permission_route ::
  "externals \<Rightarrow> int \<Rightarrow> string option \<Rightarrow> string option \<Rightarrow> string \<Rightarrow> string \<Rightarrow> (string \<times> json) list \<Rightarrow> sso \<Rightarrow> api \<times> sso" where
  "role_permission_route x now authorization sidHeader slug key b =
    role_route x now authorization sidHeader (Some ''org.roles.edit.permissions.acctPortal'')
    (\<lambda>actor. apply_role_access (x_uuid x) now actor slug
       [(''permissions'', JObj [(key, JStr (qstr (jmember b ''effect'')))])] ''role.permission_change'')"

definition role_app_default_route ::
  "externals \<Rightarrow> int \<Rightarrow> string option \<Rightarrow> string option \<Rightarrow> string \<Rightarrow> string \<Rightarrow> (string \<times> json) list \<Rightarrow> sso \<Rightarrow> api \<times> sso" where
  "role_app_default_route x now authorization sidHeader slug client b =
    role_route x now authorization sidHeader (Some ''org.roles.edit.permissions.app'')
    (\<lambda>actor. apply_role_access (x_uuid x) now actor slug [(''app_defaults'', value_entry client b)] ''role.app_default_change'')"

definition delete_role_route ::
  "externals \<Rightarrow> int \<Rightarrow> string option \<Rightarrow> string option \<Rightarrow> string \<Rightarrow> sso \<Rightarrow> api \<times> sso" where
  "delete_role_route x now authorization sidHeader slug =
    role_route x now authorization sidHeader (Some ''org.roles.remove'') (\<lambda>actor. delete_org_role actor slug)"

definition default_role_route ::
  "externals \<Rightarrow> int \<Rightarrow> string option \<Rightarrow> string option \<Rightarrow> (string \<times> json) list \<Rightarrow> sso \<Rightarrow> api \<times> sso" where
  "default_role_route x now authorization sidHeader b =
    role_route x now authorization sidHeader (Some ''org.roles.edit.default'')
    (\<lambda>actor. set_default_org_role actor (qstr (jmember b ''slug'')))"

definition role_access_route ::
  "externals \<Rightarrow> int \<Rightarrow> string option \<Rightarrow> string option \<Rightarrow> string \<Rightarrow> (string \<times> json) list \<Rightarrow> sso \<Rightarrow> api \<times> sso" where
  "role_access_route x now authorization sidHeader slug b =
    role_route x now authorization sidHeader None
    (\<lambda>actor. apply_role_access (x_uuid x) now actor slug b ''role.access_change'')"

section \<open>Applications\<close>

definition list_apps ::
  "externals \<Rightarrow> int \<Rightarrow> string option \<Rightarrow> string option \<Rightarrow> sso \<Rightarrow> api + ((string \<times> client \<times> app_catalog) \<times> (int \<times> app_role) list) list" where
  "list_apps x now authorization sidHeader s =
    rbind (org_route x now authorization sidHeader (Some ''org.apps.view'') s) (\<lambda>_.
    Inr (map (\<lambda>app. (app, roles_of_app (core s) (fst app))) (catalog_apps (core s))))"

text \<open>\<open>POST \<dots>/request-sync\<close>: the event is queued in a transaction of its own; a fault of it is answered 500.\<close>

definition request_sync ::
  "externals \<Rightarrow> int \<Rightarrow> string option \<Rightarrow> string option \<Rightarrow> string \<Rightarrow> sso \<Rightarrow> api \<times> sso" where
  "request_sync x now authorization sidHeader client s =
    (case org_route x now authorization sidHeader (Some ''org.apps.sync'') s of
       Inl e \<Rightarrow> (e, s)
     | Inr actor \<Rightarrow> (case tget (oauth_clients (core s)) client of
         None \<Rightarrow> (refuse 404 ''not_found'', s)
       | Some cl \<Rightarrow>
           if cl_events_uri cl = None \<or> cl_events_uri cl = Some [] \<or> cl_disabled_at cl \<noteq> None then (refuse 404 ''not_found'', s)
           else (case insert_events (x_uuid x) now client
               [\<lparr>oe_type = ''roles.sync_request'', oe_payload = JObj [], oe_version = None, oe_id = None\<rparr>] (core s) of
               Inl _ \<Rightarrow> (refuse 500 ''internal_error'', s)
             | Inr (_, d) \<Rightarrow> (NoContent, audit_act (actor_ctx (core s) actor) None ''app.sync_request''
                 [(''client'', JStr client)] (s\<lparr>core := d\<rparr>)))))"

section \<open>The overview\<close>

record dashboard =
  db_users :: nat
  db_suspended :: nat
  db_mfa_on :: nat
  db_sessions :: nat
  db_roles :: "(string \<times> org_role \<times> nat) list"
  db_default_role :: string
  db_apps :: "(string \<times> string \<times> app_catalog \<times> nat) list"
  db_recent :: bool

text \<open>\<open>db_recent\<close> says whether the answer has the five newest entries of the log (\<open>OrgLogs\<close>).\<close>

definition view_dashboard ::
  "externals \<Rightarrow> int \<Rightarrow> string option \<Rightarrow> string option \<Rightarrow> sso \<Rightarrow> api + dashboard" where
  "view_dashboard x now authorization sidHeader s =
    rbind (org_route x now authorization sidHeader (Some ''org.dashboard'') s) (\<lambda>actor.
    let d = core s; live = filter (\<lambda>(_, i). i_deleted_at i = None) (identities d) in
    Inr \<lparr>db_users = length live,
         db_suspended = length (filter (\<lambda>(_, i). i_status i \<noteq> Active) live),
         db_mfa_on = length (filter (\<lambda>(_, i). i_mfa_enabled i) live),
         db_sessions = length (sessions s),
         db_roles = map (\<lambda>(slug, r). (slug, r, members_of d slug)) (roles_by_level d),
         db_default_role = setting_or d ''default_org_role'' ''standard_user'',
         db_apps = map (\<lambda>(c, cl, cat). (c, cl_name cl, cat, length (filter (\<lambda>((k, _), _). k = c) (app_roles d)))) (catalog_apps d),
         db_recent = has_perm d actor ''org.logs.view''\<rparr>)"

end
