(* ===== verification/OrgLogs.thy ===== *)
theory OrgLogs
  imports OrgUsers
begin

text \<open>
  The audit log as the organisation API reads and clears it (\<open>src/routes/org.ts\<close>).  A row of the table is an
  \<open>audit_row\<close> with its identifier, its time in microseconds, as PostgreSQL keeps it, and the mark of clearing.
  \<open>show_at\<close> and \<open>at_of\<close> write and read a time in milliseconds as text.
\<close>

record log_row =
  lg_id :: string
  lg_row :: audit_row
  lg_at :: int
  lg_cleared_at :: "int option"
  lg_cleared_by :: "string option"

type_synonym log_table = "log_row list"

section \<open>Pages\<close>

text \<open>\<open>/^(.+)_([0-9a-f-]{36})$/\<close> on the cursor: the time and the identifier.\<close>

definition read_cursor :: "(string \<Rightarrow> int option) \<Rightarrow> string \<Rightarrow> (int \<times> string) option" where
  "read_cursor at_of c =
    (let n = length c - 37; ident = drop (length c - 36) c in
     if length c < 38 \<or> take 1 (drop n c) \<noteq> ''_'' \<or> \<not> sub_shape ident
        \<or> list_ex (\<lambda>ch. of_char ch \<in> {10, 13 :: nat}) (take n c) then None
     else map_option (\<lambda>at. (at, ident)) (at_of (take n c)))"

definition write_cursor :: "(int \<Rightarrow> string) \<Rightarrow> log_row \<Rightarrow> string" where
  "write_cursor show_at r = show_at (lg_at r div 1000) @ ''_'' @ lg_id r"

text \<open>\<open>(created_at, id) < (cursor)\<close>: the time of the cursor is in milliseconds.\<close>

definition before_cursor :: "(int \<times> string) option \<Rightarrow> log_row \<Rightarrow> bool" where
  "before_cursor c r = (case c of None \<Rightarrow> True
     | Some (ms, ident) \<Rightarrow> lg_at r < ms * 1000 \<or> lg_at r = ms * 1000 \<and> lg_id r < ident)"

definition newest_logs :: "log_table \<Rightarrow> log_table" where
  "newest_logs rows = rev (sort_key lg_at (sort_key lg_id rows))"

definition selected_logs :: "bool \<Rightarrow> (int \<times> string) option \<Rightarrow> log_table \<Rightarrow> log_table" where
  "selected_logs cleared c rows =
    newest_logs (filter (\<lambda>r. (cleared \<or> lg_cleared_at r = None) \<and> before_cursor c r) rows)"

text \<open>One page and the cursor of the next one.\<close>

definition log_page :: "(int \<Rightarrow> string) \<Rightarrow> (string \<Rightarrow> int option) \<Rightarrow> nat \<Rightarrow> bool \<Rightarrow> string \<Rightarrow> log_table \<Rightarrow> log_table \<times> string option" where
  "log_page show_at at_of limit cleared cursor rows =
    (let found = take (limit + 1) (selected_logs cleared (read_cursor at_of cursor) rows);
         page = take limit found
     in (page, if limit < length found \<and> page \<noteq> [] then Some (write_cursor show_at (last page)) else None))"

definition list_logs ::
  "(int \<Rightarrow> string) \<Rightarrow> (string \<Rightarrow> int option) \<Rightarrow> externals \<Rightarrow> int \<Rightarrow> string option \<Rightarrow> string option \<Rightarrow> (string \<times> json) list \<Rightarrow> sso
    \<Rightarrow> log_table \<Rightarrow> api + log_table \<times> string option" where
  "list_logs show_at at_of x now authorization sidHeader q s rows =
    rbind (org_route x now authorization sidHeader (Some ''org.logs.view'') s) (\<lambda>_.
    Inr (log_page show_at at_of (page_limit 50 (jmember q ''limit'')) (qstr (jmember q ''include_cleared'') = ''1'')
      (qstr (jmember q ''cursor'')) rows))"

text \<open>The dashboard's recent entries.\<close>

definition recent_logs :: "log_table \<Rightarrow> log_table" where
  "recent_logs rows = take 5 (newest_logs (filter (\<lambda>r. lg_cleared_at r = None) rows))"

text \<open>A client that follows the cursors, \<open>fuel\<close> requests at most.\<close>

fun walk_logs :: "(int \<Rightarrow> string) \<Rightarrow> (string \<Rightarrow> int option) \<Rightarrow> nat \<Rightarrow> bool \<Rightarrow> nat \<Rightarrow> string \<Rightarrow> log_table \<Rightarrow> log_table" where
  "walk_logs show_at at_of limit cleared 0 cursor rows = []"
| "walk_logs show_at at_of limit cleared (Suc fuel) cursor rows =
    (case log_page show_at at_of limit cleared cursor rows of
       (page, None) \<Rightarrow> page
     | (page, Some c) \<Rightarrow> page @ walk_logs show_at at_of limit cleared fuel c rows)"

section \<open>Clearing\<close>

definition clear_ids :: "(string \<times> json) list \<Rightarrow> string list option" where
  "clear_ids b = (case jmember b ''ids'' of
      Some (JArr vs) \<Rightarrow>
        if vs = [] \<or> 200 < length vs \<or> \<not> list_all (\<lambda>v. case v of JStr i \<Rightarrow> sub_shape i | _ \<Rightarrow> False) vs then None
        else Some (map (\<lambda>v. case v of JStr i \<Rightarrow> i | _ \<Rightarrow> []) vs)
    | _ \<Rightarrow> None)"

definition clears :: "string list \<Rightarrow> log_row \<Rightarrow> bool" where
  "clears ids r = (lg_id r \<in> set ids \<and> lg_cleared_at r = None)"

text \<open>\<open>ident\<close> is the identifier the database draws for the row that records the clearing.\<close>

definition clear_logs ::
  "string \<Rightarrow> externals \<Rightarrow> int \<Rightarrow> string option \<Rightarrow> string option \<Rightarrow> (string \<times> json) list \<Rightarrow> sso \<Rightarrow> log_table \<Rightarrow> api \<times> log_table" where
  "clear_logs ident x now authorization sidHeader b s rows =
    (case org_route x now authorization sidHeader (Some ''org.logs.clear'') s of
       Inl e \<Rightarrow> (e, rows)
     | Inr actor \<Rightarrow> (case clear_ids b of
         None \<Rightarrow> (refuse 400 ''invalid_ids'', rows)
       | Some ids \<Rightarrow>
           let n = length (filter (clears ids) rows);
               marked = map (\<lambda>r. if clears ids r then r\<lparr>lg_cleared_at := Some (now * 1000), lg_cleared_by := Some actor\<rparr> else r) rows
           in (NoContent, if n = 0 then marked
               else marked @ [\<lparr>lg_id = ident,
                 lg_row = \<lparr>au_actor = Some actor, au_actor_label = actor_label (core s) actor, au_target = None,
                   au_target_label = None, au_action = ''logs.clear'', au_detail = JObj [(''count'', JInt (int n))]\<rparr>,
                 lg_at = now * 1000, lg_cleared_at = None, lg_cleared_by = None\<rparr>])))"

end
