(* ===== verification/OrgLogProps.thy ===== *)
theory OrgLogProps
  imports OrgLogs SessionProps
begin

text \<open>
  Reading the audit log to its end: the cursors visit every row once, provided the times are whole milliseconds;
  a row written within the millisecond of a page's last row is lost between two pages.
\<close>

section \<open>The order of the log\<close>

lemma insort_stable:
  assumes "sorted_wrt (\<lambda>q r. f q < f r \<or> f q = f r \<and> Q q r) zs" and "\<forall>z \<in> set zs. Q y z"
  shows "sorted_wrt (\<lambda>q r. f q < f r \<or> f q = f r \<and> Q q r) (insort_key f (y :: 'a) zs)"
  using assms
proof (induction zs)
  case Nil
  show ?case by simp
next
  case (Cons z zs)
  show ?case
  proof (cases "f y \<le> f z")
    case True
    then have "f y \<le> f w" if "w \<in> set (z # zs)" for w using that Cons.prems(1) by fastforce
    then show ?thesis using True Cons.prems by (auto simp: order.order_iff_strict)
  next
    case False
    then show ?thesis using Cons by (auto simp: set_insort_key not_le)
  qed
qed

lemma sort_stable: "sorted_wrt Q xs \<Longrightarrow> sorted_wrt (\<lambda>q r. f q < f r \<or> f q = f r \<and> Q q r) (sort_key f xs)"
  by (induction xs) (auto intro!: insort_stable)

definition older :: "log_row \<Rightarrow> log_row \<Rightarrow> bool" where
  "older q r = (lg_at q < lg_at r \<or> lg_at q = lg_at r \<and> lg_id q < lg_id r)"

lemma older_trans: "older a b \<Longrightarrow> older b c \<Longrightarrow> older a c"
  by (auto simp: older_def)

lemma older_asym: "older a b \<Longrightarrow> \<not> older b a"
  by (auto simp: older_def)

lemma newest_logs_set [simp]: "set (newest_logs rows) = set rows"
  by (simp add: newest_logs_def)

lemma newest_logs_length [simp]: "length (newest_logs rows) = length rows"
  by (simp add: newest_logs_def)

lemma newest_logs_filter: "newest_logs (filter P rows) = filter P (newest_logs rows)"
  by (simp add: newest_logs_def filter_sort flip: rev_filter)

lemma newest_logs_sorted:
  assumes "distinct (map lg_id rows)"
  shows "sorted_wrt (\<lambda>q r. older r q) (newest_logs rows)"
proof -
  have ids: "sorted_wrt (\<lambda>q r. lg_id q \<le> lg_id r) (sort_key lg_id rows)"
    using sorted_sort_key [of lg_id rows] by (simp add: sorted_map)
  have dist: "distinct (map lg_id (sort_key lg_id rows))"
    using assms by (metis distinct_map distinct_sort set_sort)
  have "sorted_wrt (\<lambda>q r. lg_id q < lg_id r) (sort_key lg_id rows)"
    using ids dist by (simp add: sorted_wrt_iff_nth_less order.order_iff_strict distinct_conv_nth)
  from sort_stable [OF this, of lg_at] show ?thesis
    by (simp add: newest_logs_def sorted_wrt_rev older_def)
qed

section \<open>Cursors\<close>

text \<open>What is asked of the two conversions of times, which belong to the language's \<open>Date\<close>.\<close>

definition date_codec :: "(int \<Rightarrow> string) \<Rightarrow> (string \<Rightarrow> int option) \<Rightarrow> bool" where
  "date_codec show_at at_of = (\<forall>ms. at_of (show_at ms) = Some ms \<and> show_at ms \<noteq> []
     \<and> \<not> list_ex (\<lambda>ch. of_char ch \<in> {10, 13 :: nat}) (show_at ms))"

lemma cursor_roundtrip:
  assumes "date_codec show_at at_of" and "sub_shape (lg_id r)"
  shows "read_cursor at_of (write_cursor show_at r) = Some (lg_at r div 1000, lg_id r)"
proof -
  have "length (lg_id r) = 36" using assms(2) by (simp add: sub_shape_def)
  moreover have "show_at m \<noteq> []" for m using assms(1) by (simp add: date_codec_def)
  ultimately show ?thesis using assms
    by (simp add: read_cursor_def write_cursor_def date_codec_def Let_def Suc_le_eq)
qed

lemma no_cursor: "read_cursor at_of [] = None"
  by (simp add: read_cursor_def)

lemma before_older:
  "lg_at r mod 1000 = 0 \<Longrightarrow> before_cursor (Some (lg_at r div 1000, lg_id r)) q = older q r"
  using div_mult_mod_eq [of "lg_at r" 1000] by (simp add: before_cursor_def older_def)

lemma filter_after:
  assumes "sorted_wrt (\<lambda>q r. older r q) (as @ r # bs)"
  shows "filter (\<lambda>q. older q r) (as @ r # bs) = bs"
proof -
  have "filter (\<lambda>q. older q r) as = []" "filter (\<lambda>q. older q r) bs = bs"
    using assms by (auto simp: sorted_wrt_append filter_empty_conv filter_id_conv dest: older_asym)
  moreover have "\<not> older r r" by (simp add: older_def)
  ultimately show ?thesis by simp
qed


lemma next_page:
  assumes ids: "distinct (map lg_id rows)" and shape: "\<forall>r \<in> set rows. sub_shape (lg_id r)"
    and ms: "\<forall>r \<in> set rows. lg_at r mod 1000 = 0" and codec: "date_codec show_at at_of"
    and split: "newest_logs (filter (\<lambda>r. cleared \<or> lg_cleared_at r = None) rows) = as @ r # bs"
  shows "selected_logs cleared (read_cursor at_of (write_cursor show_at r)) rows = bs"
proof -
  let ?live = "filter (\<lambda>r. cleared \<or> lg_cleared_at r = None) rows"
  have "r \<in> set (newest_logs ?live)" using split by simp
  then have r: "r \<in> set rows" by simp
  have c: "read_cursor at_of (write_cursor show_at r) = Some (lg_at r div 1000, lg_id r)"
    using cursor_roundtrip [OF codec] shape r by blast
  have b: "before_cursor (Some (lg_at r div 1000, lg_id r)) = (\<lambda>q. older q r)"
    using before_older ms r by blast
  have "distinct (map lg_id ?live)" using ids by (simp add: distinct_map_filter)
  then have "sorted_wrt (\<lambda>q r. older r q) (as @ r # bs)" using newest_logs_sorted split by metis
  moreover have "selected_logs cleared (Some (lg_at r div 1000, lg_id r)) rows = filter (\<lambda>q. older q r) (newest_logs ?live)"
    unfolding selected_logs_def b by (simp add: newest_logs_filter [symmetric] conj_commute)
  ultimately show ?thesis using filter_after split c by metis
qed

lemma walk_from:
  assumes ids: "distinct (map lg_id rows)" and shape: "\<forall>r \<in> set rows. sub_shape (lg_id r)"
    and ms: "\<forall>r \<in> set rows. lg_at r mod 1000 = 0" and codec: "date_codec show_at at_of" and limit: "0 < limit"
    and all: "newest_logs (filter (\<lambda>r. cleared \<or> lg_cleared_at r = None) rows) = pre @ rest"
    and sel: "selected_logs cleared (read_cursor at_of cursor) rows = rest" and fuel: "length rest < fuel"
  shows "walk_logs show_at at_of limit cleared fuel cursor rows = rest"
  using all sel fuel
proof (induction fuel arbitrary: pre rest cursor)
  case 0
  then show ?case by simp
next
  case (Suc n)
  show ?case
  proof (cases "length rest \<le> limit")
    case True
    then show ?thesis using Suc.prems(2) by (simp add: log_page_def Let_def min_def)
  next
    case False
    let ?page = "take limit rest"
    have ne: "?page \<noteq> []" using limit False by (cases rest) auto
    have "rest = butlast ?page @ last ?page # drop limit rest"
      using ne by (metis append_Cons append_Nil append_assoc append_butlast_last_id append_take_drop_id)
    then have split: "newest_logs (filter (\<lambda>r. cleared \<or> lg_cleared_at r = None) rows)
        = (pre @ butlast ?page) @ last ?page # drop limit rest"
      using Suc.prems(1) by simp
    have split': "newest_logs (filter (\<lambda>r. cleared \<or> lg_cleared_at r = None) rows)
        = (pre @ ?page) @ drop limit rest"
      using Suc.prems(1) by simp
    have "walk_logs show_at at_of limit cleared n (write_cursor show_at (last ?page)) rows = drop limit rest"
      using Suc.IH [OF split' next_page [OF ids shape ms codec split]] Suc.prems(3) False limit by simp
    moreover have "log_page show_at at_of limit cleared cursor rows = (?page, Some (write_cursor show_at (last ?page)))"
      using Suc.prems(2) False ne by (simp add: log_page_def Let_def min_def)
    ultimately show ?thesis by simp
  qed
qed

definition demo_log :: "string \<Rightarrow> int \<Rightarrow> log_row" where
  "demo_log i t = \<lparr>lg_id = i @ replicate 35 (CHR ''0''), lg_row = \<lparr>au_actor = None, au_actor_label = ''root'', au_target = None,
     au_target_label = None, au_action = ''user.suspend'', au_detail = JObj []\<rparr>,
     lg_at = t, lg_cleared_at = None, lg_cleared_by = None\<rparr>"

text \<open>C40. Reading the audit log by following \<open>next_cursor\<close> ends and shows every selected row exactly once, newest
  first, whatever the page size, when the times of the rows are whole milliseconds.\<close>

theorem log_walk_is_complete:
  assumes "distinct (map lg_id rows)" and "\<forall>r \<in> set rows. sub_shape (lg_id r)"
    and "\<forall>r \<in> set rows. lg_at r mod 1000 = 0" and "date_codec show_at at_of" and "0 < limit"
  shows "walk_logs show_at at_of limit cleared (Suc (length rows)) [] rows
    = newest_logs (filter (\<lambda>r. cleared \<or> lg_cleared_at r = None) rows)"
  by (rule walk_from [OF assms, of cleared "[]"])
    (simp_all add: no_cursor selected_logs_def before_cursor_def le_imp_less_Suc)

lemma demo_codec: "date_codec (\<lambda>ms. if 0 \<le> ms then replicate (nat ms + 1) (CHR ''+'') else replicate (nat (- ms)) (CHR ''-''))
    (\<lambda>s. Some (if hd s = CHR ''+'' then int (length s) - 1 else - int (length s)))"
  by (auto simp: date_codec_def list_ex_iff)

theorem log_walk_is_complete_witness:
  "let show_at = (\<lambda>ms. if 0 \<le> ms then replicate (nat ms + 1) (CHR ''+'') else replicate (nat (- ms)) (CHR ''-''));
       at_of = (\<lambda>s. Some (if hd s = CHR ''+'' then int (length s) - 1 else - int (length s)));
       rows = [demo_log ''a'' 2000, demo_log ''b'' 5000, demo_log ''c'' 5000]
   in walk_logs show_at at_of 1 False 4 [] rows = newest_logs rows"
proof -
  let ?rows = "[demo_log ''a'' 2000, demo_log ''b'' 5000, demo_log ''c'' 5000]"
  have 1: "distinct (map lg_id ?rows)" "\<forall>r \<in> set ?rows. sub_shape (lg_id r)" "\<forall>r \<in> set ?rows. lg_at r mod 1000 = 0"
    by (simp_all add: demo_log_def sub_shape_def is_hex_lower_def is_digit_def less_eq_char_def list_all_iff)
  have "filter (\<lambda>r. False \<or> lg_cleared_at r = None) ?rows = ?rows" "Suc (length ?rows) = 4" by (simp_all add: demo_log_def)
  then show ?thesis using log_walk_is_complete [OF 1 demo_codec, of 1 False] by (simp only: Let_def)
qed

text \<open>Two rows within one millisecond: the second page starts below both, so the older of them is never shown.\<close>

lemma log_walk_loses_rows:
  assumes "date_codec show_at at_of"
  shows "walk_logs show_at at_of 1 False 3 [] [demo_log ''a'' 1000400, demo_log ''b'' 1000900] = [demo_log ''b'' 1000900]"
proof -
  have "sub_shape (lg_id (demo_log ''b'' 1000900))"
    by (simp add: demo_log_def sub_shape_def is_hex_lower_def is_digit_def less_eq_char_def list_all_iff)
  from cursor_roundtrip [OF assms this] show ?thesis
    by (simp add: eval_nat_numeral log_page_def selected_logs_def no_cursor newest_logs_def before_cursor_def demo_log_def Let_def)
qed

end
