(* ===== verification/OrgInvites.thy ===== *)
theory OrgInvites
  imports OrgUsers
begin

text \<open>
  Invitation codes as the organisation API manages them (\<open>src/routes/org.ts\<close>): the list within the viewer's
  reach, creation and voiding.  \<open>invite_origins\<close> holds the creator's columns of \<open>invitation_codes\<close>.
\<close>

section \<open>The list\<close>

definition creator_of :: "account_api \<Rightarrow> string \<Rightarrow> string option" where
  "creator_of t code = (case tget (invite_origins t) code of None \<Rightarrow> None | Some io \<Rightarrow> io_by io)"

text \<open>The live account of the creator, as the left joins give it.\<close>

definition live_creator :: "account_api \<Rightarrow> string \<Rightarrow> string option" where
  "live_creator t code = (case creator_of t code of
      None \<Rightarrow> None
    | Some sub \<Rightarrow> if undeleted (core (ap_sso t)) sub = None then None else Some sub)"

definition creator_level :: "account_api \<Rightarrow> string \<Rightarrow> int" where
  "creator_level t code = (case live_creator t code of
      None \<Rightarrow> INF_LEVEL | Some sub \<Rightarrow> role_level_of (user_role_row (core (ap_sso t)) sub))"

definition in_reach :: "org_actor \<Rightarrow> account_api \<Rightarrow> string \<Rightarrow> bool" where
  "in_reach a t code = (live_creator t code = None \<or> oa_level a \<le> creator_level t code)"

definition can_void :: "org_actor \<Rightarrow> account_api \<Rightarrow> string \<Rightarrow> invite \<Rightarrow> bool" where
  "can_void a t code v = (iv_used_by v = None \<and> iv_voided_at v = None
     \<and> (creator_of t code = Some (oa_sub a)
        \<or> ''org.invites.void'' \<in> set (oa_granted a) \<and> oa_level a < creator_level t code))"

record listed_invite =
  li_code :: string
  li_row :: invite
  li_origin :: "invite_origin option"
  li_role :: "(string \<times> string option) option"
  li_used_by :: "(string \<times> string) option"
  li_can_void :: bool

definition listed_invite_of :: "org_actor \<Rightarrow> account_api \<Rightarrow> string \<times> invite \<Rightarrow> listed_invite" where
  "listed_invite_of a t row = (case row of (code, v) \<Rightarrow>
     \<lparr>li_code = code, li_row = v, li_origin = tget (invite_origins t) code,
      li_role = map_option (\<lambda>slug. (slug, map_option or_label (tget (org_roles (core (ap_sso t))) slug))) (iv_role v),
      li_used_by = (case iv_used_by v of None \<Rightarrow> None
        | Some u \<Rightarrow> map_option (\<lambda>i. (i_username i, i_display_name i)) (tget (identities (core (ap_sso t))) u)),
      li_can_void = can_void a t code v\<rparr>)"

text \<open>Open codes first, then the newest.\<close>

definition invite_age :: "account_api \<Rightarrow> string \<Rightarrow> int" where
  "invite_age t code = (case tget (invite_origins t) code of None \<Rightarrow> 0 | Some io \<Rightarrow> - io_created_at io)"

definition reachable_invites :: "org_actor \<Rightarrow> account_api \<Rightarrow> (string \<times> invite) list" where
  "reachable_invites a t =
    sort_key (\<lambda>(_, v). iv_used_by v \<noteq> None \<or> iv_voided_at v \<noteq> None) (sort_key (\<lambda>(code, _). invite_age t code)
      (filter (\<lambda>(code, _). in_reach a t code) (invites (ap_sso t))))"

definition list_invites ::
  "externals \<Rightarrow> int \<Rightarrow> string option \<Rightarrow> string option \<Rightarrow> (string \<times> json) list \<Rightarrow> account_api \<Rightarrow> api + nat \<times> listed_invite list" where
  "list_invites x now authorization sidHeader q t =
    rbind (org_route x now authorization sidHeader (Some ''org.invites.view'') (ap_sso t)) (\<lambda>actor.
    let a = actor_ctx (core (ap_sso t)) actor; rows = reachable_invites a t in
    Inr (length rows, map (listed_invite_of a t)
      (take (page_limit 25 (jmember q ''limit'')) (drop (page_offset (jmember q ''offset'')) rows))))"

section \<open>Creating\<close>

definition invite_hours :: "(string \<times> json) list \<Rightarrow> int option" where
  "invite_hours b = (let n = (case jmember b ''validity_hours'' of None \<Rightarrow> Some 72 | Some v \<Rightarrow> js_number (Some v)) in
     case n of None \<Rightarrow> None | Some h \<Rightarrow> if h < 1 \<or> 8760 < h then None else Some h)"

definition CODE_CHARSET :: string where "CODE_CHARSET = ''ABCDEFGHIJKLMNOPQRSTUVWXYZ0123456789''"

definition generate_invite_code :: "nat list \<Rightarrow> string" where
  "generate_invite_code bytes = map (\<lambda>b. CODE_CHARSET ! (b mod length CODE_CHARSET)) bytes"

text \<open>The primary key refuses a code that exists, and another is drawn, five times at most; \<open>code n\<close> is the code of
  the \<open>n\<close>-th draw.\<close>

fun fresh_code :: "(nat \<Rightarrow> string) \<Rightarrow> nat \<Rightarrow> sso \<Rightarrow> string option \<times> sso" where
  "fresh_code code 0 s = (None, s)"
| "fresh_code code (Suc n) s =
    (let c = code (draws s); s = s\<lparr>draws := Suc (draws s)\<rparr> in
     if tget (invites s) c = None then (Some c, s) else fresh_code code n s)"

definition new_invite :: "int \<Rightarrow> int \<Rightarrow> string \<Rightarrow> invite" where
  "new_invite now hours role =
    \<lparr>iv_role = Some role, iv_expires_at = now + hours * 3600000, iv_use_count = 0, iv_pending_email = None,
     iv_pending_at = None, iv_used_by = None, iv_used_at = None, iv_voided_at = None,
     iv_clear_at = Some (now + hours * 3600000 + 24 * 3600000)\<rparr>"

text \<open>\<open>bytes n\<close> are the twelve random bytes of the \<open>n\<close>-th draw.\<close>

definition create_invite ::
  "externals \<Rightarrow> (nat \<Rightarrow> nat list) \<Rightarrow> int \<Rightarrow> string option \<Rightarrow> string option \<Rightarrow> (string \<times> json) list \<Rightarrow> account_api \<Rightarrow> api \<times> account_api" where
  "create_invite x bytes now authorization sidHeader b t =
    (case org_route x now authorization sidHeader (Some ''org.invites.create'') (ap_sso t) of
       Inl e \<Rightarrow> (e, t)
     | Inr actor \<Rightarrow>
         let d = core (ap_sso t); a = actor_ctx d actor; slug = qstr (jmember b ''role_slug'') in
         (case invite_hours b of
            None \<Rightarrow> (FieldErrors 422 [(''validity_hours'', ''1 to 8760 hours'')], t)
          | Some hours \<Rightarrow> (case tget (org_roles d) slug of
              None \<Rightarrow> (FieldErrors 422 [(''role_slug'', ''Pick a role below your own'')], t)
            | Some r \<Rightarrow>
                if or_level r \<le> oa_level a then (FieldErrors 422 [(''role_slug'', ''Pick a role below your own'')], t)
                else (case fresh_code (\<lambda>n. generate_invite_code (bytes n)) 5 (ap_sso t) of
                    (None, s) \<Rightarrow> (refuse 500 ''code_generation_failed'', t\<lparr>ap_sso := s\<rparr>)
                  | (Some c, s) \<Rightarrow>
                      (Answer [(''code'', JStr c), (''expires_at'', JInt (now + hours * 3600000)),
                         (''invited_role'', JObj [(''slug'', JStr slug), (''label'', JStr (or_label r))])],
                       t\<lparr>ap_sso := audit_act a None ''invite.create''
                             [(''code'', JStr c), (''role'', JStr slug), (''hours'', JInt hours)]
                             (s\<lparr>invites := tput c (new_invite now hours slug) (invites s)\<rparr>),
                         invite_origins := tput c \<lparr>io_by = Some (oa_sub a), io_label = oa_label a, io_created_at = now\<rparr>
                           (invite_origins t)\<rparr>)))))"

section \<open>Voiding\<close>

definition void_route ::
  "externals \<Rightarrow> int \<Rightarrow> string option \<Rightarrow> string option \<Rightarrow> string \<Rightarrow> account_api \<Rightarrow> api \<times> account_api" where
  "void_route x now authorization sidHeader param t =
    (case org_route x now authorization sidHeader None (ap_sso t) of
       Inl e \<Rightarrow> (e, t)
     | Inr actor \<Rightarrow>
         let a = actor_ctx (core (ap_sso t)) actor; code = upper param in
         if \<not> code_shape code then (refuse 404 ''not_found'', t)
         else (case tget (invites (ap_sso t)) code of
             None \<Rightarrow> (refuse 404 ''not_found'', t)
           | Some v \<Rightarrow>
               if iv_used_by v \<noteq> None then (refuse 409 ''already_used'', t)
               else if iv_voided_at v \<noteq> None then (refuse 409 ''already_voided'', t)
               else let own = (creator_of t code = Some (oa_sub a)) in
                 if \<not> own \<and> ''org.invites.void'' \<notin> set (oa_granted a) then (permission_refused ''org.invites.void'', t)
                 else if \<not> own \<and> creator_level t code \<le> oa_level a then (refuse 403 ''creator_not_below'', t)
                 else (NoContent, on_sso (\<lambda>s. audit_act a None ''invite.void'' [(''code'', JStr code), (''own'', JBool own)]
                         (void_invite now code (iv_pending_email v) s)) t)))"

end
