(* ===== verification/OrgControlProps.thy ===== *)
theory OrgControlProps
  imports OrgControl AuthInvariant
begin

text \<open>
  What the organisation API's control over accounts guarantees: power flows downward only, and the proof that
  the removal of second factors asks for is earned by a factor and spent once.
\<close>

section \<open>The requests\<close>

datatype control =
    EditProfile "(string \<times> json) list"
  | RemovePicture
  | SetPassword "(string \<times> json) list"
  | SendReset
  | DisableMfa
  | ResetMfa "(string \<times> json) list"
  | EndSession string
  | EndAllSessions
  | Suspend
  | Reactivate

text \<open>Who asks, with what headers, for what, on which account.\<close>

fun run_control ::
  "externals \<Rightarrow> string \<Rightarrow> int \<Rightarrow> string option \<Rightarrow> string option \<Rightarrow> string \<Rightarrow> control \<Rightarrow> account_api \<Rightarrow> api \<times> account_api" where
  "run_control x portal now au sh sub (EditProfile b) = patch_user x now au sh sub b"
| "run_control x portal now au sh sub RemovePicture = remove_user_avatar x portal now au sh sub"
| "run_control x portal now au sh sub (SetPassword b) = set_user_password x now au sh sub b"
| "run_control x portal now au sh sub SendReset = send_user_reset x now au sh sub"
| "run_control x portal now au sh sub DisableMfa = disable_user_mfa x now au sh sub"
| "run_control x portal now au sh sub (ResetMfa b) = reset_user_mfa x now au sh sub b"
| "run_control x portal now au sh sub (EndSession sid) = terminate_user_session x now au sh sub sid"
| "run_control x portal now au sh sub EndAllSessions = terminate_all_sessions x now au sh sub"
| "run_control x portal now au sh sub Suspend = suspend_user x now au sh sub"
| "run_control x portal now au sh sub Reactivate = reactivate_user x now au sh sub"

text \<open>The permissions a request needs: a profile edit needs the key of each field it names.\<close>

definition names_field :: "(string \<times> json) list \<Rightarrow> string \<Rightarrow> bool" where
  "names_field b f = (case jmember b f of Some (JStr _) \<Rightarrow> True | _ \<Rightarrow> False)"

definition control_keys :: "control \<Rightarrow> string set" where
  "control_keys c = (case c of
      EditProfile b \<Rightarrow> (if names_field b ''display_name'' then {''org.users.edit.displayname''} else {})
        \<union> (if names_field b ''email'' then {''org.users.edit.email''} else {})
        \<union> (if names_field b ''username'' then {''org.users.edit.username''} else {})
    | RemovePicture \<Rightarrow> {''org.users.edit.profilePicture.remove''}
    | SetPassword _ \<Rightarrow> {''org.users.edit.password''}
    | SendReset \<Rightarrow> {''org.users.edit.password''}
    | DisableMfa \<Rightarrow> {''org.users.edit.mfa.disable''}
    | ResetMfa _ \<Rightarrow> {''org.users.edit.mfa.reset''}
    | EndSession _ \<Rightarrow> {''org.users.edit.sessions.terminate''}
    | EndAllSessions \<Rightarrow> {''org.users.edit.sessions.terminate''}
    | Suspend \<Rightarrow> {''org.users.edit.deactivate''}
    | Reactivate \<Rightarrow> {''org.users.edit.reactivate''})"

section \<open>The parts of an account\<close>

text \<open>What belongs to one account: its row, its sessions, its authenticators and its passkeys.\<close>

definition account_part :: "sso \<Rightarrow> string \<Rightarrow> identity option \<times> (string \<times> session) list \<times> (string \<times> totp_credential) list \<times> (string \<times> passkey) list" where
  "account_part s u = (tget (identities (core s)) u, filter (\<lambda>(_, r). se_user r = u) (sessions s),
     filter (\<lambda>(_, c). tc_user c = u) (totp_credentials s), filter (\<lambda>(_, p). pk_user p = u) (passkeys s))"

definition touches_only :: "string \<Rightarrow> sso \<Rightarrow> sso \<Rightarrow> bool" where
  "touches_only sub s s' = (\<forall>u. u \<noteq> sub \<longrightarrow> account_part s' u = account_part s u)"

named_theorems touch \<open>what a change of the state touches\<close>

lemma touch_refl: "touches_only sub s s"
  by (simp add: touches_only_def)

lemma touch_trans: "touches_only sub s s1 \<Longrightarrow> touches_only sub s1 s2 \<Longrightarrow> touches_only sub s s2"
  by (simp add: touches_only_def)

lemma touch_audit [touch]: "touches_only sub s (audit_act a g act ds s)"
  by (simp add: touches_only_def account_part_def audit_act_def)

lemma touch_write [touch]: "touches_only sub s (write_identity sub f s)"
  by (simp add: touches_only_def account_part_def write_identity_def tbl_simps option.map_ident)

lemma touch_password [touch]: "touches_only sub s (write_password x now sub pw s)"
  by (simp add: touches_only_def account_part_def write_password_def Let_def tbl_simps option.map_ident)

lemma touch_mail [touch]: "touches_only sub s (snd (send_email x to' v s))"
  by (simp add: touches_only_def account_part_def send_email_def)

lemma touch_notify [touch]: "touches_only sub s (notify_changed x i s)"
  by (auto simp: notify_changed_def touch touch_refl split: option.splits)

lemma touch_link [touch]: "touches_only sub s (snd (issue_reset_token x now u s))"
  by (auto simp: touches_only_def account_part_def issue_reset_token_def draw_def forget_link_def Let_def split: option.splits)

lemma touch_factors [touch]: "touches_only sub s (drop_factors sub s)"
  by (auto simp: touches_only_def account_part_def drop_factors_def tfilter_def intro!: filter_cong)

lemma touch_core: "identities d = identities (core s) \<Longrightarrow> touches_only sub s (s\<lparr>core := d\<rparr>)"
  by (simp add: touches_only_def account_part_def)

lemma touch_enqueue [touch]: "touches_only sub s (enqueue_events x now c es s)"
proof -
  obtain d where d: "enqueue_events x now c es s = s\<lparr>core := d\<rparr>" using enqueue_core by blast
  then show ?thesis using enqueue_frame [of x now c es s] by (simp add: touch_core same_role_tables_def)
qed

lemma touch_push [touch]: "touches_only sub s (push_avatar_change x portal now u f s)"
proof -
  have "touches_only sub s (fold (\<lambda>c. enqueue_events x now c es) cs s)" for cs es
    by (induction cs arbitrary: s) (auto intro: touch touch_trans touch_refl)
  then show ?thesis by (simp add: push_avatar_change_def)
qed

lemma touch_fan_out [touch]: "touches_only sub s (fan_out_logout x now u sid cs s)"
proof -
  obtain d where d: "fan_out_logout x now u sid cs s = s\<lparr>core := d\<rparr>" using fan_out_core by blast
  then show ?thesis using fan_out_frame [of x now u sid cs s] by (simp add: touch_core same_role_tables_def)
qed

lemma touch_end [touch]: "touches_only sub s (end_sessions x now (\<lambda>_ r. se_user r = sub) s)"
proof -
  obtain d where d: "end_sessions x now (\<lambda>_ r. se_user r = sub) s
      = s\<lparr>sessions := tfilter (\<lambda>sid r. se_user r \<noteq> sub) (sessions s), core := d\<rparr>"
    using end_sessions_core by blast
  then have "identities d = identities (core s)"
    using end_sessions_frame(3) [of s x now "\<lambda>_ r. se_user r = sub"] by (simp add: same_role_tables_def)
  then show ?thesis unfolding d by (auto simp: touches_only_def account_part_def tfilter_def intro!: filter_cong)
qed

lemma touch_delete:
  assumes "pk (sessions s)" and "tget (sessions s) sid = Some r" and "se_user r = sub"
  shows "touches_only sub s (s\<lparr>sessions := tdel sid (sessions s)\<rparr>)"
proof -
  have "se_user q = sub" if "(sid, q) \<in> set (sessions s)" for q
    using that assms by (metis option.inject tget_in_set)
  then have "filter (\<lambda>(_, r). se_user r = u) (tdel sid (sessions s)) = filter (\<lambda>(_, r). se_user r = u) (sessions s)"
    if "u \<noteq> sub" for u
    using that by (auto simp: tdel_def AList.delete_eq intro!: filter_cong)
  then show ?thesis by (simp add: touches_only_def account_part_def)
qed

lemma touch_revoke [touch]: "touches_only sub s (snd (revoke_all_sessions x now sub s))"
  by (simp add: revoke_all_sessions_def touch)

lemma touch_avatar_file [simp]: "ap_sso (delete_avatar_file f t) = ap_sso t"
  by (simp add: delete_avatar_file_def split: option.splits)

lemma on_sso_sso [simp]: "ap_sso (on_sso f t) = f (ap_sso t)"
  by (simp add: on_sso_def)


section \<open>Power flows downward\<close>

lemma scoped_route:
  assumes "org_route x now au sh key s = Inr actor"
  shows "scoped_sub x au = Inr actor" and "fresh_org_stepup now actor sh s"
    and "key = Some k \<Longrightarrow> has_perm (core s) actor k"
  using assms by (auto simp: org_route_def res_simps split: option.splits if_splits)

lemma actor_level_row: "oa_level (actor_ctx d sub) = role_level_of (user_role_row d sub)"
  by (simp add: actor_ctx_def resolve_authz_def int_level_def role_level_of_def Let_def split: option.splits prod.splits)

lemma editable_below:
  assumes "editable_target d actor sub = Some (a, g)"
  shows "a = actor_ctx d actor" and "tg_sub g = sub" and "undeleted d sub = Some (tg_row g)"
    and "sub \<noteq> actor" and "role_level_of (user_role_row d actor) < role_level_of (user_role_row d sub)"
proof -
  have oa: "oa_sub (actor_ctx d actor) = actor" by (simp add: actor_ctx_def Let_def)
  from assms obtain i where u: "undeleted d sub = Some i" and a: "a = actor_ctx d actor"
      and g: "g = \<lparr>tg_sub = sub, tg_row = i, tg_role = user_role_row d sub\<rparr>" and ne: "sub \<noteq> oa_sub a"
      and l: "\<not> role_level_of (user_role_row d sub) \<le> oa_level a"
    by (auto simp: editable_target_def load_target_def Let_def split: option.splits if_splits)
  show "a = actor_ctx d actor" "tg_sub g = sub" "undeleted d sub = Some (tg_row g)"
    "sub \<noteq> actor" "role_level_of (user_role_row d actor) < role_level_of (user_role_row d sub)"
    using u a g ne l oa by (simp_all add: actor_level_row)
qed

lemma on_target_cases:
  assumes "on_target x now au sh key sub h t = (r, t')" and "t' \<noteq> t"
  obtains actor a g where "org_route x now au sh key (ap_sso t) = Inr actor"
      and "editable_target (core (ap_sso t)) actor sub = Some (a, g)" and "h a g t = (r, t')"
  using assms by (auto simp: on_target_def split: sum.splits option.splits prod.splits)

text \<open>Who may make a request.\<close>

definition authorised ::
  "externals \<Rightarrow> int \<Rightarrow> string option \<Rightarrow> string option \<Rightarrow> string \<Rightarrow> control \<Rightarrow> account_api \<Rightarrow> string \<Rightarrow> bool" where
  "authorised x now au sh sub c t actor =
    (scoped_sub x au = Inr actor \<and> fresh_org_stepup now actor sh (ap_sso t)
     \<and> (\<forall>k \<in> control_keys c. has_perm (core (ap_sso t)) actor k)
     \<and> sub \<noteq> actor \<and> undeleted (core (ap_sso t)) sub \<noteq> None
     \<and> role_level_of (user_role_row (core (ap_sso t)) actor) < role_level_of (user_role_row (core (ap_sso t)) sub))"

lemma authorisedI:
  assumes "org_route x now au sh key (ap_sso t) = Inr actor" and "editable_target (core (ap_sso t)) actor sub = Some (a, g)"
    and "\<And>k. k \<in> control_keys c \<Longrightarrow> key = Some k \<or> k \<in> set (oa_granted a)"
  shows "authorised x now au sh sub c t actor"
proof -
  have "oa_granted a = az_granted (resolve_authz (core (ap_sso t)) actor)"
    by (simp add: editable_below(1) [OF assms(2)] actor_ctx_def Let_def)
  then have "has_perm (core (ap_sso t)) actor k" if "k \<in> control_keys c" for k
    using assms(3) [OF that] scoped_route(3) [OF assms(1)] by (auto simp: has_perm_def)
  then show ?thesis using scoped_route [OF assms(1)] editable_below [OF assms(2)] by (simp add: authorised_def)
qed

lemmas touch_steps = touch [THEN [2] touch_trans]

lemma edits_granted:
  assumes "profile_edits now a sub s b = Inr c" and "k \<in> control_keys (EditProfile b)"
  shows "k \<in> set (oa_granted a)"
proof -
  from assms(1) obtain n e u where "edit_display_name a b = Inr n" "edit_email now a sub s b = Inr e"
      "edit_username a sub (core s) b = Inr u"
    by (auto simp: profile_edits_def res_simps split: if_splits)
  then have "names_field b ''display_name'' \<Longrightarrow> ''org.users.edit.displayname'' \<in> set (oa_granted a)"
    "names_field b ''email'' \<Longrightarrow> ''org.users.edit.email'' \<in> set (oa_granted a)"
    "names_field b ''username'' \<Longrightarrow> ''org.users.edit.username'' \<in> set (oa_granted a)"
    by (simp_all add: names_field_def edit_display_name_def edit_email_def edit_username_def split: option.splits json.splits if_splits)
  then show ?thesis using assms(2) by (auto simp: control_keys_def split: if_splits)
qed

lemma control_by:
  assumes run: "on_target x now au sh (Some key) sub h t = (r, t')" and "t' \<noteq> t" and keys: "control_keys c = {key}"
    and h: "\<And>a g r t'. tg_sub g = sub \<Longrightarrow> h a g t = (r, t') \<Longrightarrow> touches_only sub (ap_sso t) (ap_sso t')"
  shows "\<exists>actor. authorised x now au sh sub c t actor \<and> touches_only sub (ap_sso t) (ap_sso t')"
proof -
  from on_target_cases [OF run assms(2)] obtain actor a g where route: "org_route x now au sh (Some key) (ap_sso t) = Inr actor"
      and e: "editable_target (core (ap_sso t)) actor sub = Some (a, g)" and go: "h a g t = (r, t')" .
  have "authorised x now au sh sub c t actor" by (rule authorisedI [OF route e]) (simp add: keys)
  then show ?thesis using h [OF editable_below(2) [OF e] go] by blast
qed

lemma control_edit:
  assumes run: "patch_user x now au sh sub b t = (r, t')" and "t' \<noteq> t"
  shows "\<exists>actor. authorised x now au sh sub (EditProfile b) t actor \<and> touches_only sub (ap_sso t) (ap_sso t')"
proof -
  from on_target_cases [OF run [unfolded patch_user_def] assms(2)] obtain actor a g
    where route: "org_route x now au sh None (ap_sso t) = Inr actor"
      and e: "editable_target (core (ap_sso t)) actor sub = Some (a, g)"
      and h: "(case profile_edits now a (tg_sub g) (ap_sso t) b of Inl e \<Rightarrow> (e, t)
        | Inr c \<Rightarrow> (NoContent, on_sso (audit_act a (Some g) ''user.profile_edit'' [(''fields'', JArr (map JStr (changed_fields c)))])
            (on_sso (write_identity (tg_sub g) (apply_changes c)) t))) = (r, t')" .
  obtain ch where ch: "profile_edits now a (tg_sub g) (ap_sso t) b = Inr ch"
    using h assms(2) by (cases "profile_edits now a (tg_sub g) (ap_sso t) b") auto
  have "authorised x now au sh sub (EditProfile b) t actor"
    by (rule authorisedI [OF route e]) (use edits_granted [OF ch] in blast)
  moreover have t': "t' = on_sso (audit_act a (Some g) ''user.profile_edit'' [(''fields'', JArr (map JStr (changed_fields ch)))])
      (on_sso (write_identity (tg_sub g) (apply_changes ch)) t)"
    using h ch by simp
  have "touches_only sub (ap_sso t) (ap_sso t')"
    unfolding t' on_sso_sso editable_below(2) [OF e] by (intro touch_steps touch_refl)
  ultimately show ?thesis by blast
qed

lemma control_password:
  assumes "set_user_password x now au sh sub b t = (r, t')" and "t' \<noteq> t"
  shows "\<exists>actor. authorised x now au sh sub (SetPassword b) t actor \<and> touches_only sub (ap_sso t) (ap_sso t')"
proof (rule control_by [OF assms(1) [unfolded set_user_password_def] assms(2)])
  fix a :: org_actor and g r t'
  assume g: "tg_sub g = sub" and h: "(case jmember b ''password'' of
        Some (JStr pw) \<Rightarrow>
          if \<not> strong_password pw then (refuse 422 ''weak_password'', t)
          else (case revoke_all_sessions x now (tg_sub g) (write_password x now (tg_sub g) pw (ap_sso t)) of (n, s) \<Rightarrow>
            (NoContent, t\<lparr>ap_sso := notify_changed x (tg_row g)
               (audit_act a (Some g) ''user.password_set'' [(''sessions_revoked'', JInt (int n))] s)\<rparr>))
      | _ \<Rightarrow> (refuse 422 ''weak_password'', t)) = (r, t')"
  have "touches_only sub (ap_sso t) (notify_changed x (tg_row g) (audit_act a (Some g) ''user.password_set'' ds
      (snd (revoke_all_sessions x now sub (write_password x now sub pw (ap_sso t))))))" for pw ds
    by (intro touch_steps touch_refl)
  then show "touches_only sub (ap_sso t) (ap_sso t')"
    using h g touch_refl by (auto simp: case_prod_beta split: option.splits json.splits if_splits)
qed (simp add: control_keys_def)

lemma control_reset_link:
  assumes "send_user_reset x now au sh sub t = (r, t')" and "t' \<noteq> t"
  shows "\<exists>actor. authorised x now au sh sub SendReset t actor \<and> touches_only sub (ap_sso t) (ap_sso t')"
proof (rule control_by [OF assms(1) [unfolded send_user_reset_def] assms(2)])
  fix a :: org_actor and g r t'
  assume g: "tg_sub g = sub" and h: "(case i_email (tg_row g) of
        None \<Rightarrow> (refuse 400 ''no_email'', t)
      | Some e \<Rightarrow>
          if e = [] then (refuse 400 ''no_email'', t)
          else let (token, s) = issue_reset_token x now (tg_sub g) (ap_sso t);
                   (sent, s) = send_email x e token s
               in if \<not> sent then (refuse 502 ''not_sent'', t\<lparr>ap_sso := s\<rparr>)
                  else (NoContent, t\<lparr>ap_sso := audit_act a (Some g) ''user.reset_link_sent'' [] s\<rparr>)) = (r, t')"
  let ?s = "\<lambda>e. snd (send_email x e (fst (issue_reset_token x now sub (ap_sso t))) (snd (issue_reset_token x now sub (ap_sso t))))"
  have "touches_only sub (ap_sso t) (?s e)" "touches_only sub (ap_sso t) (audit_act a (Some g) ''user.reset_link_sent'' [] (?s e))" for e
    by (intro touch_steps touch_refl)+
  then show "touches_only sub (ap_sso t) (ap_sso t')"
    using h g touch_refl by (auto simp: case_prod_beta Let_def split: option.splits if_splits)
qed (simp add: control_keys_def)

lemma control_session:
  assumes pk: "pk (sessions (ap_sso t))" and run: "terminate_user_session x now au sh sub sid t = (r, t')" and "t' \<noteq> t"
  shows "\<exists>actor. authorised x now au sh sub (EndSession sid) t actor \<and> touches_only sub (ap_sso t) (ap_sso t')"
proof (rule control_by [OF run [unfolded terminate_user_session_def] assms(3)])
  fix a :: org_actor and g r t'
  assume g: "tg_sub g = sub" and h: "(case tget (sessions (ap_sso t)) (lower sid) of
        None \<Rightarrow> (refuse 404 ''not_found'', t)
      | Some r \<Rightarrow>
          if se_user r \<noteq> tg_sub g then (refuse 404 ''not_found'', t)
          else (NoContent, on_sso (\<lambda>s. audit_act a (Some g) ''user.session_terminate'' []
            (fan_out_logout x now (tg_sub g) sid (se_clients r) (s\<lparr>sessions := tdel (lower sid) (sessions s)\<rparr>))) t)) = (r, t')"
  show "touches_only sub (ap_sso t) (ap_sso t')"
  proof (cases "tget (sessions (ap_sso t)) (lower sid)")
    case None
    then show ?thesis using h touch_refl by simp
  next
    case (Some q)
    show ?thesis
    proof (cases "se_user q = sub")
      case True
      have "touches_only sub (ap_sso t) (audit_act a (Some g) ''user.session_terminate'' []
          (fan_out_logout x now sub sid (se_clients q) ((ap_sso t)\<lparr>sessions := tdel (lower sid) (sessions (ap_sso t))\<rparr>)))"
        by (intro touch_steps touch_delete [OF pk Some True])
      then show ?thesis using h g Some True by auto
    next
      case False
      then show ?thesis using h g Some touch_refl by simp
    qed
  qed
qed (simp add: control_keys_def)

lemma control_mfa:
  assumes "reset_user_mfa x now au sh sub b t = (r, t')" and "t' \<noteq> t"
  shows "\<exists>actor. authorised x now au sh sub (ResetMfa b) t actor \<and> touches_only sub (ap_sso t) (ap_sso t')"
proof (rule control_by [OF assms(1) [unfolded reset_user_mfa_def] assms(2)])
  fix a :: org_actor and g r t'
  assume g: "tg_sub g = sub" and h: "(if setting_or (core (ap_sso t)) ''stepup_portal_required'' ''false'' = ''true''
      then (case spend_action now (qstr (jmember b ''action_token'')) (oa_sub a) ''mfa.reset'' (tg_sub g) t of (ok, t) \<Rightarrow>
          if ok then (NoContent, on_sso (apply_mfa_reset a g) t) else (refuse 403 ''action_challenge_required'', t))
      else (NoContent, on_sso (apply_mfa_reset a g) t)) = (r, t')"
  have "touches_only sub (ap_sso t) (apply_mfa_reset a g (ap_sso t))"
    unfolding apply_mfa_reset_def Let_def g by (intro touch_steps touch_refl)
  then show "touches_only sub (ap_sso t) (ap_sso t')"
    using h g touch_refl by (auto simp: spend_action_def rgetdel_def Let_def split: if_splits)
qed (simp add: control_keys_def)

text \<open>The requests whose handler has no branch.\<close>

lemma control_effect:
  assumes pk: "pk (sessions (ap_sso t))" and run: "run_control x portal now au sh sub c t = (r, t')" and new: "t' \<noteq> t"
  shows "\<exists>actor. authorised x now au sh sub c t actor \<and> touches_only sub (ap_sso t) (ap_sso t')"
proof (cases c)
  case (EditProfile b)
  then show ?thesis using control_edit run new by simp
next
  case RemovePicture
  show ?thesis using run new unfolding RemovePicture run_control.simps remove_user_avatar_def
    by (elim control_by) (auto simp: control_keys_def drop_avatar_def set_avatar_def split: if_splits intro!: touch_steps touch_refl)
next
  case (SetPassword b)
  then show ?thesis using control_password run new by simp
next
  case SendReset
  then show ?thesis using control_reset_link run new by simp
next
  case DisableMfa
  show ?thesis using run new unfolding DisableMfa run_control.simps disable_user_mfa_def
    by (elim control_by) (auto simp: control_keys_def intro!: touch_steps touch_refl)
next
  case (ResetMfa b)
  then show ?thesis using control_mfa run new by simp
next
  case (EndSession sid)
  then show ?thesis using control_session pk run new by simp
next
  case EndAllSessions
  show ?thesis using run new unfolding EndAllSessions run_control.simps terminate_all_sessions_def
    by (elim control_by) (auto simp: control_keys_def end_all_for_def case_prod_beta intro!: touch_steps touch_refl)
next
  case Suspend
  show ?thesis using run new unfolding Suspend run_control.simps suspend_user_def
    by (elim control_by) (auto simp: control_keys_def end_all_for_def case_prod_beta intro!: touch_steps touch_refl)
next
  case Reactivate
  show ?thesis using run new unfolding Reactivate run_control.simps reactivate_user_def
    by (elim control_by) (auto simp: control_keys_def intro!: touch_steps touch_refl)
qed


text \<open>C21. Power flows downward: whatever the organisation API is asked to do to an account, the only account whose
  row, sessions, authenticators or passkeys change is the one named, and only when the caller holds a valid token
  with the profile scope, the permissions the request needs and a fresh step-up where it is required, is not that
  account itself and stands strictly above it.\<close>

theorem control_is_downward:
  assumes "pk (sessions (ap_sso t))"
    and "account_part (ap_sso (snd (run_control x portal now au sh sub c t))) u \<noteq> account_part (ap_sso t) u"
  shows "u = sub \<and> (\<exists>actor. authorised x now au sh sub c t actor)"
proof -
  obtain r t' where run: "run_control x portal now au sh sub c t = (r, t')" by (cases "run_control x portal now au sh sub c t")
  then have "t' \<noteq> t" using assms(2) by auto
  from control_effect [OF assms(1) run this] obtain actor
    where "authorised x now au sh sub c t actor" "touches_only sub (ap_sso t) (ap_sso t')" by blast
  then show ?thesis using assms(2) run by (auto simp: touches_only_def)
qed

definition demo_api :: account_api where
  "demo_api = \<lparr>ap_sso = (empty_sso (demo_org\<lparr>role_permissions := [((''admin'', ''org.users.edit.deactivate''), Grant),
        ((''admin'', ''org.users.edit.mfa.reset''), Grant)]\<rparr>))\<lparr>sessions := [(demo_sid, demo_session)],
        passkeys := [(''k1'', demo_passkey), (''k2'', demo_passkey\<lparr>pk_user := demo_admin\<rparr>)]\<rparr>,
     avatar_files = [], action_tokens = [], action_passkeys = [], invite_origins = []\<rparr>"

theorem control_is_downward_witness:
  "authorised demo_x 9000 (Some (''Bearer '' @ demo_admin)) None demo_user Suspend demo_api demo_admin"
proof -
  have "pk (sessions (ap_sso demo_api))" by code_simp
  moreover have "account_part (ap_sso (snd (run_control demo_x [] 9000 (Some (''Bearer '' @ demo_admin)) None demo_user Suspend demo_api)))
      demo_user \<noteq> account_part (ap_sso demo_api) demo_user"
    by code_simp
  ultimately obtain actor where "authorised demo_x 9000 (Some (''Bearer '' @ demo_admin)) None demo_user Suspend demo_api actor"
    using control_is_downward [of demo_api demo_x "[]" 9000 "Some (''Bearer '' @ demo_admin)" None demo_user Suspend demo_user] by blast
  moreover from this have "scoped_sub demo_x (Some (''Bearer '' @ demo_admin)) = Inr actor" by (simp add: authorised_def)
  moreover have "scoped_sub demo_x (Some (''Bearer '' @ demo_admin)) = Inr demo_admin" by code_simp
  ultimately show ?thesis by simp
qed

section \<open>One-time proofs\<close>

text \<open>The calls that mint, carry or spend a proof, in any order and at any times.\<close>

datatype api_call =
    AskChallenge "string option"
  | MintProof "string option" "(string \<times> json) list"
  | Control "string option" "string option" string control

fun api_step :: "externals \<Rightarrow> string \<Rightarrow> int \<Rightarrow> api_call \<Rightarrow> account_api \<Rightarrow> api \<times> account_api" where
  "api_step x portal now (AskChallenge au) t = action_challenge x now au t"
| "api_step x portal now (MintProof au b) t = action_token x now au b t"
| "api_step x portal now (Control au sh sub c) t = run_control x portal now au sh sub c t"

text \<open>A call that proves a factor and so mints a proof; a call that resets an account's factors on one.\<close>

definition minting :: "externals \<Rightarrow> int \<Rightarrow> api_call \<Rightarrow> account_api \<Rightarrow> (string \<times> action_grant) option" where
  "minting x now call t = (case call of
      MintProof au b \<Rightarrow> (case scoped_sub x au of
          Inl _ \<Rightarrow> None
        | Inr sub \<Rightarrow>
            if qstr (jmember b ''action'') \<noteq> [] \<and> sub_shape (qstr (jmember b ''target_sub'')) \<and> fst (prove_action x now sub b t) = Inr ()
            then Some (fst (draw x (ap_sso (snd (prove_action x now sub b t)))),
              \<lparr>ag_actor = sub, ag_action = qstr (jmember b ''action''), ag_target = qstr (jmember b ''target_sub'')\<rparr>)
            else None)
    | _ \<Rightarrow> None)"

definition spending :: "externals \<Rightarrow> int \<Rightarrow> api_call \<Rightarrow> account_api \<Rightarrow> (string \<times> action_grant) option" where
  "spending x now call t = (case call of
      Control au sh sub (ResetMfa b) \<Rightarrow> (case scoped_sub x au of
          Inl _ \<Rightarrow> None
        | Inr actor \<Rightarrow>
            if setting_or (core (ap_sso t)) ''stepup_portal_required'' ''false'' = ''true'' \<and> fst (reset_user_mfa x now au sh sub b t) = NoContent
            then Some (qstr (jmember b ''action_token''), \<lparr>ag_actor = actor, ag_action = ''mfa.reset'', ag_target = sub\<rparr>)
            else None)
    | _ \<Rightarrow> None)"

fun proof_log ::
  "(int \<Rightarrow> api_call \<Rightarrow> account_api \<Rightarrow> (string \<times> action_grant) option) \<Rightarrow> externals \<Rightarrow> string \<Rightarrow> (int \<times> api_call) list \<Rightarrow> account_api
    \<Rightarrow> (int \<times> string \<times> action_grant) list" where
  "proof_log f x portal [] t = []"
| "proof_log f x portal ((now, c) # h) t =
    (case f now c t of None \<Rightarrow> [] | Some m \<Rightarrow> [(now, m)]) @ proof_log f x portal h (snd (api_step x portal now c t))"

lemma on_sso_tokens [simp]: "action_tokens (on_sso f t) = action_tokens t"
  by (simp add: on_sso_def)

lemma delete_file_tokens [simp]: "action_tokens (delete_avatar_file f t) = action_tokens t"
  by (simp add: delete_avatar_file_def split: option.splits)

lemma drop_avatar_tokens [simp]: "action_tokens (drop_avatar x portal now u i t) = action_tokens t"
  by (simp add: drop_avatar_def)

lemma on_target_tokens:
  assumes "\<And>a g. action_tokens (snd (h a g t)) = action_tokens t"
  shows "action_tokens (snd (on_target x now au sh key sub h t)) = action_tokens t"
  using assms by (auto simp: on_target_def split: sum.splits option.splits prod.splits)

lemma control_tokens:
  assumes "\<And>b. c \<noteq> ResetMfa b"
  shows "action_tokens (snd (run_control x portal now au sh sub c t)) = action_tokens t"
proof (cases c)
  case (EditProfile b)
  then show ?thesis by (auto simp: patch_user_def intro!: on_target_tokens split: sum.splits)
next
  case RemovePicture
  then show ?thesis by (simp add: remove_user_avatar_def on_target_tokens)
next
  case (SetPassword b)
  then show ?thesis by (auto simp: set_user_password_def intro!: on_target_tokens split: option.splits json.splits prod.splits)
next
  case SendReset
  then show ?thesis by (auto simp: send_user_reset_def Let_def intro!: on_target_tokens split: option.splits prod.splits)
next
  case DisableMfa
  then show ?thesis by (simp add: disable_user_mfa_def on_target_tokens)
next
  case (EndSession sid)
  then show ?thesis by (auto simp: terminate_user_session_def intro!: on_target_tokens split: option.splits)
next
  case EndAllSessions
  then show ?thesis by (simp add: terminate_all_sessions_def on_target_tokens)
next
  case Suspend
  then show ?thesis by (simp add: suspend_user_def on_target_tokens)
next
  case Reactivate
  then show ?thesis by (simp add: reactivate_user_def on_target_tokens)
qed (use assms in simp)

lemma prove_tokens: "action_tokens (snd (prove_action x now sub b t)) = action_tokens t"
  by (auto simp: prove_action_def Let_def split: option.splits sum.splits prod.splits)


lemma reset_spends:
  "action_tokens (snd (reset_user_mfa x now au sh sub b t)) = action_tokens t
   \<or> action_tokens (snd (reset_user_mfa x now au sh sub b t)) = rdel (qstr (jmember b ''action_token'')) (action_tokens t)"
  by (auto simp: reset_user_mfa_def on_target_def spend_action_def rgetdel_def Let_def split: sum.splits option.splits prod.splits)

lemma reset_needs_proof:
  assumes "spending x now (Control au sh sub (ResetMfa b)) t = Some (tok, g)"
  shows "rget now (action_tokens t) tok = Some g"
    and "action_tokens (snd (reset_user_mfa x now au sh sub b t)) = rdel tok (action_tokens t)" and "ag_action g = ''mfa.reset''"
proof -
  from assms obtain actor where sc: "scoped_sub x au = Inr actor"
      and req: "setting_or (core (ap_sso t)) ''stepup_portal_required'' ''false'' = ''true''"
      and ok: "fst (reset_user_mfa x now au sh sub b t) = NoContent"
      and tok: "tok = qstr (jmember b ''action_token'')" and g: "g = \<lparr>ag_actor = actor, ag_action = ''mfa.reset'', ag_target = sub\<rparr>"
    by (auto simp: spending_def split: sum.splits if_splits)
  obtain actor' where route: "org_route x now au sh (Some ''org.users.edit.mfa.reset'') (ap_sso t) = Inr actor'"
    using ok by (cases "org_route x now au sh (Some ''org.users.edit.mfa.reset'') (ap_sso t)")
      (auto simp: reset_user_mfa_def on_target_def org_route_def scoped_sub_def res_simps refuse_def permission_refused_def
         split: sum.splits scope_answer.splits if_splits)
  have actor': "actor' = actor" using scoped_route(1) [OF route] sc by simp
  obtain a q where e: "editable_target (core (ap_sso t)) actor sub = Some (a, q)"
    using ok route actor' by (cases "editable_target (core (ap_sso t)) actor sub") (auto simp: reset_user_mfa_def on_target_def refuse_def)
  have ids: "oa_sub a = actor" "tg_sub q = sub"
    using editable_below(1,2) [OF e] by (simp_all add: actor_ctx_def Let_def)
  have run: "reset_user_mfa x now au sh sub b t = (case spend_action now tok actor ''mfa.reset'' sub t of (ok, t) \<Rightarrow>
      if ok then (NoContent, on_sso (apply_mfa_reset a q) t) else (refuse 403 ''action_challenge_required'', t))"
    using route e req by (simp add: reset_user_mfa_def on_target_def actor' ids tok)
  show "rget now (action_tokens t) tok = Some g" "ag_action g = ''mfa.reset''"
    "action_tokens (snd (reset_user_mfa x now au sh sub b t)) = rdel tok (action_tokens t)"
    using ok unfolding run by (auto simp: spend_action_def rgetdel_def refuse_def g split: if_splits)
qed

lemma mint_stores:
  "action_tokens (snd (action_token x now au b t)) = (case minting x now (MintProof au b) t of
      None \<Rightarrow> action_tokens t | Some (tok, g) \<Rightarrow> rset_ex now tok g ACTION_TTL (action_tokens t))"
proof (cases "scoped_sub x au")
  case Inl
  then show ?thesis by (simp add: action_token_def minting_def)
next
  case (Inr sub)
  obtain v t1 where p: "prove_action x now sub b t = (v, t1)" by (cases "prove_action x now sub b t")
  have "action_tokens t1 = action_tokens t" using prove_tokens [of x now sub b t] by (simp add: p)
  then show ?thesis using Inr p by (cases v) (auto simp: action_token_def minting_def Let_def draw_def)
qed

lemma challenge_tokens: "action_tokens (snd (action_challenge x now au t)) = action_tokens t"
  by (auto simp: action_challenge_def Let_def split: sum.splits prod.splits)

text \<open>What one call does to the stored proofs.\<close>

lemma proof_step:
  obtains (kept) "action_tokens (snd (api_step x portal now c t)) = action_tokens t" "minting x now c t = None" "spending x now c t = None"
  | (minted) tok g where "minting x now c t = Some (tok, g)" "spending x now c t = None"
      "action_tokens (snd (api_step x portal now c t)) = rset_ex now tok g ACTION_TTL (action_tokens t)"
  | (burnt) tok where "minting x now c t = None" "spending x now c t = None"
      "action_tokens (snd (api_step x portal now c t)) = rdel tok (action_tokens t)"
  | (spent) tok g where "minting x now c t = None" "spending x now c t = Some (tok, g)" "rget now (action_tokens t) tok = Some g"
      "ag_action g = ''mfa.reset''" "action_tokens (snd (api_step x portal now c t)) = rdel tok (action_tokens t)"
proof (cases c)
  case (AskChallenge au)
  then show thesis using kept challenge_tokens by (simp add: minting_def spending_def)
next
  case (MintProof au b)
  have s: "spending x now c t = None" by (simp add: MintProof spending_def)
  show thesis
  proof (cases "minting x now c t")
    case None
    then show ?thesis using kept s mint_stores [of x now au b t] by (simp add: MintProof)
  next
    case (Some m)
    then show ?thesis using minted s mint_stores [of x now au b t] by (cases m) (simp add: MintProof)
  qed
next
  case (Control au sh sub k)
  have m: "minting x now c t = None" by (simp add: Control minting_def)
  show thesis
  proof (cases "\<exists>b. k = ResetMfa b")
    case True
    then obtain b where k: "k = ResetMfa b" ..
    show ?thesis
    proof (cases "spending x now c t")
      case None
      then show ?thesis using kept burnt m reset_spends [of x now au sh sub b t] by (auto simp: Control k)
    next
      case (Some q)
      obtain tok g where q: "q = (tok, g)" by (cases q)
      show ?thesis using spent m Some reset_needs_proof [of x now au sh sub b t tok g] by (simp add: Control k q)
    qed
  next
    case False
    then have "spending x now c t = None" by (auto simp: Control spending_def split: control.splits)
    moreover have "action_tokens (snd (run_control x portal now au sh sub k t)) = action_tokens t"
      using control_tokens False by blast
    ultimately show ?thesis using kept m by (simp add: Control)
  qed
qed

text \<open>Every use of a proof goes back to its minting; a string is spent no more often than it was minted.\<close>

definition uses_of :: "string \<Rightarrow> (int \<times> string \<times> action_grant) list \<Rightarrow> nat" where
  "uses_of tok es = length (filter (\<lambda>(_, k, _). k = tok) es)"

lemma uses_of_simps [simp]:
  "uses_of tok [] = 0" "uses_of tok ((now, k, g) # es) = (if k = tok then 1 else 0) + uses_of tok es"
  "uses_of tok (es @ fs) = uses_of tok es + uses_of tok fs"
  by (simp_all add: uses_of_def)

lemma proofs_counted:
  "uses_of tok (proof_log (spending x) x portal h t)
     \<le> uses_of tok (proof_log (minting x) x portal h t) + (if tget (action_tokens t) tok = None then 0 else 1)"
proof (induction h arbitrary: t)
  case Nil
  show ?case by simp
next
  case (Cons e h)
  obtain now c where e: "e = (now, c)" by (cases e)
  let ?t = "snd (api_step x portal now c t)"
  show ?case
  proof (cases rule: proof_step [of x portal now c t])
    case kept
    then show ?thesis using Cons [of ?t] by (simp add: e)
  next
    case (minted k g)
    then show ?thesis using Cons [of ?t] by (auto simp: e rset_ex_def tbl_simps split: if_splits)
  next
    case (burnt k)
    then show ?thesis using Cons [of ?t] by (auto simp: e rdel_def tbl_simps split: if_splits)
  next
    case (spent k g)
    then have "tget (action_tokens t) k \<noteq> None" by (auto simp: rget_def split: option.splits)
    then show ?thesis using spent Cons [of ?t] by (auto simp: e rdel_def tbl_simps split: if_splits)
  qed
qed

lemma proofs_traced:
  assumes "(now, tok, g) \<in> set (proof_log (spending x) x portal h t)"
  shows "ag_action g = ''mfa.reset'' \<and>
     ((\<exists>t0. (t0, tok, g) \<in> set (proof_log (minting x) x portal h t) \<and> now < t0 + ACTION_TTL * 1000)
      \<or> rget now (action_tokens t) tok = Some g)"
  using assms
proof (induction h arbitrary: t)
  case Nil
  then show ?case by simp
next
  case (Cons e h)
  obtain n c where e: "e = (n, c)" by (cases e)
  let ?t = "snd (api_step x portal n c t)"
  show ?case
  proof (cases rule: proof_step [of x portal n c t])
    case kept
    then show ?thesis using Cons.IH [of ?t] Cons.prems by (simp add: e)
  next
    case (minted k q)
    then show ?thesis using Cons.IH [of ?t] Cons.prems by (auto simp: e redis_simps split: if_splits)
  next
    case (burnt k)
    then show ?thesis using Cons.IH [of ?t] Cons.prems by (auto simp: e redis_simps split: if_splits)
  next
    case (spent k q)
    then show ?thesis using Cons.IH [of ?t] Cons.prems by (auto simp: e redis_simps split: if_splits)
  qed
qed

text \<open>C22. The proof that the removal of somebody's second factors asks for is earned and spent once: in any history
  of calls, with step-up required, every reset that succeeds carries a proof that the same caller minted for the
  same account less than two minutes before, by an authenticator code or a passkey, and no proof is accepted more
  often than it was minted.\<close>

theorem action_proofs_single_use:
  assumes "action_tokens t = []"
  shows "(\<forall>(now, tok, g) \<in> set (proof_log (spending x) x portal h t).
      ag_action g = ''mfa.reset'' \<and> (\<exists>t0. (t0, tok, g) \<in> set (proof_log (minting x) x portal h t) \<and> now < t0 + 120000))
    \<and> (\<forall>tok. uses_of tok (proof_log (spending x) x portal h t) \<le> uses_of tok (proof_log (minting x) x portal h t))"
proof -
  have none: "tget (action_tokens t) tok = None" "rget now (action_tokens t) tok = None" for now tok
    by (simp_all add: assms tget_def rget_def)
  have "ag_action g = ''mfa.reset'' \<and> (\<exists>t0. (t0, tok, g) \<in> set (proof_log (minting x) x portal h t) \<and> now < t0 + 120000)"
    if "(now, tok, g) \<in> set (proof_log (spending x) x portal h t)" for now tok g
    using proofs_traced [OF that] none by (simp add: ACTION_TTL_def)
  moreover have "uses_of tok (proof_log (spending x) x portal h t) \<le> uses_of tok (proof_log (minting x) x portal h t)" for tok
    using proofs_counted [of tok x portal h t] none by simp
  ultimately show ?thesis by blast
qed


definition demo_guarded_api :: account_api where
  "demo_guarded_api = demo_api\<lparr>ap_sso := (ap_sso demo_api)\<lparr>
     core := (core (ap_sso demo_api))\<lparr>settings := [(''stepup_portal_required'', ''true'')]\<rparr>,
     sessions := [(demo_sid, demo_session\<lparr>se_user := demo_admin\<rparr>)],
     passkeys := [(''k2'', demo_passkey\<lparr>pk_user := demo_admin\<rparr>)]\<rparr>\<rparr>"

definition demo_calls :: "(int \<times> api_call) list" where
  "demo_calls = (let au = Some (''Bearer '' @ demo_admin) in
     [(7000, AskChallenge au),
      (7100, MintProof au [(''method'', JStr ''passkey''), (''credential'', JStr (demo_uuid 0)),
         (''action'', JStr ''mfa.reset''), (''target_sub'', JStr demo_user)]),
      (7200, Control au (Some demo_sid) demo_user (ResetMfa [(''action_token'', JStr (demo_uuid 1))]))])"

theorem action_proofs_single_use_witness:
  "\<exists>t0. (t0, demo_uuid 1, \<lparr>ag_actor = demo_admin, ag_action = ''mfa.reset'', ag_target = demo_user\<rparr>)
      \<in> set (proof_log (minting demo_x) demo_x [] demo_calls demo_guarded_api) \<and> 7200 < t0 + 120000"
proof -
  have empty: "action_tokens demo_guarded_api = []" by (simp add: demo_guarded_api_def demo_api_def)
  have "proof_log (spending demo_x) demo_x [] demo_calls demo_guarded_api
      = [(7200, demo_uuid 1, \<lparr>ag_actor = demo_admin, ag_action = ''mfa.reset'', ag_target = demo_user\<rparr>)]"
    by code_simp
  then show ?thesis using conjunct1 [OF action_proofs_single_use [OF empty, of demo_x "[]" demo_calls]] by simp
qed

end
