(* ===== verification/OrgUserProps.thy ===== *)
theory OrgUserProps
  imports OrgControlProps SelfService
begin

text \<open>
  The accounts as the organisation API and the other routes write them: no two live accounts share a username or an
  address, the list offers exactly what the routes allow, a suspension is complete, and the picture files are those
  the accounts point at.
\<close>

section \<open>Names and addresses\<close>

definition names_clash :: "identity \<Rightarrow> identity \<Rightarrow> bool" where
  "names_clash i j = (lower (i_username i) = lower (i_username j)
     \<or> (i_email i \<noteq> None \<and> map_option lower (i_email i) = map_option lower (i_email j)))"

definition accounts_distinct :: "db \<Rightarrow> bool" where
  "accounts_distinct d = (\<forall>k i k' j. tget (identities d) k = Some i \<longrightarrow> tget (identities d) k' = Some j \<longrightarrow> k \<noteq> k'
     \<longrightarrow> i_deleted_at i = None \<longrightarrow> i_deleted_at j = None \<longrightarrow> \<not> names_clash i j)"

lemma clash_sym: "names_clash i j = names_clash j i"
  by (cases "i_email i"; cases "i_email j") (auto simp: names_clash_def)

lemma distinctD:
  "accounts_distinct d \<Longrightarrow> tget (identities d) k = Some i \<Longrightarrow> tget (identities d) k' = Some j \<Longrightarrow> k \<noteq> k'
     \<Longrightarrow> i_deleted_at i = None \<Longrightarrow> i_deleted_at j = None \<Longrightarrow> \<not> names_clash i j"
  unfolding accounts_distinct_def by blast

text \<open>One row is new or changed; it must not clash with the live rows of the others.\<close>

lemma distinct_update:
  assumes d: "accounts_distinct d" and other: "\<And>u. u \<noteq> k \<Longrightarrow> tget (identities d') u = tget (identities d) u"
    and new: "\<And>i u j. tget (identities d') k = Some i \<Longrightarrow> u \<noteq> k \<Longrightarrow> tget (identities d) u = Some j
      \<Longrightarrow> i_deleted_at i = None \<Longrightarrow> i_deleted_at j = None \<Longrightarrow> \<not> names_clash i j"
  shows "accounts_distinct d'"
  unfolding accounts_distinct_def
proof (intro allI impI)
  fix u i u' j
  assume *: "tget (identities d') u = Some i" "tget (identities d') u' = Some j" "u \<noteq> u'" "i_deleted_at i = None" "i_deleted_at j = None"
  consider "u = k" | "u' = k" | "u \<noteq> k" "u' \<noteq> k" by blast
  then show "\<not> names_clash i j"
  proof cases
    case 1
    then show ?thesis using * new [of i u' j] other [of u'] by simp
  next
    case 2
    then show ?thesis using * new [of j u i] other [of u] by (simp add: clash_sym)
  next
    case 3
    then show ?thesis using * distinctD [OF d, of u i u' j] other by simp
  qed
qed

lemma distinct_write:
  assumes d: "accounts_distinct (core s)"
    and new: "\<And>i u j. tget (identities (core s)) k = Some i \<Longrightarrow> u \<noteq> k \<Longrightarrow> tget (identities (core s)) u = Some j
      \<Longrightarrow> i_deleted_at (f i) = None \<Longrightarrow> i_deleted_at j = None \<Longrightarrow> \<not> names_clash (f i) j"
  shows "accounts_distinct (core (write_identity k f s))"
proof (rule distinct_update [OF d, of k])
  fix u
  assume "u \<noteq> k"
  then show "tget (identities (core (write_identity k f s))) u = tget (identities (core s)) u"
    by (cases "tget (identities (core s)) u") (simp_all add: write_identity_def tbl_simps)
next
  fix i u j
  assume "tget (identities (core (write_identity k f s))) k = Some i" "u \<noteq> k" "tget (identities (core s)) u = Some j"
    "i_deleted_at i = None" "i_deleted_at j = None"
  then show "\<not> names_clash i j" using new [of _ u j] by (auto simp: write_identity_def tbl_simps)
qed

lemma distinct_same: "identities d' = identities d \<Longrightarrow> accounts_distinct d \<Longrightarrow> accounts_distinct d'"
  by (simp add: accounts_distinct_def)

text \<open>What a check that found nothing taken says about every live row.\<close>

lemma row_member: "tget t k = Some v \<Longrightarrow> (k, v) \<in> set t"
  by (simp add: tget_def map_of_SomeD)

lemma username_free:
  "\<not> username_taken d n \<Longrightarrow> tget (identities d) u = Some j \<Longrightarrow> i_deleted_at j = None \<Longrightarrow> lower (i_username j) \<noteq> lower n"
  by (auto simp: username_taken_def list_ex_iff dest: row_member)

lemma email_free:
  "\<not> email_taken d e \<Longrightarrow> tget (identities d) u = Some j \<Longrightarrow> i_deleted_at j = None \<Longrightarrow> map_option lower (i_email j) \<noteq> Some (lower e)"
  unfolding email_taken_def list_ex_iff using row_member by fastforce

lemma username_free_other:
  "\<not> username_taken_by_other d k n \<Longrightarrow> u \<noteq> k \<Longrightarrow> tget (identities d) u = Some j \<Longrightarrow> i_deleted_at j = None
     \<Longrightarrow> lower (i_username j) \<noteq> lower n"
  unfolding username_taken_by_other_def list_ex_iff using row_member by fastforce

lemma email_free_other:
  "\<not> email_taken_by_other d k e \<Longrightarrow> u \<noteq> k \<Longrightarrow> tget (identities d) u = Some j \<Longrightarrow> i_deleted_at j = None
     \<Longrightarrow> map_option lower (i_email j) \<noteq> Some (lower e)"
  unfolding email_taken_by_other_def list_ex_iff using row_member by fastforce

section \<open>The writers\<close>

lemma insert_distinct:
  assumes "insert_account sub i invited d = Inr (role, d')" and "accounts_distinct d"
  shows "accounts_distinct d'"
proof -
  from assms(1) have free: "\<not> username_taken d (i_username i)" "\<And>e. i_email i = Some e \<Longrightarrow> \<not> email_taken d e"
    and d': "identities d' = tput sub i (identities d)"
    by (auto simp: insert_account_def Let_def split: if_splits option.splits)
  show ?thesis
  proof (rule distinct_update [OF assms(2), of sub])
    fix u assume "u \<noteq> sub"
    then show "tget (identities d') u = tget (identities d) u" by (simp add: d' tbl_simps)
  next
    fix q u j
    assume "tget (identities d') sub = Some q" "u \<noteq> sub" and j: "tget (identities d) u = Some j" "i_deleted_at j = None"
    then have "q = i" by (simp add: d' tbl_simps)
    then show "\<not> names_clash q j" using username_free [OF free(1) j] email_free [OF free(2) j]
      by (cases "i_email i"; cases "i_email j") (auto simp: names_clash_def)
  qed
qed

lemma finish_identities [simp]: "identities (core (snd (finish_account x issuer now sub i email code role s))) = identities (core s)"
  by (auto simp: finish_account_def consume_invite_def update_invite_def drop_pending_def mint_login_ticket_def draw_def Let_def
      split: option.splits prod.splits)

lemma register_distinct:
  assumes "accounts_distinct (core s)"
  shows "accounts_distinct (core (snd (register_complete x portal issuer now b s)))"
  using assms insert_distinct
  by (auto simp: register_complete_def Let_def draw_def split: option.splits sum.splits prod.splits
      intro: distinct_same [OF finish_identities])

lemma create_distinct:
  assumes "create_org_user now actor input d = Inr (v, d')" and "accounts_distinct d"
  shows "accounts_distinct d'"
proof -
  from assms(1) obtain i where free: "\<not> username_taken d (pu_username input)" "pu_email input \<noteq> [] \<Longrightarrow> \<not> email_taken d (pu_email input)"
    and d': "identities d' = tput (lower (pu_sub input)) i (identities d)" and i: "i_username i = pu_username input"
      "i_email i = (if pu_email input = [] then None else Some (pu_email input))"
    by (auto simp: create_org_user_def res_simps write_audit_def split: option.splits if_splits)
  show ?thesis
  proof (rule distinct_update [OF assms(2), of "lower (pu_sub input)"])
    fix u assume "u \<noteq> lower (pu_sub input)"
    then show "tget (identities d') u = tget (identities d) u" by (simp add: d' tbl_simps)
  next
    fix q u j
    assume "tget (identities d') (lower (pu_sub input)) = Some q" and j: "tget (identities d) u = Some j" "i_deleted_at j = None"
    then have "q = i" by (simp add: d' tbl_simps)
    then show "\<not> names_clash q j" using username_free [OF free(1) j] email_free [OF free(2) j]
      by (cases "i_email j") (auto simp: names_clash_def i split: if_splits)
  qed
qed


lemma mutation_distinct:
  assumes "accounts_distinct (core s)" and "\<And>d v d'. work d = Inr (v, d') \<Longrightarrow> accounts_distinct d \<Longrightarrow> accounts_distinct d'"
  shows "accounts_distinct (core (snd (role_mutation x now au sub sh answer work s)))"
  using assms
  by (auto simp: role_mutation_def transaction_def rbind_def split: sum.splits prod.splits)

lemma create_user_distinct:
  assumes "accounts_distinct (core s)"
  shows "accounts_distinct (core (snd (create_user x now au sh b s)))"
  using assms
  by (auto simp: create_user_def Let_def draw_def split: sum.splits intro!: mutation_distinct intro: create_distinct)

lemma edits_free:
  assumes "profile_edits now a k s b = Inr c"
  shows "pc_username c = Some n \<Longrightarrow> \<not> username_taken_by_other (core s) k n"
    and "pc_email c = Some e \<Longrightarrow> e \<noteq> [] \<Longrightarrow> \<not> email_taken_by_other (core s) k e"
proof -
  from assms obtain n' e' u' where "edit_display_name a b = Inr n'" and e: "edit_email now a k s b = Inr e'"
      and u: "edit_username a k (core s) b = Inr u'" and c: "c = \<lparr>pc_display_name = n', pc_email = e', pc_username = u'\<rparr>"
    by (auto simp: profile_edits_def res_simps split: if_splits)
  show "pc_username c = Some n \<Longrightarrow> \<not> username_taken_by_other (core s) k n"
    using u by (auto simp: c edit_username_def split: option.splits json.splits if_splits)
  show "pc_email c = Some e \<Longrightarrow> e \<noteq> [] \<Longrightarrow> \<not> email_taken_by_other (core s) k e"
    using e by (auto simp: c edit_email_def split: option.splits json.splits if_splits)
qed

lemma apply_changes_row:
  "i_username (apply_changes c i) = (case pc_username c of None \<Rightarrow> i_username i | Some v \<Rightarrow> v)"
  "i_email (apply_changes c i) = (case pc_email c of None \<Rightarrow> i_email i | Some v \<Rightarrow> if v = [] then None else Some v)"
  "i_deleted_at (apply_changes c i) = i_deleted_at i"
  by (auto simp: apply_changes_def Let_def split: option.splits)

lemma clash_parts:
  "names_clash i j \<Longrightarrow> (lower (i_username j) = lower (i_username i) \<Longrightarrow> P)
    \<Longrightarrow> (\<And>e. i_email i = Some e \<Longrightarrow> map_option lower (i_email j) = Some (lower e) \<Longrightarrow> P) \<Longrightarrow> P"
  by (cases "i_email i"; cases "i_email j") (auto simp: names_clash_def)

lemma not_clash_parts:
  "\<not> names_clash i j \<Longrightarrow> lower (i_username j) \<noteq> lower (i_username i)"
  "\<not> names_clash i j \<Longrightarrow> i_email i = Some e \<Longrightarrow> map_option lower (i_email j) \<noteq> Some (lower e)"
  by (auto simp: names_clash_def)

lemma edit_distinct:
  assumes d: "accounts_distinct (core s)" and c: "profile_edits now a k s b = Inr c"
  shows "accounts_distinct (core (write_identity k (apply_changes c) s))"
proof (rule distinct_write [OF d])
  fix i u j
  assume i: "tget (identities (core s)) k = Some i" and u: "u \<noteq> k" and j: "tget (identities (core s)) u = Some j"
    and live: "i_deleted_at (apply_changes c i) = None" "i_deleted_at j = None"
  have old: "\<not> names_clash i j" using distinctD [OF d i j] u live by (simp add: apply_changes_row)
  show "\<not> names_clash (apply_changes c i) j"
  proof
    assume "names_clash (apply_changes c i) j"
    then show False
    proof (rule clash_parts)
      assume "lower (i_username j) = lower (i_username (apply_changes c i))"
      then show False using not_clash_parts(1) [OF old] username_free_other [OF edits_free(1) [OF c] u j live(2)]
        by (simp add: apply_changes_row split: option.splits)
    next
      fix e
      assume "i_email (apply_changes c i) = Some e" and m: "map_option lower (i_email j) = Some (lower e)"
      then consider "pc_email c = None" "i_email i = Some e" | "pc_email c = Some e" "e \<noteq> []"
        by (auto simp: apply_changes_row split: option.splits if_splits)
      then show False using not_clash_parts(2) [OF old] email_free_other [OF edits_free(2) [OF c] u j live(2)] m
        by cases auto
    qed
  qed
qed

lemma audit_core_identities [simp]: "identities (core (audit_act a g act ds s)) = identities (core s)"
  by (simp add: audit_act_def)

lemma audit_self_identities [simp]: "identities (core (audit_self sub act ds s)) = identities (core s)"
  by (simp add: audit_self_def)

lemma patch_distinct:
  assumes "accounts_distinct (core (ap_sso t))"
  shows "accounts_distinct (core (ap_sso (snd (patch_user x now au sh sub b t))))"
  using assms
  by (auto simp: patch_user_def on_target_def split: sum.splits option.splits prod.splits
      intro!: distinct_same [OF audit_core_identities] edit_distinct)

lemma rename_distinct:
  assumes d: "accounts_distinct (core s)"
  shows "accounts_distinct (core (snd (username_change x now au sh b s)))"
proof -
  have "accounts_distinct (core (write_identity k (\<lambda>i. i\<lparr>i_username := n\<rparr>) s))"
    if "\<not> username_taken_by_other (core s) k n" for k n
  proof (rule distinct_write [OF d])
    fix i u j
    assume i: "tget (identities (core s)) k = Some i" and u: "u \<noteq> k" and j: "tget (identities (core s)) u = Some j"
      and live: "i_deleted_at (i\<lparr>i_username := n\<rparr>) = None" "i_deleted_at j = None"
    have "\<not> names_clash i j" using distinctD [OF d i j] u live by simp
    then show "\<not> names_clash (i\<lparr>i_username := n\<rparr>) j"
      using username_free_other [OF that u j live(2)] by (auto simp: names_clash_def)
  qed
  then show ?thesis using d
    by (auto simp: username_change_def new_username_error_def Let_def split: sum.splits option.splits if_splits
        intro: distinct_same [OF audit_self_identities])
qed

lemma send_core [simp]: "core (snd (send_email x e v s)) = core s"
  by (simp add: send_email_def)

lemma redeem_core: "redeem_email_change x now tok s = (v, s') \<Longrightarrow> core s' = core s"
  by (auto simp: redeem_email_change_def Let_def split: if_splits prod.splits option.splits)

lemma address_distinct:
  assumes d: "accounts_distinct (core s)" and free: "\<not> email_taken_by_other (core s) k e"
  shows "accounts_distinct (core (write_identity k (\<lambda>i. i\<lparr>i_email := Some e, i_email_verified := True\<rparr>) s))"
proof (rule distinct_write [OF d])
  fix i u j
  assume i: "tget (identities (core s)) k = Some i" and u: "u \<noteq> k" and j: "tget (identities (core s)) u = Some j"
    and live: "i_deleted_at (i\<lparr>i_email := Some e, i_email_verified := True\<rparr>) = None" "i_deleted_at j = None"
  have "\<not> names_clash i j" using distinctD [OF d i j] u live by simp
  then show "\<not> names_clash (i\<lparr>i_email := Some e, i_email_verified := True\<rparr>) j"
    using email_free_other [OF free u j live(2)] by (cases "i_email j") (auto simp: names_clash_def)
qed

lemma verify_distinct:
  assumes d: "accounts_distinct (core s)"
  shows "accounts_distinct (core (snd (email_change_verify x portal now b s)))"
proof (cases "portal_assertion x portal (core s) b")
  case False
  then show ?thesis using d by (simp add: email_change_verify_def)
next
  case True
  obtain v s1 where r: "redeem_email_change x now (qstr (jmember b ''token'')) s = (v, s1)"
    by (cases "redeem_email_change x now (qstr (jmember b ''token'')) s")
  have d1: "accounts_distinct (core s1)" using d redeem_core [OF r] by simp
  have same: "accounts_distinct (core (write_identity k (\<lambda>i. i\<lparr>i_email_verified := True\<rparr>) s1))" for k
    by (rule distinct_write [OF d1]) (auto simp: names_clash_def dest: distinctD [OF d1])
  show ?thesis
    using True r d1 same address_distinct [OF d1]
    by (auto simp: email_change_verify_def Let_def split: option.splits if_splits intro: distinct_same [OF audit_self_identities])
qed


text \<open>The changes of the accounts: the requests that write names and addresses, and anything else that leaves them.\<close>

definition names_at :: "db \<Rightarrow> string \<Rightarrow> (string \<times> string option \<times> int option) option" where
  "names_at d u = map_option (\<lambda>i. (i_username i, i_email i, i_deleted_at i)) (tget (identities d) u)"

inductive account_change :: "externals \<Rightarrow> string \<Rightarrow> string \<Rightarrow> account_api \<Rightarrow> account_api \<Rightarrow> bool" for x portal issuer where
  registered: "account_change x portal issuer t (on_sso (\<lambda>s. snd (register_complete x portal issuer now b s)) t)"
| created: "account_change x portal issuer t (on_sso (\<lambda>s. snd (create_user x now au sh b s)) t)"
| edited: "account_change x portal issuer t (snd (patch_user x now au sh sub b t))"
| renamed: "account_change x portal issuer t (on_sso (\<lambda>s. snd (username_change x now au sh b s)) t)"
| verified: "account_change x portal issuer t (on_sso (\<lambda>s. snd (email_change_verify x portal now b s)) t)"
| elsewhere: "(\<And>u. names_at (core (ap_sso t')) u = names_at (core (ap_sso t)) u) \<Longrightarrow> account_change x portal issuer t t'"

lemma elsewhere_distinct:
  assumes d: "accounts_distinct d" and same: "\<And>u. names_at d' u = names_at d u"
  shows "accounts_distinct d'"
  unfolding accounts_distinct_def
proof (intro allI impI)
  fix k i k' j
  assume *: "tget (identities d') k = Some i" "tget (identities d') k' = Some j" "k \<noteq> k'" "i_deleted_at i = None" "i_deleted_at j = None"
  from *(1) same [of k] obtain p where p: "tget (identities d) k = Some p" "i_username p = i_username i" "i_email p = i_email i"
      "i_deleted_at p = i_deleted_at i" by (cases "tget (identities d) k") (auto simp: names_at_def)
  from *(2) same [of k'] obtain q where q: "tget (identities d) k' = Some q" "i_username q = i_username j" "i_email q = i_email j"
      "i_deleted_at q = i_deleted_at j" by (cases "tget (identities d) k'") (auto simp: names_at_def)
  show "\<not> names_clash i j" using distinctD [OF d p(1) q(1) *(3)] *(4,5) p q by (simp add: names_clash_def)
qed

lemma change_distinct:
  "account_change x portal issuer t t' \<Longrightarrow> accounts_distinct (core (ap_sso t)) \<Longrightarrow> accounts_distinct (core (ap_sso t'))"
proof (induction rule: account_change.induct)
  case registered
  then show ?case by (simp add: register_distinct)
next
  case created
  then show ?case by (simp add: create_user_distinct)
next
  case edited
  then show ?case by (simp add: patch_distinct)
next
  case renamed
  then show ?case by (simp add: rename_distinct)
next
  case verified
  then show ?case by (simp add: verify_distinct)
next
  case elsewhere
  then show ?case using elsewhere_distinct by blast
qed

text \<open>C23. No two live accounts share a username or an address, compared without case, after any history of
  registrations, accounts created and edited by administrators, renamings and confirmed changes of address.\<close>

theorem accounts_stay_distinct:
  assumes "(account_change x portal issuer)\<^sup>*\<^sup>* t t'" and "accounts_distinct (core (ap_sso t))"
  shows "accounts_distinct (core (ap_sso t'))"
  using assms by (induction rule: rtranclp_induct) (auto intro: change_distinct)

definition demo_rename :: "account_api \<Rightarrow> account_api" where
  "demo_rename t = snd (patch_user demo_x 9000 (Some (''Bearer '' @ demo_admin)) None demo_user [(''username'', JStr ''carol'')] t)"

definition demo_people :: account_api where
  "demo_people = demo_api\<lparr>ap_sso := (ap_sso demo_api)\<lparr>core := (core (ap_sso demo_api))\<lparr>
     identities := [(demo_admin, demo_identity\<lparr>i_username := ''alice'', i_email := None\<rparr>),
       (demo_user, demo_identity\<lparr>i_username := ''bob'', i_email := None\<rparr>)],
     role_permissions := [((''admin'', ''org.users.edit.username''), Grant)]\<rparr>\<rparr>\<rparr>"

theorem accounts_stay_distinct_witness:
  "accounts_distinct (core (ap_sso (demo_rename demo_people)))
   \<and> map_option i_username (tget (identities (core (ap_sso (demo_rename demo_people)))) demo_user) = Some ''carol''"
proof
  have "(account_change demo_x [] [])\<^sup>*\<^sup>* demo_people (demo_rename demo_people)"
    unfolding demo_rename_def by (rule r_into_rtranclp) (rule edited)
  moreover have "accounts_distinct (core (ap_sso demo_people))"
    by (auto simp: accounts_distinct_def demo_people_def tget_def names_clash_def lower_def lower_char_def demo_admin_def demo_user_def
        split: if_splits)
  ultimately show "accounts_distinct (core (ap_sso (demo_rename demo_people)))" by (rule accounts_stay_distinct)
  show "map_option i_username (tget (identities (core (ap_sso (demo_rename demo_people)))) demo_user) = Some ''carol''"
    by code_simp
qed

section \<open>The list and the routes agree\<close>

lemma listed_of_editable:
  assumes "pk (identities d)" and "sub_shape sub" and "(sub, i) \<in> set (identities d)" and "i_deleted_at i = None"
  shows "lu_editable (listed_of d (actor_ctx d actor) (sub, i)) = (editable_target d actor sub \<noteq> None)"
proof -
  have "undeleted d sub = Some i" using assms by (simp add: undeleted_def tget_in_set [THEN iffD2])
  moreover have "oa_sub (actor_ctx d actor) = actor" by (simp add: actor_ctx_def Let_def)
  ultimately show ?thesis using assms(2)
    by (auto simp: listed_of_def editable_target_def load_target_def Let_def)
qed

text \<open>The list of accounts shows only accounts at or below the viewer, and marks as editable exactly those that
  the routes on a single account would open for it.\<close>

theorem listed_editable_is_editable:
  assumes keys: "pk (identities (core s))" "\<forall>k \<in> set (tkeys (identities (core s))). sub_shape k"
    and l: "list_users x now au sh q s = Inr (n, us)"
  shows "\<exists>actor. scoped_sub x au = Inr actor \<and> (\<forall>u \<in> set us.
      role_level_of (user_role_row (core s) actor) \<le> role_level_of (lu_role u)
      \<and> lu_editable u = (editable_target (core s) actor (lu_sub u) \<noteq> None))"
proof -
  from l obtain actor where route: "org_route x now au sh (Some ''org.users.view'') s = Inr actor"
    by (auto simp: list_users_def res_simps)
  let ?a = "actor_ctx (core s) actor"
  have sub: "set us \<subseteq> listed_of (core s) ?a ` set (visible_users (core s) (oa_level ?a) (take 100 (trim (qstr (jmember q ''query'')))))"
    using l route by (auto simp: list_users_def Let_def dest!: in_set_takeD in_set_dropD)
  have "role_level_of (user_role_row (core s) actor) \<le> role_level_of (lu_role u)
      \<and> lu_editable u = (editable_target (core s) actor (lu_sub u) \<noteq> None)" if "u \<in> set us" for u
  proof -
    from sub that obtain k i where u: "u = listed_of (core s) ?a (k, i)" and m: "(k, i) \<in> set (identities (core s))"
        and live: "i_deleted_at i = None" and l: "oa_level ?a \<le> role_level_of (user_role_row (core s) k)"
      by (auto simp: visible_users_def)
    have "sub_shape k" using keys(2) m by (force simp: tkeys_def)
    from listed_of_editable [OF keys(1) this m live, of actor] show ?thesis
      using l by (simp add: u listed_of_def actor_level_row)
  qed
  then show ?thesis using scoped_route(1) [OF route] by blast
qed


section \<open>The picture files\<close>

text \<open>The row of an account points at a file.\<close>

definition points_at :: "db \<Rightarrow> string \<Rightarrow> string option" where
  "points_at d sub = (case tget (identities d) sub of None \<Rightarrow> None | Some i \<Rightarrow> i_avatar i)"

text \<open>Every file is the picture of the account it is named after, and every picture is there.\<close>

definition pictures_ok :: "account_api \<Rightarrow> bool" where
  "pictures_ok t = ((\<forall>f. tget (avatar_files t) f \<noteq> None \<longrightarrow> avatar_name f \<and> points_at (core (ap_sso t)) (take 36 f) = Some f)
     \<and> (\<forall>sub f. points_at (core (ap_sso t)) sub = Some f \<longrightarrow> tget (avatar_files t) f \<noteq> None \<and> take 36 f = sub))"

text \<open>What is asked of the outside: sixteen hexadecimal digits per draw, subjects that are identifiers, and no draw
  that repeats the name of a file in use.\<close>

definition hex_suffixes :: "externals \<Rightarrow> bool" where
  "hex_suffixes x = (\<forall>n. length (x_rnd x n) = 16 \<and> list_all is_hex_lower (x_rnd x n))"

definition token_subjects :: "externals \<Rightarrow> bool" where
  "token_subjects x = (\<forall>au sub. scoped_sub x au = Inr sub \<longrightarrow> sub_shape sub)"

inductive picture_change :: "externals \<Rightarrow> imaging \<Rightarrow> string \<Rightarrow> account_api \<Rightarrow> account_api \<Rightarrow> bool" for x im portal where
  uploaded: "(\<And>sub. tget (avatar_files t) (avatar_file sub (x_rnd x (draws (ap_sso t)))) = None)
     \<Longrightarrow> picture_change x im portal t (snd (upload_avatar x im portal now au body t))"
| deleted: "picture_change x im portal t (snd (delete_own_avatar x portal now au t))"
| taken_down: "picture_change x im portal t (snd (remove_user_avatar x portal now au sh sub t))"
| elsewhere: "avatar_files t' = avatar_files t \<Longrightarrow> (\<And>u. points_at (core (ap_sso t')) u = points_at (core (ap_sso t)) u)
     \<Longrightarrow> picture_change x im portal t t'"

lemma avatar_file_name:
  "hex_suffixes x \<Longrightarrow> sub_shape sub \<Longrightarrow> avatar_name (avatar_file sub (x_rnd x n)) \<and> take 36 (avatar_file sub (x_rnd x n)) = sub"
  by (simp add: avatar_name_def avatar_file_def hex_suffixes_def sub_shape_def)

lemma points_push [simp]: "points_at (core (push_avatar_change x portal now u f s)) sub = points_at (core s) sub"
proof -
  have "identities (core (fold (\<lambda>c. enqueue_events x now c es) cs s)) = identities (core s)" for cs es
    by (induction cs arbitrary: s) (use enqueue_frame in \<open>auto simp: same_role_tables_def\<close>)
  then show ?thesis by (simp add: points_at_def push_avatar_change_def)
qed

lemma points_set: "points_at (core (set_avatar k f s)) sub =
    (if sub = k \<and> tget (identities (core s)) k \<noteq> None then f else points_at (core s) sub)"
  by (auto simp: points_at_def set_avatar_def write_identity_def tbl_simps split: option.splits)

lemma files_on_sso [simp]: "avatar_files (on_sso f t) = avatar_files t"
  by (simp add: on_sso_def)

lemma files_delete:
  "tget (avatar_files (delete_avatar_file f t)) j = (if f = Some j \<and> avatar_name j then None else tget (avatar_files t) j)"
  by (auto simp: delete_avatar_file_def tbl_simps split: option.splits)

text \<open>The pointer goes first, then its file.\<close>

lemma drop_pictures:
  assumes ok: "pictures_ok t" and u: "undeleted (core (ap_sso t)) sub = Some i" and p: "has_picture i"
  shows "pictures_ok (drop_avatar x portal now sub i t)"
proof -
  obtain f where f: "i_avatar i = Some f" using p by (auto simp: has_picture_def split: option.splits)
  have row: "tget (identities (core (ap_sso t))) sub = Some i" using u by (auto simp: undeleted_def split: option.splits if_splits)
  then have at: "points_at (core (ap_sso t)) sub = Some f" by (simp add: points_at_def f)
  have name: "avatar_name f" "take 36 f = sub" using ok at by (auto simp: pictures_ok_def)
  show ?thesis
    unfolding pictures_ok_def
  proof (intro conjI allI impI)
    fix g
    assume "tget (avatar_files (drop_avatar x portal now sub i t)) g \<noteq> None"
    then have g: "tget (avatar_files t) g \<noteq> None" "g \<noteq> f" using name by (auto simp: drop_avatar_def files_delete f split: if_splits)
    then have "avatar_name g" "points_at (core (ap_sso t)) (take 36 g) = Some g" using ok by (auto simp: pictures_ok_def)
    moreover have "take 36 g \<noteq> sub" using calculation(2) at g(2) by auto
    ultimately show "avatar_name g" "points_at (core (ap_sso (drop_avatar x portal now sub i t))) (take 36 g) = Some g"
      by (simp_all add: drop_avatar_def points_set)
  next
    fix k g
    assume "points_at (core (ap_sso (drop_avatar x portal now sub i t))) k = Some g"
    then have k: "k \<noteq> sub" "points_at (core (ap_sso t)) k = Some g" using row by (auto simp: drop_avatar_def points_set split: if_splits)
    then have g: "tget (avatar_files t) g \<noteq> None" "take 36 g = k" using ok by (auto simp: pictures_ok_def)
    then have "g \<noteq> f" using k(1) name by auto
    then show "tget (avatar_files (drop_avatar x portal now sub i t)) g \<noteq> None" "take 36 g = k"
      using g by (auto simp: drop_avatar_def files_delete f)
  qed
qed


lemma store_avatar_result:
  assumes "store_avatar x im sub input t = (v, t1)"
  shows "(v = None \<and> t1 = t) \<or> (\<exists>webp side. v = Some (avatar_file sub (x_rnd x (draws (ap_sso t))), side)
     \<and> avatar_files t1 = tput (avatar_file sub (x_rnd x (draws (ap_sso t)))) webp (avatar_files t) \<and> core (ap_sso t1) = core (ap_sso t))"
  using assms by (auto simp: store_avatar_def draw_def Let_def split: option.splits)

lemma upload_pictures:
  assumes hex: "hex_suffixes x" and subs: "token_subjects x" and ok: "pictures_ok t"
    and fresh: "\<And>sub. tget (avatar_files t) (avatar_file sub (x_rnd x (draws (ap_sso t)))) = None"
  shows "pictures_ok (snd (upload_avatar x im portal now au body t))"
proof (cases "guarded x now au None ''profile.picture.set'' None (ap_sso t)")
  case (Inl e)
  then show ?thesis using ok by (simp add: upload_avatar_def)
next
  case (Inr sub)
  then have "scoped_sub x au = Inr sub" by (auto simp: guarded_def res_simps split: if_splits)
  then have shape: "sub_shape sub" using subs by (simp add: token_subjects_def)
  obtain v t1 where st: "store_avatar x im sub (the body) t = (v, t1)" by (cases "store_avatar x im sub (the body) t")
  let ?f = "avatar_file sub (x_rnd x (draws (ap_sso t)))"
  have name: "avatar_name ?f" "take 36 ?f = sub" using avatar_file_name [OF hex shape] by simp_all
  show ?thesis
  proof (cases "body = None \<or> body = Some [] \<or> v = None")
    case True
    then show ?thesis using ok st Inr store_avatar_result [OF st] by (auto simp: upload_avatar_def)
  next
    case False
    then obtain webp side where v: "v = Some (?f, side)" and files: "avatar_files t1 = tput ?f webp (avatar_files t)"
        and same: "core (ap_sso t1) = core (ap_sso t)"
      using store_avatar_result [OF st] by auto
    show ?thesis
    proof (cases "undeleted (core (ap_sso t)) sub")
      case None
      then have "snd (upload_avatar x im portal now au body t) = delete_avatar_file (Some ?f) t1"
        using False Inr st v same by (auto simp: upload_avatar_def)
      moreover have "points_at (core (ap_sso t)) k \<noteq> Some ?f" for k
        using ok fresh [of sub] by (metis pictures_ok_def)
      then have "pictures_ok (delete_avatar_file (Some ?f) t1)"
        using ok fresh [of sub] name
        by (auto simp: pictures_ok_def files_delete files tbl_simps same)
      ultimately show ?thesis by simp
    next
      case (Some i)
      define r where "r = delete_avatar_file (i_avatar i) (on_sso (set_avatar sub (Some ?f)) t1)"
      have run: "snd (upload_avatar x im portal now au body t) = on_sso (push_avatar_change x portal now sub (Some ?f)) r"
        using False Inr st v same Some by (auto simp: upload_avatar_def r_def)
      have row: "tget (identities (core (ap_sso t))) sub = Some i" using Some by (auto simp: undeleted_def split: option.splits if_splits)
      have old: "points_at (core (ap_sso t)) sub = i_avatar i" by (simp add: points_at_def row)
      have pts: "points_at (core (ap_sso r)) k = (if k = sub then Some ?f else points_at (core (ap_sso t)) k)" for k
        using row by (simp add: r_def points_set same)
      have ne: "i_avatar i \<noteq> Some ?f" using ok fresh [of sub] old by (metis pictures_ok_def)
      have fls: "tget (avatar_files r) g = (if g = ?f then Some webp else if i_avatar i = Some g \<and> avatar_name g then None else tget (avatar_files t) g)" for g
        using ne by (auto simp: r_def files_delete files tbl_simps)
      have "pictures_ok r"
        unfolding pictures_ok_def
      proof (intro conjI allI impI)
        fix g
        assume g: "tget (avatar_files r) g \<noteq> None"
        show "avatar_name g" using g ok name by (auto simp: fls pictures_ok_def split: if_splits)
        show "points_at (core (ap_sso r)) (take 36 g) = Some g"
        proof (cases "g = ?f")
          case True
          then show ?thesis by (simp add: pts name)
        next
          case False
          then have "tget (avatar_files t) g \<noteq> None" "\<not> (i_avatar i = Some g \<and> avatar_name g)" using g by (auto simp: fls split: if_splits)
          then have "avatar_name g" "points_at (core (ap_sso t)) (take 36 g) = Some g" "i_avatar i \<noteq> Some g" using ok by (auto simp: pictures_ok_def)
          then show ?thesis using old by (auto simp: pts)
        qed
      next
        fix k g
        assume "points_at (core (ap_sso r)) k = Some g"
        then have k: "k = sub \<and> g = ?f \<or> k \<noteq> sub \<and> points_at (core (ap_sso t)) k = Some g" by (auto simp: pts split: if_splits)
        then show "take 36 g = k" using ok name by (auto simp: pictures_ok_def)
        show "tget (avatar_files r) g \<noteq> None"
        proof (cases "k = sub")
          case True
          then show ?thesis using k by (simp add: fls)
        next
          case False
          then have "tget (avatar_files t) g \<noteq> None" "take 36 g = k" using k ok by (auto simp: pictures_ok_def)
          moreover have "i_avatar i \<noteq> Some g" using False calculation(2) ok old by (auto simp: pictures_ok_def)
          ultimately show ?thesis by (simp add: fls)
        qed
      qed
      then show ?thesis by (simp add: run pictures_ok_def)
    qed
  qed
qed

lemma own_pictures: "pictures_ok t \<Longrightarrow> pictures_ok (snd (delete_own_avatar x portal now au t))"
  by (auto simp: delete_own_avatar_def drop_pictures split: sum.splits option.splits)

lemma taken_pictures: "pictures_ok t \<Longrightarrow> pictures_ok (snd (remove_user_avatar x portal now au sh sub t))"
proof -
  assume ok: "pictures_ok t"
  have noted: "pictures_ok (on_sso (audit_act a q act ds) t')" if "pictures_ok t'" for a q act ds t'
    using that by (simp add: pictures_ok_def points_at_def)
  show ?thesis using ok editable_below(2,3)
    by (auto simp: remove_user_avatar_def on_target_def intro!: noted drop_pictures split: sum.splits option.splits prod.splits)
qed

text \<open>C17. The picture files are exactly those the accounts point at, each named after its account, through any
  history of uploads, removals by the owner and removals by an administrator: no picture is lost, none is left
  behind, and none is shown for another account.\<close>

theorem pictures_stay_consistent:
  assumes "hex_suffixes x" and "token_subjects x" and "(picture_change x im portal)\<^sup>*\<^sup>* t t'" and "pictures_ok t"
  shows "pictures_ok t'"
  using assms(3,4)
proof (induction rule: rtranclp_induct)
  case base
  then show ?case .
next
  case (step t1 t2)
  from step.hyps(2) step.IH [OF step.prems] show ?case
  proof cases
    case (uploaded au body now)
    then show ?thesis using upload_pictures [OF assms(1,2)] step.IH [OF step.prems] by blast
  next
    case elsewhere
    then show ?thesis using step.IH [OF step.prems] by (simp add: pictures_ok_def)
  qed (auto intro: own_pictures taken_pictures)
qed


definition demo_picture_x :: externals where
  "demo_picture_x = demo_x\<lparr>x_rnd := (\<lambda>_. ''0123456789abcdef''), x_access := (\<lambda>_. Some (demo_user, Some (JStr ''profile'')))\<rparr>"

definition demo_imaging :: imaging where
  "demo_imaging = \<lparr>im_decode = (\<lambda>b. Some (b, Some 3, Some 2)), im_square = (\<lambda>img _ _ _ _. Some img)\<rparr>"

definition demo_gallery :: account_api where
  "demo_gallery = demo_people\<lparr>ap_sso := (ap_sso demo_people)\<lparr>core := (core (ap_sso demo_people))\<lparr>
     identities := [(demo_user, demo_identity\<lparr>i_avatar := None\<rparr>)],
     role_permissions := [((''standard_user'', ''profile.picture.set''), Grant)]\<rparr>\<rparr>\<rparr>"

theorem pictures_stay_consistent_witness:
  "let t' = snd (upload_avatar demo_picture_x demo_imaging [] 9000 (Some ''Bearer a'') (Some ''picture'') demo_gallery)
   in pictures_ok t' \<and> avatar_files t' = [(demo_user @ ''-0123456789abcdef.webp'', ''picture'')]"
  unfolding Let_def
proof
  let ?t = "snd (upload_avatar demo_picture_x demo_imaging [] 9000 (Some ''Bearer a'') (Some ''picture'') demo_gallery)"
  have hex: "hex_suffixes demo_picture_x"
    by (simp add: hex_suffixes_def demo_picture_x_def is_hex_lower_def is_digit_def less_eq_char_def)
  have shape: "sub_shape demo_user" by code_simp
  have "scoped_sub demo_picture_x au = Inr sub \<Longrightarrow> sub = demo_user" for au sub
    by (auto simp: scoped_sub_def require_scope_def verify_access_token_def demo_picture_x_def
        split: sum.splits option.splits if_splits scope_answer.splits)
  then have subs: "token_subjects demo_picture_x" using shape by (auto simp: token_subjects_def)
  have files: "avatar_files demo_gallery = []" by (simp add: demo_gallery_def demo_people_def demo_api_def)
  have "(picture_change demo_picture_x demo_imaging [])\<^sup>*\<^sup>* demo_gallery ?t"
    by (rule r_into_rtranclp) (rule uploaded, simp add: files tget_def)
  moreover have "pictures_ok demo_gallery"
    unfolding pictures_ok_def files by (simp add: tget_def points_at_def demo_gallery_def demo_people_def)
  ultimately show "pictures_ok ?t" by (rule pictures_stay_consistent [OF hex subs])
  show "avatar_files ?t = [(demo_user @ ''-0123456789abcdef.webp'', ''picture'')]" by code_simp
qed

end
