(* ===== verification/OrgInviteProps.thy ===== *)
theory OrgInviteProps
  imports OrgInvites OrgUserProps
begin

text \<open>
  Invitation codes under the organisation API: a code invites strictly below its creator, and the list offers to
  void exactly the codes that the request to void accepts.
\<close>

section \<open>Voiding\<close>

lemma upper_code: "code_shape c \<Longrightarrow> upper c = c"
proof -
  assume "code_shape c"
  then have "list_all (\<lambda>ch. is_upper ch \<or> is_digit ch) c" by (simp add: code_shape_def)
  then have "concat (map (\<lambda>ch. let n = of_char ch :: nat in
     if is_lower ch \<or> 224 \<le> n \<and> n \<le> 254 \<and> n \<noteq> 247 then [char_of (n - 32)]
     else if n = 223 then ''SS'' else [ch]) c) = c"
    by (induction c) (auto simp: is_upper_def is_lower_def is_digit_def less_eq_char_def Let_def)
  then show ?thesis by (simp add: upper_def)
qed

lemma route_without_key: "org_route x now au sh (Some k) s = Inr actor \<Longrightarrow> org_route x now au sh None s = Inr actor"
  by (auto simp: org_route_def res_simps split: if_splits)

lemma void_answer:
  assumes "org_route x now au sh None (ap_sso t) = Inr actor" and "code_shape code" and "tget (invites (ap_sso t)) code = Some v"
  shows "fst (void_route x now au sh code t) = NoContent \<longleftrightarrow> can_void (actor_ctx (core (ap_sso t)) actor) t code v"
  using assms
  by (auto simp: void_route_def Let_def upper_code can_void_def refuse_def permission_refused_def)

lemma route_refuses: "org_route x now au sh key s = Inl e \<Longrightarrow> e \<noteq> NoContent \<and> e \<noteq> Answer ms"
  by (auto simp: org_route_def scoped_sub_def res_simps refuse_def permission_refused_def
      split: option.splits if_splits sum.splits scope_answer.splits)

lemma void_kills:
  assumes ok: "fst (void_route x now au sh code t) = NoContent" and shape: "code_shape code"
  shows "get_live_invite now' code (ap_sso (snd (void_route x now au sh code t))) = None"
proof -
  obtain actor where route: "org_route x now au sh None (ap_sso t) = Inr actor"
    using ok route_refuses [of x now au sh None "ap_sso t"]
    by (cases "org_route x now au sh None (ap_sso t)") (auto simp: void_route_def)
  obtain v where v: "tget (invites (ap_sso t)) code = Some v"
    using ok route by (cases "tget (invites (ap_sso t)) code") (auto simp: void_route_def upper_code [OF shape] shape refuse_def Let_def)
  have can: "can_void (actor_ctx (core (ap_sso t)) actor) t code v" using void_answer [OF route shape v] ok by simp
  have "\<exists>own. ap_sso (snd (void_route x now au sh code t)) = audit_act (actor_ctx (core (ap_sso t)) actor) None ''invite.void''
        [(''code'', JStr code), (''own'', JBool own)] (void_invite now code (iv_pending_email v) (ap_sso t))"
    using can by (auto simp: void_route_def route v upper_code [OF shape] shape Let_def can_void_def)
  then obtain own where r: "ap_sso (snd (void_route x now au sh code t)) = audit_act (actor_ctx (core (ap_sso t)) actor) None ''invite.void''
        [(''code'', JStr code), (''own'', JBool own)] (void_invite now code (iv_pending_email v) (ap_sso t))" ..
  have "unspent v" using can by (simp add: can_void_def unspent_def)
  then have "tget (invites (void_invite now code p (ap_sso t))) code = Some (v\<lparr>iv_voided_at := Some now,
      iv_clear_at := Some (now + 24 * 60 * 60 * 1000), iv_pending_email := None, iv_pending_at := None\<rparr>)" for p
    using v by (auto simp: void_invite_def update_invite_def drop_pending_def tbl_simps Let_def split: option.splits)
  then show ?thesis unfolding r by (simp add: get_live_invite_def live_invite_def audit_act_def)
qed

text \<open>C18. The list of invitations offers to void exactly the codes that the request to void accepts from the same
  caller, whether they are its own or somebody's below, and a code once voided is never live again.\<close>

theorem void_offered_iff_accepted:
  assumes "list_invites x now au sh q t = Inr (n, us)" and "u \<in> set us" and "pk (invites (ap_sso t))"
    and "\<forall>c \<in> set (tkeys (invites (ap_sso t))). code_shape c"
  shows "li_can_void u = (fst (void_route x now au sh (li_code u) t) = NoContent)
    \<and> (li_can_void u \<longrightarrow> (\<forall>later. get_live_invite later (li_code u) (ap_sso (snd (void_route x now au sh (li_code u) t))) = None))"
proof -
  from assms(1) obtain actor where route: "org_route x now au sh (Some ''org.invites.view'') (ap_sso t) = Inr actor"
    by (auto simp: list_invites_def res_simps)
  let ?a = "actor_ctx (core (ap_sso t)) actor"
  have "set us \<subseteq> listed_invite_of ?a t ` set (reachable_invites ?a t)"
    using assms(1) route by (auto simp: list_invites_def Let_def dest!: in_set_takeD in_set_dropD)
  then obtain code v where u: "u = listed_invite_of ?a t (code, v)" and m: "(code, v) \<in> set (invites (ap_sso t))"
    using assms(2) by (auto simp: reachable_invites_def)
  have shape: "code_shape code" using assms(4) m by (force simp: tkeys_def)
  have get: "tget (invites (ap_sso t)) code = Some v" using m assms(3) by (simp add: tget_in_set [THEN iffD2])
  have uc: "li_code u = code" "li_can_void u = can_void ?a t code v" by (simp_all add: u listed_invite_of_def)
  show ?thesis using void_answer [OF route_without_key [OF route] shape get] void_kills [OF _ shape]
    by (simp add: uc)
qed

definition demo_codes :: account_api where
  "demo_codes = demo_people\<lparr>ap_sso := (ap_sso demo_people)\<lparr>core := (core (ap_sso demo_people))\<lparr>
       role_permissions := [((''admin'', ''org.invites.view''), Grant)]\<rparr>,
       invites := [(''ABCDEFGH0001'', new_invite 0 72 ''standard_user''), (''ABCDEFGH0002'', new_invite 0 72 ''standard_user'')]\<rparr>,
     invite_origins := [(''ABCDEFGH0001'', \<lparr>io_by = Some demo_admin, io_label = ''Alice'', io_created_at = 0\<rparr>),
       (''ABCDEFGH0002'', \<lparr>io_by = Some demo_user, io_label = ''Bob'', io_created_at = 0\<rparr>)]\<rparr>"

theorem void_offered_iff_accepted_witness:
  "\<exists>us. list_invites demo_x 9000 (Some (''Bearer '' @ demo_admin)) None [(''limit'', JStr ''5'')] demo_codes = Inr (2, us)
    \<and> map li_code us = [''ABCDEFGH0001'', ''ABCDEFGH0002''] \<and> map li_can_void us = [True, False]
    \<and> (\<forall>u \<in> set us. li_can_void u
        = (fst (void_route demo_x 9000 (Some (''Bearer '' @ demo_admin)) None (li_code u) demo_codes) = NoContent))"
proof -
  have pk: "pk (invites (ap_sso demo_codes))" by code_simp
  have shape: "list_all code_shape (tkeys (invites (ap_sso demo_codes)))" by code_simp
  have route: "org_route demo_x 9000 (Some (''Bearer '' @ demo_admin)) None (Some ''org.invites.view'') (ap_sso demo_codes) = Inr demo_admin"
    by code_simp
  define L where "L = list_invites demo_x 9000 (Some (''Bearer '' @ demo_admin)) None [(''limit'', JStr ''5'')] demo_codes"
  have "(case L of Inl _ \<Rightarrow> False | Inr (n, us) \<Rightarrow> n = 2 \<and> map li_code us = [''ABCDEFGH0001'', ''ABCDEFGH0002'']
      \<and> map li_can_void us = [True, False])"
    unfolding L_def list_invites_def route rbind_Inr by code_simp
  then obtain us where l: "L = Inr (2, us)" "map li_code us = [''ABCDEFGH0001'', ''ABCDEFGH0002'']" "map li_can_void us = [True, False]"
    by (cases L) auto
  have "\<forall>c \<in> set (tkeys (invites (ap_sso demo_codes))). code_shape c" using shape by (simp only: list_all_iff)
  from void_offered_iff_accepted [OF l(1) [unfolded L_def] _ pk this]
  have agree: "\<forall>u \<in> set us. li_can_void u
      = (fst (void_route demo_x 9000 (Some (''Bearer '' @ demo_admin)) None (li_code u) demo_codes) = NoContent)"
    by blast
  show ?thesis by (intro exI [of _ us] conjI) (rule l(1) [unfolded L_def], rule l(2), rule l(3), rule agree)
qed

section \<open>Creating\<close>

text \<open>A generated code has the shape the table demands.\<close>

lemma generated_shape: "length bytes = 12 \<Longrightarrow> code_shape (generate_invite_code bytes)"
proof -
  have "list_all (\<lambda>ch. is_upper ch \<or> is_digit ch) CODE_CHARSET" by code_simp
  moreover have "0 < length CODE_CHARSET" by (simp add: CODE_CHARSET_def)
  ultimately have "is_upper (CODE_CHARSET ! (b mod length CODE_CHARSET)) \<or> is_digit (CODE_CHARSET ! (b mod length CODE_CHARSET))" for b
    by (simp add: list_all_length)
  then show "length bytes = 12 \<Longrightarrow> code_shape (generate_invite_code bytes)"
    by (simp add: code_shape_def generate_invite_code_def list_all_iff)
qed

text \<open>A code that is created invites into a role strictly below its creator's, under a code nobody has.\<close>

lemma fresh_code_new: "fresh_code code n s = (Some c, s') \<Longrightarrow> tget (invites s) c = None \<and> invites s' = invites s \<and> core s' = core s"
proof (induction n arbitrary: s)
  case 0
  then show ?case by simp
next
  case (Suc n)
  show ?case
  proof (cases "tget (invites s) (code (draws s)) = None")
    case True
    then show ?thesis using Suc.prems by (auto simp: Let_def)
  next
    case False
    then have "fresh_code code n (s\<lparr>draws := Suc (draws s)\<rparr>) = (Some c, s')" using False Suc.prems by (auto simp: Let_def)
    from Suc.IH [OF this] show ?thesis by simp
  qed
qed

lemma created_invites_are_below:
  assumes "create_invite x bytes now au sh b t = (Answer ms, t')"
  shows "\<exists>actor c r. scoped_sub x au = Inr actor \<and> tget (invites (ap_sso t)) c = None
    \<and> tget (org_roles (core (ap_sso t))) (qstr (jmember b ''role_slug'')) = Some r
    \<and> role_level_of (user_role_row (core (ap_sso t)) actor) < or_level r
    \<and> map_option iv_role (tget (invites (ap_sso t')) c) = Some (Some (qstr (jmember b ''role_slug'')))
    \<and> creator_of t' c = Some actor"
proof -
  obtain actor where route: "org_route x now au sh (Some ''org.invites.create'') (ap_sso t) = Inr actor"
    using assms route_refuses [of x now au sh "Some ''org.invites.create''" "ap_sso t"]
    by (cases "org_route x now au sh (Some ''org.invites.create'') (ap_sso t)") (auto simp: create_invite_def)
  obtain hours where hours: "invite_hours b = Some hours"
    using assms route by (cases "invite_hours b") (auto simp: create_invite_def Let_def)
  obtain r where r: "tget (org_roles (core (ap_sso t))) (qstr (jmember b ''role_slug'')) = Some r"
    using assms route hours by (cases "tget (org_roles (core (ap_sso t))) (qstr (jmember b ''role_slug''))") (auto simp: create_invite_def Let_def)
  have l: "\<not> or_level r \<le> oa_level (actor_ctx (core (ap_sso t)) actor)"
    using assms route hours r by (auto simp: create_invite_def Let_def split: if_splits)
  obtain c s where f: "fresh_code (\<lambda>n. generate_invite_code (bytes n)) 5 (ap_sso t) = (Some c, s)"
    using assms route hours r l by (cases "fresh_code (\<lambda>n. generate_invite_code (bytes n)) 5 (ap_sso t)"; cases "fst (fresh_code (\<lambda>n. generate_invite_code (bytes n)) 5 (ap_sso t))") (auto simp: create_invite_def Let_def refuse_def)
  have t': "t' = t\<lparr>ap_sso := audit_act (actor_ctx (core (ap_sso t)) actor) None ''invite.create''
                [(''code'', JStr c), (''role'', JStr (qstr (jmember b ''role_slug''))), (''hours'', JInt hours)]
                (s\<lparr>invites := tput c (new_invite now hours (qstr (jmember b ''role_slug''))) (invites s)\<rparr>),
              invite_origins := tput c \<lparr>io_by = Some (oa_sub (actor_ctx (core (ap_sso t)) actor)),
                io_label = oa_label (actor_ctx (core (ap_sso t)) actor), io_created_at = now\<rparr> (invite_origins t)\<rparr>"
    using assms route hours r l f by (simp add: create_invite_def Let_def)
  have "oa_sub (actor_ctx (core (ap_sso t)) actor) = actor" by (simp add: actor_ctx_def Let_def)
  then have "creator_of t' c = Some actor" by (simp add: t' creator_of_def tbl_simps)
  moreover have "map_option iv_role (tget (invites (ap_sso t')) c) = Some (Some (qstr (jmember b ''role_slug'')))"
    by (simp add: t' audit_act_def tbl_simps new_invite_def)
  ultimately show ?thesis using scoped_route(1) [OF route] r l fresh_code_new [OF f] by (auto simp: actor_level_row)
qed

end
