(* ===== verification/Spec2Isabelle.thy ===== *)
theory Spec2Isabelle
  imports RolesSyncProps FactorProps ChallengeProps StoreProps SignInProps RecoveryProps KeyRotationProps
    ClientKeyProps ClientRegistryProps MtlsProps AdminSettingsProps OrgRoles OrgLogProps OrgInviteProps
begin

text \<open>
  DreamSSO is an OpenID Connect provider with an organisation directory: it signs users in, hands
  codes and tokens to the applications registered with it (the relying parties), administers
  organisation and application roles, and tells the applications of every change by signed events
  that a transactional outbox delivers.  This development models its server (\<open>src/src\<close>, TypeScript)
  and proves what makes it safe to rely on.

  \<^bold>\<open>State.\<close>  \<open>Schema\<close> holds the tables of PostgreSQL that the roles and events use (\<open>db\<close>, from
  \<open>db/schema.sql\<close>); \<open>Accounts\<close> adds sessions, factors, invitations and the keys of Redis (\<open>sso\<close>) and the
  settings of \<open>settings.ts\<close>.  A table is an association list keyed as in the schema (\<open>Prelude\<close>, locale
  \<open>keyed_store\<close>), a family of Redis keys a table of values with deadlines (\<open>Store\<close>, locales
  \<open>expiring_store\<close> and \<open>one_time_store\<close>).  Rows are records with the columns the code reads or writes.

  \<^bold>\<open>Operations.\<close>  A function or handler of the source is a definition that takes the request, the time
  (milliseconds) and the state and returns the answer with the new state; what is thrown or answered as
  an error is a value (\<open>Inl\<close>, \<open>api\<close>, \<open>page\<close>).  One time is used for one request.  Random values are drawn
  from a sequence; cryptography, WebAuthn, mail and the decoding of URLs are the fields of \<open>externals\<close>,
  parameters of every definition that uses them.  Work the source does after it answered is done at once.

  \<^bold>\<open>Roles and events.\<close>
  \<^item> \<open>Rbac\<close> (\<open>rbac/catalog.ts\<close>, \<open>rbac/index.ts\<close>): the catalog, the resolution of levels and permissions.
  \<^item> \<open>AppRoles\<close> (\<open>rbac/appRoles.ts\<close>, \<open>backchannel/accessStateStore.ts\<close>): a user's role in an application
    and the one-statement snapshot; both resolutions agree.
  \<^item> \<open>Outbox\<close> (\<open>events/outboxStore.ts\<close>): enqueueing, leases, batches, delivery, back-off.  Several workers
    are a sequence of steps; an overtaken claim is fenced.
  \<^item> \<open>RoleChanges\<close> (\<open>rbac/roleChanges.ts\<close>): comparing the ledger of effective roles with the resolution,
    publishing what changed.
  \<^item> \<open>RoleAdmin\<close>, \<open>RoleAdminProps\<close> (\<open>rbac/roleAdministration.ts\<close>): all administrative operations; authority
    does not flow upwards, references and the ledger survive every history.
  \<^item> \<open>RolesSync\<close>, \<open>RolesSyncProps\<close> (\<open>backchannel/rolesSync.ts\<close>): the inbox for role catalogs; revisions
    never go back, redelivery changes nothing, removed roles never promote.

  \<^bold>\<open>Signing in.\<close>
  \<^item> \<open>Sessions\<close>, \<open>SessionProps\<close> (\<open>oidc/sessions.ts\<close>, \<open>stepupRules.ts\<close>, \<open>stepupPolicy.ts\<close>, the device, logout
    and activity routes, \<open>resourceAuth.ts\<close>, \<open>rbac/orgProof.ts\<close>): windows, step-up, ending sessions.
  \<^item> \<open>Factors\<close>, \<open>FactorProps\<close> (\<open>mfa.ts\<close>, \<open>emailOtp.ts\<close>, \<open>webauthn.ts\<close>): authenticators, emailed codes, passkeys.
  \<^item> \<open>Login\<close> (\<open>routes/authorize.ts\<close>, \<open>oidc/transactions.ts\<close>, \<open>codes.ts\<close>, \<open>identities.ts\<close>): from the
    authorization request to the code.  \<open>Token\<close> (\<open>routes/token.ts\<close>, \<open>oidc/tokens.ts\<close>,
    \<open>clientAssertion.ts\<close>): from the code to the tokens.
  \<^item> \<open>Ceremony\<close>: the send limiters (locale \<open>send_limiter\<close>, interpreted by both Lua scripts) and the login
    tickets; \<open>Recovery\<close> (\<open>passwordReset.ts\<close>, \<open>routes/reset.ts\<close>); \<open>Registration\<close> (\<open>registration.ts\<close>,
    \<open>routes/register.ts\<close>); \<open>EmailChange\<close> (\<open>emailChange.ts\<close>, \<open>routes/emailChangeRoutes.ts\<close>); \<open>SelfService\<close>
    (\<open>routes/stepup.ts\<close>, \<open>security.ts\<close>, \<open>account.ts\<close>); \<open>AdminDoor\<close> (\<open>adminReturnPath.ts\<close>, the guards of
    \<open>routes/admin.ts\<close>).
  \<^item> \<open>AuthTrace\<close>, \<open>AuthInvariant\<close>: every handler that can create a session, transaction, code or ticket is a
    step (\<open>web_step\<close>); \<open>served\<close> is the inductive set of histories, in which anything else that leaves those
    stores alone may happen between steps.  The invariant \<open>trusted\<close> is kept by every handler.
  \<^item> \<open>AuthProps\<close>, \<open>RedirectProps\<close>, \<open>ChallengeProps\<close>: what follows from it for sessions, codes, tokens and
    redirects, and the bound on guesses at a challenge.  \<open>SignInProps\<close>: an ordinary sign-in completes, and
    what a code is worth after a failed redemption.  \<open>RecoveryProps\<close>: what a reset leaves behind, that an
    invitation opens one account, the round trip of a change of address, the limit on reset messages.
  \<^item> \<open>StoreProps\<close>: a Redis that evicts expired entries at times of its own answers like the model's store,
    which keeps them for ever.

  \<^bold>\<open>Keys.\<close>
  \<^item> \<open>KeyRotation\<close>, \<open>KeyRotationProps\<close> (\<open>signingKeyRotation.ts\<close>, \<open>keys.ts\<close>, \<open>routes/jwks.ts\<close>,
    \<open>clientKeyStatus.ts\<close>): the provider's signing keys.  A world is the key table and the key-set cache of
    every process; tokens verify while they live and a rotation completes, for every interleaving.
  \<^item> \<open>ClientKeys\<close>, \<open>ClientKeyProps\<close> (\<open>clientJwksTransport.ts\<close>, \<open>clientKeys.ts\<close>): the download of a client's keys
    as a machine over the events of the network, and the resolver that caches what it brings.
  \<^item> \<open>Mtls\<close>, \<open>MtlsProps\<close> (\<open>mtls.ts\<close>, \<open>s2sFetch.ts\<close>): the client certificate of outgoing calls; a call only
    ever presents a certificate that belongs to the key presented with it.

  \<^bold>\<open>The console.\<close>
  \<^item> \<open>ClientRegistry\<close>, \<open>ClientRegistryProps\<close> (\<open>clientNormalize.ts\<close>, the client routes of \<open>routes/admin.ts\<close>): the
    form, its normalisation and the table of clients; well-formed clients stay well formed, other edits
    keep the addresses, a deleted client leaves nothing.
  \<^item> \<open>AdminSettings\<close>, \<open>AdminSettingsProps\<close> (the rest of \<open>routes/admin.ts\<close>): keys, settings, gate key, test
    message; the stored session windows are the ones in force, the step-up door is passable.

  \<^bold>\<open>The organisation API.\<close>  Its state is \<open>account_api\<close>: \<open>sso\<close>, the picture files and the one-time proofs.
  \<^item> \<open>Avatars\<close> (\<open>avatars.ts\<close>, \<open>routes/avatar.ts\<close>), \<open>OrgUsers\<close>, \<open>OrgControl\<close>, \<open>OrgRoles\<close>, \<open>OrgInvites\<close>, \<open>OrgLogs\<close>
    (\<open>routes/org.ts\<close>): the pictures, the accounts, the control over one account, the roles and applications,
    the invitations and the audit log, each route behind its guards.
  \<^item> \<open>OrgControlProps\<close>: power flows downward, proofs are earned and spent once.  \<open>OrgUserProps\<close>: accounts stay
    distinct, the list marks what the routes open, files and pointers agree.  \<open>OrgInviteProps\<close>: what can be
    voided, and that codes invite below their creator.  \<open>OrgLogProps\<close>: following the cursors shows the whole log.

  \<^bold>\<open>Loops and bounds.\<close>  Every loop of the modelled code is structural recursion over a list, or bounded by
  the source itself (eight deliveries in a pass, 35 revisions, five draws of a code).  \<open>walk_logs\<close>, a client that
  follows cursors, has fuel: one request more than there are rows is enough (\<open>log_walk_is_complete\<close>).

  \<^bold>\<open>Not modelled.\<close>  Characters above 255 (JavaScript strings are lists of units below 256); the level of
  isolation of transactions (a transaction is one step; where the source takes a lock it is taken as
  given, where it does not the model shows the sequential behaviour); markup and response headers; the
  event pump's timers, the setup wizard, process start and stop, and the browser applications.
\<close>

end
